(* ===== verification/Prelude.thy ===== *)
theory Prelude
  imports Complex_Main "HOL-Library.Char_ord" "HOL-Library.List_Lexorder"
begin

section \<open>Shared vocabulary: exceptions, Python strings and containers, JSON values\<close>

text \<open>
  What every component of the model uses: the exceptions the Python code raises, the result type
  of a call that may raise, the string methods the code calls, order preserving removal of
  duplicates (\<^verbatim>\<open>list(dict.fromkeys(xs))\<close>), counters, and the JSON shaped values that the code
  stores in payload columns. Strings are lists of ASCII characters.
\<close>

named_theorems res_simps \<open>evaluation of calls that may raise\<close>
named_theorems str_simps \<open>definitions of the string methods\<close>

subsection \<open>Exceptions as values\<close>

text \<open>
  One constructor per exception class the modelled code raises or catches; the argument is the
  message where the code gives one. \<open>InvalidOperation\<close> is the signal of the \<^verbatim>\<open>decimal\<close> module.
\<close>

datatype (plugins only: code size) exn =
    ValueError string
  | IndexError
  | KeyError string
  | TypeError
  | InvalidOperation
  | ValidationError
  | IntegrityError
  | PaperConfigError string
  | PaperDisabledError string
  | PaperModeDisabledError string
  | LiveModeNotImplementedError string
  | DuplicatePaperTradeError string
  | WatchlistError string
  | MarketDataDisabledError string
  | InstrumentSyncDisabledError string
  | MarketDataSessionError string
  | MarketDataStreamError string
  | ScannerDisabledError string
  | ScannerConfigError string
  | ScannerInputError string
  | ScannerAutoLoopDisabledError string
  | ScannerAutoLoopRunningError string
  | ScannerAutoLoopBusyError string
  | SelectedUniverseMissingError string
  | UniverseInputError string
  | UniverseSelectionDisabledError string
  | DecisionDisabledError string
  | DecisionSignalNotFoundError string
  | DecisionSignalIneligibleError string
  | DecisionConfigError string
  | DecisionAdapterError string
  | KiteAuthDisabledError string
  | KiteConfigError string
  | KiteStateError string
  | KiteSessionError string
  | MarketOpsAutomationDisabledError string
  | MarketOpsJobBusyError string
  | OtherError string

type_synonym 'a res = "exn + 'a"

text \<open>Sequencing: the first exception ends the block, as an uncaught \<^verbatim>\<open>raise\<close> does.\<close>

definition bindE :: "'a res \<Rightarrow> ('a \<Rightarrow> 'b res) \<Rightarrow> 'b res" where
  "bindE m f = (case m of Inl e \<Rightarrow> Inl e | Inr x \<Rightarrow> f x)"

lemma bindE_Inl [simp, res_simps]: "bindE (Inl e) f = Inl e"
  by (simp add: bindE_def)

lemma bindE_Inr [simp, res_simps]: "bindE (Inr x) f = f x"
  by (simp add: bindE_def)

lemma bindE_eq_Inr: "bindE m f = Inr y \<longleftrightarrow> (\<exists>x. m = Inr x \<and> f x = Inr y)"
  by (cases m) auto

lemma bindE_eq_Inl: "bindE m f = Inl e \<longleftrightarrow> m = Inl e \<or> (\<exists>x. m = Inr x \<and> f x = Inl e)"
  by (cases m) auto

lemma bindE_assoc: "bindE (bindE m f) g = bindE m (\<lambda>x. bindE (f x) g)"
  by (cases m) auto

text \<open>A list comprehension whose body may raise.\<close>

fun mapE :: "('a \<Rightarrow> 'b res) \<Rightarrow> 'a list \<Rightarrow> 'b list res" where
  "mapE f [] = Inr []"
| "mapE f (x # xs) = bindE (f x) (\<lambda>y. bindE (mapE f xs) (\<lambda>ys. Inr (y # ys)))"

lemma mapE_Inr_iff: "mapE f xs = Inr ys \<longleftrightarrow> list_all2 (\<lambda>x y. f x = Inr y) xs ys"
proof (induction xs arbitrary: ys)
  case Nil
  then show ?case by auto
next
  case (Cons x xs)
  then show ?case by (cases ys) (auto simp: bindE_eq_Inr)
qed

lemma mapE_length: "mapE f xs = Inr ys \<Longrightarrow> length ys = length xs"
  by (auto simp: mapE_Inr_iff dest: list_all2_lengthD)

subsection \<open>Order preserving removal of duplicates\<close>

text \<open>
  \<^verbatim>\<open>list(dict.fromkeys(values))\<close>: a dictionary keeps the position of the first insertion.
\<close>

fun uniq_from :: "'a list \<Rightarrow> 'a list \<Rightarrow> 'a list" where
  "uniq_from seen [] = []"
| "uniq_from seen (x # xs) =
     (if x \<in> set seen then uniq_from seen xs else x # uniq_from (x # seen) xs)"

definition uniq :: "'a list \<Rightarrow> 'a list" where
  "uniq xs = uniq_from [] xs"

lemma set_uniq_from: "set (uniq_from seen xs) = set xs - set seen"
  by (induction seen xs rule: uniq_from.induct) auto

lemma distinct_uniq_from: "distinct (uniq_from seen xs)"
  by (induction seen xs rule: uniq_from.induct) (auto simp: set_uniq_from)

lemma set_uniq [simp]: "set (uniq xs) = set xs"
  by (simp add: uniq_def set_uniq_from)

lemma distinct_uniq [simp]: "distinct (uniq xs)"
  by (simp add: uniq_def distinct_uniq_from)

lemma uniq_eq_Nil [simp]: "uniq xs = [] \<longleftrightarrow> xs = []"
  by (metis set_empty set_uniq)

lemma uniq_Nil [simp]: "uniq [] = []"
  by (simp add: uniq_def)

lemma uniq_from_id: "distinct xs \<Longrightarrow> set xs \<inter> set seen = {} \<Longrightarrow> uniq_from seen xs = xs"
  by (induction seen xs rule: uniq_from.induct) auto

lemma uniq_id: "distinct xs \<Longrightarrow> uniq xs = xs"
  by (simp add: uniq_def uniq_from_id)

lemma uniq_idem [simp]: "uniq (uniq xs) = uniq xs"
  by (simp add: uniq_id)

subsection \<open>Searching a list\<close>

text \<open>\<^verbatim>\<open>next((x for x in xs if p(x)), None)\<close> is the library's \<open>find\<close>.\<close>

lemma find_Some_split:
  "find P xs = Some x \<longleftrightarrow>
     (\<exists>us vs. xs = us @ x # vs \<and> P x \<and> (\<forall>u \<in> set us. \<not> P u))"
proof (induction xs)
  case Nil
  then show ?case by simp
next
  case (Cons a xs)
  show ?case
  proof (cases "P a")
    case True
    show ?thesis
    proof
      assume "find P (a # xs) = Some x"
      with True have "a # xs = [] @ x # xs \<and> P x \<and> (\<forall>u \<in> set []. \<not> P u)" by simp
      then show "\<exists>us vs. a # xs = us @ x # vs \<and> P x \<and> (\<forall>u \<in> set us. \<not> P u)" by blast
    next
      assume "\<exists>us vs. a # xs = us @ x # vs \<and> P x \<and> (\<forall>u \<in> set us. \<not> P u)"
      with True show "find P (a # xs) = Some x" by (auto simp: Cons_eq_append_conv)
    qed
  next
    case False
    have "(\<exists>us vs. a # xs = us @ x # vs \<and> P x \<and> (\<forall>u \<in> set us. \<not> P u)) \<longleftrightarrow>
          (\<exists>us vs. xs = us @ x # vs \<and> P x \<and> (\<forall>u \<in> set us. \<not> P u))"
    proof
      assume "\<exists>us vs. a # xs = us @ x # vs \<and> P x \<and> (\<forall>u \<in> set us. \<not> P u)"
      with False show "\<exists>us vs. xs = us @ x # vs \<and> P x \<and> (\<forall>u \<in> set us. \<not> P u)"
        by (auto simp: Cons_eq_append_conv)
    next
      assume "\<exists>us vs. xs = us @ x # vs \<and> P x \<and> (\<forall>u \<in> set us. \<not> P u)"
      then obtain us vs where "xs = us @ x # vs" "P x" "\<forall>u \<in> set us. \<not> P u" by blast
      with False have "a # xs = (a # us) @ x # vs \<and> P x \<and> (\<forall>u \<in> set (a # us). \<not> P u)" by simp
      then show "\<exists>us vs. a # xs = us @ x # vs \<and> P x \<and> (\<forall>u \<in> set us. \<not> P u)" by blast
    qed
    with False Cons.IH show ?thesis by simp
  qed
qed

lemma find_Some_D: "find P xs = Some x \<Longrightarrow> x \<in> set xs \<and> P x"
  by (auto simp: find_Some_split)

lemma find_None_D: "find P xs = None \<Longrightarrow> x \<in> set xs \<Longrightarrow> \<not> P x"
  by (simp add: find_None_iff)

lemma take_subset_set: "x \<in> set (take n xs) \<Longrightarrow> x \<in> set xs"
  by (meson in_set_takeD)

lemma last_sorted_max:
  "sorted (map f xs) \<Longrightarrow> x \<in> set xs \<Longrightarrow> f x \<le> f (last xs)" for f :: "'a \<Rightarrow> 'b::linorder"
  by (induction xs) (auto split: if_splits)

lemma sort_key_snoc_min:
  "\<forall>y \<in> set xs. f x < f y \<Longrightarrow> sort_key f (xs @ [x]) = x # sort_key f xs"
  by (induction xs) (auto simp: not_le)

subsection \<open>Python slices\<close>

text \<open>
  \<^verbatim>\<open>xs[-n:]\<close> for an integer \<open>n\<close>: the last \<open>n\<close> elements when \<open>0 < n\<close>, the whole list
  for \<open>n = 0\<close> (\<open>-0\<close> is \<open>0\<close>), and the list without its first \<open>-n\<close> elements
  when \<open>n < 0\<close>. \<^verbatim>\<open>xs[:n]\<close> with a negative \<open>n\<close> drops the last \<open>-n\<close>.
\<close>

definition slice_last :: "int \<Rightarrow> 'a list \<Rightarrow> 'a list" where
  "slice_last n xs =
     (if 0 < n then drop (length xs - nat n) xs
      else if n = 0 then xs
      else drop (nat (- n)) xs)"

definition slice_first :: "int \<Rightarrow> 'a list \<Rightarrow> 'a list" where
  "slice_first n xs =
     (if 0 \<le> n then take (nat n) xs else take (length xs - nat (- n)) xs)"

lemma slice_last_length: "0 < n \<Longrightarrow> length (slice_last n xs) = min (nat n) (length xs)"
  by (simp add: slice_last_def)

lemma slice_first_length: "0 \<le> n \<Longrightarrow> length (slice_first n xs) = min (nat n) (length xs)"
  by (simp add: slice_first_def)

lemma set_slice_first: "set (slice_first n xs) \<subseteq> set xs"
  by (auto simp: slice_first_def dest: in_set_takeD)

lemma set_slice_last: "set (slice_last n xs) \<subseteq> set xs"
  by (auto simp: slice_last_def dest: in_set_dropD)

end
