(* ===== verification/PyDecimal.thy ===== *)
theory PyDecimal
  imports Prelude
begin

section \<open>The Decimal arithmetic of Python's default context\<close>

text \<open>
  A finite \<^verbatim>\<open>Decimal\<close> is modelled by its numeric value, a rational. Addition, subtraction,
  multiplication and division compute the exact result and round it to the 28 significant digits of
  the default context, ties to even (\<open>dfix\<close>). \<^verbatim>\<open>quantize\<close> rounds to a fixed number of places
  and signals \<^verbatim>\<open>InvalidOperation\<close> when the result needs more than 28 digits. Comparisons are
  exact. Not modelled: NaN and infinities, the sign of zero, and the exponent limits of the context.
  Division is only used where the divisor is known not to be zero.
\<close>

type_synonym dec = rat

subsection \<open>Rounding\<close>

text \<open>\<^verbatim>\<open>ROUND_HALF_EVEN\<close> and \<^verbatim>\<open>ROUND_HALF_UP\<close> (ties away from zero).\<close>

definition round_half_even :: "rat \<Rightarrow> int" where
  "round_half_even q =
     (let f = \<lfloor>q\<rfloor>; r = q - of_int f
      in if r < 1 / 2 then f else if r > 1 / 2 then f + 1 else if even f then f else f + 1)"

definition round_half_up :: "rat \<Rightarrow> int" where
  "round_half_up q = (if 0 \<le> q then \<lfloor>q + 1 / 2\<rfloor> else - \<lfloor>- q + 1 / 2\<rfloor>)"

text \<open>Number of decimal digits of a positive integer.\<close>

function ndigits :: "int \<Rightarrow> nat" where
  "ndigits n = (if n < 10 then 1 else Suc (ndigits (n div 10)))"
  by pat_completeness auto
termination
  by (relation "measure nat") auto

declare ndigits.simps [simp del]

text \<open>
  The exponent \<open>e\<close> with \<open>10 ^ (e + 27) \<le> \<bar>q\<bar> < 10 ^ (e + 28)\<close>, found from the number of digits of
  numerator and denominator with one correction.
\<close>

definition dec_exp :: "rat \<Rightarrow> int" where
  "dec_exp q =
     (let (n, d) = quotient_of \<bar>q\<bar>; e = int (ndigits n) - int (ndigits d) - 28
      in if 10 powi (e + 28) \<le> \<bar>q\<bar> then e + 1 else e)"

definition dfix :: "rat \<Rightarrow> dec" where
  "dfix q =
     (if q = 0 then 0
      else let e = dec_exp q in of_int (round_half_even (q / 10 powi e)) * 10 powi e)"

subsection \<open>Operations\<close>

definition dadd :: "dec \<Rightarrow> dec \<Rightarrow> dec" where
  "dadd a b = dfix (a + b)"

definition dsub :: "dec \<Rightarrow> dec \<Rightarrow> dec" where
  "dsub a b = dfix (a - b)"

definition dmul :: "dec \<Rightarrow> dec \<Rightarrow> dec" where
  "dmul a b = dfix (a * b)"

definition ddiv :: "dec \<Rightarrow> dec \<Rightarrow> dec" where
  "ddiv a b = dfix (a / b)"

text \<open>Unary minus and \<^verbatim>\<open>abs\<close> round to the context as well.\<close>

definition dneg :: "dec \<Rightarrow> dec" where
  "dneg a = dfix (- a)"

definition dabs :: "dec \<Rightarrow> dec" where
  "dabs a = dfix \<bar>a\<bar>"

text \<open>\<^verbatim>\<open>sum(values, start)\<close>: a left fold of additions.\<close>

definition dsum :: "dec list \<Rightarrow> dec" where
  "dsum xs = foldl dadd 0 xs"

text \<open>\<^verbatim>\<open>value.quantize(Decimal(10 ** -places), rounding=ROUND_HALF_UP)\<close>, and with the default
  \<^verbatim>\<open>ROUND_HALF_EVEN\<close>.\<close>

definition quantize_up :: "nat \<Rightarrow> dec \<Rightarrow> dec res" where
  "quantize_up places q =
     (let c = round_half_up (q * 10 ^ places)
      in if \<bar>c\<bar> < 10 ^ 28 then Inr (of_int c / 10 ^ places) else Inl InvalidOperation)"

definition quantize_even :: "nat \<Rightarrow> dec \<Rightarrow> dec res" where
  "quantize_even places q =
     (let c = round_half_even (q * 10 ^ places)
      in if \<bar>c\<bar> < 10 ^ 28 then Inr (of_int c / 10 ^ places) else Inl InvalidOperation)"

subsection \<open>Rounding to an integer\<close>

lemma round_half_even_of_int [simp]: "round_half_even (of_int n) = n"
  by (simp add: round_half_even_def)

lemma round_half_even_close: "\<bar>of_int (round_half_even q) - q\<bar> \<le> 1 / 2"
proof -
  have "of_int \<lfloor>q\<rfloor> \<le> q" "q < of_int \<lfloor>q\<rfloor> + 1" by linarith+
  then show ?thesis by (simp add: round_half_even_def Let_def abs_le_iff)
qed

lemma round_half_even_mono: "p \<le> q \<Longrightarrow> round_half_even p \<le> round_half_even q"
proof -
  assume le: "p \<le> q"
  show ?thesis
  proof (cases "\<lfloor>p\<rfloor> = \<lfloor>q\<rfloor>")
    case True
    with le show ?thesis by (auto simp: round_half_even_def Let_def)
  next
    case False
    with le have "\<lfloor>p\<rfloor> + 1 \<le> \<lfloor>q\<rfloor>" using floor_mono [OF le] by simp
    moreover have "round_half_even p \<le> \<lfloor>p\<rfloor> + 1" "\<lfloor>q\<rfloor> \<le> round_half_even q"
      by (auto simp: round_half_even_def Let_def)
    ultimately show ?thesis by linarith
  qed
qed

lemma round_half_even_minus: "round_half_even (- q) = - round_half_even q"
proof (cases "q = of_int \<lfloor>q\<rfloor>")
  case True
  then show ?thesis
    by (metis of_int_minus round_half_even_of_int)
next
  case False
  then have f: "\<lfloor>- q\<rfloor> = - \<lfloor>q\<rfloor> - 1"
    by (metis ceiling_def ceiling_diff_floor_le_1 ceiling_altdef diff_minus_eq_add
        minus_add_distrib minus_minus uminus_add_conv_diff)
  show ?thesis by (auto simp: round_half_even_def Let_def f)
qed

lemma round_half_up_of_int [simp]: "round_half_up (of_int n) = n"
proof -
  have "\<lfloor>of_int n + 1 / 2 :: rat\<rfloor> = n" "\<lfloor>- of_int n + 1 / 2 :: rat\<rfloor> = - n" by linarith+
  then show ?thesis by (simp add: round_half_up_def)
qed

lemma round_half_up_mono: "p \<le> q \<Longrightarrow> round_half_up p \<le> round_half_up q"
proof -
  assume le: "p \<le> q"
  consider "0 \<le> p" | "p < 0" "0 \<le> q" | "q < 0" using le by linarith
  then show ?thesis
  proof cases
    case 1
    with le show ?thesis by (simp add: round_half_up_def floor_mono)
  next
    case 2
    then have "0 \<le> \<lfloor>- p + 1 / 2\<rfloor>" "0 \<le> \<lfloor>q + 1 / 2\<rfloor>" by linarith+
    moreover have "round_half_up p = - \<lfloor>- p + 1 / 2\<rfloor>" "round_half_up q = \<lfloor>q + 1 / 2\<rfloor>"
      using 2 by (simp_all add: round_half_up_def)
    ultimately show ?thesis by linarith
  next
    case 3
    with le show ?thesis by (simp add: round_half_up_def floor_mono)
  qed
qed

lemma round_half_up_close: "\<bar>of_int (round_half_up q) - q\<bar> \<le> 1 / 2"
proof (cases "0 \<le> q")
  case True
  have "of_int \<lfloor>q + 1 / 2\<rfloor> \<le> q + 1 / 2" "q + 1 / 2 < of_int \<lfloor>q + 1 / 2\<rfloor> + 1" by linarith+
  moreover have "round_half_up q = \<lfloor>q + 1 / 2\<rfloor>" using True by (simp add: round_half_up_def)
  ultimately show ?thesis unfolding abs_le_iff by linarith
next
  case False
  have "of_int \<lfloor>- q + 1 / 2\<rfloor> \<le> - q + 1 / 2" "- q + 1 / 2 < of_int \<lfloor>- q + 1 / 2\<rfloor> + 1" by linarith+
  moreover have "(of_int (round_half_up q) :: rat) = - of_int \<lfloor>- q + 1 / 2\<rfloor>"
    using False by (simp add: round_half_up_def)
  ultimately show ?thesis unfolding abs_le_iff by linarith
qed

subsection \<open>The exponent\<close>

lemma ndigits_pos [simp]: "0 < ndigits n"
  by (subst ndigits.simps) simp

lemma ndigits_bounds: "0 < n \<Longrightarrow> 10 ^ (ndigits n - 1) \<le> n \<and> n < 10 ^ ndigits n"
proof (induction n rule: ndigits.induct)
  case (1 n)
  show ?case
  proof (cases "n < 10")
    case True
    with 1(2) show ?thesis by (subst (1 2) ndigits.simps) simp
  next
    case False
    then have pos: "0 < n div 10" by simp
    with 1(1) False have IH: "10 ^ (ndigits (n div 10) - 1) \<le> n div 10" "n div 10 < 10 ^ ndigits (n div 10)"
      by auto
    have eq: "ndigits n = Suc (ndigits (n div 10))" using False by (simp add: ndigits.simps [of n])
    have "(10 :: int) ^ ndigits (n div 10) = 10 * 10 ^ (ndigits (n div 10) - 1)"
      using ndigits_pos [of "n div 10"] by (cases "ndigits (n div 10)") auto
    then have lo: "10 ^ ndigits (n div 10) \<le> n" using IH(1) by simp
    have "n < 10 * (n div 10 + 1)" by simp
    also have "\<dots> \<le> 10 * 10 ^ ndigits (n div 10)" using IH(2) by (intro mult_left_mono) auto
    finally have hi: "n < 10 * 10 ^ ndigits (n div 10)" .
    from lo hi show ?thesis by (simp add: eq)
  qed
qed

lemma powi_nat_bounds:
  assumes "0 < (n :: int)"
  shows "10 powi (int (ndigits n) - 1) \<le> (of_int n :: rat)"
    and "(of_int n :: rat) < 10 powi int (ndigits n)"
proof -
  from ndigits_bounds [OF assms] have b: "10 ^ (ndigits n - 1) \<le> n" "n < 10 ^ ndigits n"
    by auto
  have ten: "(10 :: rat) ^ k = of_int (10 ^ k)" for k by simp
  have "int (ndigits n) - 1 = int (ndigits n - 1)" using ndigits_pos [of n] by linarith
  then have "(10 :: rat) powi (int (ndigits n) - 1) = of_int (10 ^ (ndigits n - 1))"
    by (simp only: power_int_of_nat ten)
  also have "\<dots> \<le> of_int n" using b(1) of_int_le_iff by blast
  finally show "10 powi (int (ndigits n) - 1) \<le> (of_int n :: rat)" .
  have "(of_int n :: rat) < of_int (10 ^ ndigits n)" using b(2) of_int_less_iff by blast
  then show "(of_int n :: rat) < 10 powi int (ndigits n)" by (simp only: power_int_of_nat ten)
qed

lemma dec_exp_bounds:
  assumes "q \<noteq> 0"
  shows "10 powi (dec_exp q + 27) \<le> \<bar>q\<bar>" and "\<bar>q\<bar> < 10 powi (dec_exp q + 28)"
proof -
  obtain n d where nd: "quotient_of \<bar>q\<bar> = (n, d)" by (cases "quotient_of \<bar>q\<bar>")
  then have q: "\<bar>q\<bar> = of_int n / of_int d" and d: "0 < d"
    by (auto intro: quotient_of_div quotient_of_denom_pos)
  have "0 < (of_int n / of_int d :: rat)" using assms unfolding q [symmetric] by simp
  with d have n: "0 < n" by (simp add: zero_less_divide_iff)
  define e where "e = int (ndigits n) - int (ndigits d) - 28"
  have ten: "(0 :: rat) < 10 powi k" for k by simp
  have lo: "10 powi (e + 27) \<le> \<bar>q\<bar>"
  proof -
    have "e + 27 = int (ndigits n) - 1 - int (ndigits d)" by (simp add: e_def)
    then have "(10 :: rat) powi (e + 27) = 10 powi (int (ndigits n) - 1) / 10 powi int (ndigits d)"
      by (simp only: power_int_diff zero_neq_numeral [symmetric] not_False_eq_True simp_thms)
    also have "\<dots> \<le> of_int n / of_int d"
      using powi_nat_bounds [OF n] powi_nat_bounds [OF d] d n by (intro frac_le) auto
    finally show ?thesis using q by simp
  qed
  have hi: "\<bar>q\<bar> < 10 powi (e + 29)"
  proof -
    have "of_int n / of_int d < (10 powi int (ndigits n) / 10 powi (int (ndigits d) - 1) :: rat)"
      using powi_nat_bounds [OF n] powi_nat_bounds [OF d] d n by (intro frac_less) auto
    also have "\<dots> = 10 powi (e + 29)"
    proof -
      have "e + 29 = int (ndigits n) - (int (ndigits d) - 1)" by (simp add: e_def)
      then show ?thesis
        by (simp only: power_int_diff zero_neq_numeral [symmetric] not_False_eq_True simp_thms)
    qed
    finally show ?thesis using q by simp
  qed
  have de: "dec_exp q = (if 10 powi (e + 28) \<le> \<bar>q\<bar> then e + 1 else e)"
    by (simp add: dec_exp_def nd e_def Let_def)
  show "10 powi (dec_exp q + 27) \<le> \<bar>q\<bar>" using lo by (simp add: de add.assoc)
  show "\<bar>q\<bar> < 10 powi (dec_exp q + 28)" using hi by (simp add: de add.assoc)
qed

lemma powi_less_D: "(10 :: rat) powi a < 10 powi b \<Longrightarrow> a < b"
  using power_int_increasing [of b a "10 :: rat"] by (meson linorder_not_less one_le_numeral)

lemma dec_exp_le: "q \<noteq> 0 \<Longrightarrow> \<bar>q\<bar> < 10 powi k \<Longrightarrow> dec_exp q + 27 < k"
  using dec_exp_bounds(1) [of q] by (meson le_less_trans powi_less_D)

lemma dec_exp_ge: "q \<noteq> 0 \<Longrightarrow> 10 powi k \<le> \<bar>q\<bar> \<Longrightarrow> k < dec_exp q + 28"
  using dec_exp_bounds(2) [of q] by (meson le_less_trans powi_less_D)

lemma dec_exp_minus [simp]: "dec_exp (- q) = dec_exp q"
  by (simp add: dec_exp_def)

subsection \<open>Rounding to 28 digits\<close>

lemma dfix_0 [simp]: "dfix 0 = 0"
  by (simp add: dfix_def)

lemma dfix_minus: "dfix (- q) = - dfix q"
  by (simp add: dfix_def Let_def round_half_even_minus)

lemma powi_pos [simp]: "(0 :: rat) < 10 powi k"
  by simp

lemma powi_split: "(10 :: rat) powi (a + b) = 10 powi a * 10 powi b"
  by (simp only: power_int_add zero_neq_numeral [symmetric] not_False_eq_True simp_thms)

text \<open>The scaled value lies between \<open>10 ^ 27\<close> and \<open>10 ^ 28\<close>, and rounding keeps it there.\<close>

lemma scaled_bounds:
  assumes "0 < q"
  shows "10 ^ 27 \<le> q / 10 powi dec_exp q" and "q / 10 powi dec_exp q < 10 ^ 28"
proof -
  from assms have nz: "q \<noteq> 0" and a: "\<bar>q\<bar> = q" by simp_all
  have p: "(10 :: rat) powi 27 = 10 ^ 27" "(10 :: rat) powi 28 = 10 ^ 28" by simp_all
  from dec_exp_bounds [OF nz] show "10 ^ 27 \<le> q / 10 powi dec_exp q"
    unfolding a powi_split p by (simp add: pos_le_divide_eq mult.commute)
  from dec_exp_bounds [OF nz] show "q / 10 powi dec_exp q < 10 ^ 28"
    unfolding a powi_split p by (simp add: pos_divide_less_eq mult.commute)
qed

lemma coeff_bounds:
  assumes "0 < q"
  shows "10 ^ 27 \<le> round_half_even (q / 10 powi dec_exp q)"
    and "round_half_even (q / 10 powi dec_exp q) \<le> 10 ^ 28"
proof -
  have "round_half_even (of_int (10 ^ 27)) \<le> round_half_even (q / 10 powi dec_exp q)"
    using scaled_bounds(1) [OF assms] by (intro round_half_even_mono) simp
  then show "10 ^ 27 \<le> round_half_even (q / 10 powi dec_exp q)"
    by (simp only: round_half_even_of_int)
  have "round_half_even (q / 10 powi dec_exp q) \<le> round_half_even (of_int (10 ^ 28))"
    using scaled_bounds(2) [OF assms] by (intro round_half_even_mono) simp
  then show "round_half_even (q / 10 powi dec_exp q) \<le> 10 ^ 28"
    by (simp only: round_half_even_of_int)
qed

lemma dfix_bounds:
  assumes "0 < q"
  shows "10 powi (dec_exp q + 27) \<le> dfix q" and "dfix q \<le> 10 powi (dec_exp q + 28)"
proof -
  let ?c = "round_half_even (q / 10 powi dec_exp q)"
  have eq: "dfix q = of_int ?c * 10 powi dec_exp q" using assms by (simp add: dfix_def Let_def)
  have p: "(10 :: rat) powi 27 = of_int (10 ^ 27)" "(10 :: rat) powi 28 = of_int (10 ^ 28)" by simp_all
  have "(of_int (10 ^ 27) :: rat) \<le> of_int ?c" "(of_int ?c :: rat) \<le> of_int (10 ^ 28)"
    using coeff_bounds [OF assms] by (simp_all only: of_int_le_iff)
  then show "10 powi (dec_exp q + 27) \<le> dfix q" "dfix q \<le> 10 powi (dec_exp q + 28)"
    unfolding eq powi_split p
    by (simp_all only: mult.commute [of "10 powi dec_exp q"] mult_right_mono powi_pos less_imp_le)
qed

lemma dfix_pos: "0 < q \<Longrightarrow> 0 < dfix q"
  using dfix_bounds(1) [of q] powi_pos [of "dec_exp q + 27"] by linarith

lemma dfix_neg: "q < 0 \<Longrightarrow> dfix q < 0"
  using dfix_pos [of "- q"] by (simp add: dfix_minus)

lemma dfix_pos_iff [simp]: "0 < dfix q \<longleftrightarrow> 0 < q"
  using dfix_pos [of q] dfix_neg [of q] by (metis dfix_0 less_asym linorder_neqE_linordered_idom)

lemma dfix_neg_iff [simp]: "dfix q < 0 \<longleftrightarrow> q < 0"
  using dfix_pos [of q] dfix_neg [of q] by (metis dfix_0 less_asym linorder_neqE_linordered_idom)

lemma dfix_eq_0_iff [simp]: "dfix q = 0 \<longleftrightarrow> q = 0"
  using dfix_pos [of q] dfix_neg [of q] by (metis dfix_0 less_irrefl linorder_neqE_linordered_idom)

lemma dfix_nonneg_iff [simp]: "0 \<le> dfix q \<longleftrightarrow> 0 \<le> q"
  by (simp add: linorder_not_less [symmetric])

text \<open>Rounding is monotone.\<close>

lemma dfix_mono_pos:
  assumes "0 < p" "p \<le> q"
  shows "dfix p \<le> dfix q"
proof -
  from assms have q: "0 < q" by simp
  have "\<bar>p\<bar> < 10 powi (dec_exp q + 28)" using dec_exp_bounds(2) [of q] assms q by simp
  then have le: "dec_exp p \<le> dec_exp q" using dec_exp_le [of p] assms by fastforce
  show ?thesis
  proof (cases "dec_exp p = dec_exp q")
    case True
    have "p / 10 powi dec_exp q \<le> q / 10 powi dec_exp q" using assms by (simp add: divide_right_mono)
    then have "(of_int (round_half_even (p / 10 powi dec_exp q)) :: rat)
        \<le> of_int (round_half_even (q / 10 powi dec_exp q))"
      using round_half_even_mono of_int_le_iff by blast
    then have "of_int (round_half_even (p / 10 powi dec_exp q)) * 10 powi dec_exp q
        \<le> (of_int (round_half_even (q / 10 powi dec_exp q)) * 10 powi dec_exp q :: rat)"
      by (rule mult_right_mono) simp
    with True assms q show ?thesis by (simp add: dfix_def Let_def)
  next
    case False
    with le have "dec_exp p + 28 \<le> dec_exp q + 27" by simp
    then have "(10 :: rat) powi (dec_exp p + 28) \<le> 10 powi (dec_exp q + 27)"
      by (intro power_int_increasing) simp_all
    with dfix_bounds(2) [OF assms(1)] dfix_bounds(1) [OF q] show ?thesis by linarith
  qed
qed

lemma dfix_mono: "p \<le> q \<Longrightarrow> dfix p \<le> dfix q"
proof -
  assume le: "p \<le> q"
  consider "0 < p" | "p \<le> 0" "0 \<le> q" | "q < 0" using le by linarith
  then show ?thesis
  proof cases
    case 1
    with le show ?thesis by (rule dfix_mono_pos [rotated])
  next
    case 2
    then have "dfix p \<le> 0" "0 \<le> dfix q" by (simp_all add: linorder_not_less [symmetric])
    then show ?thesis by linarith
  next
    case 3
    with le have "0 < - q" "- q \<le> - p" by simp_all
    then have "dfix (- q) \<le> dfix (- p)" by (rule dfix_mono_pos)
    then show ?thesis by (simp add: dfix_minus)
  qed
qed

text \<open>A value with at most 28 digits is not changed.\<close>

definition dec28 :: "rat \<Rightarrow> bool" where
  "dec28 q \<longleftrightarrow> (\<exists>n k. q = of_int n / 10 ^ k \<and> \<bar>n\<bar> < 10 ^ 28)"

lemma dec28I: "\<bar>n\<bar> < 10 ^ 28 \<Longrightarrow> q = of_int n / 10 ^ k \<Longrightarrow> dec28 q"
  by (auto simp: dec28_def)

lemma dfix_exact:
  assumes "dec28 q"
  shows "dfix q = q"
proof (cases "q = 0")
  case False
  from assms obtain n k where q: "q = of_int n / 10 ^ k" and n: "\<bar>n\<bar> < 10 ^ 28"
    by (auto simp: dec28_def)
  have "\<bar>q\<bar> < 10 powi (28 - int k)"
  proof -
    have "(of_int \<bar>n\<bar> :: rat) < of_int (10 ^ 28)" using n by (simp only: of_int_less_iff)
    then have "\<bar>of_int n :: rat\<bar> / 10 ^ k < 10 ^ 28 / 10 ^ k"
      by (intro divide_strict_right_mono) simp_all
    moreover have "\<bar>q\<bar> = \<bar>of_int n :: rat\<bar> / 10 ^ k" by (simp add: q abs_divide)
    moreover have "(10 :: rat) powi (28 - int k) = 10 ^ 28 / 10 ^ k"
      by (simp only: power_int_diff zero_neq_numeral [symmetric] not_False_eq_True simp_thms
          power_int_of_nat power_int_numeral)
    ultimately show ?thesis by simp
  qed
  then have "dec_exp q + 27 < 28 - int k" by (rule dec_exp_le [OF False])
  then have "int (nat (- dec_exp q - int k)) = - dec_exp q - int k" by simp
  then obtain j where j: "- dec_exp q = int k + int j" by (metis diff_eq_eq add.commute)
  have div: "q / 10 powi dec_exp q = q * 10 powi (- dec_exp q)"
    by (simp add: power_int_minus divide_inverse)
  also have "\<dots> = q * (10 ^ k * 10 ^ j)"
    unfolding j powi_split power_int_of_nat by simp
  also have "\<dots> = of_int (n * 10 ^ j)" by (simp add: q)
  finally have c: "q / 10 powi dec_exp q = of_int (n * 10 ^ j)" .
  then have "round_half_even (q / 10 powi dec_exp q) = n * 10 ^ j"
    by (simp only: round_half_even_of_int)
  moreover have "of_int (n * 10 ^ j) * 10 powi dec_exp q = q"
    unfolding c [symmetric] by simp
  ultimately show ?thesis using False by (simp add: dfix_def Let_def)
qed simp

subsection \<open>Signs and order through the operations\<close>

named_theorems dec_simps \<open>sign of the result of a decimal operation\<close>

lemma dsub_pos [simp, dec_simps]: "0 < dsub a b \<longleftrightarrow> b < a"
  by (simp add: dsub_def)

lemma dsub_neg [simp, dec_simps]: "dsub a b < 0 \<longleftrightarrow> a < b"
  by (simp add: dsub_def)

lemma dsub_nonneg [simp, dec_simps]: "0 \<le> dsub a b \<longleftrightarrow> b \<le> a"
  by (simp add: dsub_def)

lemma dsub_self [simp, dec_simps]: "dsub a a = 0"
  by (simp add: dsub_def)

lemma dadd_nonneg [dec_simps]: "0 \<le> a \<Longrightarrow> 0 \<le> b \<Longrightarrow> 0 \<le> dadd a b"
  by (simp add: dadd_def)

lemma dmul_nonneg [dec_simps]: "0 \<le> a \<Longrightarrow> 0 \<le> b \<Longrightarrow> 0 \<le> dmul a b"
  by (simp add: dmul_def)

lemma dmul_pos [dec_simps]: "0 < a \<Longrightarrow> 0 < b \<Longrightarrow> 0 < dmul a b"
  by (simp add: dmul_def)

lemma dmul_neg [dec_simps]: "a < 0 \<Longrightarrow> 0 < b \<Longrightarrow> dmul a b < 0"
  by (simp add: dmul_def mult_neg_pos)

lemma ddiv_nonneg [dec_simps]: "0 \<le> a \<Longrightarrow> 0 < b \<Longrightarrow> 0 \<le> ddiv a b"
  by (simp add: ddiv_def)

lemma dmul_0 [simp, dec_simps]: "dmul 0 a = 0"
  by (simp add: dmul_def)

lemma dabs_nonneg [simp, dec_simps]: "0 \<le> dabs a"
  by (simp add: dabs_def)

lemma foldl_dadd_nonneg: "0 \<le> a \<Longrightarrow> \<forall>x \<in> set xs. 0 \<le> x \<Longrightarrow> 0 \<le> foldl dadd a xs"
  by (induction xs arbitrary: a) (auto simp: dadd_nonneg)

lemma dsum_nonneg: "\<forall>x \<in> set xs. 0 \<le> x \<Longrightarrow> 0 \<le> dsum xs"
  by (simp add: dsum_def foldl_dadd_nonneg)

lemma dsum_Nil [simp]: "dsum [] = 0"
  by (simp add: dsum_def)

subsection \<open>Quantizing\<close>

lemma quantize_up_Inr:
  "quantize_up p q = Inr r \<Longrightarrow> r = of_int (round_half_up (q * 10 ^ p)) / 10 ^ p \<and> dec28 r"
  by (auto simp: quantize_up_def Let_def dec28_def split: if_splits)

lemma quantize_up_mono:
  assumes "quantize_up p a = Inr r" "quantize_up p b = Inr s" "a \<le> b"
  shows "r \<le> s"
proof -
  have "a * 10 ^ p \<le> b * 10 ^ p" using assms(3) by (simp add: mult_right_mono)
  then have "(of_int (round_half_up (a * 10 ^ p)) :: rat) \<le> of_int (round_half_up (b * 10 ^ p))"
    using round_half_up_mono of_int_le_iff by blast
  then have "(of_int (round_half_up (a * 10 ^ p)) / 10 ^ p :: rat)
      \<le> of_int (round_half_up (b * 10 ^ p)) / 10 ^ p" by (rule divide_right_mono) simp
  with assms(1,2) show ?thesis using quantize_up_Inr by metis
qed

lemma quantize_up_int_bound:
  assumes "quantize_up p q = Inr r"
  shows "of_int n \<le> q \<Longrightarrow> of_int n \<le> r" and "q \<le> of_int n \<Longrightarrow> r \<le> of_int n"
proof -
  have r: "r = of_int (round_half_up (q * 10 ^ p)) / 10 ^ p"
    using quantize_up_Inr [OF assms] by simp
  have n: "(of_int n :: rat) * 10 ^ p = of_int (n * 10 ^ p)" by simp
  show "of_int n \<le> r" if "of_int n \<le> q"
  proof -
    have "round_half_up (of_int (n * 10 ^ p)) \<le> round_half_up (q * 10 ^ p)"
      unfolding n [symmetric] using that by (intro round_half_up_mono mult_right_mono) simp_all
    then have "n * 10 ^ p \<le> round_half_up (q * 10 ^ p)" by (simp only: round_half_up_of_int)
    then have "(of_int n :: rat) * 10 ^ p \<le> of_int (round_half_up (q * 10 ^ p))"
      unfolding n of_int_le_iff .
    then show ?thesis by (simp add: r pos_le_divide_eq)
  qed
  show "r \<le> of_int n" if "q \<le> of_int n"
  proof -
    have "round_half_up (q * 10 ^ p) \<le> round_half_up (of_int (n * 10 ^ p))"
      unfolding n [symmetric] using that by (intro round_half_up_mono mult_right_mono) simp_all
    then have "round_half_up (q * 10 ^ p) \<le> n * 10 ^ p" by (simp only: round_half_up_of_int)
    then have "(of_int (round_half_up (q * 10 ^ p)) :: rat) \<le> of_int n * 10 ^ p"
      unfolding n of_int_le_iff .
    then show ?thesis by (simp add: r pos_divide_le_eq)
  qed
qed

lemma quantize_up_nonneg: "quantize_up p q = Inr r \<Longrightarrow> 0 \<le> q \<Longrightarrow> 0 \<le> r"
  using quantize_up_int_bound(1) [of p q r 0] by simp

text \<open>A value on the grid is not changed; every value below \<open>10 ^ (27 - places)\<close> quantizes.\<close>

lemma quantize_up_grid:
  "\<bar>n\<bar> < 10 ^ 28 \<Longrightarrow> quantize_up p (of_int n / 10 ^ p) = Inr (of_int n / 10 ^ p)"
  by (simp add: quantize_up_def Let_def)

lemma quantize_up_defined:
  assumes "\<bar>q\<bar> * 10 ^ p < 10 ^ 27"
  shows "\<exists>r. quantize_up p q = Inr r"
proof -
  let ?c = "round_half_up (q * 10 ^ p)"
  have "\<bar>q * 10 ^ p\<bar> < 10 ^ 27" using assms by (simp add: abs_mult)
  moreover have "\<bar>of_int ?c - q * 10 ^ p\<bar> \<le> 1 / 2" by (rule round_half_up_close)
  ultimately have "\<bar>of_int ?c :: rat\<bar> < 10 ^ 27 + 1 / 2" by arith
  also have "\<dots> < 10 ^ 28" by simp
  finally have "\<bar>of_int ?c :: rat\<bar> < 10 ^ 28" .
  then have "(of_int \<bar>?c\<bar> :: rat) < of_int (10 ^ 28)" by simp
  then have "\<bar>?c\<bar> < 10 ^ 28" by (simp only: of_int_less_iff)
  then show ?thesis by (simp add: quantize_up_def Let_def)
qed

lemma quantize_error: "quantize_up p q = Inl e \<Longrightarrow> e = InvalidOperation"
  by (auto simp: quantize_up_def Let_def split: if_splits)

subsection \<open>Evaluating one operation\<close>

text \<open>
  Each rule turns a rounding into inequalities on numerals, which \<open>simp\<close> decides at once.
\<close>

lemma round_half_even_near:
  assumes "\<bar>q - of_int c\<bar> < 1 / 2"
  shows "round_half_even q = c"
proof -
  have "\<bar>of_int (round_half_even q) - (of_int c :: rat)\<bar> < 1"
    using round_half_even_close [of q] assms by linarith
  then have "\<bar>of_int (round_half_even q - c) :: rat\<bar> < of_int 1" by simp
  then have "\<bar>round_half_even q - c\<bar> < 1" by (simp only: of_int_abs [symmetric] of_int_less_iff)
  then show ?thesis by simp
qed

lemma round_half_up_near:
  assumes "\<bar>q - of_int c\<bar> < 1 / 2"
  shows "round_half_up q = c"
proof -
  have "\<bar>of_int (round_half_up q) - (of_int c :: rat)\<bar> < 1"
    using round_half_up_close [of q] assms by linarith
  then have "\<bar>of_int (round_half_up q - c) :: rat\<bar> < of_int 1" by simp
  then have "\<bar>round_half_up q - c\<bar> < 1" by (simp only: of_int_abs [symmetric] of_int_less_iff)
  then show ?thesis by simp
qed

lemma dfix_near:
  assumes c: "10 ^ 27 < c" "c < 10 ^ 28" and near: "\<bar>q * 10 ^ k - of_int c\<bar> < 1 / 2"
  shows "dfix q = of_int c / 10 ^ k"
proof -
  have lo: "(10 :: rat) ^ 27 + 1 \<le> of_int c"
  proof -
    have "(of_int (10 ^ 27 + 1) :: rat) \<le> of_int c" using c(1) by (simp only: of_int_le_iff)
    then show ?thesis by simp
  qed
  have hi: "of_int c + 1 \<le> (10 :: rat) ^ 28"
  proof -
    have "(of_int (c + 1) :: rat) \<le> of_int (10 ^ 28)" using c(2) by (simp only: of_int_le_iff)
    then show ?thesis by simp
  qed
  have s: "10 ^ 27 \<le> q * 10 ^ k" "q * 10 ^ k < 10 ^ 28" using near lo hi by linarith+
  have pos: "0 < q"
  proof -
    have "0 < q * 10 ^ k" using s(1) by (meson less_le_trans zero_less_power zero_less_numeral)
    then show ?thesis by (simp add: zero_less_mult_iff)
  qed
  have lower: "10 powi (27 - int k) \<le> \<bar>q\<bar>"
  proof -
    have "(10 :: rat) ^ 27 / 10 ^ k \<le> q" using s(1) by (simp add: pos_divide_le_eq)
    then show ?thesis using pos
      by (simp add: power_int_diff)
  qed
  have upper: "\<bar>q\<bar> < 10 powi (28 - int k)"
  proof -
    have "q < (10 :: rat) ^ 28 / 10 ^ k" using s(2) by (simp add: pos_less_divide_eq)
    then show ?thesis using pos by (simp add: power_int_diff)
  qed
  have e: "dec_exp q = - int k"
    using dec_exp_le [OF _ upper] dec_exp_ge [OF _ lower] pos by simp
  have scaled: "q / 10 powi dec_exp q = q * 10 ^ k"
    by (simp add: e power_int_minus divide_inverse)
  have "dfix q = of_int (round_half_even (q * 10 ^ k)) * 10 powi dec_exp q"
    using pos by (simp add: dfix_def Let_def scaled)
  also have "\<dots> = of_int c / 10 ^ k"
    by (simp only: round_half_even_near [OF near] e) (simp add: power_int_minus divide_inverse)
  finally show ?thesis .
qed

lemma quantize_up_near:
  assumes "\<bar>q * 10 ^ p - of_int c\<bar> < 1 / 2" "\<bar>c\<bar> < 10 ^ 28"
  shows "quantize_up p q = Inr (of_int c / 10 ^ p)"
  using assms(2) by (simp add: quantize_up_def round_half_up_near [OF assms(1)])

lemma dfix_of_int [simp]: "\<bar>n\<bar> < 10 ^ 28 \<Longrightarrow> dfix (of_int n) = of_int n"
  by (rule dfix_exact, rule dec28I [of n _ 0]) simp_all

lemma dsum_replicate_int:
  "int n * \<bar>c\<bar> < 10 ^ 28 \<Longrightarrow> dsum (replicate n (of_int c)) = of_int (int n * c)"
proof (induction n)
  case (Suc n)
  have "int n * \<bar>c\<bar> \<le> int (Suc n) * \<bar>c\<bar>" by (simp add: mult_right_mono)
  with Suc.prems have "int n * \<bar>c\<bar> < 10 ^ 28" by linarith
  then have IH: "dsum (replicate n (of_int c)) = of_int (int n * c)" by (rule Suc.IH)
  have "replicate (Suc n) (of_int c :: rat) = replicate n (of_int c) @ [of_int c]"
    by (simp add: replicate_append_same)
  then have "dsum (replicate (Suc n) (of_int c)) = dadd (dsum (replicate n (of_int c))) (of_int c)"
    by (simp add: dsum_def del: replicate_Suc)
  also have "\<dots> = dfix (of_int (int (Suc n) * c))"
    unfolding IH dadd_def by (simp add: distrib_right add.commute)
  also have "\<dots> = of_int (int (Suc n) * c)"
    using Suc.prems by (intro dfix_of_int) (simp add: abs_mult)
  finally show ?case .
qed simp

end
