(* ===== verification/PyStr.thy ===== *)
theory PyStr
  imports Prelude
begin

section \<open>Python string methods and JSON values\<close>

text \<open>
  The string methods the code calls, on ASCII strings: \<^verbatim>\<open>strip\<close>, \<^verbatim>\<open>upper\<close>, \<^verbatim>\<open>lower\<close>,
  \<^verbatim>\<open>split(c)\<close>, \<^verbatim>\<open>split(c, 1)\<close>, \<^verbatim>\<open>count(c)\<close>, \<^verbatim>\<open>startswith\<close>, \<^verbatim>\<open>in\<close>, \<^verbatim>\<open>replace\<close>,
  \<^verbatim>\<open>join\<close>, \<^verbatim>\<open>int(...)\<close> and \<^verbatim>\<open>str(int)\<close>; and the JSON shaped values that are
  written to the payload columns.
\<close>

subsection \<open>Characters\<close>

definition py_space :: "char \<Rightarrow> bool" where
  "py_space c = (let n = (of_char c :: nat) in (9 \<le> n \<and> n \<le> 13) \<or> (28 \<le> n \<and> n \<le> 32))"

definition upper_char :: "char \<Rightarrow> char" where
  "upper_char c =
     (let n = (of_char c :: nat) in if 97 \<le> n \<and> n \<le> 122 then char_of (n - 32) else c)"

definition lower_char :: "char \<Rightarrow> char" where
  "lower_char c =
     (let n = (of_char c :: nat) in if 65 \<le> n \<and> n \<le> 90 then char_of (n + 32) else c)"

definition is_digit :: "char \<Rightarrow> bool" where
  "is_digit c = (let n = (of_char c :: nat) in 48 \<le> n \<and> n \<le> 57)"

definition is_upper :: "char \<Rightarrow> bool" where
  "is_upper c = (let n = (of_char c :: nat) in 65 \<le> n \<and> n \<le> 90)"

definition digit_val :: "char \<Rightarrow> int" where
  "digit_val c = int (of_char c) - 48"

subsection \<open>Methods\<close>

definition lstrip :: "string \<Rightarrow> string" where
  "lstrip s = dropWhile py_space s"

definition rstrip :: "string \<Rightarrow> string" where
  "rstrip s = rev (dropWhile py_space (rev s))"

definition strip :: "string \<Rightarrow> string" where
  "strip s = rstrip (lstrip s)"

definition upper :: "string \<Rightarrow> string" where
  "upper s = map upper_char s"

definition lower :: "string \<Rightarrow> string" where
  "lower s = map lower_char s"

text \<open>\<^verbatim>\<open>s.split(c)\<close>: always at least one part, the empty string for empty parts.\<close>

fun split_char :: "char \<Rightarrow> string \<Rightarrow> string list" where
  "split_char c [] = [[]]"
| "split_char c (x # xs) =
     (if x = c then [] # split_char c xs
      else (case split_char c xs of [] \<Rightarrow> [[x]] | p # ps \<Rightarrow> (x # p) # ps))"

text \<open>\<^verbatim>\<open>s.split(c, 1)\<close>: one part without the separator, two parts around its first occurrence.\<close>

definition split_once :: "char \<Rightarrow> string \<Rightarrow> string list" where
  "split_once c s =
     (case dropWhile (\<lambda>x. x \<noteq> c) s of
        [] \<Rightarrow> [s]
      | _ # rest \<Rightarrow> [takeWhile (\<lambda>x. x \<noteq> c) s, rest])"

definition count_char :: "char \<Rightarrow> string \<Rightarrow> nat" where
  "count_char c s = length (filter (\<lambda>x. x = c) s)"

fun startswith :: "string \<Rightarrow> string \<Rightarrow> bool" where
  "startswith s [] = True"
| "startswith [] (p # ps) = False"
| "startswith (x # xs) (p # ps) = (x = p \<and> startswith xs ps)"

text \<open>\<^verbatim>\<open>sub in s\<close>.\<close>

fun has_sub :: "string \<Rightarrow> string \<Rightarrow> bool" where
  "has_sub sub [] = (sub = [])"
| "has_sub sub (x # xs) = (startswith (x # xs) sub \<or> has_sub sub xs)"

text \<open>
  \<^verbatim>\<open>s.replace(old, new)\<close> for a nonempty \<open>old\<close>: the non-overlapping occurrences, from
  the left.
\<close>

function replace :: "string \<Rightarrow> string \<Rightarrow> string \<Rightarrow> string" where
  "replace old new [] = []"
| "replace old new (x # xs) =
     (if old \<noteq> [] \<and> startswith (x # xs) old
      then new @ replace old new (drop (length old) (x # xs))
      else x # replace old new xs)"
  by pat_completeness auto
termination
proof (relation "measure (\<lambda>(old, new, s). length s)")
  fix old new xs :: string and x
  assume "old \<noteq> [] \<and> startswith (x # xs) old"
  then have "0 < length old" by simp
  then have "Suc (length xs) - length old < Suc (length xs)" by (intro diff_less) auto
  then show "((old, new, drop (length old) (x # xs)), old, new, x # xs)
      \<in> measure (\<lambda>(old, new, s). length s)" by simp
qed auto

fun join :: "string \<Rightarrow> string list \<Rightarrow> string" where
  "join sep [] = []"
| "join sep [s] = s"
| "join sep (s # ss) = s @ sep @ join sep ss"

fun nat_digits :: "nat \<Rightarrow> string" where
  "nat_digits n =
     (if n < 10 then [char_of (48 + n)] else nat_digits (n div 10) @ [char_of (48 + n mod 10)])"

declare nat_digits.simps [simp del]

definition str_of_int :: "int \<Rightarrow> string" where
  "str_of_int i = (if i < 0 then CHR ''-'' # nat_digits (nat (- i)) else nat_digits (nat i))"

text \<open>
  \<^verbatim>\<open>int(s)\<close>: surrounding whitespace, one optional sign, digits with single underscores
  between them; \<open>None\<close> stands for the \<^verbatim>\<open>ValueError\<close>.
\<close>

fun digits_value :: "int \<Rightarrow> string \<Rightarrow> int option" where
  "digits_value acc [] = Some acc"
| "digits_value acc (c # cs) =
     (if is_digit c then digits_value (10 * acc + digit_val c) cs
      else if c = CHR ''_'' \<and> cs \<noteq> [] \<and> is_digit (hd cs) then digits_value acc cs
      else None)"

definition py_int :: "string \<Rightarrow> int option" where
  "py_int s =
     (case strip s of
        [] \<Rightarrow> None
      | c # cs \<Rightarrow>
          let body = (if c = CHR ''+'' \<or> c = CHR ''-'' then cs else c # cs)
          in if body = [] \<or> \<not> is_digit (hd body) then None
             else map_option (\<lambda>v. if c = CHR ''-'' then - v else v) (digits_value 0 body))"

subsection \<open>Facts about the methods\<close>

lemma startswith_iff: "startswith s p \<longleftrightarrow> (\<exists>r. s = p @ r)"
  by (induction s p rule: startswith.induct) auto

lemma split_char_not_Nil [simp]: "split_char c s \<noteq> []"
  by (induction s) (auto split: list.splits)

lemma split_char_parts: "p \<in> set (split_char c s) \<Longrightarrow> c \<notin> set p"
  by (induction s arbitrary: p) (auto split: list.splits if_splits)

lemma join_Cons: "ss \<noteq> [] \<Longrightarrow> join sep (s # ss) = s @ sep @ join sep ss"
  by (cases ss) auto

text \<open>Joining the parts with the separator gives the string back.\<close>

lemma join_split_char: "join [c] (split_char c s) = s"
proof (induction s)
  case Nil
  then show ?case by simp
next
  case (Cons x xs)
  obtain p ps where "split_char c xs = p # ps"
    by (cases "split_char c xs") auto
  with Cons show ?case by (cases ps) (auto simp: join_Cons)
qed

lemma split_char_no_sep: "c \<notin> set s \<Longrightarrow> split_char c s = [s]"
  by (induction s) auto

lemma split_char_append: "c \<notin> set s \<Longrightarrow> split_char c (s @ c # t) = s # split_char c t"
  by (induction s) auto

lemma split_char_join:
  "ss \<noteq> [] \<Longrightarrow> \<forall>s \<in> set ss. c \<notin> set s \<Longrightarrow> split_char c (join [c] ss) = ss"
proof (induction ss rule: list_nonempty_induct)
  case (single x)
  then show ?case by (simp add: split_char_no_sep)
next
  case (cons x xs)
  then show ?case by (simp add: join_Cons split_char_append)
qed

lemma split_once_no_sep: "c \<notin> set s \<Longrightarrow> split_once c s = [s]"
proof -
  assume "c \<notin> set s"
  then have "\<forall>x \<in> set s. x \<noteq> c" by blast
  then have d: "dropWhile (\<lambda>x. x \<noteq> c) s = []" by (simp only: dropWhile_eq_Nil_conv)
  show ?thesis by (simp only: split_once_def d list.case)
qed

lemma split_once_sep:
  assumes "c \<notin> set a"
  shows "split_once c (a @ c # b) = [a, b]"
proof -
  from assms have *: "\<And>x. x \<in> set a \<Longrightarrow> x \<noteq> c" by auto
  then have "dropWhile (\<lambda>x. x \<noteq> c) (a @ c # b) = c # b"
    by (subst dropWhile_append2) auto
  moreover have "takeWhile (\<lambda>x. x \<noteq> c) (a @ c # b) = a"
    using * by (subst takeWhile_append2) auto
  ultimately show ?thesis by (simp add: split_once_def)
qed

lemma split_once_cases:
  "(c \<notin> set s \<and> split_once c s = [s]) \<or>
   (\<exists>a b. s = a @ c # b \<and> c \<notin> set a \<and> split_once c s = [a, b])"
proof (cases "c \<in> set s")
  case True
  then obtain a b where "s = a @ c # b" "c \<notin> set a" by (meson split_list_first)
  then show ?thesis using split_once_sep by blast
next
  case False
  then show ?thesis by (simp add: split_once_no_sep)
qed

lemma count_char_0_iff: "count_char c s = 0 \<longleftrightarrow> c \<notin> set s"
  by (auto simp: count_char_def filter_empty_conv)

lemma count_char_append: "count_char c (s @ t) = count_char c s + count_char c t"
  by (simp add: count_char_def)

lemma count_char_Cons: "count_char c (x # t) = (if x = c then Suc (count_char c t) else count_char c t)"
  by (simp add: count_char_def)

text \<open>An entry with exactly one separator splits into two parts without it, uniquely.\<close>

lemma count_one_split:
  assumes "count_char c s = 1"
  shows "\<exists>a b. split_once c s = [a, b] \<and> s = a @ c # b \<and> c \<notin> set a \<and> c \<notin> set b"
proof -
  from assms have "c \<in> set s" using count_char_0_iff [of c s] by auto
  then obtain a b where s: "s = a @ c # b" and a: "c \<notin> set a" by (meson split_list_first)
  with assms have "count_char c b = 0"
    using count_char_0_iff [of c a] by (simp add: count_char_append count_char_Cons)
  then have "c \<notin> set b" by (simp add: count_char_0_iff)
  with s a show ?thesis using split_once_sep by blast
qed

lemma upper_length [simp]: "length (upper s) = length s"
  by (simp add: upper_def)

lemma upper_eq_Nil [simp]: "upper s = [] \<longleftrightarrow> s = []"
  by (simp add: upper_def)

lemma upper_char_range: "97 \<le> (n::nat) \<Longrightarrow> n \<le> 122 \<Longrightarrow> of_char (char_of (n - 32) :: char) = n - 32"
  by (simp add: of_char_of)

lemma upper_char_idem [simp]: "upper_char (upper_char c) = upper_char c"
  by (auto simp: upper_char_def Let_def upper_char_range)

lemma upper_idem [simp]: "upper (upper s) = upper s"
  by (simp add: upper_def)

lemma upper_char_eq_iff:
  assumes "\<not> (65 \<le> (of_char c :: nat) \<and> (of_char c :: nat) \<le> 90)"
    and "\<not> (97 \<le> (of_char c :: nat) \<and> (of_char c :: nat) \<le> 122)"
  shows "upper_char x = c \<longleftrightarrow> x = c"
proof
  assume eq: "upper_char x = c"
  show "x = c"
  proof (rule ccontr)
    assume "x \<noteq> c"
    with eq have n: "97 \<le> (of_char x :: nat)" "(of_char x :: nat) \<le> 122"
      by (auto simp: upper_char_def Let_def split: if_splits)
    with eq have "(of_char c :: nat) = of_char x - 32"
      by (auto simp: upper_char_def Let_def upper_char_range)
    moreover from n have "65 \<le> (of_char x :: nat) - 32" "(of_char x :: nat) - 32 \<le> 90" by simp_all
    ultimately show False using assms(1) by simp
  qed
next
  assume "x = c"
  with assms(2) show "upper_char x = c" by (auto simp: upper_char_def Let_def)
qed

lemma colon_code: "(of_char CHR '':'' :: nat) = 58"
  by code_simp

lemma in_set_upper: "c \<in> set (upper s) \<longleftrightarrow> (\<exists>x \<in> set s. upper_char x = c)"
  by (auto simp: upper_def)

lemma colon_in_upper [simp]: "CHR '':'' \<in> set (upper s) \<longleftrightarrow> CHR '':'' \<in> set s"
proof -
  have "\<not> (65 \<le> (of_char CHR '':'' :: nat) \<and> (of_char CHR '':'' :: nat) \<le> 90)"
    unfolding colon_code by simp
  moreover have "\<not> (97 \<le> (of_char CHR '':'' :: nat) \<and> (of_char CHR '':'' :: nat) \<le> 122)"
    unfolding colon_code by simp
  ultimately have "\<And>x. upper_char x = CHR '':'' \<longleftrightarrow> x = CHR '':''"
    by (rule upper_char_eq_iff)
  then show ?thesis by (simp only: in_set_upper) blast
qed

lemma set_lstrip: "set (lstrip s) \<subseteq> set s"
  by (auto simp: lstrip_def dest: set_dropWhileD)

lemma set_rstrip: "set (rstrip s) \<subseteq> set s"
  by (auto simp: rstrip_def dest: set_dropWhileD)

lemma set_strip: "set (strip s) \<subseteq> set s"
  using set_lstrip set_rstrip unfolding strip_def by blast

lemma not_in_strip: "c \<notin> set s \<Longrightarrow> c \<notin> set (strip s)"
  using set_strip by blast

lemma in_strip: "\<not> py_space c \<Longrightarrow> c \<in> set (strip s) \<longleftrightarrow> c \<in> set s"
proof -
  assume c: "\<not> py_space c"
  have drop: "c \<in> set (dropWhile py_space xs) \<longleftrightarrow> c \<in> set xs" for xs
    using c by (induction xs) auto
  show ?thesis by (simp add: strip_def rstrip_def lstrip_def drop)
qed

subsection \<open>JSON shaped values\<close>

text \<open>
  The values of \<^verbatim>\<open>dict[str, object]\<close> payloads and of parsed model output. A Decimal that the
  code renders with \<^verbatim>\<open>str\<close> is kept by its numeric value (\<open>JDec\<close>), a float by the decimal its
  \<^verbatim>\<open>str\<close> prints (\<open>JFloat\<close>). A dictionary is an association list in insertion order.
\<close>

datatype (plugins only: code size) json =
    JNull
  | JBool bool
  | JInt int
  | JFloat rat
  | JDec rat
  | JStr string
  | JList "json list"
  | JObj "(string \<times> json) list"

text \<open>\<^verbatim>\<open>d.get(key)\<close> on a dictionary; a missing key is \<open>None\<close>, and so is a stored null.\<close>

definition jget :: "(string \<times> json) list \<Rightarrow> string \<Rightarrow> json" where
  "jget d k = (case map_of d k of None \<Rightarrow> JNull | Some v \<Rightarrow> v)"

text \<open>\<^verbatim>\<open>bool(value)\<close>.\<close>

fun truthy :: "json \<Rightarrow> bool" where
  "truthy JNull = False"
| "truthy (JBool b) = b"
| "truthy (JInt i) = (i \<noteq> 0)"
| "truthy (JFloat q) = (q \<noteq> 0)"
| "truthy (JDec q) = True"
| "truthy (JStr s) = (s \<noteq> [])"
| "truthy (JList xs) = (xs \<noteq> [])"
| "truthy (JObj kvs) = (kvs \<noteq> [])"

fun is_obj :: "json \<Rightarrow> bool" where
  "is_obj (JObj kvs) = True"
| "is_obj v = False"

definition jopt :: "('a \<Rightarrow> json) \<Rightarrow> 'a option \<Rightarrow> json" where
  "jopt f x = (case x of None \<Rightarrow> JNull | Some v \<Rightarrow> f v)"

definition jstrs :: "string list \<Rightarrow> json" where
  "jstrs xs = JList (map JStr xs)"

lemma jget_Cons [simp]: "jget ((k, v) # d) k' = (if k = k' then v else jget d k')"
  by (simp add: jget_def)

lemma jget_Nil [simp]: "jget [] k = JNull"
  by (simp add: jget_def)

text \<open>\<^verbatim>\<open>d[key] = value\<close>: replaces in place, or appends a new key.\<close>

fun jset :: "(string \<times> json) list \<Rightarrow> string \<Rightarrow> json \<Rightarrow> (string \<times> json) list" where
  "jset [] k v = [(k, v)]"
| "jset ((k', v') # d) k v = (if k' = k then (k, v) # d else (k', v') # jset d k v)"

lemma jget_jset: "jget (jset d k v) k' = (if k = k' then v else jget d k')"
  by (induction d k v rule: jset.induct) auto

lemma fst_jset: "fst ` set (jset d k v) = insert k (fst ` set d)"
  by (induction d k v rule: jset.induct) auto

subsection \<open>Counters\<close>

text \<open>\<^verbatim>\<open>collections.Counter\<close> as a function to counts, \<^verbatim>\<open>dict(sorted(counter.items()))\<close> as
  the sorted list of its positive entries over the keys seen.\<close>

fun counter_add :: "(string \<times> nat) list \<Rightarrow> string \<Rightarrow> (string \<times> nat) list" where
  "counter_add [] k = [(k, 1)]"
| "counter_add ((k', n) # c) k = (if k' = k then (k, Suc n) # c else (k', n) # counter_add c k)"

definition counter_update :: "(string \<times> nat) list \<Rightarrow> string list \<Rightarrow> (string \<times> nat) list" where
  "counter_update c ks = fold (\<lambda>k c. counter_add c k) ks c"

definition counter_get :: "(string \<times> nat) list \<Rightarrow> string \<Rightarrow> nat" where
  "counter_get c k = (case map_of c k of None \<Rightarrow> 0 | Some n \<Rightarrow> n)"

definition counter_sorted :: "(string \<times> nat) list \<Rightarrow> (string \<times> nat) list" where
  "counter_sorted c = sort_key fst c"

lemma counter_get_add: "counter_get (counter_add c k) k' = counter_get c k' + (if k = k' then 1 else 0)"
  by (induction c k rule: counter_add.induct) (auto simp: counter_get_def split: option.splits)

lemma counter_get_update: "counter_get (counter_update c ks) k = counter_get c k + count_list ks k"
  by (induction ks arbitrary: c) (auto simp: counter_update_def counter_get_add)

lemma dom_counter_add: "fst ` set (counter_add c k) = insert k (fst ` set c)"
  by (induction c k rule: counter_add.induct) auto

lemma distinct_counter_add: "distinct (map fst c) \<Longrightarrow> distinct (map fst (counter_add c k))"
proof (induction c k rule: counter_add.induct)
  case (2 k' n c k)
  have "fst ` set (counter_add c k) = insert k (fst ` set c)" by (rule dom_counter_add)
  with 2 show ?case by auto
qed simp

lemma distinct_counter_update: "distinct (map fst c) \<Longrightarrow> distinct (map fst (counter_update c ks))"
  by (induction ks arbitrary: c) (auto simp: counter_update_def distinct_counter_add)

lemma dom_counter_update: "fst ` set (counter_update c ks) = fst ` set c \<union> set ks"
  by (induction ks arbitrary: c) (auto simp: counter_update_def dom_counter_add)

lemma counter_get_sorted: "distinct (map fst c) \<Longrightarrow> counter_get (counter_sorted c) k = counter_get c k"
proof -
  assume d: "distinct (map fst c)"
  have "distinct (map fst (sort_key fst c))"
    using d by (simp add: distinct_map)
  then have "map_of (sort_key fst c) = map_of c"
    using d by (simp add: map_of_inject_set)
  then show ?thesis by (simp add: counter_get_def counter_sorted_def)
qed

lemmas string_defs [str_simps] =
  py_space_def upper_char_def lower_char_def is_digit_def digit_val_def lstrip_def rstrip_def
  strip_def upper_def lower_def split_once_def count_char_def str_of_int_def py_int_def Let_def

end
