(* ===== verification/PyTime.thy ===== *)
theory PyTime
  imports PyStr
begin

section \<open>Datetimes\<close>

text \<open>
  An aware \<^verbatim>\<open>datetime\<close> is modelled by its instant: microseconds since 1970-01-01T00:00:00Z.
  Comparison and subtraction of aware datetimes are those of their instants. A calendar date is the
  number of days since 1970-01-01, a \<^verbatim>\<open>time\<close> of day the microseconds since midnight. The zone of
  the program is the fixed offset \<^verbatim>\<open>IST\<close> (UTC+05:30); an instant rendered by \<^verbatim>\<open>isoformat\<close> is
  rendered with the offset of its zone. The year limits of \<^verbatim>\<open>datetime\<close> are not modelled.
\<close>

type_synonym instant = int
type_synonym date = int
type_synonym time_of_day = int

definition second_us :: int where
  "second_us = 1000000"

definition minute_us :: int where
  "minute_us = 60000000"

definition day_us :: int where
  "day_us = 86400000000"

text \<open>\<^verbatim>\<open>timezone(timedelta(hours=5, minutes=30))\<close> as minutes east of UTC.\<close>

definition ist_minutes :: int where
  "ist_minutes = 330"

definition zone_us :: "int \<Rightarrow> int" where
  "zone_us z = z * minute_us"

text \<open>\<^verbatim>\<open>t.astimezone(IST).date()\<close> and \<^verbatim>\<open>t.astimezone(IST).time()\<close>.\<close>

definition ist_date :: "instant \<Rightarrow> date" where
  "ist_date t = (t + zone_us ist_minutes) div day_us"

definition ist_time :: "instant \<Rightarrow> time_of_day" where
  "ist_time t = (t + zone_us ist_minutes) mod day_us"

definition hhmm :: "int \<Rightarrow> int \<Rightarrow> time_of_day" where
  "hhmm h m = (h * 60 + m) * minute_us"

text \<open>\<^verbatim>\<open>datetime.combine(d, t, tzinfo=IST)\<close>.\<close>

definition ist_combine :: "date \<Rightarrow> time_of_day \<Rightarrow> instant" where
  "ist_combine d t = d * day_us + t - zone_us ist_minutes"

text \<open>\<^verbatim>\<open>weekday()\<close>: Monday is 0; 1970-01-01 was a Thursday.\<close>

definition weekday :: "date \<Rightarrow> int" where
  "weekday d = (d + 3) mod 7"

text \<open>\<^verbatim>\<open>t.replace(second=0, microsecond=0)\<close> in UTC.\<close>

definition floor_minute :: "instant \<Rightarrow> instant" where
  "floor_minute t = t - t mod minute_us"

definition time_hour :: "time_of_day \<Rightarrow> int" where
  "time_hour t = t div (60 * minute_us)"

definition time_minute :: "time_of_day \<Rightarrow> int" where
  "time_minute t = t div minute_us mod 60"

text \<open>Calendar date of a day number, in the proleptic Gregorian calendar: year, month, day.\<close>

definition civil :: "date \<Rightarrow> int \<times> int \<times> int" where
  "civil n =
     (let z = n + 719468;
          era = z div 146097;
          doe = z mod 146097;
          yoe = (doe - doe div 1460 + doe div 36524 - doe div 146096) div 365;
          doy = doe - (365 * yoe + yoe div 4 - yoe div 100);
          mp = (5 * doy + 2) div 153;
          d = doy - (153 * mp + 2) div 5 + 1;
          m = (if mp < 10 then mp + 3 else mp - 9);
          y = yoe + era * 400 + (if m \<le> 2 then 1 else 0)
      in (y, m, d))"

definition pad :: "nat \<Rightarrow> int \<Rightarrow> string" where
  "pad w i = (let s = str_of_int i in replicate (w - length s) CHR ''0'' @ s)"

definition date_iso :: "date \<Rightarrow> string" where
  "date_iso n = (case civil n of (y, m, d) \<Rightarrow> pad 4 y @ ''-'' @ pad 2 m @ ''-'' @ pad 2 d)"

definition offset_iso :: "int \<Rightarrow> string" where
  "offset_iso z = ''+'' @ pad 2 (z div 60) @ '':'' @ pad 2 (z mod 60)"

text \<open>\<^verbatim>\<open>isoformat()\<close> of the instant in the zone \<open>z\<close> minutes east of UTC.\<close>

definition isoformat_zone :: "int \<Rightarrow> instant \<Rightarrow> string" where
  "isoformat_zone z t =
     (let l = t + zone_us z; tod = l mod day_us; us = tod mod second_us
      in date_iso (l div day_us) @ ''T'' @ pad 2 (time_hour tod) @ '':'' @ pad 2 (time_minute tod)
         @ '':'' @ pad 2 (tod div second_us mod 60)
         @ (if us = 0 then '''' else ''.'' @ pad 6 us) @ offset_iso z)"

definition isoformat :: "instant \<Rightarrow> string" where
  "isoformat t = isoformat_zone 0 t"

definition ist_isoformat :: "instant \<Rightarrow> string" where
  "ist_isoformat t = isoformat_zone ist_minutes t"

text \<open>
  The \<^verbatim>\<open>HH:MM\<close> parser the services share: \<^verbatim>\<open>hour, minute = (int(p) for p in value.split(":", 1))\<close>
  and \<^verbatim>\<open>time(hour, minute)\<close>; every \<^verbatim>\<open>ValueError\<close> is \<open>None\<close>.
\<close>

definition parse_hhmm :: "string \<Rightarrow> time_of_day option" where
  "parse_hhmm s =
     (case split_once CHR '':'' s of
        [a, b] \<Rightarrow>
          (case (py_int a, py_int b) of
             (Some h, Some m) \<Rightarrow>
               if 0 \<le> h \<and> h < 24 \<and> 0 \<le> m \<and> m < 60 then Some (hhmm h m) else None
           | _ \<Rightarrow> None)
      | _ \<Rightarrow> None)"

lemmas time_units = second_us_def minute_us_def day_us_def ist_minutes_def zone_us_def

lemma ist_date_mono: "s \<le> t \<Longrightarrow> ist_date s \<le> ist_date t"
  by (simp add: ist_date_def zdiv_mono1 time_units)

lemma ist_time_range: "0 \<le> ist_time t \<and> ist_time t < day_us"
  by (simp add: ist_time_def time_units)

text \<open>An instant is determined by its IST date and time.\<close>

lemma ist_combine_split: "ist_combine (ist_date t) (ist_time t) = t"
  by (simp add: ist_combine_def ist_date_def ist_time_def)

lemma ist_date_combine: "0 \<le> u \<Longrightarrow> u < day_us \<Longrightarrow> ist_date (ist_combine d u) = d"
  by (simp add: ist_combine_def ist_date_def time_units)

lemma ist_time_combine: "0 \<le> u \<Longrightarrow> u < day_us \<Longrightarrow> ist_time (ist_combine d u) = u"
  by (simp add: ist_combine_def ist_time_def time_units)

text \<open>The instants of one IST day are exactly a half open interval.\<close>

lemma ist_date_interval:
  "ist_date t = d \<longleftrightarrow> ist_combine d 0 \<le> t \<and> t < ist_combine d 0 + day_us"
proof -
  have "ist_combine (ist_date t) (ist_time t) = t" by (rule ist_combine_split)
  then have eq: "t = ist_date t * day_us + ist_time t - zone_us ist_minutes"
    by (simp add: ist_combine_def)
  show ?thesis
  proof
    assume "ist_date t = d"
    with eq ist_time_range [of t] show "ist_combine d 0 \<le> t \<and> t < ist_combine d 0 + day_us"
      by (simp add: ist_combine_def)
  next
    assume *: "ist_combine d 0 \<le> t \<and> t < ist_combine d 0 + day_us"
    define u where "u = t - ist_combine d 0"
    from * have "0 \<le> u" "u < day_us" by (simp_all add: u_def)
    moreover have "t = ist_combine d u" by (simp add: u_def ist_combine_def)
    ultimately show "ist_date t = d" by (simp add: ist_date_combine)
  qed
qed

lemma ist_same_date_less:
  assumes "ist_date s = ist_date t"
  shows "s < t \<longleftrightarrow> ist_time s < ist_time t"
proof -
  have "s = ist_date t * day_us + ist_time s - zone_us ist_minutes"
    using ist_combine_split [of s] assms by (simp add: ist_combine_def)
  moreover have "t = ist_date t * day_us + ist_time t - zone_us ist_minutes"
    using ist_combine_split [of t] by (simp add: ist_combine_def)
  ultimately show ?thesis by linarith
qed

lemma floor_minute_le: "floor_minute t \<le> t"
  by (simp add: floor_minute_def minute_us_def)

lemma floor_minute_gt: "t < floor_minute t + minute_us"
  by (simp add: floor_minute_def minute_us_def)

lemma floor_minute_aligned: "floor_minute t mod minute_us = 0"
  by (simp add: floor_minute_def minus_mod_eq_mult_div)

lemma floor_minute_mono: "s \<le> t \<Longrightarrow> floor_minute s \<le> floor_minute t"
  by (simp add: floor_minute_def minus_mod_eq_mult_div minute_us_def zdiv_mono1)

lemma floor_minute_idem [simp]: "floor_minute (floor_minute t) = floor_minute t"
  using floor_minute_aligned [of t] by (simp add: floor_minute_def [of "floor_minute t"])

lemma parse_hhmm_range: "parse_hhmm s = Some t \<Longrightarrow> 0 \<le> t \<and> t < day_us \<and> t mod minute_us = 0"
  by (auto simp: parse_hhmm_def hhmm_def time_units split: list.splits option.splits if_splits)

end
