(* ===== verification/Indicators.thy ===== *)
theory Indicators
  imports PyDecimal PyTime
begin

section \<open>Indicator calculations\<close>

text \<open>
  \<^verbatim>\<open>app/analysis/schemas.py\<close> (bars and quote context) and \<^verbatim>\<open>app/analysis/indicators.py\<close>. Every
  function keeps the order of the source's decimal operations, each of which rounds to 28 digits;
  \<open>None\<close> is the source's \<^verbatim>\<open>None\<close>, \<open>Inl InvalidOperation\<close> the exception of \<^verbatim>\<open>quantize\<close> on a
  value that does not fit.
\<close>

subsection \<open>Data\<close>

record completed_bar =
  bar_instrument_id :: int
  bar_symbol :: string
  bar_timeframe :: string
  started_at :: instant
  open_price :: dec
  high_price :: dec
  low_price :: dec
  close_price :: dec
  volume :: int

record quote_context =
  bid_price :: "dec option"
  ask_price :: "dec option"
  quote_time :: "instant option"

definition nse_open :: time_of_day where
  "nse_open = hhmm 9 15"

definition q4 :: "dec \<Rightarrow> dec res" where
  "q4 v = quantize_up 4 v"

definition some_q4 :: "dec \<Rightarrow> dec option res" where
  "some_q4 v = bindE (q4 v) (\<lambda>r. Inr (Some r))"

text \<open>\<^verbatim>\<open>max(iterable)\<close> and \<^verbatim>\<open>min(iterable)\<close> of a nonempty list.\<close>

definition py_max :: "'a::linorder list \<Rightarrow> 'a" where
  "py_max xs = foldl max (hd xs) (tl xs)"

definition py_min :: "'a::linorder list \<Rightarrow> 'a" where
  "py_min xs = foldl min (hd xs) (tl xs)"

subsection \<open>Moving averages and oscillators\<close>

fun ema_loop :: "dec \<Rightarrow> dec \<Rightarrow> dec list \<Rightarrow> dec" where
  "ema_loop multiplier current [] = current"
| "ema_loop multiplier current (v # vs) =
     ema_loop multiplier (dadd (dmul (dsub v current) multiplier) current) vs"

definition ema :: "dec list \<Rightarrow> int \<Rightarrow> dec option res" where
  "ema values period =
     (if period < 1 \<or> int (length values) < period then Inr None
      else let seed = ddiv (dsum (take (nat period) values)) (of_int period);
               multiplier = ddiv 2 (of_int (period + 1))
           in some_q4 (ema_loop multiplier seed (drop (nat period) values)))"

text \<open>The changes between neighbours: \<^verbatim>\<open>zip(xs[:-1], xs[1:])\<close>.\<close>

definition neighbours :: "'a list \<Rightarrow> ('a \<times> 'a) list" where
  "neighbours xs = zip (butlast xs) (tl xs)"

definition gain_of :: "dec \<times> dec \<Rightarrow> dec" where
  "gain_of pc = max (dsub (snd pc) (fst pc)) 0"

definition loss_of :: "dec \<times> dec \<Rightarrow> dec" where
  "loss_of pc = max (dneg (dsub (snd pc) (fst pc))) 0"

text \<open>Wilder smoothing of one value: \<^verbatim>\<open>((avg * Decimal(period - 1)) + x) / Decimal(period)\<close>.\<close>

definition wilder :: "nat \<Rightarrow> dec \<Rightarrow> dec \<Rightarrow> dec" where
  "wilder period avg x = ddiv (dadd (dmul avg (of_nat period - 1)) x) (of_nat period)"

definition rsi_wilder :: "dec list \<Rightarrow> nat \<Rightarrow> dec option res" where
  "rsi_wilder closes period =
     (if length closes < period + 1 then Inr None
      else if period = 0 then Inl InvalidOperation
      else let first = zip (take period closes) (take period (drop 1 closes));
               rest = zip (butlast (drop period closes)) (drop (period + 1) closes);
               avg_gain = foldl (wilder period) (ddiv (dsum (map gain_of first)) (of_nat period))
                            (map gain_of rest);
               avg_loss = foldl (wilder period) (ddiv (dsum (map loss_of first)) (of_nat period))
                            (map loss_of rest)
           in if avg_loss = 0 then Inr (Some 100)
              else let rs = ddiv avg_gain avg_loss
                   in some_q4 (dsub 100 (ddiv 100 (dadd 1 rs))))"

definition true_range :: "completed_bar \<times> completed_bar \<Rightarrow> dec" where
  "true_range pc =
     max (max (dsub (high_price (snd pc)) (low_price (snd pc)))
              (dabs (dsub (high_price (snd pc)) (close_price (fst pc)))))
         (dabs (dsub (low_price (snd pc)) (close_price (fst pc))))"

definition atr_wilder :: "completed_bar list \<Rightarrow> nat \<Rightarrow> dec option res" where
  "atr_wilder bars period =
     (if length bars < period + 1 then Inr None
      else if period = 0 then Inl InvalidOperation
      else let trs = map true_range (neighbours bars)
           in some_q4 (foldl (wilder period) (ddiv (dsum (take period trs)) (of_nat period))
                        (drop period trs)))"

subsection \<open>Session indicators\<close>

definition typical_price :: "completed_bar \<Rightarrow> dec" where
  "typical_price b = ddiv (dadd (dadd (high_price b) (low_price b)) (close_price b)) 3"

definition vwap :: "completed_bar list \<Rightarrow> dec option res" where
  "vwap bars =
     (let total_volume = sum_list (map volume bars)
      in if bars = [] \<or> total_volume \<le> 0 then Inr None
         else some_q4 (ddiv (dsum (map (\<lambda>b. dmul (typical_price b) (of_int (volume b))) bars))
                            (of_int total_volume)))"

definition minutes_since_open :: "completed_bar \<Rightarrow> int" where
  "minutes_since_open b =
     time_hour (ist_time (started_at b)) * 60 + time_minute (ist_time (started_at b))
     - (time_hour nse_open * 60 + time_minute nse_open)"

definition opening_range :: "completed_bar list \<Rightarrow> int \<Rightarrow> dec option \<times> dec option" where
  "opening_range bars range_minutes =
     (if bars = [] then (None, None)
      else let current_date = ist_date (started_at (last bars));
               selected = filter (\<lambda>b. ist_date (started_at b) = current_date
                   \<and> 0 \<le> minutes_since_open b \<and> minutes_since_open b < range_minutes) bars
           in if selected = [] then (None, None)
              else (Some (py_max (map high_price selected)), Some (py_min (map low_price selected))))"

definition previous_day_high_low :: "completed_bar list \<Rightarrow> dec option \<times> dec option" where
  "previous_day_high_low bars =
     (if bars = [] then (None, None)
      else let current_date = ist_date (started_at (last bars));
               prior = filter (\<lambda>b. ist_date (started_at b) < current_date) bars
           in if prior = [] then (None, None)
              else let latest = py_max (map (\<lambda>b. ist_date (started_at b)) prior);
                       selected = filter (\<lambda>b. ist_date (started_at b) = latest) prior
                   in (Some (py_max (map high_price selected)), Some (py_min (map low_price selected))))"

definition volume_ratio :: "completed_bar list \<Rightarrow> nat \<Rightarrow> dec option res" where
  "volume_ratio bars baseline_period =
     (if length bars < baseline_period + 1 then Inr None
      else if baseline_period = 0 then Inl InvalidOperation
      else let baseline = butlast (drop (length bars - (baseline_period + 1)) bars);
               average = ddiv (dsum (map (\<lambda>b. of_int (volume b)) baseline)) (of_nat baseline_period)
           in if average \<le> 0 then Inr None
              else some_q4 (ddiv (of_int (volume (last bars))) average))"

definition pct_move :: "dec \<Rightarrow> dec \<Rightarrow> dec option" where
  "pct_move previous current =
     (if previous = 0 then None
      else Some (dmul (ddiv (dsub current previous) previous) 100))"

definition last_move :: "completed_bar list \<Rightarrow> dec option" where
  "last_move bars = pct_move (close_price (last (butlast bars))) (close_price (last bars))"

definition relative_index_movement ::
  "completed_bar list \<Rightarrow> completed_bar list \<Rightarrow> dec option res" where
  "relative_index_movement symbol_bars benchmark_bars =
     (if length symbol_bars < 2 \<or> length benchmark_bars < 2 then Inr None
      else case (last_move symbol_bars, last_move benchmark_bars) of
             (Some s, Some b) \<Rightarrow> some_q4 (dsub s b)
           | _ \<Rightarrow> Inr None)"

definition spread_pct :: "quote_context option \<Rightarrow> dec option res" where
  "spread_pct context =
     (case context of
        None \<Rightarrow> Inr None
      | Some c \<Rightarrow>
          (case (bid_price c, ask_price c) of
             (Some bid, Some ask) \<Rightarrow>
               let mid = ddiv (dadd bid ask) 2
               in if mid \<le> 0 \<or> ask < bid then Inr None
                  else some_q4 (dmul (ddiv (dsub ask bid) mid) 100)
           | _ \<Rightarrow> Inr None))"

text \<open>\<^verbatim>\<open>int(delta.total_seconds())\<close> truncates towards zero.\<close>

definition whole_seconds :: "int \<Rightarrow> int" where
  "whole_seconds us = (if 0 \<le> us then us div second_us else - ((- us) div second_us))"

definition candle_continuity_ok :: "completed_bar list \<Rightarrow> string \<Rightarrow> bool" where
  "candle_continuity_ok bars timeframe =
     (if timeframe \<noteq> ''1minute'' \<or> length bars < 2 then True
      else list_all (\<lambda>(p, c). ist_date (started_at p) \<noteq> ist_date (started_at c)
               \<or> whole_seconds (started_at c - started_at p) = 60) (neighbours bars))"

subsection \<open>Facts about the indicators\<close>

lemma some_q4_eq: "some_q4 v = Inr r \<longleftrightarrow> (\<exists>x. r = Some x \<and> quantize_up 4 v = Inr x)"
  by (auto simp: some_q4_def q4_def bindE_eq_Inr)

lemma some_q4_error: "some_q4 v = Inl e \<Longrightarrow> e = InvalidOperation"
  by (auto simp: some_q4_def q4_def bindE_eq_Inl dest: quantize_error)

lemma some_q4_int_bounds:
  assumes "some_q4 v = Inr (Some r)"
  shows "of_int n \<le> v \<Longrightarrow> of_int n \<le> r" and "v \<le> of_int n \<Longrightarrow> r \<le> of_int n"
  using assms quantize_up_int_bound [of 4 v r n] by (auto simp: some_q4_eq)

lemma foldl_max_eq: "foldl max x xs = Max (insert x (set xs))"
proof -
  have "foldl max x xs = fold max xs x"
    by (induction xs arbitrary: x) (simp_all add: max.commute)
  also have "\<dots> = Max (set (x # xs))" by (rule Max.set_eq_fold [symmetric])
  finally show ?thesis by simp
qed

lemma foldl_min_eq: "foldl min x xs = Min (insert x (set xs))"
proof -
  have "foldl min x xs = fold min xs x"
    by (induction xs arbitrary: x) (simp_all add: min.commute)
  also have "\<dots> = Min (set (x # xs))" by (rule Min.set_eq_fold [symmetric])
  finally show ?thesis by simp
qed

lemma py_max_eq: "xs \<noteq> [] \<Longrightarrow> py_max xs = Max (set xs)"
  by (cases xs) (simp_all add: py_max_def foldl_max_eq)

lemma py_min_eq: "xs \<noteq> [] \<Longrightarrow> py_min xs = Min (set xs)"
  by (cases xs) (simp_all add: py_min_def foldl_min_eq)

lemma gain_of_nonneg [simp]: "0 \<le> gain_of pc"
  by (simp add: gain_of_def)

lemma loss_of_nonneg [simp]: "0 \<le> loss_of pc"
  by (simp add: loss_of_def)

lemma true_range_nonneg [simp]: "0 \<le> true_range pc"
  by (simp add: true_range_def le_max_iff_disj)

lemma wilder_nonneg: "0 < p \<Longrightarrow> 0 \<le> a \<Longrightarrow> 0 \<le> x \<Longrightarrow> 0 \<le> wilder p a x"
  unfolding wilder_def by (intro ddiv_nonneg dadd_nonneg dmul_nonneg) auto

lemma foldl_wilder_nonneg:
  "0 < p \<Longrightarrow> 0 \<le> a \<Longrightarrow> \<forall>x \<in> set xs. 0 \<le> x \<Longrightarrow> 0 \<le> foldl (wilder p) a xs"
  by (induction xs arbitrary: a) (auto simp: wilder_nonneg)

lemma smoothed_nonneg:
  assumes "0 < p" "\<forall>x \<in> set xs. 0 \<le> x" "\<forall>x \<in> set ys. 0 \<le> x"
  shows "0 \<le> foldl (wilder p) (ddiv (dsum xs) (of_nat p)) ys"
  using assms by (intro foldl_wilder_nonneg ddiv_nonneg dsum_nonneg) auto

lemma dfix_1 [simp]: "dfix 1 = 1"
  using dfix_of_int [of 1] by simp

lemma dfix_100 [simp]: "dfix 100 = 100"
  using dfix_of_int [of 100] by simp

text \<open>The last step of the RSI stays inside the percent range for every nonnegative ratio.\<close>

lemma rsi_value_bounds:
  assumes "0 \<le> rs"
  shows "0 \<le> dsub 100 (ddiv 100 (dadd 1 rs)) \<and> dsub 100 (ddiv 100 (dadd 1 rs)) \<le> 100"
proof -
  have "dfix 1 \<le> dfix (1 + rs)" using assms by (intro dfix_mono) simp
  then have one: "1 \<le> dadd 1 rs" by (simp add: dadd_def)
  then have "0 \<le> 100 / dadd 1 rs" "100 / dadd 1 rs \<le> 100" by (simp_all add: divide_le_eq)
  then have "dfix 0 \<le> ddiv 100 (dadd 1 rs)" "ddiv 100 (dadd 1 rs) \<le> dfix 100"
    unfolding ddiv_def by (intro dfix_mono; simp)+
  then have q: "0 \<le> ddiv 100 (dadd 1 rs)" "ddiv 100 (dadd 1 rs) \<le> 100" by simp_all
  then have "dfix (100 - ddiv 100 (dadd 1 rs)) \<le> dfix 100" by (intro dfix_mono) simp
  with q show ?thesis by (simp add: dsub_def)
qed



lemma atr_nonneg: "atr_wilder bars period = Inr (Some r) \<Longrightarrow> 0 \<le> r"
proof -
  assume a: "atr_wilder bars period = Inr (Some r)"
  then have p: "0 < period" by (auto simp: atr_wilder_def split: if_splits)
  let ?trs = "map true_range (neighbours bars)"
  let ?v = "foldl (wilder period) (ddiv (dsum (take period ?trs)) (of_nat period)) (drop period ?trs)"
  have "\<forall>x \<in> set ?trs. 0 \<le> x" by auto
  then have "\<forall>x \<in> set (take period ?trs). 0 \<le> x" "\<forall>x \<in> set (drop period ?trs). 0 \<le> x"
    by (blast dest: in_set_takeD in_set_dropD)+
  with p have "0 \<le> ?v" by (intro smoothed_nonneg) auto
  moreover from a have "some_q4 ?v = Inr (Some r)"
    by (auto simp: atr_wilder_def Let_def split: if_splits)
  ultimately show ?thesis using some_q4_int_bounds(1) [of ?v r 0] by simp
qed

lemma atr_available: "atr_wilder bars period = Inr (Some r) \<Longrightarrow> period < length bars"
  by (auto simp: atr_wilder_def split: if_splits)

lemma ema_available: "ema values period = Inr (Some r) \<Longrightarrow> 1 \<le> period \<and> period \<le> int (length values)"
  by (auto simp: ema_def split: if_splits)

lemma ema_unavailable: "ema values period = Inr None \<longleftrightarrow> period < 1 \<or> int (length values) < period"
  by (auto simp: ema_def Let_def some_q4_eq)

lemma vwap_nonneg:
  assumes "vwap bars = Inr (Some r)"
    and "\<forall>b \<in> set bars. 0 \<le> low_price b \<and> 0 \<le> high_price b \<and> 0 \<le> close_price b \<and> 0 \<le> volume b"
  shows "0 \<le> r"
proof -
  let ?w = "dsum (map (\<lambda>b. dmul (typical_price b) (of_int (volume b))) bars)"
  let ?v = "ddiv ?w (of_int (sum_list (map volume bars)))"
  from assms(1) have pos: "0 < sum_list (map volume bars)" and q: "some_q4 ?v = Inr (Some r)"
    by (auto simp: vwap_def Let_def split: if_splits)
  have "0 \<le> ?w" using assms(2)
    by (intro dsum_nonneg) (auto simp: typical_price_def intro!: dmul_nonneg ddiv_nonneg dadd_nonneg)
  with pos have "0 \<le> ?v" by (intro ddiv_nonneg) simp_all
  with q show ?thesis using some_q4_int_bounds(1) [of ?v r 0] by simp
qed

lemma opening_range_bounds:
  assumes "opening_range bars m = (Some h, Some l)"
    and "b \<in> set bars" "ist_date (started_at b) = ist_date (started_at (last bars))"
    and "0 \<le> minutes_since_open b" "minutes_since_open b < m"
  shows "high_price b \<le> h \<and> l \<le> low_price b"
proof -
  let ?s = "filter (\<lambda>b. ist_date (started_at b) = ist_date (started_at (last bars))
      \<and> 0 \<le> minutes_since_open b \<and> minutes_since_open b < m) bars"
  have b: "b \<in> set ?s" using assms(2-5) by simp
  then have ne: "?s \<noteq> []" by (metis empty_iff empty_set)
  from assms(1) ne have "h = py_max (map high_price ?s)" "l = py_min (map low_price ?s)"
    by (auto simp: opening_range_def Let_def split: if_splits)
  with ne have "h = Max (high_price ` set ?s)" "l = Min (low_price ` set ?s)"
    by (simp_all add: py_max_eq py_min_eq)
  with b show ?thesis by (auto intro: Max_ge Min_le)
qed

end
