(* ===== verification/FeatureBuilder.thy ===== *)
theory FeatureBuilder
  imports Indicators "HOL-Library.Multiset"
begin

section \<open>Feature snapshots\<close>

text \<open>
  \<^verbatim>\<open>app/analysis/feature_builder.py\<close> and the snapshot classes of \<^verbatim>\<open>app/analysis/schemas.py\<close>: the
  split of loaded candles into session scopes, the indicator snapshot, the data quality flags and
  the feature snapshot with its dictionary form. \<open>sort_key\<close> is stable, as Python's \<^verbatim>\<open>sorted\<close> is.
\<close>

subsection \<open>Data\<close>

record feature_input =
  all_bars :: "completed_bar list"
  trailing_bars :: "completed_bar list"
  current_session_bars :: "completed_bar list"
  prior_session_bars :: "completed_bar list"

record indicator_snapshot =
  ema_9 :: "dec option"
  ema_20 :: "dec option"
  ema_50 :: "dec option"
  rsi_14 :: "dec option"
  atr_14 :: "dec option"
  ind_vwap :: "dec option"
  opening_range_high :: "dec option"
  opening_range_low :: "dec option"
  previous_day_high :: "dec option"
  previous_day_low :: "dec option"
  ind_volume_ratio :: "dec option"
  relative_index_move :: "dec option"
  ind_spread_pct :: "dec option"

definition indicator_as_dict :: "indicator_snapshot \<Rightarrow> (string \<times> json) list" where
  "indicator_as_dict i =
     [(''ema_9'', jopt JDec (ema_9 i)),
      (''ema_20'', jopt JDec (ema_20 i)),
      (''ema_50'', jopt JDec (ema_50 i)),
      (''rsi_14'', jopt JDec (rsi_14 i)),
      (''atr_14'', jopt JDec (atr_14 i)),
      (''vwap'', jopt JDec (ind_vwap i)),
      (''opening_range_high'', jopt JDec (opening_range_high i)),
      (''opening_range_low'', jopt JDec (opening_range_low i)),
      (''previous_day_high'', jopt JDec (previous_day_high i)),
      (''previous_day_low'', jopt JDec (previous_day_low i)),
      (''volume_ratio'', jopt JDec (ind_volume_ratio i)),
      (''relative_index_move'', jopt JDec (relative_index_move i)),
      (''spread_pct'', jopt JDec (ind_spread_pct i))]"

record data_quality =
  history_complete :: bool
  quote_fresh :: bool
  spread_available :: bool
  dq_candle_continuity_ok :: bool
  session_start_available :: bool
  opening_range_complete :: bool
  current_session_complete_through_latest :: bool

definition quality_as_dict :: "data_quality \<Rightarrow> (string \<times> json) list" where
  "quality_as_dict q =
     [(''history_complete'', JBool (history_complete q)),
      (''quote_fresh'', JBool (quote_fresh q)),
      (''spread_available'', JBool (spread_available q)),
      (''candle_continuity_ok'', JBool (dq_candle_continuity_ok q)),
      (''session_start_available'', JBool (session_start_available q)),
      (''opening_range_complete'', JBool (opening_range_complete q)),
      (''current_session_complete_through_latest'',
        JBool (current_session_complete_through_latest q))]"

record feature_snapshot =
  snap_symbol :: string
  snap_timeframe :: string
  bar_closed_at :: instant
  snap_strategy_name :: string
  snap_strategy_version :: string
  indicator_values :: indicator_snapshot
  snap_data_quality :: data_quality
  snap_signal_status :: string
  snap_veto_reasons :: "string list"
  future_live_qualification :: "(string \<times> json) list"

definition snapshot_as_dict :: "feature_snapshot \<Rightarrow> (string \<times> json) list" where
  "snapshot_as_dict f =
     [(''symbol'', JStr (snap_symbol f)),
      (''timeframe'', JStr (snap_timeframe f)),
      (''bar_closed_at'', JStr (isoformat (bar_closed_at f))),
      (''strategy_name'', JStr (snap_strategy_name f)),
      (''strategy_version'', JStr (snap_strategy_version f)),
      (''indicator_values'', JObj (indicator_as_dict (indicator_values f))),
      (''data_quality'', JObj (quality_as_dict (snap_data_quality f))),
      (''signal_status'', JStr (snap_signal_status f)),
      (''veto_reasons'', jstrs (snap_veto_reasons f)),
      (''future_live_qualification'', JObj (future_live_qualification f))]"

definition strategy_version_const :: string where
  "strategy_version_const = ''p05_v1''"

subsection \<open>Session scopes\<close>

definition session_date :: "completed_bar \<Rightarrow> date" where
  "session_date b = ist_date (started_at b)"

definition is_regular_session_bar :: "completed_bar \<Rightarrow> bool" where
  "is_regular_session_bar b = (nse_open \<le> ist_time (started_at b))"

definition build_feature_input :: "completed_bar list \<Rightarrow> feature_input" where
  "build_feature_input bars =
     (let ordered = sort_key started_at bars;
          regular = filter is_regular_session_bar ordered
      in if ordered = []
         then \<lparr>all_bars = [], trailing_bars = [], current_session_bars = [], prior_session_bars = []\<rparr>
         else let current_date = session_date (last ordered);
                  prior_dates = sort (remdups (filter (\<lambda>d. d < current_date) (map session_date regular)));
                  prior_date = (if prior_dates = [] then None else Some (last prior_dates))
              in \<lparr>all_bars = ordered,
                  trailing_bars = regular,
                  current_session_bars = filter (\<lambda>b. session_date b = current_date) regular,
                  prior_session_bars = filter (\<lambda>b. prior_date = Some (session_date b)) regular\<rparr>)"

definition has_session_start :: "completed_bar list \<Rightarrow> bool" where
  "has_session_start bars = (bars \<noteq> [] \<and> ist_time (started_at (hd bars)) = nse_open)"

fun consecutive_minutes :: "instant \<Rightarrow> completed_bar list \<Rightarrow> bool" where
  "consecutive_minutes expected [] = True"
| "consecutive_minutes expected (b # bs) =
     (if started_at b \<noteq> expected then False else consecutive_minutes (expected + minute_us) bs)"

definition continuous_session_prefix :: "completed_bar list \<Rightarrow> int \<Rightarrow> bool" where
  "continuous_session_prefix bars required_minutes =
     (if int (length bars) < required_minutes \<or> \<not> has_session_start bars then False
      else consecutive_minutes (started_at (hd bars)) (slice_first required_minutes bars))"

definition is_opening_range_complete :: "completed_bar list \<Rightarrow> int \<Rightarrow> string \<Rightarrow> bool" where
  "is_opening_range_complete bars opening_range_minutes timeframe =
     (if timeframe \<noteq> ''1minute'' \<or> opening_range_minutes < 1 then False
      else continuous_session_prefix bars opening_range_minutes)"

definition is_session_complete :: "completed_bar list \<Rightarrow> string \<Rightarrow> bool" where
  "is_session_complete bars timeframe =
     (if timeframe \<noteq> ''1minute'' \<or> bars = [] then False
      else continuous_session_prefix bars (int (length bars)))"

subsection \<open>Snapshots\<close>

definition build_indicator_snapshot ::
  "completed_bar list \<Rightarrow> completed_bar list \<Rightarrow> quote_context option \<Rightarrow> int \<Rightarrow> indicator_snapshot res" where
  "build_indicator_snapshot bars benchmark_bars quote_ctx opening_range_minutes =
     (let fi = build_feature_input bars;
          closes = map close_price (trailing_bars fi);
          (opening_high, opening_low) =
            opening_range (current_session_bars fi) opening_range_minutes;
          (previous_high, previous_low) =
            previous_day_high_low (prior_session_bars fi @ current_session_bars fi);
          bi = build_feature_input benchmark_bars
      in bindE (ema closes 9) (\<lambda>e9.
         bindE (ema closes 20) (\<lambda>e20.
         bindE (ema closes 50) (\<lambda>e50.
         bindE (rsi_wilder closes 14) (\<lambda>rsi.
         bindE (atr_wilder (trailing_bars fi) 14) (\<lambda>atr.
         bindE (vwap (current_session_bars fi)) (\<lambda>vw.
         bindE (volume_ratio (trailing_bars fi) 20) (\<lambda>vr.
         bindE (relative_index_movement (trailing_bars fi) (trailing_bars bi)) (\<lambda>rim.
         bindE (spread_pct quote_ctx) (\<lambda>sp.
           Inr \<lparr>ema_9 = e9, ema_20 = e20, ema_50 = e50, rsi_14 = rsi, atr_14 = atr, ind_vwap = vw,
                opening_range_high = opening_high, opening_range_low = opening_low,
                previous_day_high = previous_high, previous_day_low = previous_low,
                ind_volume_ratio = vr, relative_index_move = rim, ind_spread_pct = sp\<rparr>))))))))))"

definition indicators_complete :: "indicator_snapshot \<Rightarrow> bool" where
  "indicators_complete i =
     list_all (\<lambda>v. v \<noteq> None)
       [ema_9 i, ema_20 i, ema_50 i, rsi_14 i, atr_14 i, ind_vwap i, ind_volume_ratio i]"

text \<open>\<open>now\<close> is the reading of the clock that the source takes for an empty list of bars.\<close>

definition build_feature_snapshot ::
  "instant \<Rightarrow> string \<Rightarrow> string \<Rightarrow> completed_bar list \<Rightarrow> string \<Rightarrow> string \<Rightarrow> string list
   \<Rightarrow> completed_bar list \<Rightarrow> quote_context option \<Rightarrow> int \<Rightarrow> (string \<times> json) list
   \<Rightarrow> feature_snapshot res" where
  "build_feature_snapshot now symb timeframe bars strategy status vetoes benchmark_bars quote_ctx
     opening_range_minutes qualification =
     (let closed_at = (if bars = [] then now else started_at (last bars));
          fi = build_feature_input bars
      in bindE (build_indicator_snapshot bars benchmark_bars quote_ctx opening_range_minutes) (\<lambda>ind.
           Inr \<lparr>snap_symbol = symb, snap_timeframe = timeframe, bar_closed_at = closed_at,
                snap_strategy_name = strategy, snap_strategy_version = strategy_version_const,
                indicator_values = ind,
                snap_data_quality =
                  \<lparr>history_complete = indicators_complete ind,
                   quote_fresh = quote_ctx \<noteq> None,
                   spread_available = ind_spread_pct ind \<noteq> None,
                   dq_candle_continuity_ok =
                     candle_continuity_ok (current_session_bars fi) timeframe,
                   session_start_available = has_session_start (current_session_bars fi),
                   opening_range_complete =
                     is_opening_range_complete (current_session_bars fi) opening_range_minutes timeframe,
                   current_session_complete_through_latest =
                     is_session_complete (current_session_bars fi) timeframe\<rparr>,
                snap_signal_status = status, snap_veto_reasons = vetoes,
                future_live_qualification = qualification\<rparr>))"

subsection \<open>Facts about the scopes\<close>

lemma feature_input_sorted: "sorted (map started_at (all_bars (build_feature_input bars)))"
  by (simp add: build_feature_input_def Let_def)

lemma sorted_filter_key: "sorted (map f xs) \<Longrightarrow> sorted (map f (filter P xs))"
  by (rule sorted_filter)

lemma trailing_bars_eq:
  "trailing_bars (build_feature_input bars) = filter is_regular_session_bar (sort_key started_at bars)"
  by (simp add: build_feature_input_def Let_def)

lemma current_session_in:
  "b \<in> set (current_session_bars (build_feature_input bars)) \<Longrightarrow>
     b \<in> set bars \<and> is_regular_session_bar b
     \<and> session_date b = session_date (last (sort_key started_at bars))"
  by (auto simp: build_feature_input_def Let_def split: if_splits)

lemma consecutive_minutes_iff:
  "consecutive_minutes e bs \<longleftrightarrow> (\<forall>i < length bs. started_at (bs ! i) = e + int i * minute_us)"
proof (induction bs arbitrary: e)
  case Nil
  then show ?case by simp
next
  case (Cons b bs)
  have "(\<forall>i < length (b # bs). started_at ((b # bs) ! i) = e + int i * minute_us) \<longleftrightarrow>
      started_at b = e \<and> (\<forall>i < length bs. started_at (bs ! i) = e + minute_us + int i * minute_us)"
    by (simp add: All_less_Suc2 algebra_simps)
  with Cons show ?case by simp
qed

lemma prior_session_in:
  assumes "b \<in> set (prior_session_bars (build_feature_input bars))"
  shows "b \<in> set bars \<and> is_regular_session_bar b
     \<and> session_date b < session_date (last (sort_key started_at bars))
     \<and> (\<forall>c \<in> set bars. is_regular_session_bar c \<longrightarrow>
          session_date c < session_date (last (sort_key started_at bars)) \<longrightarrow>
          session_date c \<le> session_date b)"
proof -
  let ?reg = "filter is_regular_session_bar (sort_key started_at bars)"
  let ?cd = "session_date (last (sort_key started_at bars))"
  let ?ds = "sort (remdups (filter (\<lambda>d. d < ?cd) (map session_date ?reg)))"
  from assms have b: "b \<in> set ?reg" "?ds \<noteq> []" "session_date b = last ?ds"
    by (auto simp: build_feature_input_def Let_def split: if_splits)
  have set_ds: "set ?ds = {d \<in> session_date ` set ?reg. d < ?cd}" by auto
  from b(2,3) have "session_date b \<in> set ?ds" using last_in_set by metis
  then have lt: "session_date b < ?cd" unfolding set_ds by simp
  have "d \<le> session_date b" if "d \<in> set ?ds" for d
    using last_sorted_max [of "\<lambda>x. x" ?ds d] that b(3) by simp
  then have mx: "session_date c \<le> session_date b"
    if "c \<in> set bars" "is_regular_session_bar c" "session_date c < ?cd" for c
    using that unfolding set_ds by simp
  from b(1) lt mx show ?thesis by auto
qed

text \<open>the session scopes are separate: every bar used as current session lies on the IST date of
  the latest loaded bar, at or after 09:15, and every prior session bar lies on one earlier date, the
  latest one that has a regular bar; so a current session indicator never mixes two sessions.\<close>

theorem feature_scopes_separate:
  assumes "b \<in> set (current_session_bars (build_feature_input bars))"
    and "p \<in> set (prior_session_bars (build_feature_input bars))"
  shows "session_date p < session_date b
     \<and> nse_open \<le> ist_time (started_at b) \<and> nse_open \<le> ist_time (started_at p)
     \<and> (\<forall>c \<in> set bars. session_date c \<le> session_date b)
     \<and> (\<forall>c \<in> set bars. is_regular_session_bar c \<longrightarrow>
          session_date c \<le> session_date p \<or> session_date b \<le> session_date c)"
proof -
  let ?cd = "session_date (last (sort_key started_at bars))"
  from current_session_in [OF assms(1)] have b: "session_date b = ?cd" "is_regular_session_bar b"
    by auto
  have mx: "session_date c \<le> ?cd" if "c \<in> set bars" for c
    using last_sorted_max [of started_at "sort_key started_at bars" c] that
    by (simp add: session_date_def ist_date_mono)
  from prior_session_in [OF assms(2)] b mx show ?thesis
    by (auto simp: is_regular_session_bar_def not_le)
qed

text \<open>the features do not depend on the order in which the candles were loaded: two loads with
  the same candles, no two of which start at the same instant, give the same session scopes.\<close>

theorem feature_input_order_independent:
  assumes "mset bars = mset bars'" and "inj_on started_at (set bars)"
  shows "build_feature_input bars = build_feature_input bars'"
proof -
  have "sort_key started_at bars = sort_key started_at bars'"
    using assms by (intro sort_key_inj_key_eq) auto
  then show ?thesis by (simp add: build_feature_input_def)
qed

text \<open>a session is flagged complete through the latest bar exactly when its bars start at 09:15
  IST and follow each other minute by minute without a gap, so the n-th bar is the n-th minute.\<close>

theorem session_complete_iff:
  "is_session_complete bars timeframe \<longleftrightarrow>
     timeframe = ''1minute'' \<and> bars \<noteq> [] \<and>
     (\<forall>i < length bars. started_at (bars ! i) =
        ist_combine (session_date (hd bars)) nse_open + int i * minute_us)"
proof (cases "bars = []")
  case True
  then show ?thesis by (simp add: is_session_complete_def)
next
  case False
  have open_range: "0 \<le> nse_open" "nse_open < day_us" by (simp_all add: nse_open_def hhmm_def time_units)
  have start: "ist_time (started_at (hd bars)) = nse_open \<longleftrightarrow>
      started_at (hd bars) = ist_combine (session_date (hd bars)) nse_open"
    using ist_combine_split [of "started_at (hd bars)"] ist_time_combine [OF open_range]
    by (metis session_date_def)
  have "is_session_complete bars timeframe \<longleftrightarrow> timeframe = ''1minute'' \<and>
      ist_time (started_at (hd bars)) = nse_open \<and>
      (\<forall>i < length bars. started_at (bars ! i) = started_at (hd bars) + int i * minute_us)"
    using False
    by (simp add: is_session_complete_def continuous_session_prefix_def has_session_start_def
        slice_first_def consecutive_minutes_iff)
  also have "\<dots> \<longleftrightarrow> timeframe = ''1minute'' \<and> (\<forall>i < length bars. started_at (bars ! i) =
      ist_combine (session_date (hd bars)) nse_open + int i * minute_us)"
  proof
    assume "timeframe = ''1minute'' \<and> ist_time (started_at (hd bars)) = nse_open \<and>
      (\<forall>i < length bars. started_at (bars ! i) = started_at (hd bars) + int i * minute_us)"
    then show "timeframe = ''1minute'' \<and> (\<forall>i < length bars. started_at (bars ! i) =
      ist_combine (session_date (hd bars)) nse_open + int i * minute_us)"
      unfolding start by metis
  next
    assume *: "timeframe = ''1minute'' \<and> (\<forall>i < length bars. started_at (bars ! i) =
      ist_combine (session_date (hd bars)) nse_open + int i * minute_us)"
    moreover from False * have "started_at (hd bars) = ist_combine (session_date (hd bars)) nse_open"
      by (metis add.right_neutral hd_conv_nth length_greater_0_conv mult_zero_left of_nat_0)
    ultimately show "timeframe = ''1minute'' \<and> ist_time (started_at (hd bars)) = nse_open \<and>
      (\<forall>i < length bars. started_at (bars ! i) = started_at (hd bars) + int i * minute_us)"
      unfolding start by metis
  qed
  finally show ?thesis using False by simp
qed

end
