(* ===== verification/Strategies.thy ===== *)
theory Strategies
  imports FeatureBuilder AppConfig
begin

section \<open>Scanner vetoes and strategies\<close>

text \<open>
  \<^verbatim>\<open>app/scanners/schemas.py\<close> (configuration and evaluation), \<^verbatim>\<open>app/scanners/vetoes.py\<close> and
  \<^verbatim>\<open>app/scanners/strategies.py\<close>: the hard vetoes, the two long strategies, the future live
  qualification and the final evaluation with its signal key.
\<close>

subsection \<open>Data\<close>

definition candidate_status :: string where
  "candidate_status = ''CANDIDATE''"

definition rejected_status :: string where
  "rejected_status = ''REJECTED_SIGNAL''"

definition long_direction :: string where
  "long_direction = ''LONG''"

definition scanner_timeframe :: string where
  "scanner_timeframe = ''1minute''"

definition orb_name :: string where
  "orb_name = ''opening_range_breakout_long''"

definition vwap_name :: string where
  "vwap_name = ''vwap_pullback_continuation_long''"

definition p05_strategies :: "string list" where
  "p05_strategies = [orb_name, vwap_name]"

record scanner_config =
  sc_enabled :: bool
  sc_strategies :: "string list"
  observation_mode :: string
  future_live_eligible_strategy :: string
  opening_range_minutes :: int
  stale_after_seconds :: int
  min_volume_ratio :: dec
  max_spread_pct :: dec
  require_spread_for_future_live :: bool
  benchmark_symbol :: "string option"

record scanner_evaluation =
  ev_instrument_id :: int
  ev_symbol :: string
  ev_strategy_name :: string
  ev_signal_key :: string
  ev_status :: string
  ev_signal_time :: instant
  ev_veto_reasons :: "string list"
  ev_snapshot :: feature_snapshot
  ev_replay_run_id :: "string option"

subsection \<open>Hard vetoes\<close>

definition entry_end :: time_of_day where
  "entry_end = hhmm 14 30"

definition unsupported_symbol :: string where
  "unsupported_symbol = ''unsupported_symbol''"
definition missing_history :: string where
  "missing_history = ''missing_history''"
definition stale_quote_or_data :: string where
  "stale_quote_or_data = ''stale_quote_or_data''"
definition spread_too_wide :: string where
  "spread_too_wide = ''spread_too_wide''"
definition spread_unavailable_when_required :: string where
  "spread_unavailable_when_required = ''spread_unavailable_when_required''"
definition outside_configured_time_window :: string where
  "outside_configured_time_window = ''outside_configured_time_window''"
definition data_quality_failure :: string where
  "data_quality_failure = ''data_quality_failure''"
definition benchmark_data_missing_when_required :: string where
  "benchmark_data_missing_when_required = ''benchmark_data_missing_when_required''"
definition invalid_indicator_state :: string where
  "invalid_indicator_state = ''invalid_indicator_state''"
definition incomplete_session_context :: string where
  "incomplete_session_context = ''incomplete_session_context''"

lemmas veto_names =
  unsupported_symbol_def missing_history_def stale_quote_or_data_def spread_too_wide_def
  spread_unavailable_when_required_def outside_configured_time_window_def data_quality_failure_def
  benchmark_data_missing_when_required_def invalid_indicator_state_def
  incomplete_session_context_def

text \<open>
  \<^verbatim>\<open>_unique\<close> keeps the set of values seen and appends the new ones in order; it is \<open>uniq\<close> of
  the prelude, written as the source's loop.
\<close>

fun unique_loop :: "string set \<Rightarrow> string list \<Rightarrow> string list \<Rightarrow> string list" where
  "unique_loop seen out [] = out"
| "unique_loop seen out (v # vs) =
     (if v \<notin> seen then unique_loop (insert v seen) (out @ [v]) vs else unique_loop seen out vs)"

definition unique_values :: "string list \<Rightarrow> string list" where
  "unique_values vs = unique_loop {} [] vs"

definition hard_vetoes ::
  "string \<Rightarrow> completed_bar list \<Rightarrow> indicator_snapshot \<Rightarrow> data_quality \<Rightarrow> scanner_config
   \<Rightarrow> string \<Rightarrow> bool \<Rightarrow> string list" where
  "hard_vetoes symb bars ind quality config strategy is_stale =
     (let spread_required = (strategy = future_live_eligible_strategy config
                             \<and> require_spread_for_future_live config);
          spread_required_now = (spread_required \<and> upper (observation_mode config) \<noteq> ''SHADOW'')
      in unique_values (
           (if \<not> startswith symb ''NSE:'' then [unsupported_symbol] else [])
         @ (if \<not> history_complete quality then [missing_history] else [])
         @ (if \<not> dq_candle_continuity_ok quality then [data_quality_failure] else [])
         @ (if strategy = vwap_name \<and> \<not> current_session_complete_through_latest quality
            then [incomplete_session_context] else [])
         @ (if strategy = orb_name \<and> \<not> opening_range_complete quality
            then [incomplete_session_context] else [])
         @ (if is_stale then [stale_quote_or_data] else [])
         @ (if bars \<noteq> [] \<and> entry_end < ist_time (started_at (last bars))
            then [outside_configured_time_window] else [])
         @ (if (case benchmark_symbol config of None \<Rightarrow> False | Some b \<Rightarrow> b \<noteq> []) \<and> relative_index_move ind = None
            then [benchmark_data_missing_when_required] else [])
         @ (if spread_required_now
            then (case ind_spread_pct ind of
                    None \<Rightarrow> [spread_unavailable_when_required]
                  | Some s \<Rightarrow> if max_spread_pct config < s then [spread_too_wide] else [])
            else [])
         @ (case ind_spread_pct ind of
              None \<Rightarrow> []
            | Some s \<Rightarrow> if max_spread_pct config < s then [spread_too_wide] else [])))"

subsection \<open>Strategies\<close>

text \<open>The conditions of the two strategies; a missing indicator makes them false.\<close>

definition orb_condition :: "indicator_snapshot \<Rightarrow> completed_bar \<Rightarrow> scanner_config \<Rightarrow> bool" where
  "orb_condition ind latest config =
     (case (opening_range_high ind, ema_9 ind, ema_20 ind, ind_vwap ind, ind_volume_ratio ind) of
        (Some orh, Some e9, Some e20, Some vw, Some vr) \<Rightarrow>
          orh < close_price latest \<and> e20 < e9 \<and> vw < close_price latest
          \<and> min_volume_ratio config \<le> vr
      | _ \<Rightarrow> False)"

definition vwap_condition ::
  "indicator_snapshot \<Rightarrow> completed_bar option \<Rightarrow> completed_bar \<Rightarrow> scanner_config \<Rightarrow> bool" where
  "vwap_condition ind previous latest config =
     (case (previous, ind_vwap ind, ema_9 ind, ema_20 ind, ind_volume_ratio ind) of
        (Some prev, Some vw, Some e9, Some e20, Some vr) \<Rightarrow>
          e20 \<le> e9 \<and> close_price prev \<le> vw \<and> vw < close_price latest
          \<and> high_price prev < close_price latest \<and> min_volume_ratio config \<le> vr
      | _ \<Rightarrow> False)"

definition future_live ::
  "scanner_config \<Rightarrow> string \<Rightarrow> quote_context option \<Rightarrow> string \<Rightarrow> string list \<Rightarrow> bool
   \<Rightarrow> (string \<times> json) list res" where
  "future_live config strategy quote_ctx status vetoes is_stale =
     (let eligible = (strategy = future_live_eligible_strategy config);
          spread_required = (eligible \<and> require_spread_for_future_live config)
      in bindE (spread_pct quote_ctx) (\<lambda>sp.
           let spread_validated = (sp \<noteq> None);
               warnings = (if spread_required \<and> \<not> spread_validated
                           then [''spread_validation_missing''] else [])
                        @ (if is_stale then [''latest_bar_stale''] else [])
           in Inr [(''observation_mode'', JStr (observation_mode config)),
                   (''eligible_strategy'', JBool eligible),
                   (''spread_required'', JBool spread_required),
                   (''spread_validated'', JBool spread_validated),
                   (''future_live_qualified'',
                     JBool (eligible \<and> status = candidate_status
                            \<and> (\<not> spread_required \<or> spread_validated)
                            \<and> spread_too_wide \<notin> set vetoes \<and> \<not> is_stale)),
                   (''warnings'', jstrs warnings)]))"

definition evaluation ::
  "instant \<Rightarrow> int \<Rightarrow> string \<Rightarrow> string \<Rightarrow> string \<Rightarrow> completed_bar list \<Rightarrow> scanner_config
   \<Rightarrow> string list \<Rightarrow> completed_bar list \<Rightarrow> quote_context option \<Rightarrow> string option \<Rightarrow> bool
   \<Rightarrow> scanner_evaluation res" where
  "evaluation now instrument_id symb strategy timeframe bars config vetoes benchmark_bars quote_ctx
     replay_run_id is_stale =
     (let status = (if vetoes \<noteq> [] then rejected_status else candidate_status);
          final_vetoes = unique_values vetoes
      in bindE (future_live config strategy quote_ctx status final_vetoes is_stale) (\<lambda>fl.
         bindE (build_feature_snapshot now symb timeframe bars strategy status final_vetoes
                  benchmark_bars quote_ctx (opening_range_minutes config) fl) (\<lambda>snapshot.
         if bars = [] then Inl IndexError
         else Inr \<lparr>ev_instrument_id = instrument_id, ev_symbol = symb, ev_strategy_name = strategy,
                   ev_signal_key = join '':''
                     [(case replay_run_id of None \<Rightarrow> ''live''
                         | Some r \<Rightarrow> if r = [] then ''live'' else r),
                      symb, timeframe, strategy, snap_strategy_version snapshot,
                      isoformat (started_at (last bars))],
                   ev_status = status, ev_signal_time = started_at (last bars),
                   ev_veto_reasons = snap_veto_reasons snapshot, ev_snapshot = snapshot,
                   ev_replay_run_id = replay_run_id\<rparr>)))"

text \<open>
  Both strategies build the snapshot, collect the hard vetoes, read \<^verbatim>\<open>bars[-1]\<close> (an
  \<^verbatim>\<open>IndexError\<close> on an empty list), append a veto when their condition fails and evaluate.
\<close>

definition opening_range_breakout_long ::
  "instant \<Rightarrow> int \<Rightarrow> string \<Rightarrow> string \<Rightarrow> completed_bar list \<Rightarrow> scanner_config
   \<Rightarrow> completed_bar list \<Rightarrow> quote_context option \<Rightarrow> string option \<Rightarrow> bool
   \<Rightarrow> scanner_evaluation res" where
  "opening_range_breakout_long now instrument_id symb timeframe bars config benchmark_bars quote_ctx
     replay_run_id is_stale =
     bindE (build_feature_snapshot now symb timeframe bars orb_name rejected_status []
              benchmark_bars quote_ctx (opening_range_minutes config) []) (\<lambda>snapshot.
     let vetoes = hard_vetoes symb bars (indicator_values snapshot) (snap_data_quality snapshot)
                    config orb_name is_stale
     in if bars = [] then Inl IndexError
        else evaluation now instrument_id symb orb_name timeframe bars config
               (if orb_condition (indicator_values snapshot) (last bars) config then vetoes
                else vetoes @ [invalid_indicator_state])
               benchmark_bars quote_ctx replay_run_id is_stale)"

definition vwap_pullback_continuation_long ::
  "instant \<Rightarrow> int \<Rightarrow> string \<Rightarrow> string \<Rightarrow> completed_bar list \<Rightarrow> scanner_config
   \<Rightarrow> completed_bar list \<Rightarrow> quote_context option \<Rightarrow> string option \<Rightarrow> bool
   \<Rightarrow> scanner_evaluation res" where
  "vwap_pullback_continuation_long now instrument_id symb timeframe bars config benchmark_bars
     quote_ctx replay_run_id is_stale =
     bindE (build_feature_snapshot now symb timeframe bars vwap_name rejected_status []
              benchmark_bars quote_ctx (opening_range_minutes config) []) (\<lambda>snapshot.
     let vetoes = hard_vetoes symb bars (indicator_values snapshot) (snap_data_quality snapshot)
                    config vwap_name is_stale
     in if bars = [] then Inl IndexError
        else let previous = (if 2 \<le> length bars then Some (last (butlast bars)) else None)
             in evaluation now instrument_id symb vwap_name timeframe bars config
               (if vwap_condition (indicator_values snapshot) previous (last bars) config then vetoes
                else vetoes @ [invalid_indicator_state])
               benchmark_bars quote_ctx replay_run_id is_stale)"

definition evaluate_strategy ::
  "instant \<Rightarrow> string \<Rightarrow> int \<Rightarrow> string \<Rightarrow> string \<Rightarrow> completed_bar list \<Rightarrow> scanner_config
   \<Rightarrow> completed_bar list \<Rightarrow> quote_context option \<Rightarrow> string option \<Rightarrow> bool
   \<Rightarrow> scanner_evaluation res" where
  "evaluate_strategy now strategy instrument_id symb timeframe bars config benchmark_bars quote_ctx
     replay_run_id is_stale =
     (if strategy = orb_name
      then opening_range_breakout_long now instrument_id symb timeframe bars config benchmark_bars
             quote_ctx replay_run_id is_stale
      else if strategy = vwap_name
      then vwap_pullback_continuation_long now instrument_id symb timeframe bars config
             benchmark_bars quote_ctx replay_run_id is_stale
      else Inl (ValueError ''unsupported strategy''))"

subsection \<open>Facts\<close>

lemma unique_loop_eq: "unique_loop (set seen) out vs = out @ uniq_from seen vs"
proof (induction vs arbitrary: seen out)
  case Nil
  then show ?case by simp
next
  case (Cons v vs)
  show ?case using Cons [of seen out] Cons [of "v # seen" "out @ [v]"] by simp
qed

text \<open>The source's two duplicate removals agree.\<close>

lemma unique_values_eq_uniq: "unique_values vs = uniq vs"
  using unique_loop_eq [of "[]" "[]" vs] by (simp add: unique_values_def uniq_def)

lemma history_complete_snapshot:
  "build_feature_snapshot now symb tf bars st status v bm q m fl = Inr a \<Longrightarrow>
     history_complete (snap_data_quality a) = indicators_complete (indicator_values a)"
  by (auto simp: build_feature_snapshot_def Let_def bindE_eq_Inr)

lemma snapshot_fields:
  "build_feature_snapshot now symb tf bars st status v bm q m fl = Inr a \<Longrightarrow>
     snap_symbol a = symb \<and> snap_strategy_name a = st \<and> snap_signal_status a = status
     \<and> snap_veto_reasons a = v \<and> future_live_qualification a = fl
     \<and> snap_strategy_version a = strategy_version_const"
  by (auto simp: build_feature_snapshot_def Let_def bindE_eq_Inr)

text \<open>The evidence of two snapshots of the same bars is the same, whatever their labels.\<close>

lemma snapshot_evidence_unique:
  assumes "build_feature_snapshot now symb tf bars st status v bm q m fl = Inr a"
    and "build_feature_snapshot now symb tf bars st status' v' bm q m fl' = Inr b"
  shows "indicator_values a = indicator_values b \<and> snap_data_quality a = snap_data_quality b"
  using assms by (auto simp: build_feature_snapshot_def Let_def bindE_eq_Inr)

lemma evaluation_Inr:
  assumes "evaluation now iid symb st tf bars cfg vetoes bm q run stale = Inr ev"
  shows "bars \<noteq> [] \<and> ev_status ev = (if vetoes \<noteq> [] then rejected_status else candidate_status)
     \<and> ev_veto_reasons ev = uniq vetoes \<and> ev_signal_time ev = started_at (last bars)
     \<and> ev_symbol ev = symb \<and> ev_strategy_name ev = st \<and> ev_instrument_id ev = iid
     \<and> ev_replay_run_id ev = run
     \<and> (\<exists>fl. future_live cfg st q (ev_status ev) (uniq vetoes) stale = Inr fl
          \<and> build_feature_snapshot now symb tf bars st (ev_status ev) (uniq vetoes) bm q
              (opening_range_minutes cfg) fl = Inr (ev_snapshot ev))"
  using assms
  by (auto simp: evaluation_def Let_def bindE_eq_Inr unique_values_eq_uniq snapshot_fields
      split: if_splits)

text \<open>One case analysis for both strategies: what an evaluation was computed from.\<close>

lemma evaluate_strategy_Inr:
  assumes "evaluate_strategy now st iid symb tf bars cfg bm q run stale = Inr ev"
  obtains snapshot vetoes where
    "st = orb_name \<or> st = vwap_name"
    "build_feature_snapshot now symb tf bars st rejected_status [] bm q (opening_range_minutes cfg) []
       = Inr snapshot"
    "vetoes = hard_vetoes symb bars (indicator_values snapshot) (snap_data_quality snapshot) cfg st stale
       @ (if (if st = orb_name then orb_condition (indicator_values snapshot) (last bars) cfg
              else vwap_condition (indicator_values snapshot)
                     (if 2 \<le> length bars then Some (last (butlast bars)) else None) (last bars) cfg)
          then [] else [invalid_indicator_state])"
    "evaluation now iid symb st tf bars cfg vetoes bm q run stale = Inr ev"
proof -
  have ne: "orb_name \<noteq> vwap_name" by (simp add: orb_name_def vwap_name_def)
  from assms have st: "st = orb_name \<or> st = vwap_name"
    by (auto simp: evaluate_strategy_def split: if_splits)
  then show thesis
  proof
    assume o: "st = orb_name"
    with assms obtain sn where
      "build_feature_snapshot now symb tf bars st rejected_status [] bm q (opening_range_minutes cfg) []
        = Inr sn"
      "bars \<noteq> []"
      "evaluation now iid symb st tf bars cfg
         (hard_vetoes symb bars (indicator_values sn) (snap_data_quality sn) cfg st stale
          @ (if orb_condition (indicator_values sn) (last bars) cfg then []
             else [invalid_indicator_state])) bm q run stale = Inr ev"
      by (auto simp: evaluate_strategy_def opening_range_breakout_long_def bindE_eq_Inr Let_def
          split: if_splits)
    with o st that [of sn] show thesis by simp
  next
    assume v: "st = vwap_name"
    with assms ne obtain sn where
      "build_feature_snapshot now symb tf bars st rejected_status [] bm q (opening_range_minutes cfg) []
        = Inr sn"
      "bars \<noteq> []"
      "evaluation now iid symb st tf bars cfg
         (hard_vetoes symb bars (indicator_values sn) (snap_data_quality sn) cfg st stale
          @ (if vwap_condition (indicator_values sn)
                  (if 2 \<le> length bars then Some (last (butlast bars)) else None) (last bars) cfg
             then [] else [invalid_indicator_state])) bm q run stale = Inr ev"
      by (auto simp: evaluate_strategy_def vwap_pullback_continuation_long_def bindE_eq_Inr Let_def
          split: if_splits)
    with v st ne that [of sn] show thesis by auto
  qed
qed

lemma hard_vetoes_Nil:
  assumes "hard_vetoes symb bars ind quality cfg st stale = []"
  shows "startswith symb ''NSE:'' \<and> history_complete quality \<and> dq_candle_continuity_ok quality
     \<and> (st = vwap_name \<longrightarrow> current_session_complete_through_latest quality)
     \<and> (st = orb_name \<longrightarrow> opening_range_complete quality) \<and> \<not> stale
     \<and> (bars \<noteq> [] \<longrightarrow> ist_time (started_at (last bars)) \<le> entry_end)
     \<and> (\<forall>s. ind_spread_pct ind = Some s \<longrightarrow> s \<le> max_spread_pct cfg)"
  using assms
  by (auto simp: hard_vetoes_def Let_def unique_values_eq_uniq not_le split: if_splits option.splits)

text \<open>C1: a CANDIDATE is sound: it is emitted only for an NSE symbol with fresh, gap free data and a
  complete indicator history, whose latest bar is not after the 14:30 IST entry cutoff, when no veto
  applies and the condition of its own strategy holds on the very indicator values it records.\<close>

theorem candidate_passes_every_gate:
  assumes "evaluate_strategy now st iid symb tf bars cfg bm q run stale = Inr ev"
    and "ev_status ev = candidate_status"
  shows "startswith symb ''NSE:'' \<and> \<not> stale \<and> ev_veto_reasons ev = []
     \<and> ist_time (ev_signal_time ev) \<le> entry_end
     \<and> indicators_complete (indicator_values (ev_snapshot ev))
     \<and> dq_candle_continuity_ok (snap_data_quality (ev_snapshot ev))
     \<and> (st = orb_name \<and> opening_range_complete (snap_data_quality (ev_snapshot ev))
          \<and> orb_condition (indicator_values (ev_snapshot ev)) (last bars) cfg
        \<or> st = vwap_name \<and> current_session_complete_through_latest (snap_data_quality (ev_snapshot ev))
          \<and> 2 \<le> length bars
          \<and> vwap_condition (indicator_values (ev_snapshot ev)) (Some (last (butlast bars))) (last bars) cfg)"
  using assms(1)
proof (rule evaluate_strategy_Inr)
  fix sn vetoes
  assume st: "st = orb_name \<or> st = vwap_name"
    and sn: "build_feature_snapshot now symb tf bars st rejected_status [] bm q
      (opening_range_minutes cfg) [] = Inr sn"
    and v: "vetoes = hard_vetoes symb bars (indicator_values sn) (snap_data_quality sn) cfg st stale
       @ (if (if st = orb_name then orb_condition (indicator_values sn) (last bars) cfg
              else vwap_condition (indicator_values sn)
                     (if 2 \<le> length bars then Some (last (butlast bars)) else None) (last bars) cfg)
          then [] else [invalid_indicator_state])"
    and ev: "evaluation now iid symb st tf bars cfg vetoes bm q run stale = Inr ev"
  have ne: "orb_name \<noteq> vwap_name" "rejected_status \<noteq> candidate_status"
    by (simp_all add: orb_name_def vwap_name_def rejected_status_def candidate_status_def)
  note E = evaluation_Inr [OF ev]
  then have "ev_status ev = (if vetoes \<noteq> [] then rejected_status else candidate_status)" by blast
  with assms(2) ne have nil: "vetoes = []" by (metis (full_types))
  from E obtain fl where fl: "build_feature_snapshot now symb tf bars st (ev_status ev) (uniq vetoes) bm q
      (opening_range_minutes cfg) fl = Inr (ev_snapshot ev)" by auto
  have same: "indicator_values sn = indicator_values (ev_snapshot ev)"
    "snap_data_quality sn = snap_data_quality (ev_snapshot ev)"
    using snapshot_evidence_unique [OF sn fl] by auto
  have cond: "if st = orb_name then orb_condition (indicator_values sn) (last bars) cfg
      else vwap_condition (indicator_values sn)
             (if 2 \<le> length bars then Some (last (butlast bars)) else None) (last bars) cfg"
    using nil v by (auto split: if_splits)
  have two: "2 \<le> length bars" if "st = vwap_name"
    using cond that ne by (auto simp: vwap_condition_def split: if_splits)
  have "hard_vetoes symb bars (indicator_values sn) (snap_data_quality sn) cfg st stale = []"
    using nil v by simp
  note H = hard_vetoes_Nil [OF this]
  from E H cond two st ne nil history_complete_snapshot [OF sn]
  show ?thesis unfolding same by (auto split: if_splits)
qed

text \<open>Every evaluation is labelled consistently: its status is CANDIDATE exactly when its list of
  vetoes is empty and REJECTED_SIGNAL otherwise, no veto is listed twice, and the stored feature
  snapshot carries the same status and vetoes.\<close>

theorem evaluation_status_consistent:
  assumes "evaluate_strategy now st iid symb tf bars cfg bm q run stale = Inr ev"
  shows "ev_status ev = (if ev_veto_reasons ev = [] then candidate_status else rejected_status)
     \<and> distinct (ev_veto_reasons ev)
     \<and> snap_signal_status (ev_snapshot ev) = ev_status ev
     \<and> snap_veto_reasons (ev_snapshot ev) = ev_veto_reasons ev"
  using assms
proof (rule evaluate_strategy_Inr)
  fix vetoes
  assume ev: "evaluation now iid symb st tf bars cfg vetoes bm q run stale = Inr ev"
  from evaluation_Inr [OF ev] show ?thesis by (auto dest: snapshot_fields)
qed

text \<open>a signal is marked qualified for future live use only when it is a CANDIDATE of the single
  eligible strategy, is not stale and, where a validated spread is required, has a quote whose spread
  is known; the scanner services pass no quote, so there a required spread always disqualifies.\<close>

theorem future_live_requires_gates:
  assumes "future_live cfg st q status vetoes stale = Inr d"
    and "jget d ''future_live_qualified'' = JBool True"
  shows "st = future_live_eligible_strategy cfg \<and> status = candidate_status \<and> \<not> stale
     \<and> spread_too_wide \<notin> set vetoes
     \<and> (require_spread_for_future_live cfg \<longrightarrow> (\<exists>r. spread_pct q = Inr (Some r)) \<and> q \<noteq> None)"
proof -
  have none: "spread_pct None = Inr None" by (simp add: spread_pct_def)
  from assms show ?thesis
    by (cases q) (auto simp: future_live_def Let_def bindE_eq_Inr none)
qed

end
