(* ===== verification/SessionExamples.thy ===== *)
theory SessionExamples
  imports Strategies
begin

section \<open>A concrete trading session\<close>

text \<open>
  One session on which the strategies, and later the components that read their evaluations, are
  evaluated: 55 minute candles from 09:15 IST at the price 100 and one candle at 110 on twice the
  volume. Its lemmas compute every indicator; the breakout strategy emits a CANDIDATE on it.
\<close>

definition demo_bar :: "nat \<Rightarrow> int \<Rightarrow> int \<Rightarrow> completed_bar" where
  "demo_bar i p v = \<lparr>bar_instrument_id = 1, bar_symbol = ''NSE:SBIN'', bar_timeframe = ''1minute'',
     started_at = ist_combine 20607 nse_open + int i * minute_us, open_price = of_int p,
     high_price = of_int p, low_price = of_int p, close_price = of_int p, volume = v\<rparr>"

definition demo_bars :: "completed_bar list" where
  "demo_bars = map (\<lambda>i. demo_bar i 100 100) [0..<55] @ [demo_bar 55 110 200]"

definition demo_config :: scanner_config where
  "demo_config = \<lparr>sc_enabled = True, sc_strategies = p05_strategies, observation_mode = ''SHADOW'',
     future_live_eligible_strategy = orb_name, opening_range_minutes = 15, stale_after_seconds = 10,
     min_volume_ratio = 3 / 2, max_spread_pct = 1 / 5, require_spread_for_future_live = True,
     benchmark_symbol = None\<rparr>"

lemmas demo_bar_fields = demo_bar_def completed_bar.select_convs

lemma demo_length: "length demo_bars = 56"
  by (simp add: demo_bars_def)

lemma demo_nonempty [simp]: "demo_bars \<noteq> []"
  by (simp add: demo_bars_def)

lemma demo_last: "last demo_bars = demo_bar 55 110 200"
  by (simp add: demo_bars_def)

lemma demo_hd: "hd demo_bars = demo_bar 0 100 100"
  by (simp add: demo_bars_def upt_rec)

lemma demo_bar_time:
  assumes "i < 56"
  shows "ist_date (started_at (demo_bar i p v)) = 20607"
    and "ist_time (started_at (demo_bar i p v)) = nse_open + int i * minute_us"
proof -
  have r: "0 \<le> nse_open + int i * minute_us" "nse_open + int i * minute_us < day_us"
    using assms by (simp_all add: nse_open_def hhmm_def time_units)
  have eq: "started_at (demo_bar i p v) = ist_combine 20607 (nse_open + int i * minute_us)"
    by (simp add: demo_bar_def ist_combine_def)
  show "ist_date (started_at (demo_bar i p v)) = 20607"
    unfolding eq by (rule ist_date_combine [OF r])
  show "ist_time (started_at (demo_bar i p v)) = nse_open + int i * minute_us"
    unfolding eq by (rule ist_time_combine [OF r])
qed

lemma demo_in: "b \<in> set demo_bars \<Longrightarrow> \<exists>i p v. i < 56 \<and> b = demo_bar i p v"
proof -
  assume "b \<in> set demo_bars"
  then consider "b = demo_bar 55 110 200" | i where "i < 55" "b = demo_bar i 100 100"
    by (auto simp: demo_bars_def)
  then show ?thesis
  proof cases
    case 1
    then have "55 < (56 :: nat) \<and> b = demo_bar 55 110 200" by simp
    then show ?thesis by blast
  next
    case (2 i)
    then have "i < 56 \<and> b = demo_bar i 100 100" by simp
    then show ?thesis by blast
  qed
qed

lemma demo_nth: "i < 56 \<Longrightarrow> started_at (demo_bars ! i) = ist_combine 20607 nse_open + int i * minute_us"
  by (cases "i = 55") (auto simp: demo_bars_def nth_append demo_bar_def)

lemma demo_sorted: "sorted (map started_at demo_bars)"
  unfolding sorted_iff_nth_mono
  by (auto simp: demo_length demo_nth minute_us_def)

lemma demo_regular: "b \<in> set demo_bars \<Longrightarrow> is_regular_session_bar b"
  by (auto dest!: demo_in simp: is_regular_session_bar_def demo_bar_time minute_us_def)

lemma demo_date: "b \<in> set demo_bars \<Longrightarrow> session_date b = 20607"
  by (auto dest!: demo_in simp: session_date_def demo_bar_time)

lemma demo_scopes:
  "trailing_bars (build_feature_input demo_bars) = demo_bars"
  "current_session_bars (build_feature_input demo_bars) = demo_bars"
  "prior_session_bars (build_feature_input demo_bars) = []"
proof -
  have s: "sort_key started_at demo_bars = demo_bars"
    by (rule sort_key_id_if_sorted) (rule demo_sorted)
  have f: "filter is_regular_session_bar demo_bars = demo_bars"
    by (rule filter_True) (simp add: demo_regular)
  have l: "session_date (last demo_bars) = 20607"
    by (rule demo_date) simp
  have m: "map session_date demo_bars = replicate 56 20607"
    by (rule nth_equalityI) (auto simp: demo_length intro!: demo_date)
  have c: "filter (\<lambda>b. session_date b = 20607) demo_bars = demo_bars"
    by (rule filter_True) (simp add: demo_date)
  show "trailing_bars (build_feature_input demo_bars) = demo_bars"
    by (simp add: trailing_bars_eq s f)
  show "current_session_bars (build_feature_input demo_bars) = demo_bars"
    by (simp add: build_feature_input_def s f l c Let_def)
  show "prior_session_bars (build_feature_input demo_bars) = []"
    by (simp add: build_feature_input_def s f l m Let_def)
qed

subsection \<open>Its indicators\<close>

lemma demo_closes: "map close_price demo_bars = replicate 55 100 @ [110]"
proof -
  have "map (\<lambda>i. close_price (demo_bar i 100 100)) [0..<55] = replicate 55 100"
    by (rule nth_equalityI) (simp_all add: demo_bar_def)
  then show ?thesis by (simp add: demo_bars_def comp_def demo_bar_def)
qed

lemma ema_constant_then:
  assumes "1 \<le> p" "p \<le> 55"
  shows "ema (replicate 55 100 @ [110]) (int p)
    = some_q4 (dadd (dmul 10 (ddiv 2 (of_nat p + 1))) 100)"
proof -
  have sum: "dsum (replicate p 100) = of_nat p * 100"
    using dsum_replicate_int [of p 100] assms by simp
  have seed: "ddiv (of_nat p * 100) (of_nat p) = 100"
    using assms dfix_of_int [of 100] by (simp add: ddiv_def)
  have flat: "ema_loop m 100 (replicate n 100 @ [v]) = dadd (dmul (dsub v 100) m) 100" for m n v
    using dfix_of_int [of 100] by (induction n) (simp_all add: dadd_def)
  have sub: "dsub 110 100 = 10" using dfix_of_int [of 10] by (simp add: dsub_def)
  show ?thesis
    using assms by (simp add: ema_def sum seed flat sub min_def add.commute)
qed

lemma demo_ema:
  "ema (map close_price demo_bars) 9 = Inr (Some 102)"
  "ema (map close_price demo_bars) 20 = Inr (Some (1009524 / 10000))"
  "ema (map close_price demo_bars) 50 = Inr (Some (1003922 / 10000))"
proof -
  have "ddiv 2 10 = 1 / 5" using dfix_near [of 2000000000000000000000000000 "1 / 5" 28]
    by (simp add: ddiv_def)
  moreover have "dmul 10 (1 / 5) = 2" using dfix_of_int [of 2] by (simp add: dmul_def)
  moreover have "dadd 2 100 = 102" using dfix_of_int [of 102] by (simp add: dadd_def)
  moreover have "some_q4 102 = Inr (Some 102)"
    using quantize_up_near [of 102 4 1020000] by (simp add: some_q4_def q4_def)
  moreover have "ema (map close_price demo_bars) 9 = some_q4 (dadd (dmul 10 (ddiv 2 10)) 100)"
    using ema_constant_then [of 9] by (simp add: demo_closes)
  ultimately show "ema (map close_price demo_bars) 9 = Inr (Some 102)" by metis
next
  have "ddiv 2 21 = 9523809523809523809523809524 / 10 ^ 29"
    using dfix_near [of 9523809523809523809523809524 "2 / 21" 29] by (simp add: ddiv_def)
  moreover have "dmul 10 (9523809523809523809523809524 / 10 ^ 29) = 9523809523809523809523809524 / 10 ^ 28"
    using dfix_near [of 9523809523809523809523809524 "9523809523809523809523809524 / 10 ^ 28" 28]
    by (simp add: dmul_def)
  moreover have "dadd (9523809523809523809523809524 / 10 ^ 28) 100 = 1009523809523809523809523810 / 10 ^ 25"
    using dfix_near [of 1009523809523809523809523810 "9523809523809523809523809524 / 10 ^ 28 + 100" 25]
    by (simp add: dadd_def)
  moreover have "some_q4 (1009523809523809523809523810 / 10 ^ 25) = Inr (Some (1009524 / 10000))"
    using quantize_up_near [of "1009523809523809523809523810 / 10 ^ 25" 4 1009524]
    by (simp add: some_q4_def q4_def)
  moreover have "ema (map close_price demo_bars) 20 = some_q4 (dadd (dmul 10 (ddiv 2 21)) 100)"
    using ema_constant_then [of 20] by (simp add: demo_closes)
  ultimately show "ema (map close_price demo_bars) 20 = Inr (Some (1009524 / 10000))" by metis
next
  have "ddiv 2 51 = 3921568627450980392156862745 / 10 ^ 29"
    using dfix_near [of 3921568627450980392156862745 "2 / 51" 29] by (simp add: ddiv_def)
  moreover have "dmul 10 (3921568627450980392156862745 / 10 ^ 29) = 3921568627450980392156862745 / 10 ^ 28"
    using dfix_near [of 3921568627450980392156862745 "3921568627450980392156862745 / 10 ^ 28" 28]
    by (simp add: dmul_def)
  moreover have "dadd (3921568627450980392156862745 / 10 ^ 28) 100 = 1003921568627450980392156863 / 10 ^ 25"
    using dfix_near [of 1003921568627450980392156863 "3921568627450980392156862745 / 10 ^ 28 + 100" 25]
    by (simp add: dadd_def)
  moreover have "some_q4 (1003921568627450980392156863 / 10 ^ 25) = Inr (Some (1003922 / 10000))"
    using quantize_up_near [of "1003921568627450980392156863 / 10 ^ 25" 4 1003922]
    by (simp add: some_q4_def q4_def)
  moreover have "ema (map close_price demo_bars) 50 = some_q4 (dadd (dmul 10 (ddiv 2 51)) 100)"
    using ema_constant_then [of 50] by (simp add: demo_closes)
  ultimately show "ema (map close_price demo_bars) 50 = Inr (Some (1003922 / 10000))" by metis
qed

lemma demo_rsi: "rsi_wilder (map close_price demo_bars) 14 = Inr (Some 100)"
proof -
  let ?xs = "replicate 55 (100 :: dec) @ [110]"
  have rise: "loss_of pc = 0" if "fst pc \<le> snd pc" for pc
  proof -
    have "dneg (dsub (snd pc) (fst pc)) \<le> 0" using that by (simp add: dneg_def not_less [symmetric])
    then show ?thesis by (simp add: loss_of_def max_def)
  qed
  have zero: "foldl (wilder n) 0 (replicate k 0) = 0" for n k
    by (induction k) (simp_all add: wilder_def ddiv_def dadd_def)
  have "map loss_of (zip (take 14 ?xs) (take 14 (drop 1 ?xs))) = replicate 14 0"
    by (rule nth_equalityI) (auto simp: rise)
  moreover have "map loss_of (zip (butlast (drop 14 ?xs)) (drop 15 ?xs)) = replicate 41 0"
    by (rule nth_equalityI) (auto simp: nth_append rise)
  moreover have "dsum (replicate 14 0) = 0" using dsum_replicate_int [of 14 0] by simp
  ultimately show ?thesis
    by (simp add: demo_closes rsi_wilder_def Let_def zero ddiv_def del: replicate.simps)
qed

lemma demo_atr: "atr_wilder demo_bars 14 = Inr (Some (7143 / 10000))"
proof -
  define trs where "trs = map true_range (neighbours demo_bars)"
  have len: "length trs = 55" by (simp add: trs_def neighbours_def demo_length)
  have nth: "trs ! i = true_range (demo_bars ! i, demo_bars ! Suc i)" if "i < 55" for i
    using that by (simp add: trs_def neighbours_def demo_length nth_butlast nth_tl)
  have flat: "trs ! i = 0" if "i < 54" for i
    using that by (simp add: nth demo_bars_def nth_append demo_bar_def true_range_def dabs_def)
  have ten: "dsub 110 100 = 10" "dabs 10 = 10"
    using dfix_of_int [of 10] by (simp_all add: dsub_def dabs_def)
  have last: "trs ! 54 = 10"
    by (simp add: nth demo_bars_def nth_append demo_bar_def true_range_def ten)
  have first: "take 14 trs = replicate 14 0"
    by (rule nth_equalityI) (simp_all add: len flat)
  have rest: "drop 14 trs = replicate 40 0 @ [10]"
  proof (rule nth_equalityI)
    fix i assume "i < length (drop 14 trs)"
    then show "drop 14 trs ! i = (replicate 40 0 @ [10]) ! i"
      by (cases "i = 40") (simp_all add: len flat last nth_append)
  qed (simp add: len)
  have zero: "foldl (wilder n) 0 (replicate k 0) = 0" for n k
    by (induction k) (simp_all add: wilder_def ddiv_def dadd_def)
  have "dsum (replicate 14 0) = 0" using dsum_replicate_int [of 14 0] by simp
  moreover have "wilder 14 0 10 = 7142857142857142857142857143 / 10 ^ 28"
    using dfix_of_int [of 10] dfix_near [of 7142857142857142857142857143 "10 / 14" 28]
    by (simp add: wilder_def ddiv_def dadd_def)
  moreover have "some_q4 (7142857142857142857142857143 / 10 ^ 28) = Inr (Some (7143 / 10000))"
    using quantize_up_near [of "7142857142857142857142857143 / 10 ^ 28" 4 7143]
    by (simp add: some_q4_def q4_def)
  moreover have "atr_wilder demo_bars 14 = some_q4 (wilder 14 0 10)"
    if "dsum (replicate 14 0) = 0"
    unfolding atr_wilder_def Let_def trs_def [symmetric] first rest
    by (simp add: demo_length zero that ddiv_def del: replicate.simps)
  ultimately show ?thesis by metis
qed

lemma demo_vwap: "vwap demo_bars = Inr (Some (1003509 / 10000))"
proof -
  have vol: "sum_list (map volume demo_bars) = 5700"
    by (simp add: demo_bars_def comp_def demo_bar_def sum_list_triv)
  have typical: "typical_price (demo_bar i 100 v) = 100" "typical_price (demo_bar i 110 v) = 110" for i v
    using dfix_of_int [of 200] dfix_of_int [of 300] dfix_of_int [of 100]
      dfix_of_int [of 220] dfix_of_int [of 330] dfix_of_int [of 110]
    by (simp_all add: typical_price_def demo_bar_def dadd_def ddiv_def)
  have vols: "volume (demo_bar i p v) = v" for i p v by (simp add: demo_bar_def)
  have prod: "dmul 100 100 = 10000" "dmul 110 200 = 22000"
    using dfix_of_int [of 10000] dfix_of_int [of 22000] by (simp_all add: dmul_def)
  have "map (\<lambda>b. dmul (typical_price b) (of_int (volume b))) demo_bars
      = map (\<lambda>i. 10000) [0..<55] @ [22000]"
    by (simp add: demo_bars_def comp_def typical vols prod)
  also have "\<dots> = replicate 55 10000 @ [22000]" by (simp add: map_replicate_const)
  finally have m: "map (\<lambda>b. dmul (typical_price b) (of_int (volume b))) demo_bars
      = replicate 55 10000 @ [22000]" .
  have "dsum (replicate 55 10000 @ [22000]) = dadd (dsum (replicate 55 10000)) 22000"
    by (simp add: dsum_def)
  also have "\<dots> = 572000"
    using dsum_replicate_int [of 55 10000] dfix_of_int [of 572000] by (simp add: dadd_def)
  finally have d: "dsum (replicate 55 10000 @ [22000]) = 572000" .
  have "ddiv 572000 5700 = 1003508771929824561403508772 / 10 ^ 25"
    using dfix_near [of 1003508771929824561403508772 "572000 / 5700" 25] by (simp add: ddiv_def)
  moreover have "some_q4 (1003508771929824561403508772 / 10 ^ 25) = Inr (Some (1003509 / 10000))"
    using quantize_up_near [of "1003508771929824561403508772 / 10 ^ 25" 4 1003509]
    by (simp add: some_q4_def q4_def)
  ultimately show ?thesis
    by (simp only: vwap_def Let_def vol m d demo_nonempty) (simp del: power_numeral)
qed

lemma demo_volume_ratio: "volume_ratio demo_bars 20 = Inr (Some 2)"
proof -
  let ?base = "butlast (drop 35 demo_bars)"
  have "map (\<lambda>b. of_int (volume b)) ?base = replicate 20 (100 :: dec)"
    by (rule nth_equalityI)
      (simp_all add: demo_length nth_butlast demo_bars_def nth_append demo_bar_def)
  moreover have "dsum (replicate 20 100) = 2000" using dsum_replicate_int [of 20 100] by simp
  moreover have "ddiv 2000 20 = 100" "ddiv 200 100 = 2"
    using dfix_of_int [of 100] dfix_of_int [of 2] by (simp_all add: ddiv_def)
  moreover have "some_q4 2 = Inr (Some 2)"
    using quantize_up_near [of 2 4 20000] by (simp add: some_q4_def q4_def)
  moreover have "volume (last demo_bars) = 200" by (simp add: demo_last demo_bar_def)
  ultimately show ?thesis by (simp add: volume_ratio_def demo_length Let_def)
qed

lemma demo_opening_range: "opening_range demo_bars 15 = (Some 100, Some 100)"
proof -
  define sel where "sel = filter (\<lambda>b. ist_date (started_at b) = ist_date (started_at (last demo_bars))
      \<and> 0 \<le> minutes_since_open b \<and> minutes_since_open b < 15) demo_bars"
  have mins: "minutes_since_open (demo_bar i p v) = int i" if "i < 56" for i p v
  proof -
    have t: "ist_time (started_at (demo_bar i p v)) = (555 + int i) * minute_us"
      using that by (simp add: demo_bar_time nse_open_def hhmm_def algebra_simps)
    have "time_hour ((555 + int i) * minute_us) = (555 + int i) div 60"
      unfolding time_hour_def by (rule div_mult_mult2) (simp add: minute_us_def)
    moreover have "time_minute ((555 + int i) * minute_us) = (555 + int i) mod 60"
      by (simp add: time_minute_def minute_us_def)
    moreover have "time_hour nse_open = 9" "time_minute nse_open = 15"
      by (simp_all add: time_hour_def time_minute_def nse_open_def hhmm_def minute_us_def)
    moreover have "(555 + int i) div 60 * 60 + (555 + int i) mod 60 = 555 + int i"
      by (rule div_mult_mod_eq)
    ultimately show ?thesis by (simp add: minutes_since_open_def t)
  qed
  have "demo_bar 0 100 100 \<in> set sel"
    by (auto simp: sel_def demo_last demo_bar_time mins demo_bars_def)
  then have ne: "sel \<noteq> []" by auto
  have price: "high_price b = 100 \<and> low_price b = 100" if "b \<in> set sel" for b
    using that by (auto simp: sel_def demo_bars_def mins) (auto simp: demo_bar_def)
  have "high_price ` set sel = {100}" "low_price ` set sel = {100}"
    using ne price by (auto simp: image_iff) (metis last_in_set)+
  then have "py_max (map high_price sel) = 100" "py_min (map low_price sel) = 100"
    using ne by (simp_all add: py_max_eq py_min_eq)
  then show ?thesis using ne unfolding opening_range_def Let_def sel_def [symmetric]
    by simp
qed

subsection \<open>Its snapshot and evaluation\<close>

definition demo_indicators :: indicator_snapshot where
  "demo_indicators =
     \<lparr>ema_9 = Some 102, ema_20 = Some (1009524 / 10000), ema_50 = Some (1003922 / 10000),
      rsi_14 = Some 100, atr_14 = Some (7143 / 10000), ind_vwap = Some (1003509 / 10000),
      opening_range_high = Some 100, opening_range_low = Some 100, previous_day_high = None,
      previous_day_low = None, ind_volume_ratio = Some 2, relative_index_move = None,
      ind_spread_pct = None\<rparr>"

lemma demo_previous_day: "previous_day_high_low demo_bars = (None, None)"
proof -
  have "filter (\<lambda>b. ist_date (started_at b) < ist_date (started_at (last demo_bars))) demo_bars = []"
    by (auto simp: filter_empty_conv demo_last demo_bar_time dest!: demo_in)
  then show ?thesis by (simp add: previous_day_high_low_def Let_def)
qed

lemma no_benchmark_scopes: "trailing_bars (build_feature_input []) = []"
  by (simp add: build_feature_input_def)

lemma demo_indicator_snapshot:
  "build_indicator_snapshot demo_bars [] None 15 = Inr demo_indicators"
  by (simp add: build_indicator_snapshot_def Let_def demo_scopes demo_opening_range
      demo_previous_day demo_ema demo_rsi demo_atr demo_vwap demo_volume_ratio spread_pct_def
      relative_index_movement_def no_benchmark_scopes demo_indicators_def)

definition demo_quality :: data_quality where
  "demo_quality = \<lparr>history_complete = True, quote_fresh = False, spread_available = False,
     dq_candle_continuity_ok = True, session_start_available = True, opening_range_complete = True,
     current_session_complete_through_latest = True\<rparr>"

lemma demo_minutes: "consecutive_minutes (started_at (hd demo_bars)) (take n demo_bars)"
  by (auto simp: consecutive_minutes_iff demo_length demo_nth demo_hd) (simp add: demo_bar_def)

lemma demo_start: "has_session_start demo_bars"
  by (simp add: has_session_start_def demo_hd demo_bar_time)

lemma demo_continuity: "candle_continuity_ok demo_bars ''1minute''"
proof -
  have "whole_seconds (started_at c - started_at p) = 60" if "(p, c) \<in> set (neighbours demo_bars)" for p c
    using that by (auto simp: neighbours_def in_set_zip nth_butlast nth_tl demo_length demo_nth
        whole_seconds_def minute_us_def second_us_def algebra_simps)
  then show ?thesis by (auto simp: candle_continuity_ok_def list_all_iff)
qed

lemma demo_feature_snapshot:
  "build_feature_snapshot now symb ''1minute'' demo_bars st status v [] None 15 fl =
     Inr \<lparr>snap_symbol = symb, snap_timeframe = ''1minute'', bar_closed_at = started_at (last demo_bars),
          snap_strategy_name = st, snap_strategy_version = strategy_version_const,
          indicator_values = demo_indicators, snap_data_quality = demo_quality,
          snap_signal_status = status, snap_veto_reasons = v, future_live_qualification = fl\<rparr>"
proof -
  have "indicators_complete demo_indicators" "ind_spread_pct demo_indicators = None"
    by (simp_all add: indicators_complete_def demo_indicators_def del: not_None_eq)
  moreover have "is_opening_range_complete demo_bars 15 ''1minute''"
    "is_session_complete demo_bars ''1minute''"
    by (simp_all add: is_opening_range_complete_def is_session_complete_def
        continuous_session_prefix_def slice_first_def demo_length demo_start demo_minutes
        demo_minutes [of 56, simplified demo_length [symmetric] take_all [OF order.refl]])
  ultimately show ?thesis
    by (simp add: build_feature_snapshot_def Let_def demo_scopes demo_indicator_snapshot
        demo_quality_def demo_continuity demo_start)
qed

lemma demo_no_veto:
  "hard_vetoes ''NSE:SBIN'' demo_bars demo_indicators demo_quality demo_config orb_name False = []"
proof -
  have "ist_time (started_at (last demo_bars)) \<le> entry_end"
    by (simp add: demo_last demo_bar_time entry_end_def nse_open_def hhmm_def minute_us_def)
  then show ?thesis
    by (simp add: hard_vetoes_def Let_def unique_values_def demo_quality_def demo_indicators_def
        demo_config_def orb_name_def vwap_name_def str_simps)
qed

lemma demo_orb: "orb_condition demo_indicators (last demo_bars) demo_config"
  by (simp add: orb_condition_def demo_indicators_def demo_config_def demo_last demo_bar_def)

text \<open>The breakout strategy emits a CANDIDATE on the session.\<close>

lemma demo_candidate:
  "\<exists>ev. evaluate_strategy now orb_name 1 ''NSE:SBIN'' ''1minute'' demo_bars demo_config [] None run False
      = Inr ev \<and> ev_status ev = candidate_status \<and> ev_symbol ev = ''NSE:SBIN''
    \<and> ev_signal_time ev = started_at (last demo_bars)
    \<and> indicator_values (ev_snapshot ev) = demo_indicators"
proof -
  have m: "opening_range_minutes demo_config = 15" by (simp add: demo_config_def)
  show ?thesis
    by (simp add: evaluate_strategy_def opening_range_breakout_long_def m demo_feature_snapshot
        demo_no_veto demo_orb evaluation_def unique_values_def future_live_def spread_pct_def Let_def)
qed

lemma candidate_passes_every_gate_witness:
  "\<exists>ev. evaluate_strategy 0 orb_name 1 ''NSE:SBIN'' ''1minute'' demo_bars demo_config [] None None False
      = Inr ev \<and> ev_status ev = candidate_status \<and> ev_veto_reasons ev = []
    \<and> ist_time (ev_signal_time ev) \<le> entry_end"
proof -
  obtain ev where ev: "evaluate_strategy 0 orb_name 1 ''NSE:SBIN'' ''1minute'' demo_bars demo_config
      [] None None False = Inr ev" and st: "ev_status ev = candidate_status"
    using demo_candidate [of 0 None] by blast
  from candidate_passes_every_gate [OF ev st] ev st show ?thesis by blast
qed

lemma evaluation_status_consistent_witness:
  "\<exists>ev. evaluate_strategy 0 orb_name 1 ''NSE:SBIN'' ''1minute'' demo_bars demo_config [] None None False
      = Inr ev \<and> ev_status ev = candidate_status \<and> distinct (ev_veto_reasons ev)
    \<and> snap_signal_status (ev_snapshot ev) = candidate_status"
proof -
  obtain ev where ev: "evaluate_strategy 0 orb_name 1 ''NSE:SBIN'' ''1minute'' demo_bars demo_config
      [] None None False = Inr ev" and st: "ev_status ev = candidate_status"
    using demo_candidate [of 0 None] by blast
  from evaluation_status_consistent [OF ev] ev st show ?thesis by auto
qed

definition demo_quote :: quote_context where
  "demo_quote = \<lparr>bid_price = Some 100, ask_price = Some 100, quote_time = None\<rparr>"

lemma demo_spread: "spread_pct (Some demo_quote) = Inr (Some 0)"
  by code_simp

lemma future_live_requires_gates_witness:
  "\<exists>d. future_live demo_config orb_name (Some demo_quote) candidate_status [] False = Inr d
    \<and> jget d ''future_live_qualified'' = JBool True
    \<and> (require_spread_for_future_live demo_config
       \<longrightarrow> (\<exists>r. spread_pct (Some demo_quote) = Inr (Some r)))"
proof -
  obtain d where d: "future_live demo_config orb_name (Some demo_quote) candidate_status [] False = Inr d"
    and q: "jget d ''future_live_qualified'' = JBool True"
    by (simp add: future_live_def demo_spread demo_config_def Let_def)
  from future_live_requires_gates [OF d q] d q show ?thesis by blast
qed

text \<open>Two bars of consecutive days, in both loading orders.\<close>

definition demo_prior_bar :: completed_bar where
  "demo_prior_bar = (demo_bar 0 90 10)\<lparr>started_at := ist_combine 20606 nse_open\<rparr>"

lemma feature_scopes_separate_witness:
  "demo_bar 0 100 100 \<in> set (current_session_bars (build_feature_input [demo_prior_bar, demo_bar 0 100 100]))
   \<and> demo_prior_bar \<in> set (prior_session_bars (build_feature_input [demo_prior_bar, demo_bar 0 100 100]))
   \<and> session_date demo_prior_bar < session_date (demo_bar 0 100 100)"
proof -
  have b: "demo_bar 0 100 100
      \<in> set (current_session_bars (build_feature_input [demo_prior_bar, demo_bar 0 100 100]))"
    and p: "demo_prior_bar
      \<in> set (prior_session_bars (build_feature_input [demo_prior_bar, demo_bar 0 100 100]))"
    by code_simp+
  from feature_scopes_separate [OF b p] b p show ?thesis by blast
qed

lemma feature_input_order_independent_witness:
  "build_feature_input [demo_prior_bar, demo_bar 0 100 100]
   = build_feature_input [demo_bar 0 100 100, demo_prior_bar]"
proof (rule feature_input_order_independent)
  show "inj_on started_at (set [demo_prior_bar, demo_bar 0 100 100])"
    by (simp add: demo_prior_bar_def demo_bar_def ist_combine_def time_units)
qed simp

lemma session_complete_iff_witness:
  "is_session_complete demo_bars ''1minute'' \<and> demo_bars \<noteq> []
   \<and> started_at (demo_bars ! 55) = ist_combine 20607 nse_open + 55 * minute_us"
proof -
  have "session_date (hd demo_bars) = 20607" by (rule demo_date) simp
  then have "is_session_complete demo_bars ''1minute''"
    by (subst session_complete_iff) (simp add: demo_length demo_nth)
  then show ?thesis using demo_nth [of 55] by simp
qed

end
