(* ===== verification/CandleBuilder.thy ===== *)
theory CandleBuilder
  imports PyDecimal PyTime "HOL-Library.AList"
begin

section \<open>One minute candles from ticks\<close>

text \<open>
  \<^verbatim>\<open>app/market_data/candle_builder.py\<close> and the tick and candle classes of
  \<^verbatim>\<open>app/market_data/schemas.py\<close>. The three dictionaries of the builder are association lists in
  insertion order (\<^verbatim>\<open>AList.update\<close> replaces in place or appends, as a Python dictionary does). The
  builder is refined first to the view of one instrument token, then to the declarative summary of
  the accepted ticks of every minute.
\<close>

subsection \<open>Data\<close>

record normalized_tick =
  tick_token :: int
  tick_price :: dec
  tick_volume :: "int option"
  exchange_timestamp :: instant

definition kite_websocket_source :: string where
  "kite_websocket_source = ''KITE_WEBSOCKET''"

record completed_candle =
  cc_instrument_id :: int
  cc_timeframe :: string
  cc_started_at :: instant
  cc_open :: dec
  cc_high :: dec
  cc_low :: dec
  cc_close :: dec
  cc_volume :: int
  cc_source :: string

record working_candle =
  wc_instrument_id :: int
  wc_timeframe :: string
  wc_started_at :: instant
  wc_open :: dec
  wc_high :: dec
  wc_low :: dec
  wc_close :: dec
  wc_volume :: int
  volume_complete :: bool

record candle_builder =
  cb_timeframe :: string
  cb_working :: "(int \<times> working_candle) list"
  cb_last_tick_at :: "(int \<times> instant) list"
  cb_last_cumulative_volume :: "(int \<times> int) list"

subsection \<open>Operations\<close>

definition update_price :: "dec \<Rightarrow> working_candle \<Rightarrow> working_candle" where
  "update_price p c =
     c\<lparr>wc_high := max (wc_high c) p, wc_low := min (wc_low c) p, wc_close := p\<rparr>"

definition add_volume_delta :: "int \<Rightarrow> working_candle \<Rightarrow> working_candle" where
  "add_volume_delta d c = c\<lparr>wc_volume := wc_volume c + d\<rparr>"

definition mark_incomplete :: "working_candle \<Rightarrow> working_candle" where
  "mark_incomplete c = c\<lparr>volume_complete := False\<rparr>"

definition complete_candle :: "working_candle \<Rightarrow> completed_candle" where
  "complete_candle c =
     \<lparr>cc_instrument_id = wc_instrument_id c, cc_timeframe = wc_timeframe c,
      cc_started_at = wc_started_at c, cc_open = wc_open c, cc_high = wc_high c, cc_low = wc_low c,
      cc_close = wc_close c, cc_volume = wc_volume c, cc_source = kite_websocket_source\<rparr>"

definition new_builder :: "string \<Rightarrow> candle_builder" where
  "new_builder timeframe =
     \<lparr>cb_timeframe = timeframe, cb_working = [], cb_last_tick_at = [],
      cb_last_cumulative_volume = []\<rparr>"

definition new_working_candle ::
  "int \<Rightarrow> string \<Rightarrow> instant \<Rightarrow> normalized_tick \<Rightarrow> bool \<Rightarrow> working_candle" where
  "new_working_candle instrument_id timeframe start tick is_complete =
     \<lparr>wc_instrument_id = instrument_id, wc_timeframe = timeframe, wc_started_at = start,
      wc_open = tick_price tick, wc_high = tick_price tick, wc_low = tick_price tick,
      wc_close = tick_price tick, wc_volume = 0, volume_complete = is_complete\<rparr>"

definition has_positive_volume_delta :: "int option \<Rightarrow> int option \<Rightarrow> bool" where
  "has_positive_volume_delta previous current =
     (case (previous, current) of (Some p, Some c) \<Rightarrow> p < c | _ \<Rightarrow> False)"

definition roll_to_minute ::
  "int \<Rightarrow> instant \<Rightarrow> candle_builder \<Rightarrow> completed_candle list \<times> candle_builder" where
  "roll_to_minute token minute b =
     (case map_of (cb_working b) token of
        None \<Rightarrow> ([], b)
      | Some current \<Rightarrow>
          if wc_started_at current = minute then ([], b)
          else ((if volume_complete current then [complete_candle current] else []),
                b\<lparr>cb_working := AList.delete token (cb_working b)\<rparr>))"

definition accept_tick ::
  "normalized_tick \<Rightarrow> int \<Rightarrow> candle_builder \<Rightarrow> completed_candle list \<times> candle_builder" where
  "accept_tick tick instrument_id b =
     (let token = tick_token tick;
          tick_time = exchange_timestamp tick;
          last_tick_at = map_of (cb_last_tick_at b) token;
          previous_volume = map_of (cb_last_cumulative_volume b) token
      in if (case last_tick_at of None \<Rightarrow> False | Some t \<Rightarrow> tick_time < t) then ([], b)
         else if last_tick_at = Some tick_time
           \<and> \<not> has_positive_volume_delta previous_volume (tick_volume tick) then ([], b)
         else
           let minute = floor_minute tick_time;
               (completed, b1) = roll_to_minute token minute b;
               current = (case map_of (cb_working b1) token of
                   None \<Rightarrow> new_working_candle instrument_id (cb_timeframe b1) minute tick
                             (previous_volume \<noteq> None)
                 | Some c \<Rightarrow> update_price (tick_price tick) c);
               b2 = b1\<lparr>cb_working := AList.update token current (cb_working b1),
                       cb_last_tick_at := AList.update token tick_time (cb_last_tick_at b1)\<rparr>
           in case tick_volume tick of
                None \<Rightarrow> (completed, b2)
              | Some v \<Rightarrow>
                  let b3 = b2\<lparr>cb_last_cumulative_volume :=
                                AList.update token v (cb_last_cumulative_volume b2)\<rparr>
                  in case previous_volume of
                       None \<Rightarrow> (completed, b3\<lparr>cb_working :=
                         AList.update token (mark_incomplete current) (cb_working b3)\<rparr>)
                     | Some p \<Rightarrow>
                         if v < p
                         then (completed, b3\<lparr>cb_working :=
                                AList.update token (mark_incomplete current) (cb_working b3)\<rparr>)
                         else (completed, b3\<lparr>cb_working :=
                                AList.update token (add_volume_delta (v - p) current)
                                  (cb_working b3)\<rparr>))"

definition flush_completed_before ::
  "instant \<Rightarrow> candle_builder \<Rightarrow> completed_candle list \<times> candle_builder" where
  "flush_completed_before cutoff b =
     (let cutoff_minute = floor_minute cutoff;
          due = (\<lambda>c. wc_started_at c < cutoff_minute \<and> volume_complete c)
      in (map (complete_candle \<circ> snd) (filter (due \<circ> snd) (cb_working b)),
          b\<lparr>cb_working := filter (\<lambda>e. \<not> due (snd e)) (cb_working b)\<rparr>))"

definition invalidate_after_stream_gap :: "candle_builder \<Rightarrow> candle_builder" where
  "invalidate_after_stream_gap b =
     b\<lparr>cb_working := [], cb_last_tick_at := [], cb_last_cumulative_volume := []\<rparr>"

subsection \<open>The view of one token\<close>

text \<open>What the builder knows about one token, and the step of a tick on that view.\<close>

record token_view =
  tv_working :: "working_candle option"
  tv_last :: "instant option"
  tv_cum :: "int option"

definition view_of :: "candle_builder \<Rightarrow> int \<Rightarrow> token_view" where
  "view_of b token =
     \<lparr>tv_working = map_of (cb_working b) token, tv_last = map_of (cb_last_tick_at b) token,
      tv_cum = map_of (cb_last_cumulative_volume b) token\<rparr>"

definition accepts :: "token_view \<Rightarrow> normalized_tick \<Rightarrow> bool" where
  "accepts v t =
     (case tv_last v of
        None \<Rightarrow> True
      | Some l \<Rightarrow> l < exchange_timestamp t
          \<or> l = exchange_timestamp t \<and> has_positive_volume_delta (tv_cum v) (tick_volume t))"

definition minute_of :: "normalized_tick \<Rightarrow> instant" where
  "minute_of t = floor_minute (exchange_timestamp t)"

definition rolled :: "token_view \<Rightarrow> instant \<Rightarrow> working_candle option" where
  "rolled v m = (case tv_working v of Some c \<Rightarrow> if wc_started_at c = m then Some c else None | None \<Rightarrow> None)"

definition rolled_out :: "token_view \<Rightarrow> instant \<Rightarrow> completed_candle list" where
  "rolled_out v m =
     (case tv_working v of
        Some c \<Rightarrow> if wc_started_at c \<noteq> m \<and> volume_complete c then [complete_candle c] else []
      | None \<Rightarrow> [])"

definition priced :: "string \<Rightarrow> int \<Rightarrow> token_view \<Rightarrow> normalized_tick \<Rightarrow> working_candle" where
  "priced tf iid v t =
     (case rolled v (minute_of t) of
        None \<Rightarrow> new_working_candle iid tf (minute_of t) t (tv_cum v \<noteq> None)
      | Some c \<Rightarrow> update_price (tick_price t) c)"

definition volumed :: "token_view \<Rightarrow> normalized_tick \<Rightarrow> working_candle \<Rightarrow> working_candle" where
  "volumed v t c =
     (case (tick_volume t, tv_cum v) of
        (None, _) \<Rightarrow> c
      | (Some n, None) \<Rightarrow> mark_incomplete c
      | (Some n, Some p) \<Rightarrow> if n < p then mark_incomplete c else add_volume_delta (n - p) c)"

definition view_step ::
  "string \<Rightarrow> int \<Rightarrow> normalized_tick \<Rightarrow> token_view \<Rightarrow> completed_candle list \<times> token_view" where
  "view_step tf iid t v =
     (if accepts v t
      then (rolled_out v (minute_of t),
            \<lparr>tv_working = Some (volumed v t (priced tf iid v t)),
             tv_last = Some (exchange_timestamp t),
             tv_cum = (case tick_volume t of None \<Rightarrow> tv_cum v | Some n \<Rightarrow> Some n)\<rparr>)
      else ([], v))"

lemma roll_to_minute_eq:
  "roll_to_minute token m b = (out, b1) \<Longrightarrow>
     out = rolled_out (view_of b token) m \<and> cb_timeframe b1 = cb_timeframe b
     \<and> cb_last_tick_at b1 = cb_last_tick_at b
     \<and> cb_last_cumulative_volume b1 = cb_last_cumulative_volume b
     \<and> map_of (cb_working b1) token = rolled (view_of b token) m
     \<and> (\<forall>k. k \<noteq> token \<longrightarrow> map_of (cb_working b1) k = map_of (cb_working b) k)"
  by (auto simp: roll_to_minute_def rolled_out_def rolled_def view_of_def delete_conv'
      split: option.splits if_splits)

text \<open>
  The builder's handler is the step of its token's view, and leaves the views of the other tokens
  alone: ticks of different instruments never influence each other.
\<close>

lemma accept_tick_rejects:
  "\<not> accepts (view_of b (tick_token t)) t \<Longrightarrow> accept_tick t iid b = ([], b)"
  by (auto simp: accept_tick_def accepts_def view_of_def Let_def split: option.splits)

lemma accept_tick_accepts:
  assumes "accepts (view_of b (tick_token t)) t"
    and "roll_to_minute (tick_token t) (minute_of t) b = (o1, b1)"
  shows "accept_tick t iid b =
     (o1, b1\<lparr>cb_working := AList.update (tick_token t)
               (volumed (view_of b (tick_token t)) t
                 (priced (cb_timeframe b) iid (view_of b (tick_token t)) t))
               (if tick_volume t = None then cb_working b1
                else AList.update (tick_token t)
                  (priced (cb_timeframe b) iid (view_of b (tick_token t)) t) (cb_working b1)),
            cb_last_tick_at := AList.update (tick_token t) (exchange_timestamp t) (cb_last_tick_at b),
            cb_last_cumulative_volume :=
              (case tick_volume t of
                 None \<Rightarrow> cb_last_cumulative_volume b
               | Some n \<Rightarrow> AList.update (tick_token t) n (cb_last_cumulative_volume b))\<rparr>)"
proof -
  note R = roll_to_minute_eq [OF assms(2)]
  have acc: "\<not> (case map_of (cb_last_tick_at b) (tick_token t) of None \<Rightarrow> False
         | Some l \<Rightarrow> exchange_timestamp t < l)"
    "\<not> (map_of (cb_last_tick_at b) (tick_token t) = Some (exchange_timestamp t)
           \<and> \<not> has_positive_volume_delta (map_of (cb_last_cumulative_volume b) (tick_token t))
                 (tick_volume t))"
    using assms(1) by (auto simp: accepts_def view_of_def split: option.splits)
  from R have eqs: "map_of (cb_working b1) (tick_token t) = rolled (view_of b (tick_token t)) (minute_of t)"
    "cb_timeframe b1 = cb_timeframe b" "cb_last_tick_at b1 = cb_last_tick_at b"
    "cb_last_cumulative_volume b1 = cb_last_cumulative_volume b" by auto
  have cum: "tv_cum (view_of b (tick_token t)) = map_of (cb_last_cumulative_volume b) (tick_token t)"
    by (simp add: view_of_def)
  show ?thesis
    unfolding accept_tick_def Let_def minute_of_def [symmetric] assms(2) prod.case
    using acc by (auto simp: eqs cum priced_def volumed_def split: option.splits)
qed

lemma accept_tick_refines:
  assumes "accept_tick t iid b = (out, b')"
  shows "out = fst (view_step (cb_timeframe b) iid t (view_of b (tick_token t)))
    \<and> view_of b' (tick_token t) = snd (view_step (cb_timeframe b) iid t (view_of b (tick_token t)))
    \<and> (\<forall>k. k \<noteq> tick_token t \<longrightarrow> view_of b' k = view_of b k)
    \<and> cb_timeframe b' = cb_timeframe b"
proof (cases "accepts (view_of b (tick_token t)) t")
  case False
  with assms accept_tick_rejects show ?thesis by (auto simp: view_step_def)
next
  case True
  obtain o1 b1 where r: "roll_to_minute (tick_token t) (minute_of t) b = (o1, b1)"
    by (metis surj_pair)
  note R = roll_to_minute_eq [OF r]
  note A = assms [unfolded accept_tick_accepts [OF True r]]
  from A R True show ?thesis
    by (auto simp: view_step_def view_of_def update_conv' split: option.splits)
qed

subsection \<open>Streams of ticks\<close>

text \<open>A stream segment: the candles completed by each tick, labelled with the tick's token.\<close>

fun run_ticks ::
  "(int \<Rightarrow> int) \<Rightarrow> normalized_tick list \<Rightarrow> candle_builder
   \<Rightarrow> (int \<times> completed_candle) list \<times> candle_builder" where
  "run_ticks iid [] b = ([], b)"
| "run_ticks iid (t # ts) b =
     (let (out, b1) = accept_tick t (iid (tick_token t)) b;
          (rest, b2) = run_ticks iid ts b1
      in (map (Pair (tick_token t)) out @ rest, b2))"

fun run_view ::
  "string \<Rightarrow> int \<Rightarrow> normalized_tick list \<Rightarrow> token_view \<Rightarrow> completed_candle list \<times> token_view" where
  "run_view tf iid [] v = ([], v)"
| "run_view tf iid (t # ts) v =
     (let (out, v1) = view_step tf iid t v; (rest, v2) = run_view tf iid ts v1 in (out @ rest, v2))"

definition candles_of :: "int \<Rightarrow> (int \<times> completed_candle) list \<Rightarrow> completed_candle list" where
  "candles_of token out = map snd (filter (\<lambda>e. fst e = token) out)"

definition ticks_of :: "int \<Rightarrow> normalized_tick list \<Rightarrow> normalized_tick list" where
  "ticks_of token ts = filter (\<lambda>t. tick_token t = token) ts"

lemma run_ticks_refines:
  "run_ticks iid ts b = (out, b') \<Longrightarrow>
     run_view (cb_timeframe b) (iid token) (ticks_of token ts) (view_of b token)
       = (candles_of token out, view_of b' token)"
proof (induction ts arbitrary: b out)
  case Nil
  then show ?case by (simp add: ticks_of_def candles_of_def)
next
  case (Cons t ts)
  obtain o1 b1 where a: "accept_tick t (iid (tick_token t)) b = (o1, b1)" by (metis surj_pair)
  obtain o2 where r: "run_ticks iid ts b1 = (o2, b')" and out: "out = map (Pair (tick_token t)) o1 @ o2"
    using Cons.prems a by (auto split: prod.splits)
  note A = accept_tick_refines [OF a]
  note IH = Cons.IH [OF r]
  show ?case
  proof (cases "tick_token t = token")
    case True
    have "filter (\<lambda>e. fst e = token) (map (Pair token) o1) = map (Pair token) o1"
      by (rule filter_True) auto
    then have c: "candles_of token out = o1 @ candles_of token o2"
      using True out by (simp add: candles_of_def comp_def)
    from A True have "view_step (cb_timeframe b) (iid token) t (view_of b token) = (o1, view_of b1 token)"
      by (metis prod.collapse)
    with IH A True c show ?thesis by (simp add: ticks_of_def)
  next
    case False
    then have "candles_of token out = candles_of token o2"
      using out by (simp add: candles_of_def filter_empty_conv)
    with IH A False show ?thesis by (simp add: ticks_of_def)
  qed
qed

lemma run_view_append:
  "run_view tf iid (ts @ us) v =
     (let (o1, v1) = run_view tf iid ts v; (o2, v2) = run_view tf iid us v1 in (o1 @ o2, v2))"
  by (induction ts arbitrary: v) (auto split: prod.splits)

subsection \<open>Declarative summary of the minutes\<close>

definition volumes :: "normalized_tick list \<Rightarrow> int list" where
  "volumes acc = List.map_filter tick_volume acc"

definition last_volume :: "normalized_tick list \<Rightarrow> int option" where
  "last_volume acc = (if volumes acc = [] then None else Some (last (volumes acc)))"

text \<open>The ticks a token's stream accepts: in time order, and at an equal time only with more volume.\<close>

definition accepts_after :: "normalized_tick list \<Rightarrow> normalized_tick \<Rightarrow> bool" where
  "accepts_after acc t \<longleftrightarrow> acc = [] \<or> exchange_timestamp (last acc) < exchange_timestamp t
     \<or> exchange_timestamp (last acc) = exchange_timestamp t
       \<and> has_positive_volume_delta (last_volume acc) (tick_volume t)"

definition accepted :: "normalized_tick list \<Rightarrow> normalized_tick list" where
  "accepted ts = foldl (\<lambda>acc t. if accepts_after acc t then acc @ [t] else acc) [] ts"

definition minutes :: "normalized_tick list \<Rightarrow> instant list" where
  "minutes acc = remdups_adj (map minute_of acc)"

definition ticks_in :: "normalized_tick list \<Rightarrow> instant \<Rightarrow> normalized_tick list" where
  "ticks_in acc m = filter (\<lambda>t. minute_of t = m) acc"

definition ticks_before :: "normalized_tick list \<Rightarrow> instant \<Rightarrow> normalized_tick list" where
  "ticks_before acc m = filter (\<lambda>t. minute_of t < m) acc"

text \<open>
  A minute is complete when a cumulative volume was known before it and the volume never fell
  during it; its volume is the growth of the cumulative volume.
\<close>

definition minute_complete :: "normalized_tick list \<Rightarrow> instant \<Rightarrow> bool" where
  "minute_complete acc m =
     (case last_volume (ticks_before acc m) of
        None \<Rightarrow> False
      | Some p \<Rightarrow> sorted (p # volumes (ticks_in acc m)))"

definition minute_volume :: "normalized_tick list \<Rightarrow> instant \<Rightarrow> int" where
  "minute_volume acc m =
     (case last_volume (ticks_before acc m) of
        None \<Rightarrow> 0
      | Some p \<Rightarrow> last (p # volumes (ticks_in acc m)) - p)"

definition minute_prices :: "normalized_tick list \<Rightarrow> instant \<Rightarrow> dec list" where
  "minute_prices acc m = map tick_price (ticks_in acc m)"

definition minute_candle ::
  "int \<Rightarrow> string \<Rightarrow> normalized_tick list \<Rightarrow> instant \<Rightarrow> completed_candle" where
  "minute_candle iid tf acc m =
     \<lparr>cc_instrument_id = iid, cc_timeframe = tf, cc_started_at = m,
      cc_open = hd (minute_prices acc m), cc_high = Max (set (minute_prices acc m)),
      cc_low = Min (set (minute_prices acc m)), cc_close = last (minute_prices acc m),
      cc_volume = minute_volume acc m, cc_source = kite_websocket_source\<rparr>"

definition working_summary :: "int \<Rightarrow> string \<Rightarrow> normalized_tick list \<Rightarrow> working_candle \<Rightarrow> bool" where
  "working_summary iid tf acc c \<longleftrightarrow>
     (let m = minute_of (last acc) in
        wc_instrument_id c = iid \<and> wc_timeframe c = tf \<and> wc_started_at c = m
        \<and> wc_open c = hd (minute_prices acc m) \<and> wc_high c = Max (set (minute_prices acc m))
        \<and> wc_low c = Min (set (minute_prices acc m)) \<and> wc_close c = last (minute_prices acc m)
        \<and> (volume_complete c \<longleftrightarrow> minute_complete acc m)
        \<and> (volume_complete c \<longrightarrow> wc_volume c = minute_volume acc m))"

definition summarises ::
  "int \<Rightarrow> string \<Rightarrow> normalized_tick list \<Rightarrow> token_view \<Rightarrow> completed_candle list \<Rightarrow> bool" where
  "summarises iid tf acc v out \<longleftrightarrow>
     sorted (map exchange_timestamp acc)
     \<and> tv_last v = (if acc = [] then None else Some (exchange_timestamp (last acc)))
     \<and> tv_cum v = last_volume acc
     \<and> (case tv_working v of None \<Rightarrow> acc = [] | Some c \<Rightarrow> acc \<noteq> [] \<and> working_summary iid tf acc c)
     \<and> out = map (minute_candle iid tf acc) (filter (minute_complete acc) (butlast (minutes acc)))"

lemma volumes_append: "volumes (xs @ ys) = volumes xs @ volumes ys"
  by (simp add: volumes_def map_filter_def)

lemma volumes_single: "volumes [t] = (case tick_volume t of None \<Rightarrow> [] | Some n \<Rightarrow> [n])"
  by (simp add: volumes_def map_filter_def split: option.splits)

lemma last_volume_snoc:
  "last_volume (acc @ [t]) = (case tick_volume t of None \<Rightarrow> last_volume acc | Some n \<Rightarrow> Some n)"
  by (simp add: last_volume_def volumes_append volumes_single split: option.splits)

lemma accepts_iff_after:
  "summarises iid tf acc v out \<Longrightarrow> accepts v t \<longleftrightarrow> accepts_after acc t"
  by (auto simp: summarises_def accepts_def accepts_after_def)

lemma minutes_Nil [simp]: "minutes [] = []"
  by (simp add: minutes_def)

lemma minutes_snoc:
  "minutes (acc @ [t]) =
     (if acc \<noteq> [] \<and> minute_of (last acc) = minute_of t then minutes acc else minutes acc @ [minute_of t])"
proof (cases acc rule: rev_cases)
  case Nil
  then show ?thesis by (simp add: minutes_def)
next
  case (snoc ys y)
  then show ?thesis by (simp add: minutes_def remdups_adj_append_two)
qed

lemma minutes_last: "acc \<noteq> [] \<Longrightarrow> minutes acc \<noteq> [] \<and> last (minutes acc) = minute_of (last acc)"
  by (simp add: minutes_def last_remdups_adj last_map)

lemma minute_le_last:
  assumes "sorted (map exchange_timestamp acc)" "t \<in> set acc"
  shows "minute_of t \<le> minute_of (last acc)"
  using last_sorted_max [OF assms] by (simp add: minute_of_def floor_minute_mono)

lemma set_minutes: "set (minutes acc) = minute_of ` set acc"
  by (simp add: minutes_def)

lemma minutes_sorted: "sorted (map exchange_timestamp acc) \<Longrightarrow> sorted_wrt (<) (minutes acc)"
proof (induction acc rule: rev_induct)
  case Nil
  then show ?case by (simp add: minutes_def)
next
  case (snoc t acc)
  then have s: "sorted (map exchange_timestamp acc)" by (simp add: sorted_append)
  have le: "minute_of u \<le> minute_of t" if "u \<in> set acc" for u
    using snoc.prems that by (auto simp: sorted_append minute_of_def floor_minute_mono)
  have "m < minute_of t" if "m \<in> set (minutes acc)" "minute_of (last acc) \<noteq> minute_of t" for m
  proof -
    from that(1) obtain u where u: "u \<in> set acc" "m = minute_of u" by (auto simp: set_minutes)
    then have "m \<le> minute_of (last acc)" using minute_le_last [OF s] by simp
    moreover from u have "acc \<noteq> []" by auto
    then have "minute_of (last acc) \<le> minute_of t" using le by simp
    ultimately show ?thesis using that(2) by simp
  qed
  with snoc.IH [OF s] show ?case by (auto simp: minutes_snoc sorted_wrt_append)
qed

text \<open>A later tick does not change the summary of an earlier minute.\<close>

lemma earlier_minute_frame:
  assumes "m < minute_of t"
  shows "minute_complete (acc @ [t]) m = minute_complete acc m"
    and "minute_candle iid tf (acc @ [t]) m = minute_candle iid tf acc m"
proof -
  have "ticks_in (acc @ [t]) m = ticks_in acc m" "ticks_before (acc @ [t]) m = ticks_before acc m"
    using assms less_imp_neq [OF assms] by (auto simp: ticks_in_def ticks_before_def)
  then show "minute_complete (acc @ [t]) m = minute_complete acc m"
    and "minute_candle iid tf (acc @ [t]) m = minute_candle iid tf acc m"
    by (simp_all add: minute_complete_def minute_candle_def minute_prices_def minute_volume_def
        cong: option.case_cong)
qed

lemma same_minute:
  assumes "minute_of t = m"
  shows "ticks_in (acc @ [t]) m = ticks_in acc m @ [t]" "ticks_before (acc @ [t]) m = ticks_before acc m"
  using assms by (simp_all add: ticks_in_def ticks_before_def)

lemma new_minute:
  assumes "sorted (map exchange_timestamp acc)" "acc \<noteq> [] \<Longrightarrow> minute_of (last acc) < m"
  shows "ticks_in acc m = []" "ticks_before acc m = acc"
proof -
  have "minute_of u < m" if "u \<in> set acc" for u
    using minute_le_last [OF assms(1) that] assms(2) that by fastforce
  then show "ticks_in acc m = []" "ticks_before acc m = acc"
    by (auto simp: ticks_in_def ticks_before_def filter_empty_conv filter_id_conv)
qed

lemma minute_complete_new:
  assumes "ticks_in acc m = []" "ticks_before acc m = acc" "minute_of t = m"
  shows "minute_complete (acc @ [t]) m \<longleftrightarrow>
     (case (last_volume acc, tick_volume t) of
        (None, _) \<Rightarrow> False | (Some p, None) \<Rightarrow> True | (Some p, Some n) \<Rightarrow> p \<le> n)"
    and "minute_complete (acc @ [t]) m \<Longrightarrow> minute_volume (acc @ [t]) m =
     (case (last_volume acc, tick_volume t) of (Some p, Some n) \<Rightarrow> n - p | _ \<Rightarrow> 0)"
  using assms
  by (auto simp: minute_complete_def minute_volume_def same_minute volumes_single
      split: option.splits)

lemma split_at_minute:
  assumes "sorted (map exchange_timestamp acc)" "\<forall>u \<in> set acc. minute_of u \<le> m"
  shows "acc = ticks_before acc m @ ticks_in acc m"
  using assms
proof (induction acc)
  case (Cons t acc)
  then have IH: "acc = ticks_before acc m @ ticks_in acc m" by simp
  show ?case
  proof (cases "minute_of t = m")
    case True
    have "minute_of u = m" if "u \<in> set acc" for u
    proof (rule antisym)
      show "minute_of u \<le> m" using Cons.prems(2) that by simp
      show "m \<le> minute_of u"
        using Cons.prems(1) that True by (auto simp: minute_of_def intro: floor_minute_mono)
    qed
    with True have "ticks_before (t # acc) m = []" "ticks_in (t # acc) m = t # acc"
      by (auto simp: ticks_before_def ticks_in_def filter_empty_conv filter_id_conv)
    then show ?thesis by simp
  next
    case False
    with Cons.prems have "minute_of t < m" by auto
    with IH show ?thesis by (simp add: ticks_before_def ticks_in_def less_imp_neq)
  qed
qed (simp add: ticks_before_def ticks_in_def)

lemma last_volume_split:
  assumes "sorted (map exchange_timestamp acc)" "minute_of (last acc) = m"
  shows "last_volume acc =
     (if volumes (ticks_in acc m) = [] then last_volume (ticks_before acc m)
      else Some (last (volumes (ticks_in acc m))))"
proof -
  have "acc = ticks_before acc m @ ticks_in acc m"
    using split_at_minute [OF assms(1)] minute_le_last [OF assms(1)] assms(2) by blast
  then show ?thesis
    by (metis last_volume_def volumes_append append_Nil2 last_appendR append_is_Nil_conv)
qed

lemma sorted_snoc_last: "sorted (p # xs @ [n]) \<longleftrightarrow> sorted (p # xs) \<and> last (p # xs) \<le> n" for p :: int
proof -
  have "sorted ((p # xs) @ [n]) \<longleftrightarrow> sorted (p # xs) \<and> (\<forall>x \<in> set (p # xs). x \<le> n)"
    by (simp only: sorted_append) simp
  moreover have "sorted (p # xs) \<Longrightarrow> (\<forall>x \<in> set (p # xs). x \<le> n) \<longleftrightarrow> last (p # xs) \<le> n"
    using last_sorted_max [of "\<lambda>x. x" "p # xs"] by (fastforce simp del: sorted_simps)
  ultimately show ?thesis by auto
qed

lemma minute_complete_same:
  assumes "sorted (map exchange_timestamp acc)" "minute_of (last acc) = m" "minute_of t = m"
  shows "(minute_complete (acc @ [t]) m \<longleftrightarrow> minute_complete acc m
     \<and> (case (last_volume acc, tick_volume t) of (Some p, Some n) \<Rightarrow> p \<le> n | _ \<Rightarrow> True))
    \<and> (minute_complete (acc @ [t]) m \<longrightarrow> minute_volume (acc @ [t]) m = minute_volume acc m
     + (case (last_volume acc, tick_volume t) of (Some p, Some n) \<Rightarrow> n - p | _ \<Rightarrow> 0))"
proof -
  show ?thesis
  proof (cases "last_volume (ticks_before acc m)")
    case None
    then show ?thesis by (simp add: minute_complete_def same_minute [OF assms(3)])
  next
    case (Some p)
    then have L: "last_volume acc = Some (last (p # volumes (ticks_in acc m)))"
      using last_volume_split [OF assms(1,2)] by simp
    show ?thesis
    proof (cases "tick_volume t")
      case None
      with Some show ?thesis
        by (simp add: minute_complete_def minute_volume_def same_minute [OF assms(3)]
            volumes_append volumes_single split: option.splits)
    next
      case (Some n)
      have "minute_complete (acc @ [t]) m \<longleftrightarrow> sorted (p # volumes (ticks_in acc m) @ [n])"
        "minute_complete acc m \<longleftrightarrow> sorted (p # volumes (ticks_in acc m))"
        "minute_volume (acc @ [t]) m = n - p"
        "minute_volume acc m = last (p # volumes (ticks_in acc m)) - p"
        using Some \<open>last_volume (ticks_before acc m) = Some p\<close>
        by (simp_all add: minute_complete_def minute_volume_def same_minute [OF assms(3)]
            volumes_append volumes_single)
      then show ?thesis using L Some sorted_snoc_last [of p "volumes (ticks_in acc m)" n] by simp
    qed
  qed
qed

subsection \<open>The builder computes the summary\<close>

lemma view_step_summarises:
  assumes S: "summarises iid tf acc v out" and a: "accepts_after acc t"
    and st: "view_step tf iid t v = (o1, v1)"
  shows "summarises iid tf (acc @ [t]) v1 (out @ o1)"
proof -
  let ?m = "minute_of t"
  from S have sorted: "sorted (map exchange_timestamp acc)"
    and cum: "tv_cum v = last_volume acc"
    and W: "case tv_working v of None \<Rightarrow> acc = [] | Some c \<Rightarrow> acc \<noteq> [] \<and> working_summary iid tf acc c"
    and out: "out = map (minute_candle iid tf acc) (filter (minute_complete acc) (butlast (minutes acc)))"
    by (auto simp: summarises_def)
  have acc: "accepts v t" using S a accepts_iff_after by blast
  have le: "exchange_timestamp u \<le> exchange_timestamp t" if "u \<in> set acc" for u
    using last_sorted_max [OF sorted that] a that by (auto simp: accepts_after_def)
  have sorted': "sorted (map exchange_timestamp (acc @ [t]))"
    using sorted le by (auto simp: sorted_append)
  have mle: "minute_of (last acc) \<le> ?m" if "acc \<noteq> []"
    using le [of "last acc"] that by (simp add: minute_of_def floor_minute_mono)
  have v1: "v1 = \<lparr>tv_working = Some (volumed v t (priced tf iid v t)),
      tv_last = Some (exchange_timestamp t),
      tv_cum = (case tick_volume t of None \<Rightarrow> tv_cum v | Some n \<Rightarrow> Some n)\<rparr>"
    and o1: "o1 = rolled_out v ?m"
    using st acc by (auto simp: view_step_def)
  have lt_butlast: "m < minute_of (last acc)" if "m \<in> set (butlast (minutes acc))" for m
  proof -
    from that have "acc \<noteq> []" by auto
    with that minutes_sorted [OF sorted] minutes_last [of acc] show ?thesis
      by (cases "minutes acc" rule: rev_cases) (auto simp: sorted_wrt_append)
  qed
  have frame: "map (minute_candle iid tf (acc @ [t])) (filter (minute_complete (acc @ [t])) (butlast (minutes acc)))
      = out" if "acc \<noteq> []"
  proof -
    have "m < ?m" if "m \<in> set (butlast (minutes acc))" for m
      using lt_butlast [OF that] mle [OF \<open>acc \<noteq> []\<close>] by simp
    then show ?thesis unfolding out
      by (auto simp: earlier_minute_frame intro!: map_cong filter_cong)
  qed
  show ?thesis
  proof (cases "acc \<noteq> [] \<and> minute_of (last acc) = ?m")
    case True
    then obtain c where c: "tv_working v = Some c" "working_summary iid tf acc c"
      using W by (auto split: option.splits)
    then have r: "rolled v ?m = Some c" "rolled_out v ?m = []"
      using True by (auto simp: rolled_def rolled_out_def working_summary_def Let_def)
    have ne: "minute_prices acc ?m \<noteq> []"
      using True by (auto simp: minute_prices_def ticks_in_def filter_empty_conv
          intro!: bexI [of _ "last acc"])
    have lv: "last_volume acc \<noteq> None" if "minute_complete acc ?m"
      using that last_volume_split [OF sorted, of ?m] True
      by (auto simp: minute_complete_def split: option.splits)
    have ws: "working_summary iid tf (acc @ [t]) (volumed v t (update_price (tick_price t) c))"
      using c(2) True ne lv minute_complete_same [OF sorted _ refl, of t]
      by (auto simp: working_summary_def Let_def volumed_def update_price_def add_volume_delta_def
          mark_incomplete_def minute_prices_def same_minute [OF refl] cum max.commute min.commute
          split: option.splits)
    have "out @ o1 = map (minute_candle iid tf (acc @ [t]))
        (filter (minute_complete (acc @ [t])) (butlast (minutes (acc @ [t]))))"
      using frame True r by (simp add: minutes_snoc o1)
    with ws sorted' r show ?thesis
      by (simp add: summarises_def v1 priced_def last_volume_snoc cum cong: option.case_cong)
  next
    case False
    then have new: "ticks_in acc ?m = []" "ticks_before acc ?m = acc"
      using new_minute [OF sorted, of ?m] mle by fastforce+
    have r: "rolled v ?m = None"
      using False W by (auto simp: rolled_def working_summary_def Let_def split: option.splits)
    have ws: "working_summary iid tf (acc @ [t])
        (volumed v t (new_working_candle iid tf ?m t (tv_cum v \<noteq> None)))"
      using minute_complete_new [OF new refl] new
      by (auto simp: working_summary_def Let_def volumed_def new_working_candle_def
          add_volume_delta_def mark_incomplete_def minute_prices_def same_minute [OF refl] cum
          split: option.splits)
    have "out @ o1 = map (minute_candle iid tf (acc @ [t]))
        (filter (minute_complete (acc @ [t])) (butlast (minutes (acc @ [t]))))"
    proof (cases "acc = []")
      case True
      with W have "tv_working v = None" by (auto split: option.splits)
      with True show ?thesis by (simp add: o1 rolled_out_def out minutes_def)
    next
      case ne: False
      then obtain c where c: "tv_working v = Some c" "working_summary iid tf acc c"
        using W by (auto split: option.splits)
      let ?p = "minute_of (last acc)"
      have lt: "?p < ?m" using False ne mle by fastforce
      have "o1 = map (minute_candle iid tf acc) (filter (minute_complete acc) [?p])"
        using c lt by (auto simp: o1 rolled_out_def working_summary_def Let_def complete_candle_def
            minute_candle_def)
      moreover obtain ms where ms: "minutes acc = ms @ [?p]"
        using minutes_last [OF ne] by (cases "minutes acc" rule: rev_cases) auto
      ultimately show ?thesis
        using False ne frame lt by (auto simp: minutes_snoc earlier_minute_frame butlast_append)
    qed
    with ws sorted' r show ?thesis
      by (simp add: summarises_def v1 priced_def last_volume_snoc cum cong: option.case_cong)
  qed
qed

lemma accepted_snoc:
  "accepted (ts @ [t]) = (if accepts_after (accepted ts) t then accepted ts @ [t] else accepted ts)"
  by (simp add: accepted_def)

lemma run_view_summarises:
  "run_view tf iid ts \<lparr>tv_working = None, tv_last = None, tv_cum = None\<rparr> = (out, v) \<Longrightarrow>
     summarises iid tf (accepted ts) v out"
proof (induction ts arbitrary: out v rule: rev_induct)
  case Nil
  then show ?case by (auto simp: summarises_def accepted_def last_volume_def volumes_def map_filter_def)
next
  case (snoc t ts)
  let ?v0 = "\<lparr>tv_working = None, tv_last = None, tv_cum = None\<rparr>"
  obtain o1 v1 where r: "run_view tf iid ts ?v0 = (o1, v1)" by (metis surj_pair)
  obtain o2 where st: "view_step tf iid t v1 = (o2, v)" and out: "out = o1 @ o2"
    using snoc.prems r by (auto simp: run_view_append Let_def split: prod.splits)
  note IH = snoc.IH [OF r]
  show ?case
  proof (cases "accepts_after (accepted ts) t")
    case True
    with view_step_summarises [OF IH True st] out show ?thesis by (simp add: accepted_snoc)
  next
    case False
    then have "view_step tf iid t v1 = ([], v1)"
      using IH accepts_iff_after by (auto simp: view_step_def)
    with False IH st out show ?thesis by (simp add: accepted_snoc)
  qed
qed

lemma run_ticks_candles:
  assumes "run_ticks iid ts (new_builder tf) = (out, b)"
  shows "candles_of token out =
     map (minute_candle (iid token) tf (accepted (ticks_of token ts)))
       (filter (minute_complete (accepted (ticks_of token ts)))
         (butlast (minutes (accepted (ticks_of token ts)))))"
proof -
  have "view_of (new_builder tf) token = \<lparr>tv_working = None, tv_last = None, tv_cum = None\<rparr>"
    by (simp add: view_of_def new_builder_def)
  moreover have "cb_timeframe (new_builder tf) = tf" by (simp add: new_builder_def)
  ultimately have "run_view tf (iid token) (ticks_of token ts)
      \<lparr>tv_working = None, tv_last = None, tv_cum = None\<rparr> = (candles_of token out, view_of b token)"
    using run_ticks_refines [OF assms, of token] by simp
  from run_view_summarises [OF this] show ?thesis by (simp add: summarises_def)
qed

lemma accepted_sorted: "sorted (map exchange_timestamp (accepted ts))"
proof (induction ts rule: rev_induct)
  case (snoc t ts)
  then show ?case
    using last_sorted_max [OF snoc] by (fastforce simp: accepted_snoc accepts_after_def sorted_append)
qed (simp add: accepted_def)

lemma minute_volume_nonneg: "minute_complete acc m \<Longrightarrow> 0 \<le> minute_volume acc m"
  by (auto simp: minute_complete_def minute_volume_def split: option.splits if_splits)

text \<open>C6: the candles that a stream segment emits for an instrument are exactly the summaries of its
  complete minutes: from the ticks it accepts (in time order; at an equal time only with more
  cumulative volume), every minute but the running one, whose volume baseline was known and whose
  volume never fell, gives one candle in order, with the first price as open, the extreme prices as
  high and low, the last price as close and the growth of the cumulative volume as volume; ticks of
  other instruments in between do not matter.\<close>

theorem emitted_candles_summarise_minutes:
  assumes "run_ticks iid ts (new_builder tf) = (out, b)"
  shows "candles_of token out =
     map (minute_candle (iid token) tf (accepted (ticks_of token ts)))
       (filter (minute_complete (accepted (ticks_of token ts)))
         (butlast (minutes (accepted (ticks_of token ts)))))"
  using assms by (rule run_ticks_candles)

lemma run_ticks_wellformed:
  assumes "run_ticks iid ts (new_builder tf) = (out, b)"
  shows "sorted_wrt (<) (map cc_started_at (candles_of token out))
     \<and> (\<forall>c \<in> set (candles_of token out).
          cc_started_at c mod minute_us = 0 \<and> cc_low c \<le> cc_open c \<and> cc_open c \<le> cc_high c
          \<and> cc_low c \<le> cc_close c \<and> cc_close c \<le> cc_high c \<and> 0 \<le> cc_volume c)"
proof -
  define acc where "acc = accepted (ticks_of token ts)"
  have sorted: "sorted (map exchange_timestamp acc)" by (simp add: acc_def accepted_sorted)
  have out: "candles_of token out =
      map (minute_candle (iid token) tf acc) (filter (minute_complete acc) (butlast (minutes acc)))"
    unfolding acc_def by (rule run_ticks_candles [OF assms])
  have "sorted_wrt (<) (butlast (minutes acc))"
    using minutes_sorted [OF sorted] by (cases "minutes acc" rule: rev_cases) (auto simp: sorted_wrt_append)
  then have "sorted_wrt (<) (filter (minute_complete acc) (butlast (minutes acc)))"
    by (rule sorted_wrt_filter)
  then have "sorted_wrt (<) (map cc_started_at (candles_of token out))"
    by (simp add: out comp_def minute_candle_def)
  moreover have "cc_started_at c mod minute_us = 0 \<and> cc_low c \<le> cc_open c \<and> cc_open c \<le> cc_high c
      \<and> cc_low c \<le> cc_close c \<and> cc_close c \<le> cc_high c \<and> 0 \<le> cc_volume c"
    if "c \<in> set (candles_of token out)" for c
  proof -
    from that obtain m where m: "m \<in> set (minutes acc)" "minute_complete acc m"
      and c: "c = minute_candle (iid token) tf acc m"
      by (auto simp: out dest: in_set_butlastD)
    from m(1) obtain t where t: "t \<in> set acc" "minute_of t = m" by (auto simp: set_minutes)
    then have "t \<in> set (ticks_in acc m)" by (simp add: ticks_in_def)
    then have ne: "minute_prices acc m \<noteq> []" by (auto simp: minute_prices_def)
    have "m mod minute_us = 0" using t floor_minute_aligned by (auto simp: minute_of_def)
    with ne minute_volume_nonneg [OF m(2)] show ?thesis by (simp add: c minute_candle_def)
  qed
  ultimately show ?thesis by blast
qed

text \<open>whatever ticks a stream segment delivers, every emitted candle is well formed: it starts on
  a whole minute, its low is at most and its high at least its open and close, its volume is not
  negative, and the candles of one instrument have strictly increasing start times, so no minute is
  emitted twice.\<close>

theorem emitted_candles_wellformed:
  assumes "run_ticks iid ts (new_builder tf) = (out, b)"
  shows "sorted_wrt (<) (map cc_started_at (candles_of token out))
     \<and> (\<forall>c \<in> set (candles_of token out).
          cc_started_at c mod minute_us = 0 \<and> cc_low c \<le> cc_open c \<and> cc_open c \<le> cc_high c
          \<and> cc_low c \<le> cc_close c \<and> cc_close c \<le> cc_high c \<and> 0 \<le> cc_volume c)"
  using assms by (rule run_ticks_wellformed)

subsection \<open>Witnesses\<close>

text \<open>Three minutes of ticks of one instrument, among them a tick of another one.\<close>

definition demo_ticks :: "normalized_tick list" where
  "demo_ticks =
     [\<lparr>tick_token = 7, tick_price = 100, tick_volume = Some 10, exchange_timestamp = 1000000\<rparr>,
      \<lparr>tick_token = 7, tick_price = 103, tick_volume = Some 14, exchange_timestamp = 61000000\<rparr>,
      \<lparr>tick_token = 8, tick_price = 50, tick_volume = Some 1, exchange_timestamp = 62000000\<rparr>,
      \<lparr>tick_token = 7, tick_price = 101, tick_volume = Some 20, exchange_timestamp = 90000000\<rparr>,
      \<lparr>tick_token = 7, tick_price = 102, tick_volume = Some 21, exchange_timestamp = 130000000\<rparr>]"

lemma emitted_candles_summarise_minutes_witness:
  "\<exists>out b. run_ticks (\<lambda>t. t) demo_ticks (new_builder ''1minute'') = (out, b)
     \<and> length (candles_of 7 out) = 1
     \<and> map cc_volume (candles_of 7 out) = [10] \<and> map cc_high (candles_of 7 out) = [103]"
proof -
  obtain out b where r: "run_ticks (\<lambda>t. t) demo_ticks (new_builder ''1minute'') = (out, b)"
    by (metis surj_pair)
  have s: "map (minute_candle 7 ''1minute'' (accepted (ticks_of 7 demo_ticks)))
       (filter (minute_complete (accepted (ticks_of 7 demo_ticks)))
         (butlast (minutes (accepted (ticks_of 7 demo_ticks)))))
     = [\<lparr>cc_instrument_id = 7, cc_timeframe = ''1minute'', cc_started_at = 60000000, cc_open = 103,
         cc_high = 103, cc_low = 101, cc_close = 101, cc_volume = 10,
         cc_source = kite_websocket_source\<rparr>]"
    by code_simp
  have "candles_of 7 out
     = [\<lparr>cc_instrument_id = 7, cc_timeframe = ''1minute'', cc_started_at = 60000000, cc_open = 103,
         cc_high = 103, cc_low = 101, cc_close = 101, cc_volume = 10,
         cc_source = kite_websocket_source\<rparr>]"
    using emitted_candles_summarise_minutes [OF r, of 7] unfolding s .
  with r show ?thesis by auto
qed

lemma emitted_candles_wellformed_witness:
  "\<exists>out b. run_ticks (\<lambda>t. t) demo_ticks (new_builder ''1minute'') = (out, b)
     \<and> sorted_wrt (<) (map cc_started_at (candles_of 7 out))"
proof -
  obtain out b where r: "run_ticks (\<lambda>t. t) demo_ticks (new_builder ''1minute'') = (out, b)"
    by (metis surj_pair)
  from emitted_candles_wellformed [OF r, of 7] r show ?thesis by blast
qed

end
