(* ===== verification/PaperSchemas.thy ===== *)
theory PaperSchemas
  imports Strategies
begin

section \<open>Paper trading value objects\<close>

text \<open>
  \<^verbatim>\<open>app/paper/schemas.py\<close>: modes, exit reasons, configuration, signals, instructions, outcomes,
  their payloads and the replay summary. Amounts in payloads are quantized to six places with the
  default rounding (\<open>money\<close>), which raises \<open>InvalidOperation\<close> on a value that does not fit.
\<close>

subsection \<open>Constants and enumerations\<close>

definition paper_timeframe :: string where
  "paper_timeframe = ''1minute''"
definition paper_entry_order_type :: string where
  "paper_entry_order_type = ''LIMIT''"
definition paper_exit_order_type :: string where
  "paper_exit_order_type = ''PAPER_EXIT''"
definition paper_entry_submitted :: string where
  "paper_entry_submitted = ''PAPER_ENTRY_SUBMITTED''"
definition paper_entry_filled :: string where
  "paper_entry_filled = ''PAPER_ENTRY_FILLED''"
definition paper_entry_no_fill :: string where
  "paper_entry_no_fill = ''PAPER_ENTRY_NO_FILL''"
definition paper_exit_filled :: string where
  "paper_exit_filled = ''PAPER_EXIT_FILLED''"
definition paper_trade_closed :: string where
  "paper_trade_closed = ''PAPER_CLOSED''"
definition paper_trade_data_ended :: string where
  "paper_trade_data_ended = ''PAPER_DATA_ENDED''"
definition paper_entry_attempt_entry_type :: string where
  "paper_entry_attempt_entry_type = ''PAPER_ENTRY_ATTEMPT''"
definition paper_rejection_entry_type :: string where
  "paper_rejection_entry_type = ''PAPER_REJECTION''"
definition paper_trade_entry_type :: string where
  "paper_trade_entry_type = ''PAPER_TRADE''"

lemmas entry_status_defs = paper_entry_filled_def paper_entry_no_fill_def

datatype paper_mode_kind = OFF | SHADOW | PAPER | LIVE

fun mode_value :: "paper_mode_kind \<Rightarrow> string" where
  "mode_value OFF = ''OFF''"
| "mode_value SHADOW = ''SHADOW''"
| "mode_value PAPER = ''PAPER''"
| "mode_value LIVE = ''LIVE''"

text \<open>\<^verbatim>\<open>PaperMode(value)\<close>; \<open>None\<close> is the \<^verbatim>\<open>ValueError\<close>.\<close>

definition mode_of_value :: "string \<Rightarrow> paper_mode_kind option" where
  "mode_of_value v = find (\<lambda>m. mode_value m = v) [OFF, SHADOW, PAPER, LIVE]"

datatype exit_reason =
  NO_FILL | STOP_HIT | TARGET_HIT | TIME_EXIT | FORCE_FLAT | DATA_ENDED
| INVALID_SIGNAL_CONTEXT | DUPLICATE_SIGNAL | MODE_DISABLED | LIVE_NOT_IMPLEMENTED

fun reason_value :: "exit_reason \<Rightarrow> string" where
  "reason_value NO_FILL = ''NO_FILL''"
| "reason_value STOP_HIT = ''STOP_HIT''"
| "reason_value TARGET_HIT = ''TARGET_HIT''"
| "reason_value TIME_EXIT = ''TIME_EXIT''"
| "reason_value FORCE_FLAT = ''FORCE_FLAT''"
| "reason_value DATA_ENDED = ''DATA_ENDED''"
| "reason_value INVALID_SIGNAL_CONTEXT = ''INVALID_SIGNAL_CONTEXT''"
| "reason_value DUPLICATE_SIGNAL = ''DUPLICATE_SIGNAL''"
| "reason_value MODE_DISABLED = ''MODE_DISABLED''"
| "reason_value LIVE_NOT_IMPLEMENTED = ''LIVE_NOT_IMPLEMENTED''"

subsection \<open>Records\<close>

record paper_config =
  pc_enabled :: bool
  pc_mode :: paper_mode_kind
  max_trades_per_day :: int
  default_quantity :: int
  entry_buffer_pct :: dec
  stop_pct :: dec
  target_r_multiple :: dec
  force_flat_time_ist :: time_of_day
  estimated_cost_per_trade :: dec

record paper_signal =
  sig_id :: int
  sig_instrument_id :: int
  sig_key :: string
  sig_symbol :: string
  sig_strategy_name :: string
  sig_strategy_version :: string
  sig_status :: string
  sig_time :: instant
  sig_direction :: string
  sig_veto_reasons :: "string list"
  sig_features :: "(string \<times> json) list"
  sig_replay_run_id :: "string option"

record paper_instruction =
  ins_signal_id :: int
  ins_signal_key :: string
  ins_symbol :: string
  ins_strategy_name :: string
  ins_signal_time :: instant
  entry_reference_price :: dec
  stop_price :: dec
  target_price :: dec
  ins_quantity :: int
  paper_max_risk :: dec
  ins_paper_mode :: paper_mode_kind
  ins_estimated_costs :: dec
  ins_simulated :: bool

record paper_simulation_result =
  po_signal_id :: int
  po_signal_key :: string
  po_symbol :: string
  po_strategy_name :: string
  po_paper_mode :: paper_mode_kind
  po_simulated :: bool
  po_entry_order_status :: string
  po_entry_reference_price :: "dec option"
  po_entry_fill_status :: string
  po_entry_fill_time :: "instant option"
  po_entry_fill_price :: "dec option"
  po_quantity :: int
  po_stop_price :: "dec option"
  po_target_price :: "dec option"
  po_exit_time :: "instant option"
  po_exit_price :: "dec option"
  po_exit_reason :: exit_reason
  po_gross_pnl :: dec
  po_estimated_costs :: dec
  po_net_estimated_pnl :: dec
  po_rejection_reason :: "string option"
  po_trade_created :: bool

subsection \<open>Payloads\<close>

definition money :: "dec \<Rightarrow> json res" where
  "money v = bindE (quantize_even 6 v) (\<lambda>q. Inr (JDec q))"

definition maybe_money :: "dec option \<Rightarrow> json res" where
  "maybe_money v = (case v of None \<Rightarrow> Inr JNull | Some d \<Rightarrow> money d)"

definition maybe_iso :: "instant option \<Rightarrow> json" where
  "maybe_iso t = jopt (\<lambda>t. JStr (isoformat t)) t"

definition instruction_payload :: "paper_instruction \<Rightarrow> (string \<times> json) list res" where
  "instruction_payload i =
     bindE (money (entry_reference_price i)) (\<lambda>en.
     bindE (money (stop_price i)) (\<lambda>st.
     bindE (money (target_price i)) (\<lambda>tg.
     bindE (money (paper_max_risk i)) (\<lambda>mr.
     bindE (money (ins_estimated_costs i)) (\<lambda>ec.
       Inr [(''signal_id'', JInt (ins_signal_id i)),
            (''signal_key'', JStr (ins_signal_key i)),
            (''symbol'', JStr (ins_symbol i)),
            (''strategy'', JStr (ins_strategy_name i)),
            (''signal_time'', JStr (isoformat (ins_signal_time i))),
            (''entry_reference_price'', en),
            (''stop_price'', st),
            (''target_price'', tg),
            (''quantity'', JInt (ins_quantity i)),
            (''paper_max_risk'', mr),
            (''paper_mode'', JStr (mode_value (ins_paper_mode i))),
            (''estimated_costs'', ec),
            (''simulated'', JBool (ins_simulated i))])))))"

definition outcome_payload :: "paper_simulation_result \<Rightarrow> (string \<times> json) list res" where
  "outcome_payload o' =
     bindE (maybe_money (po_entry_reference_price o')) (\<lambda>er.
     bindE (maybe_money (po_entry_fill_price o')) (\<lambda>ef.
     bindE (maybe_money (po_stop_price o')) (\<lambda>st.
     bindE (maybe_money (po_target_price o')) (\<lambda>tg.
     bindE (maybe_money (po_exit_price o')) (\<lambda>ex.
     bindE (money (po_gross_pnl o')) (\<lambda>gp.
     bindE (money (po_estimated_costs o')) (\<lambda>ec.
     bindE (money (po_net_estimated_pnl o')) (\<lambda>np.
       Inr [(''signal_id'', JInt (po_signal_id o')),
            (''signal_key'', JStr (po_signal_key o')),
            (''symbol'', JStr (po_symbol o')),
            (''strategy'', JStr (po_strategy_name o')),
            (''simulated'', JBool (po_simulated o')),
            (''paper_mode'', JStr (mode_value (po_paper_mode o'))),
            (''entry_order_status'', JStr (po_entry_order_status o')),
            (''entry_reference_price'', er),
            (''entry_fill_status'', JStr (po_entry_fill_status o')),
            (''entry_fill_time'', maybe_iso (po_entry_fill_time o')),
            (''entry_fill_price'', ef),
            (''quantity'', JInt (po_quantity o')),
            (''stop_price'', st),
            (''target_price'', tg),
            (''exit_time'', maybe_iso (po_exit_time o')),
            (''exit_price'', ex),
            (''exit_reason'', JStr (reason_value (po_exit_reason o'))),
            (''gross_pnl'', gp),
            (''estimated_costs'', ec),
            (''net_estimated_pnl'', np),
            (''rejection_reason'', jopt JStr (po_rejection_reason o'))]))))))))"

subsection \<open>Outcomes\<close>

definition rejected_outcome ::
  "paper_signal \<Rightarrow> paper_config \<Rightarrow> exit_reason \<Rightarrow> string \<Rightarrow> paper_simulation_result" where
  "rejected_outcome signal config reason rejection =
     \<lparr>po_signal_id = sig_id signal, po_signal_key = sig_key signal, po_symbol = sig_symbol signal,
      po_strategy_name = sig_strategy_name signal, po_paper_mode = pc_mode config,
      po_simulated = True, po_entry_order_status = ''NOT_CREATED'',
      po_entry_reference_price = None, po_entry_fill_status = ''NOT_FILLED'',
      po_entry_fill_time = None, po_entry_fill_price = None, po_quantity = 0,
      po_stop_price = None, po_target_price = None, po_exit_time = None, po_exit_price = None,
      po_exit_reason = reason, po_gross_pnl = 0, po_estimated_costs = 0,
      po_net_estimated_pnl = 0, po_rejection_reason = Some rejection, po_trade_created = False\<rparr>"

definition no_fill_outcome :: "paper_instruction \<Rightarrow> paper_simulation_result" where
  "no_fill_outcome i =
     \<lparr>po_signal_id = ins_signal_id i, po_signal_key = ins_signal_key i, po_symbol = ins_symbol i,
      po_strategy_name = ins_strategy_name i, po_paper_mode = ins_paper_mode i,
      po_simulated = True, po_entry_order_status = paper_entry_no_fill,
      po_entry_reference_price = Some (entry_reference_price i),
      po_entry_fill_status = ''NO_FILL'', po_entry_fill_time = None, po_entry_fill_price = None,
      po_quantity = ins_quantity i, po_stop_price = Some (stop_price i),
      po_target_price = Some (target_price i), po_exit_time = None, po_exit_price = None,
      po_exit_reason = NO_FILL, po_gross_pnl = 0, po_estimated_costs = 0,
      po_net_estimated_pnl = 0, po_rejection_reason = None, po_trade_created = False\<rparr>"

definition completed_trade_outcome ::
  "paper_instruction \<Rightarrow> instant \<Rightarrow> instant option \<Rightarrow> dec option \<Rightarrow> exit_reason
   \<Rightarrow> paper_simulation_result" where
  "completed_trade_outcome i fill_time exit_at exit_px reason =
     (let costs = (case exit_px of None \<Rightarrow> 0 | Some p \<Rightarrow> ins_estimated_costs i);
          gross = (case exit_px of None \<Rightarrow> 0
                   | Some p \<Rightarrow> dmul (dsub p (entry_reference_price i)) (of_int (ins_quantity i)))
      in \<lparr>po_signal_id = ins_signal_id i, po_signal_key = ins_signal_key i, po_symbol = ins_symbol i,
          po_strategy_name = ins_strategy_name i, po_paper_mode = ins_paper_mode i,
          po_simulated = True, po_entry_order_status = paper_entry_filled,
          po_entry_reference_price = Some (entry_reference_price i),
          po_entry_fill_status = ''FILLED'', po_entry_fill_time = Some fill_time,
          po_entry_fill_price = Some (entry_reference_price i), po_quantity = ins_quantity i,
          po_stop_price = Some (stop_price i), po_target_price = Some (target_price i),
          po_exit_time = exit_at, po_exit_price = exit_px, po_exit_reason = reason,
          po_gross_pnl = gross, po_estimated_costs = costs,
          po_net_estimated_pnl = dsub gross costs, po_rejection_reason = None,
          po_trade_created = True\<rparr>)"

subsection \<open>Replay summary\<close>

record paper_replay_summary =
  ps_paper_enabled :: bool
  ps_paper_mode :: paper_mode_kind
  ps_signals_loaded :: nat
  ps_outcomes :: "paper_simulation_result list"

definition count_if :: "('a \<Rightarrow> bool) \<Rightarrow> 'a list \<Rightarrow> nat" where
  "count_if P xs = length (filter P xs)"

definition has_entry_attempt :: "paper_simulation_result \<Rightarrow> bool" where
  "has_entry_attempt o' \<longleftrightarrow> po_entry_order_status o' \<in> {paper_entry_filled, paper_entry_no_fill}"

definition ps_entry_attempts :: "paper_replay_summary \<Rightarrow> nat" where
  "ps_entry_attempts s = count_if has_entry_attempt (ps_outcomes s)"

definition ps_no_fill_outcomes :: "paper_replay_summary \<Rightarrow> nat" where
  "ps_no_fill_outcomes s = count_if (\<lambda>o'. po_exit_reason o' = NO_FILL) (ps_outcomes s)"

definition ps_trades_created :: "paper_replay_summary \<Rightarrow> nat" where
  "ps_trades_created s = count_if po_trade_created (ps_outcomes s)"

definition ps_rejections :: "paper_replay_summary \<Rightarrow> nat" where
  "ps_rejections s =
     count_if (\<lambda>o'. case po_rejection_reason o' of None \<Rightarrow> False | Some r \<Rightarrow> r \<noteq> []) (ps_outcomes s)"

definition ps_gross_pnl :: "paper_replay_summary \<Rightarrow> dec" where
  "ps_gross_pnl s = dsum (map po_gross_pnl (ps_outcomes s))"

definition ps_estimated_costs :: "paper_replay_summary \<Rightarrow> dec" where
  "ps_estimated_costs s = dsum (map po_estimated_costs (ps_outcomes s))"

definition ps_net_estimated_pnl :: "paper_replay_summary \<Rightarrow> dec" where
  "ps_net_estimated_pnl s = dsum (map po_net_estimated_pnl (ps_outcomes s))"

definition summary_as_dict :: "paper_replay_summary \<Rightarrow> (string \<times> json) list res" where
  "summary_as_dict s =
     bindE (money (ps_gross_pnl s)) (\<lambda>gp.
     bindE (money (ps_estimated_costs s)) (\<lambda>ec.
     bindE (money (ps_net_estimated_pnl s)) (\<lambda>np.
     bindE (mapE outcome_payload (ps_outcomes s)) (\<lambda>os.
       Inr [(''paper_enabled'', JBool (ps_paper_enabled s)),
            (''paper_mode'', JStr (mode_value (ps_paper_mode s))),
            (''signals_loaded'', JInt (int (ps_signals_loaded s))),
            (''candidate_signals_loaded'', JInt (int (ps_signals_loaded s))),
            (''entry_attempts'', JInt (int (ps_entry_attempts s))),
            (''no_fill_outcomes'', JInt (int (ps_no_fill_outcomes s))),
            (''trades_created'', JInt (int (ps_trades_created s))),
            (''filled_paper_trades'', JInt (int (ps_trades_created s))),
            (''rejections'', JInt (int (ps_rejections s))),
            (''gross_pnl'', gp),
            (''estimated_costs'', ec),
            (''net_estimated_pnl'', np),
            (''outcomes'', JList (map JObj os))]))))"

subsection \<open>Facts\<close>

lemma mode_roundtrip: "mode_of_value (mode_value m) = Some m"
  by (cases m) (simp_all add: mode_of_value_def)

lemma mode_of_value_sound: "mode_of_value v = Some m \<Longrightarrow> mode_value m = v"
  by (auto simp: mode_of_value_def split: if_splits)

lemma rejected_outcome_fields [simp]:
  "po_exit_reason (rejected_outcome sg c r j) = r"
  "po_rejection_reason (rejected_outcome sg c r j) = Some j"
  "\<not> po_trade_created (rejected_outcome sg c r j)"
  "\<not> has_entry_attempt (rejected_outcome sg c r j)"
  "po_signal_id (rejected_outcome sg c r j) = sig_id sg"
  by (simp_all add: rejected_outcome_def has_entry_attempt_def entry_status_defs)

lemma no_fill_outcome_fields [simp]:
  "po_exit_reason (no_fill_outcome i) = NO_FILL"
  "po_rejection_reason (no_fill_outcome i) = None"
  "\<not> po_trade_created (no_fill_outcome i)"
  "has_entry_attempt (no_fill_outcome i)"
  "po_signal_id (no_fill_outcome i) = ins_signal_id i"
  by (simp_all add: no_fill_outcome_def has_entry_attempt_def entry_status_defs)

lemma completed_trade_outcome_fields [simp]:
  "po_exit_reason (completed_trade_outcome i f t p r) = r"
  "po_rejection_reason (completed_trade_outcome i f t p r) = None"
  "po_trade_created (completed_trade_outcome i f t p r)"
  "has_entry_attempt (completed_trade_outcome i f t p r)"
  "po_entry_order_status (completed_trade_outcome i f t p r) = paper_entry_filled"
  "po_signal_id (completed_trade_outcome i f t p r) = ins_signal_id i"
  "po_exit_time (completed_trade_outcome i f t p r) = t"
  "po_exit_price (completed_trade_outcome i f t p r) = p"
  "po_entry_fill_time (completed_trade_outcome i f t p r) = Some f"
  "po_entry_fill_price (completed_trade_outcome i f t p r) = Some (entry_reference_price i)"
  by (simp_all add: completed_trade_outcome_def has_entry_attempt_def Let_def)

end
