(* ===== verification/PaperSimulator.thy ===== *)
theory PaperSimulator
  imports PaperSchemas
begin

section \<open>The paper fill simulator\<close>

text \<open>
  \<^verbatim>\<open>app/paper/simulator.py\<close>: signal validation, the instruction with its entry, stop and target,
  and the simulated life of a long limit order over completed candles. The facts relate the loop over
  the exit candles to its declarative reading: the first candle that triggers an exit decides.
\<close>

subsection \<open>Instructions\<close>

definition q6 :: "dec \<Rightarrow> dec res" where
  "q6 v = quantize_up 6 v"

definition invalid_context :: "paper_signal \<Rightarrow> paper_config \<Rightarrow> string \<Rightarrow> paper_simulation_result" where
  "invalid_context signal config reason = rejected_outcome signal config INVALID_SIGNAL_CONTEXT reason"

definition validate_signal :: "paper_signal \<Rightarrow> paper_config \<Rightarrow> paper_simulation_result option" where
  "validate_signal signal config =
     (if sig_status signal \<noteq> candidate_status
      then Some (invalid_context signal config ''signal_is_not_candidate'')
      else if sig_direction signal \<noteq> long_direction
      then Some (invalid_context signal config ''signal_direction_not_long'')
      else if sig_veto_reasons signal \<noteq> []
      then Some (invalid_context signal config ''candidate_has_veto_reasons'')
      else if sig_features signal = []
      then Some (invalid_context signal config ''missing_signal_features'')
      else if jget (sig_features signal) ''signal_status'' \<noteq> JStr candidate_status
      then Some (invalid_context signal config ''feature_snapshot_not_candidate'')
      else if jget (sig_features signal) ''veto_reasons'' \<notin> {JList [], JNull}
      then Some (invalid_context signal config ''feature_snapshot_has_veto_reasons'')
      else if \<not> is_obj (jget (sig_features signal) ''indicator_values'')
      then Some (invalid_context signal config ''missing_indicator_snapshot'')
      else if \<not> is_obj (jget (sig_features signal) ''data_quality'')
      then Some (invalid_context signal config ''missing_data_quality_snapshot'')
      else None)"

definition find_signal_candle :: "paper_signal \<Rightarrow> completed_bar list \<Rightarrow> completed_bar option" where
  "find_signal_candle signal candles = find (\<lambda>c. started_at c = sig_time signal) candles"

text \<open>A rejected outcome on the left, an instruction on the right.\<close>

definition build_instruction ::
  "paper_signal \<Rightarrow> completed_bar list \<Rightarrow> paper_config
   \<Rightarrow> (paper_simulation_result + paper_instruction) res" where
  "build_instruction signal candles config =
     (case validate_signal signal config of
        Some rejection \<Rightarrow> Inr (Inl rejection)
      | None \<Rightarrow>
     (case find_signal_candle signal candles of
        None \<Rightarrow> Inr (Inl (invalid_context signal config ''signal_candle_unavailable''))
      | Some candle \<Rightarrow>
          bindE (q6 (dmul (close_price candle) (dadd 1 (ddiv (entry_buffer_pct config) 100)))) (\<lambda>entry.
          bindE (q6 (dmul entry (dsub 1 (ddiv (stop_pct config) 100)))) (\<lambda>stop.
          let unit_risk = dsub entry stop
          in if entry \<le> 0 \<or> stop \<le> 0 \<or> unit_risk \<le> 0
             then Inr (Inl (invalid_context signal config ''invalid_entry_stop_context''))
             else if default_quantity config < 1
             then Inr (Inl (invalid_context signal config ''invalid_paper_quantity''))
             else bindE (q6 (dadd entry (dmul (target_r_multiple config) unit_risk))) (\<lambda>target.
               if target \<le> entry
               then Inr (Inl (invalid_context signal config ''invalid_target_context''))
               else bindE (q6 (dmul unit_risk (of_int (default_quantity config)))) (\<lambda>max_risk.
                 Inr (Inr
                   \<lparr>ins_signal_id = sig_id signal, ins_signal_key = sig_key signal,
                    ins_symbol = sig_symbol signal, ins_strategy_name = sig_strategy_name signal,
                    ins_signal_time = sig_time signal, entry_reference_price = entry,
                    stop_price = stop, target_price = target,
                    ins_quantity = default_quantity config, paper_max_risk = max_risk,
                    ins_paper_mode = pc_mode config,
                    ins_estimated_costs = estimated_cost_per_trade config,
                    ins_simulated = True\<rparr>)))))))"

subsection \<open>Simulation\<close>

definition at_or_after_force_flat :: "instant \<Rightarrow> paper_config \<Rightarrow> bool" where
  "at_or_after_force_flat t config = (force_flat_time_ist config \<le> ist_time t)"

definition same_day_future :: "paper_instruction \<Rightarrow> completed_bar list \<Rightarrow> completed_bar list" where
  "same_day_future i candles =
     filter (\<lambda>c. ist_date (started_at c) = ist_date (ins_signal_time i)
              \<and> ins_signal_time i < started_at c) (sort_key started_at candles)"

definition entry_fills :: "paper_instruction \<Rightarrow> paper_config \<Rightarrow> completed_bar \<Rightarrow> bool" where
  "entry_fills i config c =
     (\<not> at_or_after_force_flat (started_at c) config
      \<and> low_price c \<le> entry_reference_price i \<and> entry_reference_price i \<le> high_price c)"

text \<open>The loop over the candles after the entry; \<open>last_eligible\<close> is the candle of a time exit.\<close>

fun exit_loop ::
  "paper_instruction \<Rightarrow> paper_config \<Rightarrow> instant \<Rightarrow> completed_bar option \<Rightarrow> completed_bar list
   \<Rightarrow> paper_simulation_result" where
  "exit_loop i config fill_time last_eligible [] =
     (case last_eligible of
        Some c \<Rightarrow> completed_trade_outcome i fill_time (Some (started_at c)) (Some (close_price c)) TIME_EXIT
      | None \<Rightarrow> completed_trade_outcome i fill_time None None DATA_ENDED)"
| "exit_loop i config fill_time last_eligible (c # cs) =
     (if at_or_after_force_flat (started_at c) config
      then completed_trade_outcome i fill_time (Some (started_at c)) (Some (close_price c)) FORCE_FLAT
      else if low_price c \<le> stop_price i
      then completed_trade_outcome i fill_time (Some (started_at c)) (Some (stop_price i)) STOP_HIT
      else if target_price i \<le> high_price c
      then completed_trade_outcome i fill_time (Some (started_at c)) (Some (target_price i)) TARGET_HIT
      else exit_loop i config fill_time (Some c) cs)"

definition simulate ::
  "paper_instruction \<Rightarrow> completed_bar list \<Rightarrow> paper_config \<Rightarrow> paper_simulation_result" where
  "simulate i candles config =
     (let future = same_day_future i candles
      in case find (entry_fills i config) future of
           None \<Rightarrow> no_fill_outcome i
         | Some entry_candle \<Rightarrow>
             let exit_candles = filter (\<lambda>c. started_at entry_candle < started_at c) future
             in if exit_candles = []
                then completed_trade_outcome i (started_at entry_candle) None None DATA_ENDED
                else exit_loop i config (started_at entry_candle) None exit_candles)"

subsection \<open>The exit that the loop finds\<close>

definition triggers :: "paper_instruction \<Rightarrow> paper_config \<Rightarrow> completed_bar \<Rightarrow> bool" where
  "triggers i config c \<longleftrightarrow> at_or_after_force_flat (started_at c) config
     \<or> low_price c \<le> stop_price i \<or> target_price i \<le> high_price c"

definition triggered_exit :: "paper_instruction \<Rightarrow> paper_config \<Rightarrow> completed_bar \<Rightarrow> exit_reason \<times> dec" where
  "triggered_exit i config c =
     (if at_or_after_force_flat (started_at c) config then (FORCE_FLAT, close_price c)
      else if low_price c \<le> stop_price i then (STOP_HIT, stop_price i)
      else (TARGET_HIT, target_price i))"

lemma exit_loop_eq:
  "exit_loop i cfg ft le cs =
     (case find (triggers i cfg) cs of
        Some c \<Rightarrow> completed_trade_outcome i ft (Some (started_at c))
                    (Some (snd (triggered_exit i cfg c))) (fst (triggered_exit i cfg c))
      | None \<Rightarrow>
          (case (if cs = [] then le else Some (last cs)) of
             Some c \<Rightarrow> completed_trade_outcome i ft (Some (started_at c)) (Some (close_price c)) TIME_EXIT
           | None \<Rightarrow> completed_trade_outcome i ft None None DATA_ENDED))"
  by (induction i cfg ft le cs rule: exit_loop.induct)
    (auto simp: triggers_def triggered_exit_def split: option.splits)

text \<open>The three shapes of an outcome: no fill, data ended, exit at a candle after the entry.\<close>

lemma simulate_cases:
  obtains
    (no_fill) "find (entry_fills i cfg) (same_day_future i cs) = None"
      "simulate i cs cfg = no_fill_outcome i"
  | (no_data) e where "find (entry_fills i cfg) (same_day_future i cs) = Some e"
      "filter (\<lambda>c. started_at e < started_at c) (same_day_future i cs) = []"
      "simulate i cs cfg = completed_trade_outcome i (started_at e) None None DATA_ENDED"
  | (triggered) e c where "find (entry_fills i cfg) (same_day_future i cs) = Some e"
      "find (triggers i cfg) (filter (\<lambda>c. started_at e < started_at c) (same_day_future i cs)) = Some c"
      "simulate i cs cfg = completed_trade_outcome i (started_at e) (Some (started_at c))
         (Some (snd (triggered_exit i cfg c))) (fst (triggered_exit i cfg c))"
  | (time_exit) e where "find (entry_fills i cfg) (same_day_future i cs) = Some e"
      "find (triggers i cfg) (filter (\<lambda>c. started_at e < started_at c) (same_day_future i cs)) = None"
      "filter (\<lambda>c. started_at e < started_at c) (same_day_future i cs) \<noteq> []"
      "simulate i cs cfg = completed_trade_outcome i (started_at e)
         (Some (started_at (last (filter (\<lambda>c. started_at e < started_at c) (same_day_future i cs)))))
         (Some (close_price (last (filter (\<lambda>c. started_at e < started_at c) (same_day_future i cs)))))
         TIME_EXIT"
proof -
  note d = simulate_def Let_def exit_loop_eq
  show thesis
  proof (cases "find (entry_fills i cfg) (same_day_future i cs)")
    case None
    then show thesis by (intro no_fill) (simp_all add: d)
  next
    case (Some e)
    let ?x = "filter (\<lambda>c. started_at e < started_at c) (same_day_future i cs)"
    show thesis
    proof (cases "?x = []")
      case True
      with Some show thesis by (intro no_data) (simp_all add: d)
    next
      case False
      show thesis
      proof (cases "find (triggers i cfg) ?x")
        case None
        with Some False show thesis by (intro time_exit) (simp_all add: d)
      next
        case (Some c)
        with \<open>find _ (same_day_future i cs) = Some e\<close> False show thesis
          by (intro triggered) (simp_all add: d)
      qed
    qed
  qed
qed

lemma same_day_future_in:
  "c \<in> set (same_day_future i cs) \<longleftrightarrow> c \<in> set cs
     \<and> ist_date (started_at c) = ist_date (ins_signal_time i) \<and> ins_signal_time i < started_at c"
  by (auto simp: same_day_future_def)

lemma same_day_future_sorted: "sorted (map started_at (same_day_future i cs))"
  unfolding same_day_future_def by (rule sorted_filter) simp

lemma exit_candle_in:
  "find (triggers i cfg) (filter P (same_day_future i cs)) = Some c \<Longrightarrow>
     triggers i cfg c \<and> P c \<and> c \<in> set cs
     \<and> ist_date (started_at c) = ist_date (ins_signal_time i) \<and> ins_signal_time i < started_at c"
  by (auto dest!: find_Some_D simp: same_day_future_in)

subsection \<open>Instructions are well formed\<close>

lemma build_instruction_Inr:
  assumes "build_instruction sg cs cfg = Inr (Inr i)"
  obtains c where "validate_signal sg cfg = None" "find_signal_candle sg cs = Some c"
    "q6 (dmul (close_price c) (dadd 1 (ddiv (entry_buffer_pct cfg) 100))) = Inr (entry_reference_price i)"
    "q6 (dmul (entry_reference_price i) (dsub 1 (ddiv (stop_pct cfg) 100))) = Inr (stop_price i)"
    "0 < entry_reference_price i" "0 < stop_price i" "stop_price i < entry_reference_price i"
    "1 \<le> default_quantity cfg" "entry_reference_price i < target_price i"
    "q6 (dmul (dsub (entry_reference_price i) (stop_price i)) (of_int (default_quantity cfg)))
       = Inr (paper_max_risk i)"
    "ins_quantity i = default_quantity cfg" "ins_signal_id i = sig_id sg" "ins_symbol i = sig_symbol sg"
    "ins_signal_time i = sig_time sg" "ins_signal_key i = sig_key sg"
    "ins_estimated_costs i = estimated_cost_per_trade cfg" "ins_paper_mode i = pc_mode cfg"
  using assms
  by (auto simp: build_instruction_def bindE_eq_Inr Let_def not_le split: option.splits if_splits)

lemma validate_signal_None:
  "validate_signal sg cfg = None \<longleftrightarrow>
     sig_status sg = candidate_status \<and> sig_direction sg = long_direction \<and> sig_veto_reasons sg = []
     \<and> sig_features sg \<noteq> [] \<and> jget (sig_features sg) ''signal_status'' = JStr candidate_status
     \<and> jget (sig_features sg) ''veto_reasons'' \<in> {JList [], JNull}
     \<and> is_obj (jget (sig_features sg) ''indicator_values'')
     \<and> is_obj (jget (sig_features sg) ''data_quality'')"
  by (auto simp: validate_signal_def)

text \<open>A rejection never creates a trade and carries no money.\<close>

lemma build_instruction_Inl:
  "build_instruction sg cs cfg = Inr (Inl r) \<Longrightarrow>
     \<exists>why. r = rejected_outcome sg cfg INVALID_SIGNAL_CONTEXT why"
  by (auto simp: build_instruction_def bindE_eq_Inr Let_def validate_signal_def invalid_context_def
      split: option.splits if_splits)

text \<open>every instruction is sound: the signal passed all eight validations, the prices satisfy
  0 < stop < entry < target and lie on the grid of six decimals, and the quantity is at least one.\<close>

theorem instruction_sound:
  assumes "build_instruction sg cs cfg = Inr (Inr i)"
  shows "0 < stop_price i \<and> stop_price i < entry_reference_price i
     \<and> entry_reference_price i < target_price i \<and> 1 \<le> ins_quantity i
     \<and> (\<exists>n. entry_reference_price i = of_int n / 10 ^ 6) \<and> (\<exists>n. stop_price i = of_int n / 10 ^ 6)
     \<and> sig_status sg = candidate_status \<and> sig_direction sg = long_direction
     \<and> sig_veto_reasons sg = []
     \<and> jget (sig_features sg) ''signal_status'' = JStr candidate_status
     \<and> (\<exists>c \<in> set cs. started_at c = sig_time sg)"
  using assms
proof (rule build_instruction_Inr)
  fix c
  assume v: "validate_signal sg cfg = None" and c: "find_signal_candle sg cs = Some c"
    and e: "q6 (dmul (close_price c) (dadd 1 (ddiv (entry_buffer_pct cfg) 100)))
      = Inr (entry_reference_price i)"
    and s: "q6 (dmul (entry_reference_price i) (dsub 1 (ddiv (stop_pct cfg) 100))) = Inr (stop_price i)"
    and o: "0 < entry_reference_price i" "0 < stop_price i" "stop_price i < entry_reference_price i"
      "1 \<le> default_quantity cfg" "entry_reference_price i < target_price i"
      "ins_quantity i = default_quantity cfg"
  have "\<exists>n. entry_reference_price i = of_int n / 10 ^ 6" "\<exists>n. stop_price i = of_int n / 10 ^ 6"
    using e s by (auto simp: q6_def dest: quantize_up_Inr)
  with v c o show ?thesis
    by (auto simp: validate_signal_None find_signal_candle_def dest: find_Some_D)
qed


text \<open>the profit and loss is the one of the exit: a stop-out loses, and the rounded loss is exactly
  the maximum risk written in the instruction; a target exit gains; without an exit there is no
  profit and no cost; and the net result is always the gross result less the costs.\<close>

theorem pnl_follows_exit:
  assumes "build_instruction sg cs0 cfg = Inr (Inr i)" and "r = simulate i cs cfg"
  shows "(po_exit_reason r = STOP_HIT \<longrightarrow>
            po_gross_pnl r < 0 \<and> q6 (- po_gross_pnl r) = Inr (paper_max_risk i))
     \<and> (po_exit_reason r = TARGET_HIT \<longrightarrow> 0 < po_gross_pnl r)
     \<and> (po_exit_price r = None \<longrightarrow> po_gross_pnl r = 0 \<and> po_estimated_costs r = 0)
     \<and> (po_exit_price r \<noteq> None \<longrightarrow> po_estimated_costs r = estimated_cost_per_trade cfg)
     \<and> po_net_estimated_pnl r = dsub (po_gross_pnl r) (po_estimated_costs r)"
  using assms(1)
proof (rule build_instruction_Inr)
  assume o: "stop_price i < entry_reference_price i" "1 \<le> default_quantity cfg"
      "entry_reference_price i < target_price i" "ins_quantity i = default_quantity cfg"
      "ins_estimated_costs i = estimated_cost_per_trade cfg"
    and risk: "q6 (dmul (dsub (entry_reference_price i) (stop_price i)) (of_int (default_quantity cfg)))
       = Inr (paper_max_risk i)"
  have q: "0 < (of_int (default_quantity cfg) :: rat)" using o by simp
  have stop: "dmul (dsub (stop_price i) (entry_reference_price i)) (of_int (default_quantity cfg)) < 0"
    using o q by (intro dmul_neg) simp_all
  have target: "0 < dmul (dsub (target_price i) (entry_reference_price i)) (of_int (default_quantity cfg))"
    using o q by (intro dmul_pos) simp_all
  have "- dsub (stop_price i) (entry_reference_price i) = dsub (entry_reference_price i) (stop_price i)"
    by (simp add: dsub_def dfix_minus [symmetric])
  then have sym: "- dmul (dsub (stop_price i) (entry_reference_price i)) (of_int (default_quantity cfg))
      = dmul (dsub (entry_reference_price i) (stop_price i)) (of_int (default_quantity cfg))"
    by (simp add: dmul_def dfix_minus [symmetric] flip: mult_minus_left)
  from simulate_cases [of i cfg cs] show ?thesis
  proof cases
    case (triggered e c)
    with o stop target sym risk show ?thesis unfolding assms(2)
      by (auto simp: completed_trade_outcome_def triggered_exit_def Let_def)
  qed (use o assms(2) in \<open>simp_all add: no_fill_outcome_def completed_trade_outcome_def Let_def dsub_def\<close>)
qed

lemma find_filter_upto:
  assumes "sorted (map f xs)" "f e \<le> T"
  shows "find P xs = Some e \<longleftrightarrow> find P (filter (\<lambda>x. f x \<le> T) xs) = Some e"
  using assms
proof (induction xs)
  case (Cons x xs)
  show ?case
  proof (cases "f x \<le> T")
    case True
    with Cons show ?thesis by simp
  next
    case False
    then have "\<forall>y \<in> set (x # xs). \<not> f y \<le> T" using Cons.prems(1) by auto
    then have "filter (\<lambda>x. f x \<le> T) (x # xs) = []" "find P (x # xs) \<noteq> Some e"
      using Cons.prems(2) by (auto simp: filter_empty_conv dest: find_Some_D)
    then show ?thesis by simp
  qed
qed simp

lemma same_day_future_filter:
  "same_day_future i (filter Q cs) = filter Q (same_day_future i cs)"
  by (simp add: same_day_future_def filter_sort [symmetric] conj_commute conj_left_commute)

text \<open>C2: there is no look-ahead: once a trade has exited on a trigger, the candles after the exit do
  not matter; any candles that agree up to the exit time give the same outcome.\<close>

theorem no_look_ahead:
  assumes "po_exit_time (simulate i cs cfg) = Some T" "po_exit_reason (simulate i cs cfg) \<noteq> TIME_EXIT"
    and "filter (\<lambda>c. started_at c \<le> T) cs' = filter (\<lambda>c. started_at c \<le> T) cs"
  shows "simulate i cs' cfg = simulate i cs cfg"
  using simulate_cases [of i cfg cs]
proof cases
  case no_fill
  with assms(1) show ?thesis by (simp add: no_fill_outcome_def)
next
  case (no_data e)
  with assms(1) show ?thesis by simp
next
  case (time_exit e)
  with assms(2) show ?thesis by simp
next
  case (triggered e c)
  let ?up = "\<lambda>c. started_at c \<le> T"
  have T: "T = started_at c" using triggered assms(1) by simp
  have lt: "started_at e < T" using exit_candle_in [OF triggered(2)] T by simp
  have eq: "filter ?up (same_day_future i cs') = filter ?up (same_day_future i cs)"
    using assms(3) by (simp add: same_day_future_filter [symmetric])
  have e: "find (entry_fills i cfg) (same_day_future i cs') = Some e"
    using triggered(1) lt eq find_filter_upto [OF same_day_future_sorted, of e T]
    by (metis less_imp_le)
  let ?after = "filter (\<lambda>c. started_at e < started_at c)"
  have sorted: "sorted (map started_at (?after (same_day_future i x)))" for x
    by (rule sorted_filter) (rule same_day_future_sorted)
  have "filter ?up (?after (same_day_future i cs')) = ?after (filter ?up (same_day_future i cs'))"
    "filter ?up (?after (same_day_future i cs)) = ?after (filter ?up (same_day_future i cs))"
    by (simp_all add: conj_commute)
  with eq have "filter ?up (?after (same_day_future i cs')) = filter ?up (?after (same_day_future i cs))"
    by simp
  then have c: "find (triggers i cfg) (?after (same_day_future i cs')) = Some c"
    using triggered(2) T find_filter_upto [OF sorted, of c T] by (metis order.refl)
  then have "?after (same_day_future i cs') \<noteq> []" by auto
  with e c triggered(3) show ?thesis by (simp add: simulate_def Let_def exit_loop_eq)
qed

subsection \<open>Witnesses\<close>

text \<open>A signal at 10:00 IST at the price 100, stop 90, target 120: the next candle fills the entry, the
  one after it reaches the stop and the target, and the stop has precedence.\<close>

definition demo_paper_config :: paper_config where
  "demo_paper_config =
     \<lparr>pc_enabled = True, pc_mode = PAPER, max_trades_per_day = 3, default_quantity = 2,
      entry_buffer_pct = 0, stop_pct = 10, target_r_multiple = 2, force_flat_time_ist = hhmm 15 10,
      estimated_cost_per_trade = 1\<rparr>"

definition demo_signal :: paper_signal where
  "demo_signal =
     \<lparr>sig_id = 1, sig_instrument_id = 1, sig_key = ''k'', sig_symbol = ''NSE:SBIN'',
      sig_strategy_name = orb_name, sig_strategy_version = strategy_version_const,
      sig_status = candidate_status, sig_time = ist_combine 20607 (hhmm 10 0),
      sig_direction = long_direction, sig_veto_reasons = [],
      sig_features = [(''signal_status'', JStr candidate_status), (''veto_reasons'', JList []),
        (''indicator_values'', JObj []), (''data_quality'', JObj [])],
      sig_replay_run_id = None\<rparr>"

definition demo_paper_bar :: "int \<Rightarrow> int \<Rightarrow> int \<Rightarrow> completed_bar" where
  "demo_paper_bar m lo hi =
     \<lparr>bar_instrument_id = 1, bar_symbol = ''NSE:SBIN'', bar_timeframe = ''1minute'',
      started_at = ist_combine 20607 (hhmm 10 m), open_price = 100, high_price = of_int hi,
      low_price = of_int lo, close_price = 100, volume = 10\<rparr>"

definition demo_paper_bars :: "completed_bar list" where
  "demo_paper_bars = [demo_paper_bar 0 100 100, demo_paper_bar 1 99 101, demo_paper_bar 2 80 130]"

definition demo_instruction :: paper_instruction where
  "demo_instruction =
     \<lparr>ins_signal_id = 1, ins_signal_key = ''k'', ins_symbol = ''NSE:SBIN'', ins_strategy_name = orb_name,
      ins_signal_time = ist_combine 20607 (hhmm 10 0), entry_reference_price = 100, stop_price = 90,
      target_price = 120, ins_quantity = 2, paper_max_risk = 20, ins_paper_mode = PAPER,
      ins_estimated_costs = 1, ins_simulated = True\<rparr>"

lemma demo_build_instruction:
  "build_instruction demo_signal demo_paper_bars demo_paper_config = Inr (Inr demo_instruction)"
proof -
  have valid: "validate_signal demo_signal demo_paper_config = None"
    by (simp add: validate_signal_None demo_signal_def)
  have candle: "find_signal_candle demo_signal demo_paper_bars = Some (demo_paper_bar 0 100 100)"
    by (simp add: find_signal_candle_def demo_signal_def demo_paper_bars_def demo_paper_bar_def)
  have tenth: "ddiv 10 100 = 1 / 10" "dsub 1 (1 / 10) = 9 / 10"
    using dfix_near [of 1000000000000000000000000000 "1 / 10" 28]
      dfix_near [of 9000000000000000000000000000 "9 / 10" 28] dfix_exact [OF dec28I [of 1 "1 / 10" 1]]
    by (simp_all add: ddiv_def dsub_def)
  have ops: "ddiv 0 100 = 0" "dadd 1 0 = 1" "dmul 100 1 = 100" "dmul 100 (9 / 10) = 90"
    "dsub 100 90 = 10" "dmul 2 10 = 20" "dadd 100 20 = 120" "dmul 10 2 = 20"
    using dfix_of_int [of 100] dfix_of_int [of 90] dfix_of_int [of 10] dfix_of_int [of 20]
      dfix_of_int [of 120] dfix_of_int [of 1]
    by (simp_all add: ddiv_def dadd_def dmul_def dsub_def)
  have q: "q6 100 = Inr 100" "q6 90 = Inr 90" "q6 120 = Inr 120" "q6 20 = Inr 20"
    using quantize_up_near [of 100 6 100000000] quantize_up_near [of 90 6 90000000]
      quantize_up_near [of 120 6 120000000] quantize_up_near [of 20 6 20000000]
    by (simp_all add: q6_def)
  show ?thesis
    unfolding build_instruction_def valid candle option.case
    by (simp add: demo_paper_bar_def demo_paper_config_def demo_signal_def demo_instruction_def
        tenth ops q)
qed

definition demo_outcome :: paper_simulation_result where
  "demo_outcome = completed_trade_outcome demo_instruction (ist_combine 20607 (hhmm 10 1))
     (Some (ist_combine 20607 (hhmm 10 2))) (Some 90) STOP_HIT"

lemma demo_minutes_after:
  "0 \<le> m \<Longrightarrow> m < 60 \<Longrightarrow> ist_date (ist_combine 20607 (hhmm 10 m)) = 20607"
  "0 \<le> m \<Longrightarrow> m < 60 \<Longrightarrow> ist_time (ist_combine 20607 (hhmm 10 m)) = hhmm 10 m"
  by (simp_all add: ist_date_combine ist_time_combine hhmm_def time_units)

lemma demo_simulated: "simulate demo_instruction demo_paper_bars demo_paper_config = demo_outcome"
proof -
  have sorted: "sort_key started_at demo_paper_bars = demo_paper_bars"
    by (rule sort_key_id_if_sorted)
      (simp add: demo_paper_bars_def demo_paper_bar_def ist_combine_def hhmm_def minute_us_def)
  have order: "ist_combine 20607 (hhmm 10 a) < ist_combine 20607 (hhmm 10 b) \<longleftrightarrow> a < b" for a b
    by (simp add: ist_combine_def hhmm_def minute_us_def)
  have early: "m < 60 \<Longrightarrow> \<not> hhmm 15 10 \<le> hhmm 10 m" for m
    by (simp add: hhmm_def minute_us_def)
  have "same_day_future demo_instruction demo_paper_bars = [demo_paper_bar 1 99 101, demo_paper_bar 2 80 130]"
    unfolding same_day_future_def sorted
    by (simp add: demo_paper_bars_def demo_paper_bar_def demo_instruction_def demo_minutes_after order)
  moreover have "entry_fills demo_instruction demo_paper_config (demo_paper_bar 1 99 101)"
    using early [of 1]
    by (simp add: entry_fills_def demo_instruction_def demo_paper_bar_def demo_paper_config_def
        at_or_after_force_flat_def demo_minutes_after)
  moreover have "started_at (demo_paper_bar m lo hi) = ist_combine 20607 (hhmm 10 m)" for m lo hi
    by (simp add: demo_paper_bar_def)
  moreover have "\<not> at_or_after_force_flat (ist_combine 20607 (hhmm 10 2)) demo_paper_config"
    using early [of 2]
    by (simp add: demo_paper_config_def at_or_after_force_flat_def demo_minutes_after)
  moreover have "low_price (demo_paper_bar 2 80 130) \<le> stop_price demo_instruction"
    "stop_price demo_instruction = 90"
    by (simp_all add: demo_paper_bar_def demo_instruction_def)
  ultimately show ?thesis
    by (simp add: simulate_def order demo_outcome_def)
qed

lemma demo_simulate:
  "po_exit_reason (simulate demo_instruction demo_paper_bars demo_paper_config) = STOP_HIT
   \<and> po_exit_time (simulate demo_instruction demo_paper_bars demo_paper_config)
     = Some (ist_combine 20607 (hhmm 10 2))"
  by (simp add: demo_simulated demo_outcome_def)

lemma instruction_sound_witness:
  "build_instruction demo_signal demo_paper_bars demo_paper_config = Inr (Inr demo_instruction)
   \<and> stop_price demo_instruction < entry_reference_price demo_instruction"
  using instruction_sound [OF demo_build_instruction] demo_build_instruction by blast


lemma pnl_follows_exit_witness:
  "po_gross_pnl (simulate demo_instruction demo_paper_bars demo_paper_config) < 0"
  using pnl_follows_exit [OF demo_build_instruction refl, of demo_paper_bars] demo_simulate by blast

lemma no_look_ahead_witness:
  "simulate demo_instruction (demo_paper_bars @ [demo_paper_bar 30 200 300]) demo_paper_config
   = simulate demo_instruction demo_paper_bars demo_paper_config"
proof (rule no_look_ahead)
  show "po_exit_time (simulate demo_instruction demo_paper_bars demo_paper_config)
     = Some (ist_combine 20607 (hhmm 10 2))" using demo_simulate by blast
  show "po_exit_reason (simulate demo_instruction demo_paper_bars demo_paper_config) \<noteq> TIME_EXIT"
    using demo_simulate by simp
  show "filter (\<lambda>c. started_at c \<le> ist_combine 20607 (hhmm 10 2))
      (demo_paper_bars @ [demo_paper_bar 30 200 300])
    = filter (\<lambda>c. started_at c \<le> ist_combine 20607 (hhmm 10 2)) demo_paper_bars"
    by (simp add: demo_paper_bar_def ist_combine_def hhmm_def minute_us_def)
qed

end
