(* ===== verification/PyState.thy ===== *)
theory PyState
  imports Prelude
begin

section \<open>Programs over a state that may raise\<close>

text \<open>
  A method that changes the state of a repository or service and may raise is a function from the
  state to a result and the state it leaves. When it raises, the state holds what was done before
  the exception, as in the source. \<open>tryS\<close> is \<^verbatim>\<open>try ... except\<close> with a handler that decides by
  the exception, \<open>mapS\<close> a loop that collects one value per element.
\<close>

type_synonym ('s, 'a) prog = "'s \<Rightarrow> 'a res \<times> 's"

definition retS :: "'a \<Rightarrow> ('s, 'a) prog" where
  "retS x = (\<lambda>s. (Inr x, s))"

definition raiseS :: "exn \<Rightarrow> ('s, 'a) prog" where
  "raiseS e = (\<lambda>s. (Inl e, s))"

definition liftS :: "'a res \<Rightarrow> ('s, 'a) prog" where
  "liftS r = (\<lambda>s. (r, s))"

definition readS :: "('s \<Rightarrow> 'a) \<Rightarrow> ('s, 'a) prog" where
  "readS f = (\<lambda>s. (Inr (f s), s))"

definition modifyS :: "('s \<Rightarrow> 's) \<Rightarrow> ('s, unit) prog" where
  "modifyS f = (\<lambda>s. (Inr (), f s))"

definition bindS :: "('s, 'a) prog \<Rightarrow> ('a \<Rightarrow> ('s, 'b) prog) \<Rightarrow> ('s, 'b) prog" where
  "bindS m f = (\<lambda>s. case m s of (Inl e, s') \<Rightarrow> (Inl e, s') | (Inr x, s') \<Rightarrow> f x s')"

definition tryS :: "('s, 'a) prog \<Rightarrow> (exn \<Rightarrow> ('s, 'a) prog option) \<Rightarrow> ('s, 'a) prog" where
  "tryS m h = (\<lambda>s. case m s of
      (Inl e, s') \<Rightarrow> (case h e of None \<Rightarrow> (Inl e, s') | Some k \<Rightarrow> k s')
    | (Inr x, s') \<Rightarrow> (Inr x, s'))"

fun mapS :: "('a \<Rightarrow> ('s, 'b) prog) \<Rightarrow> 'a list \<Rightarrow> ('s, 'b list) prog" where
  "mapS f [] = retS []"
| "mapS f (x # xs) = bindS (f x) (\<lambda>y. bindS (mapS f xs) (\<lambda>ys. retS (y # ys)))"

definition whenS :: "bool \<Rightarrow> ('s, unit) prog \<Rightarrow> ('s, unit) prog" where
  "whenS b m = (if b then m else retS ())"

named_theorems prog_simps \<open>evaluation of programs\<close>

lemma retS_apply [simp, prog_simps]: "retS x s = (Inr x, s)"
  by (simp add: retS_def)

lemma raiseS_apply [simp, prog_simps]: "raiseS e s = (Inl e, s)"
  by (simp add: raiseS_def)

lemma liftS_apply [simp, prog_simps]: "liftS r s = (r, s)"
  by (simp add: liftS_def)

lemma readS_apply [simp, prog_simps]: "readS f s = (Inr (f s), s)"
  by (simp add: readS_def)

lemma modifyS_apply [simp, prog_simps]: "modifyS f s = (Inr (), f s)"
  by (simp add: modifyS_def)

lemma whenS_apply [simp, prog_simps]: "whenS b m s = (if b then m s else (Inr (), s))"
  by (simp add: whenS_def)

lemma bindS_Inr_iff:
  "bindS m f s = (Inr y, s') \<longleftrightarrow> (\<exists>x s1. m s = (Inr x, s1) \<and> f x s1 = (Inr y, s'))"
  by (auto simp: bindS_def split: prod.splits sum.splits)

lemma bindS_Inl_iff:
  "bindS m f s = (Inl e, s') \<longleftrightarrow>
     m s = (Inl e, s') \<or> (\<exists>x s1. m s = (Inr x, s1) \<and> f x s1 = (Inl e, s'))"
  by (auto simp: bindS_def split: prod.splits sum.splits)

lemma bindS_ret [simp, prog_simps]: "m s = (Inr x, s1) \<Longrightarrow> bindS m f s = f x s1"
  by (simp add: bindS_def)

lemma bindS_err [simp, prog_simps]: "m s = (Inl e, s1) \<Longrightarrow> bindS m f s = (Inl e, s1)"
  by (simp add: bindS_def)

text \<open>A property of the state that every step of a program keeps.\<close>

definition keeps :: "('s \<Rightarrow> bool) \<Rightarrow> ('s, 'a) prog \<Rightarrow> bool" where
  "keeps I m \<longleftrightarrow> (\<forall>s r s'. I s \<longrightarrow> m s = (r, s') \<longrightarrow> I s')"

named_theorems keeps_intros \<open>programs that keep a property of the state\<close>

lemma keepsI: "(\<And>s r s'. I s \<Longrightarrow> m s = (r, s') \<Longrightarrow> I s') \<Longrightarrow> keeps I m"
  by (auto simp: keeps_def)

lemma keepsD: "keeps I m \<Longrightarrow> I s \<Longrightarrow> m s = (r, s') \<Longrightarrow> I s'"
  by (auto simp: keeps_def)

lemma keeps_ret [keeps_intros]: "keeps I (retS x)"
  by (simp add: keeps_def)

lemma keeps_raise [keeps_intros]: "keeps I (raiseS e)"
  by (simp add: keeps_def)

lemma keeps_lift [keeps_intros]: "keeps I (liftS r)"
  by (simp add: keeps_def)

lemma keeps_read [keeps_intros]: "keeps I (readS f)"
  by (simp add: keeps_def)

lemma keeps_bind [keeps_intros]:
  assumes "keeps I m" "\<And>x. keeps I (f x)"
  shows "keeps I (bindS m f)"
proof (rule keepsI)
  fix s r s' assume I: "I s" and b: "bindS m f s = (r, s')"
  obtain x s1 where m: "m s = (x, s1)" by (metis surj_pair)
  have I1: "I s1" by (rule keepsD [OF assms(1) I m])
  show "I s'"
  proof (cases x)
    case (Inl e)
    with b m I1 show ?thesis by (simp add: bindS_def)
  next
    case (Inr y)
    with b m have "f y s1 = (r, s')" by (simp add: bindS_def)
    then show ?thesis by (rule keepsD [OF assms(2) I1])
  qed
qed

lemma keeps_try [keeps_intros]:
  assumes "keeps I m" "\<And>e k. h e = Some k \<Longrightarrow> keeps I k"
  shows "keeps I (tryS m h)"
proof (rule keepsI)
  fix s r s' assume I: "I s" and b: "tryS m h s = (r, s')"
  obtain x s1 where m: "m s = (x, s1)" by (metis surj_pair)
  have I1: "I s1" by (rule keepsD [OF assms(1) I m])
  show "I s'"
  proof (cases "\<exists>e k. x = Inl e \<and> h e = Some k")
    case True
    then obtain e k where e: "x = Inl e" "h e = Some k" by blast
    with b m have "k s1 = (r, s')" by (simp add: tryS_def)
    then show ?thesis by (rule keepsD [OF assms(2) [OF e(2)] I1])
  next
    case False
    with b m have "s' = s1" by (cases x) (auto simp: tryS_def split: option.splits)
    with I1 show ?thesis by simp
  qed
qed

lemma keeps_map [keeps_intros]: "(\<And>x. x \<in> set xs \<Longrightarrow> keeps I (f x)) \<Longrightarrow> keeps I (mapS f xs)"
  by (induction xs) (auto intro!: keeps_intros)

lemma keeps_when [keeps_intros]: "(b \<Longrightarrow> keeps I m) \<Longrightarrow> keeps I (whenS b m)"
  by (simp add: keeps_def)

lemma mapS_Inr_length: "mapS f xs s = (Inr ys, s') \<Longrightarrow> length ys = length xs"
  by (induction xs arbitrary: s ys) (auto simp: bindS_Inr_iff)

text \<open>Invariant of a loop with its results: \<open>P\<close> relates the elements done, their results and the state.\<close>

lemma mapS_induct:
  assumes "mapS f xs s = (Inr ys, s')"
    and "P [] [] s"
    and "\<And>us u vs v s1 s2. P us vs s1 \<Longrightarrow> f u s1 = (Inr v, s2) \<Longrightarrow> u \<in> set xs \<Longrightarrow>
           P (us @ [u]) (vs @ [v]) s2"
  shows "P xs ys s'"
proof -
  have "P (us @ xs) (vs @ ys) s'" if "mapS f xs s = (Inr ys, s')" "P us vs s"
    "\<And>us u vs v s1 s2. P us vs s1 \<Longrightarrow> f u s1 = (Inr v, s2) \<Longrightarrow> u \<in> set xs \<Longrightarrow>
           P (us @ [u]) (vs @ [v]) s2" for us vs
    using that
  proof (induction xs arbitrary: s ys us vs)
    case Nil
    then show ?case by simp
  next
    case (Cons x xs)
    from Cons.prems(1) obtain y s1 zs where
      f: "f x s = (Inr y, s1)" and m: "mapS f xs s1 = (Inr zs, s')" and ys: "ys = y # zs"
      by (auto simp: bindS_Inr_iff)
    from Cons.prems(2,3) f have "P (us @ [x]) (vs @ [y]) s1" by simp
    from Cons.IH [OF m this] Cons.prems(3) ys show ?case by simp
  qed
  from this [of "[]" "[]"] assms show ?thesis by simp
qed

text \<open>A loop with an accumulator.\<close>

fun foldS :: "('a \<Rightarrow> 'b \<Rightarrow> ('s, 'b) prog) \<Rightarrow> 'a list \<Rightarrow> 'b \<Rightarrow> ('s, 'b) prog" where
  "foldS f [] b = retS b"
| "foldS f (x # xs) b = bindS (f x b) (foldS f xs)"

lemma keeps_fold [keeps_intros]: "(\<And>x b. x \<in> set xs \<Longrightarrow> keeps I (f x b)) \<Longrightarrow> keeps I (foldS f xs b)"
  by (induction xs arbitrary: b) (auto intro!: keeps_intros)

lemma foldS_append: "foldS f (xs @ ys) b = bindS (foldS f xs b) (foldS f ys)"
  by (induction xs arbitrary: b) (auto simp: fun_eq_iff bindS_def split: prod.splits sum.splits)

lemma foldS_induct:
  assumes "foldS f xs b s = (Inr c, s')"
    and "P [] b s"
    and "\<And>us u a a' s1 s2. P us a s1 \<Longrightarrow> f u a s1 = (Inr a', s2) \<Longrightarrow> u \<in> set xs \<Longrightarrow>
           P (us @ [u]) a' s2"
  shows "P xs c s'"
proof -
  have "P (us @ xs) c s'" if "foldS f xs b s = (Inr c, s')" "P us b s"
    "\<And>us u a a' s1 s2. P us a s1 \<Longrightarrow> f u a s1 = (Inr a', s2) \<Longrightarrow> u \<in> set xs \<Longrightarrow>
           P (us @ [u]) a' s2" for us
    using that
  proof (induction xs arbitrary: b s us)
    case Nil
    then show ?case by simp
  next
    case (Cons x xs)
    from Cons.prems(1) obtain a s1 where
      f: "f x b s = (Inr a, s1)" and m: "foldS f xs a s1 = (Inr c, s')"
      by (auto simp: bindS_Inr_iff)
    from Cons.prems(2,3) f have "P (us @ [x]) a s1" by simp
    from Cons.IH [OF m this] Cons.prems(3) show ?case by simp
  qed
  from this [of "[]"] assms show ?thesis by simp
qed

end
