(* ===== verification/PaperRepository.thy ===== *)
theory PaperRepository
  imports PaperSimulator PyState "HOL-Library.Product_Lexorder"
begin

section \<open>The paper repositories\<close>

text \<open>
  \<^verbatim>\<open>app/paper/repository.py\<close>: the repository protocol as a record of operations, the contract the
  paper service relies on as a locale, and its two implementations, the in-memory repository and the
  SQL one over the tables of \<^verbatim>\<open>app/models/schema.py\<close>. A table is the list of its rows in insertion
  order. Of the database the model has the primary keys, the foreign key to \<^verbatim>\<open>signals\<close>, the check
  \<^verbatim>\<open>quantity > 0\<close> and the partial unique index on the simulated trades of a signal; a rollback
  restores the tables. Not modelled: the column precision of numbers and the gaps a rollback leaves
  in an identity sequence.
\<close>

subsection \<open>Protocol and contract\<close>

type_synonym payload = "(string \<times> json) list"

record 's paper_repository =
  load_candidate_signals ::
    "string option \<Rightarrow> instant option \<Rightarrow> instant option \<Rightarrow> int \<Rightarrow> 's \<Rightarrow> paper_signal list res"
  load_candles :: "string \<Rightarrow> instant \<Rightarrow> instant \<Rightarrow> int \<Rightarrow> 's \<Rightarrow> completed_bar list res"
  paper_trade_exists :: "int \<Rightarrow> 's \<Rightarrow> bool"
  count_paper_trades_for_day :: "instant \<Rightarrow> 's \<Rightarrow> nat"
  record_paper_outcome :: "paper_signal \<Rightarrow> paper_simulation_result \<Rightarrow> ('s, unit) prog"
  list_journal_outcomes :: "int \<Rightarrow> 's \<Rightarrow> payload list"

definition journal_payload :: "paper_signal \<Rightarrow> paper_simulation_result \<Rightarrow> payload res" where
  "journal_payload signal o' =
     bindE (outcome_payload o') (\<lambda>p.
       Inr (jset (jset p ''signal_time'' (JStr (isoformat (sig_time signal))))
              ''strategy_version'' (JStr (sig_strategy_version signal))))"

definition event_payload :: "paper_simulation_result \<Rightarrow> string \<Rightarrow> payload res" where
  "event_payload o' event_type =
     bindE (outcome_payload o') (\<lambda>p.
       Inr (jset (jset p ''event_type'' (JStr event_type)) ''broker_order_id'' JNull))"

definition trade_status :: "paper_simulation_result \<Rightarrow> string" where
  "trade_status o' =
     (if po_exit_reason o' = DATA_ENDED then paper_trade_data_ended else paper_trade_closed)"

definition ist_day_bounds :: "instant \<Rightarrow> instant \<times> instant" where
  "ist_day_bounds t = (ist_combine (ist_date t) 0, ist_combine (ist_date t) 0 + day_us)"

definition makes_trade :: "paper_simulation_result \<Rightarrow> bool" where
  "makes_trade o' \<longleftrightarrow> po_trade_created o' \<and> has_entry_attempt o'"

text \<open>
  The contract: \<open>trade_ids\<close> are the signals of the simulated trades, \<open>journal\<close> the paper
  payloads in the order written, \<open>day_of\<close> the IST session date of a stored signal.
\<close>

locale paper_store =
  fixes R :: "'s paper_repository"
    and ok :: "'s \<Rightarrow> bool"
    and trade_ids :: "'s \<Rightarrow> int list"
    and journal :: "'s \<Rightarrow> payload list"
    and day_of :: "'s \<Rightarrow> int \<Rightarrow> date option"
  assumes distinct_trades: "ok s \<Longrightarrow> distinct (trade_ids s)"
    and exists_iff: "ok s \<Longrightarrow> paper_trade_exists R i s \<longleftrightarrow> i \<in> set (trade_ids s)"
    and count_eq: "ok s \<Longrightarrow> count_paper_trades_for_day R t s
        = length (filter (\<lambda>i. day_of s i = Some (ist_date t)) (trade_ids s))"
    and loaded: "ok s \<Longrightarrow> load_candidate_signals R sy st en n s = Inr sigs \<Longrightarrow> sg \<in> set sigs \<Longrightarrow>
        sig_status sg = candidate_status \<and> day_of s (sig_id sg) = Some (ist_date (sig_time sg))"
    and record_ok: "ok s \<Longrightarrow> record_paper_outcome R sg out s = (Inr u, s') \<Longrightarrow>
        ok s' \<and> day_of s' = day_of s
        \<and> trade_ids s' = trade_ids s @ (if makes_trade out then [sig_id sg] else [])
        \<and> (\<exists>p. journal_payload sg out = Inr p \<and> journal s' = journal s @ [p])"
    and record_err: "ok s \<Longrightarrow> record_paper_outcome R sg out s = (Inl e, s') \<Longrightarrow>
        ok s' \<and> day_of s' = day_of s \<and> trade_ids s' = trade_ids s \<and> journal s' = journal s"
    and listed: "ok s \<Longrightarrow> 1 \<le> n \<Longrightarrow>
        list_all2 (\<lambda>p q. q = p \<or> (\<exists>d. q = jset p ''model_decision'' d))
          (take (nat n) (rev (journal s))) (list_journal_outcomes R n s)"

subsection \<open>The in-memory repository\<close>

record mem_order =
  mo_id :: int
  mo_signal_id :: int
  mo_simulated :: bool
  mo_side :: string
  mo_order_type :: string
  mo_quantity :: int
  mo_limit_price :: "dec option"
  mo_status :: string

record mem_order_event =
  me_order_id :: int
  me_event_type :: string
  me_payload :: payload

record mem_trade =
  mt_id :: int
  mt_signal_id :: int
  mt_simulated :: bool
  mt_entry_order_id :: int
  mt_exit_order_id :: "int option"
  mt_quantity :: int
  mt_entry_price :: "dec option"
  mt_exit_price :: "dec option"
  mt_exit_reason :: string
  mt_gross_pnl :: dec
  mt_estimated_costs :: dec
  mt_net_pnl :: dec
  mt_paper_mode :: string
  mt_status :: string

record paper_memory =
  pm_signals :: "paper_signal list"
  pm_candles_by_symbol :: "(string \<times> completed_bar list) list"
  pm_orders :: "mem_order list"
  pm_order_events :: "mem_order_event list"
  pm_trades :: "mem_trade list"
  pm_journal :: "payload list"
  pm_decisions_by_signal :: "(int \<times> payload) list"

definition mem_load_candidate_signals ::
  "string option \<Rightarrow> instant option \<Rightarrow> instant option \<Rightarrow> int \<Rightarrow> paper_memory \<Rightarrow> paper_signal list res" where
  "mem_load_candidate_signals symb start end_at limit m =
     (let l0 = filter (\<lambda>s. sig_status s = candidate_status) (pm_signals m);
          l1 = (case symb of None \<Rightarrow> l0 | Some y \<Rightarrow> filter (\<lambda>s. sig_symbol s = y) l0);
          l2 = (case start of None \<Rightarrow> l1 | Some t \<Rightarrow> filter (\<lambda>s. t \<le> sig_time s) l1);
          l3 = (case end_at of None \<Rightarrow> l2 | Some t \<Rightarrow> filter (\<lambda>s. sig_time s \<le> t) l2)
      in Inr (slice_first limit (sort_key (\<lambda>s. (sig_time s, sig_id s)) l3)))"

definition mem_load_candles ::
  "string \<Rightarrow> instant \<Rightarrow> instant \<Rightarrow> int \<Rightarrow> paper_memory \<Rightarrow> completed_bar list res" where
  "mem_load_candles symb start end_at limit m =
     (let bars = (case map_of (pm_candles_by_symbol m) symb of None \<Rightarrow> [] | Some bs \<Rightarrow> bs)
      in Inr (slice_first limit (sort_key started_at
           (filter (\<lambda>c. bar_timeframe c = paper_timeframe \<and> start \<le> started_at c \<and> started_at c \<le> end_at)
             bars))))"

definition mem_paper_trade_exists :: "int \<Rightarrow> paper_memory \<Rightarrow> bool" where
  "mem_paper_trade_exists i m = list_ex (\<lambda>t. mt_signal_id t = i \<and> mt_simulated t) (pm_trades m)"

definition mem_count_paper_trades_for_day :: "instant \<Rightarrow> paper_memory \<Rightarrow> nat" where
  "mem_count_paper_trades_for_day t m =
     (let ids = map sig_id (filter (\<lambda>s. ist_date (sig_time s) = ist_date t) (pm_signals m))
      in count_if (\<lambda>tr. mt_signal_id tr \<in> set ids) (pm_trades m))"

definition mem_append_order :: "mem_order \<Rightarrow> (paper_memory, unit) prog" where
  "mem_append_order x = modifyS (\<lambda>m. m\<lparr>pm_orders := pm_orders m @ [x]\<rparr>)"

definition mem_append_event :: "mem_order_event \<Rightarrow> (paper_memory, unit) prog" where
  "mem_append_event x = modifyS (\<lambda>m. m\<lparr>pm_order_events := pm_order_events m @ [x]\<rparr>)"

definition mem_order_of ::
  "paper_signal \<Rightarrow> paper_simulation_result \<Rightarrow> int \<Rightarrow> string \<Rightarrow> string \<Rightarrow> dec option \<Rightarrow> string \<Rightarrow> mem_order" where
  "mem_order_of signal o' i side order_type limit_price status =
     \<lparr>mo_id = i, mo_signal_id = sig_id signal, mo_simulated = True, mo_side = side,
      mo_order_type = order_type, mo_quantity = po_quantity o', mo_limit_price = limit_price,
      mo_status = status\<rparr>"

text \<open>One order with its event: the order id is the number of orders plus one.\<close>

definition mem_place_order ::
  "paper_signal \<Rightarrow> paper_simulation_result \<Rightarrow> string \<Rightarrow> string \<Rightarrow> dec option \<Rightarrow> string
   \<Rightarrow> (paper_memory, int) prog" where
  "mem_place_order signal o' side order_type limit_price status =
     bindS (readS (\<lambda>m. int (length (pm_orders m)) + 1)) (\<lambda>i.
     bindS (mem_append_order (mem_order_of signal o' i side order_type limit_price status)) (\<lambda>_.
     bindS (liftS (event_payload o' status)) (\<lambda>p.
     bindS (mem_append_event \<lparr>me_order_id = i, me_event_type = status, me_payload = p\<rparr>) (\<lambda>_.
       retS i))))"

definition mem_trade_of ::
  "paper_signal \<Rightarrow> paper_simulation_result \<Rightarrow> int \<Rightarrow> int option \<Rightarrow> int \<Rightarrow> mem_trade" where
  "mem_trade_of signal o' entry_id exit_id i =
     \<lparr>mt_id = i, mt_signal_id = sig_id signal, mt_simulated = True, mt_entry_order_id = entry_id,
      mt_exit_order_id = exit_id, mt_quantity = po_quantity o',
      mt_entry_price = po_entry_fill_price o', mt_exit_price = po_exit_price o',
      mt_exit_reason = reason_value (po_exit_reason o'), mt_gross_pnl = po_gross_pnl o',
      mt_estimated_costs = po_estimated_costs o', mt_net_pnl = po_net_estimated_pnl o',
      mt_paper_mode = mode_value (po_paper_mode o'), mt_status = trade_status o'\<rparr>"

definition mem_record_paper_outcome ::
  "paper_signal \<Rightarrow> paper_simulation_result \<Rightarrow> (paper_memory, unit) prog" where
  "mem_record_paper_outcome signal o' =
     bindS (readS (mem_paper_trade_exists (sig_id signal))) (\<lambda>exists.
     if po_trade_created o' \<and> exists
     then raiseS (DuplicatePaperTradeError ''paper trade already exists for signal'')
     else
     bindS (if has_entry_attempt o'
            then bindS (mem_place_order signal o' ''BUY'' paper_entry_order_type
                          (po_entry_reference_price o') (po_entry_order_status o')) (\<lambda>i. retS (Some i))
            else retS None) (\<lambda>entry_order_id.
     bindS (case entry_order_id of
              None \<Rightarrow> retS ()
            | Some entry_id \<Rightarrow>
                whenS (po_trade_created o')
                  (bindS (if po_entry_order_status o' = paper_entry_filled \<and> po_exit_price o' \<noteq> None
                          then bindS (mem_place_order signal o' ''SELL'' paper_exit_order_type
                                        (po_exit_price o') paper_exit_filled) (\<lambda>i. retS (Some i))
                          else retS None) (\<lambda>exit_id.
                   modifyS (\<lambda>m. m\<lparr>pm_trades := pm_trades m @
                     [mem_trade_of signal o' entry_id exit_id (int (length (pm_trades m)) + 1)]\<rparr>)))) (\<lambda>_.
     bindS (liftS (journal_payload signal o')) (\<lambda>p.
       modifyS (\<lambda>m. m\<lparr>pm_journal := pm_journal m @ [p]\<rparr>)))))"

text \<open>\<^verbatim>\<open>isinstance(value, int)\<close> with its value.\<close>

fun json_int :: "json \<Rightarrow> int option" where
  "json_int (JInt i) = Some i"
| "json_int (JBool b) = Some (if b then 1 else 0)"
| "json_int v = None"

definition with_decision :: "(int \<times> payload) list \<Rightarrow> payload \<Rightarrow> payload" where
  "with_decision decisions p =
     (case json_int (jget p ''signal_id'') of
        None \<Rightarrow> p
      | Some i \<Rightarrow> jset p ''model_decision'' (jopt JObj (map_of decisions i)))"

definition mem_list_journal_outcomes :: "int \<Rightarrow> paper_memory \<Rightarrow> payload list" where
  "mem_list_journal_outcomes limit m =
     map (with_decision (pm_decisions_by_signal m)) (rev (slice_last limit (pm_journal m)))"

definition memory_repository :: "paper_memory paper_repository" where
  "memory_repository =
     \<lparr>load_candidate_signals = mem_load_candidate_signals, load_candles = mem_load_candles,
      paper_trade_exists = mem_paper_trade_exists,
      count_paper_trades_for_day = mem_count_paper_trades_for_day,
      record_paper_outcome = mem_record_paper_outcome,
      list_journal_outcomes = mem_list_journal_outcomes\<rparr>"

subsection \<open>The in-memory repository keeps the contract\<close>

definition mem_inv :: "paper_memory \<Rightarrow> bool" where
  "mem_inv m \<longleftrightarrow> distinct (map sig_id (pm_signals m)) \<and> distinct (map mt_signal_id (pm_trades m))
     \<and> (\<forall>t \<in> set (pm_trades m). mt_simulated t)"

definition mem_trade_ids :: "paper_memory \<Rightarrow> int list" where
  "mem_trade_ids m = map mt_signal_id (pm_trades m)"

definition signals_day_of :: "paper_signal list \<Rightarrow> int \<Rightarrow> date option" where
  "signals_day_of sigs i = map_option (\<lambda>s. ist_date (sig_time s)) (find (\<lambda>s. sig_id s = i) sigs)"

lemma find_unique:
  "distinct (map f xs) \<Longrightarrow> x \<in> set xs \<Longrightarrow> find (\<lambda>y. f y = f x) xs = Some x"
  by (induction xs) (auto simp: rev_image_eqI)

lemma signals_day_of_in:
  "distinct (map sig_id sigs) \<Longrightarrow> sg \<in> set sigs \<Longrightarrow>
     signals_day_of sigs (sig_id sg) = Some (ist_date (sig_time sg))"
  by (simp add: signals_day_of_def find_unique)

lemma signals_day_of_iff:
  assumes "distinct (map sig_id sigs)"
  shows "signals_day_of sigs i = Some d \<longleftrightarrow> (\<exists>s \<in> set sigs. sig_id s = i \<and> ist_date (sig_time s) = d)"
  using assms signals_day_of_in [OF assms]
  by (auto simp: signals_day_of_def dest: find_Some_D)

lemma mem_place_order_ok:
  "outcome_payload o' = Inr p \<Longrightarrow> \<exists>i m'. mem_place_order sg o' side ty lp st m = (Inr i, m') \<and>
     pm_trades m' = pm_trades m \<and> pm_journal m' = pm_journal m \<and> pm_signals m' = pm_signals m"
  by (simp add: mem_place_order_def bindS_def mem_append_order_def mem_append_event_def
      event_payload_def)

lemma mem_place_order_err:
  "outcome_payload o' = Inl e \<Longrightarrow> \<exists>m'. mem_place_order sg o' side ty lp st m = (Inl e, m') \<and>
     pm_trades m' = pm_trades m \<and> pm_journal m' = pm_journal m \<and> pm_signals m' = pm_signals m"
  by (simp add: mem_place_order_def bindS_def mem_append_order_def mem_append_event_def
      event_payload_def)

lemma journal_payload_cases:
  "outcome_payload o' = Inl e \<Longrightarrow> journal_payload sg o' = Inl e"
  "outcome_payload o' = Inr p \<Longrightarrow> \<exists>q. journal_payload sg o' = Inr q"
  by (simp_all add: journal_payload_def)

text \<open>A write that raises leaves the trades and the journal as they were.\<close>

lemma mem_record_err:
  assumes "mem_record_paper_outcome sg o' m = (Inl e, m')"
  shows "pm_trades m' = pm_trades m \<and> pm_journal m' = pm_journal m \<and> pm_signals m' = pm_signals m"
proof (cases "po_trade_created o' \<and> mem_paper_trade_exists (sig_id sg) m")
  case True
  with assms show ?thesis by (simp add: mem_record_paper_outcome_def bindS_def)
next
  case False
  show ?thesis
  proof (cases "outcome_payload o'")
    case (Inl x)
    obtain m1 where m1: "mem_place_order sg o' ''BUY'' paper_entry_order_type
        (po_entry_reference_price o') (po_entry_order_status o') m = (Inl x, m1)"
      "pm_trades m1 = pm_trades m \<and> pm_journal m1 = pm_journal m \<and> pm_signals m1 = pm_signals m"
      using mem_place_order_err [OF Inl] by blast
    with assms False show ?thesis
      by (auto simp: mem_record_paper_outcome_def bindS_def journal_payload_cases(1) [OF Inl]
          split: if_splits)
  next
    case (Inr p)
    obtain i m1 where m1: "mem_place_order sg o' ''BUY'' paper_entry_order_type
        (po_entry_reference_price o') (po_entry_order_status o') m = (Inr i, m1)"
      using mem_place_order_ok [OF Inr] by blast
    obtain j m2 where m2: "mem_place_order sg o' ''SELL'' paper_exit_order_type (po_exit_price o')
        paper_exit_filled m1 = (Inr j, m2)"
      using mem_place_order_ok [OF Inr] by blast
    obtain q where q: "journal_payload sg o' = Inr q"
      using journal_payload_cases(2) [OF Inr] by blast
    from assms False m1 m2 q show ?thesis
      by (auto simp: mem_record_paper_outcome_def bindS_def split: if_splits)
  qed
qed

lemma mem_record_ok:
  assumes "mem_record_paper_outcome sg o' m = (Inr u, m')"
  shows "pm_signals m' = pm_signals m
     \<and> (makes_trade o' \<longrightarrow> \<not> mem_paper_trade_exists (sig_id sg) m)
     \<and> (\<exists>p. journal_payload sg o' = Inr p \<and> pm_journal m' = pm_journal m @ [p])
     \<and> (if makes_trade o'
        then \<exists>t. mt_signal_id t = sig_id sg \<and> mt_simulated t \<and> pm_trades m' = pm_trades m @ [t]
        else pm_trades m' = pm_trades m)"
proof -
  have ex: "\<not> (po_trade_created o' \<and> mem_paper_trade_exists (sig_id sg) m)"
    using assms by (auto simp: mem_record_paper_outcome_def bindS_def)
  show ?thesis
  proof (cases "outcome_payload o'")
    case (Inl x)
    obtain m1 where m1: "mem_place_order sg o' ''BUY'' paper_entry_order_type
        (po_entry_reference_price o') (po_entry_order_status o') m = (Inl x, m1)"
      using mem_place_order_err [OF Inl] by blast
    with assms ex show ?thesis
      by (auto simp: mem_record_paper_outcome_def bindS_def journal_payload_cases(1) [OF Inl]
          split: if_splits)
  next
    case (Inr p)
    obtain i m1 where m1: "mem_place_order sg o' ''BUY'' paper_entry_order_type
        (po_entry_reference_price o') (po_entry_order_status o') m = (Inr i, m1)"
      "pm_trades m1 = pm_trades m \<and> pm_journal m1 = pm_journal m \<and> pm_signals m1 = pm_signals m"
      using mem_place_order_ok [OF Inr] by blast
    obtain j m2 where m2: "mem_place_order sg o' ''SELL'' paper_exit_order_type (po_exit_price o')
        paper_exit_filled m1 = (Inr j, m2)"
      "pm_trades m2 = pm_trades m1 \<and> pm_journal m2 = pm_journal m1 \<and> pm_signals m2 = pm_signals m1"
      using mem_place_order_ok [OF Inr] by blast
    obtain q where q: "journal_payload sg o' = Inr q"
      using journal_payload_cases(2) [OF Inr] by blast
    from assms ex m1 m2 q show ?thesis
      by (auto simp: mem_record_paper_outcome_def bindS_def makes_trade_def mem_trade_of_def
          split: if_splits)
  qed
qed

lemma with_decision_shape: "with_decision ds p = p \<or> (\<exists>d. with_decision ds p = jset p ''model_decision'' d)"
  by (auto simp: with_decision_def split: option.splits)

lemma rev_slice_last: "1 \<le> n \<Longrightarrow> rev (slice_last n xs) = take (nat n) (rev xs)"
  by (simp add: slice_last_def take_rev)

interpretation mem_store: paper_store memory_repository mem_inv mem_trade_ids pm_journal
  "\<lambda>m. signals_day_of (pm_signals m)"
proof
  fix s :: paper_memory
  assume inv: "mem_inv s"
  then show "distinct (mem_trade_ids s)" by (simp add: mem_inv_def mem_trade_ids_def)
  show "paper_trade_exists memory_repository i s \<longleftrightarrow> i \<in> set (mem_trade_ids s)" for i
    using inv by (auto simp: memory_repository_def mem_paper_trade_exists_def mem_trade_ids_def
        mem_inv_def list_ex_iff)
  show "count_paper_trades_for_day memory_repository t s = length (filter
      (\<lambda>i. signals_day_of (pm_signals s) i = Some (ist_date t)) (mem_trade_ids s))" for t
  proof -
    have "i \<in> set (map sig_id (filter (\<lambda>s. ist_date (sig_time s) = ist_date t) (pm_signals s)))
        \<longleftrightarrow> signals_day_of (pm_signals s) i = Some (ist_date t)" for i
      using inv by (auto simp: signals_day_of_iff mem_inv_def)
    then show ?thesis
      by (simp add: memory_repository_def mem_count_paper_trades_for_day_def Let_def count_if_def
          mem_trade_ids_def filter_map comp_def del: set_map)
  qed
  show "sig_status sg = candidate_status
      \<and> signals_day_of (pm_signals s) (sig_id sg) = Some (ist_date (sig_time sg))"
    if "load_candidate_signals memory_repository sy st en n s = Inr sigs" "sg \<in> set sigs"
    for sy st en n sigs sg
  proof -
    from that have "sg \<in> set (pm_signals s)" "sig_status sg = candidate_status"
      by (auto simp: memory_repository_def mem_load_candidate_signals_def Let_def
          dest!: subsetD [OF set_slice_first] split: option.splits)
    with inv show ?thesis by (simp add: signals_day_of_in mem_inv_def)
  qed
  show "mem_inv s' \<and> signals_day_of (pm_signals s') = signals_day_of (pm_signals s)
      \<and> mem_trade_ids s' = mem_trade_ids s @ (if makes_trade out then [sig_id sg] else [])
      \<and> (\<exists>p. journal_payload sg out = Inr p \<and> pm_journal s' = pm_journal s @ [p])"
    if "record_paper_outcome memory_repository sg out s = (Inr u, s')" for sg out u s'
  proof -
    have "mem_record_paper_outcome sg out s = (Inr u, s')"
      using that by (simp add: memory_repository_def)
    note ok = mem_record_ok [OF this]
    have "mem_paper_trade_exists (sig_id sg) s \<longleftrightarrow> sig_id sg \<in> mt_signal_id ` set (pm_trades s)"
      using inv by (force simp: mem_inv_def mem_paper_trade_exists_def list_ex_iff)
    with ok inv show ?thesis
      by (cases "makes_trade out") (auto simp: mem_inv_def mem_trade_ids_def)
  qed
  show "mem_inv s' \<and> signals_day_of (pm_signals s') = signals_day_of (pm_signals s)
      \<and> mem_trade_ids s' = mem_trade_ids s \<and> pm_journal s' = pm_journal s"
    if "record_paper_outcome memory_repository sg out s = (Inl e, s')" for sg out e s'
  proof -
    have "mem_record_paper_outcome sg out s = (Inl e, s')"
      using that by (simp add: memory_repository_def)
    from mem_record_err [OF this] inv show ?thesis by (simp add: mem_inv_def mem_trade_ids_def)
  qed
  show "list_all2 (\<lambda>p q. q = p \<or> (\<exists>d. q = jset p ''model_decision'' d))
      (take (nat n) (rev (pm_journal s))) (list_journal_outcomes memory_repository n s)"
    if "1 \<le> n" for n
    using that with_decision_shape
    by (auto simp: memory_repository_def mem_list_journal_outcomes_def rev_slice_last
        list_all2_conv_all_nth)
qed

end
