(* ===== verification/Database.thy ===== *)
theory Database
  imports Indicators PyState "HOL-Library.Product_Lexorder"
begin

section \<open>The tables\<close>

text \<open>
  \<^verbatim>\<open>app/models/schema.py\<close>: one record per table that the modelled code reads or writes, and the
  database as the lists of their rows in insertion order. The primary keys are the positions of the
  rows (nothing deletes a row), \<open>db_now\<close> is what the server default \<^verbatim>\<open>now()\<close> reads. The insert
  operations check the constraints of the schema and raise \<open>IntegrityError\<close>; a transaction that
  raises leaves the tables as they were.
\<close>

subsection \<open>Rows\<close>

record broker_session_row =
  bs_id :: int
  bs_broker :: string
  bs_user_id :: "string option"
  bs_status :: string
  bs_login_at :: "instant option"
  bs_expires_at :: instant
  bs_encrypted_access_token :: string
  bs_invalidated_at :: "instant option"
  bs_created_at :: instant
  bs_updated_at :: instant

record instrument_row =
  ir_id :: int
  ir_kite_instrument_token :: string
  ir_exchange :: string
  ir_tradingsymbol :: string
  ir_name :: json
  ir_instrument_type :: string
  ir_tick_size :: dec
  ir_lot_size :: int
  ir_is_active :: bool
  ir_updated_at :: instant

record candle_row =
  cr_id :: int
  cr_instrument_id :: int
  cr_timeframe :: string
  cr_started_at :: instant
  cr_open_price :: dec
  cr_high_price :: dec
  cr_low_price :: dec
  cr_close_price :: dec
  cr_volume :: int
  cr_source :: string

record signal_row =
  gr_id :: int
  gr_instrument_id :: int
  gr_strategy_name :: string
  gr_strategy_version :: string
  gr_signal_key :: string
  gr_signal_status :: string
  gr_signal_time :: instant
  gr_direction :: string
  gr_veto_reasons :: "string list"
  gr_replay_run_id :: "string option"
  gr_features :: "(string \<times> json) list"
  gr_created_at :: instant

record recommendation_row =
  rr_id :: int
  rr_signal_id :: int
  rr_model_run_id :: "int option"
  rr_verdict :: string
  rr_confidence :: rat
  rr_warnings :: "string list"
  rr_evaluation_key :: "string option"
  rr_rationale :: "string option"
  rr_payload :: "(string \<times> json) list"
  rr_created_at :: instant

record order_row =
  or_id :: int
  or_signal_id :: "int option"
  or_simulated :: bool
  or_instrument_id :: "int option"
  or_side :: string
  or_order_type :: string
  or_quantity :: int
  or_limit_price :: "dec option"
  or_status :: string

record order_event_row =
  oe_id :: int
  oe_order_id :: int
  oe_event_type :: string
  oe_broker_status :: "string option"
  oe_payload :: "(string \<times> json) list"

record trade_row =
  tr_id :: int
  tr_signal_id :: "int option"
  tr_simulated :: bool
  tr_entry_order_id :: "int option"
  tr_exit_order_id :: "int option"
  tr_instrument_id :: int
  tr_quantity :: int
  tr_entry_price :: "dec option"
  tr_exit_price :: "dec option"
  tr_realized_pnl :: "dec option"
  tr_gross_pnl :: "dec option"
  tr_estimated_costs :: "dec option"
  tr_net_pnl :: "dec option"
  tr_exit_reason :: "string option"
  tr_paper_mode :: "string option"
  tr_opened_at :: "instant option"
  tr_closed_at :: "instant option"
  tr_status :: string

record journal_row =
  jr_id :: int
  jr_entry_type :: string
  jr_subject_type :: "string option"
  jr_subject_id :: "int option"
  jr_message :: string
  jr_payload :: "(string \<times> json) list"
  jr_created_at :: instant

record model_run_row =
  mr_id :: int
  mr_provider :: string
  mr_model_name :: string
  mr_request_id :: "string option"
  mr_adapter :: string
  mr_prompt_version :: string
  mr_input_hash :: string
  mr_latency_ms :: "int option"
  mr_error_code :: "string option"
  mr_input_payload :: "(string \<times> json) list"
  mr_output_payload :: "(string \<times> json) list"
  mr_status :: string
  mr_created_at :: instant

record universe_run_row =
  ur_id :: int
  ur_run_id :: string
  ur_created_at :: instant
  ur_started_at :: instant
  ur_finished_at :: instant
  ur_timeframe :: string
  ur_pool_count :: nat
  ur_scored_count :: nat
  ur_selected_count :: nat
  ur_selected_symbols :: "string list"
  ur_ranked_symbols :: "(string \<times> json) list list"
  ur_excluded_symbols :: "(string \<times> json) list list"
  ur_config_snapshot :: "(string \<times> json) list"
  ur_warnings :: "string list"
  ur_errors :: "string list"

record database =
  db_now :: instant
  db_broker_sessions :: "broker_session_row list"
  db_instruments :: "instrument_row list"
  db_candles :: "candle_row list"
  db_signals :: "signal_row list"
  db_recommendations :: "recommendation_row list"
  db_orders :: "order_row list"
  db_order_events :: "order_event_row list"
  db_trades :: "trade_row list"
  db_journal_entries :: "journal_row list"
  db_model_runs :: "model_run_row list"
  db_universe_runs :: "universe_run_row list"

definition next_id :: "'a list \<Rightarrow> int" where
  "next_id rows = int (length rows) + 1"

subsection \<open>Inserts under the constraints\<close>

definition has_signal :: "database \<Rightarrow> int \<Rightarrow> bool" where
  "has_signal d i = list_ex (\<lambda>r. gr_id r = i) (db_signals d)"

definition has_instrument :: "database \<Rightarrow> int \<Rightarrow> bool" where
  "has_instrument d i = list_ex (\<lambda>r. ir_id r = i) (db_instruments d)"

definition opt_ok :: "('a \<Rightarrow> bool) \<Rightarrow> 'a option \<Rightarrow> bool" where
  "opt_ok P x = (case x of None \<Rightarrow> True | Some v \<Rightarrow> P v)"

text \<open>Each insert gets the row without its key and returns the key, as \<^verbatim>\<open>RETURNING id\<close> does.\<close>

definition insert_order :: "order_row \<Rightarrow> (database, int) prog" where
  "insert_order r = (\<lambda>d.
     let i = next_id (db_orders d)
     in if 0 < or_quantity r \<and> opt_ok (has_signal d) (or_signal_id r)
           \<and> opt_ok (has_instrument d) (or_instrument_id r)
        then (Inr i, d\<lparr>db_orders := db_orders d @ [r\<lparr>or_id := i\<rparr>]\<rparr>)
        else (Inl IntegrityError, d))"

definition insert_order_event :: "order_event_row \<Rightarrow> (database, unit) prog" where
  "insert_order_event r = (\<lambda>d.
     if list_ex (\<lambda>x. or_id x = oe_order_id r) (db_orders d)
     then (Inr (), d\<lparr>db_order_events :=
             db_order_events d @ [r\<lparr>oe_id := next_id (db_order_events d)\<rparr>]\<rparr>)
     else (Inl IntegrityError, d))"

text \<open>The partial unique index: one simulated trade per signal.\<close>

definition simulated_trade_of :: "int \<Rightarrow> trade_row \<Rightarrow> bool" where
  "simulated_trade_of i t \<longleftrightarrow> tr_simulated t \<and> tr_signal_id t = Some i"

definition insert_trade :: "trade_row \<Rightarrow> (database, int) prog" where
  "insert_trade r = (\<lambda>d.
     let i = next_id (db_trades d)
     in if 0 < tr_quantity r \<and> opt_ok (has_signal d) (tr_signal_id r)
           \<and> has_instrument d (tr_instrument_id r)
           \<and> (tr_simulated r \<longrightarrow>
                opt_ok (\<lambda>g. \<not> list_ex (simulated_trade_of g) (db_trades d)) (tr_signal_id r))
        then (Inr i, d\<lparr>db_trades := db_trades d @ [r\<lparr>tr_id := i\<rparr>]\<rparr>)
        else (Inl IntegrityError, d))"

definition insert_journal_entry :: "journal_row \<Rightarrow> (database, unit) prog" where
  "insert_journal_entry r = modifyS (\<lambda>d. d\<lparr>db_journal_entries := db_journal_entries d @
      [r\<lparr>jr_id := next_id (db_journal_entries d), jr_created_at := db_now d\<rparr>]\<rparr>)"

definition insert_signal_row :: "signal_row \<Rightarrow> (database, unit) prog" where
  "insert_signal_row r = (\<lambda>d.
     if has_instrument d (gr_instrument_id r)
        \<and> \<not> list_ex (\<lambda>x. gr_signal_key x = gr_signal_key r) (db_signals d)
     then (Inr (), d\<lparr>db_signals := db_signals d @
             [r\<lparr>gr_id := next_id (db_signals d), gr_created_at := db_now d\<rparr>]\<rparr>)
     else (Inl IntegrityError, d))"

text \<open>A transaction: on an exception the tables are those before it.\<close>

definition transaction :: "('s, 'a) prog \<Rightarrow> ('s, 'a) prog" where
  "transaction m = (\<lambda>s. case m s of (Inl e, s') \<Rightarrow> (Inl e, s) | (Inr x, s') \<Rightarrow> (Inr x, s'))"

subsection \<open>Joins\<close>

text \<open>\<^verbatim>\<open>exchange, tradingsymbol = symbol.split(":", 1)\<close>.\<close>

definition split_symbol :: "string \<Rightarrow> (string \<times> string) res" where
  "split_symbol s =
     (case split_once CHR '':'' s of
        [a, b] \<Rightarrow> Inr (a, b)
      | _ \<Rightarrow> Inl (ValueError ''not enough values to unpack''))"

definition instrument_key :: "instrument_row \<Rightarrow> string" where
  "instrument_key i = ir_exchange i @ '':'' @ ir_tradingsymbol i"

definition join_instrument :: "database \<Rightarrow> ('r \<Rightarrow> int) \<Rightarrow> 'r list \<Rightarrow> ('r \<times> instrument_row) list" where
  "join_instrument d f rows =
     concat (map (\<lambda>r. map (Pair r) (filter (\<lambda>i. ir_id i = f r) (db_instruments d))) rows)"

definition completed_bar_from_row :: "candle_row \<times> instrument_row \<Rightarrow> completed_bar" where
  "completed_bar_from_row ri = (case ri of (r, i) \<Rightarrow>
     \<lparr>bar_instrument_id = ir_id i, bar_symbol = instrument_key i, bar_timeframe = cr_timeframe r,
      started_at = cr_started_at r, open_price = cr_open_price r, high_price = cr_high_price r,
      low_price = cr_low_price r, close_price = cr_close_price r, volume = cr_volume r\<rparr>)"

text \<open>The candles of one instrument and timeframe, in table order.\<close>

definition candle_query :: "database \<Rightarrow> string \<Rightarrow> string \<Rightarrow> string \<Rightarrow> completed_bar list" where
  "candle_query d exchange tradingsymbol timeframe =
     map completed_bar_from_row
       (filter (\<lambda>(r, i). ir_exchange i = exchange \<and> ir_tradingsymbol i = tradingsymbol
                  \<and> cr_timeframe r = timeframe)
         (join_instrument d cr_instrument_id (db_candles d)))"

definition in_range :: "instant option \<Rightarrow> instant option \<Rightarrow> instant \<Rightarrow> bool" where
  "in_range start end_at t = (opt_ok (\<lambda>s. s \<le> t) start \<and> opt_ok (\<lambda>e. t \<le> e) end_at)"

subsection \<open>Primary keys\<close>

text \<open>A table whose primary keys are \<open>1, 2, ...\<close> in the order of its rows.\<close>

definition keyed :: "('r \<Rightarrow> int) \<Rightarrow> 'r list \<Rightarrow> bool" where
  "keyed k rows \<longleftrightarrow> map k rows = [1..int (length rows)]"

lemma keyed_distinct: "keyed k rows \<Longrightarrow> distinct (map k rows)"
  by (simp add: keyed_def)

lemma keyed_append: "keyed k rows \<Longrightarrow> k r = next_id rows \<Longrightarrow> keyed k (rows @ [r])"
proof -
  assume "keyed k rows" "k r = next_id rows"
  moreover have "[1..int (length rows) + 1] = [1..int (length rows)] @ [int (length rows) + 1]"
    by (rule upto_rec2 [of 1 "int (length rows) + 1", simplified])
  ultimately show ?thesis by (simp add: keyed_def next_id_def add.commute)
qed

lemma keyed_replace: "keyed k rows \<Longrightarrow> k r = i \<Longrightarrow> keyed k (map (\<lambda>x. if k x = i then r else x) rows)"
proof -
  assume "keyed k rows" and r: "k r = i"
  moreover have "map k (map (\<lambda>x. if k x = i then r else x) rows) = map k rows"
    using r by (induction rows) auto
  ultimately show ?thesis by (simp add: keyed_def)
qed

lemma keyed_unique:
  "keyed k rows \<Longrightarrow> r \<in> set rows \<Longrightarrow> filter (\<lambda>x. k x = k r) rows = [r]"
proof -
  have "distinct (map k rows) \<Longrightarrow> r \<in> set rows \<Longrightarrow> filter (\<lambda>x. k x = k r) rows = [r]"
  proof (induction rows)
    case (Cons x xs)
    have none: "filter (\<lambda>y. k y = k z) xs = []" if "k z \<notin> k ` set xs" for z
      using that by (auto simp: filter_empty_conv image_iff)
    show ?case
    proof (cases "r = x")
      case True
      with Cons.prems none [of x] show ?thesis by simp
    next
      case False
      with Cons.prems have "r \<in> set xs" "k x \<noteq> k r" by auto
      with Cons show ?thesis by simp
    qed
  qed simp
  then show "keyed k rows \<Longrightarrow> r \<in> set rows \<Longrightarrow> ?thesis" using keyed_distinct by blast
qed

lemma keyed_bound: "keyed k rows \<Longrightarrow> r \<in> set rows \<Longrightarrow> 1 \<le> k r \<and> k r < next_id rows"
proof -
  assume "keyed k rows" "r \<in> set rows"
  then have "k r \<in> set [1..int (length rows)]" unfolding keyed_def by (metis image_eqI list.set_map)
  then show ?thesis by (simp add: next_id_def)
qed

subsection \<open>Facts\<close>

lemma transaction_ok [prog_simps]: "transaction m s = (Inr x, s') \<longleftrightarrow> m s = (Inr x, s')"
  by (auto simp: transaction_def split: prod.splits sum.splits)

lemma transaction_err [prog_simps]: "transaction m s = (Inl e, s') \<longleftrightarrow> (\<exists>s1. m s = (Inl e, s1)) \<and> s' = s"
  by (auto simp: transaction_def split: prod.splits sum.splits)

lemma in_join_instrument:
  "(r, i) \<in> set (join_instrument d f rows) \<longleftrightarrow> r \<in> set rows \<and> i \<in> set (db_instruments d) \<and> ir_id i = f r"
  by (auto simp: join_instrument_def)

text \<open>Every table operation keeps the rows that are there.\<close>

lemma insert_order_frame:
  "insert_order r d = (res, d') \<Longrightarrow> db_trades d' = db_trades d
     \<and> db_journal_entries d' = db_journal_entries d \<and> db_signals d' = db_signals d
     \<and> db_instruments d' = db_instruments d"
  by (auto simp: insert_order_def Let_def split: if_splits)

lemma insert_order_event_frame:
  "insert_order_event r d = (res, d') \<Longrightarrow> db_trades d' = db_trades d
     \<and> db_journal_entries d' = db_journal_entries d \<and> db_signals d' = db_signals d
     \<and> db_instruments d' = db_instruments d"
  by (auto simp: insert_order_event_def split: if_splits)

end
