(* ===== verification/PaperSql.thy ===== *)
theory PaperSql
  imports PaperRepository Database
begin

section \<open>The SQL paper repository\<close>

text \<open>
  \<^verbatim>\<open>SQLAlchemyPaperRepository\<close> of \<^verbatim>\<open>app/paper/repository.py\<close> over the tables of \<open>Database\<close>: the
  queries as list operations, the writes as one transaction whose \<open>IntegrityError\<close> becomes the
  duplicate error. It keeps the contract \<open>paper_store\<close>, so every lemma of the service holds for it.
\<close>

subsection \<open>Queries\<close>

definition paper_signal_from_row :: "signal_row \<times> instrument_row \<Rightarrow> paper_signal" where
  "paper_signal_from_row ri = (case ri of (r, i) \<Rightarrow>
     \<lparr>sig_id = gr_id r, sig_instrument_id = gr_instrument_id r, sig_key = gr_signal_key r,
      sig_symbol = instrument_key i, sig_strategy_name = gr_strategy_name r,
      sig_strategy_version = gr_strategy_version r, sig_status = gr_signal_status r,
      sig_time = gr_signal_time r, sig_direction = gr_direction r,
      sig_veto_reasons = gr_veto_reasons r, sig_features = gr_features r,
      sig_replay_run_id = gr_replay_run_id r\<rparr>)"

definition sql_load_candidate_signals ::
  "string option \<Rightarrow> instant option \<Rightarrow> instant option \<Rightarrow> int \<Rightarrow> database \<Rightarrow> paper_signal list res" where
  "sql_load_candidate_signals symb start end_at limit d =
     bindE (case symb of None \<Rightarrow> Inr None | Some s \<Rightarrow> bindE (split_symbol s) (\<lambda>p. Inr (Some p))) (\<lambda>key.
       Inr (slice_first limit (map paper_signal_from_row
         (sort_key (\<lambda>(r, i). (gr_signal_time r, gr_id r))
           (filter (\<lambda>(r, i). gr_signal_status r = candidate_status
                      \<and> opt_ok (\<lambda>(e, t). ir_exchange i = e \<and> ir_tradingsymbol i = t) key
                      \<and> in_range start end_at (gr_signal_time r))
             (join_instrument d gr_instrument_id (db_signals d)))))))"

definition sql_load_candles ::
  "string \<Rightarrow> instant \<Rightarrow> instant \<Rightarrow> int \<Rightarrow> database \<Rightarrow> completed_bar list res" where
  "sql_load_candles symb start end_at limit d =
     bindE (split_symbol symb) (\<lambda>(e, t).
       Inr (slice_first limit (sort_key started_at
         (filter (\<lambda>c. start \<le> started_at c \<and> started_at c \<le> end_at)
           (candle_query d e t paper_timeframe)))))"

definition sql_paper_trade_exists :: "int \<Rightarrow> database \<Rightarrow> bool" where
  "sql_paper_trade_exists i d = list_ex (simulated_trade_of i) (db_trades d)"

definition sql_count_paper_trades_for_day :: "instant \<Rightarrow> database \<Rightarrow> nat" where
  "sql_count_paper_trades_for_day t d =
     (case ist_day_bounds t of (lo, hi) \<Rightarrow>
        length (filter (\<lambda>(tr, g). tr_simulated tr \<and> lo \<le> gr_signal_time g \<and> gr_signal_time g < hi)
          (concat (map (\<lambda>tr. map (Pair tr)
             (filter (\<lambda>g. tr_signal_id tr = Some (gr_id g)) (db_signals d))) (db_trades d)))))"

text \<open>The latest model decision of each signal, as the journal shows it.\<close>

definition sql_latest_decisions :: "int list \<Rightarrow> database \<Rightarrow> (int \<times> payload) list" where
  "sql_latest_decisions signal_ids d =
     (if signal_ids = [] then []
      else fold (\<lambda>(r, m) out.
             if rr_signal_id r \<in> fst ` set out then out
             else out @ [(rr_signal_id r,
                    [(''recommendation_id'', JInt (rr_id r)), (''verdict'', JStr (rr_verdict r)),
                     (''confidence'', JFloat (rr_confidence r)), (''warnings'', jstrs (rr_warnings r)),
                     (''prompt_version'', JStr (mr_prompt_version m))])])
           (sort_key (\<lambda>(r, m). (rr_signal_id r, - rr_created_at r, - rr_id r))
             (filter (\<lambda>(r, m). rr_signal_id r \<in> set signal_ids)
               (concat (map (\<lambda>r. map (Pair r)
                  (filter (\<lambda>m. rr_model_run_id r = Some (mr_id m)) (db_model_runs d)))
                  (db_recommendations d))))) [])"

definition paper_entry_types :: "string list" where
  "paper_entry_types =
     [paper_trade_entry_type, paper_entry_attempt_entry_type, paper_rejection_entry_type]"

definition sql_list_journal_outcomes :: "int \<Rightarrow> database \<Rightarrow> payload list" where
  "sql_list_journal_outcomes limit d =
     (let outcomes = slice_first limit (map jr_payload
            (sort_key (\<lambda>j. (- jr_created_at j, - jr_id j))
              (filter (\<lambda>j. jr_entry_type j \<in> set paper_entry_types) (db_journal_entries d))));
          signal_ids = List.map_filter (\<lambda>p. json_int (jget p ''signal_id'')) outcomes
      in map (with_decision (sql_latest_decisions signal_ids d)) outcomes)"

subsection \<open>Writes\<close>

definition sql_order_row ::
  "paper_signal \<Rightarrow> paper_simulation_result \<Rightarrow> string \<Rightarrow> string \<Rightarrow> dec option \<Rightarrow> string \<Rightarrow> order_row" where
  "sql_order_row signal o' side order_type limit_price status =
     \<lparr>or_id = 0, or_signal_id = Some (sig_id signal), or_simulated = True,
      or_instrument_id = Some (sig_instrument_id signal), or_side = side,
      or_order_type = order_type, or_quantity = po_quantity o', or_limit_price = limit_price,
      or_status = status\<rparr>"

definition sql_insert_event :: "paper_simulation_result \<Rightarrow> int \<Rightarrow> string \<Rightarrow> (database, unit) prog" where
  "sql_insert_event o' order_id event_type =
     bindS (liftS (event_payload o' event_type)) (\<lambda>p.
       insert_order_event \<lparr>oe_id = 0, oe_order_id = order_id, oe_event_type = event_type,
         oe_broker_status = None, oe_payload = p\<rparr>)"

definition sql_insert_entry_order :: "paper_signal \<Rightarrow> paper_simulation_result \<Rightarrow> (database, int) prog" where
  "sql_insert_entry_order signal o' =
     bindS (insert_order (sql_order_row signal o' ''BUY'' paper_entry_order_type
              (po_entry_reference_price o') (po_entry_order_status o'))) (\<lambda>i.
     bindS (sql_insert_event o' i paper_entry_submitted) (\<lambda>_.
     bindS (sql_insert_event o' i (po_entry_order_status o')) (\<lambda>_. retS i)))"

definition sql_insert_exit_order ::
  "paper_signal \<Rightarrow> paper_simulation_result \<Rightarrow> (database, int option) prog" where
  "sql_insert_exit_order signal o' =
     (if po_entry_order_status o' \<noteq> paper_entry_filled \<or> po_exit_price o' = None then retS None
      else bindS (insert_order (sql_order_row signal o' ''SELL'' paper_exit_order_type
                    (po_exit_price o') paper_exit_filled)) (\<lambda>i.
           bindS (sql_insert_event o' i paper_exit_filled) (\<lambda>_. retS (Some i))))"

definition sql_insert_trade ::
  "paper_signal \<Rightarrow> paper_simulation_result \<Rightarrow> int \<Rightarrow> int option \<Rightarrow> (database, int) prog" where
  "sql_insert_trade signal o' entry_id exit_id =
     insert_trade
       \<lparr>tr_id = 0, tr_signal_id = Some (sig_id signal), tr_simulated = True,
        tr_entry_order_id = Some entry_id, tr_exit_order_id = exit_id,
        tr_instrument_id = sig_instrument_id signal, tr_quantity = po_quantity o',
        tr_entry_price = po_entry_fill_price o', tr_exit_price = po_exit_price o',
        tr_realized_pnl = Some (po_net_estimated_pnl o'), tr_gross_pnl = Some (po_gross_pnl o'),
        tr_estimated_costs = Some (po_estimated_costs o'), tr_net_pnl = Some (po_net_estimated_pnl o'),
        tr_exit_reason = Some (reason_value (po_exit_reason o')),
        tr_paper_mode = Some (mode_value (po_paper_mode o')), tr_opened_at = po_entry_fill_time o',
        tr_closed_at = po_exit_time o', tr_status = trade_status o'\<rparr>"

definition sql_insert_journal ::
  "paper_signal \<Rightarrow> paper_simulation_result \<Rightarrow> int option \<Rightarrow> (database, unit) prog" where
  "sql_insert_journal signal o' trade_id =
     bindS (liftS (journal_payload signal o')) (\<lambda>p.
       insert_journal_entry
         \<lparr>jr_id = 0,
          jr_entry_type =
            (if po_trade_created o' then paper_trade_entry_type
             else if has_entry_attempt o' then paper_entry_attempt_entry_type
             else paper_rejection_entry_type),
          jr_subject_type = Some (if trade_id \<noteq> None then ''trade'' else ''signal''),
          jr_subject_id = Some (case trade_id of Some i \<Rightarrow> i | None \<Rightarrow> sig_id signal),
          jr_message = ''Paper outcome '' @ reason_value (po_exit_reason o') @ '' for ''
            @ sig_symbol signal @ '' '' @ sig_key signal,
          jr_payload = p, jr_created_at = 0\<rparr>)"

definition sql_paper_writes :: "paper_signal \<Rightarrow> paper_simulation_result \<Rightarrow> (database, unit) prog" where
  "sql_paper_writes signal o' =
     bindS (if has_entry_attempt o'
            then bindS (sql_insert_entry_order signal o') (\<lambda>i. retS (Some i))
            else retS None) (\<lambda>entry_order_id.
     bindS (case entry_order_id of
              Some entry_id \<Rightarrow>
                if po_trade_created o'
                then bindS (sql_insert_exit_order signal o') (\<lambda>exit_id.
                     bindS (sql_insert_trade signal o' entry_id exit_id) (\<lambda>i. retS (Some i)))
                else retS None
            | None \<Rightarrow> retS None) (\<lambda>trade_id.
       sql_insert_journal signal o' trade_id))"

definition sql_record_paper_outcome ::
  "paper_signal \<Rightarrow> paper_simulation_result \<Rightarrow> (database, unit) prog" where
  "sql_record_paper_outcome signal o' =
     tryS (transaction (sql_paper_writes signal o'))
       (\<lambda>e. if e = IntegrityError
             then Some (raiseS (DuplicatePaperTradeError ''paper trade already exists for signal''))
             else None)"

definition sql_repository :: "database paper_repository" where
  "sql_repository =
     \<lparr>load_candidate_signals = sql_load_candidate_signals, load_candles = sql_load_candles,
      paper_trade_exists = sql_paper_trade_exists,
      count_paper_trades_for_day = sql_count_paper_trades_for_day,
      record_paper_outcome = sql_record_paper_outcome,
      list_journal_outcomes = sql_list_journal_outcomes\<rparr>"

subsection \<open>It keeps the contract\<close>

definition sql_trade_ids :: "database \<Rightarrow> int list" where
  "sql_trade_ids d =
     List.map_filter (\<lambda>t. if tr_simulated t then tr_signal_id t else None) (db_trades d)"

definition sql_journal :: "database \<Rightarrow> payload list" where
  "sql_journal d =
     map jr_payload (filter (\<lambda>j. jr_entry_type j \<in> set paper_entry_types) (db_journal_entries d))"

definition sql_day_of :: "database \<Rightarrow> int \<Rightarrow> date option" where
  "sql_day_of d i =
     map_option (\<lambda>r. ist_date (gr_signal_time r)) (find (\<lambda>r. gr_id r = i) (db_signals d))"

definition journal_time :: "journal_row \<Rightarrow> instant \<times> int" where
  "journal_time j = (jr_created_at j, jr_id j)"

definition sql_inv :: "database \<Rightarrow> bool" where
  "sql_inv d \<longleftrightarrow> distinct (map gr_id (db_signals d)) \<and> distinct (sql_trade_ids d)
     \<and> sorted_wrt (<) (map journal_time (db_journal_entries d))
     \<and> (\<forall>j \<in> set (db_journal_entries d).
          jr_created_at j \<le> db_now d \<and> jr_id j \<le> int (length (db_journal_entries d)))"

lemma map_filter_Cons:
  "List.map_filter f (x # xs) = (case f x of None \<Rightarrow> [] | Some y \<Rightarrow> [y]) @ List.map_filter f xs"
  by (simp add: map_filter_def split: option.splits)

lemma sql_exists_iff: "sql_paper_trade_exists i d \<longleftrightarrow> i \<in> set (sql_trade_ids d)"
proof -
  have "list_ex (simulated_trade_of i) ts
      \<longleftrightarrow> i \<in> set (List.map_filter (\<lambda>t. if tr_simulated t then tr_signal_id t else None) ts)" for ts
  proof (induction ts)
    case Nil
    then show ?case by (simp add: map_filter_def)
  next
    case (Cons t ts)
    have "list_ex (simulated_trade_of i) (t # ts) \<longleftrightarrow>
        simulated_trade_of i t \<or> list_ex (simulated_trade_of i) ts" by simp
    with Cons show ?case
      by (simp only: map_filter_Cons set_append Un_iff)
        (auto simp: simulated_trade_of_def split: option.splits)
  qed
  then show ?thesis by (simp add: sql_paper_trade_exists_def sql_trade_ids_def)
qed

lemma filter_unique:
  "distinct (map f xs) \<Longrightarrow> filter (\<lambda>y. k = f y) xs
     = (case find (\<lambda>y. f y = k) xs of None \<Rightarrow> [] | Some x \<Rightarrow> [x])"
proof (induction xs)
  case (Cons x xs)
  show ?case
  proof (cases "f x = k")
    case True
    with Cons.prems have "filter (\<lambda>y. k = f y) xs = []" by (auto simp: filter_empty_conv)
    with True show ?thesis by simp
  next
    case False
    with Cons show ?thesis by simp
  qed
qed simp

lemma sql_count_one:
  assumes "distinct (map gr_id gs)"
  shows "length (filter (\<lambda>(tr, g). tr_simulated tr \<and> ist_combine (ist_date t) 0 \<le> gr_signal_time g
           \<and> gr_signal_time g < ist_combine (ist_date t) 0 + day_us)
        (map (Pair tr) (filter (\<lambda>g. tr_signal_id tr = Some (gr_id g)) gs)))
      = length (filter (\<lambda>i. map_option (\<lambda>r. ist_date (gr_signal_time r)) (find (\<lambda>r. gr_id r = i) gs)
            = Some (ist_date t))
        (case (if tr_simulated tr then tr_signal_id tr else None) of None \<Rightarrow> [] | Some i \<Rightarrow> [i]))"
proof (cases "tr_signal_id tr")
  case (Some i)
  then show ?thesis
    using filter_unique [OF assms, of i] ist_date_interval [of _ "ist_date t"]
    by (auto split: option.splits)
qed simp

lemma sql_count_eq:
  assumes "sql_inv d"
  shows "sql_count_paper_trades_for_day t d
     = length (filter (\<lambda>i. sql_day_of d i = Some (ist_date t)) (sql_trade_ids d))"
proof -
  have u: "distinct (map gr_id (db_signals d))" using assms by (simp add: sql_inv_def)
  have "length (filter (\<lambda>(tr, g). tr_simulated tr \<and> ist_combine (ist_date t) 0 \<le> gr_signal_time g
           \<and> gr_signal_time g < ist_combine (ist_date t) 0 + day_us)
          (concat (map (\<lambda>tr. map (Pair tr)
             (filter (\<lambda>g. tr_signal_id tr = Some (gr_id g)) (db_signals d))) trs)))
     = length (filter (\<lambda>i. sql_day_of d i = Some (ist_date t))
         (List.map_filter (\<lambda>t. if tr_simulated t then tr_signal_id t else None) trs))" for trs
  proof (induction trs)
    case Nil
    then show ?case by (simp add: map_filter_def)
  next
    case (Cons tr trs)
    then show ?case
      by (simp only: map_filter_Cons filter_append length_append list.map concat.simps sql_day_of_def
          sql_count_one [OF u])
  qed
  then show ?thesis
    by (simp add: sql_count_paper_trades_for_day_def ist_day_bounds_def sql_trade_ids_def)
qed

lemma sql_insert_event_frame:
  "sql_insert_event o' i ty d = (r, d') \<Longrightarrow> db_trades d' = db_trades d
     \<and> db_journal_entries d' = db_journal_entries d \<and> db_signals d' = db_signals d
     \<and> db_now d' = db_now d"
  by (auto simp: sql_insert_event_def bindS_def insert_order_event_def split: sum.splits if_splits)

lemma sql_order_frame:
  "insert_order x d = (r, d') \<Longrightarrow> db_trades d' = db_trades d
     \<and> db_journal_entries d' = db_journal_entries d \<and> db_signals d' = db_signals d
     \<and> db_now d' = db_now d"
  by (auto simp: insert_order_def Let_def split: if_splits)

lemma sql_entry_order_frame:
  "sql_insert_entry_order sg o' d = (Inr i, d') \<Longrightarrow> db_trades d' = db_trades d
     \<and> db_journal_entries d' = db_journal_entries d \<and> db_signals d' = db_signals d
     \<and> db_now d' = db_now d"
  by (auto simp: sql_insert_entry_order_def bindS_Inr_iff dest!: sql_order_frame sql_insert_event_frame)

lemma sql_exit_order_frame:
  "sql_insert_exit_order sg o' d = (Inr i, d') \<Longrightarrow> db_trades d' = db_trades d
     \<and> db_journal_entries d' = db_journal_entries d \<and> db_signals d' = db_signals d
     \<and> db_now d' = db_now d"
  by (auto simp: sql_insert_exit_order_def bindS_Inr_iff dest!: sql_order_frame sql_insert_event_frame
      split: if_splits)

lemma sql_insert_trade_ok:
  "sql_insert_trade sg o' en ex d = (Inr i, d') \<Longrightarrow>
     (\<exists>t. tr_simulated t \<and> tr_signal_id t = Some (sig_id sg) \<and> db_trades d' = db_trades d @ [t])
     \<and> \<not> sql_paper_trade_exists (sig_id sg) d
     \<and> db_journal_entries d' = db_journal_entries d \<and> db_signals d' = db_signals d
     \<and> db_now d' = db_now d"
  by (auto simp: sql_insert_trade_def insert_trade_def Let_def opt_ok_def sql_paper_trade_exists_def
      split: if_splits)

lemma sql_insert_journal_ok:
  "sql_insert_journal sg o' ti d = (Inr u, d') \<Longrightarrow>
     (\<exists>p j. journal_payload sg o' = Inr p \<and> jr_payload j = p \<and> jr_entry_type j \<in> set paper_entry_types
        \<and> jr_created_at j = db_now d \<and> jr_id j = next_id (db_journal_entries d)
        \<and> db_journal_entries d' = db_journal_entries d @ [j])
     \<and> db_trades d' = db_trades d \<and> db_signals d' = db_signals d \<and> db_now d' = db_now d"
  by (auto simp: sql_insert_journal_def bindS_Inr_iff insert_journal_entry_def paper_entry_types_def)

lemma sql_paper_writes_ok:
  assumes "sql_paper_writes sg o' d = (Inr u, d')"
  shows "(\<exists>p j. journal_payload sg o' = Inr p \<and> jr_payload j = p \<and> jr_entry_type j \<in> set paper_entry_types
        \<and> jr_created_at j = db_now d \<and> jr_id j = next_id (db_journal_entries d)
        \<and> db_journal_entries d' = db_journal_entries d @ [j])
     \<and> db_signals d' = db_signals d \<and> db_now d' = db_now d
     \<and> (if makes_trade o'
        then \<not> sql_paper_trade_exists (sig_id sg) d
          \<and> (\<exists>t. tr_simulated t \<and> tr_signal_id t = Some (sig_id sg) \<and> db_trades d' = db_trades d @ [t])
        else db_trades d' = db_trades d)"
proof -
  have finish: ?thesis
    if j: "sql_insert_journal sg o' ti d1 = (Inr u, d')"
      and f: "db_journal_entries d1 = db_journal_entries d \<and> db_signals d1 = db_signals d
        \<and> db_now d1 = db_now d"
      and t: "if makes_trade o'
        then \<not> sql_paper_trade_exists (sig_id sg) d
          \<and> (\<exists>t. tr_simulated t \<and> tr_signal_id t = Some (sig_id sg) \<and> db_trades d1 = db_trades d @ [t])
        else db_trades d1 = db_trades d" for ti d1
    using sql_insert_journal_ok [OF j] f t by (auto split: if_splits)
  show ?thesis
  proof (cases "has_entry_attempt o'")
    case False
    with assms show ?thesis
      by (intro finish [of None d]) (auto simp: sql_paper_writes_def bindS_Inr_iff makes_trade_def)
  next
    case True
    then obtain i d1 where en: "sql_insert_entry_order sg o' d = (Inr i, d1)"
      using assms by (auto simp: sql_paper_writes_def bindS_Inr_iff)
    note E = sql_entry_order_frame [OF en]
    show ?thesis
    proof (cases "po_trade_created o'")
      case False
      with assms True en E show ?thesis
        by (intro finish [of None d1]) (auto simp: sql_paper_writes_def bindS_Inr_iff makes_trade_def)
    next
      case tc: True
      then obtain ex d2 k d3 where
        x: "sql_insert_exit_order sg o' d1 = (Inr ex, d2)"
        and tr: "sql_insert_trade sg o' i ex d2 = (Inr k, d3)"
        and j: "sql_insert_journal sg o' (Some k) d3 = (Inr u, d')"
        using assms True en by (auto simp: sql_paper_writes_def bindS_Inr_iff)
      note X = sql_exit_order_frame [OF x]
      note T = sql_insert_trade_ok [OF tr]
      have "sql_paper_trade_exists (sig_id sg) d2 = sql_paper_trade_exists (sig_id sg) d"
        using E X by (simp add: sql_paper_trade_exists_def)
      with E X T True tc show ?thesis
        by (intro finish [OF j]) (auto simp: makes_trade_def)
    qed
  qed
qed

lemma sql_journal_order:
  assumes "sql_inv d" "1 \<le> n"
  shows "slice_first n (map jr_payload
            (sort_key (\<lambda>j. (- jr_created_at j, - jr_id j))
              (filter (\<lambda>j. jr_entry_type j \<in> set paper_entry_types) (db_journal_entries d))))
     = take (nat n) (rev (sql_journal d))"
proof -
  let ?xs = "filter (\<lambda>j. jr_entry_type j \<in> set paper_entry_types) (db_journal_entries d)"
  let ?k = "\<lambda>j. (- jr_created_at j, - jr_id j)"
  have "sorted_wrt (\<lambda>a b. journal_time a < journal_time b) (db_journal_entries d)"
    using assms(1) by (simp add: sql_inv_def sorted_wrt_map)
  then have s: "sorted_wrt (\<lambda>a b. journal_time a < journal_time b) ?xs" by (rule sorted_wrt_filter)
  have k: "?k b < ?k a" if "journal_time a < journal_time b" for a b
    using that by (auto simp: journal_time_def less_prod_def)
  have r: "sorted_wrt (\<lambda>a b. ?k a < ?k b) (rev ?xs)"
    unfolding sorted_wrt_rev by (rule sorted_wrt_mono_rel [OF _ s]) (rule k)
  then have "sorted (map ?k (rev ?xs))"
    unfolding sorted_wrt_map by (rule sorted_wrt_mono_rel [rotated]) (rule less_imp_le)
  moreover have "inj_on ?k (set ?xs)"
  proof -
    have "sorted_wrt (<) (map ?k (rev ?xs))" using r by (simp add: sorted_wrt_map)
    then have "distinct (map ?k (rev ?xs))" by (simp only: strict_sorted_iff)
    then show ?thesis by (simp only: distinct_map set_rev)
  qed
  ultimately have "sort_key ?k ?xs = rev ?xs"
    by (intro sort_key_inj_key_eq) simp_all
  then show ?thesis
    using assms(2) by (simp add: slice_first_def sql_journal_def rev_map take_map)
qed

lemma sql_record_ok:
  "sql_record_paper_outcome sg o' d = (Inr u, d') \<longleftrightarrow> sql_paper_writes sg o' d = (Inr u, d')"
  by (auto simp: sql_record_paper_outcome_def tryS_def transaction_def split: prod.splits sum.splits)

lemma sql_record_err:
  "sql_record_paper_outcome sg o' d = (Inl e, d') \<Longrightarrow> d' = d"
  by (auto simp: sql_record_paper_outcome_def tryS_def transaction_def raiseS_def
      split: prod.splits sum.splits if_splits)

lemma sql_writes_inv:
  assumes inv: "sql_inv d" and w: "sql_paper_writes sg o' d = (Inr u, d')"
  shows "sql_inv d' \<and> sql_day_of d' = sql_day_of d
     \<and> sql_trade_ids d' = sql_trade_ids d @ (if makes_trade o' then [sig_id sg] else [])
     \<and> (\<exists>p. journal_payload sg o' = Inr p \<and> sql_journal d' = sql_journal d @ [p])"
proof -
  note W = sql_paper_writes_ok [OF w]
  obtain p j where p: "journal_payload sg o' = Inr p"
    and j: "jr_payload j = p" "jr_entry_type j \<in> set paper_entry_types" "jr_created_at j = db_now d"
      "jr_id j = next_id (db_journal_entries d)" "db_journal_entries d' = db_journal_entries d @ [j]"
    using W by auto
  have ids: "sql_trade_ids d' = sql_trade_ids d @ (if makes_trade o' then [sig_id sg] else [])"
  proof (cases "makes_trade o'")
    case True
    with W obtain t where "tr_simulated t" "tr_signal_id t = Some (sig_id sg)"
      "db_trades d' = db_trades d @ [t]" by auto
    with True show ?thesis by (simp add: sql_trade_ids_def map_filter_def)
  next
    case False
    with W show ?thesis by (simp add: sql_trade_ids_def)
  qed
  moreover have "sql_day_of d' = sql_day_of d" using W by (simp add: sql_day_of_def fun_eq_iff)
  moreover have "sql_journal d' = sql_journal d @ [p]" using j by (simp add: sql_journal_def)
  moreover have "sql_inv d'"
  proof -
    have "distinct (sql_trade_ids d')"
      using ids W inv by (auto simp: sql_inv_def sql_exists_iff split: if_splits)
    moreover have "journal_time x < journal_time j" if "x \<in> set (db_journal_entries d)" for x
      using inv that j by (fastforce simp: sql_inv_def journal_time_def less_prod_def next_id_def)
    ultimately show ?thesis
      using inv W j by (auto simp: sql_inv_def sorted_wrt_append next_id_def)
  qed
  ultimately show ?thesis using p by blast
qed

interpretation sql_store: paper_store sql_repository sql_inv sql_trade_ids sql_journal sql_day_of
proof
  fix d :: database
  assume inv: "sql_inv d"
  then show "distinct (sql_trade_ids d)" by (simp add: sql_inv_def)
  show "paper_trade_exists sql_repository i d \<longleftrightarrow> i \<in> set (sql_trade_ids d)" for i
    by (simp add: sql_repository_def sql_exists_iff)
  show "count_paper_trades_for_day sql_repository t d
      = length (filter (\<lambda>i. sql_day_of d i = Some (ist_date t)) (sql_trade_ids d))" for t
    using sql_count_eq [OF inv] by (simp add: sql_repository_def)
  show "sig_status sg = candidate_status \<and> sql_day_of d (sig_id sg) = Some (ist_date (sig_time sg))"
    if l: "load_candidate_signals sql_repository sy st en n d = Inr sigs" and sg: "sg \<in> set sigs"
    for sy st en n sigs sg
  proof -
    from l sg obtain r i where r: "r \<in> set (db_signals d)" "gr_signal_status r = candidate_status"
      and eq: "sg = paper_signal_from_row (r, i)"
      by (auto simp: sql_repository_def sql_load_candidate_signals_def bindE_eq_Inr in_join_instrument
          dest!: subsetD [OF set_slice_first])
    have "find (\<lambda>x. gr_id x = gr_id r) (db_signals d) = Some r"
      using inv r(1) by (simp add: sql_inv_def find_unique)
    with r eq show ?thesis by (simp add: paper_signal_from_row_def sql_day_of_def)
  qed
  show "sql_inv d' \<and> sql_day_of d' = sql_day_of d
      \<and> sql_trade_ids d' = sql_trade_ids d @ (if makes_trade out then [sig_id sg] else [])
      \<and> (\<exists>p. journal_payload sg out = Inr p \<and> sql_journal d' = sql_journal d @ [p])"
    if "record_paper_outcome sql_repository sg out d = (Inr u, d')" for sg out u d'
    using that sql_writes_inv [OF inv] by (simp add: sql_repository_def sql_record_ok)
  show "sql_inv d' \<and> sql_day_of d' = sql_day_of d \<and> sql_trade_ids d' = sql_trade_ids d
      \<and> sql_journal d' = sql_journal d"
    if "record_paper_outcome sql_repository sg out d = (Inl e, d')" for sg out e d'
    using that inv by (auto simp: sql_repository_def dest: sql_record_err)
  show "list_all2 (\<lambda>p q. q = p \<or> (\<exists>x. q = jset p ''model_decision'' x))
      (take (nat n) (rev (sql_journal d))) (list_journal_outcomes sql_repository n d)"
    if "1 \<le> n" for n
    using sql_journal_order [OF inv that] with_decision_shape
    by (auto simp: sql_repository_def sql_list_journal_outcomes_def Let_def list_all2_conv_all_nth)
qed

end
