(* ===== verification/PaperService.thy ===== *)
theory PaperService
  imports PaperSql
begin

section \<open>The paper service and its report\<close>

text \<open>
  \<^verbatim>\<open>app/paper/service.py\<close> and \<^verbatim>\<open>app/paper/reporting.py\<close>: the configuration parsed from the
  settings, the mode gates, the replay of candidate signals with its duplicate and daily cap guards,
  the bounded listings and the journal report. The service is written over the repository record; its
  lemmas are proved once in the contract \<open>paper_store\<close> and hold for both repositories.
\<close>

subsection \<open>Configuration\<close>

definition parse_force_flat :: "string \<Rightarrow> time_of_day res" where
  "parse_force_flat v =
     (case parse_hhmm v of
        None \<Rightarrow> Inl (PaperConfigError ''PAPER_FORCE_FLAT_TIME_IST must be HH:MM.'')
      | Some t \<Rightarrow> Inr t)"

definition paper_config_from_settings :: "settings \<Rightarrow> paper_config res" where
  "paper_config_from_settings s =
     (case mode_of_value (upper (paper_mode s)) of
        None \<Rightarrow> Inl (PaperConfigError ''Unsupported PAPER_MODE configured.'')
      | Some mode \<Rightarrow>
          bindE (parse_force_flat (paper_force_flat_time_ist s)) (\<lambda>force_flat.
            Inr \<lparr>pc_enabled = paper_enabled s, pc_mode = mode,
                 max_trades_per_day = paper_max_trades_per_day s,
                 default_quantity = paper_default_quantity s,
                 entry_buffer_pct = paper_entry_buffer_pct s, stop_pct = paper_stop_pct s,
                 target_r_multiple = paper_target_r_multiple s, force_flat_time_ist = force_flat,
                 estimated_cost_per_trade = paper_estimated_cost_per_trade s\<rparr>))"

definition default_replay_end :: "instant \<Rightarrow> instant" where
  "default_replay_end t = ist_combine (ist_date t) (hhmm 23 59)"

definition paper_candle_limit :: int where
  "paper_candle_limit = 100000"

subsection \<open>Replay\<close>

definition ensure_replay_allowed :: "paper_config \<Rightarrow> unit res" where
  "ensure_replay_allowed c =
     (if pc_mode c = LIVE
      then Inl (LiveModeNotImplementedError ''LIVE paper mode is disabled and not implemented.'')
      else if \<not> pc_enabled c then Inl (PaperDisabledError ''Paper engine is disabled.'')
      else if pc_mode c \<in> {OFF, SHADOW}
      then Inl (PaperModeDisabledError (mode_value (pc_mode c) @ '' mode does not create fills.''))
      else if pc_mode c \<noteq> PAPER then Inl (PaperConfigError ''Unsupported paper mode.'')
      else Inr ())"

definition recorded ::
  "'s paper_repository \<Rightarrow> paper_signal \<Rightarrow> paper_simulation_result \<Rightarrow> ('s, paper_simulation_result) prog" where
  "recorded R signal o' = bindS (record_paper_outcome R signal o') (\<lambda>_. retS o')"

definition duplicate_outcome :: "paper_config \<Rightarrow> paper_signal \<Rightarrow> paper_simulation_result" where
  "duplicate_outcome c signal = rejected_outcome signal c DUPLICATE_SIGNAL ''duplicate_signal''"

definition duplicate_outcome_if_exists ::
  "'s paper_repository \<Rightarrow> paper_config \<Rightarrow> paper_signal \<Rightarrow> ('s, paper_simulation_result option) prog" where
  "duplicate_outcome_if_exists R c signal =
     bindS (readS (paper_trade_exists R (sig_id signal))) (\<lambda>exists.
       if \<not> exists then retS None
       else bindS (recorded R signal (duplicate_outcome c signal)) (\<lambda>o'. retS (Some o')))"

definition daily_cap_outcome_if_reached ::
  "'s paper_repository \<Rightarrow> paper_config \<Rightarrow> paper_signal \<Rightarrow> ('s, paper_simulation_result option) prog" where
  "daily_cap_outcome_if_reached R c signal =
     bindS (if max_trades_per_day c < 1 then retS (Some ''paper_max_trades_per_day_invalid'')
            else bindS (readS (count_paper_trades_for_day R (sig_time signal))) (\<lambda>count.
                   retS (if int count < max_trades_per_day c then None
                         else Some ''paper_max_trades_per_day_reached''))) (\<lambda>reason.
       case reason of
         None \<Rightarrow> retS None
       | Some why \<Rightarrow>
           bindS (recorded R signal (rejected_outcome signal c MODE_DISABLED why)) (\<lambda>o'.
             retS (Some o')))"

fun is_duplicate_error :: "exn \<Rightarrow> bool" where
  "is_duplicate_error (DuplicatePaperTradeError m) = True"
| "is_duplicate_error e = False"

definition simulate_signal ::
  "'s paper_repository \<Rightarrow> paper_config \<Rightarrow> instant option \<Rightarrow> paper_signal
   \<Rightarrow> ('s, paper_simulation_result) prog" where
  "simulate_signal R c end_at signal =
     bindS (\<lambda>s. (load_candles R (sig_symbol signal) (sig_time signal)
                   (case end_at of Some e \<Rightarrow> e | None \<Rightarrow> default_replay_end (sig_time signal))
                   paper_candle_limit s, s)) (\<lambda>candles.
     bindS (liftS (build_instruction signal candles c)) (\<lambda>built.
     let outcome = (case built of Inr i \<Rightarrow> simulate i candles c | Inl rejection \<Rightarrow> rejection)
     in tryS (recorded R signal outcome)
          (\<lambda>e. if is_duplicate_error e
                then Some (recorded R signal (duplicate_outcome c signal)) else None)))"

definition replay_signal ::
  "'s paper_repository \<Rightarrow> paper_config \<Rightarrow> instant option \<Rightarrow> paper_signal
   \<Rightarrow> ('s, paper_simulation_result) prog" where
  "replay_signal R c end_at signal =
     bindS (duplicate_outcome_if_exists R c signal) (\<lambda>dup.
       case dup of
         Some o' \<Rightarrow> retS o'
       | None \<Rightarrow>
           bindS (daily_cap_outcome_if_reached R c signal) (\<lambda>capped.
             case capped of
               Some o' \<Rightarrow> retS o'
             | None \<Rightarrow> simulate_signal R c end_at signal))"

definition bounded :: "int \<Rightarrow> int \<Rightarrow> int" where
  "bounded upper_limit n = max 1 (min n upper_limit)"

definition run_replay ::
  "'s paper_repository \<Rightarrow> paper_config \<Rightarrow> string option \<Rightarrow> instant option \<Rightarrow> instant option \<Rightarrow> int
   \<Rightarrow> ('s, paper_replay_summary) prog" where
  "run_replay R c symb start end_at limit =
     bindS (liftS (ensure_replay_allowed c)) (\<lambda>_.
     bindS (\<lambda>s. (load_candidate_signals R symb start end_at (bounded 500 limit) s, s)) (\<lambda>sigs.
     bindS (mapS (replay_signal R c end_at) sigs) (\<lambda>outcomes.
       retS \<lparr>ps_paper_enabled = pc_enabled c, ps_paper_mode = pc_mode c,
             ps_signals_loaded = length sigs, ps_outcomes = outcomes\<rparr>)))"

definition paper_trades :: "'s paper_repository \<Rightarrow> int \<Rightarrow> 's \<Rightarrow> payload list" where
  "paper_trades R limit s = list_journal_outcomes R (bounded 500 limit) s"

definition paper_status :: "paper_config \<Rightarrow> (string \<times> json) list" where
  "paper_status c =
     [(''paper_enabled'', JBool (pc_enabled c)),
      (''paper_mode'', JStr (mode_value (pc_mode c))),
      (''live_supported'', JBool False),
      (''simulated_only'', JBool True),
      (''default_quantity'', JInt (default_quantity c)),
      (''max_trades_per_day'', JInt (max_trades_per_day c)),
      (''force_flat_time_ist'', JStr (pad 2 (time_hour (force_flat_time_ist c)) @ '':''
         @ pad 2 (time_minute (force_flat_time_ist c)))),
      (''estimated_cost_per_trade'', JDec (estimated_cost_per_trade c))]"

subsection \<open>Report\<close>

text \<open>\<^verbatim>\<open>Decimal(str(value))\<close> of a payload amount; the journal stores only these.\<close>

fun json_decimal :: "json \<Rightarrow> dec res" where
  "json_decimal JNull = Inr 0"
| "json_decimal (JDec q) = Inr q"
| "json_decimal (JInt i) = Inr (of_int i)"
| "json_decimal (JFloat q) = Inr q"
| "json_decimal v = Inl InvalidOperation"

text \<open>\<^verbatim>\<open>str(value or "UNKNOWN")\<close> for string values.\<close>

fun str_or_unknown :: "json \<Rightarrow> string" where
  "str_or_unknown (JStr s) = (if s = [] then ''UNKNOWN'' else s)"
| "str_or_unknown v = ''UNKNOWN''"

record paper_report_acc =
  ra_exit_counts :: "(string \<times> nat) list"
  ra_gross :: dec
  ra_costs :: dec
  ra_net :: dec
  ra_simulated :: nat
  ra_entry_attempts :: nat
  ra_no_fills :: nat
  ra_filled_trades :: nat
  ra_rejections :: nat
  ra_decision_coverage :: nat
  ra_verdicts :: "(string \<times> nat) list"

definition empty_report_acc :: paper_report_acc where
  "empty_report_acc =
     \<lparr>ra_exit_counts = [], ra_gross = 0, ra_costs = 0, ra_net = 0, ra_simulated = 0,
      ra_entry_attempts = 0, ra_no_fills = 0, ra_filled_trades = 0, ra_rejections = 0,
      ra_decision_coverage = 0, ra_verdicts = []\<rparr>"

definition tick_if :: "bool \<Rightarrow> nat \<Rightarrow> nat" where
  "tick_if b n = (if b then Suc n else n)"

definition report_step :: "payload \<Rightarrow> paper_report_acc \<Rightarrow> paper_report_acc res" where
  "report_step p a =
     bindE (json_decimal (jget p ''gross_pnl'')) (\<lambda>g.
     bindE (json_decimal (jget p ''estimated_costs'')) (\<lambda>c.
     bindE (json_decimal (jget p ''net_estimated_pnl'')) (\<lambda>n.
     let entry = jget p ''entry_order_status'';
         filled = (entry = JStr paper_entry_filled);
         no_fill = (entry = JStr paper_entry_no_fill)
     in Inr \<lparr>ra_exit_counts =
               counter_add (ra_exit_counts a) (str_or_unknown (jget p ''exit_reason'')),
             ra_gross = dadd (ra_gross a) g, ra_costs = dadd (ra_costs a) c,
             ra_net = dadd (ra_net a) n,
             ra_simulated = tick_if (jget p ''simulated'' = JBool True) (ra_simulated a),
             ra_entry_attempts = tick_if (filled \<or> no_fill) (ra_entry_attempts a),
             ra_no_fills = tick_if no_fill (ra_no_fills a),
             ra_filled_trades = tick_if filled (ra_filled_trades a),
             ra_rejections = tick_if (truthy (jget p ''rejection_reason'')) (ra_rejections a),
             ra_decision_coverage =
               tick_if (is_obj (jget p ''model_decision'')) (ra_decision_coverage a),
             ra_verdicts =
               (case jget p ''model_decision'' of
                  JObj d \<Rightarrow> counter_add (ra_verdicts a) (str_or_unknown (jget d ''verdict''))
                | _ \<Rightarrow> ra_verdicts a)\<rparr>)))"

fun report_loop :: "payload list \<Rightarrow> paper_report_acc \<Rightarrow> paper_report_acc res" where
  "report_loop [] a = Inr a"
| "report_loop (p # ps) a = bindE (report_step p a) (report_loop ps)"

definition counts_json :: "(string \<times> nat) list \<Rightarrow> json" where
  "counts_json c = JObj (map (\<lambda>(k, n). (k, JInt (int n))) (counter_sorted c))"

definition build_paper_report :: "bool \<Rightarrow> paper_mode_kind \<Rightarrow> payload list \<Rightarrow> (string \<times> json) list res" where
  "build_paper_report enabled mode outcomes =
     bindE (report_loop outcomes empty_report_acc) (\<lambda>a.
     bindE (money (ra_gross a)) (\<lambda>g.
     bindE (money (ra_costs a)) (\<lambda>c.
     bindE (money (ra_net a)) (\<lambda>n.
       Inr [(''paper_enabled'', JBool enabled),
            (''paper_mode'', JStr (mode_value mode)),
            (''simulated_only'', JBool True),
            (''journal_outcomes'', JInt (int (length outcomes))),
            (''candidate_signal_outcomes'', JInt (int (length outcomes))),
            (''simulated_outcomes'', JInt (int (ra_simulated a))),
            (''entry_attempt_outcomes'', JInt (int (ra_entry_attempts a))),
            (''no_fill_outcomes'', JInt (int (ra_no_fills a))),
            (''filled_paper_trade_outcomes'', JInt (int (ra_filled_trades a))),
            (''paper_trade_outcomes'', JInt (int (ra_filled_trades a))),
            (''rejections'', JInt (int (ra_rejections a))),
            (''model_decision_coverage'', JInt (int (ra_decision_coverage a))),
            (''model_decision_verdict_counts'', counts_json (ra_verdicts a)),
            (''gross_pnl'', g), (''estimated_costs'', c), (''net_estimated_pnl'', n),
            (''exit_reason_counts'', counts_json (ra_exit_counts a))]))))"

definition paper_report :: "'s paper_repository \<Rightarrow> paper_config \<Rightarrow> int \<Rightarrow> 's \<Rightarrow> (string \<times> json) list res" where
  "paper_report R c limit s =
     build_paper_report (pc_enabled c) (pc_mode c) (list_journal_outcomes R (bounded 10000 limit) s)"

subsection \<open>Shape of the outcomes\<close>

text \<open>Every outcome the service records is a rejection, a missed entry or a filled trade.\<close>

definition outcome_shape :: "paper_signal \<Rightarrow> paper_simulation_result \<Rightarrow> bool" where
  "outcome_shape sg o' \<longleftrightarrow> po_signal_id o' = sig_id sg
     \<and> (po_trade_created o' \<longleftrightarrow> po_entry_order_status o' = paper_entry_filled)
     \<and> (po_exit_reason o' = NO_FILL \<longleftrightarrow> po_entry_order_status o' = paper_entry_no_fill)
     \<and> po_simulated o'"

lemma outcome_shape_makes_trade: "outcome_shape sg o' \<Longrightarrow> makes_trade o' \<longleftrightarrow> po_trade_created o'"
  by (auto simp: outcome_shape_def makes_trade_def has_entry_attempt_def)

lemma shape_rejected: "r \<noteq> NO_FILL \<Longrightarrow> outcome_shape sg (rejected_outcome sg c r why)"
  by (simp add: outcome_shape_def rejected_outcome_def entry_status_defs)

lemma shape_simulated:
  assumes "build_instruction sg cs c = Inr (Inr i)"
  shows "outcome_shape sg (simulate i cs' c)"
proof -
  have i: "ins_signal_id i = sig_id sg" using assms by (rule build_instruction_Inr)
  have nf: "outcome_shape sg (no_fill_outcome i)"
    using i by (simp add: outcome_shape_def no_fill_outcome_def entry_status_defs)
  have tr: "outcome_shape sg (completed_trade_outcome i t x p r)" if "r \<noteq> NO_FILL" for t x p r
    using i that by (simp add: outcome_shape_def completed_trade_outcome_def entry_status_defs Let_def)
  from simulate_cases [of i c cs'] show ?thesis
    by cases (auto simp: nf tr triggered_exit_def)
qed

subsection \<open>The service over the contract\<close>

context paper_store
begin

definition day_count :: "'s \<Rightarrow> date \<Rightarrow> nat" where
  "day_count s d = length (filter (\<lambda>i. day_of s i = Some d) (trade_ids s))"

lemma recorded_ok:
  assumes "ok s" "recorded R sg out s = (Inr o', s')"
  shows "o' = out \<and> ok s' \<and> day_of s' = day_of s
     \<and> trade_ids s' = trade_ids s @ (if makes_trade out then [sig_id sg] else [])
     \<and> (\<exists>p. journal_payload sg out = Inr p \<and> journal s' = journal s @ [p])"
  using assms record_ok by (auto simp: recorded_def bindS_Inr_iff)

lemma recorded_err:
  assumes "ok s" "recorded R sg out s = (Inl e, s')"
  shows "ok s' \<and> day_of s' = day_of s \<and> trade_ids s' = trade_ids s"
  using assms record_err by (auto simp: recorded_def bindS_Inl_iff)

text \<open>Writing a rejection keeps the trades, whether or not it raises.\<close>

lemma recorded_rejection:
  assumes "ok s" "recorded R sg out s = (r, s')" "\<not> makes_trade out"
  shows "ok s' \<and> day_of s' = day_of s \<and> trade_ids s' = trade_ids s"
proof (cases r)
  case (Inl e)
  with assms show ?thesis using recorded_err by simp
next
  case (Inr x)
  with assms have "recorded R sg out s = (Inr x, s')" by simp
  from recorded_ok [OF assms(1) this] assms(3) show ?thesis by simp
qed

lemma not_makes_trade_rejected [simp]: "\<not> makes_trade (rejected_outcome sg c r why)"
  by (simp add: makes_trade_def)

definition signal_step :: "paper_config \<Rightarrow> paper_signal \<Rightarrow> 's \<Rightarrow> paper_simulation_result \<Rightarrow> 's \<Rightarrow> bool" where
  "signal_step c sg s o' s' \<longleftrightarrow> ok s' \<and> day_of s' = day_of s \<and> outcome_shape sg o'
     \<and> (\<exists>p. journal_payload sg o' = Inr p \<and> journal s' = journal s @ [p])
     \<and> trade_ids s' = trade_ids s @ (if po_trade_created o' then [sig_id sg] else [])
     \<and> (po_trade_created o' \<longrightarrow> int (day_count s (ist_date (sig_time sg))) < max_trades_per_day c)
     \<and> (sig_id sg \<in> set (trade_ids s) \<longrightarrow> po_exit_reason o' = DUPLICATE_SIGNAL)"

lemma rejection_step:
  assumes "ok s" "recorded R sg (rejected_outcome sg c r why) s = (Inr o', s')" "r \<noteq> NO_FILL"
    and "sig_id sg \<in> set (trade_ids s) \<Longrightarrow> r = DUPLICATE_SIGNAL"
  shows "signal_step c sg s o' s'"
  using recorded_ok [OF assms(1,2)] assms(3,4) shape_rejected [OF assms(3)]
  by (auto simp: signal_step_def)

lemma duplicate_step:
  assumes "ok s" "duplicate_outcome_if_exists R c sg s = (Inr x, s')"
  shows "case x of None \<Rightarrow> s' = s \<and> sig_id sg \<notin> set (trade_ids s) | Some o' \<Rightarrow> signal_step c sg s o' s'"
proof (cases "paper_trade_exists R (sig_id sg) s")
  case True
  with assms(2) obtain o' where x: "x = Some o'"
    and r: "recorded R sg (rejected_outcome sg c DUPLICATE_SIGNAL ''duplicate_signal'') s = (Inr o', s')"
    by (auto simp: duplicate_outcome_if_exists_def duplicate_outcome_def bindS_Inr_iff)
  from rejection_step [OF assms(1) r] x show ?thesis by simp
next
  case False
  with assms exists_iff show ?thesis
    by (auto simp: duplicate_outcome_if_exists_def bindS_Inr_iff)
qed

lemma daily_cap_step:
  assumes "ok s" "daily_cap_outcome_if_reached R c sg s = (Inr x, s')" "sig_id sg \<notin> set (trade_ids s)"
  shows "case x of
      None \<Rightarrow> s' = s \<and> int (day_count s (ist_date (sig_time sg))) < max_trades_per_day c
    | Some o' \<Rightarrow> signal_step c sg s o' s'"
proof -
  have rej: "signal_step c sg s o' s'"
    if "recorded R sg (rejected_outcome sg c MODE_DISABLED why) s = (Inr o', s')" for o' why
    using rejection_step [OF assms(1) that] assms(3) by simp
  show ?thesis
    using assms(2) rej count_eq [OF assms(1)]
    by (auto simp: daily_cap_outcome_if_reached_def bindS_Inr_iff day_count_def split: if_splits)
qed

lemma simulate_signal_step:
  assumes ok: "ok s" and run: "simulate_signal R c en sg s = (Inr o', s')"
    and new: "sig_id sg \<notin> set (trade_ids s)"
    and cap: "int (day_count s (ist_date (sig_time sg))) < max_trades_per_day c"
  shows "signal_step c sg s o' s'"
proof -
  obtain cs built where b: "build_instruction sg cs c = Inr built"
    and t: "tryS (recorded R sg (case built of Inr i \<Rightarrow> simulate i cs c | Inl r \<Rightarrow> r))
      (\<lambda>e. if is_duplicate_error e then Some (recorded R sg (duplicate_outcome c sg)) else None) s
      = (Inr o', s')"
    using run by (auto simp: simulate_signal_def bindS_Inr_iff)
  let ?out = "case built of Inr i \<Rightarrow> simulate i cs c | Inl r \<Rightarrow> r"
  have shape: "outcome_shape sg ?out"
  proof (cases built)
    case (Inl r)
    with b build_instruction_Inl obtain why where "r = rejected_outcome sg c INVALID_SIGNAL_CONTEXT why"
      by blast
    with Inl show ?thesis by (simp add: shape_rejected)
  next
    case (Inr i)
    with b shape_simulated show ?thesis by simp
  qed
  show ?thesis
  proof (cases "recorded R sg ?out s")
    case (Pair r s1)
    show ?thesis
    proof (cases r)
      case (Inr x)
      with Pair t have "recorded R sg ?out s = (Inr o', s')" by (simp add: tryS_def)
      from recorded_ok [OF ok this] shape cap new outcome_shape_makes_trade [OF shape]
      show ?thesis by (auto simp: signal_step_def)
    next
      case (Inl e)
      with Pair t have d: "recorded R sg (rejected_outcome sg c DUPLICATE_SIGNAL ''duplicate_signal'') s1
          = (Inr o', s')"
        by (auto simp: tryS_def duplicate_outcome_def split: if_splits)
      from Inl Pair recorded_err [OF ok] have s1: "ok s1" "day_of s1 = day_of s" "trade_ids s1 = trade_ids s"
        "journal s1 = journal s"
        using record_err [OF ok] by (auto simp: recorded_def bindS_Inl_iff)
      from rejection_step [OF s1(1) d] s1 show ?thesis
        by (auto simp: signal_step_def day_count_def)
    qed
  qed
qed

lemma replay_signal_step:
  assumes ok: "ok s" and run: "replay_signal R c en sg s = (Inr o', s')"
  shows "signal_step c sg s o' s'"
proof -
  obtain dup s1 where d: "duplicate_outcome_if_exists R c sg s = (Inr dup, s1)"
    and k: "(case dup of Some o' \<Rightarrow> retS o' | None \<Rightarrow> bindS (daily_cap_outcome_if_reached R c sg)
       (\<lambda>capped. case capped of Some o' \<Rightarrow> retS o' | None \<Rightarrow> simulate_signal R c en sg)) s1 = (Inr o', s')"
    using run by (auto simp: replay_signal_def bindS_Inr_iff)
  note D = duplicate_step [OF ok d]
  show ?thesis
  proof (cases dup)
    case (Some x)
    with D k show ?thesis by simp
  next
    case None
    with D have s1: "s1 = s" "sig_id sg \<notin> set (trade_ids s)" by simp_all
    from k None s1 obtain cp s2 where c: "daily_cap_outcome_if_reached R c sg s = (Inr cp, s2)"
      and m: "(case cp of Some o' \<Rightarrow> retS o' | None \<Rightarrow> simulate_signal R c en sg) s2 = (Inr o', s')"
      by (auto simp: bindS_Inr_iff)
    note C = daily_cap_step [OF ok c s1(2)]
    show ?thesis
    proof (cases cp)
      case (Some x)
      with C m show ?thesis by simp
    next
      case None
      with C have "s2 = s" "int (day_count s (ist_date (sig_time sg))) < max_trades_per_day c" by simp_all
      with m None s1(2) show ?thesis using simulate_signal_step [OF ok] by simp
    qed
  qed
qed

text \<open>A replay step that raises leaves the trades as they were.\<close>

lemma replay_signal_err:
  assumes ok: "ok s" and run: "replay_signal R c en sg s = (Inl e, s')"
  shows "ok s' \<and> day_of s' = day_of s \<and> trade_ids s' = trade_ids s"
proof -
  have dup: "ok s' \<and> day_of s' = day_of s \<and> trade_ids s' = trade_ids s"
    if "duplicate_outcome_if_exists R c sg s = (Inl e, s')"
    using that recorded_err [OF ok]
    by (auto simp: duplicate_outcome_if_exists_def duplicate_outcome_def bindS_Inl_iff split: if_splits)
  have cap: "ok s' \<and> day_of s' = day_of s \<and> trade_ids s' = trade_ids s"
    if "daily_cap_outcome_if_reached R c sg s = (Inl e, s')"
    using that recorded_err [OF ok]
    by (auto simp: daily_cap_outcome_if_reached_def bindS_Inl_iff split: if_splits)
  have sim: "ok s' \<and> day_of s' = day_of s \<and> trade_ids s' = trade_ids s"
    if st: "simulate_signal R c en sg s = (Inl e, s')"
  proof -
    consider "s' = s" | out where "tryS (recorded R sg out)
        (\<lambda>e. if is_duplicate_error e then Some (recorded R sg (duplicate_outcome c sg)) else None) s
        = (Inl e, s')"
      using st by (auto simp: simulate_signal_def bindS_Inl_iff)
    then show ?thesis
    proof cases
      case (2 out)
      obtain r s1 where r: "recorded R sg out s = (r, s1)" by (metis surj_pair)
      with 2 obtain x where x: "r = Inl x" by (cases r) (auto simp: tryS_def)
      note S1 = recorded_err [OF ok r [unfolded x]]
      from 2 r x consider "s' = s1"
        | "recorded R sg (duplicate_outcome c sg) s1 = (Inl e, s')"
        by (auto simp: tryS_def split: if_splits)
      then show ?thesis using S1 recorded_err by cases auto
    qed (simp add: ok)
  qed
  show ?thesis
  proof (cases "duplicate_outcome_if_exists R c sg s")
    case (Pair r s1)
    show ?thesis
    proof (cases r)
      case (Inl x)
      with Pair run have "duplicate_outcome_if_exists R c sg s = (Inl e, s')"
        by (simp add: replay_signal_def bindS_def)
      then show ?thesis by (rule dup)
    next
      case (Inr d)
      with Pair run have k: "(case d of Some o' \<Rightarrow> retS o'
          | None \<Rightarrow> bindS (daily_cap_outcome_if_reached R c sg)
              (\<lambda>capped. case capped of Some o' \<Rightarrow> retS o' | None \<Rightarrow> simulate_signal R c en sg)) s1
          = (Inl e, s')"
        by (simp add: replay_signal_def bindS_def)
      then have d: "d = None" by (cases d) simp_all
      with duplicate_step [OF ok, of c sg d s1] Pair Inr have s1: "s1 = s" "sig_id sg \<notin> set (trade_ids s)"
        by auto
      from k d s1 consider "daily_cap_outcome_if_reached R c sg s = (Inl e, s')"
        | cp s2 where "daily_cap_outcome_if_reached R c sg s = (Inr cp, s2)"
            "(case cp of Some o' \<Rightarrow> retS o' | None \<Rightarrow> simulate_signal R c en sg) s2 = (Inl e, s')"
        by (auto simp: bindS_Inl_iff)
      then show ?thesis
      proof cases
        case 1
        then show ?thesis by (rule cap)
      next
        case (2 cp s2)
        then have "cp = None" by (cases cp) simp_all
        with 2 daily_cap_step [OF ok 2(1) s1(2)] have "simulate_signal R c en sg s = (Inl e, s')"
          by simp
        then show ?thesis by (rule sim)
      qed
    qed
  qed
qed

text \<open>The whole replay: one step per signal, in order.\<close>

lemma replay_steps:
  assumes ok: "ok s" and run: "mapS (replay_signal R c en) sigs s = (Inr outs, s')"
  shows "length outs = length sigs \<and> ok s' \<and> day_of s' = day_of s
     \<and> list_all2 outcome_shape sigs outs
     \<and> trade_ids s' = trade_ids s @ map sig_id (map fst (filter (\<lambda>e. po_trade_created (snd e)) (zip sigs outs)))
     \<and> (\<exists>ps. journal s' = journal s @ ps
          \<and> list_all2 (\<lambda>(sg, o') p. journal_payload sg o' = Inr p) (zip sigs outs) ps)
     \<and> (\<forall>e \<in> set (zip sigs outs). sig_id (fst e) \<in> set (trade_ids s) \<longrightarrow>
          po_exit_reason (snd e) = DUPLICATE_SIGNAL)"
proof (rule mapS_induct [OF run])
  show "length [] = length [] \<and> ok s \<and> day_of s = day_of s
     \<and> list_all2 outcome_shape [] []
     \<and> trade_ids s = trade_ids s @ map sig_id (map fst (filter (\<lambda>e. po_trade_created (snd e)) (zip [] [])))
     \<and> (\<exists>ps. journal s = journal s @ ps
          \<and> list_all2 (\<lambda>(sg, o') p. journal_payload sg o' = Inr p) (zip [] []) ps)
     \<and> (\<forall>e \<in> set (zip [] []). sig_id (fst e) \<in> set (trade_ids s) \<longrightarrow>
          po_exit_reason (snd e) = DUPLICATE_SIGNAL)"
    using ok by simp
next
  fix us u vs v s1 s2
  assume IH: "length vs = length us \<and> ok s1 \<and> day_of s1 = day_of s
     \<and> list_all2 outcome_shape us vs
     \<and> trade_ids s1 = trade_ids s @ map sig_id (map fst (filter (\<lambda>e. po_trade_created (snd e)) (zip us vs)))
     \<and> (\<exists>ps. journal s1 = journal s @ ps
          \<and> list_all2 (\<lambda>(sg, o') p. journal_payload sg o' = Inr p) (zip us vs) ps)
     \<and> (\<forall>e \<in> set (zip us vs). sig_id (fst e) \<in> set (trade_ids s) \<longrightarrow>
          po_exit_reason (snd e) = DUPLICATE_SIGNAL)"
    and st: "replay_signal R c en u s1 = (Inr v, s2)"
  have S: "signal_step c u s1 v s2" using IH st replay_signal_step by blast
  obtain ps p where ps: "journal s1 = journal s @ ps"
    "list_all2 (\<lambda>(sg, o') p. journal_payload sg o' = Inr p) (zip us vs) ps"
    and p: "journal_payload u v = Inr p" "journal s2 = journal s1 @ [p]"
    using IH S by (auto simp: signal_step_def)
  have j: "journal s2 = journal s @ (ps @ [p])"
    "list_all2 (\<lambda>(sg, o') p. journal_payload sg o' = Inr p) (zip (us @ [u]) (vs @ [v])) (ps @ [p])"
    using ps p IH by (simp_all add: list_all2_appendI)
  show "length (vs @ [v]) = length (us @ [u]) \<and> ok s2 \<and> day_of s2 = day_of s
     \<and> list_all2 outcome_shape (us @ [u]) (vs @ [v])
     \<and> trade_ids s2 = trade_ids s
         @ map sig_id (map fst (filter (\<lambda>e. po_trade_created (snd e)) (zip (us @ [u]) (vs @ [v]))))
     \<and> (\<exists>ps. journal s2 = journal s @ ps
          \<and> list_all2 (\<lambda>(sg, o') p. journal_payload sg o' = Inr p) (zip (us @ [u]) (vs @ [v])) ps)
     \<and> (\<forall>e \<in> set (zip (us @ [u]) (vs @ [v])). sig_id (fst e) \<in> set (trade_ids s) \<longrightarrow>
          po_exit_reason (snd e) = DUPLICATE_SIGNAL)"
    using IH S j by (auto simp: signal_step_def list_all2_appendI)
qed

text \<open>The daily cap is an invariant of the replay, also when it ends with an exception.\<close>

definition capped_from :: "'s \<Rightarrow> int \<Rightarrow> 's \<Rightarrow> bool" where
  "capped_from s0 cap s \<longleftrightarrow> ok s \<and> day_of s = day_of s0
     \<and> (\<forall>d. int (day_count s d) \<le> max (int (day_count s0 d)) cap)"

lemma keeps_capped:
  assumes "day_of s0 (sig_id sg) = Some (ist_date (sig_time sg))"
  shows "keeps (capped_from s0 (max_trades_per_day c)) (replay_signal R c en sg)"
proof (rule keepsI)
  fix s r s'
  assume I: "capped_from s0 (max_trades_per_day c) s" and st: "replay_signal R c en sg s = (r, s')"
  then have ok: "ok s" by (simp add: capped_from_def)
  show "capped_from s0 (max_trades_per_day c) s'"
  proof (cases r)
    case (Inl e)
    with st have "replay_signal R c en sg s = (Inl e, s')" by simp
    note E = replay_signal_err [OF ok this]
    then have "day_count s' d = day_count s d" for d by (simp add: day_count_def)
    with E I show ?thesis by (simp add: capped_from_def)
  next
    case (Inr o')
    with st have S: "signal_step c sg s o' s'" using replay_signal_step [OF ok] by simp
    show ?thesis
    proof (cases "po_trade_created o'")
      case False
      with S have "day_count s' d = day_count s d" for d by (simp add: signal_step_def day_count_def)
      with S I show ?thesis by (simp add: signal_step_def capped_from_def)
    next
      case True
      have "day_of s' (sig_id sg) = Some (ist_date (sig_time sg))"
        using S I assms by (simp add: signal_step_def capped_from_def)
      then have cnt: "day_count s' d = day_count s d + (if d = ist_date (sig_time sg) then 1 else 0)" for d
        using S True by (auto simp: signal_step_def day_count_def)
      have "int (day_count s' d) \<le> max (int (day_count s0 d)) (max_trades_per_day c)" for d
      proof (cases "d = ist_date (sig_time sg)")
        case True
        with \<open>po_trade_created o'\<close> S have "int (day_count s d) < max_trades_per_day c"
          by (simp add: signal_step_def)
        with True cnt show ?thesis by simp
      next
        case False
        moreover have "int (day_count s d) \<le> max (int (day_count s0 d)) (max_trades_per_day c)"
          using I by (simp add: capped_from_def)
        ultimately show ?thesis using cnt by simp
      qed
      with S I show ?thesis by (simp add: signal_step_def capped_from_def)
    qed
  qed
qed

lemma run_replay_capped:
  assumes ok: "ok s" and run: "run_replay R c sy st en n s = (r, s')"
  shows "capped_from s (max_trades_per_day c) s'"
proof -
  have base: "capped_from s (max_trades_per_day c) s" using ok by (simp add: capped_from_def)
  show ?thesis
  proof (cases "ensure_replay_allowed c")
    case (Inl e)
    with run base show ?thesis by (simp add: run_replay_def bindS_def)
  next
    case (Inr u)
    show ?thesis
    proof (cases "load_candidate_signals R sy st en (bounded 500 n) s")
      case Inl': (Inl e)
      with run base Inr show ?thesis by (simp add: run_replay_def bindS_def)
    next
      case Inr': (Inr sigs)
      obtain r1 s1 where m: "mapS (replay_signal R c en) sigs s = (r1, s1)" by (metis surj_pair)
      have "keeps (capped_from s (max_trades_per_day c)) (mapS (replay_signal R c en) sigs)"
        using loaded [OF ok Inr'] by (intro keeps_map keeps_capped) blast
      then have "capped_from s (max_trades_per_day c) s1" using base m by (rule keepsD)
      moreover have "s' = s1"
        using run Inr Inr' m by (auto simp: run_replay_def bindS_def split: sum.splits)
      ultimately show ?thesis by simp
    qed
  qed
qed

lemma run_replay_Inr:
  assumes ok: "ok s" and run: "run_replay R c sy st en n s = (Inr sm, s')"
  obtains sigs where "load_candidate_signals R sy st en (bounded 500 n) s = Inr sigs"
    "ensure_replay_allowed c = Inr ()" "ps_signals_loaded sm = length sigs"
    "mapS (replay_signal R c en) sigs s = (Inr (ps_outcomes sm), s')"
  using run by (auto simp: run_replay_def bindS_Inr_iff)

end

subsection \<open>Facts about the report\<close>

definition is_filled :: "payload \<Rightarrow> bool" where
  "is_filled p \<longleftrightarrow> jget p ''entry_order_status'' = JStr paper_entry_filled"

definition is_no_fill :: "payload \<Rightarrow> bool" where
  "is_no_fill p \<longleftrightarrow> jget p ''entry_order_status'' = JStr paper_entry_no_fill"

definition is_rejected :: "payload \<Rightarrow> bool" where
  "is_rejected p \<longleftrightarrow> truthy (jget p ''rejection_reason'')"

lemma filled_not_no_fill: "paper_entry_filled \<noteq> paper_entry_no_fill"
  by (simp add: entry_status_defs)

lemma report_step_counts:
  assumes "report_step p a = Inr b"
  shows "ra_filled_trades b = ra_filled_trades a + count_if is_filled [p]
     \<and> ra_no_fills b = ra_no_fills a + count_if is_no_fill [p]
     \<and> ra_entry_attempts b = ra_entry_attempts a + count_if is_filled [p] + count_if is_no_fill [p]
     \<and> ra_rejections b = ra_rejections a + count_if is_rejected [p]
     \<and> counter_get (ra_exit_counts b) k = counter_get (ra_exit_counts a) k
         + (if str_or_unknown (jget p ''exit_reason'') = k then 1 else 0)
     \<and> ra_decision_coverage a \<le> ra_decision_coverage b
     \<and> ra_decision_coverage b \<le> Suc (ra_decision_coverage a)"
  using assms filled_not_no_fill
  by (auto simp: report_step_def bindE_eq_Inr Let_def tick_if_def count_if_def is_filled_def
      is_no_fill_def is_rejected_def counter_get_add)

lemma count_if_Cons: "count_if P (x # xs) = count_if P [x] + count_if P xs"
  by (simp add: count_if_def)

lemma report_loop_counts:
  "report_loop ps a = Inr b \<Longrightarrow>
     ra_filled_trades b = ra_filled_trades a + count_if is_filled ps
     \<and> ra_no_fills b = ra_no_fills a + count_if is_no_fill ps
     \<and> ra_entry_attempts b = ra_entry_attempts a + count_if is_filled ps + count_if is_no_fill ps
     \<and> ra_rejections b = ra_rejections a + count_if is_rejected ps
     \<and> counter_get (ra_exit_counts b) k = counter_get (ra_exit_counts a) k
         + count_list (map (\<lambda>p. str_or_unknown (jget p ''exit_reason'')) ps) k"
proof (induction ps arbitrary: a)
  case Nil
  then show ?case by (simp add: count_if_def)
next
  case (Cons p ps)
  then obtain m where st: "report_step p a = Inr m" and l: "report_loop ps m = Inr b"
    by (auto simp: bindE_eq_Inr)
  from report_step_counts [OF st, of k] Cons.IH [OF l] show ?case
    by (simp add: count_if_Cons [of _ p ps])
qed

lemma build_paper_report_Inr:
  assumes "build_paper_report en mode ps = Inr r"
  shows "jget r ''journal_outcomes'' = JInt (int (length ps))
     \<and> jget r ''entry_attempt_outcomes'' = JInt (int (count_if is_filled ps + count_if is_no_fill ps))
     \<and> jget r ''no_fill_outcomes'' = JInt (int (count_if is_no_fill ps))
     \<and> jget r ''filled_paper_trade_outcomes'' = JInt (int (count_if is_filled ps))
     \<and> jget r ''rejections'' = JInt (int (count_if is_rejected ps))"
proof -
  from assms obtain a where a: "report_loop ps empty_report_acc = Inr a"
    and r: "jget r ''journal_outcomes'' = JInt (int (length ps))
      \<and> jget r ''entry_attempt_outcomes'' = JInt (int (ra_entry_attempts a))
      \<and> jget r ''no_fill_outcomes'' = JInt (int (ra_no_fills a))
      \<and> jget r ''filled_paper_trade_outcomes'' = JInt (int (ra_filled_trades a))
      \<and> jget r ''rejections'' = JInt (int (ra_rejections a))"
    by (auto simp: build_paper_report_def bindE_eq_Inr)
  from report_loop_counts [OF a] r show ?thesis by (simp add: empty_report_acc_def)
qed

text \<open>What the report reads of a journal payload is what the outcome holds.\<close>

lemma journal_payload_fields:
  assumes "journal_payload sg o' = Inr p" and "q = p \<or> (\<exists>d. q = jset p ''model_decision'' d)"
  shows "jget q ''entry_order_status'' = JStr (po_entry_order_status o')
     \<and> jget q ''rejection_reason'' = jopt JStr (po_rejection_reason o')
     \<and> jget q ''exit_reason'' = JStr (reason_value (po_exit_reason o'))"
proof -
  from assms(1) obtain x where x: "outcome_payload o' = Inr x"
    and p: "p = jset (jset x ''signal_time'' (JStr (isoformat (sig_time sg))))
              ''strategy_version'' (JStr (sig_strategy_version sg))"
    by (auto simp: journal_payload_def bindE_eq_Inr)
  from x have "jget x ''entry_order_status'' = JStr (po_entry_order_status o')
     \<and> jget x ''rejection_reason'' = jopt JStr (po_rejection_reason o')
     \<and> jget x ''exit_reason'' = JStr (reason_value (po_exit_reason o'))"
    by (auto simp: outcome_payload_def bindE_eq_Inr)
  with assms(2) p show ?thesis by (auto simp: jget_jset)
qed

lemma count_if_all2: "list_all2 (\<lambda>x y. P x \<longleftrightarrow> Q y) xs ys \<Longrightarrow> count_if P xs = count_if Q ys"
  by (induction rule: list_all2_induct) (auto simp: count_if_def)

lemma count_if_rev: "count_if P (rev xs) = count_if P xs"
  by (simp add: count_if_def rev_filter [symmetric])

lemma count_if_map: "count_if P (map f xs) = count_if (\<lambda>x. P (f x)) xs"
  by (simp add: count_if_def filter_map comp_def)

lemma report_counts_of_journal:
  assumes js: "list_all2 (\<lambda>(sg, o') p. journal_payload sg o' = Inr p) (zip sigs outs) ps"
    and sh: "list_all2 outcome_shape sigs outs"
    and qs: "list_all2 (\<lambda>p q. q = p \<or> (\<exists>d. q = jset p ''model_decision'' d)) (rev ps) qs"
  shows "length qs = length outs \<and> count_if is_filled qs = count_if po_trade_created outs
     \<and> count_if is_no_fill qs = count_if (\<lambda>o'. po_exit_reason o' = NO_FILL) outs
     \<and> count_if is_filled qs + count_if is_no_fill qs = count_if has_entry_attempt outs
     \<and> count_if is_rejected qs
         = count_if (\<lambda>o'. case po_rejection_reason o' of None \<Rightarrow> False | Some r \<Rightarrow> r \<noteq> []) outs"
proof -
  have len: "length outs = length sigs" "length ps = length (zip sigs outs)"
    using js sh by (auto dest: list_all2_lengthD)
  have "list_all2 (\<lambda>(sg, o') q. outcome_shape sg o' \<and>
      jget q ''entry_order_status'' = JStr (po_entry_order_status o')
      \<and> jget q ''rejection_reason'' = jopt JStr (po_rejection_reason o')) (rev (zip sigs outs)) qs"
  proof (rule list_all2_all_nthI)
    show "length (rev (zip sigs outs)) = length qs"
      using qs len by (auto dest: list_all2_lengthD)
    fix i assume i: "i < length (rev (zip sigs outs))"
    let ?e = "rev (zip sigs outs) ! i"
    have "list_all2 (\<lambda>(sg, o') p. journal_payload sg o' = Inr p) (rev (zip sigs outs)) (rev ps)"
      using js by simp
    then have "(\<lambda>(sg, o') p. journal_payload sg o' = Inr p) ?e (rev ps ! i)"
      using i by (rule list_all2_nthD)
    moreover have "qs ! i = rev ps ! i \<or> (\<exists>d. qs ! i = jset (rev ps ! i) ''model_decision'' d)"
      using list_all2_nthD [OF qs, of i] i len by simp
    moreover have "?e \<in> set (zip sigs outs)" using i by (metis nth_mem set_rev)
    then have "outcome_shape (fst ?e) (snd ?e)" using sh by (auto simp: list_all2_iff)
    ultimately show "(\<lambda>(sg, o') q. outcome_shape sg o' \<and>
      jget q ''entry_order_status'' = JStr (po_entry_order_status o')
      \<and> jget q ''rejection_reason'' = jopt JStr (po_rejection_reason o')) ?e (qs ! i)"
      using journal_payload_fields by (cases ?e) auto
  qed
  then have rel: "list_all2 (\<lambda>e q. P (snd e) \<longleftrightarrow> Q q) (rev (zip sigs outs)) qs"
    if "\<And>sg o' q. outcome_shape sg o' \<Longrightarrow> jget q ''entry_order_status'' = JStr (po_entry_order_status o')
        \<Longrightarrow> jget q ''rejection_reason'' = jopt JStr (po_rejection_reason o') \<Longrightarrow> P o' \<longleftrightarrow> Q q" for P Q
    by (rule list_all2_mono) (use that in auto)
  have cnt: "count_if P outs = count_if Q qs"
    if "\<And>sg o' q. outcome_shape sg o' \<Longrightarrow> jget q ''entry_order_status'' = JStr (po_entry_order_status o')
        \<Longrightarrow> jget q ''rejection_reason'' = jopt JStr (po_rejection_reason o') \<Longrightarrow> P o' \<longleftrightarrow> Q q" for P Q
  proof -
    have "count_if Q qs = count_if (\<lambda>e. P (snd e)) (rev (zip sigs outs))"
      using count_if_all2 [OF rel [of P Q, OF that]] by simp
    also have "\<dots> = count_if P (map snd (zip sigs outs))" by (simp add: count_if_rev count_if_map)
    finally show ?thesis using len by simp
  qed
  have filled: "count_if po_trade_created outs = count_if is_filled qs"
    by (rule cnt) (auto simp: outcome_shape_def is_filled_def)
  moreover have no_fill: "count_if (\<lambda>o'. po_exit_reason o' = NO_FILL) outs = count_if is_no_fill qs"
    by (rule cnt) (auto simp: outcome_shape_def is_no_fill_def)
  moreover have "count_if (\<lambda>o'. case po_rejection_reason o' of None \<Rightarrow> False | Some r \<Rightarrow> r \<noteq> []) outs
      = count_if is_rejected qs"
    by (rule cnt) (auto simp: is_rejected_def jopt_def split: option.splits)
  moreover have "count_if has_entry_attempt outs = count_if (\<lambda>q. is_filled q \<or> is_no_fill q) qs"
    by (rule cnt) (auto simp: has_entry_attempt_def is_filled_def is_no_fill_def)
  moreover have "count_if (\<lambda>q. is_filled q \<or> is_no_fill q) qs = count_if is_filled qs + count_if is_no_fill qs"
    using filled_not_no_fill
    by (induction qs) (auto simp: count_if_def is_filled_def is_no_fill_def)
  moreover have "length qs = length outs"
    using qs len by (auto dest: list_all2_lengthD)
  ultimately show ?thesis by simp
qed

subsection \<open>Properties\<close>

text \<open>only the enabled PAPER mode reaches the repository: in every other configuration a replay
  raises, LIVE with its own error even when the engine is disabled, and changes nothing.\<close>

theorem only_paper_mode_replays:
  assumes "\<not> (pc_enabled c \<and> pc_mode c = PAPER)"
  shows "\<exists>e. run_replay sql_repository c sy st en n d = (Inl e, d)
     \<and> (pc_mode c = LIVE \<longleftrightarrow>
          e = LiveModeNotImplementedError ''LIVE paper mode is disabled and not implemented.'')"
  using assms
  by (cases "pc_mode c") (auto simp: run_replay_def ensure_replay_allowed_def bindS_def)

lemma created_ids:
  "list_all2 outcome_shape sigs outs \<Longrightarrow>
     map sig_id (map fst (filter (\<lambda>e. po_trade_created (snd e)) (zip sigs outs)))
     = map po_signal_id (filter po_trade_created outs)"
  by (induction rule: list_all2_induct) (auto simp: outcome_shape_def)

text \<open>C4: a replay gives every loaded candidate exactly one outcome, in order, and writes exactly one
  journal entry per outcome, its payload; the new simulated trades are those of the outcomes that
  report a trade, and no signal ever has two.\<close>

theorem one_outcome_per_signal:
  assumes "sql_inv d" and "run_replay sql_repository c sy st en n d = (Inr sm, d')"
  shows "\<exists>sigs ps. sql_load_candidate_signals sy st en (bounded 500 n) d = Inr sigs
     \<and> map po_signal_id (ps_outcomes sm) = map sig_id sigs
     \<and> sql_journal d' = sql_journal d @ ps
     \<and> list_all2 (\<lambda>(sg, o') p. journal_payload sg o' = Inr p) (zip sigs (ps_outcomes sm)) ps
     \<and> sql_trade_ids d' = sql_trade_ids d
         @ map po_signal_id (filter po_trade_created (ps_outcomes sm))
     \<and> distinct (sql_trade_ids d')"
proof (rule sql_store.run_replay_Inr [OF assms])
  fix sigs
  assume l: "load_candidate_signals sql_repository sy st en (bounded 500 n) d = Inr sigs"
    and m: "mapS (replay_signal sql_repository c en) sigs d = (Inr (ps_outcomes sm), d')"
  note S = sql_store.replay_steps [OF assms(1) m]
  then have sh: "list_all2 outcome_shape sigs (ps_outcomes sm)" by blast
  then have ids: "map po_signal_id (ps_outcomes sm) = map sig_id sigs"
    by (induction rule: list_all2_induct) (auto simp: outcome_shape_def)
  have new: "map sig_id (map fst (filter (\<lambda>e. po_trade_created (snd e)) (zip sigs (ps_outcomes sm))))
      = map po_signal_id (filter po_trade_created (ps_outcomes sm))"
    by (rule created_ids [OF sh])
  have dist: "distinct (sql_trade_ids d')" using S sql_store.distinct_trades by blast
  have load: "sql_load_candidate_signals sy st en (bounded 500 n) d = Inr sigs"
    using l by (simp add: sql_repository_def)
  from S obtain ps where "sql_journal d' = sql_journal d @ ps"
    "list_all2 (\<lambda>(sg, o') p. journal_payload sg o' = Inr p) (zip sigs (ps_outcomes sm)) ps" by blast
  moreover have "sql_trade_ids d' = sql_trade_ids d
         @ map po_signal_id (filter po_trade_created (ps_outcomes sm))"
    using S unfolding new by blast
  ultimately show ?thesis using load ids dist by blast
qed

text \<open>C5: the daily cap holds: whatever a replay does, also when it ends with an exception, no IST day
  gets more simulated trades than the configured maximum, unless it had them before.\<close>

theorem daily_cap_holds:
  assumes "sql_inv d" and "run_replay sql_repository c sy st en n d = (r, d')"
  shows "int (length (filter (\<lambda>i. sql_day_of d' i = Some day) (sql_trade_ids d')))
     \<le> max (int (length (filter (\<lambda>i. sql_day_of d i = Some day) (sql_trade_ids d))))
         (max_trades_per_day c)"
  using sql_store.run_replay_capped [OF assms]
  unfolding sql_store.capped_from_def sql_store.day_count_def by blast

text \<open>replaying is idempotent per signal: a signal that already has a simulated trade gets a
  duplicate rejection and never a second trade.\<close>

theorem traded_signal_is_duplicate:
  assumes "sql_inv d" and "run_replay sql_repository c sy st en n d = (Inr sm, d')"
    and "o' \<in> set (ps_outcomes sm)" and "po_signal_id o' \<in> set (sql_trade_ids d)"
  shows "po_exit_reason o' = DUPLICATE_SIGNAL \<and> \<not> po_trade_created o'"
proof (rule sql_store.run_replay_Inr [OF assms(1,2)])
  fix sigs
  assume m: "mapS (replay_signal sql_repository c en) sigs d = (Inr (ps_outcomes sm), d')"
  note S = sql_store.replay_steps [OF assms(1) m]
  then have sh: "list_all2 outcome_shape sigs (ps_outcomes sm)" by blast
  from assms(3) obtain k where k: "k < length (ps_outcomes sm)" "o' = ps_outcomes sm ! k"
    by (auto simp: in_set_conv_nth)
  with S have e: "(sigs ! k, o') \<in> set (zip sigs (ps_outcomes sm))"
    by (auto simp: in_set_zip)
  have "outcome_shape (sigs ! k) o'" using sh k list_all2_nthD2 by fastforce
  then have "po_exit_reason o' = DUPLICATE_SIGNAL"
    using S e assms(4) by (auto simp: outcome_shape_def)
  moreover have "\<not> po_trade_created o'"
  proof
    assume "po_trade_created o'"
    with assms(3) have "po_signal_id o' \<in> set (map po_signal_id (filter po_trade_created (ps_outcomes sm)))"
      by auto
    moreover have "sql_trade_ids d' = sql_trade_ids d
         @ map po_signal_id (filter po_trade_created (ps_outcomes sm))"
      using S unfolding created_ids [OF sh] by blast
    moreover have "distinct (sql_trade_ids d')" using S sql_store.distinct_trades by blast
    ultimately show False using assms(4) by auto
  qed
  ultimately show ?thesis by blast
qed

text \<open>the report of a fresh journal agrees with the replay that wrote it: as long as the listing
  limit covers all outcomes, its counts of entry attempts, missed entries, filled trades and
  rejections are those of the replay summary.\<close>

theorem report_matches_replay:
  assumes "sql_inv d" and "sql_journal d = []"
    and "run_replay sql_repository c sy st en n d = (Inr sm, d')"
    and "paper_report sql_repository c rows d' = Inr rep"
    and "int (length (ps_outcomes sm)) \<le> rows" and "rows \<le> 10000"
  shows "jget rep ''journal_outcomes'' = JInt (int (length (ps_outcomes sm)))
     \<and> jget rep ''entry_attempt_outcomes'' = JInt (int (ps_entry_attempts sm))
     \<and> jget rep ''no_fill_outcomes'' = JInt (int (ps_no_fill_outcomes sm))
     \<and> jget rep ''filled_paper_trade_outcomes'' = JInt (int (ps_trades_created sm))
     \<and> jget rep ''rejections'' = JInt (int (ps_rejections sm))"
proof (rule sql_store.run_replay_Inr [OF assms(1,3)])
  fix sigs
  assume m: "mapS (replay_signal sql_repository c en) sigs d = (Inr (ps_outcomes sm), d')"
  let ?outs = "ps_outcomes sm"
  let ?qs = "list_journal_outcomes sql_repository (bounded 10000 rows) d'"
  note S = sql_store.replay_steps [OF assms(1) m]
  then obtain ps where ps: "sql_journal d' = ps"
    "list_all2 (\<lambda>(sg, o') p. journal_payload sg o' = Inr p) (zip sigs ?outs) ps"
    using assms(2) by auto
  have len: "length ps = length ?outs" using ps S by (auto dest: list_all2_lengthD)
  have "1 \<le> bounded 10000 rows" "int (length ps) \<le> bounded 10000 rows"
    using assms(5,6) len by (auto simp: bounded_def)
  then have "take (nat (bounded 10000 rows)) (rev ps) = rev ps" by simp
  moreover have "sql_inv d'" using S by blast
  ultimately have qs: "list_all2 (\<lambda>p q. q = p \<or> (\<exists>x. q = jset p ''model_decision'' x)) (rev ps) ?qs"
    using sql_store.listed [of d' "bounded 10000 rows"] ps(1) \<open>1 \<le> bounded 10000 rows\<close> by simp
  have "list_all2 outcome_shape sigs ?outs" using S by blast
  note R = report_counts_of_journal [OF ps(2) this qs]
  have "build_paper_report (pc_enabled c) (pc_mode c) ?qs = Inr rep"
    using assms(4) by (simp add: paper_report_def)
  from build_paper_report_Inr [OF this] R show ?thesis
    by (simp add: ps_entry_attempts_def ps_no_fill_outcomes_def ps_trades_created_def ps_rejections_def)
qed

end
