(* ===== verification/PaperExamples.thy ===== *)
theory PaperExamples
  imports PaperService
begin

section \<open>A concrete paper replay\<close>

text \<open>
  A database with one instrument, one candidate signal and the three candles of the simulator's
  example. The replay fills and stops out the trade; on it the properties of the service are applied.
\<close>

definition demo_instrument :: instrument_row where
  "demo_instrument =
     \<lparr>ir_id = 1, ir_kite_instrument_token = ''77'', ir_exchange = ''NSE'', ir_tradingsymbol = ''SBIN'',
      ir_name = JNull, ir_instrument_type = ''EQ'', ir_tick_size = 1, ir_lot_size = 1,
      ir_is_active = True, ir_updated_at = 0\<rparr>"

definition demo_signal_row :: signal_row where
  "demo_signal_row =
     \<lparr>gr_id = 1, gr_instrument_id = 1, gr_strategy_name = orb_name,
      gr_strategy_version = strategy_version_const, gr_signal_key = ''k'',
      gr_signal_status = candidate_status, gr_signal_time = ist_combine 20607 (hhmm 10 0),
      gr_direction = long_direction, gr_veto_reasons = [], gr_replay_run_id = None,
      gr_features = [(''signal_status'', JStr candidate_status), (''veto_reasons'', JList []),
        (''indicator_values'', JObj []), (''data_quality'', JObj [])], gr_created_at = 0\<rparr>"

definition demo_candle_row :: "int \<Rightarrow> int \<Rightarrow> int \<Rightarrow> candle_row" where
  "demo_candle_row m lo hi =
     \<lparr>cr_id = m + 1, cr_instrument_id = 1, cr_timeframe = ''1minute'',
      cr_started_at = ist_combine 20607 (hhmm 10 m), cr_open_price = 100, cr_high_price = of_int hi,
      cr_low_price = of_int lo, cr_close_price = 100, cr_volume = 10, cr_source = ''KITE_WEBSOCKET''\<rparr>"

definition demo_database :: database where
  "demo_database =
     \<lparr>db_now = 0, db_broker_sessions = [], db_instruments = [demo_instrument],
      db_candles = [demo_candle_row 0 100 100, demo_candle_row 1 99 101, demo_candle_row 2 80 130],
      db_signals = [demo_signal_row], db_recommendations = [], db_orders = [], db_order_events = [],
      db_trades = [], db_journal_entries = [], db_model_runs = [],
      db_universe_runs = []\<rparr>"

lemma demo_key: "instrument_key demo_instrument = ''NSE:SBIN''"
  by (simp add: instrument_key_def demo_instrument_def)

lemma demo_load_signals:
  "sql_load_candidate_signals None None None n demo_database = Inr (slice_first n [demo_signal])"
  by (simp add: sql_load_candidate_signals_def demo_database_def join_instrument_def demo_signal_row_def
      demo_instrument_def opt_ok_def in_range_def paper_signal_from_row_def demo_signal_def
      instrument_key_def)

lemma demo_load_candles:
  "sql_load_candles ''NSE:SBIN'' (sig_time demo_signal) (default_replay_end (sig_time demo_signal))
     paper_candle_limit demo_database = Inr demo_paper_bars"
proof -
  have k: "split_symbol ''NSE:SBIN'' = Inr (''NSE'', ''SBIN'')" by code_simp
  have j: "candle_query demo_database ''NSE'' ''SBIN'' paper_timeframe = demo_paper_bars"
    by (simp add: candle_query_def demo_database_def join_instrument_def demo_candle_row_def
        demo_instrument_def completed_bar_from_row_def instrument_key_def paper_timeframe_def
        demo_paper_bars_def demo_paper_bar_def)
  have t: "sig_time demo_signal \<le> started_at c \<and> started_at c \<le> default_replay_end (sig_time demo_signal)"
    if "c \<in> set demo_paper_bars" for c
    using that by (auto simp: demo_paper_bars_def demo_paper_bar_def demo_signal_def default_replay_end_def
        ist_combine_def hhmm_def time_units ist_date_def)
  have f: "filter (\<lambda>c. sig_time demo_signal \<le> started_at c \<and> started_at c
      \<le> default_replay_end (sig_time demo_signal)) demo_paper_bars = demo_paper_bars"
    by (rule filter_True) (use t in blast)
  have s: "sort_key started_at demo_paper_bars = demo_paper_bars"
    by (rule sort_key_id_if_sorted)
      (simp add: demo_paper_bars_def demo_paper_bar_def ist_combine_def hhmm_def minute_us_def)
  have "slice_first paper_candle_limit demo_paper_bars = demo_paper_bars"
    by (simp add: slice_first_def paper_candle_limit_def demo_paper_bars_def)
  then show ?thesis unfolding sql_load_candles_def k bindE_Inr prod.case j f s by simp
qed

lemma demo_payload: "\<exists>p. outcome_payload demo_outcome = Inr p"
proof -
  have m: "\<exists>q. money v = Inr q" if "v \<in> {100, 90, 120, -20, 1, -21}" for v
  proof -
    have "\<bar>round_half_even (v * 10 ^ 6)\<bar> < 10 ^ 28"
      using that round_half_even_of_int [of 100000000] round_half_even_of_int [of 90000000]
        round_half_even_of_int [of 120000000] round_half_even_of_int [of "-20000000"]
        round_half_even_of_int [of 1000000] round_half_even_of_int [of "-21000000"] by auto
    then show ?thesis by (simp add: money_def quantize_even_def Let_def)
  qed
  have pnl: "dsub 90 100 = -10" "dmul (-10) 2 = -20" "dsub (-20) 1 = -21"
    using dfix_of_int [of "-10"] dfix_of_int [of "-20"] dfix_of_int [of "-21"]
    by (simp_all add: dsub_def dmul_def)
  obtain a where a: "money 100 = Inr a" using m [of 100] by auto
  obtain b where b: "money 90 = Inr b" using m [of 90] by auto
  obtain c where c: "money 120 = Inr c" using m [of 120] by auto
  obtain d where d: "money (-20) = Inr d" using m [of "-20"] by auto
  obtain e where e: "money 1 = Inr e" using m [of 1] by auto
  obtain f where f: "money (-21) = Inr f" using m [of "-21"] by auto
  show ?thesis
    by (simp add: outcome_payload_def demo_outcome_def completed_trade_outcome_def maybe_money_def
        demo_instruction_def pnl a b c d e f Let_def)
qed

lemma demo_event_ok: "\<exists>p. event_payload demo_outcome ty = Inr p" "\<exists>p. journal_payload sg demo_outcome = Inr p"
  using demo_payload by (auto simp: event_payload_def journal_payload_def)

lemma demo_writes: "\<exists>d'. sql_paper_writes demo_signal demo_outcome demo_database = (Inr (), d')"
proof -
  obtain p q r j where p: "event_payload demo_outcome paper_entry_submitted = Inr p"
    "event_payload demo_outcome paper_entry_filled = Inr q"
    "event_payload demo_outcome paper_exit_filled = Inr r"
    "journal_payload demo_signal demo_outcome = Inr j"
    using demo_event_ok by meson
  have o: "po_entry_order_status demo_outcome = paper_entry_filled" "has_entry_attempt demo_outcome"
    "po_trade_created demo_outcome" "po_exit_price demo_outcome = Some 90" "po_quantity demo_outcome = 2"
    by (simp_all add: demo_outcome_def)
      (simp add: completed_trade_outcome_def demo_instruction_def Let_def)
  have sg: "sig_id demo_signal = 1" "sig_instrument_id demo_signal = 1" by (simp_all add: demo_signal_def)
  have known: "has_signal demo_database 1" "has_instrument demo_database 1"
    by (simp_all add: has_signal_def has_instrument_def demo_database_def demo_signal_row_def demo_instrument_def)
  show ?thesis
    using known
    by (simp add: sql_paper_writes_def o sql_insert_entry_order_def bindS_def insert_order_def sql_order_row_def
        sql_insert_event_def p insert_order_event_def sql_insert_exit_order_def sql_insert_trade_def
        insert_trade_def sql_insert_journal_def insert_journal_entry_def opt_ok_def sg Let_def
        has_signal_def has_instrument_def demo_database_def next_id_def)
qed

subsection \<open>The replay\<close>

lemma demo_inv: "sql_inv demo_database"
  by (simp add: sql_inv_def demo_database_def sql_trade_ids_def map_filter_def)

lemma demo_no_trades: "\<not> sql_paper_trade_exists i demo_database"
  by (simp add: sql_paper_trade_exists_def demo_database_def)

lemma demo_day_count: "sql_count_paper_trades_for_day t demo_database = 0"
  using sql_count_eq [OF demo_inv] by (simp add: sql_trade_ids_def demo_database_def map_filter_def)

lemma demo_recorded:
  "\<exists>d'. recorded sql_repository demo_signal demo_outcome demo_database = (Inr demo_outcome, d')"
proof -
  obtain d' where "sql_paper_writes demo_signal demo_outcome demo_database = (Inr (), d')"
    using demo_writes by blast
  then have "sql_record_paper_outcome demo_signal demo_outcome demo_database = (Inr (), d')"
    by (simp add: sql_record_ok)
  then show ?thesis by (simp add: recorded_def sql_repository_def bindS_def)
qed

lemma demo_replay_signal:
  "\<exists>d'. replay_signal sql_repository demo_paper_config None demo_signal demo_database
     = (Inr demo_outcome, d')"
proof -
  obtain d' where r: "recorded sql_repository demo_signal demo_outcome demo_database = (Inr demo_outcome, d')"
    using demo_recorded by blast
  have sy: "sig_symbol demo_signal = ''NSE:SBIN''" by (simp add: demo_signal_def)
  have "simulate_signal sql_repository demo_paper_config None demo_signal demo_database
      = (Inr demo_outcome, d')"
    using r by (simp add: simulate_signal_def bindS_def tryS_def sy demo_load_candles
        demo_build_instruction demo_simulated sql_repository_def)
  moreover have "duplicate_outcome_if_exists sql_repository demo_paper_config demo_signal demo_database
      = (Inr None, demo_database)"
    by (simp add: duplicate_outcome_if_exists_def bindS_def sql_repository_def demo_no_trades)
  moreover have "daily_cap_outcome_if_reached sql_repository demo_paper_config demo_signal demo_database
      = (Inr None, demo_database)"
    by (simp add: daily_cap_outcome_if_reached_def bindS_def sql_repository_def demo_day_count
        demo_paper_config_def)
  ultimately show ?thesis by (simp add: replay_signal_def bindS_def)
qed

lemma demo_run:
  "\<exists>d'. run_replay sql_repository demo_paper_config None None None 10 demo_database
     = (Inr \<lparr>ps_paper_enabled = True, ps_paper_mode = PAPER, ps_signals_loaded = 1,
            ps_outcomes = [demo_outcome]\<rparr>, d')"
proof -
  obtain d' where r: "replay_signal sql_repository demo_paper_config None demo_signal demo_database
     = (Inr demo_outcome, d')" using demo_replay_signal by blast
  have e: "ensure_replay_allowed demo_paper_config = Inr ()" "pc_enabled demo_paper_config"
    "pc_mode demo_paper_config = PAPER"
    by (simp_all add: ensure_replay_allowed_def demo_paper_config_def)
  have "load_candidate_signals sql_repository None None None 10 demo_database = Inr [demo_signal]"
    using demo_load_signals [of 10] by (simp add: sql_repository_def slice_first_def)
  then show ?thesis
    using r by (simp add: run_replay_def bindS_def e bounded_def)
qed

subsection \<open>Witnesses\<close>

lemma only_paper_mode_replays_witness:
  "run_replay sql_repository (demo_paper_config\<lparr>pc_mode := LIVE\<rparr>) None None None 10 demo_database
   = (Inl (LiveModeNotImplementedError ''LIVE paper mode is disabled and not implemented.''), demo_database)"
  using only_paper_mode_replays [of "demo_paper_config\<lparr>pc_mode := LIVE\<rparr>" None None None 10 demo_database]
  by auto

lemma one_outcome_per_signal_witness:
  "\<exists>sm d'. run_replay sql_repository demo_paper_config None None None 10 demo_database = (Inr sm, d')
     \<and> sql_trade_ids d' = [1] \<and> length (sql_journal d') = 1"
proof -
  obtain d' where r: "run_replay sql_repository demo_paper_config None None None 10 demo_database
     = (Inr \<lparr>ps_paper_enabled = True, ps_paper_mode = PAPER, ps_signals_loaded = 1,
            ps_outcomes = [demo_outcome]\<rparr>, d')" using demo_run by blast
  have "po_trade_created demo_outcome" "po_signal_id demo_outcome = 1"
    by (simp_all add: demo_outcome_def demo_instruction_def)
  moreover have "sql_trade_ids demo_database = []" "sql_journal demo_database = []"
    by (simp_all add: sql_trade_ids_def sql_journal_def demo_database_def map_filter_def)
  ultimately have "sql_trade_ids d' = [1] \<and> length (sql_journal d') = 1"
    using one_outcome_per_signal [OF demo_inv r] demo_load_signals [of "bounded 500 10"]
    by (auto simp: bounded_def slice_first_def dest!: list_all2_lengthD)
  with r show ?thesis by blast
qed

lemma daily_cap_holds_witness:
  "\<exists>r d'. run_replay sql_repository demo_paper_config None None None 10 demo_database = (r, d')
     \<and> int (length (filter (\<lambda>i. sql_day_of d' i = Some 20607) (sql_trade_ids d'))) \<le> 3"
proof -
  obtain r d' where r: "run_replay sql_repository demo_paper_config None None None 10 demo_database = (r, d')"
    by (metis surj_pair)
  have "sql_trade_ids demo_database = []" "max_trades_per_day demo_paper_config = 3"
    by (simp_all add: sql_trade_ids_def demo_database_def map_filter_def demo_paper_config_def)
  with daily_cap_holds [OF demo_inv r, of 20607] r show ?thesis by auto
qed

subsection \<open>A traded signal, and a signal without candles\<close>

lemma money_0: "money 0 = Inr (JDec 0)"
  using round_half_even_of_int [of 0] by (simp add: money_def quantize_even_def)

lemma rejected_payload: "\<exists>p. journal_payload sg (rejected_outcome sg c r why) = Inr p"
  by (simp add: journal_payload_def outcome_payload_def rejected_outcome_def maybe_money_def money_0)

text \<open>Writing a rejection only needs the journal, and always succeeds.\<close>

lemma rejected_recorded:
  "\<exists>d'. recorded sql_repository sg (rejected_outcome sg c r why) d
     = (Inr (rejected_outcome sg c r why), d')"
proof -
  obtain p where p: "journal_payload sg (rejected_outcome sg c r why) = Inr p"
    using rejected_payload by blast
  have "\<exists>d'. sql_paper_writes sg (rejected_outcome sg c r why) d = (Inr (), d')"
    by (simp add: sql_paper_writes_def bindS_def sql_insert_journal_def p insert_journal_entry_def)
  then obtain d' where "sql_record_paper_outcome sg (rejected_outcome sg c r why) d = (Inr (), d')"
    by (auto simp: sql_record_ok)
  then show ?thesis by (simp add: recorded_def sql_repository_def bindS_def)
qed

definition demo_trade_row :: trade_row where
  "demo_trade_row =
     \<lparr>tr_id = 1, tr_signal_id = Some 1, tr_simulated = True, tr_entry_order_id = None,
      tr_exit_order_id = None, tr_instrument_id = 1, tr_quantity = 2, tr_entry_price = None,
      tr_exit_price = None, tr_realized_pnl = None, tr_gross_pnl = None, tr_estimated_costs = None,
      tr_net_pnl = None, tr_exit_reason = None, tr_paper_mode = None, tr_opened_at = None,
      tr_closed_at = None, tr_status = paper_trade_closed\<rparr>"

definition demo_traded :: database where
  "demo_traded = demo_database\<lparr>db_trades := [demo_trade_row]\<rparr>"

lemma demo_traded_ids: "sql_trade_ids demo_traded = [1]"
  by (simp add: sql_trade_ids_def demo_traded_def demo_trade_row_def map_filter_def)

lemma demo_traded_inv: "sql_inv demo_traded"
  by (simp add: sql_inv_def demo_traded_ids) (simp add: demo_traded_def demo_database_def)

lemma traded_signal_is_duplicate_witness:
  "\<exists>sm d'. run_replay sql_repository demo_paper_config None None None 10 demo_traded = (Inr sm, d')
     \<and> map po_exit_reason (ps_outcomes sm) = [DUPLICATE_SIGNAL]"
proof -
  let ?o = "rejected_outcome demo_signal demo_paper_config DUPLICATE_SIGNAL ''duplicate_signal''"
  obtain d' where r: "recorded sql_repository demo_signal ?o demo_traded = (Inr ?o, d')"
    using rejected_recorded by blast
  have "sig_id demo_signal = 1" by (simp add: demo_signal_def)
  then have "paper_trade_exists sql_repository (sig_id demo_signal) demo_traded"
    by (simp add: sql_repository_def sql_exists_iff demo_traded_ids)
  then have s: "replay_signal sql_repository demo_paper_config None demo_signal demo_traded = (Inr ?o, d')"
    using r by (simp add: replay_signal_def duplicate_outcome_if_exists_def duplicate_outcome_def bindS_def)
  have e: "ensure_replay_allowed demo_paper_config = Inr ()" "pc_enabled demo_paper_config"
    "pc_mode demo_paper_config = PAPER"
    by (simp_all add: ensure_replay_allowed_def demo_paper_config_def)
  have "sql_load_candidate_signals None None None n demo_traded
      = sql_load_candidate_signals None None None n demo_database" for n
    by (simp add: sql_load_candidate_signals_def demo_traded_def join_instrument_def)
  then have "load_candidate_signals sql_repository None None None 10 demo_traded = Inr [demo_signal]"
    using demo_load_signals [of 10] by (simp add: sql_repository_def slice_first_def)
  with s have run: "run_replay sql_repository demo_paper_config None None None 10 demo_traded
     = (Inr \<lparr>ps_paper_enabled = True, ps_paper_mode = PAPER, ps_signals_loaded = 1,
            ps_outcomes = [?o]\<rparr>, d')"
    by (simp add: run_replay_def bindS_def e bounded_def)
  have "po_signal_id ?o \<in> set (sql_trade_ids demo_traded)"
    by (simp add: demo_traded_ids demo_signal_def)
  with traded_signal_is_duplicate [OF demo_traded_inv run, of ?o] run show ?thesis by simp
qed

definition demo_empty :: database where
  "demo_empty = demo_database\<lparr>db_candles := []\<rparr>"

lemma demo_empty_inv: "sql_inv demo_empty"
  by (simp add: sql_inv_def demo_empty_def demo_database_def sql_trade_ids_def map_filter_def)

lemma demo_empty_run:
  "\<exists>d' p. run_replay sql_repository demo_paper_config None None None 10 demo_empty
     = (Inr \<lparr>ps_paper_enabled = True, ps_paper_mode = PAPER, ps_signals_loaded = 1,
            ps_outcomes = [invalid_context demo_signal demo_paper_config ''signal_candle_unavailable'']\<rparr>, d')
     \<and> journal_payload demo_signal
         (invalid_context demo_signal demo_paper_config ''signal_candle_unavailable'') = Inr p
     \<and> list_journal_outcomes sql_repository 100 d' = [jset p ''model_decision'' JNull]"
proof -
  let ?o = "invalid_context demo_signal demo_paper_config ''signal_candle_unavailable''"
  obtain p where p: "journal_payload demo_signal ?o = Inr p"
    using rejected_payload unfolding invalid_context_def by blast
  define j where "j = \<lparr>jr_id = 1, jr_entry_type = paper_rejection_entry_type,
      jr_subject_type = Some ''signal'', jr_subject_id = Some 1,
      jr_message = ''Paper outcome INVALID_SIGNAL_CONTEXT for NSE:SBIN k'', jr_payload = p,
      jr_created_at = 0\<rparr>"
  have no: "\<not> has_entry_attempt ?o" "\<not> po_trade_created ?o" "po_exit_reason ?o = INVALID_SIGNAL_CONTEXT"
    by (simp_all add: invalid_context_def)
  have sg: "sig_id demo_signal = 1" "sig_symbol demo_signal = ''NSE:SBIN''" "sig_key demo_signal = ''k''"
    by (simp_all add: demo_signal_def)
  have "sql_paper_writes demo_signal ?o demo_empty
      = (Inr (), demo_empty\<lparr>db_journal_entries := [j]\<rparr>)"
    by (simp add: sql_paper_writes_def bindS_def no sql_insert_journal_def p insert_journal_entry_def
        j_def demo_empty_def demo_database_def next_id_def sg)
  then have "sql_record_paper_outcome demo_signal ?o demo_empty
      = (Inr (), demo_empty\<lparr>db_journal_entries := [j]\<rparr>)"
    by (simp only: sql_record_ok)
  then have rec: "recorded sql_repository demo_signal ?o demo_empty
      = (Inr ?o, demo_empty\<lparr>db_journal_entries := [j]\<rparr>)"
    by (simp add: recorded_def sql_repository_def bindS_def)
  have k: "split_symbol ''NSE:SBIN'' = Inr (''NSE'', ''SBIN'')" by code_simp
  have "sql_load_candles ''NSE:SBIN'' a b n demo_empty = Inr []" for a b n
    by (simp add: sql_load_candles_def k candle_query_def demo_empty_def join_instrument_def slice_first_def)
  moreover have v: "validate_signal demo_signal demo_paper_config = None"
    by (simp add: validate_signal_None demo_signal_def)
  then have "build_instruction demo_signal [] demo_paper_config = Inr (Inl ?o)"
    by (simp add: build_instruction_def find_signal_candle_def)
  moreover have "sig_symbol demo_signal = ''NSE:SBIN''" by (simp add: demo_signal_def)
  ultimately have "simulate_signal sql_repository demo_paper_config None demo_signal demo_empty
      = (Inr ?o, demo_empty\<lparr>db_journal_entries := [j]\<rparr>)"
    using rec by (simp add: simulate_signal_def bindS_def tryS_def sql_repository_def)
  moreover have "duplicate_outcome_if_exists sql_repository demo_paper_config demo_signal demo_empty
      = (Inr None, demo_empty)"
    by (simp add: duplicate_outcome_if_exists_def bindS_def sql_repository_def sql_exists_iff
        sql_trade_ids_def demo_empty_def demo_database_def map_filter_def)
  moreover have "daily_cap_outcome_if_reached sql_repository demo_paper_config demo_signal demo_empty
      = (Inr None, demo_empty)"
  proof -
    have "sql_trade_ids demo_empty = []"
      by (simp add: sql_trade_ids_def demo_empty_def demo_database_def map_filter_def)
    then have "sql_count_paper_trades_for_day t demo_empty = 0" for t
      by (simp add: sql_count_eq [OF demo_empty_inv])
    then show ?thesis
      by (simp add: daily_cap_outcome_if_reached_def bindS_def sql_repository_def demo_paper_config_def)
  qed
  ultimately have "replay_signal sql_repository demo_paper_config None demo_signal demo_empty
      = (Inr ?o, demo_empty\<lparr>db_journal_entries := [j]\<rparr>)"
    by (simp add: replay_signal_def bindS_def)
  moreover have e: "ensure_replay_allowed demo_paper_config = Inr ()" "pc_enabled demo_paper_config"
    "pc_mode demo_paper_config = PAPER"
    by (simp_all add: ensure_replay_allowed_def demo_paper_config_def)
  moreover have "load_candidate_signals sql_repository None None None 10 demo_empty = Inr [demo_signal]"
    using demo_load_signals [of 10]
    by (simp add: sql_repository_def slice_first_def sql_load_candidate_signals_def demo_empty_def
        join_instrument_def)
  ultimately have "run_replay sql_repository demo_paper_config None None None 10 demo_empty
     = (Inr \<lparr>ps_paper_enabled = True, ps_paper_mode = PAPER, ps_signals_loaded = 1,
            ps_outcomes = [?o]\<rparr>, demo_empty\<lparr>db_journal_entries := [j]\<rparr>)"
    by (simp add: run_replay_def bindS_def bounded_def)
  moreover have "jget p ''signal_id'' = JInt 1"
    using p by (auto simp: journal_payload_def outcome_payload_def bindE_eq_Inr jget_jset
        invalid_context_def rejected_outcome_def demo_signal_def)
  then have "list_journal_outcomes sql_repository 100 (demo_empty\<lparr>db_journal_entries := [j]\<rparr>)
      = [jset p ''model_decision'' JNull]"
    by (simp add: sql_repository_def sql_list_journal_outcomes_def j_def paper_entry_types_def
        slice_first_def with_decision_def sql_latest_decisions_def demo_empty_def demo_database_def
        map_filter_def jopt_def)
  ultimately show ?thesis using p by blast
qed

lemma report_matches_replay_witness:
  "\<exists>sm d' rep. run_replay sql_repository demo_paper_config None None None 10 demo_empty = (Inr sm, d')
     \<and> paper_report sql_repository demo_paper_config 100 d' = Inr rep
     \<and> jget rep ''rejections'' = JInt 1 \<and> jget rep ''filled_paper_trade_outcomes'' = JInt 0"
proof -
  let ?o = "invalid_context demo_signal demo_paper_config ''signal_candle_unavailable''"
  obtain d' p where r: "run_replay sql_repository demo_paper_config None None None 10 demo_empty
     = (Inr \<lparr>ps_paper_enabled = True, ps_paper_mode = PAPER, ps_signals_loaded = 1,
            ps_outcomes = [?o]\<rparr>, d')"
    and p: "journal_payload demo_signal ?o = Inr p"
    and l: "list_journal_outcomes sql_repository 100 d' = [jset p ''model_decision'' JNull]"
    using demo_empty_run by blast
  let ?q = "jset p ''model_decision'' JNull"
  have amounts: "jget ?q ''gross_pnl'' = JDec 0" "jget ?q ''estimated_costs'' = JDec 0"
    "jget ?q ''net_estimated_pnl'' = JDec 0"
    using p by (auto simp: journal_payload_def outcome_payload_def bindE_eq_Inr jget_jset
        invalid_context_def rejected_outcome_def money_0)
  have z: "dadd 0 0 = 0" by (simp add: dadd_def)
  have "\<exists>rep. build_paper_report True PAPER [?q] = Inr rep"
    by (simp add: build_paper_report_def report_step_def amounts empty_report_acc_def z money_0 Let_def)
  then obtain rep where rep: "paper_report sql_repository demo_paper_config 100 d' = Inr rep"
    using l by (auto simp: paper_report_def bounded_def demo_paper_config_def)
  have j: "sql_journal demo_empty = []" by (simp add: sql_journal_def demo_empty_def demo_database_def)
  have "jget rep ''rejections'' = JInt 1 \<and> jget rep ''filled_paper_trade_outcomes'' = JInt 0"
    using report_matches_replay [OF demo_empty_inv j r rep]
    by (simp add: ps_trades_created_def ps_rejections_def count_if_def invalid_context_def)
  with r rep show ?thesis by blast
qed

end
