(* ===== verification/Watchlist.thy ===== *)
theory Watchlist
  imports AppConfig PyStr
begin

section \<open>The configured watchlist\<close>

text \<open>
  \<^verbatim>\<open>app/market_data/watchlist.py\<close> and the functions of \<^verbatim>\<open>app/market_data/watchlist_validation.py\<close>
  that need no repository: the strict parser, which raises at the first bad entry, the loading of
  the configured text from the environment or from a file, and the diagnosis that never raises.
  Reading a file is a parameter: \<open>read_text path\<close> is \<open>None\<close> when the read raises. The facts say
  what the parser accepts, and when the diagnosis agrees with it.
\<close>

subsection \<open>The strict parser\<close>

record watchlist_symbol =
  ws_exchange :: string
  ws_tradingsymbol :: string

definition symbol_key :: "string \<Rightarrow> string \<Rightarrow> string" where
  "symbol_key exchange tradingsymbol = exchange @ '':'' @ tradingsymbol"

definition ws_key :: "watchlist_symbol \<Rightarrow> string" where
  "ws_key s = symbol_key (ws_exchange s) (ws_tradingsymbol s)"

definition mvp_exchange :: string where
  "mvp_exchange = ''NSE''"

text \<open>\<^verbatim>\<open>[entry.strip() for entry in raw.split(",") if entry.strip()]\<close>.\<close>

definition comma_entries :: "string \<Rightarrow> string list" where
  "comma_entries raw = filter (\<lambda>e. e \<noteq> []) (map strip (split_char CHR '','' raw))"

definition parse_entry :: "string \<Rightarrow> watchlist_symbol res" where
  "parse_entry entry =
     (case split_once CHR '':'' entry of
        [a, b] \<Rightarrow>
          let exchange = upper (strip a); tradingsymbol = upper (strip b)
          in if exchange = [] \<or> tradingsymbol = []
             then Inl (WatchlistError ''Watchlist entries must include exchange and trading symbol.'')
             else if exchange \<noteq> mvp_exchange
             then Inl (WatchlistError ''P04 market data is restricted to NSE instruments.'')
             else Inr \<lparr>ws_exchange = exchange, ws_tradingsymbol = tradingsymbol\<rparr>
      | _ \<Rightarrow> Inl (WatchlistError ''Watchlist entries must use EXCHANGE:TRADINGSYMBOL.''))"

fun parse_entries :: "string list \<Rightarrow> string list \<Rightarrow> watchlist_symbol list res" where
  "parse_entries seen [] = Inr []"
| "parse_entries seen (entry # entries) =
     bindE (parse_entry entry) (\<lambda>s.
       if ws_key s \<in> set seen
       then Inl (WatchlistError ''Duplicate watchlist symbol configured.'')
       else bindE (parse_entries (ws_key s # seen) entries) (\<lambda>symbols. Inr (s # symbols)))"

definition parse_watchlist :: "string \<Rightarrow> int \<Rightarrow> watchlist_symbol list res" where
  "parse_watchlist raw_watchlist max_instruments =
     (if max_instruments < 1
      then Inl (WatchlistError ''Market data max instruments must be at least 1.'')
      else
        let entries = comma_entries raw_watchlist
        in if entries = [] then Inl (WatchlistError ''Market data watchlist is empty.'')
           else if max_instruments < int (length entries)
           then Inl (WatchlistError ''Market data watchlist exceeds configured maximum.'')
           else parse_entries [] entries)"

subsection \<open>Loading the configured text\<close>

text \<open>\<^verbatim>\<open>str.splitlines\<close> on ASCII text: \<open>CR LF\<close> is one boundary.\<close>

definition line_break :: "char \<Rightarrow> bool" where
  "line_break c = (let n = (of_char c :: nat) in (10 \<le> n \<and> n \<le> 13) \<or> (28 \<le> n \<and> n \<le> 30))"

fun splitlines :: "string \<Rightarrow> string list" where
  "splitlines [] = []"
| "splitlines (c # cs) =
     (if (of_char c :: nat) = 13 \<and> cs \<noteq> [] \<and> (of_char (hd cs) :: nat) = 10 then splitlines cs
      else if line_break c then [] # splitlines cs
      else (case splitlines cs of [] \<Rightarrow> [[c]] | l # ls \<Rightarrow> (c # l) # ls))"

record watchlist_source =
  raw_watchlist :: string
  source_entries :: "string list"
  blank_entries :: "int list"
  source_name :: string
  source_warnings :: "string list"
  source_errors :: "string list"

text \<open>The positions, from 1, of the blank parts of the environment string.\<close>

definition blank_positions :: "string list \<Rightarrow> int list" where
  "blank_positions raw_entries =
     map fst (filter (\<lambda>(i, e). strip e = []) (zip [1..int (length raw_entries)] raw_entries))"

definition file_entries :: "string list \<Rightarrow> string list" where
  "file_entries lines =
     map strip (filter (\<lambda>l. strip l \<noteq> [] \<and> \<not> startswith (lstrip l) ''#'') lines)"

definition load_watchlist_source :: "(string \<Rightarrow> string option) \<Rightarrow> settings \<Rightarrow> watchlist_source" where
  "load_watchlist_source read_text s =
     (if market_data_watchlist_file s \<noteq> [] then
        let warnings = (if strip (market_data_watchlist s) \<noteq> []
                        then [''watchlist_file_overrides_environment_string''] else [])
        in (case read_text (market_data_watchlist_file s) of
              None \<Rightarrow>
                \<lparr>raw_watchlist = [], source_entries = [], blank_entries = [], source_name = ''file'',
                 source_warnings = warnings, source_errors = [''watchlist_file_unreadable'']\<rparr>
            | Some contents \<Rightarrow>
                let entries = file_entries (splitlines contents)
                in \<lparr>raw_watchlist = join '','' entries, source_entries = entries, blank_entries = [],
                    source_name = ''file'', source_warnings = warnings, source_errors = []\<rparr>)
      else
        let raw_entries = split_char CHR '','' (market_data_watchlist s)
        in \<lparr>raw_watchlist = market_data_watchlist s,
            source_entries = filter (\<lambda>e. e \<noteq> []) (map strip raw_entries),
            blank_entries = blank_positions raw_entries, source_name = ''environment'',
            source_warnings = [], source_errors = []\<rparr>)"

definition strict_configured_watchlist ::
  "(string \<Rightarrow> string option) \<Rightarrow> settings \<Rightarrow> watchlist_symbol list res" where
  "strict_configured_watchlist read_text s =
     (let source = load_watchlist_source read_text s
      in if source_errors source \<noteq> []
         then Inl (WatchlistError ''Configured watchlist file could not be read.'')
         else parse_watchlist (raw_watchlist source) (market_data_max_instruments s))"

definition configured_watchlist_entries :: "(string \<Rightarrow> string option) \<Rightarrow> settings \<Rightarrow> string list" where
  "configured_watchlist_entries read_text s = source_entries (load_watchlist_source read_text s)"

subsection \<open>The diagnosis\<close>

record diagnosed_watchlist =
  dw_configured_count :: nat
  dw_parsed_symbols :: "string list"
  dw_normalized_symbols :: "string list"
  dw_invalid_format_symbols :: "string list"
  dw_duplicate_symbols :: "string list"
  dw_non_nse_symbols :: "string list"
  dw_over_limit :: bool
  dw_symbols :: "watchlist_symbol list"
  dw_errors :: "string list"
  dw_warnings :: "string list"

text \<open>The lists the loop of \<^verbatim>\<open>_diagnose_entries\<close> appends to.\<close>

record diagnosis_loop =
  dl_parsed :: "string list"
  dl_invalid :: "string list"
  dl_duplicates :: "string list"
  dl_non_nse :: "string list"
  dl_symbols :: "watchlist_symbol list"
  dl_seen :: "string list"

definition diagnosis_start :: diagnosis_loop where
  "diagnosis_start = \<lparr>dl_parsed = [], dl_invalid = [], dl_duplicates = [], dl_non_nse = [],
     dl_symbols = [], dl_seen = []\<rparr>"

definition diagnose_entry :: "string \<Rightarrow> diagnosis_loop \<Rightarrow> diagnosis_loop" where
  "diagnose_entry entry l =
     (if count_char CHR '':'' entry \<noteq> 1 then l\<lparr>dl_invalid := dl_invalid l @ [entry]\<rparr>
      else
        let parts = split_once CHR '':'' entry;
            exchange = upper (strip (parts ! 0));
            tradingsymbol = upper (strip (parts ! 1));
            key = symbol_key exchange tradingsymbol
        in if exchange = [] \<or> tradingsymbol = [] then l\<lparr>dl_invalid := dl_invalid l @ [entry]\<rparr>
           else
             let l1 = l\<lparr>dl_parsed := dl_parsed l @ [entry],
                        dl_non_nse := (if exchange \<noteq> mvp_exchange then dl_non_nse l @ [key]
                                       else dl_non_nse l)\<rparr>
             in if key \<in> set (dl_seen l) then l1\<lparr>dl_duplicates := dl_duplicates l @ [key]\<rparr>
                else l1\<lparr>dl_seen := key # dl_seen l,
                        dl_symbols := (if exchange = mvp_exchange
                          then dl_symbols l @ [\<lparr>ws_exchange = exchange, ws_tradingsymbol = tradingsymbol\<rparr>]
                          else dl_symbols l)\<rparr>)"

definition diagnose_entries :: "watchlist_source \<Rightarrow> int \<Rightarrow> diagnosed_watchlist" where
  "diagnose_entries source max_instruments =
     (let entries = source_entries source;
          l = fold diagnose_entry entries diagnosis_start;
          over_limit = (max_instruments < 1 \<or> max_instruments < int (length entries));
          errors =
            (if entries = [] then [''watchlist_empty''] else [])
            @ (if dl_invalid l \<noteq> []
               then [''watchlist_entries_must_use_exchange_colon_tradingsymbol''] else [])
            @ (if dl_duplicates l \<noteq> [] then [''duplicate_watchlist_symbol''] else [])
            @ (if dl_non_nse l \<noteq> [] then [''only_nse_supported_in_current_mvp''] else [])
            @ (if max_instruments < 1 then [''market_data_max_instruments_must_be_positive'']
               else if over_limit then [''watchlist_exceeds_configured_maximum''] else []);
          warnings = (if blank_entries source \<noteq> [] then [''blank_watchlist_entries_ignored''] else []);
          valid_normalized = sort (remdups (filter (\<lambda>k. k \<notin> set (dl_duplicates l))
                               (map ws_key (dl_symbols l))))
      in \<lparr>dw_configured_count = length entries,
          dw_parsed_symbols = dl_parsed l,
          dw_normalized_symbols = valid_normalized,
          dw_invalid_format_symbols = dl_invalid l,
          dw_duplicate_symbols = sort (remdups (dl_duplicates l)),
          dw_non_nse_symbols = sort (remdups (dl_non_nse l)),
          dw_over_limit = over_limit,
          dw_symbols = filter (\<lambda>s. ws_key s \<in> set valid_normalized) (dl_symbols l),
          dw_errors = uniq errors,
          dw_warnings = uniq warnings\<rparr>)"

subsection \<open>What the strict parser accepts\<close>

lemma strip_Cons: "\<not> py_space c \<Longrightarrow> lstrip (c # s) = c # s"
  by (simp add: lstrip_def)

lemma lstrip_hd: "lstrip s \<noteq> [] \<Longrightarrow> \<not> py_space (hd (lstrip s))"
  unfolding lstrip_def by (rule hd_dropWhile)

lemma lstrip_id: "s = [] \<or> \<not> py_space (hd s) \<Longrightarrow> lstrip s = s"
  by (cases s) (auto simp: lstrip_def)

lemma rstrip_snoc: "\<not> py_space c \<Longrightarrow> rstrip (s @ [c]) = s @ [c]"
  by (simp add: rstrip_def)

lemma rstrip_prefix: "\<exists>t. s = rstrip s @ t"
proof -
  have "s = rstrip s @ rev (takeWhile py_space (rev s))"
    unfolding rstrip_def by (metis rev_append rev_rev_ident takeWhile_dropWhile_id)
  then show ?thesis by blast
qed

lemma rstrip_idem: "rstrip (rstrip s) = rstrip s"
  by (simp add: rstrip_def)

lemma strip_idem [simp]: "strip (strip s) = strip s"
proof -
  have "lstrip (rstrip (lstrip s)) = rstrip (lstrip s)"
  proof (rule lstrip_id)
    obtain t where t: "lstrip s = rstrip (lstrip s) @ t" using rstrip_prefix by blast
    show "rstrip (lstrip s) = [] \<or> \<not> py_space (hd (rstrip (lstrip s)))"
    proof (cases "rstrip (lstrip s) = []")
      case False
      then have "hd (lstrip s) = hd (rstrip (lstrip s))" by (subst t) simp
      moreover have "lstrip s \<noteq> []" using False by (auto simp: rstrip_def)
      ultimately show ?thesis using lstrip_hd [of s] by simp
    qed simp
  qed
  then show ?thesis by (simp add: strip_def rstrip_idem)
qed

lemma parse_entry_Inr:
  "parse_entry entry = Inr s \<longleftrightarrow>
     (\<exists>a b. split_once CHR '':'' entry = [a, b] \<and> upper (strip a) = mvp_exchange \<and>
        upper (strip b) \<noteq> [] \<and>
        s = \<lparr>ws_exchange = mvp_exchange, ws_tradingsymbol = upper (strip b)\<rparr>)"
  using split_once_cases [of "CHR '':''" entry]
  by (auto simp: parse_entry_def Let_def mvp_exchange_def split: if_splits)

lemma parse_entry_sound:
  assumes "parse_entry entry = Inr s"
  shows "ws_exchange s = ''NSE''" and "ws_tradingsymbol s \<noteq> []"
    and "upper (ws_tradingsymbol s) = ws_tradingsymbol s"
  using assms by (auto simp: parse_entry_Inr mvp_exchange_def)

lemma parse_entries_iff:
  "parse_entries seen es = Inr ss \<longleftrightarrow>
     mapE parse_entry es = Inr ss \<and> distinct (map ws_key ss) \<and> set (map ws_key ss) \<inter> set seen = {}"
proof (induction es arbitrary: seen ss)
  case Nil
  then show ?case by auto
next
  case (Cons e es)
  show ?case
  proof (cases "parse_entry e")
    case (Inl x)
    then show ?thesis by simp
  next
    case (Inr s)
    then show ?thesis
      by (auto simp: bindE_eq_Inr Cons.IH disjoint_iff split: if_splits) (metis image_eqI)
  qed
qed

lemma parse_watchlist_iff:
  "parse_watchlist raw n = Inr ss \<longleftrightarrow>
     1 \<le> n \<and> comma_entries raw \<noteq> [] \<and> int (length (comma_entries raw)) \<le> n \<and>
     parse_entries [] (comma_entries raw) = Inr ss"
  by (auto simp: parse_watchlist_def Let_def)

lemma mapE_all: "mapE f xs = Inr ys \<Longrightarrow> y \<in> set ys \<Longrightarrow> \<exists>x \<in> set xs. f x = Inr y"
  by (auto simp: mapE_Inr_iff list_all2_conv_all_nth in_set_conv_nth) (metis nth_mem)

lemma parse_watchlist_facts:
  assumes "parse_watchlist raw n = Inr ss"
  shows "ss \<noteq> []" "int (length ss) \<le> n" "distinct (map ws_key ss)"
    "s \<in> set ss \<Longrightarrow> ws_exchange s = ''NSE'' \<and> ws_tradingsymbol s \<noteq> [] \<and>
       upper (ws_tradingsymbol s) = ws_tradingsymbol s"
proof -
  from assms have m: "mapE parse_entry (comma_entries raw) = Inr ss" and d: "distinct (map ws_key ss)"
    and c: "comma_entries raw \<noteq> []" "int (length (comma_entries raw)) \<le> n"
    by (auto simp: parse_watchlist_iff parse_entries_iff)
  from mapE_length [OF m] c show "ss \<noteq> []" "int (length ss) \<le> n" by auto
  show "distinct (map ws_key ss)" by (rule d)
  assume "s \<in> set ss"
  with mapE_all [OF m] show "ws_exchange s = ''NSE'' \<and> ws_tradingsymbol s \<noteq> [] \<and>
       upper (ws_tradingsymbol s) = ws_tradingsymbol s"
    using parse_entry_sound by metis
qed

lemma comma_entries_join:
  assumes "\<forall>e \<in> set es. strip e = e \<and> e \<noteq> [] \<and> CHR '','' \<notin> set e"
  shows "comma_entries (join '','' es) = es"
proof (cases "es = []")
  case True
  then show ?thesis by (simp add: comma_entries_def strip_def rstrip_def lstrip_def)
next
  case False
  with assms have "split_char CHR '','' (join '','' es) = es" by (intro split_char_join) auto
  moreover have "map strip es = es" using assms by (intro map_idI) auto
  moreover have "filter (\<lambda>e. e \<noteq> []) es = es" using assms by (intro filter_True) auto
  ultimately show ?thesis by (simp add: comma_entries_def)
qed

text \<open>Printing the accepted symbols gives a watchlist that parses to them again.\<close>

lemma py_space_code: "py_space c \<Longrightarrow> (of_char c :: nat) \<le> 32"
  by (auto simp: py_space_def Let_def)

lemma upper_char_space [simp]: "py_space (upper_char c) = py_space c"
proof (cases "97 \<le> (of_char c :: nat) \<and> (of_char c :: nat) \<le> 122")
  case True
  then have "upper_char c = char_of ((of_char c :: nat) - 32)" by (simp add: upper_char_def Let_def)
  with True upper_char_range [of "of_char c"] have "(of_char (upper_char c) :: nat) = of_char c - 32"
    by (simp only:)
  with True show ?thesis by (auto simp: py_space_def Let_def)
next
  case False
  then show ?thesis by (auto simp: upper_char_def Let_def)
qed

lemma dropWhile_map_upper: "dropWhile py_space (map upper_char s) = map upper_char (dropWhile py_space s)"
  by (induction s) auto

lemma strip_upper: "strip (upper s) = upper (strip s)"
  by (simp add: strip_def rstrip_def lstrip_def upper_def dropWhile_map_upper rev_map)

lemma comma_in_upper: "CHR '','' \<in> set (upper s) \<longleftrightarrow> CHR '','' \<in> set s"
proof -
  have c: "(of_char CHR '','' :: nat) = 44" by code_simp
  have "\<And>x. upper_char x = CHR '','' \<longleftrightarrow> x = CHR '',''"
    by (rule upper_char_eq_iff) (simp_all only: c, simp_all)
  then show ?thesis by (simp only: in_set_upper) blast
qed

lemma colon_not_space: "\<not> py_space CHR '':''"
  by code_simp

lemma nse_parts: "CHR '':'' \<notin> set ''NSE''" "upper ''NSE'' = ''NSE''" "strip ''NSE'' = ''NSE''"
    "CHR '','' \<notin> set ''NSE:''" "\<not> py_space CHR ''N''"
  by code_simp+

lemma strip_nse_key:
  assumes "strip b = b" "b \<noteq> []"
  shows "strip (symbol_key ''NSE'' b) = symbol_key ''NSE'' b"
proof -
  from assms have r: "rstrip (lstrip b) = b" by (simp add: strip_def)
  have "\<not> py_space (last b)"
  proof -
    from r assms(2) have n: "dropWhile py_space (rev (lstrip b)) \<noteq> []"
      by (metis rev.simps(1) rstrip_def)
    from r have "last b = hd (dropWhile py_space (rev (lstrip b)))"
      by (metis n last_rev rstrip_def)
    with n show ?thesis by (metis hd_dropWhile)
  qed
  then have t: "rstrip (x @ b) = x @ b" for x
    using assms(2) by (cases b rule: rev_cases) (auto simp: rstrip_def)
  have "lstrip (symbol_key ''NSE'' b) = symbol_key ''NSE'' b"
    using nse_parts(5) by (simp add: symbol_key_def lstrip_def)
  then show ?thesis using t [of "''NSE:''"] by (simp add: strip_def symbol_key_def)
qed

lemma parse_entry_key:
  assumes "parse_entry e = Inr s"
  shows "parse_entry (ws_key s) = Inr s" "strip (ws_key s) = ws_key s" "ws_key s \<noteq> []"
    "CHR '','' \<notin> set e \<Longrightarrow> CHR '','' \<notin> set (ws_key s)"
proof -
  from assms obtain a b where ab: "split_once CHR '':'' e = [a, b]" "upper (strip b) \<noteq> []"
    and s: "s = \<lparr>ws_exchange = ''NSE'', ws_tradingsymbol = upper (strip b)\<rparr>"
    by (auto simp: parse_entry_Inr mvp_exchange_def)
  have key: "ws_key s = symbol_key ''NSE'' (upper (strip b))" by (simp add: s ws_key_def)
  have id: "strip (upper (strip b)) = upper (strip b)" by (simp add: strip_upper)
  have "split_once CHR '':'' (ws_key s) = [''NSE'', upper (strip b)]"
    unfolding key symbol_key_def using split_once_sep [OF nse_parts(1)] by simp
  then show "parse_entry (ws_key s) = Inr s"
    unfolding parse_entry_Inr using id ab(2) by (simp add: s mvp_exchange_def nse_parts)
  show "strip (ws_key s) = ws_key s" unfolding key by (rule strip_nse_key [OF id ab(2)])
  show "ws_key s \<noteq> []" by (simp add: key symbol_key_def)
  assume "CHR '','' \<notin> set e"
  moreover have "e = a @ CHR '':'' # b"
    using split_once_cases [of "CHR '':''" e] ab(1) by auto
  ultimately have "CHR '','' \<notin> set (upper (strip b))" using not_in_strip by (simp add: comma_in_upper)
  then show "CHR '','' \<notin> set (ws_key s)" using nse_parts(4) by (simp add: key symbol_key_def)
qed

lemma parse_watchlist_print:
  assumes "parse_watchlist raw n = Inr ss"
  shows "parse_watchlist (join '','' (map ws_key ss)) n = Inr ss"
proof -
  from assms have n: "1 \<le> n" "comma_entries raw \<noteq> []" "int (length (comma_entries raw)) \<le> n"
    and m: "mapE parse_entry (comma_entries raw) = Inr ss" and d: "distinct (map ws_key ss)"
    by (auto simp: parse_watchlist_iff parse_entries_iff)
  have e: "\<exists>e. parse_entry e = Inr s \<and> CHR '','' \<notin> set e" if "s \<in> set ss" for s
    using mapE_all [OF m that] split_char_parts not_in_strip by (fastforce simp: comma_entries_def)
  have k: "parse_entry (ws_key s) = Inr s \<and> strip (ws_key s) = ws_key s \<and> ws_key s \<noteq> [] \<and>
      CHR '','' \<notin> set (ws_key s)" if "s \<in> set ss" for s
    using e [OF that] parse_entry_key by blast
  have c: "comma_entries (join '','' (map ws_key ss)) = map ws_key ss"
    by (rule comma_entries_join) (use k in auto)
  have "mapE parse_entry (map ws_key ss) = Inr ss"
    unfolding mapE_Inr_iff using k by (auto simp: list_all2_conv_all_nth)
  then show ?thesis
    using n d mapE_length [OF m] by (auto simp: parse_watchlist_iff parse_entries_iff c)
qed

subsection \<open>The diagnosis against the parser\<close>

text \<open>The loop found nothing wrong so far.\<close>

definition clean :: "diagnosis_loop \<Rightarrow> bool" where
  "clean l \<longleftrightarrow> dl_invalid l = [] \<and> dl_duplicates l = [] \<and> dl_non_nse l = []"

lemma not_clean_step: "clean (diagnose_entry e l) \<Longrightarrow> clean l"
  by (auto simp: diagnose_entry_def clean_def Let_def split: if_splits)

lemma not_clean_fold: "clean (fold diagnose_entry es l) \<Longrightarrow> clean l"
  by (induction es arbitrary: l) (auto dest: not_clean_step)

lemma clean_step:
  assumes "clean l"
  shows "clean (diagnose_entry e l) \<longleftrightarrow>
    count_char CHR '':'' e = 1 \<and> (\<exists>s. parse_entry e = Inr s \<and> ws_key s \<notin> set (dl_seen l) \<and>
      diagnose_entry e l = l\<lparr>dl_parsed := dl_parsed l @ [e], dl_seen := ws_key s # dl_seen l,
        dl_symbols := dl_symbols l @ [s]\<rparr>)"
proof (cases "count_char CHR '':'' e = 1")
  case True
  then obtain a b where ab: "split_once CHR '':'' e = [a, b]" using count_one_split by blast
  show ?thesis
    using True assms
    by (auto simp: diagnose_entry_def parse_entry_def ab clean_def Let_def ws_key_def)
next
  case False
  then show ?thesis using assms by (auto simp: diagnose_entry_def clean_def)
qed

lemma clean_fold:
  "clean l \<Longrightarrow> clean (fold diagnose_entry es l) \<longleftrightarrow>
     list_all (\<lambda>e. count_char CHR '':'' e = 1) es \<and> (\<exists>ss. parse_entries (dl_seen l) es = Inr ss)"
proof (induction es arbitrary: l)
  case Nil
  then show ?case by simp
next
  case (Cons e es)
  show ?case
  proof (cases "clean (diagnose_entry e l)")
    case True
    then obtain s where s: "count_char CHR '':'' e = 1" "parse_entry e = Inr s"
      "ws_key s \<notin> set (dl_seen l)" "dl_seen (diagnose_entry e l) = ws_key s # dl_seen l"
      using clean_step [OF Cons.prems] by auto
    have iff: "(\<exists>ss. parse_entries (dl_seen l) (e # es) = Inr ss) \<longleftrightarrow>
        (\<exists>ss. parse_entries (ws_key s # dl_seen l) es = Inr ss)"
      by (auto simp: s bindE_eq_Inr)
    show ?thesis
      unfolding iff using Cons.IH [OF True] s by simp
  next
    case False
    then have l: "\<not> clean (fold diagnose_entry es (diagnose_entry e l))"
      using not_clean_fold by blast
    have "\<not> (count_char CHR '':'' e = 1 \<and> (\<exists>s. parse_entry e = Inr s \<and> ws_key s \<notin> set (dl_seen l)))"
    proof
      assume a: "count_char CHR '':'' e = 1 \<and> (\<exists>s. parse_entry e = Inr s \<and> ws_key s \<notin> set (dl_seen l))"
      then obtain a b where ab: "split_once CHR '':'' e = [a, b]" using count_one_split by blast
      from a have "clean (diagnose_entry e l)"
        using Cons.prems
        by (auto simp: diagnose_entry_def parse_entry_def ab clean_def Let_def ws_key_def
            split: if_splits)
      with False show False by simp
    qed
    with l show ?thesis by (auto simp: bindE_eq_Inr)
  qed
qed

lemma clean_fold_symbols:
  "clean (fold diagnose_entry es l) \<Longrightarrow> parse_entries (dl_seen l) es = Inr ss \<Longrightarrow>
     dl_symbols (fold diagnose_entry es l) = dl_symbols l @ ss"
proof (induction es arbitrary: l ss)
  case Nil
  then show ?case by simp
next
  case (Cons e es)
  from Cons.prems(1) have c1: "clean (diagnose_entry e l)"
    by (auto intro: not_clean_fold)
  then have c: "clean (diagnose_entry e l)" "clean l" by (auto intro: not_clean_step)
  then obtain s where s: "parse_entry e = Inr s"
      "dl_seen (diagnose_entry e l) = ws_key s # dl_seen l"
      "dl_symbols (diagnose_entry e l) = dl_symbols l @ [s]"
    using clean_step [of l e] by auto
  with Cons.prems(2) obtain ts where ts: "parse_entries (ws_key s # dl_seen l) es = Inr ts" "ss = s # ts"
    by (auto simp: bindE_eq_Inr split: if_splits)
  have "dl_symbols (fold diagnose_entry es (diagnose_entry e l)) = dl_symbols (diagnose_entry e l) @ ts"
    using Cons.IH [of "diagnose_entry e l" ts] Cons.prems(1) s ts by simp
  with s ts show ?case by simp
qed

lemma diagnose_errors_iff:
  "dw_errors (diagnose_entries source n) = [] \<longleftrightarrow>
     source_entries source \<noteq> [] \<and> 1 \<le> n \<and> int (length (source_entries source)) \<le> n \<and>
     clean (fold diagnose_entry (source_entries source) diagnosis_start)"
  by (auto simp: diagnose_entries_def Let_def clean_def)

lemma clean_start [simp]: "clean diagnosis_start" "dl_seen diagnosis_start = []"
    "dl_symbols diagnosis_start = []"
  by (auto simp: clean_def diagnosis_start_def)

lemma diagnose_errors_parse:
  "dw_errors (diagnose_entries source n) = [] \<longleftrightarrow>
     source_entries source \<noteq> [] \<and> 1 \<le> n \<and> int (length (source_entries source)) \<le> n \<and>
     list_all (\<lambda>e. count_char CHR '':'' e = 1) (source_entries source) \<and>
     (\<exists>ss. parse_entries [] (source_entries source) = Inr ss)"
  using clean_fold [of diagnosis_start "source_entries source"]
  unfolding diagnose_errors_iff by auto

lemma clean_symbols:
  assumes "dw_errors (diagnose_entries source n) = []" "parse_entries [] (source_entries source) = Inr ss"
  shows "dw_symbols (diagnose_entries source n) = ss"
    "dw_normalized_symbols (diagnose_entries source n) = sort (map ws_key ss)"
proof -
  from assms(1) have c: "clean (fold diagnose_entry (source_entries source) diagnosis_start)"
    by (simp add: diagnose_errors_iff)
  with assms(2) have y: "dl_symbols (fold diagnose_entry (source_entries source) diagnosis_start) = ss"
    using clean_fold_symbols [of "source_entries source" diagnosis_start ss] by simp
  from assms(2) have d: "distinct (map ws_key ss)" by (simp add: parse_entries_iff)
  have f: "filter (\<lambda>k. k \<notin> set []) (map ws_key ss) = map ws_key ss" by (simp add: filter_True)
  from c have dd: "dl_duplicates (fold diagnose_entry (source_entries source) diagnosis_start) = []"
    by (simp add: clean_def)
  show n: "dw_normalized_symbols (diagnose_entries source n) = sort (map ws_key ss)"
    using d by (simp add: diagnose_entries_def Let_def y dd f distinct_remdups_id)
  have "dw_symbols (diagnose_entries source n) =
      filter (\<lambda>s. ws_key s \<in> set (dw_normalized_symbols (diagnose_entries source n))) ss"
    by (simp add: diagnose_entries_def Let_def y)
  then show "dw_symbols (diagnose_entries source n) = ss" by (simp add: n filter_True)
qed

text \<open>The entries of a source are what the strict parser splits its text into.\<close>

lemma source_entries_stripped:
  "e \<in> set (source_entries (load_watchlist_source read_text s)) \<Longrightarrow> strip e = e \<and> e \<noteq> []"
  by (auto simp: load_watchlist_source_def Let_def file_entries_def split: if_splits option.splits)

lemma source_entries_parse:
  assumes "list_all (\<lambda>e. CHR '','' \<notin> set e) (source_entries (load_watchlist_source read_text s))"
  shows "comma_entries (raw_watchlist (load_watchlist_source read_text s)) =
    source_entries (load_watchlist_source read_text s)"
proof (cases "market_data_watchlist_file s = []")
  case True
  then show ?thesis by (simp add: load_watchlist_source_def Let_def comma_entries_def)
next
  case False
  show ?thesis
  proof (cases "read_text (market_data_watchlist_file s)")
    case None
    with False show ?thesis
      by (simp add: load_watchlist_source_def Let_def comma_entries_def strip_def rstrip_def lstrip_def)
  next
    case (Some t)
    with False have e: "source_entries (load_watchlist_source read_text s) = file_entries (splitlines t)"
      and r: "raw_watchlist (load_watchlist_source read_text s) = join '','' (file_entries (splitlines t))"
      by (simp_all add: load_watchlist_source_def Let_def)
    show ?thesis
      unfolding r e
      by (rule comma_entries_join) (use assms source_entries_stripped [of _ read_text s] in
          \<open>auto simp: e list_all_iff\<close>)
  qed
qed

lemma environment_entries_no_comma:
  assumes "market_data_watchlist_file s = []"
  shows "list_all (\<lambda>e. CHR '','' \<notin> set e) (source_entries (load_watchlist_source read_text s))"
  using assms not_in_strip split_char_parts
  by (fastforce simp: load_watchlist_source_def Let_def list_all_iff)

lemma strict_watchlist_iff:
  assumes "list_all (\<lambda>e. CHR '','' \<notin> set e) (source_entries (load_watchlist_source read_text s))"
    and "list_all (\<lambda>e. count_char CHR '':'' e = 1) (source_entries (load_watchlist_source read_text s))"
  shows "(\<exists>ss. strict_configured_watchlist read_text s = Inr ss) \<longleftrightarrow>
    source_errors (load_watchlist_source read_text s) = [] \<and>
    dw_errors (diagnose_entries (load_watchlist_source read_text s) (market_data_max_instruments s)) = []"
  using assms(2)
  by (auto simp: strict_configured_watchlist_def Let_def parse_watchlist_iff source_entries_parse [OF assms(1)]
      diagnose_errors_parse)

lemma diagnosed_ready_parses:
  assumes "list_all (\<lambda>e. CHR '','' \<notin> set e) (source_entries (load_watchlist_source read_text s))"
    and "source_errors (load_watchlist_source read_text s) = []"
    and "dw_errors (diagnose_entries (load_watchlist_source read_text s) (market_data_max_instruments s)) = []"
  shows "strict_configured_watchlist read_text s =
    Inr (dw_symbols (diagnose_entries (load_watchlist_source read_text s) (market_data_max_instruments s)))"
proof -
  let ?src = "load_watchlist_source read_text s"
  from assms(3) obtain ss where ss: "parse_entries [] (source_entries ?src) = Inr ss"
    by (auto simp: diagnose_errors_parse)
  have "strict_configured_watchlist read_text s = Inr ss"
    using assms(3) ss
    by (simp add: strict_configured_watchlist_def Let_def assms(2) parse_watchlist_iff
        source_entries_parse [OF assms(1)] diagnose_errors_parse)
  with clean_symbols [OF assms(3) ss] show ?thesis by simp
qed

end
