(* ===== verification/MarketData.thy ===== *)
theory MarketData
  imports Watchlist Database CandleBuilder
begin

section \<open>Market data storage\<close>

text \<open>
  \<^verbatim>\<open>app/market_data/repository.py\<close> with its records of \<^verbatim>\<open>app/market_data/schemas.py\<close>: the upsert
  of the broker's instrument dump, the lookups of configured symbols and the storage of completed
  candles, over the tables of \<open>Database\<close>. The upsert catches every exception of a row and goes on
  in the same transaction; the database is PostgreSQL, where a failed statement aborts the
  transaction: every later statement of it fails and its commit rolls back. The numeric and string
  widths of the columns are not modelled. The locale \<open>market_store\<close> is what the services rely on.
\<close>

subsection \<open>Records\<close>

record instrument_record =
  ic_id :: int
  ic_exchange :: string
  ic_tradingsymbol :: string
  ic_instrument_token :: int
  ic_tick_size :: dec
  ic_is_active :: bool

definition ic_key :: "instrument_record \<Rightarrow> string" where
  "ic_key r = symbol_key (ic_exchange r) (ic_tradingsymbol r)"

record instrument_sync_result =
  sync_fetched :: nat
  sync_inserted :: nat
  sync_updated :: nat
  sync_skipped :: nat
  sync_failed :: nat
  sync_watchlist_validation :: "json option"

text \<open>
  A field of a broker row: the code uses a value only through \<^verbatim>\<open>str\<close>, so a float is kept as the
  text it prints. \<open>py_decimal\<close> is \<^verbatim>\<open>Decimal(text)\<close> on finite literals.
\<close>

datatype (plugins only: code size) broker_value = BNone | BInt int | BStr string | BFloat string

fun broker_str :: "broker_value \<Rightarrow> string" where
  "broker_str BNone = ''None''"
| "broker_str (BInt i) = str_of_int i"
| "broker_str (BStr s) = s"
| "broker_str (BFloat t) = t"

fun broker_json :: "broker_value \<Rightarrow> json" where
  "broker_json BNone = JNull"
| "broker_json (BInt i) = JInt i"
| "broker_json (BStr s) = JStr s"
| "broker_json (BFloat t) = JStr t"

type_synonym broker_item = "(string \<times> broker_value) list"

definition str_get :: "broker_item \<Rightarrow> string \<Rightarrow> string \<Rightarrow> string" where
  "str_get item k dflt = (case map_of item k of None \<Rightarrow> dflt | Some v \<Rightarrow> broker_str v)"

definition digits_int :: "string \<Rightarrow> int" where
  "digits_int s = foldl (\<lambda>acc c. 10 * acc + digit_val c) 0 s"

definition py_decimal :: "string \<Rightarrow> dec option" where
  "py_decimal text =
     (let t = filter (\<lambda>c. c \<noteq> CHR ''_'') (strip text);
          signed = (t \<noteq> [] \<and> (hd t = CHR ''-'' \<or> hd t = CHR ''+''));
          body = (if signed then tl t else t);
          mantissa = takeWhile (\<lambda>c. c \<noteq> CHR ''e'' \<and> c \<noteq> CHR ''E'') body;
          after = drop (length mantissa) body;
          whole = takeWhile (\<lambda>c. c \<noteq> CHR ''.'') mantissa;
          fraction = drop (Suc (length whole)) mantissa;
          value = rat_of_int (digits_int (whole @ fraction)) / 10 ^ length fraction;
          exponent = (if after = [] then Some 0 else py_int (tl after))
      in if list_ex py_space body \<or> whole @ fraction = [] \<or> \<not> list_all is_digit (whole @ fraction) then None
         else case exponent of
             None \<Rightarrow> None
           | Some e \<Rightarrow>
               let v = (if 0 \<le> e then value * 10 ^ nat e else value / 10 ^ nat (- e))
               in Some (if signed \<and> hd t = CHR ''-'' then - v else v))"

subsection \<open>A session on the database\<close>

record sql_session =
  tx_tables :: database
  tx_aborted :: bool

definition begin_session :: "database \<Rightarrow> sql_session" where
  "begin_session d = \<lparr>tx_tables = d, tx_aborted = False\<rparr>"

definition statement :: "(database, 'a) prog \<Rightarrow> (sql_session, 'a) prog" where
  "statement m = (\<lambda>t.
     if tx_aborted t then (Inl (OtherError ''current transaction is aborted''), t)
     else case m (tx_tables t) of
         (Inl e, d) \<Rightarrow> (Inl e, t\<lparr>tx_aborted := True\<rparr>)
       | (Inr x, d) \<Rightarrow> (Inr x, t\<lparr>tx_tables := d\<rparr>))"

text \<open>The tables after \<^verbatim>\<open>commit\<close>, given those at the start of the transaction.\<close>

definition commit_tables :: "database \<Rightarrow> sql_session \<Rightarrow> database" where
  "commit_tables d t = (if tx_aborted t then d else tx_tables t)"

subsection \<open>Instruments\<close>

definition is_instrument :: "string \<Rightarrow> string \<Rightarrow> instrument_row \<Rightarrow> bool" where
  "is_instrument exchange tradingsymbol r \<longleftrightarrow>
     ir_exchange r = exchange \<and> ir_tradingsymbol r = tradingsymbol"

definition find_instrument :: "string \<Rightarrow> string \<Rightarrow> database \<Rightarrow> instrument_row option" where
  "find_instrument exchange tradingsymbol d =
     find (is_instrument exchange tradingsymbol) (db_instruments d)"

text \<open>The unique constraints: the token, and the exchange with the symbol.\<close>

definition instrument_clash :: "instrument_row \<Rightarrow> instrument_row \<Rightarrow> bool" where
  "instrument_clash r x \<longleftrightarrow>
     ir_kite_instrument_token x = ir_kite_instrument_token r
     \<or> is_instrument (ir_exchange r) (ir_tradingsymbol r) x"

definition insert_instrument :: "instrument_row \<Rightarrow> (database, unit) prog" where
  "insert_instrument r = (\<lambda>d.
     if list_ex (instrument_clash r) (db_instruments d) then (Inl IntegrityError, d)
     else (Inr (), d\<lparr>db_instruments := db_instruments d @ [r\<lparr>ir_id := next_id (db_instruments d)\<rparr>]\<rparr>))"

definition update_instrument :: "int \<Rightarrow> instrument_row \<Rightarrow> (database, unit) prog" where
  "update_instrument i r = (\<lambda>d.
     if list_ex (\<lambda>x. ir_id x \<noteq> i \<and> instrument_clash r x) (db_instruments d)
     then (Inl IntegrityError, d)
     else (Inr (), d\<lparr>db_instruments :=
             map (\<lambda>x. if ir_id x = i then r\<lparr>ir_id := i\<rparr> else x) (db_instruments d)\<rparr>))"

datatype (plugins only: code size) upsert_outcome = Inserted | Updated | Skipped | Failed

definition instrument_values :: "instant \<Rightarrow> broker_item \<Rightarrow> instrument_row res" where
  "instrument_values now item =
     (case map_of item ''instrument_token'' of
        None \<Rightarrow> Inl (KeyError ''instrument_token'')
      | Some token \<Rightarrow>
          (case py_decimal (str_get item ''tick_size'' ''0.01'') of
             None \<Rightarrow> Inl InvalidOperation
           | Some tick_size \<Rightarrow>
               (case py_int (str_get item ''lot_size'' ''1'') of
                  None \<Rightarrow> Inl (ValueError ''invalid literal for int() with base 10'')
                | Some lot_size \<Rightarrow>
                    Inr \<lparr>ir_id = 0, ir_kite_instrument_token = broker_str token,
                         ir_exchange = upper (str_get item ''exchange'' []),
                         ir_tradingsymbol = upper (str_get item ''tradingsymbol'' []),
                         ir_name = (case map_of item ''name'' of None \<Rightarrow> JNull | Some v \<Rightarrow> broker_json v),
                         ir_instrument_type = str_get item ''instrument_type'' ''EQ'',
                         ir_tick_size = tick_size, ir_lot_size = lot_size, ir_is_active = True,
                         ir_updated_at = now\<rparr>)))"

definition upsert_row :: "instrument_row \<Rightarrow> (sql_session, upsert_outcome) prog" where
  "upsert_row r =
     bindS (statement (readS (find_instrument (ir_exchange r) (ir_tradingsymbol r)))) (\<lambda>existing.
       case existing of
         Some row \<Rightarrow> bindS (statement (update_instrument (ir_id row) r)) (\<lambda>_. retS Updated)
       | None \<Rightarrow> bindS (statement (insert_instrument r)) (\<lambda>_. retS Inserted))"

definition wanted_item :: "watchlist_symbol list \<Rightarrow> broker_item \<Rightarrow> bool" where
  "wanted_item watchlist item \<longleftrightarrow>
     list_ex (\<lambda>s. ws_exchange s = upper (str_get item ''exchange'' [])
                  \<and> ws_tradingsymbol s = upper (str_get item ''tradingsymbol'' [])) watchlist"

text \<open>One turn of the loop: \<^verbatim>\<open>except Exception: failed += 1\<close>.\<close>

definition upsert_item ::
  "instant \<Rightarrow> watchlist_symbol list \<Rightarrow> broker_item \<Rightarrow> (sql_session, upsert_outcome) prog" where
  "upsert_item now watchlist item =
     tryS
       (if \<not> wanted_item watchlist item then retS Skipped
        else bindS (liftS (instrument_values now item)) upsert_row)
       (\<lambda>e. Some (retS Failed))"

definition sql_upsert_instruments ::
  "instant \<Rightarrow> broker_item list \<Rightarrow> watchlist_symbol list \<Rightarrow> (database, instrument_sync_result) prog" where
  "sql_upsert_instruments now broker_instruments watchlist = (\<lambda>d.
     case mapS (upsert_item now watchlist) broker_instruments (begin_session d) of
       (Inl e, t) \<Rightarrow> (Inl e, d)
     | (Inr outcomes, t) \<Rightarrow>
         (Inr \<lparr>sync_fetched = length broker_instruments,
               sync_inserted = count_list outcomes Inserted,
               sync_updated = count_list outcomes Updated,
               sync_skipped = count_list outcomes Skipped,
               sync_failed = count_list outcomes Failed,
               sync_watchlist_validation = None\<rparr>,
          commit_tables d t))"

definition instrument_from_row :: "instrument_row \<Rightarrow> instrument_record res" where
  "instrument_from_row r =
     (case py_int (ir_kite_instrument_token r) of
        None \<Rightarrow> Inl (ValueError ''invalid literal for int() with base 10'')
      | Some token \<Rightarrow>
          Inr \<lparr>ic_id = ir_id r, ic_exchange = ir_exchange r, ic_tradingsymbol = ir_tradingsymbol r,
               ic_instrument_token = token, ic_tick_size = ir_tick_size r,
               ic_is_active = ir_is_active r\<rparr>)"

definition sql_resolve_watchlist :: "watchlist_symbol list \<Rightarrow> (database, instrument_record list) prog" where
  "sql_resolve_watchlist watchlist = (\<lambda>d.
     (mapE instrument_from_row (List.map_filter
        (\<lambda>s. find (\<lambda>r. is_instrument (ws_exchange s) (ws_tradingsymbol s) r \<and> ir_is_active r)
               (db_instruments d)) watchlist), d))"

definition sql_inspect_watchlist :: "watchlist_symbol list \<Rightarrow> (database, instrument_record list) prog" where
  "sql_inspect_watchlist watchlist = (\<lambda>d.
     (mapE instrument_from_row (List.map_filter
        (\<lambda>s. find_instrument (ws_exchange s) (ws_tradingsymbol s) d) watchlist), d))"

subsection \<open>Candles\<close>

definition is_candle :: "int \<Rightarrow> string \<Rightarrow> instant \<Rightarrow> candle_row \<Rightarrow> bool" where
  "is_candle instrument_id timeframe started r \<longleftrightarrow>
     cr_instrument_id r = instrument_id \<and> cr_timeframe r = timeframe \<and> cr_started_at r = started"

definition candle_values :: "completed_candle \<Rightarrow> int \<Rightarrow> candle_row" where
  "candle_values c i =
     \<lparr>cr_id = i, cr_instrument_id = cc_instrument_id c, cr_timeframe = cc_timeframe c,
      cr_started_at = cc_started_at c, cr_open_price = cc_open c,
      cr_high_price = cc_high c, cr_low_price = cc_low c,
      cr_close_price = cc_close c, cr_volume = cc_volume c, cr_source = cc_source c\<rparr>"

definition save_candle :: "completed_candle \<Rightarrow> (database, unit) prog" where
  "save_candle c = (\<lambda>d.
     if \<not> has_instrument d (cc_instrument_id c) then (Inl IntegrityError, d)
     else case find (is_candle (cc_instrument_id c) (cc_timeframe c) (cc_started_at c)) (db_candles d) of
         Some row \<Rightarrow> (Inr (), d\<lparr>db_candles :=
             map (\<lambda>x. if cr_id x = cr_id row then candle_values c (cr_id row) else x) (db_candles d)\<rparr>)
       | None \<Rightarrow> (Inr (), d\<lparr>db_candles := db_candles d @ [candle_values c (next_id (db_candles d))]\<rparr>))"

definition sql_save_completed_candles :: "completed_candle list \<Rightarrow> (database, nat) prog" where
  "sql_save_completed_candles completed =
     transaction (bindS (mapS save_candle completed) (\<lambda>rs. retS (length rs)))"

subsection \<open>Keyed tables\<close>

text \<open>
  A \<open>keyed\<close> table with a unique column group \<open>g\<close>: appending a fresh row and
  replacing the row of a key keep both, and searching by \<open>g\<close> finds exactly the row written.
\<close>

lemma distinct_replace:
  assumes "distinct (map k rows)" "distinct (map g rows)"
    and "\<And>x. x \<in> set rows \<Longrightarrow> k x \<noteq> i \<Longrightarrow> g x \<noteq> g r"
  shows "distinct (map g (map (\<lambda>x. if k x = i then r else x) rows))"
  using assms
proof (induction rows)
  case Nil
  then show ?case by simp
next
  case (Cons x xs)
  have IH: "distinct (map g (map (\<lambda>x. if k x = i then r else x) xs))"
    using Cons.prems by (intro Cons.IH) auto
  show ?case
  proof (cases "k x = i")
    case True
    have no: "\<forall>y \<in> set xs. k y \<noteq> i"
    proof
      fix y assume "y \<in> set xs"
      then have "k y \<in> k ` set xs" by (rule imageI)
      with Cons.prems(1) True show "k y \<noteq> i" by auto
    qed
    then have "map (\<lambda>x. if k x = i then r else x) xs = xs" by (induction xs) auto
    moreover have "g r \<notin> g ` set xs" using Cons.prems(3) no by fastforce
    ultimately show ?thesis using IH True by simp
  next
    case False
    define ys where "ys = map (\<lambda>x. if k x = i then r else x) xs"
    have "g x \<noteq> g y" if "y \<in> set ys" for y
      using that Cons.prems False by (auto simp: ys_def split: if_splits)
    then have "distinct (map g (x # ys))" using IH by (auto simp: ys_def simp del: map_map)
    with False show ?thesis by (simp add: ys_def)
  qed
qed

lemma option_eqI: "(\<And>z. a = Some z \<longleftrightarrow> b = Some z) \<Longrightarrow> a = b"
  by (cases a; cases b) auto

lemma find_by_unique:
  assumes "distinct (map g rows)"
  shows "find (\<lambda>x. g x = y) rows = Some r \<longleftrightarrow> r \<in> set rows \<and> g r = y"
proof
  assume "find (\<lambda>x. g x = y) rows = Some r"
  then show "r \<in> set rows \<and> g r = y" by (rule find_Some_D)
next
  assume r: "r \<in> set rows \<and> g r = y"
  then obtain r' where r': "find (\<lambda>x. g x = y) rows = Some r'"
    by (cases "find (\<lambda>x. g x = y) rows") (auto dest: find_None_D)
  then have "r' \<in> set rows" "g r' = g r" using find_Some_D [OF r'] r by auto
  with r assms have "r' = r" by (auto simp: distinct_map inj_on_def)
  with r' show "find (\<lambda>x. g x = y) rows = Some r" by simp
qed

lemma find_append_row:
  "find (\<lambda>x. g x = y) rows = None \<Longrightarrow> find (\<lambda>x. g x = y) (rows @ [r]) = (if g r = y then Some r else None)"
  by (induction rows) (auto split: if_splits)

lemma find_append_Some:
  "find P rows = Some x \<Longrightarrow> find P (rows @ [r]) = Some x"
  by (induction rows) (auto split: if_splits)

lemma find_insert_row:
  assumes "g r \<notin> g ` set rows"
  shows "find (\<lambda>x. g x = y) (rows @ [r]) = (if g r = y then Some r else find (\<lambda>x. g x = y) rows)"
proof (cases "find (\<lambda>x. g x = y) rows")
  case None
  then show ?thesis by (simp add: find_append_row)
next
  case (Some x)
  with find_Some_D [OF Some] assms have "g r \<noteq> y" by auto
  with Some show ?thesis by (simp add: find_append_Some)
qed

lemma find_replace_row:
  assumes k: "distinct (map k rows)" and g: "distinct (map g rows)"
    and x: "x \<in> set rows" "g x = g r" and r: "k r = k x"
  shows "find (\<lambda>z. g z = y) (map (\<lambda>z. if k z = k x then r else z) rows) =
    (if g r = y then Some r else find (\<lambda>z. g z = y) rows)"
proof -
  let ?rows = "map (\<lambda>z. if k z = k x then r else z) rows"
  have same: "z = x" if "z \<in> set rows" "k z = k x" for z
    using that x(1) k by (auto simp: distinct_map inj_on_def)
  have g2: "map g ?rows = map g rows" using same x(2) by (auto dest!: same)
  with g have d: "distinct (map g ?rows)" by (simp only:)
  show ?thesis
  proof (cases "g r = y")
    case True
    have "r \<in> set ?rows" using x(1) by force
    with True find_by_unique [OF d] show ?thesis by simp
  next
    case False
    have "find (\<lambda>z. g z = y) ?rows = Some z \<longleftrightarrow> find (\<lambda>z. g z = y) rows = Some z" for z
    proof -
      have "z \<in> set ?rows \<and> g z = y \<longleftrightarrow> z \<in> set rows \<and> g z = y"
      proof (cases "z = r \<or> z = x")
        case True
        with False x(2) show ?thesis by auto
      next
        case neq: False
        have "z \<in> set ?rows \<longleftrightarrow> z \<in> set rows"
          using neq same [of z] by (auto simp: image_iff split: if_splits intro: bexI [of _ z])
        then show ?thesis by simp
      qed
      then show ?thesis unfolding find_by_unique [OF d] find_by_unique [OF g] .
    qed
    then have "find (\<lambda>z. g z = y) ?rows = find (\<lambda>z. g z = y) rows" by (rule option_eqI)
    with False show ?thesis by simp
  qed
qed

subsection \<open>The instrument table\<close>

definition row_identity :: "instrument_row \<Rightarrow> string \<times> string" where
  "row_identity r = (ir_exchange r, ir_tradingsymbol r)"

definition instruments_ok :: "database \<Rightarrow> bool" where
  "instruments_ok d \<longleftrightarrow> keyed ir_id (db_instruments d) \<and> distinct (map row_identity (db_instruments d))
     \<and> distinct (map ir_kite_instrument_token (db_instruments d))"

lemma is_instrument_identity: "is_instrument a b r \<longleftrightarrow> row_identity r = (a, b)"
  by (simp add: is_instrument_def row_identity_def)

lemma find_instrument_identity:
  "find_instrument a b d = find (\<lambda>r. row_identity r = (a, b)) (db_instruments d)"
  by (simp add: find_instrument_def is_instrument_identity [abs_def])

lemma no_clash:
  "\<not> list_ex (instrument_clash r) rows \<longleftrightarrow>
     row_identity r \<notin> row_identity ` set rows \<and>
     ir_kite_instrument_token r \<notin> ir_kite_instrument_token ` set rows"
  unfolding list_ex_iff instrument_clash_def is_instrument_identity row_identity_def by (metis (mono_tags, lifting) imageE imageI)

lemma identity_id [simp]: "row_identity (r\<lparr>ir_id := i\<rparr>) = row_identity r"
  by (simp add: row_identity_def)

lemma insert_instrument_ok:
  assumes "insert_instrument r d = (Inr u, d')" "instruments_ok d"
  shows "instruments_ok d'"
  using assms
  by (auto simp: insert_instrument_def instruments_ok_def no_clash keyed_append split: if_splits)

lemma update_instrument_ok:
  assumes u: "update_instrument i r d = (Inr u, d')" and ok: "instruments_ok d"
  shows "instruments_ok d'"
proof -
  let ?rows = "map (\<lambda>x. if ir_id x = i then r\<lparr>ir_id := i\<rparr> else x) (db_instruments d)"
  from u have d': "d' = d\<lparr>db_instruments := ?rows\<rparr>"
    and no: "\<not> list_ex (\<lambda>x. ir_id x \<noteq> i \<and> instrument_clash r x) (db_instruments d)"
    by (auto simp: update_instrument_def split: if_splits)
  from ok have k: "distinct (map ir_id (db_instruments d))" by (simp add: instruments_ok_def keyed_distinct)
  have n1: "row_identity x \<noteq> row_identity (r\<lparr>ir_id := i\<rparr>) \<and>
      ir_kite_instrument_token x \<noteq> ir_kite_instrument_token (r\<lparr>ir_id := i\<rparr>)"
    if "x \<in> set (db_instruments d)" "ir_id x \<noteq> i" for x
  proof -
    from no that have "\<not> instrument_clash r x" unfolding list_ex_iff by blast
    then show ?thesis by (simp add: instrument_clash_def is_instrument_identity row_identity_def)
  qed
  have "keyed ir_id ?rows" using ok by (intro keyed_replace) (auto simp: instruments_ok_def)
  moreover have "distinct (map row_identity ?rows)"
    using ok n1 by (intro distinct_replace [OF k]) (auto simp: instruments_ok_def)
  moreover have "distinct (map ir_kite_instrument_token ?rows)"
    using ok n1 by (intro distinct_replace [OF k]) (auto simp: instruments_ok_def)
  ultimately show ?thesis by (simp add: instruments_ok_def d' del: map_map)
qed

lemma find_after_insert:
  assumes "insert_instrument r d = (Inr u, d')"
  shows "find_instrument a b d' =
    (if row_identity r = (a, b) then Some (r\<lparr>ir_id := next_id (db_instruments d)\<rparr>)
     else find_instrument a b d)"
  using assms
  by (auto simp: insert_instrument_def no_clash find_instrument_identity find_insert_row split: if_splits)

lemma find_after_update:
  assumes u: "update_instrument (ir_id row) r d = (Inr u, d')" and ok: "instruments_ok d"
    and row: "find_instrument (ir_exchange r) (ir_tradingsymbol r) d = Some row"
  shows "find_instrument a b d' =
    (if row_identity r = (a, b) then Some (r\<lparr>ir_id := ir_id row\<rparr>) else find_instrument a b d)"
proof -
  from row have "row \<in> set (db_instruments d) \<and> row_identity row = (ir_exchange r, ir_tradingsymbol r)"
    unfolding find_instrument_identity by (rule find_Some_D)
  then have x: "row \<in> set (db_instruments d)" "row_identity row = row_identity (r\<lparr>ir_id := ir_id row\<rparr>)"
    by (simp_all add: row_identity_def)
  from u have d': "db_instruments d' =
      map (\<lambda>x. if ir_id x = ir_id row then r\<lparr>ir_id := ir_id row\<rparr> else x) (db_instruments d)"
    by (auto simp: update_instrument_def split: if_splits)
  show ?thesis
    unfolding find_instrument_identity d'
    using find_replace_row [OF _ _ x, of ir_id "(a, b)"] ok
    by (simp add: instruments_ok_def keyed_distinct)
qed

subsection \<open>The upsert\<close>

definition item_identity :: "broker_item \<Rightarrow> string \<times> string" where
  "item_identity item =
     (upper (str_get item ''exchange'' []), upper (str_get item ''tradingsymbol'' []))"

definition symbol_identity :: "watchlist_symbol \<Rightarrow> string \<times> string" where
  "symbol_identity s = (ws_exchange s, ws_tradingsymbol s)"

text \<open>The last row of the dump for a symbol, and what the table holds of it.\<close>

definition last_item :: "broker_item list \<Rightarrow> string \<times> string \<Rightarrow> broker_item option" where
  "last_item items k = find (\<lambda>i. item_identity i = k) (rev items)"

definition stored_from :: "instant \<Rightarrow> broker_item \<Rightarrow> instrument_row \<Rightarrow> bool" where
  "stored_from now item row \<longleftrightarrow>
     (\<exists>v. instrument_values now item = Inr v \<and> row = v\<lparr>ir_id := ir_id row\<rparr>)"

definition instrument_of :: "database \<Rightarrow> string \<times> string \<Rightarrow> instrument_row option" where
  "instrument_of d k = find_instrument (fst k) (snd k) d"

lemma wanted_item_iff: "wanted_item wl item \<longleftrightarrow> item_identity item \<in> symbol_identity ` set wl"
  unfolding wanted_item_def list_ex_iff item_identity_def symbol_identity_def image_iff prod.inject
  by metis

lemma values_identity: "instrument_values now item = Inr v \<Longrightarrow> row_identity v = item_identity item"
  by (auto simp: instrument_values_def row_identity_def item_identity_def split: option.splits)

lemma values_active: "instrument_values now item = Inr v \<Longrightarrow> ir_is_active v"
  by (auto simp: instrument_values_def split: option.splits)

lemma statement_read [simp]:
  "statement (readS f) t =
     (if tx_aborted t then (Inl (OtherError ''current transaction is aborted''), t)
      else (Inr (f (tx_tables t)), t))"
  by (simp add: statement_def)

lemma statement_Inr: "statement m t = (Inr x, t') \<longleftrightarrow>
    \<not> tx_aborted t \<and> (\<exists>d. m (tx_tables t) = (Inr x, d) \<and> t' = t\<lparr>tx_tables := d\<rparr>)"
  by (auto simp: statement_def split: prod.splits sum.splits)

lemma statement_Inl: "statement m t = (Inl e, t') \<Longrightarrow> tx_tables t' = tx_tables t \<and> tx_aborted t'"
  by (auto simp: statement_def split: prod.splits sum.splits if_splits)

text \<open>A row was written: the tables are those of one insert or one update.\<close>

lemma upsert_row_ok:
  assumes u: "upsert_row r t = (Inr z, t')" and ok: "instruments_ok (tx_tables t)"
  shows "\<not> tx_aborted t \<and> \<not> tx_aborted t' \<and> z \<noteq> Failed \<and> instruments_ok (tx_tables t') \<and>
    tx_tables t' = (tx_tables t)\<lparr>db_instruments := db_instruments (tx_tables t')\<rparr> \<and>
    (\<exists>i. \<forall>k. instrument_of (tx_tables t') k =
       (if row_identity r = k then Some (r\<lparr>ir_id := i\<rparr>) else instrument_of (tx_tables t) k))"
proof (cases "find_instrument (ir_exchange r) (ir_tradingsymbol r) (tx_tables t)")
  case None
  with u obtain d where d: "\<not> tx_aborted t" "insert_instrument r (tx_tables t) = (Inr (), d)"
      "t' = t\<lparr>tx_tables := d\<rparr>" "z = Inserted"
    by (auto simp: upsert_row_def bindS_Inr_iff statement_Inr split: option.splits if_splits)
  have "\<forall>k. instrument_of d k = (if row_identity r = k
      then Some (r\<lparr>ir_id := next_id (db_instruments (tx_tables t))\<rparr>) else instrument_of (tx_tables t) k)"
    using find_after_insert [OF d(2)] by (auto simp: instrument_of_def)
  moreover have "d = (tx_tables t)\<lparr>db_instruments := db_instruments d\<rparr>"
    using d(2) by (auto simp: insert_instrument_def split: if_splits)
  ultimately show ?thesis using d insert_instrument_ok [OF d(2) ok] by auto
next
  case (Some row)
  with u obtain d where d: "\<not> tx_aborted t" "update_instrument (ir_id row) r (tx_tables t) = (Inr (), d)"
      "t' = t\<lparr>tx_tables := d\<rparr>" "z = Updated"
    by (auto simp: upsert_row_def bindS_Inr_iff statement_Inr split: option.splits if_splits)
  have "\<forall>k. instrument_of d k = (if row_identity r = k then Some (r\<lparr>ir_id := ir_id row\<rparr>)
      else instrument_of (tx_tables t) k)"
    using find_after_update [OF d(2) ok Some] by (auto simp: instrument_of_def)
  moreover have "d = (tx_tables t)\<lparr>db_instruments := db_instruments d\<rparr>"
    using d(2) by (auto simp: update_instrument_def split: if_splits)
  ultimately show ?thesis using d update_instrument_ok [OF d(2) ok] by auto
qed

lemma upsert_row_err: "upsert_row r t = (Inl e, t') \<Longrightarrow> tx_tables t' = tx_tables t"
  by (auto simp: upsert_row_def bindS_Inl_iff dest!: statement_Inl split: option.splits if_splits)

lemma upsert_item_cases:
  assumes "upsert_item now wl item t = (r, t')" "instruments_ok (tx_tables t)"
  shows "(r = Inr Skipped \<and> \<not> wanted_item wl item \<and> t' = t) \<or>
    (r = Inr Failed \<and> tx_tables t' = tx_tables t) \<or>
    (\<exists>z v. r = Inr z \<and> wanted_item wl item \<and> instrument_values now item = Inr v \<and>
       upsert_row v t = (Inr z, t'))"
proof (cases "wanted_item wl item")
  case False
  with assms show ?thesis by (simp add: upsert_item_def tryS_def)
next
  case True
  show ?thesis
  proof (cases "instrument_values now item")
    case (Inl e)
    with True assms show ?thesis by (auto simp: upsert_item_def tryS_def)
  next
    case (Inr v)
    obtain q t1 where q: "upsert_row v t = (q, t1)" by (metis surj_pair)
    show ?thesis
    proof (cases q)
      case (Inl e)
      with True assms Inr q upsert_row_err [of v t e t1] show ?thesis
        by (auto simp: upsert_item_def tryS_def)
    next
      case (Inr z)
      with True assms \<open>instrument_values now item = Inr v\<close> q show ?thesis
        by (auto simp: upsert_item_def tryS_def)
    qed
  qed
qed

definition upsert_loop_inv ::
  "instant \<Rightarrow> watchlist_symbol list \<Rightarrow> database \<Rightarrow> broker_item list \<Rightarrow> upsert_outcome list \<Rightarrow>
    sql_session \<Rightarrow> bool" where
  "upsert_loop_inv now wl d us vs t \<longleftrightarrow>
     instruments_ok (tx_tables t) \<and> length vs = length us \<and> (tx_aborted t \<longrightarrow> Failed \<in> set vs) \<and>
     tx_tables t = d\<lparr>db_instruments := db_instruments (tx_tables t)\<rparr> \<and>
     (\<forall>k. k \<notin> symbol_identity ` set wl \<longrightarrow> instrument_of (tx_tables t) k = instrument_of d k) \<and>
     (Failed \<notin> set vs \<longrightarrow> (\<forall>k \<in> symbol_identity ` set wl.
        case last_item us k of
          None \<Rightarrow> instrument_of (tx_tables t) k = instrument_of d k
        | Some item \<Rightarrow> \<exists>row. instrument_of (tx_tables t) k = Some row \<and> stored_from now item row))"

lemma last_item_snoc: "last_item (us @ [u]) k = (if item_identity u = k then Some u else last_item us k)"
  by (simp add: last_item_def)

lemma upsert_loop_step:
  assumes I: "upsert_loop_inv now wl d us vs t" and st: "upsert_item now wl u t = (Inr v, t')"
  shows "upsert_loop_inv now wl d (us @ [u]) (vs @ [v]) t'"
proof -
  have ok: "instruments_ok (tx_tables t)" using I by (simp add: upsert_loop_inv_def)
  from upsert_item_cases [OF st ok] consider
      (skip) "v = Skipped" "\<not> wanted_item wl u" "t' = t"
    | (fail) "v = Failed" "tx_tables t' = tx_tables t"
    | (row) r where "wanted_item wl u" "instrument_values now u = Inr r" "upsert_row r t = (Inr v, t')"
    by auto
  then show ?thesis
  proof cases
    case skip
    then have "item_identity u \<notin> symbol_identity ` set wl" by (simp add: wanted_item_iff)
    then have l: "last_item (us @ [u]) k = last_item us k" if "k \<in> symbol_identity ` set wl" for k
      using that by (auto simp: last_item_snoc)
    show ?thesis using I skip l by (auto simp: upsert_loop_inv_def)
  next
    case fail
    with I show ?thesis by (auto simp: upsert_loop_inv_def)
  next
    case row
    from upsert_row_ok [OF row(3) ok] obtain i where w: "\<not> tx_aborted t" "\<not> tx_aborted t'" "v \<noteq> Failed"
      "instruments_ok (tx_tables t')"
      "tx_tables t' = (tx_tables t)\<lparr>db_instruments := db_instruments (tx_tables t')\<rparr>"
      and f: "\<And>k. instrument_of (tx_tables t') k =
       (if row_identity r = k then Some (r\<lparr>ir_id := i\<rparr>) else instrument_of (tx_tables t) k)"
      by blast
    have id: "row_identity r = item_identity u" by (rule values_identity [OF row(2)])
    have s: "stored_from now u (r\<lparr>ir_id := i\<rparr>)" using row(2) by (auto simp: stored_from_def)
    have fr: "tx_tables t' = d\<lparr>db_instruments := db_instruments (tx_tables t')\<rparr>"
      using I w(5) by (metis (no_types, lifting) upsert_loop_inv_def database.surjective database.update_convs(3))
    show ?thesis
      using I w(1-4) row(1) fr s
      by (auto simp: upsert_loop_inv_def f id last_item_snoc wanted_item_iff cong: option.case_cong)
  qed
qed

lemma upsert_item_total: "\<exists>z t'. upsert_item now wl item t = (Inr z, t')"
  by (auto simp: upsert_item_def tryS_def split: prod.splits sum.splits)

lemma upsert_loop_total: "\<exists>zs t'. mapS (upsert_item now wl) items t = (Inr zs, t')"
proof (induction items arbitrary: t)
  case Nil
  then show ?case by simp
next
  case (Cons item items)
  obtain z t1 where "upsert_item now wl item t = (Inr z, t1)" using upsert_item_total by blast
  moreover obtain zs t2 where "mapS (upsert_item now wl) items t1 = (Inr zs, t2)" using Cons by blast
  ultimately show ?case by (simp add: bindS_def)
qed

lemma upsert_loop:
  assumes "instruments_ok d" "mapS (upsert_item now wl) items (begin_session d) = (Inr zs, t)"
  shows "upsert_loop_inv now wl d items zs t"
proof (rule mapS_induct [OF assms(2)])
  show "upsert_loop_inv now wl d [] [] (begin_session d)"
    by (simp add: upsert_loop_inv_def begin_session_def assms(1) last_item_def)
qed (rule upsert_loop_step)

lemma count_outcomes: "count_list zs Inserted + count_list zs Updated + count_list zs Skipped
    + count_list zs Failed = length zs"
proof (induction zs)
  case Nil
  then show ?case by simp
next
  case (Cons z zs)
  then show ?case by (cases z) auto
qed

lemma sql_upsert_unfold:
  assumes "sql_upsert_instruments now items wl d = (res, d')"
  shows "\<exists>zs t. mapS (upsert_item now wl) items (begin_session d) = (Inr zs, t) \<and> d' = commit_tables d t \<and>
    res = Inr \<lparr>sync_fetched = length items, sync_inserted = count_list zs Inserted,
      sync_updated = count_list zs Updated, sync_skipped = count_list zs Skipped,
      sync_failed = count_list zs Failed, sync_watchlist_validation = None\<rparr>"
proof -
  obtain zs t where m: "mapS (upsert_item now wl) items (begin_session d) = (Inr zs, t)"
    using upsert_loop_total by blast
  with assms show ?thesis by (auto simp: sql_upsert_instruments_def)
qed

lemma sql_upsert_ok:
  assumes "sql_upsert_instruments now items wl d = (res, d')" "instruments_ok d"
  shows "instruments_ok d'" "d' = d\<lparr>db_instruments := db_instruments d'\<rparr>"
    "k \<notin> symbol_identity ` set wl \<Longrightarrow> instrument_of d' k = instrument_of d k"
proof -
  from sql_upsert_unfold [OF assms(1)] obtain zs t where
    m: "mapS (upsert_item now wl) items (begin_session d) = (Inr zs, t)" and d': "d' = commit_tables d t"
    by blast
  note I = upsert_loop [OF assms(2) m]
  from I d' assms(2) show "instruments_ok d'" "d' = d\<lparr>db_instruments := db_instruments d'\<rparr>"
    by (auto simp: upsert_loop_inv_def commit_tables_def)
  assume "k \<notin> symbol_identity ` set wl"
  with I have "instrument_of (tx_tables t) k = instrument_of d k" unfolding upsert_loop_inv_def by blast
  with d' show "instrument_of d' k = instrument_of d k" by (simp add: commit_tables_def)
qed

lemma count_list_0: "count_list xs x = 0 \<longleftrightarrow> x \<notin> set xs"
  by (induction xs) auto

lemma sql_upsert_stores:
  assumes u: "sql_upsert_instruments now items wl d = (Inr r, d')" and ok: "instruments_ok d"
    and f: "sync_failed r = 0" and k: "k \<in> symbol_identity ` set wl"
    and l: "last_item items k = Some item"
  shows "\<exists>row. instrument_of d' k = Some row \<and> stored_from now item row"
proof -
  from sql_upsert_unfold [OF u] obtain zs t where
    m: "mapS (upsert_item now wl) items (begin_session d) = (Inr zs, t)" and d': "d' = commit_tables d t"
    and r: "sync_failed r = count_list zs Failed" by auto
  from f r have "Failed \<notin> set zs" by (simp add: count_list_0)
  with upsert_loop [OF ok m] k l d' show ?thesis
    by (auto simp: upsert_loop_inv_def commit_tables_def dest!: bspec)
qed

subsection \<open>The candle table\<close>

definition candle_identity :: "candle_row \<Rightarrow> int \<times> string \<times> instant" where
  "candle_identity r = (cr_instrument_id r, cr_timeframe r, cr_started_at r)"

definition completed_identity :: "completed_candle \<Rightarrow> int \<times> string \<times> instant" where
  "completed_identity c = (cc_instrument_id c, cc_timeframe c, cc_started_at c)"

definition candles_ok :: "database \<Rightarrow> bool" where
  "candles_ok d \<longleftrightarrow> keyed cr_id (db_candles d) \<and> distinct (map candle_identity (db_candles d))"

definition candle_of :: "database \<Rightarrow> int \<times> string \<times> instant \<Rightarrow> candle_row option" where
  "candle_of d k = find (\<lambda>r. candle_identity r = k) (db_candles d)"

text \<open>The last completed candle of the argument for an identity.\<close>

definition last_candle :: "completed_candle list \<Rightarrow> int \<times> string \<times> instant \<Rightarrow> completed_candle option" where
  "last_candle cs k = find (\<lambda>c. completed_identity c = k) (rev cs)"

lemma is_candle_identity: "is_candle a b c r \<longleftrightarrow> candle_identity r = (a, b, c)"
  by (simp add: is_candle_def candle_identity_def)

lemma values_candle [simp]:
  "candle_identity (candle_values c i) = completed_identity c" "cr_id (candle_values c i) = i"
  by (simp_all add: candle_values_def candle_identity_def completed_identity_def)

lemma save_candle_ok:
  assumes s: "save_candle c d = (Inr u, d')" and ok: "candles_ok d"
  shows "candles_ok d' \<and> d' = d\<lparr>db_candles := db_candles d'\<rparr> \<and>
    (\<exists>i. \<forall>k. candle_of d' k =
       (if completed_identity c = k then Some (candle_values c i) else candle_of d k))"
proof (cases "candle_of d (completed_identity c)")
  case None
  with s have d': "d' = d\<lparr>db_candles := db_candles d @ [candle_values c (next_id (db_candles d))]\<rparr>"
    by (auto simp: save_candle_def candle_of_def is_candle_identity [abs_def] completed_identity_def
        split: if_splits)
  have fresh: "candle_identity (candle_values c (next_id (db_candles d))) \<notin> candle_identity ` set (db_candles d)"
    using None by (auto simp: candle_of_def dest: find_None_D)
  show ?thesis
    using ok fresh find_insert_row [OF fresh]
    by (auto simp: d' candles_ok_def keyed_append candle_of_def)
next
  case (Some row)
  with s have d': "db_candles d' = map (\<lambda>x. if cr_id x = cr_id row then candle_values c (cr_id row) else x) (db_candles d)"
    and fr: "d' = d\<lparr>db_candles := db_candles d'\<rparr>"
    by (auto simp: save_candle_def candle_of_def is_candle_identity [abs_def] completed_identity_def
        split: if_splits)
  from Some have x: "row \<in> set (db_candles d)" "candle_identity row = candle_identity (candle_values c (cr_id row))"
    unfolding candle_of_def by (auto dest: find_Some_D)
  from ok have k: "distinct (map cr_id (db_candles d))" and g: "distinct (map candle_identity (db_candles d))"
    by (auto simp: candles_ok_def keyed_distinct)
  have no: "candle_identity y \<noteq> candle_identity (candle_values c (cr_id row))"
    if "y \<in> set (db_candles d)" "cr_id y \<noteq> cr_id row" for y
    using that x g by (auto simp: distinct_map inj_on_def)
  have "candles_ok d'"
    using ok keyed_replace [of cr_id "db_candles d" "candle_values c (cr_id row)"]
      distinct_replace [OF k g no]
    by (simp add: candles_ok_def d')
  moreover have "\<forall>k. candle_of d' k =
       (if completed_identity c = k then Some (candle_values c (cr_id row)) else candle_of d k)"
    using find_replace_row [OF k g x] by (simp add: candle_of_def d')
  ultimately show ?thesis using fr by blast
qed

definition save_inv :: "database \<Rightarrow> completed_candle list \<Rightarrow> unit list \<Rightarrow> database \<Rightarrow> bool" where
  "save_inv d us vs d' \<longleftrightarrow> candles_ok d' \<and> d' = d\<lparr>db_candles := db_candles d'\<rparr> \<and>
     length vs = length us \<and>
     (\<forall>k. case last_candle us k of
        None \<Rightarrow> candle_of d' k = candle_of d k
      | Some c \<Rightarrow> \<exists>i. candle_of d' k = Some (candle_values c i))"

lemma save_step:
  assumes I: "save_inv d us vs d1" and s: "save_candle u d1 = (Inr v, d2)"
  shows "save_inv d (us @ [u]) (vs @ [v]) d2"
proof -
  have ok: "candles_ok d1" using I by (simp add: save_inv_def)
  from save_candle_ok [OF s ok] obtain i where w: "candles_ok d2" "d2 = d1\<lparr>db_candles := db_candles d2\<rparr>"
    and f: "\<And>k. candle_of d2 k = (if completed_identity u = k then Some (candle_values u i) else candle_of d1 k)"
    by blast
  have l: "last_candle (us @ [u]) k = (if completed_identity u = k then Some u else last_candle us k)" for k
    by (simp add: last_candle_def)
  have fr: "d2 = d\<lparr>db_candles := db_candles d2\<rparr>"
    using I w(2) by (metis (no_types, lifting) save_inv_def database.surjective database.update_convs(4))
  show ?thesis using I w(1) fr by (auto simp: save_inv_def f l cong: option.case_cong)
qed

lemma sql_save_ok:
  assumes "sql_save_completed_candles cs d = (Inr n, d')" "candles_ok d"
  shows "n = length cs \<and> candles_ok d' \<and> d' = d\<lparr>db_candles := db_candles d'\<rparr> \<and>
    (\<forall>k. case last_candle cs k of
        None \<Rightarrow> candle_of d' k = candle_of d k
      | Some c \<Rightarrow> \<exists>i. candle_of d' k = Some (candle_values c i))"
proof -
  from assms(1) obtain vs where m: "mapS save_candle cs d = (Inr vs, d')" and n: "n = length vs"
    by (auto simp: sql_save_completed_candles_def transaction_ok bindS_Inr_iff)
  have "save_inv d cs vs d'"
  proof (rule mapS_induct [OF m])
    show "save_inv d [] [] d" using assms(2) by (simp add: save_inv_def last_candle_def)
  qed (rule save_step)
  with n show ?thesis by (simp add: save_inv_def)
qed

lemma sql_save_err: "sql_save_completed_candles cs d = (Inl e, d') \<Longrightarrow> d' = d"
  by (simp add: sql_save_completed_candles_def transaction_err)

end
