(* ===== verification/WatchlistValidation.thy ===== *)
theory WatchlistValidation
  imports MarketData
begin

section \<open>Watchlist validation and instrument sync\<close>

text \<open>
  \<^verbatim>\<open>WatchlistValidationService.validate\<close> of \<^verbatim>\<open>app/market_data/watchlist_validation.py\<close> and
  \<^verbatim>\<open>InstrumentSyncService.sync\<close> of \<^verbatim>\<open>app/market_data/instrument_sync.py\<close>. Both work on a market
  repository: a record of its operations, with the laws they rely on in the locale \<open>market_store\<close>,
  which the SQL repository of \<open>MarketData\<close> satisfies. The broker's client, the session provider and
  the reading of files are parameters.
\<close>

subsection \<open>The repository interface\<close>

record 's market_repository =
  mk_upsert_instruments ::
    "instant \<Rightarrow> broker_item list \<Rightarrow> watchlist_symbol list \<Rightarrow> ('s, instrument_sync_result) prog"
  mk_resolve_watchlist :: "watchlist_symbol list \<Rightarrow> ('s, instrument_record list) prog"
  mk_inspect_watchlist :: "watchlist_symbol list \<Rightarrow> ('s, instrument_record list) prog"
  mk_save_completed_candles :: "completed_candle list \<Rightarrow> ('s, nat) prog"

definition sql_market_repository :: "database market_repository" where
  "sql_market_repository =
     \<lparr>mk_upsert_instruments = sql_upsert_instruments, mk_resolve_watchlist = sql_resolve_watchlist,
      mk_inspect_watchlist = sql_inspect_watchlist,
      mk_save_completed_candles = sql_save_completed_candles\<rparr>"

subsection \<open>The validation result\<close>

record watchlist_validation_result =
  wv_raw_watchlist :: string
  wv_source :: string
  wv_configured_count :: nat
  wv_max_instruments :: int
  wv_parsed_symbols :: "string list"
  wv_normalized_symbols :: "string list"
  wv_invalid_format_symbols :: "string list"
  wv_duplicate_symbols :: "string list"
  wv_non_nse_symbols :: "string list"
  wv_blank_entries :: "int list"
  wv_over_limit :: bool
  wv_resolved_symbols :: "string list"
  wv_missing_symbols :: "string list"
  wv_inactive_symbols :: "string list"
  wv_unresolved_symbols :: "string list"
  wv_ready_for_instrument_sync :: bool
  wv_ready_for_stream :: bool
  wv_errors :: "string list"
  wv_warnings :: "string list"

definition validation_as_dict :: "watchlist_validation_result \<Rightarrow> (string \<times> json) list" where
  "validation_as_dict v =
     [(''raw_watchlist'', JStr (wv_raw_watchlist v)),
      (''source'', JStr (wv_source v)),
      (''configured_count'', JInt (int (wv_configured_count v))),
      (''max_instruments'', JInt (wv_max_instruments v)),
      (''parsed_symbols'', jstrs (wv_parsed_symbols v)),
      (''normalized_symbols'', jstrs (wv_normalized_symbols v)),
      (''invalid_format_symbols'', jstrs (wv_invalid_format_symbols v)),
      (''duplicate_symbols'', jstrs (wv_duplicate_symbols v)),
      (''non_nse_symbols'', jstrs (wv_non_nse_symbols v)),
      (''blank_entries'', JList (map JInt (wv_blank_entries v))),
      (''over_limit'', JBool (wv_over_limit v)),
      (''resolved_symbols'', jstrs (wv_resolved_symbols v)),
      (''missing_symbols'', jstrs (wv_missing_symbols v)),
      (''inactive_symbols'', jstrs (wv_inactive_symbols v)),
      (''unresolved_symbols'', jstrs (wv_unresolved_symbols v)),
      (''ready_for_instrument_sync'', JBool (wv_ready_for_instrument_sync v)),
      (''ready_for_stream'', JBool (wv_ready_for_stream v)),
      (''errors'', jstrs (wv_errors v)),
      (''warnings'', jstrs (wv_warnings v))]"

text \<open>\<^verbatim>\<open>{record.key: record for record in records}\<close>: the last record of a key wins.\<close>

definition record_by_key :: "instrument_record list \<Rightarrow> string \<Rightarrow> instrument_record option" where
  "record_by_key records key = find (\<lambda>r. ic_key r = key) (rev records)"

definition validation_of ::
  "watchlist_source \<Rightarrow> int \<Rightarrow> instrument_record list \<Rightarrow> watchlist_validation_result" where
  "validation_of source max_instruments records =
     (let parsed = diagnose_entries source max_instruments;
          normalized = dw_normalized_symbols parsed;
          resolved = sort (filter (\<lambda>k. record_by_key records k \<noteq> None) normalized);
          missing = sort (filter (\<lambda>k. record_by_key records k = None) normalized);
          inactive = sort (filter (\<lambda>k. case record_by_key records k of
                       None \<Rightarrow> False | Some r \<Rightarrow> \<not> ic_is_active r) normalized);
          unresolved = sort (remdups (missing @ inactive));
          errors = uniq (source_errors source @ dw_errors parsed
            @ (if missing \<noteq> [] then [''watchlist_symbols_not_synced''] else [])
            @ (if inactive \<noteq> [] then [''watchlist_symbols_inactive''] else []));
          warnings = uniq (source_warnings source @ dw_warnings parsed);
          ready_for_sync = (source_errors source = [] \<and> dw_errors parsed = [])
      in \<lparr>wv_raw_watchlist = raw_watchlist source, wv_source = source_name source,
          wv_configured_count = dw_configured_count parsed, wv_max_instruments = max_instruments,
          wv_parsed_symbols = dw_parsed_symbols parsed, wv_normalized_symbols = normalized,
          wv_invalid_format_symbols = dw_invalid_format_symbols parsed,
          wv_duplicate_symbols = dw_duplicate_symbols parsed,
          wv_non_nse_symbols = dw_non_nse_symbols parsed, wv_blank_entries = blank_entries source,
          wv_over_limit = dw_over_limit parsed, wv_resolved_symbols = resolved,
          wv_missing_symbols = missing, wv_inactive_symbols = inactive,
          wv_unresolved_symbols = unresolved, wv_ready_for_instrument_sync = ready_for_sync,
          wv_ready_for_stream = (ready_for_sync \<and> missing = [] \<and> inactive = []),
          wv_errors = errors, wv_warnings = warnings\<rparr>)"

definition validate ::
  "'s market_repository \<Rightarrow> (string \<Rightarrow> string option) \<Rightarrow> settings \<Rightarrow> ('s, watchlist_validation_result) prog"
  where
  "validate repo read_text s =
     (let source = load_watchlist_source read_text s;
          parsed = diagnose_entries source (market_data_max_instruments s)
      in bindS (if dw_symbols parsed = [] then retS []
                else mk_inspect_watchlist repo (dw_symbols parsed)) (\<lambda>records.
           retS (validation_of source (market_data_max_instruments s) records)))"

subsection \<open>Instrument sync\<close>

text \<open>
  \<open>session\<close> is what the session provider returns or raises, \<open>fetch\<close> the broker client's call with
  the API key and the access token of the session.
\<close>

definition sync_instruments ::
  "'s market_repository \<Rightarrow> (string \<Rightarrow> string option) \<Rightarrow> settings \<Rightarrow> instant \<Rightarrow> (string \<times> string) res \<Rightarrow>
    (string \<Rightarrow> string \<Rightarrow> broker_item list res) \<Rightarrow> ('s, instrument_sync_result) prog" where
  "sync_instruments repo read_text s now session fetch =
     (if \<not> instrument_sync_enabled s
      then raiseS (InstrumentSyncDisabledError ''Instrument sync is disabled.'')
      else bindS (liftS (strict_configured_watchlist read_text s)) (\<lambda>watchlist.
        case session of
          Inl e \<Rightarrow> raiseS (MarketDataSessionError ''Active Kite session is required for instrument sync.'')
        | Inr (api_key, access_token) \<Rightarrow>
            bindS (liftS (fetch api_key access_token)) (\<lambda>broker_instruments.
            bindS (mk_upsert_instruments repo now broker_instruments watchlist) (\<lambda>result.
            bindS (validate repo read_text s) (\<lambda>validation.
            retS (result\<lparr>sync_watchlist_validation := Some (JObj (validation_as_dict validation))\<rparr>))))))"

subsection \<open>What the services rely on\<close>

locale market_store =
  fixes repo :: "'s market_repository"
    and ok :: "'s \<Rightarrow> bool"
    and lookup :: "'s \<Rightarrow> watchlist_symbol \<Rightarrow> instrument_record option"
  assumes inspect_result: "ok st \<Longrightarrow> mk_inspect_watchlist repo ws st = (Inr rs, st') \<Longrightarrow>
      st' = st \<and> rs = List.map_filter (lookup st) ws"
    and resolve_active: "ok st \<Longrightarrow> mk_inspect_watchlist repo ws st = (Inr rs, st') \<Longrightarrow>
      mk_resolve_watchlist repo ws st = (Inr (filter ic_is_active rs), st)"
    and inspect_frame: "mk_inspect_watchlist repo ws st = (res, st') \<Longrightarrow> st' = st"
    and lookup_key: "lookup st w = Some r \<Longrightarrow> ic_key r = ws_key w"
    and upsert_ok: "ok st \<Longrightarrow> mk_upsert_instruments repo now items ws st = (ures, st') \<Longrightarrow> ok st'"
begin

lemma validate_frame: "validate repo read_text s st = (r, st') \<Longrightarrow> st' = st"
  by (auto simp: validate_def Let_def bindS_def dest!: inspect_frame
      split: prod.splits sum.splits if_splits)

end

lemma map_filter_all:
  "(\<And>x. x \<in> set xs \<Longrightarrow> f x \<noteq> None) \<Longrightarrow> List.map_filter f xs = map (\<lambda>x. the (f x)) xs"
proof (induction xs)
  case Nil
  then show ?case by (simp add: List.map_filter_simps)
next
  case (Cons x xs)
  from Cons.prems [of x] obtain y where "f x = Some y" by auto
  moreover have "List.map_filter f xs = map (\<lambda>x. the (f x)) xs" by (rule Cons.IH) (rule Cons.prems, simp)
  ultimately show ?case by (simp add: List.map_filter_simps)
qed

lemma map_filter_mem: "y \<in> set (List.map_filter f xs) \<longleftrightarrow> (\<exists>x \<in> set xs. f x = Some y)"
  by (induction xs) (auto simp: List.map_filter_simps split: option.splits)

lemma validation_ready:
  "wv_ready_for_stream (validation_of source n records) \<longleftrightarrow>
     source_errors source = [] \<and> dw_errors (diagnose_entries source n) = [] \<and>
     (\<forall>k \<in> set (dw_normalized_symbols (diagnose_entries source n)).
        \<exists>r. record_by_key records k = Some r \<and> ic_is_active r)"
proof -
  have *: "sort (filter P ks) = [] \<longleftrightarrow> (\<forall>k \<in> set ks. \<not> P k)" for P and ks :: "string list"
    by (metis filter_False filter_empty_conv set_empty set_sort sort_key_simps(1))
  show ?thesis
    unfolding validation_of_def Let_def
    by (auto simp: * split: option.splits)
qed

context market_store
begin

text \<open>
  A configuration that the validation calls ready for the stream resolves completely: one active
  instrument per configured symbol, in the configured order.
\<close>

lemma ready_inspects:
  assumes v: "validate repo read_text s st = (Inr v, st')" and ok: "ok st"
    and ready: "wv_ready_for_stream v"
    and comma: "list_all (\<lambda>e. CHR '','' \<notin> set e) (configured_watchlist_entries read_text s)"
  shows "\<exists>ws rs. strict_configured_watchlist read_text s = Inr ws \<and>
    mk_inspect_watchlist repo ws st = (Inr rs, st) \<and> distinct (map ws_key ws) \<and>
    map ic_key rs = map ws_key ws \<and> list_all ic_is_active rs"
proof -
  let ?src = "load_watchlist_source read_text s"
  let ?d = "diagnose_entries ?src (market_data_max_instruments s)"
  from v obtain records where
    r: "(if dw_symbols ?d = [] then retS [] else mk_inspect_watchlist repo (dw_symbols ?d)) st = (Inr records, st')"
    and v': "v = validation_of ?src (market_data_max_instruments s) records"
    by (auto simp: validate_def Let_def bindS_Inr_iff)
  from ready v' have e: "source_errors ?src = []" "dw_errors ?d = []"
    and act: "\<And>k. k \<in> set (dw_normalized_symbols ?d) \<Longrightarrow>
        \<exists>r. record_by_key records k = Some r \<and> ic_is_active r"
    by (auto simp: validation_ready)
  from e(2) obtain ws where ws: "parse_entries [] (source_entries ?src) = Inr ws"
    by (auto simp: diagnose_errors_parse)
  note cs = clean_symbols [OF e(2) ws]
  have strict: "strict_configured_watchlist read_text s = Inr ws"
    using diagnosed_ready_parses [OF comma [unfolded configured_watchlist_entries_def] e] cs by simp
  have ne: "ws \<noteq> []"
  proof -
    from strict e(1) have "parse_watchlist (raw_watchlist ?src) (market_data_max_instruments s) = Inr ws"
      by (simp add: strict_configured_watchlist_def Let_def)
    then show ?thesis by (rule parse_watchlist_facts)
  qed
  with r cs have insp: "mk_inspect_watchlist repo ws st = (Inr records, st')" by simp
  from inspect_result [OF ok insp] have recs: "records = List.map_filter (lookup st) ws" by simp
  have d: "distinct (map ws_key ws)" using ws by (simp add: parse_entries_iff)
  have found: "\<exists>r. lookup st w = Some r \<and> ic_is_active r" if w: "w \<in> set ws" for w
  proof -
    from w cs act [of "ws_key w"] obtain r where k: "record_by_key records (ws_key w) = Some r" "ic_is_active r"
      by auto
    from k(1) have "r \<in> set records \<and> ic_key r = ws_key w"
      unfolding record_by_key_def using find_Some_D by fastforce
    then obtain w' where w': "w' \<in> set ws" "lookup st w' = Some r" "ic_key r = ws_key w"
      by (auto simp: recs map_filter_mem)
    then have "ws_key w' = ws_key w" using lookup_key by metis
    with w w'(1) d have "w' = w" by (auto simp: distinct_map inj_on_def)
    with w' k show ?thesis by blast
  qed
  then have "records = map (\<lambda>w. the (lookup st w)) ws" unfolding recs by (intro map_filter_all) auto
  moreover have "ic_key (the (lookup st w)) = ws_key w \<and> ic_is_active (the (lookup st w))"
    if "w \<in> set ws" for w
    using found [OF that] lookup_key by auto
  ultimately have "map ic_key records = map ws_key ws" "list_all ic_is_active records"
    by (auto simp: list_all_iff)
  moreover from insp inspect_frame have "st' = st" by blast
  ultimately show ?thesis using strict insp d by auto
qed

lemma ready_resolves:
  assumes "validate repo read_text s st = (Inr v, st')" "ok st" "wv_ready_for_stream v"
    and "list_all (\<lambda>e. CHR '','' \<notin> set e) (configured_watchlist_entries read_text s)"
  shows "\<exists>ws rs. strict_configured_watchlist read_text s = Inr ws \<and>
    mk_resolve_watchlist repo ws st = (Inr rs, st) \<and> map ic_key rs = map ws_key ws \<and>
    list_all ic_is_active rs"
proof -
  from ready_inspects [OF assms] obtain ws rs where
    i: "strict_configured_watchlist read_text s = Inr ws" "mk_inspect_watchlist repo ws st = (Inr rs, st)"
      "map ic_key rs = map ws_key ws" "list_all ic_is_active rs" by blast
  then have "filter ic_is_active rs = rs" by (simp add: list_all_iff)
  with i resolve_active [OF assms(2) i(2)] show ?thesis by auto
qed

text \<open>Conversely, when every configured symbol is stored and active, the validation is ready.\<close>

lemma found_ready:
  assumes v: "validate repo read_text s st = (Inr v, st')" and ok: "ok st"
    and strict: "strict_configured_watchlist read_text s = Inr ws"
    and comma: "list_all (\<lambda>e. CHR '','' \<notin> set e) (configured_watchlist_entries read_text s)"
    and colon: "list_all (\<lambda>e. count_char CHR '':'' e = 1) (configured_watchlist_entries read_text s)"
    and found: "\<And>w. w \<in> set ws \<Longrightarrow> \<exists>r. lookup st w = Some r \<and> ic_is_active r"
  shows "wv_ready_for_stream v"
proof -
  let ?src = "load_watchlist_source read_text s"
  let ?d = "diagnose_entries ?src (market_data_max_instruments s)"
  note entries = comma [unfolded configured_watchlist_entries_def] colon [unfolded configured_watchlist_entries_def]
  from strict strict_watchlist_iff [OF entries] have e: "source_errors ?src = []" "dw_errors ?d = []"
    by blast+
  from e(2) obtain ws' where ws': "parse_entries [] (source_entries ?src) = Inr ws'"
    by (auto simp: diagnose_errors_parse)
  note cs = clean_symbols [OF e(2) ws']
  have "ws' = ws" using diagnosed_ready_parses [OF entries(1) e] cs(1) strict by simp
  note cs = cs [unfolded this]
  from v obtain records where
    r: "(if ws = [] then retS [] else mk_inspect_watchlist repo ws) st = (Inr records, st')"
    and v': "v = validation_of ?src (market_data_max_instruments s) records"
    unfolding validate_def Let_def cs by (auto simp: bindS_Inr_iff)
  have recs: "records = List.map_filter (lookup st) ws"
    using r inspect_result [OF ok] by (auto simp: List.map_filter_simps split: if_splits)
  have "\<exists>r. record_by_key records k = Some r \<and> ic_is_active r" if "k \<in> set (dw_normalized_symbols ?d)" for k
  proof -
    from that cs obtain w where w: "w \<in> set ws" "k = ws_key w" by auto
    from found [OF w(1)] obtain q where q: "lookup st w = Some q" by blast
    with w lookup_key have "q \<in> set records" "ic_key q = k" by (auto simp: recs map_filter_mem)
    then obtain q' where q': "record_by_key records k = Some q'"
      by (cases "record_by_key records k") (auto simp: record_by_key_def dest: find_None_D)
    then have "q' \<in> set records" unfolding record_by_key_def using find_Some_D by fastforce
    then obtain w' where "w' \<in> set ws" "lookup st w' = Some q'" by (auto simp: recs map_filter_mem)
    with found [of w'] q' show ?thesis by auto
  qed
  then show ?thesis using e by (simp add: v' validation_ready)
qed

end

subsection \<open>The SQL repository\<close>

definition sql_lookup :: "database \<Rightarrow> watchlist_symbol \<Rightarrow> instrument_record option" where
  "sql_lookup d w =
     (case instrument_of d (symbol_identity w) of
        None \<Rightarrow> None
      | Some row \<Rightarrow> (case instrument_from_row row of Inl e \<Rightarrow> None | Inr r \<Rightarrow> Some r))"

lemma instrument_from_row_facts:
  "instrument_from_row row = Inr r \<Longrightarrow> ic_is_active r = ir_is_active row \<and>
     ic_exchange r = ir_exchange row \<and> ic_tradingsymbol r = ir_tradingsymbol row"
  by (auto simp: instrument_from_row_def split: option.splits)

lemma find_active:
  assumes "distinct (map g rows)"
  shows "find (\<lambda>r. g r = k \<and> P r) rows =
    (case find (\<lambda>r. g r = k) rows of None \<Rightarrow> None | Some r \<Rightarrow> if P r then Some r else None)"
proof (rule option_eqI)
  fix z
  have "find (\<lambda>r. g r = k \<and> P r) rows = Some z \<longleftrightarrow> z \<in> set rows \<and> g z = k \<and> P z"
  proof
    assume "find (\<lambda>r. g r = k \<and> P r) rows = Some z"
    then show "z \<in> set rows \<and> g z = k \<and> P z" by (rule find_Some_D)
  next
    assume z: "z \<in> set rows \<and> g z = k \<and> P z"
    then obtain y where y: "find (\<lambda>r. g r = k \<and> P r) rows = Some y"
      by (cases "find (\<lambda>r. g r = k \<and> P r) rows") (auto dest: find_None_D)
    from find_Some_D [OF this] z assms have "y = z" by (auto simp: distinct_map inj_on_def)
    with y show "find (\<lambda>r. g r = k \<and> P r) rows = Some z" by simp
  qed
  also have "\<dots> \<longleftrightarrow> (case find (\<lambda>r. g r = k) rows of None \<Rightarrow> None | Some r \<Rightarrow> if P r then Some r else None) = Some z"
  proof (cases "find (\<lambda>r. g r = k) rows")
    case None
    then show ?thesis by (auto dest: find_None_D)
  next
    case (Some y)
    from find_Some_D [OF Some] have y: "y \<in> set rows" "g y = k" by auto
    have "z \<in> set rows \<and> g z = k \<longleftrightarrow> z = y"
      using y assms by (auto simp: distinct_map inj_on_def)
    then have "z \<in> set rows \<and> g z = k \<and> P z \<longleftrightarrow> z = y \<and> P y" by blast
    then show ?thesis by (auto simp: Some)
  qed
  finally show "find (\<lambda>r. g r = k \<and> P r) rows = Some z \<longleftrightarrow>
    (case find (\<lambda>r. g r = k) rows of None \<Rightarrow> None | Some r \<Rightarrow> if P r then Some r else None) = Some z" .
qed

lemma sql_inspect_result:
  assumes "sql_inspect_watchlist ws d = (Inr rs, d')"
  shows "d' = d \<and> rs = List.map_filter (sql_lookup d) ws"
proof -
  from assms have d': "d' = d" and m: "mapE instrument_from_row
      (List.map_filter (\<lambda>s. instrument_of d (symbol_identity s)) ws) = Inr rs"
    by (auto simp: sql_inspect_watchlist_def instrument_of_def symbol_identity_def)
  from m have "rs = List.map_filter (sql_lookup d) ws"
  proof (induction ws arbitrary: rs)
    case Nil
    then show ?case by (simp add: List.map_filter_simps)
  next
    case (Cons w ws)
    then show ?case
      by (cases "instrument_of d (symbol_identity w)")
        (auto simp: List.map_filter_simps sql_lookup_def bindE_eq_Inr)
  qed
  with d' show ?thesis by simp
qed

lemma sql_resolve_active:
  assumes ok: "instruments_ok d" and i: "sql_inspect_watchlist ws d = (Inr rs, d')"
  shows "sql_resolve_watchlist ws d = (Inr (filter ic_is_active rs), d)"
proof -
  have f: "find (\<lambda>r. is_instrument a b r \<and> ir_is_active r) (db_instruments d) =
      (case instrument_of d (a, b) of None \<Rightarrow> None | Some r \<Rightarrow> if ir_is_active r then Some r else None)" for a b
    using find_active [of row_identity "db_instruments d" "(a, b)" ir_is_active] ok
    by (simp add: is_instrument_identity instrument_of_def find_instrument_identity instruments_ok_def)
  from i have "mapE instrument_from_row
      (List.map_filter (\<lambda>s. instrument_of d (symbol_identity s)) ws) = Inr rs"
    by (auto simp: sql_inspect_watchlist_def instrument_of_def symbol_identity_def)
  then have "mapE instrument_from_row (List.map_filter
      (\<lambda>s. find (\<lambda>r. is_instrument (ws_exchange s) (ws_tradingsymbol s) r \<and> ir_is_active r)
         (db_instruments d)) ws) = Inr (filter ic_is_active rs)"
  proof (induction ws arbitrary: rs)
    case Nil
    then show ?case by (simp add: List.map_filter_simps)
  next
    case (Cons w ws)
    show ?case
    proof (cases "instrument_of d (symbol_identity w)")
      case None
      with Cons show ?thesis by (simp add: List.map_filter_simps f symbol_identity_def)
    next
      case (Some row)
      with Cons.prems obtain r rs' where r: "instrument_from_row row = Inr r" "rs = r # rs'"
        "mapE instrument_from_row
          (List.map_filter (\<lambda>s. instrument_of d (symbol_identity s)) ws) = Inr rs'"
        by (auto simp: List.map_filter_simps bindE_eq_Inr)
      from instrument_from_row_facts [OF r(1)] have "ic_is_active r = ir_is_active row" by simp
      with Cons.IH [OF r(3)] r(1,2) Some show ?thesis
        by (simp add: List.map_filter_simps f symbol_identity_def)
    qed
  qed
  then show ?thesis by (simp add: sql_resolve_watchlist_def)
qed

lemma sql_lookup_key: "sql_lookup d w = Some r \<Longrightarrow> ic_key r = ws_key w"
  by (auto simp: sql_lookup_def ic_key_def ws_key_def instrument_of_def symbol_identity_def
      find_instrument_identity row_identity_def dest!: instrument_from_row_facts find_Some_D
      split: option.splits sum.splits)

interpretation sql_market: market_store sql_market_repository instruments_ok sql_lookup
  by unfold_locales
    (auto simp: sql_market_repository_def sql_inspect_result sql_resolve_active sql_lookup_key
      sql_upsert_ok(1), auto simp: sql_inspect_watchlist_def)

text \<open>A complete sync makes the watchlist ready.\<close>

lemma mapE_mem: "mapE f xs = Inr ys \<Longrightarrow> x \<in> set xs \<Longrightarrow> \<exists>y. f x = Inr y"
  by (auto simp: mapE_Inr_iff list_all2_conv_all_nth in_set_conv_nth)

lemma stored_active:
  assumes "stored_from now item row"
  shows "ir_is_active row"
proof -
  from assms obtain v where v: "instrument_values now item = Inr v" and row: "row = v\<lparr>ir_id := ir_id row\<rparr>"
    by (auto simp: stored_from_def)
  from row have "ir_is_active row = ir_is_active (v\<lparr>ir_id := ir_id row\<rparr>)" by (rule arg_cong)
  with values_active [OF v] show ?thesis by simp
qed

lemma sync_ready:
  assumes sync: "sync_instruments sql_market_repository read_text s now session fetch d = (Inr r, d')"
    and ok: "instruments_ok d" and f: "sync_failed r = 0"
    and comma: "list_all (\<lambda>e. CHR '','' \<notin> set e) (configured_watchlist_entries read_text s)"
    and colon: "list_all (\<lambda>e. count_char CHR '':'' e = 1) (configured_watchlist_entries read_text s)"
    and session: "session = Inr (key, token)" and items: "fetch key token = Inr items"
    and all: "\<And>ws w. strict_configured_watchlist read_text s = Inr ws \<Longrightarrow> w \<in> set ws \<Longrightarrow>
        last_item items (symbol_identity w) \<noteq> None"
  shows "\<exists>v. validate sql_market_repository read_text s d' = (Inr v, d') \<and> wv_ready_for_stream v"
proof -
  from sync session items obtain ws r0 d1 v where
    ws: "strict_configured_watchlist read_text s = Inr ws"
    and u: "sql_upsert_instruments now items ws d = (Inr r0, d1)"
    and v: "validate sql_market_repository read_text s d1 = (Inr v, d')"
    and r: "sync_failed r = sync_failed r0"
    by (auto simp: sync_instruments_def bindS_Inr_iff sql_market_repository_def split: if_splits)
  have d': "d' = d1" by (rule sql_market.validate_frame [OF v])
  have ok1: "instruments_ok d1" by (rule sql_upsert_ok(1) [OF u ok])
  have row: "\<exists>row. instrument_of d1 (symbol_identity w) = Some row \<and> ir_is_active row"
    if w: "w \<in> set ws" for w
  proof -
    from all [OF ws w] obtain item where "last_item items (symbol_identity w) = Some item" by auto
    from sql_upsert_stores [OF u ok _ _ this] f r w obtain row where
      "instrument_of d1 (symbol_identity w) = Some row" "stored_from now item row" by auto
    moreover from this(2) have "ir_is_active row" by (rule stored_active)
    ultimately show ?thesis by blast
  qed
  have ne: "ws \<noteq> []" and parsed: "dw_symbols (diagnose_entries (load_watchlist_source read_text s)
      (market_data_max_instruments s)) = ws"
  proof -
    note entries = comma [unfolded configured_watchlist_entries_def] colon [unfolded configured_watchlist_entries_def]
    from ws strict_watchlist_iff [OF entries] have e:
      "source_errors (load_watchlist_source read_text s) = []"
      "dw_errors (diagnose_entries (load_watchlist_source read_text s) (market_data_max_instruments s)) = []"
      by blast+
    with diagnosed_ready_parses [OF entries(1) e] ws show "dw_symbols (diagnose_entries
      (load_watchlist_source read_text s) (market_data_max_instruments s)) = ws" by simp
    from ws e(1) show "ws \<noteq> []"
      by (auto simp: strict_configured_watchlist_def Let_def dest: parse_watchlist_facts(1))
  qed
  from v have "\<exists>recs. sql_inspect_watchlist ws d1 = (Inr recs, d')"
    by (auto simp: validate_def Let_def bindS_Inr_iff parsed ne sql_market_repository_def)
  then have m: "\<exists>recs. mapE instrument_from_row
      (List.map_filter (\<lambda>w. instrument_of d1 (symbol_identity w)) ws) = Inr recs"
    by (auto simp: sql_inspect_watchlist_def instrument_of_def symbol_identity_def)
  have found: "\<exists>q. sql_lookup d1 w = Some q \<and> ic_is_active q" if w: "w \<in> set ws" for w
  proof -
    from row [OF w] obtain row where row: "instrument_of d1 (symbol_identity w) = Some row" "ir_is_active row"
      by blast
    have mem: "row \<in> set (List.map_filter (\<lambda>w. instrument_of d1 (symbol_identity w)) ws)"
      unfolding map_filter_mem by (rule bexI [where x = w]) (rule row(1), rule w)
    from m obtain recs where "mapE instrument_from_row
      (List.map_filter (\<lambda>w. instrument_of d1 (symbol_identity w)) ws) = Inr recs" by blast
    from mapE_mem [OF this mem] obtain q where "instrument_from_row row = Inr q" by blast
    with instrument_from_row_facts [OF this] row have "sql_lookup d1 w = Some q" "ic_is_active q"
      by (auto simp only: sql_lookup_def option.case sum.case)
    then show ?thesis by blast
  qed
  have "wv_ready_for_stream v" by (rule sql_market.found_ready [OF v ok1 ws comma colon found])
  with v d' show ?thesis by auto
qed

end
