(* ===== verification/MarketExamples.thy ===== *)
theory MarketExamples
  imports WatchlistValidation
begin

section \<open>Properties of the watchlist and the market data store\<close>

text \<open>
  What the components of \<open>Watchlist\<close>, \<open>MarketData\<close> and \<open>WatchlistValidation\<close> promise, each with
  an application to a small configuration: two symbols, an empty instrument table and a dump of three
  rows of the broker.
\<close>

subsection \<open>The configuration and the dump\<close>

definition demo_watch_settings :: settings where
  "demo_watch_settings =
     default_settings\<lparr>instrument_sync_enabled := True, market_data_watchlist := ''NSE:SBIN, nse:infy''\<rparr>"

definition demo_symbols :: "watchlist_symbol list" where
  "demo_symbols = [\<lparr>ws_exchange = ''NSE'', ws_tradingsymbol = ''SBIN''\<rparr>,
     \<lparr>ws_exchange = ''NSE'', ws_tradingsymbol = ''INFY''\<rparr>]"

definition demo_item :: "int \<Rightarrow> string \<Rightarrow> broker_item" where
  "demo_item token symbol =
     [(''instrument_token'', BInt token), (''exchange'', BStr ''NSE''),
      (''tradingsymbol'', BStr symbol), (''name'', BStr symbol), (''tick_size'', BFloat ''0.05''),
      (''lot_size'', BInt 1), (''instrument_type'', BStr ''EQ'')]"

definition demo_dump :: "broker_item list" where
  "demo_dump = [demo_item 77 ''SBIN'', demo_item 5 ''TCS'', demo_item 41 ''INFY'']"

definition empty_database :: database where
  "empty_database =
     \<lparr>db_now = 0, db_broker_sessions = [], db_instruments = [], db_candles = [], db_signals = [],
      db_recommendations = [], db_orders = [], db_order_events = [], db_trades = [],
      db_journal_entries = [], db_model_runs = [],
      db_universe_runs = []\<rparr>"

lemma demo_parse: "parse_watchlist ''NSE:SBIN, nse:infy'' 10 = Inr demo_symbols"
  by code_simp

lemma demo_strict: "strict_configured_watchlist (\<lambda>_. None) demo_watch_settings = Inr demo_symbols"
  by code_simp

lemma demo_entries:
  "configured_watchlist_entries (\<lambda>_. None) demo_watch_settings = [''NSE:SBIN'', ''nse:infy'']"
  by code_simp

lemma demo_entries_ok:
  "list_all (\<lambda>e. CHR '','' \<notin> set e) (configured_watchlist_entries (\<lambda>_. None) demo_watch_settings)"
  "list_all (\<lambda>e. count_char CHR '':'' e = 1) (configured_watchlist_entries (\<lambda>_. None) demo_watch_settings)"
  unfolding demo_entries by code_simp+

lemma empty_ok: "instruments_ok empty_database" "candles_ok empty_database"
  by (simp_all add: instruments_ok_def candles_ok_def keyed_def empty_database_def)

subsection \<open>The watchlist\<close>

text \<open>A watchlist text that the strict parser accepts gives between one and the configured maximum of
  symbols, all on the NSE, in upper case, with a nonempty trading symbol, and no symbol twice.
\<close>

theorem accepted_watchlist:
  assumes "parse_watchlist raw n = Inr ss"
  shows "ss \<noteq> [] \<and> int (length ss) \<le> n \<and> distinct (map ws_key ss) \<and>
    list_all (\<lambda>s. ws_exchange s = ''NSE'' \<and> ws_tradingsymbol s \<noteq> [] \<and>
      upper (ws_tradingsymbol s) = ws_tradingsymbol s) ss"
  using parse_watchlist_facts [OF assms] by (auto simp: list_all_iff)

theorem accepted_watchlist_witness:
  "demo_symbols \<noteq> [] \<and> int (length demo_symbols) \<le> 10 \<and> distinct (map ws_key demo_symbols) \<and>
    list_all (\<lambda>s. ws_exchange s = ''NSE'' \<and> ws_tradingsymbol s \<noteq> [] \<and>
      upper (ws_tradingsymbol s) = ws_tradingsymbol s) demo_symbols"
  by (rule accepted_watchlist [OF demo_parse])

text \<open>Printing the accepted symbols as exchange, colon, symbol, separated by commas, gives a text that the
  strict parser accepts with the same symbols in the same order.
\<close>

theorem watchlist_prints_back:
  assumes "parse_watchlist raw n = Inr ss"
  shows "parse_watchlist (join '','' (map ws_key ss)) n = Inr ss"
  by (rule parse_watchlist_print [OF assms])

theorem watchlist_prints_back_witness:
  "parse_watchlist (join '','' (map ws_key demo_symbols)) 10 = Inr demo_symbols"
  by (rule watchlist_prints_back [OF demo_parse])

text \<open>C37: The diagnosis that never raises agrees with the strict parser: for a configuration whose entries
  have exactly one colon and no comma, the strict loading succeeds exactly when neither the source nor
  the diagnosis reports an error, and then both have the same symbols.
\<close>

theorem diagnosis_agrees:
  assumes "list_all (\<lambda>e. CHR '','' \<notin> set e) (configured_watchlist_entries read_text s)"
    and "list_all (\<lambda>e. count_char CHR '':'' e = 1) (configured_watchlist_entries read_text s)"
  shows "strict_configured_watchlist read_text s = Inr ss \<longleftrightarrow>
    source_errors (load_watchlist_source read_text s) = [] \<and>
    dw_errors (diagnose_entries (load_watchlist_source read_text s) (market_data_max_instruments s)) = [] \<and>
    ss = dw_symbols (diagnose_entries (load_watchlist_source read_text s) (market_data_max_instruments s))"
proof -
  note entries = assms [unfolded configured_watchlist_entries_def]
  from strict_watchlist_iff [OF entries] diagnosed_ready_parses [OF entries(1)] show ?thesis by auto
qed

theorem diagnosis_agrees_witness:
  "strict_configured_watchlist (\<lambda>_. None) demo_watch_settings = Inr demo_symbols \<longleftrightarrow>
    source_errors (load_watchlist_source (\<lambda>_. None) demo_watch_settings) = [] \<and>
    dw_errors (diagnose_entries (load_watchlist_source (\<lambda>_. None) demo_watch_settings)
      (market_data_max_instruments demo_watch_settings)) = [] \<and>
    demo_symbols = dw_symbols (diagnose_entries (load_watchlist_source (\<lambda>_. None) demo_watch_settings)
      (market_data_max_instruments demo_watch_settings))"
  by (rule diagnosis_agrees [OF demo_entries_ok])

text \<open>
  Outside those configurations they differ: the strict parser splits an entry at its first colon, and
  a line of a watchlist file at its commas.
\<close>

lemma strict_accepts_two_colons:
  "strict_configured_watchlist (\<lambda>_. None) (demo_watch_settings\<lparr>market_data_watchlist := ''NSE:A:B''\<rparr>)
     = Inr [\<lparr>ws_exchange = ''NSE'', ws_tradingsymbol = ''A:B''\<rparr>]"
  "dw_errors (diagnose_entries (load_watchlist_source (\<lambda>_. None)
     (demo_watch_settings\<lparr>market_data_watchlist := ''NSE:A:B''\<rparr>)) 10) \<noteq> []"
  by code_simp+

lemma diagnosis_accepts_comma_line:
  "dw_errors (diagnose_entries (load_watchlist_source (\<lambda>_. Some ''NSE:A,B'')
     (demo_watch_settings\<lparr>market_data_watchlist_file := ''w''\<rparr>)) 10) = []"
  "strict_configured_watchlist (\<lambda>_. Some ''NSE:A,B'')
     (demo_watch_settings\<lparr>market_data_watchlist_file := ''w''\<rparr>)
     = Inl (WatchlistError ''Watchlist entries must use EXCHANGE:TRADINGSYMBOL.'')"
  by code_simp+

subsection \<open>Readiness\<close>

definition demo_sync :: "(database, instrument_sync_result) prog" where
  "demo_sync = sync_instruments sql_market_repository (\<lambda>_. None) demo_watch_settings 0
     (Inr (''key'', ''token'')) (\<lambda>key token. Inr demo_dump)"

definition synced_database :: database where
  "synced_database = snd (demo_sync empty_database)"

lemma demo_sync_ok: "case demo_sync empty_database of (Inr r, d) \<Rightarrow> sync_failed r = 0 | _ \<Rightarrow> False"
  by code_simp

lemma demo_sync_result:
  "\<exists>r. sync_instruments sql_market_repository (\<lambda>_. None) demo_watch_settings 0 (Inr (''key'', ''token''))
     (\<lambda>key token. Inr demo_dump) empty_database = (Inr r, synced_database) \<and> sync_failed r = 0"
  using demo_sync_ok
  by (auto simp: synced_database_def demo_sync_def split: prod.splits sum.splits)

lemma demo_dump_complete:
  "list_all (\<lambda>w. last_item demo_dump (symbol_identity w) \<noteq> None) demo_symbols"
  by code_simp

lemma synced_ok: "instruments_ok synced_database"
proof -
  have "map ir_id (db_instruments synced_database) = [1, 2]"
    "map row_identity (db_instruments synced_database) = [(''NSE'', ''SBIN''), (''NSE'', ''INFY'')]"
    "map ir_kite_instrument_token (db_instruments synced_database) = [''77'', ''41'']"
    by code_simp+
  moreover from this(1) have "length (db_instruments synced_database) = 2"
    by (metis length_map list.size(3,4) One_nat_def Suc_1 add_Suc_right add.right_neutral)
  ultimately show ?thesis by (simp add: instruments_ok_def keyed_def upto_rec1)
qed

lemma synced_ready:
  "case validate sql_market_repository (\<lambda>_. None) demo_watch_settings synced_database of
     (Inr v, d) \<Rightarrow> wv_ready_for_stream v | _ \<Rightarrow> False"
  by code_simp

text \<open>When the validation calls the configuration ready for the stream, the strict loading succeeds
  and the repository resolves it to exactly one active instrument per configured symbol, in order.
\<close>

theorem ready_for_stream_resolves:
  assumes "validate sql_market_repository read_text s d = (Inr v, d')" and "instruments_ok d"
    and "wv_ready_for_stream v"
    and "list_all (\<lambda>e. CHR '','' \<notin> set e) (configured_watchlist_entries read_text s)"
  shows "\<exists>ws rs. strict_configured_watchlist read_text s = Inr ws \<and>
    sql_resolve_watchlist ws d = (Inr rs, d) \<and> map ic_key rs = map ws_key ws \<and>
    list_all ic_is_active rs"
  using sql_market.ready_resolves [OF assms] by (simp add: sql_market_repository_def)

text \<open>After an instrument sync that reports no failure and whose dump has a row for every configured
  symbol, the validation of the watchlist calls it ready for the stream.
\<close>

theorem complete_sync_is_ready:
  assumes "sync_instruments sql_market_repository read_text s now session fetch d = (Inr r, d')"
    and "instruments_ok d" and "sync_failed r = 0"
    and "list_all (\<lambda>e. CHR '','' \<notin> set e) (configured_watchlist_entries read_text s)"
    and "list_all (\<lambda>e. count_char CHR '':'' e = 1) (configured_watchlist_entries read_text s)"
    and "session = Inr (key, token)" and "fetch key token = Inr items"
    and "strict_configured_watchlist read_text s = Inr ws"
    and "list_all (\<lambda>w. last_item items (symbol_identity w) \<noteq> None) ws"
  shows "\<exists>v. validate sql_market_repository read_text s d' = (Inr v, d') \<and> wv_ready_for_stream v"
  by (rule sync_ready [OF assms(1-7)]) (use assms(8,9) in \<open>auto simp: list_all_iff\<close>)

theorem ready_for_stream_resolves_witness:
  "\<exists>ws rs. strict_configured_watchlist (\<lambda>_. None) demo_watch_settings = Inr ws \<and>
    sql_resolve_watchlist ws synced_database = (Inr rs, synced_database) \<and> map ic_key rs = map ws_key ws \<and>
    list_all ic_is_active rs"
proof -
  obtain v d where "validate sql_market_repository (\<lambda>_. None) demo_watch_settings synced_database = (Inr v, d)"
      "wv_ready_for_stream v"
    using synced_ready by (auto split: prod.splits sum.splits)
  from ready_for_stream_resolves [OF this(1) synced_ok this(2) demo_entries_ok(1)] show ?thesis .
qed

theorem complete_sync_is_ready_witness:
  "\<exists>v. validate sql_market_repository (\<lambda>_. None) demo_watch_settings synced_database = (Inr v, synced_database)
     \<and> wv_ready_for_stream v"
proof -
  obtain r where "sync_instruments sql_market_repository (\<lambda>_. None) demo_watch_settings 0
      (Inr (''key'', ''token'')) (\<lambda>key token. Inr demo_dump) empty_database = (Inr r, synced_database)"
      "sync_failed r = 0"
    using demo_sync_result by blast
  from complete_sync_is_ready [OF this(1) empty_ok(1) this(2) demo_entries_ok refl refl demo_strict demo_dump_complete]
  show ?thesis .
qed

subsection \<open>What a sync and a save write\<close>

text \<open>An instrument sync only writes instruments of the watchlist: whatever the dump holds and
  whichever rows fail, every other instrument is stored as before, no other table changes, and the
  keys, symbols and tokens of the table stay unique.
\<close>

theorem sync_confined:
  assumes "sql_upsert_instruments now items ws d = (res, d')" and "instruments_ok d"
    and "k \<notin> symbol_identity ` set ws"
  shows "instruments_ok d' \<and> d' = d\<lparr>db_instruments := db_instruments d'\<rparr> \<and>
    instrument_of d' k = instrument_of d k"
  using sql_upsert_ok [OF assms(1,2)] assms(3) by blast

definition demo_upsert :: "exn + instrument_sync_result" where
  "demo_upsert = fst (sql_upsert_instruments 0 demo_dump demo_symbols empty_database)"

lemma demo_upsert_eq:
  "sql_upsert_instruments 0 demo_dump demo_symbols empty_database =
     (demo_upsert, snd (sql_upsert_instruments 0 demo_dump demo_symbols empty_database))"
  by (simp add: demo_upsert_def)

theorem sync_confined_witness:
  "instrument_of (snd (sql_upsert_instruments 0 demo_dump demo_symbols empty_database)) (''NSE'', ''TCS'') = None"
proof -
  have "(''NSE'', ''TCS'') \<notin> symbol_identity ` set demo_symbols" by code_simp
  from sync_confined [OF demo_upsert_eq empty_ok(1) this] show ?thesis
    by (simp add: instrument_of_def find_instrument_def empty_database_def)
qed

text \<open>The upsert counts rows that are not stored: when a later row violates a unique constraint, the
  transaction is aborted, the handler counts the row as failed and goes on, and the final commit rolls
  everything back, while the result reports the earlier row as inserted.
\<close>

theorem failed_statement_loses_rows:
  "\<exists>items r. sql_upsert_instruments 0 items demo_symbols empty_database = (Inr r, empty_database) \<and>
     sync_inserted r = 1 \<and> sync_failed r = 1"
proof -
  let ?items = "[demo_item 41 ''SBIN'', demo_item 41 ''INFY'']"
  have "sql_upsert_instruments 0 ?items demo_symbols empty_database =
     (Inr \<lparr>sync_fetched = 2, sync_inserted = 1, sync_updated = 0, sync_skipped = 0, sync_failed = 1,
        sync_watchlist_validation = None\<rparr>, empty_database)"
    by code_simp
  then show ?thesis by (intro exI conjI) (assumption, simp_all)
qed

text \<open>Saving completed candles is an upsert by instrument, timeframe and minute: it keeps the identity
  unique, the last candle of the argument for an identity is what the table then holds, every other
  candle and every other table is unchanged, and the returned count is the number of candles.
\<close>

theorem candles_last_write_wins:
  assumes "sql_save_completed_candles cs d = (Inr n, d')" and "candles_ok d"
  shows "n = length cs \<and> candles_ok d' \<and> d' = d\<lparr>db_candles := db_candles d'\<rparr> \<and>
    (case last_candle cs k of
        None \<Rightarrow> candle_of d' k = candle_of d k
      | Some c \<Rightarrow> \<exists>i. candle_of d' k = Some (candle_values c i))"
  using sql_save_ok [OF assms] by blast

definition demo_completed :: "int \<Rightarrow> completed_candle" where
  "demo_completed close =
     \<lparr>cc_instrument_id = 1, cc_timeframe = ''1minute'', cc_started_at = 0, cc_open = 100, cc_high = 110,
      cc_low = 90, cc_close = of_int close, cc_volume = 5, cc_source = kite_websocket_source\<rparr>"

definition saved_database :: database where
  "saved_database = snd (sql_save_completed_candles [demo_completed 100, demo_completed 105] synced_database)"

theorem candles_last_write_wins_witness:
  "\<exists>i. candle_of saved_database (1, ''1minute'', 0) = Some (candle_values (demo_completed 105) i)"
proof -
  have f: "fst (sql_save_completed_candles [demo_completed 100, demo_completed 105] synced_database) = Inr 2"
    by code_simp
  have s: "sql_save_completed_candles [demo_completed 100, demo_completed 105] synced_database
      = (Inr 2, saved_database)"
    unfolding saved_database_def using f by (metis prod.collapse)
  have "db_candles synced_database = []" by code_simp
  then have ok: "candles_ok synced_database" by (simp add: candles_ok_def keyed_def)
  have l: "last_candle [demo_completed 100, demo_completed 105] (1, ''1minute'', 0) = Some (demo_completed 105)"
    by (simp add: last_candle_def completed_identity_def demo_completed_def)
  from candles_last_write_wins [OF s ok, of "(1, ''1minute'', 0)"] show ?thesis by (simp add: l)
qed

end
