(* ===== verification/ScannerRepository.thy ===== *)
theory ScannerRepository
  imports Strategies Database
begin

section \<open>Storage of the scanners\<close>

text \<open>
  \<^verbatim>\<open>app/scanners/repository.py\<close> and the result classes of \<^verbatim>\<open>app/scanners/schemas.py\<close>: the
  in-memory repository, the SQL repository over the tables of \<open>Database\<close>, and the contract the
  scanner service relies on (locale \<open>scanner_store\<close>): a signal key is stored at most once, a refused
  insert changes nothing, and inserting signals never changes the candles.
\<close>

subsection \<open>Records\<close>

record signal_record =
  gs_id :: int
  gs_signal_key :: string
  gs_symbol :: string
  gs_strategy_name :: string
  gs_strategy_version :: string
  gs_signal_status :: string
  gs_signal_time :: instant
  gs_direction :: string
  gs_veto_reasons :: "string list"
  gs_features :: "(string \<times> json) list"
  gs_replay_run_id :: "string option"

record 's scanner_repository =
  sr_load_symbols :: "'s \<Rightarrow> string list"
  sr_load_completed_bars ::
    "string \<Rightarrow> string \<Rightarrow> int \<Rightarrow> instant option \<Rightarrow> instant option \<Rightarrow> 's \<Rightarrow> completed_bar list res"
  sr_insert_signal :: "scanner_evaluation \<Rightarrow> ('s, bool) prog"
  sr_list_signals :: "int \<Rightarrow> 's \<Rightarrow> signal_record list"

subsection \<open>The in-memory repository\<close>

record scanner_memory =
  sm_bars_by_symbol :: "(string \<times> completed_bar list) list"
  sm_signals :: "(string \<times> scanner_evaluation) list"

definition smem_load_symbols :: "scanner_memory \<Rightarrow> string list" where
  "smem_load_symbols m = sort (map fst (sm_bars_by_symbol m))"

definition smem_load_completed_bars ::
  "string \<Rightarrow> string \<Rightarrow> int \<Rightarrow> instant option \<Rightarrow> instant option \<Rightarrow> scanner_memory \<Rightarrow> completed_bar list res"
  where
  "smem_load_completed_bars symb timeframe limit start end_at m =
     Inr (slice_last limit
       (filter (\<lambda>b. in_range start end_at (started_at b))
         (filter (\<lambda>b. bar_timeframe b = timeframe)
           (case map_of (sm_bars_by_symbol m) symb of None \<Rightarrow> [] | Some bs \<Rightarrow> bs))))"

definition smem_insert_signal :: "scanner_evaluation \<Rightarrow> (scanner_memory, bool) prog" where
  "smem_insert_signal e = (\<lambda>m.
     if ev_signal_key e \<in> fst ` set (sm_signals m) then (Inr False, m)
     else (Inr True, m\<lparr>sm_signals := sm_signals m @ [(ev_signal_key e, e)]\<rparr>))"

definition signal_record_of :: "int \<Rightarrow> scanner_evaluation \<Rightarrow> signal_record" where
  "signal_record_of i e =
     \<lparr>gs_id = i, gs_signal_key = ev_signal_key e, gs_symbol = ev_symbol e,
      gs_strategy_name = ev_strategy_name e,
      gs_strategy_version = snap_strategy_version (ev_snapshot e), gs_signal_status = ev_status e,
      gs_signal_time = ev_signal_time e, gs_direction = long_direction,
      gs_veto_reasons = ev_veto_reasons e, gs_features = snapshot_as_dict (ev_snapshot e),
      gs_replay_run_id = ev_replay_run_id e\<rparr>"

definition smem_list_signals :: "int \<Rightarrow> scanner_memory \<Rightarrow> signal_record list" where
  "smem_list_signals limit m =
     (let evs = slice_last limit (map snd (sm_signals m))
      in map (\<lambda>(i, e). signal_record_of i e) (zip [1..int (length evs)] evs))"

definition scanner_memory_repository :: "scanner_memory scanner_repository" where
  "scanner_memory_repository =
     \<lparr>sr_load_symbols = smem_load_symbols, sr_load_completed_bars = smem_load_completed_bars,
      sr_insert_signal = smem_insert_signal, sr_list_signals = smem_list_signals\<rparr>"

subsection \<open>The SQL repository\<close>

definition ssql_load_symbols :: "database \<Rightarrow> string list" where
  "ssql_load_symbols d =
     map instrument_key (sort_key ir_tradingsymbol
       (filter (\<lambda>i. ir_exchange i = ''NSE'' \<and> ir_is_active i) (db_instruments d)))"

text \<open>The newest \<open>limit\<close> candles, oldest first.\<close>

definition ssql_load_completed_bars ::
  "string \<Rightarrow> string \<Rightarrow> int \<Rightarrow> instant option \<Rightarrow> instant option \<Rightarrow> database \<Rightarrow> completed_bar list res" where
  "ssql_load_completed_bars symb timeframe limit start end_at d =
     bindE (split_symbol symb) (\<lambda>(exchange, tradingsymbol).
       Inr (rev (slice_first limit (sort_key (\<lambda>b. - started_at b)
         (filter (\<lambda>b. in_range start end_at (started_at b))
           (candle_query d exchange tradingsymbol timeframe))))))"

definition signal_row_of :: "scanner_evaluation \<Rightarrow> signal_row" where
  "signal_row_of e =
     \<lparr>gr_id = 0, gr_instrument_id = ev_instrument_id e, gr_strategy_name = ev_strategy_name e,
      gr_strategy_version = snap_strategy_version (ev_snapshot e), gr_signal_key = ev_signal_key e,
      gr_signal_status = ev_status e, gr_signal_time = ev_signal_time e,
      gr_direction = long_direction, gr_veto_reasons = ev_veto_reasons e,
      gr_replay_run_id = ev_replay_run_id e, gr_features = snapshot_as_dict (ev_snapshot e),
      gr_created_at = 0\<rparr>"

definition ssql_insert_signal :: "scanner_evaluation \<Rightarrow> (database, bool) prog" where
  "ssql_insert_signal e =
     tryS (bindS (transaction (insert_signal_row (signal_row_of e))) (\<lambda>_. retS True))
       (\<lambda>x. if x = IntegrityError then Some (retS False) else None)"

definition signal_record_from_row :: "signal_row \<times> instrument_row \<Rightarrow> signal_record" where
  "signal_record_from_row ri = (case ri of (r, i) \<Rightarrow>
     \<lparr>gs_id = gr_id r, gs_signal_key = gr_signal_key r, gs_symbol = instrument_key i,
      gs_strategy_name = gr_strategy_name r, gs_strategy_version = gr_strategy_version r,
      gs_signal_status = gr_signal_status r, gs_signal_time = gr_signal_time r,
      gs_direction = gr_direction r, gs_veto_reasons = gr_veto_reasons r,
      gs_features = gr_features r, gs_replay_run_id = gr_replay_run_id r\<rparr>)"

definition ssql_list_signals :: "int \<Rightarrow> database \<Rightarrow> signal_record list" where
  "ssql_list_signals limit d =
     slice_first limit (map signal_record_from_row
       (sort_key (\<lambda>(r, i). (- gr_created_at r, - gr_id r))
         (join_instrument d gr_instrument_id (db_signals d))))"

definition scanner_sql_repository :: "database scanner_repository" where
  "scanner_sql_repository =
     \<lparr>sr_load_symbols = ssql_load_symbols, sr_load_completed_bars = ssql_load_completed_bars,
      sr_insert_signal = ssql_insert_signal, sr_list_signals = ssql_list_signals\<rparr>"

subsection \<open>The contract\<close>

text \<open>
  \<open>keys\<close> are the stored signal keys, \<open>stored\<close> the number of stored signals and \<open>known\<close> the
  instruments a signal may refer to. An insert of a signal of a known instrument succeeds exactly
  when its key is new.
\<close>

locale scanner_store =
  fixes repo :: "'s scanner_repository"
    and keys :: "'s \<Rightarrow> string set"
    and stored :: "'s \<Rightarrow> nat"
    and known :: "'s \<Rightarrow> int \<Rightarrow> bool"
  assumes insert_total: "\<exists>b st'. sr_insert_signal repo e st = (Inr b, st')"
    and insert_True: "sr_insert_signal repo e st = (Inr True, st') \<Longrightarrow>
      ev_signal_key e \<notin> keys st \<and> keys st' = insert (ev_signal_key e) (keys st) \<and>
      stored st' = Suc (stored st)"
    and insert_False: "sr_insert_signal repo e st = (Inr False, st') \<Longrightarrow>
      st' = st \<and> (known st (ev_instrument_id e) \<longrightarrow> ev_signal_key e \<in> keys st)"
    and insert_frame: "sr_insert_signal repo e st = (Inr b, st') \<Longrightarrow>
      sr_load_completed_bars repo s tf n lo hi st' = sr_load_completed_bars repo s tf n lo hi st \<and>
      known st' = known st"
    and load_known: "sr_load_completed_bars repo s tf n lo hi st = Inr bars \<Longrightarrow> bar \<in> set bars \<Longrightarrow>
      known st (bar_instrument_id bar)"
begin

lemma insert_again:
  assumes "ev_signal_key e \<in> keys st"
  shows "sr_insert_signal repo e st = (Inr False, st)"
proof -
  obtain b st' where i: "sr_insert_signal repo e st = (Inr b, st')" using insert_total by blast
  then show ?thesis using insert_True [of e st st'] insert_False [of e st st'] assms by (cases b) auto
qed

lemma insert_keys_mono: "sr_insert_signal repo e st = (Inr b, st') \<Longrightarrow> keys st \<subseteq> keys st'"
  by (cases b) (auto dest: insert_True insert_False)

lemma insert_known_key:
  "sr_insert_signal repo e st = (Inr b, st') \<Longrightarrow> known st (ev_instrument_id e) \<Longrightarrow>
     ev_signal_key e \<in> keys st'"
  by (cases b) (auto dest: insert_True insert_False)

end

interpretation mem_scanner: scanner_store scanner_memory_repository "\<lambda>m. fst ` set (sm_signals m)"
  "\<lambda>m. length (sm_signals m)" "\<lambda>m i. True"
  by unfold_locales
    (auto simp: scanner_memory_repository_def smem_insert_signal_def smem_load_completed_bars_def
      split: if_splits)

lemma ssql_insert_cases:
  "ssql_insert_signal e d =
     (if has_instrument d (ev_instrument_id e) \<and>
         ev_signal_key e \<notin> gr_signal_key ` set (db_signals d)
      then (Inr True, d\<lparr>db_signals := db_signals d @
             [(signal_row_of e)\<lparr>gr_id := next_id (db_signals d), gr_created_at := db_now d\<rparr>]\<rparr>)
      else (Inr False, d))"
proof -
  have "list_ex (\<lambda>x. gr_signal_key x = gr_signal_key (signal_row_of e)) (db_signals d) \<longleftrightarrow>
      ev_signal_key e \<in> gr_signal_key ` set (db_signals d)"
    by (auto simp: list_ex_iff signal_row_of_def rev_image_eqI)
  then show ?thesis
    by (simp add: ssql_insert_signal_def tryS_def bindS_def transaction_def insert_signal_row_def)
      (simp add: signal_row_of_def)
qed

lemma candle_query_frame: "candle_query (d\<lparr>db_signals := g\<rparr>) a b c = candle_query d a b c"
  by (simp add: candle_query_def join_instrument_def)

lemma candle_query_known:
  "bar \<in> set (candle_query d a b c) \<Longrightarrow> has_instrument d (bar_instrument_id bar)"
  by (auto simp: candle_query_def in_join_instrument completed_bar_from_row_def has_instrument_def
      list_ex_iff)

lemma ssql_load_known:
  assumes "ssql_load_completed_bars s tf n lo hi d = Inr bars" "bar \<in> set bars"
  shows "has_instrument d (bar_instrument_id bar)"
proof -
  from assms obtain a b where "bar \<in> set (candle_query d a b tf)"
    by (auto simp: ssql_load_completed_bars_def bindE_eq_Inr dest!: subsetD [OF set_slice_first])
  then show ?thesis by (rule candle_query_known)
qed

interpretation sql_scanner: scanner_store scanner_sql_repository
  "\<lambda>d. gr_signal_key ` set (db_signals d)" "\<lambda>d. length (db_signals d)" has_instrument
proof unfold_locales
  fix e d
  show "\<exists>b d'. sr_insert_signal scanner_sql_repository e d = (Inr b, d')"
    by (auto simp: scanner_sql_repository_def ssql_insert_cases)
next
  fix e d d'
  assume "sr_insert_signal scanner_sql_repository e d = (Inr True, d')"
  then show "ev_signal_key e \<notin> gr_signal_key ` set (db_signals d) \<and>
      gr_signal_key ` set (db_signals d') = insert (ev_signal_key e) (gr_signal_key ` set (db_signals d)) \<and>
      length (db_signals d') = Suc (length (db_signals d))"
    by (auto simp: scanner_sql_repository_def ssql_insert_cases signal_row_of_def split: if_splits)
next
  fix e d d'
  assume "sr_insert_signal scanner_sql_repository e d = (Inr False, d')"
  then show "d' = d \<and> (has_instrument d (ev_instrument_id e) \<longrightarrow>
      ev_signal_key e \<in> gr_signal_key ` set (db_signals d))"
    by (auto simp: scanner_sql_repository_def ssql_insert_cases split: if_splits)
next
  fix e d b d' s tf n lo hi
  assume "sr_insert_signal scanner_sql_repository e d = (Inr b, d')"
  then show "sr_load_completed_bars scanner_sql_repository s tf n lo hi d' =
      sr_load_completed_bars scanner_sql_repository s tf n lo hi d \<and> has_instrument d' = has_instrument d"
    by (auto simp: scanner_sql_repository_def ssql_insert_cases ssql_load_completed_bars_def
        candle_query_frame has_instrument_def fun_eq_iff split: if_splits)
next
  fix s tf n lo hi d bars bar
  assume "sr_load_completed_bars scanner_sql_repository s tf n lo hi d = Inr bars" "bar \<in> set bars"
  then show "has_instrument d (bar_instrument_id bar)"
    by (auto simp: scanner_sql_repository_def intro: ssql_load_known)
qed

end
