(* ===== verification/ScannerService.thy ===== *)
theory ScannerService
  imports ScannerRepository Watchlist
begin

section \<open>The scanner service\<close>

text \<open>
  \<^verbatim>\<open>app/scanners/service.py\<close>: a scan of one symbol, \<^verbatim>\<open>run_once\<close>, \<^verbatim>\<open>run_batch\<close>,
  \<^verbatim>\<open>run_replay\<close> and the listing of signals. A clock reading is an argument: \<open>now s\<close> is the one
  taken while symbol \<open>s\<close> is scanned. The lemmas are proved once for every repository with the
  contract \<open>scanner_store\<close>.
\<close>

subsection \<open>Results\<close>

record scanner_run_result =
  run_evaluated :: nat
  run_inserted :: nat
  run_duplicates :: nat
  run_candidates :: nat
  run_rejected :: nat
  run_veto_counts :: "(string \<times> nat) list"

record scanner_symbol_result =
  sy_symbol :: string
  sy_evaluated :: nat
  sy_inserted :: nat
  sy_duplicates :: nat
  sy_candidates :: nat
  sy_rejected :: nat
  sy_skipped_reason :: "string option"
  sy_error :: "string option"

definition symbol_result_as_dict :: "scanner_symbol_result \<Rightarrow> (string \<times> json) list" where
  "symbol_result_as_dict r =
     [(''symbol'', JStr (sy_symbol r)), (''evaluated'', JInt (int (sy_evaluated r))),
      (''inserted'', JInt (int (sy_inserted r))), (''duplicates'', JInt (int (sy_duplicates r))),
      (''candidates'', JInt (int (sy_candidates r))), (''rejected'', JInt (int (sy_rejected r))),
      (''skipped_reason'', jopt JStr (sy_skipped_reason r)), (''error'', jopt JStr (sy_error r))]"

record scanner_batch_result =
  ba_evaluated_symbols :: nat
  ba_total_evaluated :: nat
  ba_total_inserted :: nat
  ba_total_duplicates :: nat
  ba_total_candidates :: nat
  ba_total_rejected :: nat
  ba_per_symbol :: "scanner_symbol_result list"
  ba_errors :: "(string \<times> string) list"
  ba_started_at :: instant
  ba_finished_at :: instant

text \<open>\<open>float_ms\<close> is \<^verbatim>\<open>int(delta.total_seconds() * 1000)\<close>, which is computed in floats.\<close>

definition batch_as_dict :: "(int \<Rightarrow> int) \<Rightarrow> scanner_batch_result \<Rightarrow> (string \<times> json) list" where
  "batch_as_dict float_ms r =
     [(''evaluated_symbols'', JInt (int (ba_evaluated_symbols r))),
      (''total_evaluated'', JInt (int (ba_total_evaluated r))),
      (''total_inserted'', JInt (int (ba_total_inserted r))),
      (''total_duplicates'', JInt (int (ba_total_duplicates r))),
      (''total_candidates'', JInt (int (ba_total_candidates r))),
      (''total_rejected'', JInt (int (ba_total_rejected r))),
      (''per_symbol'', JList (map (\<lambda>i. JObj (symbol_result_as_dict i)) (ba_per_symbol r))),
      (''errors'', JObj (map (\<lambda>(k, v). (k, JStr v)) (ba_errors r))),
      (''started_at'', JStr (isoformat (ba_started_at r))),
      (''finished_at'', JStr (isoformat (ba_finished_at r))),
      (''duration_ms'', JInt (float_ms (ba_finished_at r - ba_started_at r)))]"

text \<open>The counters of a scan loop, the vetoes in a \<^verbatim>\<open>Counter\<close>.\<close>

record scan_counts =
  sn_evaluated :: nat
  sn_inserted :: nat
  sn_duplicates :: nat
  sn_candidates :: nat
  sn_rejected :: nat
  sn_vetoes :: "(string \<times> nat) list"

definition no_counts :: scan_counts where
  "no_counts = \<lparr>sn_evaluated = 0, sn_inserted = 0, sn_duplicates = 0, sn_candidates = 0,
     sn_rejected = 0, sn_vetoes = []\<rparr>"

record scan_options =
  op_store_rejections :: bool
  op_dry_run :: bool
  op_min_candles :: int
  op_require_session_start :: bool
  op_require_continuity :: bool

record batch_options = scan_options +
  op_symbols :: "string list option"
  op_timeframe :: string
  op_max_symbols :: "int option"
  op_use_latest_universe :: bool

subsection \<open>Configuration and symbols\<close>

definition scanner_history_bar_limit :: int where
  "scanner_history_bar_limit = 800"

definition scanner_replay_bar_limit :: int where
  "scanner_replay_bar_limit = 100000"

definition scanner_config_from_settings :: "settings \<Rightarrow> scanner_config res" where
  "scanner_config_from_settings s =
     (let strategies = comma_entries (scanner_strategies s);
          unsupported = filter (\<lambda>x. x \<notin> set p05_strategies) strategies
      in if unsupported \<noteq> []
         then Inl (ScannerConfigError ''Unsupported scanner strategy configured.'')
         else Inr \<lparr>sc_enabled = scanner_enabled s, sc_strategies = strategies,
           observation_mode = scanner_observation_mode s,
           future_live_eligible_strategy = scanner_future_live_eligible_strategy s,
           opening_range_minutes = scanner_opening_range_minutes s,
           stale_after_seconds = scanner_stale_after_seconds s,
           min_volume_ratio = scanner_min_volume_ratio s,
           max_spread_pct = scanner_max_spread_pct s,
           require_spread_for_future_live = scanner_require_spread_for_future_live s,
           benchmark_symbol = (if scanner_benchmark_symbol s = [] then None
                               else Some (scanner_benchmark_symbol s))\<rparr>)"

fun normalize_loop :: "string list \<Rightarrow> string list \<Rightarrow> string list \<Rightarrow> string list res" where
  "normalize_loop seen normalized [] = Inr normalized"
| "normalize_loop seen normalized (raw # raws) =
     (let value = upper (strip raw)
      in if value = [] \<or> count_char CHR '':'' value \<noteq> 1
         then Inl (ScannerInputError ''Scanner symbols must use EXCHANGE:TRADINGSYMBOL.'')
         else
           let parts = split_once CHR '':'' value
           in if parts ! 0 \<noteq> ''NSE'' \<or> parts ! 1 = []
              then Inl (ScannerInputError ''Scanner batch supports NSE symbols only.'')
              else if value \<notin> set seen
              then normalize_loop (value # seen) (normalized @ [value]) raws
              else normalize_loop seen normalized raws)"

definition normalize_symbols :: "string list \<Rightarrow> string list res" where
  "normalize_symbols symbols =
     bindE (normalize_loop [] [] symbols) (\<lambda>normalized.
       if normalized = [] then Inl (ScannerInputError ''Scanner batch symbol list is empty.'')
       else Inr normalized)"

definition validate_timeframe :: "string \<Rightarrow> unit res" where
  "validate_timeframe timeframe =
     (if timeframe \<noteq> scanner_timeframe
      then Inl (ScannerInputError ''Scanner supports only 1minute completed candles in P05.'')
      else Inr ())"

definition latest_completed_bar_is_stale ::
  "scanner_config \<Rightarrow> completed_bar list \<Rightarrow> string option \<Rightarrow> instant \<Rightarrow> bool" where
  "latest_completed_bar_is_stale config bars replay_run_id now =
     (if replay_run_id \<noteq> None \<or> bars = [] then False
      else let bar_end = started_at (last bars) + minute_us;
               stale_after = bar_end + minute_us + stale_after_seconds config * second_us
           in stale_after < now)"

subsection \<open>One evaluation\<close>

definition count_evaluation :: "scanner_evaluation \<Rightarrow> scan_counts \<Rightarrow> scan_counts" where
  "count_evaluation e n =
     n\<lparr>sn_evaluated := sn_evaluated n + 1,
       sn_candidates := sn_candidates n + (if ev_status e = candidate_status then 1 else 0),
       sn_rejected := sn_rejected n + (if ev_status e = rejected_status then 1 else 0),
       sn_vetoes := counter_update (sn_vetoes n) (ev_veto_reasons e)\<rparr>"

definition persist_evaluation ::
  "'s scanner_repository \<Rightarrow> scanner_evaluation \<Rightarrow> scan_counts \<Rightarrow> ('s, scan_counts) prog" where
  "persist_evaluation repo e n =
     bindS (sr_insert_signal repo e) (\<lambda>inserted.
       retS (if inserted then n\<lparr>sn_inserted := sn_inserted n + 1\<rparr>
             else n\<lparr>sn_duplicates := sn_duplicates n + 1,
                    sn_vetoes := counter_update (sn_vetoes n) [''duplicate_signal'']\<rparr>))"

subsection \<open>Scanning one symbol\<close>

definition scan_strategy ::
  "'s scanner_repository \<Rightarrow> scanner_config \<Rightarrow> scan_options \<Rightarrow> string \<Rightarrow> string \<Rightarrow> string option
   \<Rightarrow> completed_bar list \<Rightarrow> completed_bar list \<Rightarrow> bool \<Rightarrow> instant \<Rightarrow> string \<Rightarrow> scan_counts
   \<Rightarrow> ('s, scan_counts) prog" where
  "scan_strategy repo config options symb timeframe replay_run_id bars benchmark_bars is_stale now
     strategy n =
     bindS (liftS (evaluate_strategy now strategy (bar_instrument_id (last bars)) symb timeframe bars
              config benchmark_bars None replay_run_id is_stale)) (\<lambda>e.
       if (ev_status e = candidate_status \<or> op_store_rejections options) \<and> \<not> op_dry_run options
       then persist_evaluation repo e (count_evaluation e n)
       else retS (count_evaluation e n))"

definition skipped_symbol :: "string \<Rightarrow> string \<Rightarrow> scanner_symbol_result" where
  "skipped_symbol symb reason =
     \<lparr>sy_symbol = symb, sy_evaluated = 0, sy_inserted = 0, sy_duplicates = 0, sy_candidates = 0,
      sy_rejected = 0, sy_skipped_reason = Some reason, sy_error = None\<rparr>"

definition failed_symbol :: "string \<Rightarrow> scanner_symbol_result" where
  "failed_symbol symb =
     \<lparr>sy_symbol = symb, sy_evaluated = 0, sy_inserted = 0, sy_duplicates = 0, sy_candidates = 0,
      sy_rejected = 0, sy_skipped_reason = None, sy_error = Some ''symbol_scan_failed''\<rparr>"

text \<open>Why a symbol is not scanned; \<open>current_session\<close> are the bars of its latest session.\<close>

definition skip_reason ::
  "scan_options \<Rightarrow> string \<Rightarrow> completed_bar list \<Rightarrow> completed_bar list \<Rightarrow> string option" where
  "skip_reason options timeframe bars current_session =
     (if bars = [] then Some ''no_completed_candles''
      else if op_min_candles options \<noteq> 0 \<and> int (length current_session) < op_min_candles options
      then Some ''insufficient_session_candles''
      else if op_require_session_start options
              \<and> (current_session = [] \<or> ist_time (started_at (hd current_session)) \<noteq> nse_open)
      then Some ''session_start_missing''
      else if op_require_continuity options \<and> \<not> candle_continuity_ok current_session timeframe
      then Some ''session_candle_gap''
      else None)"

definition run_symbol ::
  "'s scanner_repository \<Rightarrow> scanner_config \<Rightarrow> scan_options \<Rightarrow> string \<Rightarrow> string option \<Rightarrow> instant
   \<Rightarrow> string \<Rightarrow> ('s, scanner_symbol_result \<times> (string \<times> nat) list) prog" where
  "run_symbol repo config options timeframe replay_run_id now symb =
     bindS (readS (sr_load_completed_bars repo symb timeframe scanner_history_bar_limit None None)) (\<lambda>loaded.
     bindS (liftS loaded) (\<lambda>bars.
       case skip_reason options timeframe bars (current_session_bars (build_feature_input bars)) of
         Some reason \<Rightarrow> retS (skipped_symbol symb reason, [])
       | None \<Rightarrow>
           bindS (case benchmark_symbol config of
                    None \<Rightarrow> retS (Inr [])
                  | Some b \<Rightarrow> readS (sr_load_completed_bars repo b timeframe
                                       scanner_history_bar_limit None None)) (\<lambda>benchmark.
           bindS (liftS benchmark) (\<lambda>benchmark_bars.
           bindS (foldS (scan_strategy repo config options symb timeframe replay_run_id bars
                    benchmark_bars (latest_completed_bar_is_stale config bars replay_run_id now) now)
                    (sc_strategies config) no_counts) (\<lambda>n.
             retS (\<lparr>sy_symbol = symb, sy_evaluated = sn_evaluated n, sy_inserted = sn_inserted n,
                    sy_duplicates = sn_duplicates n, sy_candidates = sn_candidates n,
                    sy_rejected = sn_rejected n, sy_skipped_reason = None, sy_error = None\<rparr>,
                   sn_vetoes n))))))"

subsection \<open>Runs\<close>

definition add_symbol_result ::
  "scanner_symbol_result \<times> (string \<times> nat) list \<Rightarrow> scan_counts \<Rightarrow> scan_counts" where
  "add_symbol_result rv n = (case rv of (r, vetoes) \<Rightarrow>
     \<lparr>sn_evaluated = sn_evaluated n + sy_evaluated r, sn_inserted = sn_inserted n + sy_inserted r,
      sn_duplicates = sn_duplicates n + sy_duplicates r,
      sn_candidates = sn_candidates n + sy_candidates r,
      sn_rejected = sn_rejected n + sy_rejected r,
      sn_vetoes = fold (\<lambda>(k, m) c. ((\<lambda>c. counter_add c k) ^^ m) c) vetoes (sn_vetoes n)\<rparr>)"

definition run_result_of :: "scan_counts \<Rightarrow> scanner_run_result" where
  "run_result_of n =
     \<lparr>run_evaluated = sn_evaluated n, run_inserted = sn_inserted n, run_duplicates = sn_duplicates n,
      run_candidates = sn_candidates n, run_rejected = sn_rejected n,
      run_veto_counts = counter_sorted (sn_vetoes n)\<rparr>"

definition run_once_options :: scan_options where
  "run_once_options = \<lparr>op_store_rejections = True, op_dry_run = False, op_min_candles = 0,
     op_require_session_start = False, op_require_continuity = False\<rparr>"

definition run_once_step ::
  "'s scanner_repository \<Rightarrow> scanner_config \<Rightarrow> string \<Rightarrow> string option \<Rightarrow> (string \<Rightarrow> instant) \<Rightarrow> string
   \<Rightarrow> scan_counts \<Rightarrow> ('s, scan_counts) prog" where
  "run_once_step repo config timeframe replay_run_id now symb n =
     bindS (run_symbol repo config run_once_options timeframe replay_run_id (now symb) symb) (\<lambda>rv.
       retS (add_symbol_result rv n))"

definition run_once ::
  "'s scanner_repository \<Rightarrow> scanner_config \<Rightarrow> (string \<Rightarrow> instant) \<Rightarrow> string option \<Rightarrow> string
   \<Rightarrow> string option \<Rightarrow> ('s, scanner_run_result) prog" where
  "run_once repo config now symb timeframe replay_run_id =
     bindS (liftS (validate_timeframe timeframe)) (\<lambda>_.
       if \<not> sc_enabled config \<and> replay_run_id = None
       then raiseS (ScannerDisabledError ''Scanner is disabled.'')
       else
         bindS (case symb of
                  None \<Rightarrow> readS (sr_load_symbols repo)
                | Some s \<Rightarrow> if s = [] then readS (sr_load_symbols repo) else retS [s]) (\<lambda>symbols.
         bindS (foldS (run_once_step repo config timeframe replay_run_id now) symbols no_counts) (\<lambda>n.
           retS (run_result_of n))))"

text \<open>
  \<open>latest\<close> is what the universe provider returns (\<open>None\<close> also without a provider). The selection of
  the symbols of a batch, before anything is scanned:
\<close>

definition batch_symbols ::
  "settings \<Rightarrow> (string \<Rightarrow> string option) \<Rightarrow> string list option res \<Rightarrow> scanner_config \<Rightarrow> batch_options
   \<Rightarrow> string list res" where
  "batch_symbols s read_text latest config options =
     bindE (validate_timeframe (op_timeframe options)) (\<lambda>_.
       if \<not> sc_enabled config then Inl (ScannerDisabledError ''Scanner is disabled.'')
       else
         let use_selected = (op_use_latest_universe options
                             \<or> universe_selection_use_latest_for_scanner_batch s)
         in if op_symbols options \<noteq> None \<and> use_selected
            then Inl (ScannerInputError ''Explicit symbols cannot be combined with selected universe.'')
            else
              bindE (if use_selected
                     then bindE latest (\<lambda>selected.
                       case selected of
                         None \<Rightarrow> Inl (SelectedUniverseMissingError ''Selected universe missing.'')
                       | Some xs \<Rightarrow>
                           if xs = []
                           then Inl (SelectedUniverseMissingError ''Selected universe missing.'')
                           else Inr xs)
                     else (case op_symbols options of
                         Some (x # xs) \<Rightarrow> Inr (x # xs)
                       | _ \<Rightarrow> bindE (strict_configured_watchlist read_text s) (\<lambda>ws. Inr (map ws_key ws))))
              (\<lambda>selected.
              bindE (normalize_symbols selected) (\<lambda>normalized.
                let limit = (case op_max_symbols options of
                               None \<Rightarrow> market_data_max_instruments s
                             | Some m \<Rightarrow> if m = 0 then market_data_max_instruments s else m)
                in if limit < 1 \<or> limit < int (length normalized)
                   then Inl (ScannerInputError ''Scanner batch exceeds configured symbol maximum.'')
                   else Inr normalized)))"

text \<open>One symbol of a batch: any exception becomes an error row, the batch goes on.\<close>

definition scan_batch_symbol ::
  "'s scanner_repository \<Rightarrow> scanner_config \<Rightarrow> batch_options \<Rightarrow> (string \<Rightarrow> instant) \<Rightarrow> string
   \<Rightarrow> ('s, scanner_symbol_result) prog" where
  "scan_batch_symbol repo config options now symb =
     tryS (bindS (run_symbol repo config (scan_options.truncate options) (op_timeframe options) None
             (now symb) symb) (\<lambda>rv. retS (fst rv)))
       (\<lambda>e. Some (retS (failed_symbol symb)))"

definition batch_result_of ::
  "string list \<Rightarrow> scanner_symbol_result list \<Rightarrow> instant \<Rightarrow> instant \<Rightarrow> scanner_batch_result" where
  "batch_result_of normalized per_symbol begun finished =
     \<lparr>ba_evaluated_symbols = length normalized,
      ba_total_evaluated = sum_list (map sy_evaluated per_symbol),
      ba_total_inserted = sum_list (map sy_inserted per_symbol),
      ba_total_duplicates = sum_list (map sy_duplicates per_symbol),
      ba_total_candidates = sum_list (map sy_candidates per_symbol),
      ba_total_rejected = sum_list (map sy_rejected per_symbol),
      ba_per_symbol = per_symbol,
      ba_errors = List.map_filter (\<lambda>r. map_option (Pair (sy_symbol r)) (sy_error r)) per_symbol,
      ba_started_at = begun, ba_finished_at = finished\<rparr>"

definition run_batch ::
  "'s scanner_repository \<Rightarrow> settings \<Rightarrow> (string \<Rightarrow> string option) \<Rightarrow> string list option res
   \<Rightarrow> scanner_config \<Rightarrow> (string \<Rightarrow> instant) \<Rightarrow> instant \<Rightarrow> instant \<Rightarrow> batch_options
   \<Rightarrow> ('s, scanner_batch_result) prog" where
  "run_batch repo s read_text latest config now begun finished options =
     bindS (liftS (batch_symbols s read_text latest config options)) (\<lambda>normalized.
     bindS (mapS (scan_batch_symbol repo config options now) normalized) (\<lambda>per_symbol.
       retS (batch_result_of normalized per_symbol begun finished)))"

subsection \<open>Replay\<close>

definition replay_strategy ::
  "'s scanner_repository \<Rightarrow> scanner_config \<Rightarrow> string \<Rightarrow> string \<Rightarrow> string \<Rightarrow> completed_bar list
   \<Rightarrow> completed_bar list \<Rightarrow> string \<Rightarrow> scan_counts \<Rightarrow> ('s, scan_counts) prog" where
  "replay_strategy repo config symb timeframe replay_run_id prefix benchmark_prefix strategy n =
     bindS (liftS (evaluate_strategy 0 strategy (bar_instrument_id (last prefix)) symb timeframe prefix
              config benchmark_prefix None (Some replay_run_id) False)) (\<lambda>e.
       persist_evaluation repo e (count_evaluation e n))"

text \<open>The bar at \<open>index\<close> is scanned with the bars up to it, and the benchmark's up to its minute.\<close>

definition replay_bar ::
  "'s scanner_repository \<Rightarrow> scanner_config \<Rightarrow> string \<Rightarrow> string \<Rightarrow> string \<Rightarrow> completed_bar list
   \<Rightarrow> completed_bar list \<Rightarrow> nat \<Rightarrow> scan_counts \<Rightarrow> ('s, scan_counts) prog" where
  "replay_bar repo config symb timeframe replay_run_id ordered_bars benchmark_bars index =
     foldS (replay_strategy repo config symb timeframe replay_run_id (take (index + 1) ordered_bars)
              (filter (\<lambda>b. started_at b \<le> started_at (ordered_bars ! index)) benchmark_bars))
       (sc_strategies config)"

definition scanner_replay ::
  "'s scanner_repository \<Rightarrow> scanner_config \<Rightarrow> string \<Rightarrow> string \<Rightarrow> string
   \<Rightarrow> ('s, scanner_run_result) prog" where
  "scanner_replay repo config symb timeframe replay_run_id =
     bindS (liftS (validate_timeframe timeframe)) (\<lambda>_.
     bindS (readS (sr_load_completed_bars repo symb timeframe scanner_replay_bar_limit None None)) (\<lambda>loaded.
     bindS (liftS loaded) (\<lambda>bars.
     bindS (case benchmark_symbol config of
              None \<Rightarrow> retS (Inr [])
            | Some b \<Rightarrow> readS (sr_load_completed_bars repo b timeframe scanner_replay_bar_limit None None))
       (\<lambda>benchmark.
     bindS (liftS benchmark) (\<lambda>benchmark_bars.
     bindS (foldS (replay_bar repo config symb timeframe replay_run_id (sort_key started_at bars)
              (sort_key started_at benchmark_bars)) [0..<length bars] no_counts) (\<lambda>n.
       retS (run_result_of n)))))))"

definition list_signals_dict :: "signal_record \<Rightarrow> (string \<times> json) list" where
  "list_signals_dict r =
     [(''id'', JInt (gs_id r)), (''signal_key'', JStr (gs_signal_key r)),
      (''symbol'', JStr (gs_symbol r)), (''strategy_name'', JStr (gs_strategy_name r)),
      (''strategy_version'', JStr (gs_strategy_version r)),
      (''signal_status'', JStr (gs_signal_status r)),
      (''signal_time'', JStr (isoformat (gs_signal_time r))),
      (''direction'', JStr (gs_direction r)), (''veto_reasons'', jstrs (gs_veto_reasons r)),
      (''replay_run_id'', jopt JStr (gs_replay_run_id r)),
      (''features'', JObj (gs_features r))]"

definition scanner_list_signals ::
  "'s scanner_repository \<Rightarrow> int \<Rightarrow> 's \<Rightarrow> (string \<times> json) list list" where
  "scanner_list_signals repo limit st =
     map list_signals_dict (sr_list_signals repo (max 1 (min limit 200)) st)"

definition scanner_status :: "settings \<Rightarrow> scanner_config \<Rightarrow> (string \<times> json) list" where
  "scanner_status s config =
     [(''enabled'', JBool (sc_enabled config)),
      (''observation_mode'', JStr (observation_mode config)),
      (''strategies'', jstrs (sc_strategies config)),
      (''auto_loop'', JBool (scanner_auto_loop_enabled s)),
      (''use_latest_universe_default'',
        JBool (universe_selection_use_latest_for_scanner_batch s))]"

subsection \<open>Symbols\<close>

lemma normalize_loop_ok:
  assumes "normalize_loop seen normalized raws = Inr out" "set seen = set normalized" "distinct normalized"
  shows "distinct out \<and> set out = set normalized \<union> (\<lambda>r. upper (strip r)) ` set raws \<and>
    (\<forall>r \<in> set raws. \<exists>t. upper (strip r) = ''NSE:'' @ t \<and> t \<noteq> [] \<and> CHR '':'' \<notin> set t)"
  using assms
proof (induction raws arbitrary: seen normalized)
  case Nil
  then show ?case by simp
next
  case (Cons r raws)
  let ?v = "upper (strip r)"
  from Cons.prems(1) have one: "count_char CHR '':'' ?v = 1" and p: "split_once CHR '':'' ?v ! 0 = ''NSE''"
      "split_once CHR '':'' ?v ! 1 \<noteq> []"
    by (auto simp: Let_def split: if_splits)
  from count_one_split [OF one] obtain a b where ab: "split_once CHR '':'' ?v = [a, b]"
      "?v = a @ CHR '':'' # b" "CHR '':'' \<notin> set b" by blast
  with p have v: "\<exists>t. ?v = ''NSE:'' @ t \<and> t \<noteq> [] \<and> CHR '':'' \<notin> set t" by auto
  show ?case
  proof (cases "?v \<in> set seen")
    case True
    with Cons.prems(1) have "normalize_loop seen normalized raws = Inr out"
      by (auto simp: Let_def split: if_splits)
    from Cons.IH [OF this Cons.prems(2,3)] v True Cons.prems(2) show ?thesis by auto
  next
    case False
    with Cons.prems(1) have "normalize_loop (?v # seen) (normalized @ [?v]) raws = Inr out"
      by (auto simp: Let_def split: if_splits)
    from Cons.IH [OF this] v False Cons.prems(2,3) show ?thesis by auto
  qed
qed

lemma normalize_symbols_ok:
  assumes "normalize_symbols raws = Inr out"
  shows "out \<noteq> [] \<and> distinct out \<and> set out = (\<lambda>r. upper (strip r)) ` set raws \<and>
    (\<forall>v \<in> set out. \<exists>t. v = ''NSE:'' @ t \<and> t \<noteq> [] \<and> CHR '':'' \<notin> set t)"
proof -
  from assms have l: "normalize_loop [] [] raws = Inr out" and ne: "out \<noteq> []"
    by (auto simp: normalize_symbols_def bindE_eq_Inr split: if_splits)
  from normalize_loop_ok [OF l] ne show ?thesis by auto
qed

subsection \<open>Counting\<close>

lemma map_filter_Nil: "List.map_filter f xs = [] \<longleftrightarrow> (\<forall>x \<in> set xs. f x = None)"
  by (induction xs) (auto simp: List.map_filter_simps split: option.splits)

lemma evaluation_status:
  assumes "evaluate_strategy now st iid symb tf bars cfg bm q run stale = Inr ev"
  shows "ev_status ev = candidate_status \<or> ev_status ev = rejected_status"
    and "ev_instrument_id ev = iid" "ev_signal_time ev = started_at (last bars)" "ev_symbol ev = symb"
  using assms
  by (auto elim!: evaluate_strategy_Inr dest!: evaluation_Inr)

lemma statuses_differ [simp]: "candidate_status \<noteq> rejected_status" "rejected_status \<noteq> candidate_status"
  by (simp_all add: candidate_status_def rejected_status_def)

text \<open>What holds of the counters after \<open>m\<close> evaluations of a scan that began in \<open>st0\<close>.\<close>

definition counts_inv ::
  "('s \<Rightarrow> nat) \<Rightarrow> scan_options \<Rightarrow> 's \<Rightarrow> nat \<Rightarrow> scan_counts \<Rightarrow> 's \<Rightarrow> bool" where
  "counts_inv stored options st0 m n st \<longleftrightarrow>
     sn_evaluated n = m \<and> sn_candidates n + sn_rejected n = m \<and>
     sn_inserted n + sn_duplicates n \<le> m \<and>
     (op_store_rejections options \<and> \<not> op_dry_run options \<longrightarrow> sn_inserted n + sn_duplicates n = m) \<and>
     (op_dry_run options \<longrightarrow> sn_inserted n = 0 \<and> sn_duplicates n = 0 \<and> st = st0) \<and>
     stored st = stored st0 + sn_inserted n"

text \<open>A row of a batch: an error row, or counters that add up.\<close>

definition row_ok :: "scanner_config \<Rightarrow> scan_options \<Rightarrow> string \<Rightarrow> scanner_symbol_result \<Rightarrow> bool" where
  "row_ok cfg options symb r \<longleftrightarrow>
     r = failed_symbol symb \<or>
     sy_symbol r = symb \<and> sy_error r = None \<and> sy_candidates r + sy_rejected r = sy_evaluated r \<and>
     sy_inserted r + sy_duplicates r \<le> sy_evaluated r"

lemma count_evaluation_fields [simp]:
  "sn_evaluated (count_evaluation e n) = Suc (sn_evaluated n)"
  "sn_inserted (count_evaluation e n) = sn_inserted n"
  "sn_duplicates (count_evaluation e n) = sn_duplicates n"
  by (simp_all add: count_evaluation_def)

lemma count_evaluation_status:
  "ev_status e = candidate_status \<or> ev_status e = rejected_status \<Longrightarrow>
     sn_candidates (count_evaluation e n) + sn_rejected (count_evaluation e n)
       = Suc (sn_candidates n + sn_rejected n)"
  by (auto simp: count_evaluation_def)

context scanner_store
begin

lemma persist_Inr:
  "\<exists>b n' st'. persist_evaluation repo e n st = (Inr n', st') \<and> sr_insert_signal repo e st = (Inr b, st') \<and>
     sn_evaluated n' = sn_evaluated n \<and> sn_candidates n' = sn_candidates n \<and>
     sn_rejected n' = sn_rejected n \<and>
     sn_inserted n' = sn_inserted n + (if b then 1 else 0) \<and>
     sn_duplicates n' = sn_duplicates n + (if b then 0 else 1)"
  using insert_total [of e st] by (auto simp: persist_evaluation_def bindS_def)

lemma insert_stored:
  "sr_insert_signal repo e st = (Inr b, st') \<Longrightarrow> stored st' = stored st + (if b then 1 else 0)"
  by (cases b) (auto dest: insert_True insert_False)

lemma scan_strategy_step:
  assumes I: "counts_inv stored options st0 m n st"
    and s: "scan_strategy repo cfg options symb tf run bars bm stale now strategy n st = (Inr n', st')"
  shows "counts_inv stored options st0 (Suc m) n' st'"
proof -
  from s obtain e where e: "evaluate_strategy now strategy (bar_instrument_id (last bars)) symb tf bars cfg bm
      None run stale = Inr e"
    and p: "(if (ev_status e = candidate_status \<or> op_store_rejections options) \<and> \<not> op_dry_run options
       then persist_evaluation repo e (count_evaluation e n) else retS (count_evaluation e n)) st = (Inr n', st')"
    by (auto simp: scan_strategy_def bindS_Inr_iff)
  note c = count_evaluation_status [OF evaluation_status(1) [OF e], of n]
  show ?thesis
  proof (cases "(ev_status e = candidate_status \<or> op_store_rejections options) \<and> \<not> op_dry_run options")
    case True
    from persist_Inr [of e "count_evaluation e n" st] True p obtain b where
      "sr_insert_signal repo e st = (Inr b, st')"
      "sn_evaluated n' = Suc (sn_evaluated n)" "sn_candidates n' = sn_candidates (count_evaluation e n)"
      "sn_rejected n' = sn_rejected (count_evaluation e n)"
      "sn_inserted n' = sn_inserted n + (if b then 1 else 0)"
      "sn_duplicates n' = sn_duplicates n + (if b then 0 else 1)"
      by auto
    then show ?thesis using I True c insert_stored [of e st b st'] by (auto simp: counts_inv_def)
  next
    case False
    with p have "n' = count_evaluation e n" "st' = st" by auto
    then show ?thesis using I False c by (auto simp: counts_inv_def)
  qed
qed

lemma scan_strategies:
  assumes "foldS (scan_strategy repo cfg options symb tf run bars bm stale now) strategies no_counts st
      = (Inr n, st')"
  shows "counts_inv stored options st (length strategies) n st'"
proof (rule foldS_induct [OF assms, where P = "\<lambda>us n st'. counts_inv stored options st (length us) n st'"])
  show "counts_inv stored options st (length []) no_counts st" by (simp add: counts_inv_def no_counts_def)
next
  fix us :: "string list" and u a a' s1 s2
  assume "counts_inv stored options st (length us) a s1"
    "scan_strategy repo cfg options symb tf run bars bm stale now u a s1 = (Inr a', s2)"
  from scan_strategy_step [OF this] show "counts_inv stored options st (length (us @ [u])) a' s2" by simp
qed

text \<open>The result of one symbol.\<close>

definition symbol_ok :: "scanner_config \<Rightarrow> scan_options \<Rightarrow> string \<Rightarrow> scanner_symbol_result \<Rightarrow> 's \<Rightarrow> 's \<Rightarrow> bool"
  where
  "symbol_ok cfg options symb r st st' \<longleftrightarrow>
     sy_symbol r = symb \<and> sy_error r = None \<and> sy_candidates r + sy_rejected r = sy_evaluated r \<and>
     sy_evaluated r = (if sy_skipped_reason r = None then length (sc_strategies cfg) else 0) \<and>
     sy_inserted r + sy_duplicates r \<le> sy_evaluated r \<and>
     (op_store_rejections options \<and> \<not> op_dry_run options \<longrightarrow>
        sy_inserted r + sy_duplicates r = sy_evaluated r) \<and>
     (op_dry_run options \<longrightarrow> sy_inserted r = 0 \<and> sy_duplicates r = 0 \<and> st' = st) \<and>
     stored st' = stored st + sy_inserted r"

lemma run_symbol_ok:
  assumes "run_symbol repo cfg options tf run now symb st = (Inr (r, v), st')"
  shows "symbol_ok cfg options symb r st st'"
proof -
  from assms obtain bars where
    l: "sr_load_completed_bars repo symb tf scanner_history_bar_limit None None st = Inr bars"
    by (auto simp: run_symbol_def bindS_Inr_iff)
  show ?thesis
  proof (cases "skip_reason options tf bars (current_session_bars (build_feature_input bars))")
    case (Some reason)
    with assms l show ?thesis
      by (auto simp: run_symbol_def bindS_Inr_iff skipped_symbol_def symbol_ok_def)
  next
    case None
    with assms l obtain bm n where
      f: "foldS (scan_strategy repo cfg options symb tf run bars bm
          (latest_completed_bar_is_stale cfg bars run now) now) (sc_strategies cfg) no_counts st = (Inr n, st')"
      and r: "r = \<lparr>sy_symbol = symb, sy_evaluated = sn_evaluated n, sy_inserted = sn_inserted n,
          sy_duplicates = sn_duplicates n, sy_candidates = sn_candidates n,
          sy_rejected = sn_rejected n, sy_skipped_reason = None, sy_error = None\<rparr>"
      by (auto simp: run_symbol_def bindS_Inr_iff split: option.splits)
    from scan_strategies [OF f] show ?thesis by (auto simp: r counts_inv_def symbol_ok_def)
  qed
qed

lemma persist_keeps: "keeps (\<lambda>s. c \<le> stored s) (persist_evaluation repo e n)"
proof (rule keepsI)
  fix s r s' assume "c \<le> stored s" "persist_evaluation repo e n s = (r, s')"
  then show "c \<le> stored s'"
    using persist_Inr [of e n s] insert_stored [of e s] by (auto split: if_splits)
qed

lemma scan_strategy_keeps:
  "keeps (\<lambda>s. c \<le> stored s) (scan_strategy repo cfg options symb tf run bars bm stale now strategy n)"
  unfolding scan_strategy_def by (auto intro!: keeps_intros persist_keeps)

lemma run_symbol_keeps: "keeps (\<lambda>s. c \<le> stored s) (run_symbol repo cfg options tf run now symb)"
  unfolding run_symbol_def
  by (auto intro!: keeps_intros scan_strategy_keeps split: option.splits)

lemma dry_strategy_keeps:
  "op_dry_run options \<Longrightarrow>
     keeps (\<lambda>s. s = s0) (scan_strategy repo cfg options symb tf run bars bm stale now strategy n)"
  unfolding scan_strategy_def by (auto intro!: keeps_intros)

lemma dry_symbol_keeps:
  "op_dry_run options \<Longrightarrow> keeps (\<lambda>s. s = s0) (run_symbol repo cfg options tf run now symb)"
  unfolding run_symbol_def
  by (auto intro!: keeps_intros dry_strategy_keeps split: option.splits)

text \<open>\<open>run_once\<close>: every evaluation is stored or a duplicate.\<close>

lemma run_once_ok:
  assumes "run_once repo cfg now symb tf run st = (Inr r, st')"
  shows "run_candidates r + run_rejected r = run_evaluated r \<and>
    run_inserted r + run_duplicates r = run_evaluated r \<and> stored st' = stored st + run_inserted r"
proof -
  from assms obtain symbols n s1 where
    c: "(case symb of None \<Rightarrow> readS (sr_load_symbols repo)
       | Some s \<Rightarrow> if s = [] then readS (sr_load_symbols repo) else retS [s]) st = (Inr symbols, s1)"
    and f1: "foldS (run_once_step repo cfg tf run now) symbols no_counts s1 = (Inr n, st')"
    and r: "r = run_result_of n"
    by (auto simp: run_once_def bindS_Inr_iff split: if_splits)
  from c have "s1 = st" by (auto split: option.splits if_splits)
  with f1 have f: "foldS (run_once_step repo cfg tf run now) symbols no_counts st = (Inr n, st')" by simp
  have "sn_candidates n + sn_rejected n = sn_evaluated n \<and> sn_inserted n + sn_duplicates n = sn_evaluated n \<and>
      stored st' = stored st + sn_inserted n"
  proof (rule foldS_induct [OF f, where P = "\<lambda>us n st'. sn_candidates n + sn_rejected n = sn_evaluated n \<and>
      sn_inserted n + sn_duplicates n = sn_evaluated n \<and> stored st' = stored st + sn_inserted n"])
    show "sn_candidates no_counts + sn_rejected no_counts = sn_evaluated no_counts \<and>
      sn_inserted no_counts + sn_duplicates no_counts = sn_evaluated no_counts \<and>
      stored st = stored st + sn_inserted no_counts" by (simp add: no_counts_def)
  next
    fix us u a a' s1 s2
    assume I: "sn_candidates a + sn_rejected a = sn_evaluated a \<and>
      sn_inserted a + sn_duplicates a = sn_evaluated a \<and> stored s1 = stored st + sn_inserted a"
      and s: "run_once_step repo cfg tf run now u a s1 = (Inr a', s2)"
    from s obtain q v where "run_symbol repo cfg run_once_options tf run (now u) u s1 = (Inr (q, v), s2)"
      and a': "a' = add_symbol_result (q, v) a"
      by (auto simp: run_once_step_def bindS_Inr_iff)
    from run_symbol_ok [OF this(1)] I show "sn_candidates a' + sn_rejected a' = sn_evaluated a' \<and>
      sn_inserted a' + sn_duplicates a' = sn_evaluated a' \<and> stored s2 = stored st + sn_inserted a'"
      by (auto simp: a' add_symbol_result_def symbol_ok_def run_once_options_def)
  qed
  then show ?thesis by (simp add: r run_result_of_def)
qed

text \<open>A batch: one row per symbol in order, and an error row for a symbol whose scan raised.\<close>

lemma scan_batch_symbol_cases:
  assumes "scan_batch_symbol repo cfg options now symb st = (r, st')"
  shows "(\<exists>q. r = Inr q \<and> symbol_ok cfg (scan_options.truncate options) symb q st st') \<or>
    (r = Inr (failed_symbol symb) \<and>
      (\<exists>e. run_symbol repo cfg (scan_options.truncate options) (op_timeframe options) None (now symb) symb st
         = (Inl e, st')))"
proof -
  obtain x s1 where x: "run_symbol repo cfg (scan_options.truncate options) (op_timeframe options) None
      (now symb) symb st = (x, s1)" by (metis surj_pair)
  show ?thesis
  proof (cases x)
    case (Inl e)
    with x assms show ?thesis by (auto simp: scan_batch_symbol_def tryS_def bindS_def)
  next
    case (Inr rv)
    obtain q v where rv: "rv = (q, v)" by (cases rv)
    with x Inr assms have "r = Inr q" "st' = s1"
      by (auto simp: scan_batch_symbol_def tryS_def bindS_def)
    moreover have "symbol_ok cfg (scan_options.truncate options) symb q st s1"
      using run_symbol_ok x Inr rv by simp
    ultimately show ?thesis by blast
  qed
qed

lemma batch_rows_total: "\<exists>rows st'. mapS (scan_batch_symbol repo cfg options now) symbols st = (Inr rows, st')"
proof (induction symbols arbitrary: st)
  case Nil
  then show ?case by simp
next
  case (Cons s symbols)
  obtain r st1 where r: "scan_batch_symbol repo cfg options now s st = (r, st1)" by (metis surj_pair)
  with scan_batch_symbol_cases [OF r] Cons [of st1] show ?case by (auto simp: bindS_def)
qed

lemma run_batch_total:
  "run_batch repo s read_text latest cfg now b f options st =
     (case batch_symbols s read_text latest cfg options of
        Inl e \<Rightarrow> (Inl e, st)
      | Inr symbols \<Rightarrow>
          (case mapS (scan_batch_symbol repo cfg options now) symbols st of
             (Inr rows, st') \<Rightarrow> (Inr (batch_result_of symbols rows b f), st')
           | (Inl e, st') \<Rightarrow> (Inl e, st')))"
  by (auto simp: run_batch_def bindS_def split: sum.splits prod.splits)

lemma run_batch_raises:
  assumes "run_batch repo s read_text latest cfg now b f options st = (Inl e, st')"
  shows "batch_symbols s read_text latest cfg options = Inl e \<and> st' = st"
proof (cases "batch_symbols s read_text latest cfg options")
  case (Inl x)
  with assms show ?thesis by (simp add: run_batch_total)
next
  case (Inr symbols)
  obtain rows st1 where "mapS (scan_batch_symbol repo cfg options now) symbols st = (Inr rows, st1)"
    using batch_rows_total by blast
  with assms Inr show ?thesis by (simp add: run_batch_total)
qed

lemma run_batch_ok:
  assumes "run_batch repo s read_text latest cfg now b f options st = (Inr r, st')"
  shows "\<exists>symbols. batch_symbols s read_text latest cfg options = Inr symbols \<and>
    list_all2 (row_ok cfg (scan_options.truncate options)) symbols (ba_per_symbol r) \<and>
    ba_evaluated_symbols r = length symbols \<and> stored st + ba_total_inserted r \<le> stored st' \<and>
    (ba_errors r = [] \<longrightarrow> stored st' = stored st + ba_total_inserted r) \<and>
    (op_dry_run options \<longrightarrow> st' = st \<and> ba_total_inserted r = 0)"
proof -
  from assms obtain symbols rows where sy: "batch_symbols s read_text latest cfg options = Inr symbols"
    and m: "mapS (scan_batch_symbol repo cfg options now) symbols st = (Inr rows, st')"
    and r: "r = batch_result_of symbols rows b f"
    by (auto simp: run_batch_total split: sum.splits prod.splits)
  let ?o = "scan_options.truncate options"
  have "list_all2 (row_ok cfg ?o) symbols rows \<and> stored st + sum_list (map sy_inserted rows) \<le> stored st' \<and>
     (list_all (\<lambda>r. sy_error r = None) rows \<longrightarrow> stored st' = stored st + sum_list (map sy_inserted rows)) \<and>
     (op_dry_run options \<longrightarrow> st' = st \<and> sum_list (map sy_inserted rows) = 0)"
  proof (rule mapS_induct [OF m, where P = "\<lambda>us vs s1. list_all2 (row_ok cfg ?o) us vs \<and>
      stored st + sum_list (map sy_inserted vs) \<le> stored s1 \<and>
      (list_all (\<lambda>r. sy_error r = None) vs \<longrightarrow> stored s1 = stored st + sum_list (map sy_inserted vs)) \<and>
      (op_dry_run options \<longrightarrow> s1 = st \<and> sum_list (map sy_inserted vs) = 0)"])
    fix us u vs v s1 s2
    assume I: "list_all2 (row_ok cfg ?o) us vs \<and>
      stored st + sum_list (map sy_inserted vs) \<le> stored s1 \<and>
      (list_all (\<lambda>r. sy_error r = None) vs \<longrightarrow> stored s1 = stored st + sum_list (map sy_inserted vs)) \<and>
      (op_dry_run options \<longrightarrow> s1 = st \<and> sum_list (map sy_inserted vs) = 0)"
      and b: "scan_batch_symbol repo cfg options now u s1 = (Inr v, s2)"
    have dry: "op_dry_run ?o = op_dry_run options" by (simp add: scan_options.truncate_def)
    from scan_batch_symbol_cases [OF b] consider
        (ok) "symbol_ok cfg ?o u v s1 s2"
      | (fail) e where "v = failed_symbol u"
          "run_symbol repo cfg ?o (op_timeframe options) None (now u) u s1 = (Inl e, s2)"
      by auto
    then show "list_all2 (row_ok cfg ?o) (us @ [u]) (vs @ [v]) \<and>
      stored st + sum_list (map sy_inserted (vs @ [v])) \<le> stored s2 \<and>
      (list_all (\<lambda>r. sy_error r = None) (vs @ [v]) \<longrightarrow>
        stored s2 = stored st + sum_list (map sy_inserted (vs @ [v]))) \<and>
      (op_dry_run options \<longrightarrow> s2 = st \<and> sum_list (map sy_inserted (vs @ [v])) = 0)"
    proof cases
      case ok
      then have v: "row_ok cfg ?o u v" "sy_error v = None" "stored s2 = stored s1 + sy_inserted v"
        "op_dry_run options \<Longrightarrow> s2 = s1 \<and> sy_inserted v = 0"
        by (simp_all add: symbol_ok_def row_ok_def dry)
      then show ?thesis using I by (auto intro: list_all2_appendI)
    next
      case fail
      have "stored s1 \<le> stored s2"
        by (rule keepsD [OF run_symbol_keeps order_refl fail(2)])
      moreover have "op_dry_run options \<Longrightarrow> s2 = s1"
        using keepsD [OF dry_symbol_keeps [of ?o s1] refl fail(2)] dry by simp
      moreover have "row_ok cfg ?o u v" "sy_error v \<noteq> None" "sy_inserted v = 0"
        by (simp_all add: fail(1) failed_symbol_def row_ok_def)
      ultimately show ?thesis using I by (auto intro: list_all2_appendI)
    qed
  qed simp
  note rows = this
  have "list_all (\<lambda>r. sy_error r = None) rows" if "ba_errors r = []"
    using that by (auto simp: r batch_result_of_def map_filter_Nil list_all_iff)
  note errors = this
  show ?thesis
  proof (intro exI conjI)
    show "batch_symbols s read_text latest cfg options = Inr symbols" by (rule sy)
    show "list_all2 (row_ok cfg ?o) symbols (ba_per_symbol r)" using rows by (simp add: r batch_result_of_def)
    show "ba_evaluated_symbols r = length symbols" by (simp add: r batch_result_of_def)
    show "stored st + ba_total_inserted r \<le> stored st'" using rows by (simp add: r batch_result_of_def)
    show "ba_errors r = [] \<longrightarrow> stored st' = stored st + ba_total_inserted r"
      using rows errors by (simp add: r batch_result_of_def)
    show "op_dry_run options \<longrightarrow> st' = st \<and> ba_total_inserted r = 0"
      using rows by (simp add: r batch_result_of_def)
  qed
qed

end

end
