(* ===== verification/ScannerReplay.thy ===== *)
theory ScannerReplay
  imports ScannerService
begin

section \<open>What a replay of the scanners computes\<close>

text \<open>
  The replay interleaves evaluating and storing. It is refined to two phases: the list of evaluations
  is a function of the loaded bars alone, and storing them is a fold over that list. The first phase
  never looks at a bar after the one it evaluates; the second stores every key at most once, so that a
  second replay stores nothing.
\<close>

subsection \<open>Two phases\<close>

definition replay_points :: "scanner_config \<Rightarrow> nat \<Rightarrow> (nat \<times> string) list" where
  "replay_points config m = concat (map (\<lambda>i. map (Pair i) (sc_strategies config)) [0..<m])"

definition replay_evaluation ::
  "scanner_config \<Rightarrow> string \<Rightarrow> string \<Rightarrow> string \<Rightarrow> completed_bar list \<Rightarrow> completed_bar list
   \<Rightarrow> nat \<times> string \<Rightarrow> scanner_evaluation res" where
  "replay_evaluation config symb timeframe replay_run_id ordered_bars benchmark_bars p =
     (case p of (index, strategy) \<Rightarrow>
        evaluate_strategy 0 strategy (bar_instrument_id (last (take (index + 1) ordered_bars))) symb
          timeframe (take (index + 1) ordered_bars) config
          (filter (\<lambda>b. started_at b \<le> started_at (ordered_bars ! index)) benchmark_bars) None
          (Some replay_run_id) False)"

definition store_evaluation ::
  "'s scanner_repository \<Rightarrow> scanner_evaluation \<Rightarrow> scan_counts \<Rightarrow> ('s, scan_counts) prog" where
  "store_evaluation repo e n = persist_evaluation repo e (count_evaluation e n)"

lemma foldS_concat:
  "foldS (\<lambda>i. foldS (g i) ys) xs b = foldS (\<lambda>(i, y). g i y) (concat (map (\<lambda>i. map (Pair i) ys) xs)) b"
proof (induction xs arbitrary: b)
  case Nil
  then show ?case by simp
next
  case (Cons x xs)
  have "foldS (\<lambda>(i, y). g i y) (map (Pair x) ys) b = foldS (g x) ys b" for b
  proof (induction ys arbitrary: b)
    case Nil
    then show ?case by simp
  next
    case (Cons y ys)
    then have "foldS (\<lambda>(i, y). g i y) (map (Pair x) ys) = foldS (g x) ys" by (rule ext)
    then show ?case by simp
  qed
  then show ?case using Cons by (auto simp: foldS_append fun_eq_iff bindS_def split: prod.splits sum.splits)
qed

text \<open>A loop whose body computes without the state and then acts, when it succeeds.\<close>

lemma foldS_lift:
  "foldS (\<lambda>x a. bindS (liftS (h x)) (\<lambda>e. k e a)) xs a st = (Inr c, st') \<longleftrightarrow>
     (\<exists>es. mapE h xs = Inr es \<and> foldS k es a st = (Inr c, st'))"
proof (induction xs arbitrary: a st)
  case Nil
  then show ?case by simp
next
  case (Cons x xs)
  show ?case
  proof (cases "h x")
    case (Inl e)
    then show ?thesis by (simp add: bindS_def)
  next
    case (Inr e)
    let ?F = "\<lambda>x a. bindS (liftS (h x)) (\<lambda>e. k e a)"
    have step: "foldS ?F (x # xs) a st = bindS (k e a) (foldS ?F xs) st"
      using Inr by (simp add: bindS_def liftS_def)
    have m: "mapE h (x # xs) = Inr es \<longleftrightarrow> (\<exists>ys. mapE h xs = Inr ys \<and> es = e # ys)" for es
      using Inr by (auto simp: bindE_eq_Inr)
    show ?thesis
      unfolding step m bindS_Inr_iff Cons by (auto simp: bindS_Inr_iff)
  qed
qed

lemma replay_loop:
  "foldS (replay_bar repo cfg symb tf run ordered bm) [0..<m] n st = (Inr n', st') \<longleftrightarrow>
     (\<exists>es. mapE (replay_evaluation cfg symb tf run ordered bm) (replay_points cfg m) = Inr es \<and>
        foldS (store_evaluation repo) es n st = (Inr n', st'))"
proof -
  have step: "(\<lambda>(i, y). replay_strategy repo cfg symb tf run (take (i + 1) ordered)
        (filter (\<lambda>b. started_at b \<le> started_at (ordered ! i)) bm) y) =
      (\<lambda>p a. bindS (liftS (replay_evaluation cfg symb tf run ordered bm p)) (\<lambda>e. store_evaluation repo e a))"
    by (auto simp: fun_eq_iff replay_strategy_def replay_evaluation_def store_evaluation_def)
  have "foldS (replay_bar repo cfg symb tf run ordered bm) [0..<m] n =
      foldS (\<lambda>(i, y). replay_strategy repo cfg symb tf run (take (i + 1) ordered)
        (filter (\<lambda>b. started_at b \<le> started_at (ordered ! i)) bm) y) (replay_points cfg m) n"
    unfolding replay_points_def replay_bar_def [abs_def] by (rule foldS_concat)
  then show ?thesis unfolding step using foldS_lift by metis
qed

lemma replay_phases:
  "scanner_replay repo cfg symb tf run st = (Inr r, st') \<longleftrightarrow>
     tf = scanner_timeframe \<and>
     (\<exists>bars bm es n. sr_load_completed_bars repo symb tf scanner_replay_bar_limit None None st = Inr bars \<and>
        (case benchmark_symbol cfg of None \<Rightarrow> bm = []
         | Some b \<Rightarrow> sr_load_completed_bars repo b tf scanner_replay_bar_limit None None st = Inr bm) \<and>
        mapE (replay_evaluation cfg symb tf run (sort_key started_at bars) (sort_key started_at bm))
          (replay_points cfg (length bars)) = Inr es \<and>
        foldS (store_evaluation repo) es no_counts st = (Inr n, st') \<and> r = run_result_of n)"
proof (cases "benchmark_symbol cfg")
  case None
  then show ?thesis
    by (auto simp: scanner_replay_def bindS_Inr_iff replay_loop validate_timeframe_def)
next
  case (Some b)
  then show ?thesis
    by (auto simp: scanner_replay_def bindS_Inr_iff replay_loop validate_timeframe_def)
qed

subsection \<open>No look-ahead\<close>

lemma nth_in_prefix: "i < m \<Longrightarrow> m \<le> length xs \<Longrightarrow> take m xs ! i = xs ! i"
  by simp

lemma sorted_prefix:
  fixes f :: "'a \<Rightarrow> 'b::linorder"
  assumes "sorted (map f xs)"
  shows "filter (\<lambda>x. f x \<le> t) xs = takeWhile (\<lambda>x. f x \<le> t) xs"
  using assms
proof (induction xs)
  case Nil
  then show ?case by simp
next
  case (Cons x xs)
  then have le: "f x \<le> f y" if "y \<in> set xs" for y using that by simp
  show ?case
  proof (cases "f x \<le> t")
    case True
    with Cons show ?thesis by simp
  next
    case False
    then have "filter (\<lambda>x. f x \<le> t) xs = []" using le by (force simp: filter_empty_conv)
    with False show ?thesis by simp
  qed
qed

text \<open>The evaluation at a bar is a function of the bars up to its minute.\<close>

lemma replay_evaluation_prefix:
  assumes "sorted (map started_at xs)" "i < length xs" "started_at (xs ! i) \<le> t"
  shows "replay_evaluation cfg symb tf run (filter (\<lambda>b. started_at b \<le> t) xs)
      (filter (\<lambda>b. started_at b \<le> t) bm) (i, strategy) =
    replay_evaluation cfg symb tf run xs bm (i, strategy)"
proof -
  let ?ys = "takeWhile (\<lambda>b. started_at b \<le> t) xs"
  have len: "i < length ?ys"
  proof (rule ccontr)
    assume n: "\<not> i < length ?ys"
    then have l: "length ?ys < length xs" using assms(2) by simp
    then have "\<not> started_at (xs ! length ?ys) \<le> t" by (rule nth_length_takeWhile)
    moreover have "started_at (xs ! length ?ys) \<le> started_at (xs ! i)"
      using sorted_nth_mono [OF assms(1), of "length ?ys" i] n assms(2) l by simp
    ultimately show False using assms(3) by simp
  qed
  obtain zs where zs: "xs = ?ys @ zs" by (metis takeWhile_dropWhile_id)
  have nth: "?ys ! i = xs ! i" using len by (simp add: takeWhile_nth)
  have tk: "take (i + 1) ?ys = take (i + 1) xs"
    using len by (subst (2) zs) simp
  have bm: "filter (\<lambda>b. started_at b \<le> started_at (xs ! i)) (filter (\<lambda>b. started_at b \<le> t) bm) =
      filter (\<lambda>b. started_at b \<le> started_at (xs ! i)) bm"
    using assms(3) by (auto simp: filter_filter intro: filter_cong)
  show ?thesis
    unfolding replay_evaluation_def sorted_prefix [OF assms(1)] prod.case tk nth bm ..
qed

subsection \<open>Storing twice\<close>

context scanner_store
begin

lemma store_Inr:
  "\<exists>b n' st'. store_evaluation repo e n st = (Inr n', st') \<and> sr_insert_signal repo e st = (Inr b, st') \<and>
     sn_evaluated n' = Suc (sn_evaluated n) \<and>
     sn_candidates n' = sn_candidates (count_evaluation e n) \<and>
     sn_rejected n' = sn_rejected (count_evaluation e n) \<and>
     sn_inserted n' = sn_inserted n + (if b then 1 else 0) \<and>
     sn_duplicates n' = sn_duplicates n + (if b then 0 else 1)"
  using persist_Inr [of e "count_evaluation e n" st] by (auto simp: store_evaluation_def)

lemma store_all_total: "\<exists>n' st'. foldS (store_evaluation repo) es n st = (Inr n', st')"
proof (induction es arbitrary: n st)
  case Nil
  then show ?case by simp
next
  case (Cons e es)
  obtain n1 s1 where "store_evaluation repo e n st = (Inr n1, s1)" using store_Inr by blast
  with Cons [of n1 s1] show ?case by (simp add: bindS_def)
qed

text \<open>The counters and the keys after storing a list of evaluations.\<close>

lemma store_all:
  assumes "foldS (store_evaluation repo) es no_counts st = (Inr n, st')"
  shows "sn_evaluated n = length es \<and> sn_inserted n + sn_duplicates n = length es \<and>
    stored st' = stored st + sn_inserted n \<and> keys st \<subseteq> keys st' \<and>
    (\<forall>s tf k lo hi. sr_load_completed_bars repo s tf k lo hi st' = sr_load_completed_bars repo s tf k lo hi st) \<and>
    known st' = known st \<and>
    (\<forall>e \<in> set es. known st (ev_instrument_id e) \<longrightarrow> ev_signal_key e \<in> keys st')"
proof (rule foldS_induct [OF assms, where P = "\<lambda>us n s. sn_evaluated n = length us \<and>
    sn_inserted n + sn_duplicates n = length us \<and>
    stored s = stored st + sn_inserted n \<and> keys st \<subseteq> keys s \<and>
    (\<forall>y tf k lo hi. sr_load_completed_bars repo y tf k lo hi s = sr_load_completed_bars repo y tf k lo hi st) \<and>
    known s = known st \<and>
    (\<forall>e \<in> set us. known st (ev_instrument_id e) \<longrightarrow> ev_signal_key e \<in> keys s)"])
  fix us :: "scanner_evaluation list" and u a a' s1 s2
  assume I: "sn_evaluated a = length us \<and> sn_inserted a + sn_duplicates a = length us \<and>
    stored s1 = stored st + sn_inserted a \<and> keys st \<subseteq> keys s1 \<and>
    (\<forall>y tf k lo hi. sr_load_completed_bars repo y tf k lo hi s1 = sr_load_completed_bars repo y tf k lo hi st) \<and>
    known s1 = known st \<and>
    (\<forall>e \<in> set us. known st (ev_instrument_id e) \<longrightarrow> ev_signal_key e \<in> keys s1)"
    and s: "store_evaluation repo u a s1 = (Inr a', s2)"
  from store_Inr [of u a s1] s obtain b where b: "sr_insert_signal repo u s1 = (Inr b, s2)"
    "sn_evaluated a' = Suc (sn_evaluated a)" "sn_inserted a' = sn_inserted a + (if b then 1 else 0)"
    "sn_duplicates a' = sn_duplicates a + (if b then 0 else 1)" by auto
  have fr: "sr_load_completed_bars repo y tf k lo hi s2 = sr_load_completed_bars repo y tf k lo hi s1"
    "known s2 = known s1" for y tf k lo hi
    using insert_frame [OF b(1)] by auto
  note mono = insert_keys_mono [OF b(1)] and key = insert_known_key [OF b(1)]
  show "sn_evaluated a' = length (us @ [u]) \<and> sn_inserted a' + sn_duplicates a' = length (us @ [u]) \<and>
    stored s2 = stored st + sn_inserted a' \<and> keys st \<subseteq> keys s2 \<and>
    (\<forall>y tf k lo hi. sr_load_completed_bars repo y tf k lo hi s2 = sr_load_completed_bars repo y tf k lo hi st) \<and>
    known s2 = known st \<and>
    (\<forall>e \<in> set (us @ [u]). known st (ev_instrument_id e) \<longrightarrow> ev_signal_key e \<in> keys s2)"
    using I b(2-4) insert_stored [OF b(1)] fr mono key by auto
qed (auto simp: no_counts_def)

text \<open>When all keys are stored already, nothing changes and all are duplicates.\<close>

lemma store_again:
  "\<forall>e \<in> set es. ev_signal_key e \<in> keys st \<Longrightarrow>
     \<exists>n'. foldS (store_evaluation repo) es n st = (Inr n', st) \<and> sn_inserted n' = sn_inserted n \<and>
       sn_duplicates n' = sn_duplicates n + length es"
proof (induction es arbitrary: n)
  case Nil
  then show ?case by simp
next
  case (Cons e es)
  from Cons.prems have "sr_insert_signal repo e st = (Inr False, st)" by (intro insert_again) simp
  with store_Inr [of e n st] obtain n1 where n1: "store_evaluation repo e n st = (Inr n1, st)"
    "sn_inserted n1 = sn_inserted n" "sn_duplicates n1 = sn_duplicates n + 1" by auto
  from Cons.IH [of n1] Cons.prems n1 show ?case by (auto simp: bindS_def)
qed

text \<open>
  A replay counts consistently, and a second replay of the same run on the state it left succeeds,
  stores nothing and reports every evaluation as a duplicate.
\<close>

lemma replay_counts:
  assumes "scanner_replay repo cfg symb tf run st = (Inr r, st')"
  shows "run_inserted r + run_duplicates r = run_evaluated r \<and> stored st' = stored st + run_inserted r"
  using assms store_all by (fastforce simp: replay_phases run_result_of_def)

lemma replay_again:
  assumes "scanner_replay repo cfg symb tf run st = (Inr r, st')"
  shows "\<exists>r2. scanner_replay repo cfg symb tf run st' = (Inr r2, st') \<and> run_inserted r2 = 0 \<and>
    run_duplicates r2 = run_evaluated r"
proof -
  from assms obtain bars bm es n where tf: "tf = scanner_timeframe"
    and l: "sr_load_completed_bars repo symb tf scanner_replay_bar_limit None None st = Inr bars"
    and b: "case benchmark_symbol cfg of None \<Rightarrow> bm = []
         | Some b \<Rightarrow> sr_load_completed_bars repo b tf scanner_replay_bar_limit None None st = Inr bm"
    and es: "mapE (replay_evaluation cfg symb tf run (sort_key started_at bars) (sort_key started_at bm))
          (replay_points cfg (length bars)) = Inr es"
    and f: "foldS (store_evaluation repo) es no_counts st = (Inr n, st')" and r: "r = run_result_of n"
    unfolding replay_phases by blast
  note S = store_all [OF f]
  have known: "known st (ev_instrument_id e)" if e: "e \<in> set es" for e
  proof -
    from mapE_all [OF es e] obtain i s where p: "(i, s) \<in> set (replay_points cfg (length bars))"
      and ev: "replay_evaluation cfg symb tf run (sort_key started_at bars) (sort_key started_at bm) (i, s) = Inr e"
      by auto
    from p have i: "i < length bars" by (auto simp: replay_points_def)
    have "last (take (i + 1) (sort_key started_at bars)) \<in> set bars"
      using i by (metis (no_types, lifting) add_is_0 in_set_takeD last_in_set length_greater_0_conv
          length_sort not_gr_zero set_sort take_eq_Nil zero_neq_one less_nat_zero_code)
    moreover have "ev_instrument_id e = bar_instrument_id (last (take (i + 1) (sort_key started_at bars)))"
      using ev by (auto simp: replay_evaluation_def dest: evaluation_status(2))
    ultimately show ?thesis using load_known [OF l] by simp
  qed
  with S have "\<forall>e \<in> set es. ev_signal_key e \<in> keys st'" by blast
  from store_again [OF this, of no_counts] obtain n2 where
    n2: "foldS (store_evaluation repo) es no_counts st' = (Inr n2, st')" "sn_inserted n2 = 0"
    "sn_duplicates n2 = length es" by (auto simp: no_counts_def)
  have l': "sr_load_completed_bars repo symb tf scanner_replay_bar_limit None None st' = Inr bars"
    using l S by simp
  have b': "case benchmark_symbol cfg of None \<Rightarrow> bm = []
         | Some b \<Rightarrow> sr_load_completed_bars repo b tf scanner_replay_bar_limit None None st' = Inr bm"
    using b S by (auto split: option.splits)
  have "scanner_replay repo cfg symb tf run st' = (Inr (run_result_of n2), st')"
    unfolding replay_phases using tf l' b' es n2(1) by blast
  with n2 S r show ?thesis by (auto simp: run_result_of_def)
qed

end

end
