(* ===== verification/ScannerExamples.thy ===== *)
theory ScannerExamples
  imports ScannerReplay SessionExamples PaperSql PaperSimulator
begin

section \<open>Properties of the scanner service\<close>

text \<open>
  What the scanner service promises over the SQL repository, with an application of each property:
  the 56 bar session of \<open>SessionExamples\<close> stored as candles of one instrument, and small requests.
\<close>

subsection \<open>A database with the session\<close>

definition session_instrument :: instrument_row where
  "session_instrument =
     \<lparr>ir_id = 1, ir_kite_instrument_token = ''77'', ir_exchange = ''NSE'', ir_tradingsymbol = ''SBIN'',
      ir_name = JNull, ir_instrument_type = ''EQ'', ir_tick_size = 1, ir_lot_size = 1,
      ir_is_active = True, ir_updated_at = 0\<rparr>"

definition session_candle :: "completed_bar \<Rightarrow> candle_row" where
  "session_candle b =
     \<lparr>cr_id = 0, cr_instrument_id = 1, cr_timeframe = bar_timeframe b, cr_started_at = started_at b,
      cr_open_price = open_price b, cr_high_price = high_price b, cr_low_price = low_price b,
      cr_close_price = close_price b, cr_volume = volume b, cr_source = ''KITE_WEBSOCKET''\<rparr>"

definition session_database :: database where
  "session_database =
     \<lparr>db_now = 0, db_broker_sessions = [], db_instruments = [session_instrument],
      db_candles = map session_candle demo_bars, db_signals = [], db_recommendations = [],
      db_orders = [], db_order_events = [], db_trades = [], db_journal_entries = [], db_model_runs = [],
      db_universe_runs = []\<rparr>"

lemma session_split: "split_symbol ''NSE:SBIN'' = Inr (''NSE'', ''SBIN'')"
  by code_simp

lemma demo_bar_identity:
  assumes "b \<in> set demo_bars"
  shows "completed_bar_from_row (session_candle b, session_instrument) = b \<and> bar_timeframe b = ''1minute''"
proof -
  from demo_in [OF assms] obtain i p v where "b = demo_bar i p v" by blast
  then show ?thesis
    by (simp add: completed_bar_from_row_def session_candle_def session_instrument_def instrument_key_def
        demo_bar_def)
qed

lemma session_query: "candle_query session_database ''NSE'' ''SBIN'' ''1minute'' = demo_bars"
proof -
  have "join_instrument session_database cr_instrument_id (db_candles session_database)
      = map (\<lambda>b. (session_candle b, session_instrument)) demo_bars"
    by (simp add: join_instrument_def session_database_def session_instrument_def session_candle_def
        comp_def)
  moreover have "filter (\<lambda>(r, i). ir_exchange i = ''NSE'' \<and> ir_tradingsymbol i = ''SBIN'' \<and> cr_timeframe r = ''1minute'')
      (map (\<lambda>b. (session_candle b, session_instrument)) demo_bars)
      = map (\<lambda>b. (session_candle b, session_instrument)) demo_bars"
    using demo_bar_identity
    by (intro filter_True) (auto simp: session_instrument_def session_candle_def)
  moreover have "map completed_bar_from_row (map (\<lambda>b. (session_candle b, session_instrument)) demo_bars) = demo_bars"
    using demo_bar_identity by (simp add: comp_def map_idI)
  ultimately show ?thesis by (simp add: candle_query_def)
qed

lemma session_load:
  "ssql_load_completed_bars ''NSE:SBIN'' ''1minute'' scanner_history_bar_limit None None session_database
     = Inr demo_bars"
proof -
  have "distinct (map started_at demo_bars)"
    using demo_nth demo_length by (simp add: distinct_conv_nth minute_us_def)
  then have inj: "inj_on (\<lambda>b. - started_at b) (set demo_bars)" by (simp add: distinct_map inj_on_def)
  have "sort_key (\<lambda>b. - started_at b) demo_bars = rev demo_bars"
    by (rule sort_key_inj_key_eq [OF _ inj])
      (use demo_sorted in \<open>simp_all add: sorted_wrt_rev sorted_wrt_map\<close>)
  then show ?thesis
    by (simp add: ssql_load_completed_bars_def session_split session_query in_range_def opt_ok_def
        slice_first_def scanner_history_bar_limit_def demo_length)
qed

definition orb_config :: scanner_config where
  "orb_config = demo_config\<lparr>sc_strategies := [orb_name]\<rparr>"

definition session_now :: "string \<Rightarrow> instant" where
  "session_now symb = started_at (last demo_bars) + 60 * second_us"

lemma strategies_irrelevant:
  "hard_vetoes symb bars ind q (cfg\<lparr>sc_strategies := x\<rparr>) st stale = hard_vetoes symb bars ind q cfg st stale"
  "orb_condition ind b (cfg\<lparr>sc_strategies := x\<rparr>) = orb_condition ind b cfg"
  "vwap_condition ind prev b (cfg\<lparr>sc_strategies := x\<rparr>) = vwap_condition ind prev b cfg"
  "future_live (cfg\<lparr>sc_strategies := x\<rparr>) st qc status v stale = future_live cfg st qc status v stale"
  "opening_range_minutes (cfg\<lparr>sc_strategies := x\<rparr>) = opening_range_minutes cfg"
  by (cases cfg, simp only: hard_vetoes_def orb_condition_def vwap_condition_def future_live_def
      scanner_config.simps)+

lemma orb_config_eval:
  "evaluate_strategy now st iid symb tf bars orb_config bm q run stale =
     evaluate_strategy now st iid symb tf bars demo_config bm q run stale"
  unfolding orb_config_def evaluate_strategy_def opening_range_breakout_long_def
    vwap_pullback_continuation_long_def evaluation_def strategies_irrelevant
  by (rule refl)

lemma session_fresh:
  "latest_completed_bar_is_stale orb_config demo_bars run (session_now s) = False"
  by (simp add: latest_completed_bar_is_stale_def Let_def session_now_def orb_config_def demo_config_def
      minute_us_def second_us_def)

lemma session_candidate_exists:
  "\<exists>ev. evaluate_strategy now orb_name 1 ''NSE:SBIN'' ''1minute'' demo_bars orb_config [] None run False
      = Inr ev \<and> ev_status ev = candidate_status"
  using demo_candidate by (auto simp: orb_config_eval)

lemma orb_config_fields [simp]:
  "sc_enabled orb_config" "sc_strategies orb_config = [orb_name]" "benchmark_symbol orb_config = None"
  by (simp_all add: orb_config_def demo_config_def)

lemma session_instrument_known: "has_instrument session_database 1"
  by (simp add: has_instrument_def session_database_def session_instrument_def)

lemma last_demo_instrument: "bar_instrument_id (last demo_bars) = 1"
  by (simp add: demo_last demo_bar_def)

text \<open>The scan of the session stores one candidate.\<close>

lemma session_scan:
  assumes "op_min_candles options = 0" "\<not> op_require_session_start options"
    "\<not> op_require_continuity options" "\<not> op_dry_run options"
  shows "\<exists>v d. run_symbol scanner_sql_repository orb_config options ''1minute'' None (session_now ''NSE:SBIN'')
      ''NSE:SBIN'' session_database =
    (Inr (\<lparr>sy_symbol = ''NSE:SBIN'', sy_evaluated = 1, sy_inserted = 1, sy_duplicates = 0,
       sy_candidates = 1, sy_rejected = 0, sy_skipped_reason = None, sy_error = None\<rparr>, v), d) \<and>
    length (db_signals d) = 1"
proof -
  obtain ev where ev: "evaluate_strategy (session_now ''NSE:SBIN'') orb_name 1 ''NSE:SBIN'' ''1minute''
      demo_bars orb_config [] None None False = Inr ev" and c: "ev_status ev = candidate_status"
    using session_candidate_exists by blast
  have skip: "skip_reason options ''1minute'' demo_bars cs = None" for cs
    using assms by (simp add: skip_reason_def)
  have iid: "ev_instrument_id ev = 1" by (rule evaluation_status(2) [OF ev])
  have ins: "ssql_insert_signal ev session_database = (Inr True, session_database\<lparr>db_signals :=
      [(signal_row_of ev)\<lparr>gr_id := 1, gr_created_at := 0\<rparr>]\<rparr>)"
    using session_instrument_known by (simp add: ssql_insert_cases iid) (simp add: session_database_def next_id_def)
  show ?thesis
    by (simp add: run_symbol_def scanner_sql_repository_def session_load skip bindS_def session_fresh
        scan_strategy_def last_demo_instrument ev c assms persist_evaluation_def ins no_counts_def
        count_evaluation_def)
qed

subsection \<open>One stored candle\<close>

text \<open>The evaluation of a strategy succeeds when the indicators can be computed.\<close>

lemma evaluation_total:
  assumes i: "build_indicator_snapshot bars bm None (opening_range_minutes cfg) = Inr ind"
    and "bars \<noteq> []" "st \<in> set p05_strategies"
  shows "\<exists>ev. evaluate_strategy now st iid symb tf bars cfg bm None run stale = Inr ev"
proof -
  have snap: "\<exists>a. build_feature_snapshot now symb tf bars st' status v bm None (opening_range_minutes cfg) fl = Inr a"
    for st' status v fl
    by (simp add: build_feature_snapshot_def Let_def i)
  have fl: "\<exists>d. future_live cfg st' None status v stale = Inr d" for st' status v
    by (simp add: future_live_def Let_def spread_pct_def)
  have ev: "\<exists>ev. evaluation now iid symb st' tf bars cfg v bm None run stale = Inr ev" for st' v
  proof -
    obtain d where d: "future_live cfg st' None (if v \<noteq> [] then rejected_status else candidate_status)
        (unique_values v) stale = Inr d" using fl by blast
    obtain a where a: "build_feature_snapshot now symb tf bars st' (if v \<noteq> [] then rejected_status else candidate_status)
        (unique_values v) bm None (opening_range_minutes cfg) d = Inr a" using snap by blast
    show ?thesis using assms(2) d a by (simp add: evaluation_def Let_def)
  qed
  obtain a b where "build_feature_snapshot now symb tf bars orb_name rejected_status [] bm None
      (opening_range_minutes cfg) [] = Inr a"
    "build_feature_snapshot now symb tf bars vwap_name rejected_status [] bm None
      (opening_range_minutes cfg) [] = Inr b"
    using snap by blast
  then show ?thesis
    using assms(2,3) ev
    by (auto simp: evaluate_strategy_def opening_range_breakout_long_def
        vwap_pullback_continuation_long_def Let_def p05_strategies_def)
qed

definition first_bar :: completed_bar where
  "first_bar = demo_bar 0 100 100"

lemma first_bar_snapshot: "\<exists>i. build_indicator_snapshot [first_bar] [] None 15 = Inr i"
proof -
  have "case build_indicator_snapshot [first_bar] [] None 15 of Inr _ \<Rightarrow> True | _ \<Rightarrow> False"
    by code_simp
  then show ?thesis by (auto split: sum.splits)
qed

definition opening_database :: database where
  "opening_database = session_database\<lparr>db_candles := [session_candle first_bar]\<rparr>"

lemma opening_load:
  "ssql_load_completed_bars ''NSE:SBIN'' ''1minute'' scanner_replay_bar_limit None None opening_database
     = Inr [first_bar]"
proof -
  have "candle_query opening_database ''NSE'' ''SBIN'' ''1minute'' = [first_bar]"
    by (simp add: candle_query_def opening_database_def join_instrument_def session_database_def
        session_candle_def session_instrument_def completed_bar_from_row_def instrument_key_def
        first_bar_def demo_bar_def)
  then show ?thesis
    by (simp add: ssql_load_completed_bars_def session_split in_range_def opt_ok_def slice_first_def
        scanner_replay_bar_limit_def)
qed

lemma opening_replay:
  "\<exists>r d. scanner_replay scanner_sql_repository demo_config ''NSE:SBIN'' ''1minute'' ''run'' opening_database
     = (Inr r, d) \<and> run_evaluated r = 2"
proof -
  have cfg: "benchmark_symbol demo_config = None" "opening_range_minutes demo_config = 15"
    "sc_strategies demo_config = p05_strategies" by (simp_all add: demo_config_def)
  have "\<exists>es. mapE (replay_evaluation demo_config ''NSE:SBIN'' ''1minute'' ''run'' [first_bar] [])
      (replay_points demo_config 1) = Inr es"
  proof -
    obtain i where i: "build_indicator_snapshot [first_bar] [] None (opening_range_minutes demo_config) = Inr i"
      using first_bar_snapshot cfg by auto
    have "\<exists>ev. replay_evaluation demo_config ''NSE:SBIN'' ''1minute'' ''run'' [first_bar] [] (0, st) = Inr ev"
      if "st \<in> set p05_strategies" for st
      using evaluation_total [OF i _ that] by (simp add: replay_evaluation_def)
    from this [of orb_name] this [of vwap_name] show ?thesis
      by (auto simp: replay_points_def cfg p05_strategies_def)
  qed
  then obtain es where es: "mapE (replay_evaluation demo_config ''NSE:SBIN'' ''1minute'' ''run'' [first_bar] [])
      (replay_points demo_config 1) = Inr es" by blast
  obtain n d where f: "foldS (store_evaluation scanner_sql_repository) es no_counts opening_database = (Inr n, d)"
    using sql_scanner.store_all_total by blast
  have "length es = 2" using mapE_length [OF es] by (simp add: replay_points_def cfg p05_strategies_def)
  then have "sn_evaluated n = 2" using sql_scanner.store_all [OF f] by simp
  moreover have "scanner_replay scanner_sql_repository demo_config ''NSE:SBIN'' ''1minute'' ''run'' opening_database
     = (Inr (run_result_of n), d)"
    unfolding replay_phases cfg
    using es f opening_load
    by (auto simp: scanner_timeframe_def scanner_sql_repository_def intro!: exI [of _ "[first_bar]"])
  ultimately show ?thesis by (auto simp: run_result_of_def)
qed

subsection \<open>Properties\<close>

text \<open>A single run counts what it does: every evaluation is either a candidate or a rejection, every
  evaluation is either inserted or a duplicate, and the signals table grows by exactly the reported
  number of inserts.\<close>

theorem run_once_counts:
  assumes "run_once scanner_sql_repository cfg now symb tf run d = (Inr r, d')"
  shows "run_candidates r + run_rejected r = run_evaluated r \<and>
    run_inserted r + run_duplicates r = run_evaluated r \<and>
    length (db_signals d') = length (db_signals d) + run_inserted r"
  by (rule sql_scanner.run_once_ok [OF assms])

lemma session_run_once:
  "\<exists>r d. run_once scanner_sql_repository orb_config session_now (Some ''NSE:SBIN'') ''1minute'' None
      session_database = (Inr r, d) \<and> run_inserted r = 1 \<and> run_evaluated r = 1"
proof -
  obtain v d where "run_symbol scanner_sql_repository orb_config run_once_options ''1minute'' None
      (session_now ''NSE:SBIN'') ''NSE:SBIN'' session_database =
    (Inr (\<lparr>sy_symbol = ''NSE:SBIN'', sy_evaluated = 1, sy_inserted = 1, sy_duplicates = 0,
       sy_candidates = 1, sy_rejected = 0, sy_skipped_reason = None, sy_error = None\<rparr>, v), d)"
    using session_scan [of run_once_options] by (auto simp: run_once_options_def)
  then show ?thesis
    by (simp add: run_once_def run_once_step_def bindS_def validate_timeframe_def scanner_timeframe_def
        add_symbol_result_def no_counts_def run_result_of_def)
qed

theorem run_once_counts_witness:
  "\<exists>r d. run_once scanner_sql_repository orb_config session_now (Some ''NSE:SBIN'') ''1minute'' None
      session_database = (Inr r, d) \<and> run_inserted r = 1 \<and> length (db_signals d) = 1"
proof -
  obtain r d where r: "run_once scanner_sql_repository orb_config session_now (Some ''NSE:SBIN'') ''1minute'' None
      session_database = (Inr r, d)" "run_inserted r = 1" using session_run_once by blast
  from run_once_counts [OF r(1)] r show ?thesis by (auto simp: session_database_def)
qed

text \<open>A replay of the scanners can be repeated: running it again on the database it left succeeds,
  changes nothing, inserts nothing and reports every one of its evaluations as a duplicate.\<close>

theorem replay_is_idempotent:
  assumes "scanner_replay scanner_sql_repository cfg symb tf run d = (Inr r, d')"
  shows "\<exists>r2. scanner_replay scanner_sql_repository cfg symb tf run d' = (Inr r2, d') \<and>
    run_inserted r2 = 0 \<and> run_duplicates r2 = run_evaluated r"
  by (rule sql_scanner.replay_again [OF assms])

theorem replay_is_idempotent_witness:
  "\<exists>d r2. scanner_replay scanner_sql_repository demo_config ''NSE:SBIN'' ''1minute'' ''run'' d = (Inr r2, d) \<and>
    run_inserted r2 = 0 \<and> run_duplicates r2 = 2"
proof -
  obtain r d where r: "scanner_replay scanner_sql_repository demo_config ''NSE:SBIN'' ''1minute'' ''run''
      opening_database = (Inr r, d)" "run_evaluated r = 2" using opening_replay by blast
  from replay_is_idempotent [OF r(1)] r(2) show ?thesis by auto
qed

text \<open>A replay does not look ahead: what it evaluates at a bar is the same for any two histories,
  of the symbol and of the benchmark, that agree up to the minute of that bar.\<close>

theorem replay_sees_no_future:
  assumes "sorted (map started_at xs)" and "sorted (map started_at ys)"
    and "filter (\<lambda>b. started_at b \<le> t) xs = filter (\<lambda>b. started_at b \<le> t) ys"
    and "filter (\<lambda>b. started_at b \<le> t) bx = filter (\<lambda>b. started_at b \<le> t) by'"
    and "i < length xs" and "i < length ys" and "started_at (xs ! i) \<le> t" and "started_at (ys ! i) \<le> t"
  shows "replay_evaluation cfg symb tf run xs bx (i, strategy) =
    replay_evaluation cfg symb tf run ys by' (i, strategy)"
  using replay_evaluation_prefix [OF assms(1,5,7), of cfg symb tf run bx strategy]
    replay_evaluation_prefix [OF assms(2,6,8), of cfg symb tf run by' strategy]
  by (simp add: assms(3,4))

theorem replay_sees_no_future_witness:
  "replay_evaluation demo_config ''NSE:SBIN'' ''1minute'' ''run'' [demo_bar 0 100 100, demo_bar 1 90 10] [] (0, orb_name) =
   replay_evaluation demo_config ''NSE:SBIN'' ''1minute'' ''run'' [demo_bar 0 100 100, demo_bar 1 120 70] [] (0, orb_name)"
  by (rule replay_sees_no_future [where t = "started_at (demo_bar 0 100 100)"])
    (simp_all add: demo_bar_def minute_us_def)

text \<open>C40: The symbols of a batch are normalised to a nonempty list without repetition of upper case
  NSE keys with exactly one colon, the same set as the stripped and upper cased request.\<close>

theorem normalized_symbols_typed:
  assumes "normalize_symbols raws = Inr out"
  shows "out \<noteq> [] \<and> distinct out \<and> set out = (\<lambda>r. upper (strip r)) ` set raws \<and>
    list_all (\<lambda>v. startswith v ''NSE:'' \<and> count_char CHR '':'' v = 1 \<and> 4 < length v) out"
proof -
  have "startswith v ''NSE:'' \<and> count_char CHR '':'' v = 1 \<and> 4 < length v"
    if "v = ''NSE:'' @ t" "t \<noteq> []" "CHR '':'' \<notin> set t" for v t
  proof -
    have "count_char CHR '':'' ''NSE:'' = 1" by code_simp
    then have "count_char CHR '':'' v = 1"
      using that count_char_0_iff [of "CHR '':''" t] by (simp add: count_char_append del: append.simps)
    then show ?thesis using that by (simp add: startswith_iff)
  qed
  with normalize_symbols_ok [OF assms] show ?thesis unfolding list_all_iff by blast
qed

theorem normalized_symbols_typed_witness:
  "distinct [''NSE:SBIN'', ''NSE:INFY''] \<and>
     set [''NSE:SBIN'', ''NSE:INFY''] = (\<lambda>r. upper (strip r)) ` set ['' nse:sbin'', ''NSE:INFY'', ''NSE:SBIN'']"
proof -
  have "normalize_symbols ['' nse:sbin'', ''NSE:INFY'', ''NSE:SBIN''] = Inr [''NSE:SBIN'', ''NSE:INFY'']"
    by code_simp
  from normalized_symbols_typed [OF this] show ?thesis by blast
qed


text \<open>C34: A dry run of a batch stores nothing, whatever it finds and whichever symbols fail.\<close>

theorem dry_run_stores_nothing:
  assumes "run_batch scanner_sql_repository s read_text latest cfg now b f options d = (res, d')"
    and "op_dry_run options"
  shows "d' = d"
proof (cases res)
  case (Inl e)
  with sql_scanner.run_batch_raises assms(1) show ?thesis by simp
next
  case (Inr r)
  with sql_scanner.run_batch_ok assms show ?thesis by fastforce
qed

definition demo_batch :: "bool \<Rightarrow> batch_options" where
  "demo_batch dry =
     \<lparr>op_store_rejections = True, op_dry_run = dry, op_min_candles = 0, op_require_session_start = False,
      op_require_continuity = False, op_symbols = Some [''nse:sbin''], op_timeframe = ''1minute'',
      op_max_symbols = None, op_use_latest_universe = False\<rparr>"

lemma demo_batch_symbols:
  "batch_symbols default_settings (\<lambda>_. None) (Inr None) orb_config (demo_batch dry) = Inr [''NSE:SBIN'']"
proof -
  have "normalize_symbols [''nse:sbin''] = Inr [''NSE:SBIN'']" by code_simp
  then show ?thesis
    by (simp add: batch_symbols_def validate_timeframe_def scanner_timeframe_def demo_batch_def
        default_settings_def Let_def)
qed

lemma demo_batch_run:
  "\<exists>r d. run_batch scanner_sql_repository default_settings (\<lambda>_. None) (Inr None) orb_config session_now 0 0
      (demo_batch False) session_database = (Inr r, d) \<and> ba_total_inserted r = 1 \<and> ba_errors r = []"
proof -
  obtain v d where "run_symbol scanner_sql_repository orb_config (scan_options.truncate (demo_batch False))
      ''1minute'' None (session_now ''NSE:SBIN'') ''NSE:SBIN'' session_database =
    (Inr (\<lparr>sy_symbol = ''NSE:SBIN'', sy_evaluated = 1, sy_inserted = 1, sy_duplicates = 0,
       sy_candidates = 1, sy_rejected = 0, sy_skipped_reason = None, sy_error = None\<rparr>, v), d)"
    using session_scan [of "scan_options.truncate (demo_batch False)"]
    by (auto simp: demo_batch_def scan_options.truncate_def)
  moreover have "op_timeframe (demo_batch False) = ''1minute''" by (simp add: demo_batch_def)
  ultimately show ?thesis
    by (simp add: run_batch_def demo_batch_symbols bindS_def scan_batch_symbol_def tryS_def batch_result_of_def
        List.map_filter_simps)
qed


theorem dry_run_stores_nothing_witness:
  "snd (run_batch scanner_sql_repository default_settings (\<lambda>_. None) (Inr None) orb_config session_now 0 0
      (demo_batch True) session_database) = session_database"
proof -
  obtain r d where r: "run_batch scanner_sql_repository default_settings (\<lambda>_. None) (Inr None) orb_config
      session_now 0 0 (demo_batch True) session_database = (r, d)" by (metis surj_pair)
  moreover have "op_dry_run (demo_batch True)" by (simp add: demo_batch_def)
  ultimately show ?thesis using dry_run_stores_nothing [OF r] by simp
qed

subsection \<open>From the scanner to the paper trades\<close>



end
