(* ===== verification/DecisionSchemas.thy ===== *)
theory DecisionSchemas
  imports AppConfig PyStr "HOL-Library.Product_Lexorder"
begin

section \<open>Decision inputs, outputs and their screens\<close>

text \<open>
  \<^verbatim>\<open>app/decision/schemas.py\<close> and the pure functions of \<^verbatim>\<open>app/decision/service.py\<close>: the canonical
  input of the model, the schema of its output, the screens of the raw output (prohibited keys,
  configured secrets, claims about external facts) and its sanitised copy. The raw output is a JSON
  value. Parameters are \<open>num_repr\<close>, the text of a float (Python's \<^verbatim>\<open>repr\<close>), and
  \<open>coerce\<close>, the conversion of a JSON value to a float that pydantic applies.
\<close>

subsection \<open>Data\<close>

datatype (plugins only: code size) decision_verdict = ELIGIBLE | WATCH | REJECT

fun verdict_value :: "decision_verdict \<Rightarrow> string" where
  "verdict_value ELIGIBLE = ''ELIGIBLE''"
| "verdict_value WATCH = ''WATCH''"
| "verdict_value REJECT = ''REJECT''"

datatype (plugins only: code size) data_sufficiency_kind = SUFFICIENT | INSUFFICIENT

fun sufficiency_value :: "data_sufficiency_kind \<Rightarrow> string" where
  "sufficiency_value SUFFICIENT = ''SUFFICIENT''"
| "sufficiency_value INSUFFICIENT = ''INSUFFICIENT''"

datatype (plugins only: code size) evaluation_mode_kind =
    HISTORICAL_REPLAY | LIVE_SHADOW | FUTURE_LIVE_ELIGIBILITY

fun evaluation_mode_value :: "evaluation_mode_kind \<Rightarrow> string" where
  "evaluation_mode_value HISTORICAL_REPLAY = ''HISTORICAL_REPLAY''"
| "evaluation_mode_value LIVE_SHADOW = ''LIVE_SHADOW''"
| "evaluation_mode_value FUTURE_LIVE_ELIGIBILITY = ''FUTURE_LIVE_ELIGIBILITY''"

text \<open>The enumerations read from their values.\<close>

definition verdict_of :: "json \<Rightarrow> decision_verdict option" where
  "verdict_of v = find (\<lambda>x. v = JStr (verdict_value x)) [ELIGIBLE, WATCH, REJECT]"

definition sufficiency_of :: "json \<Rightarrow> data_sufficiency_kind option" where
  "sufficiency_of v = find (\<lambda>x. v = JStr (sufficiency_value x)) [SUFFICIENT, INSUFFICIENT]"

definition evaluation_mode_of :: "string \<Rightarrow> evaluation_mode_kind option" where
  "evaluation_mode_of s = find (\<lambda>x. s = evaluation_mode_value x)
     [HISTORICAL_REPLAY, LIVE_SHADOW, FUTURE_LIVE_ELIGIBILITY]"

record decision_output =
  do_verdict :: decision_verdict
  do_strategy_template :: string
  do_confidence :: rat
  do_reasons :: "string list"
  do_warnings :: "string list"
  do_stop_method :: "string option"
  do_target_r_multiple :: "rat option"
  do_data_sufficiency :: data_sufficiency_kind

record decision_signal =
  ds_id :: int
  ds_signal_key :: string
  ds_symbol :: string
  ds_strategy_name :: string
  ds_strategy_version :: string
  ds_signal_status :: string
  ds_signal_time :: instant
  ds_features :: "(string \<times> json) list"
  ds_created_at :: "instant option"

record adapter_result =
  ar_output :: json
  ar_request_id :: "string option"
  ar_latency_ms :: "int option"

record persisted_decision =
  pd_recommendation_id :: int
  pd_model_run_id :: int
  pd_signal_id :: int
  pd_signal_key :: string
  pd_symbol :: string
  pd_strategy :: string
  pd_verdict :: string
  pd_confidence :: rat
  pd_reasons :: "string list"
  pd_warnings :: "string list"
  pd_data_sufficiency :: string
  pd_adapter :: string
  pd_model_name :: string
  pd_prompt_version :: string
  pd_status :: string
  pd_error_code :: "string option"
  pd_signal_time :: instant
  pd_created_at :: instant
  pd_existing :: bool

definition persisted_as_dict :: "persisted_decision \<Rightarrow> (string \<times> json) list" where
  "persisted_as_dict p =
     [(''recommendation_id'', JInt (pd_recommendation_id p)),
      (''model_run_id'', JInt (pd_model_run_id p)),
      (''signal_id'', JInt (pd_signal_id p)),
      (''signal_key'', JStr (pd_signal_key p)),
      (''symbol'', JStr (pd_symbol p)),
      (''strategy'', JStr (pd_strategy p)),
      (''verdict'', JStr (pd_verdict p)),
      (''confidence'', JFloat (pd_confidence p)),
      (''reasons'', jstrs (pd_reasons p)),
      (''warnings'', jstrs (pd_warnings p)),
      (''data_sufficiency'', JStr (pd_data_sufficiency p)),
      (''adapter'', JStr (pd_adapter p)),
      (''model_name'', JStr (pd_model_name p)),
      (''prompt_version'', JStr (pd_prompt_version p)),
      (''status'', JStr (pd_status p)),
      (''error_code'', jopt JStr (pd_error_code p)),
      (''signal_time'', JStr (isoformat (pd_signal_time p))),
      (''created_at'', JStr (isoformat (pd_created_at p))),
      (''existing'', JBool (pd_existing p))]"

text \<open>The canonical input, with its nested models.\<close>

record decision_input =
  di_signal_id :: int
  di_signal_key :: string
  di_symbol :: string
  di_strategy :: string
  di_strategy_version :: string
  di_timestamp_ist :: string
  di_signal_status :: string
  di_evaluation_mode :: evaluation_mode_kind
  di_evaluation_warnings :: "string list"
  di_indicator_values :: "(string \<times> json) list"
  di_data_quality :: "(string \<times> bool) list"
  di_future_live_qualification :: "(string \<times> json) list"
  di_paper_enabled :: bool
  di_paper_mode :: string
  di_paper_max_trades_per_day :: int
  di_max_trade_notional :: rat
  di_max_planned_risk :: rat
  di_max_daily_loss :: rat

text \<open>The field constraints; a violation raises pydantic's \<open>ValidationError\<close>.\<close>

definition input_valid :: "decision_input \<Rightarrow> bool" where
  "input_valid i \<longleftrightarrow> 0 < di_signal_id i \<and> length (di_evaluation_warnings i) \<le> 20 \<and>
     0 \<le> di_paper_max_trades_per_day i \<and> 0 \<le> di_max_trade_notional i \<and>
     0 \<le> di_max_planned_risk i \<and> 0 \<le> di_max_daily_loss i"

definition input_dump :: "decision_input \<Rightarrow> (string \<times> json) list" where
  "input_dump i =
     [(''signal_id'', JInt (di_signal_id i)), (''signal_key'', JStr (di_signal_key i)),
      (''symbol'', JStr (di_symbol i)), (''strategy'', JStr (di_strategy i)),
      (''strategy_version'', JStr (di_strategy_version i)),
      (''timestamp_ist'', JStr (di_timestamp_ist i)),
      (''signal_status'', JStr (di_signal_status i)),
      (''evaluation_mode'', JStr (evaluation_mode_value (di_evaluation_mode i))),
      (''evaluation_warnings'', jstrs (di_evaluation_warnings i)),
      (''indicator_values'', JObj (di_indicator_values i)),
      (''data_quality'', JObj (map (\<lambda>(k, b). (k, JBool b)) (di_data_quality i))),
      (''future_live_qualification'', JObj (di_future_live_qualification i)),
      (''paper_state'', JObj [(''enabled'', JBool (di_paper_enabled i)),
        (''mode'', JStr (di_paper_mode i)),
        (''max_trades_per_day'', JInt (di_paper_max_trades_per_day i))]),
      (''limits'', JObj [(''max_trade_notional_inr'', JFloat (di_max_trade_notional i)),
        (''max_planned_risk_inr'', JFloat (di_max_planned_risk i)),
        (''max_daily_loss_inr'', JFloat (di_max_daily_loss i))])]"

definition output_dump :: "decision_output \<Rightarrow> (string \<times> json) list" where
  "output_dump o' =
     [(''verdict'', JStr (verdict_value (do_verdict o'))),
      (''strategy_template'', JStr (do_strategy_template o')),
      (''confidence'', JFloat (do_confidence o')),
      (''reasons'', jstrs (do_reasons o')),
      (''warnings'', jstrs (do_warnings o')),
      (''recommended_stop_method'', jopt JStr (do_stop_method o')),
      (''recommended_target_r_multiple'', jopt JFloat (do_target_r_multiple o')),
      (''data_sufficiency'', JStr (sufficiency_value (do_data_sufficiency o')))]"

subsection \<open>The output schema\<close>

definition output_fields :: "string list" where
  "output_fields = [''verdict'', ''strategy_template'', ''confidence'', ''reasons'', ''warnings'',
     ''recommended_stop_method'', ''recommended_target_r_multiple'', ''data_sufficiency'']"

definition stop_methods :: "string list" where
  "stop_methods = [''breakout_failure_or_atr'', ''vwap_failure_or_atr'']"

fun string_of :: "json \<Rightarrow> string option" where
  "string_of (JStr s) = Some s"
| "string_of v = None"

fun strings_of :: "json \<Rightarrow> string list option" where
  "strings_of (JList vs) =
     (if list_all (\<lambda>v. string_of v \<noteq> None) vs then Some (List.map_filter string_of vs) else None)"
| "strings_of v = None"

definition optional_field :: "(string \<times> json) list \<Rightarrow> string \<Rightarrow> json \<Rightarrow> json" where
  "optional_field d k dflt = (case map_of d k of None \<Rightarrow> dflt | Some v \<Rightarrow> v)"

text \<open>A stop method is required and may be null; a target multiple may be missing.\<close>

definition stop_method_of :: "json \<Rightarrow> string option option" where
  "stop_method_of v =
     (if v = JNull then Some None
      else case string_of v of
          None \<Rightarrow> None
        | Some s \<Rightarrow> if s \<in> set stop_methods then Some (Some s) else None)"

definition target_multiple_of :: "(json \<Rightarrow> rat option) \<Rightarrow> json \<Rightarrow> rat option option" where
  "target_multiple_of coerce v =
     (if v = JNull then Some None
      else case coerce v of
          None \<Rightarrow> None
        | Some q \<Rightarrow> if 1 / 2 \<le> q \<and> q \<le> 5 then Some (Some q) else None)"

definition validate_output_schema :: "(json \<Rightarrow> rat option) \<Rightarrow> (string \<times> json) list \<Rightarrow> decision_output option"
  where
  "validate_output_schema coerce d =
     (if \<not> list_all (\<lambda>(k, v). k \<in> set output_fields) d then None
      else case (map_of d ''verdict'', map_of d ''strategy_template'', map_of d ''confidence'',
                 map_of d ''reasons'', map_of d ''recommended_stop_method'', map_of d ''data_sufficiency'') of
          (Some v, Some t, Some c, Some r, Some m, Some u) \<Rightarrow>
            (case (verdict_of v, string_of t, coerce c, strings_of r,
                   strings_of (optional_field d ''warnings'' (JList [])), stop_method_of m,
                   target_multiple_of coerce (optional_field d ''recommended_target_r_multiple'' JNull),
                   sufficiency_of u) of
               (Some verdict, Some strategy, Some confidence, Some reasons, Some warnings, Some stop,
                Some target, Some sufficiency) \<Rightarrow>
                 if 0 \<le> confidence \<and> confidence \<le> 1 \<and> reasons \<noteq> [] \<and> length reasons \<le> 20
                    \<and> length warnings \<le> 20
                 then Some \<lparr>do_verdict = verdict, do_strategy_template = strategy,
                       do_confidence = confidence, do_reasons = reasons, do_warnings = warnings,
                       do_stop_method = stop, do_target_r_multiple = target,
                       do_data_sufficiency = sufficiency\<rparr>
                 else None
             | _ \<Rightarrow> None)
        | _ \<Rightarrow> None)"

subsection \<open>Prohibited keys and secrets\<close>

definition prohibited_key_fragments :: "string list" where
  "prohibited_key_fragments = [''quantity'', ''order'', ''broker'', ''position_size'',
     ''risk_override'', ''access_token'', ''api_key'', ''secret'']"

definition prohibited_key :: "string \<Rightarrow> bool" where
  "prohibited_key k = list_ex (\<lambda>f. has_sub f (lower k)) prohibited_key_fragments"

fun find_prohibited_key :: "json \<Rightarrow> string option" where
  "find_prohibited_key (JObj []) = None"
| "find_prohibited_key (JObj ((k, v) # kvs)) =
     (if prohibited_key k then Some (lower k)
      else case find_prohibited_key v of Some f \<Rightarrow> Some f | None \<Rightarrow> find_prohibited_key (JObj kvs))"
| "find_prohibited_key (JList []) = None"
| "find_prohibited_key (JList (v # vs)) =
     (case find_prohibited_key v of Some f \<Rightarrow> Some f | None \<Rightarrow> find_prohibited_key (JList vs))"
| "find_prohibited_key JNull = None"
| "find_prohibited_key (JBool b) = None"
| "find_prohibited_key (JInt i) = None"
| "find_prohibited_key (JFloat q) = None"
| "find_prohibited_key (JDec q) = None"
| "find_prohibited_key (JStr s) = None"

fun contains_secret_value :: "string list \<Rightarrow> json \<Rightarrow> bool" where
  "contains_secret_value secrets (JObj kvs) = list_ex (\<lambda>kv. contains_secret_value secrets (snd kv)) kvs"
| "contains_secret_value secrets (JList vs) = list_ex (\<lambda>v. contains_secret_value secrets v) vs"
| "contains_secret_value secrets (JStr s) = list_ex (\<lambda>x. has_sub x s) secrets"
| "contains_secret_value secrets v = False"

definition redact :: "string list \<Rightarrow> string \<Rightarrow> string" where
  "redact secrets s = fold (\<lambda>secret safe. replace secret ''[redacted]'' safe) secrets s"

text \<open>
  The keys of the copy are strings already; a later equal key cannot occur in parsed JSON. The last
  branch of the source (\<^verbatim>\<open>str(value)\<close>) is for values that JSON does not have; Decimals are
  among them and print as their text.
\<close>

fun sanitize_mapping :: "string list \<Rightarrow> json \<Rightarrow> json" where
  "sanitize_mapping secrets (JObj kvs) =
     JObj (map (\<lambda>kv. (fst kv, sanitize_mapping secrets (snd kv)))
       (filter (\<lambda>kv. \<not> prohibited_key (fst kv)) kvs))"
| "sanitize_mapping secrets (JList vs) = JList (map (sanitize_mapping secrets) vs)"
| "sanitize_mapping secrets (JStr s) = JStr (redact secrets s)"
| "sanitize_mapping secrets v = v"

definition sanitize_raw_output :: "string list \<Rightarrow> json \<Rightarrow> (string \<times> json) list" where
  "sanitize_raw_output secrets v =
     (case sanitize_mapping secrets v of
        JObj kvs \<Rightarrow> kvs
      | _ \<Rightarrow> [(''diagnostic'', JStr ''non_object_output'')])"

definition configured_secrets :: "settings \<Rightarrow> string list" where
  "configured_secrets s = filter (\<lambda>v. v \<noteq> [])
     [openai_api_key s, operator_auth_token s, kite_api_key s, kite_api_secret s,
      kite_session_encryption_key s, market_ops_telegram_bot_token s, market_ops_telegram_chat_id s,
      database_url s, redis_url s]"

end
