(* ===== verification/DecisionText.thy ===== *)
theory DecisionText
  imports DecisionSchemas Strategies
begin

section \<open>Texts of the decision service: JSON, the external fact screen and the prompt\<close>

text \<open>
  \<^verbatim>\<open>json.dumps(..., sort_keys=True)\<close> as the service calls it (ASCII output with its escapes, the
  separators as an argument), the regular expression \<^verbatim>\<open>EXTERNAL_FACT_PATTERN\<close> of
  \<^verbatim>\<open>app/decision/service.py\<close>, the evaluation key and the prompt of \<^verbatim>\<open>app/decision/prompt.py\<close>.
  The text of a float (\<open>num_repr\<close>) and the SHA-256 digest (\<open>digest\<close>) are parameters.
\<close>

subsection \<open>json.dumps\<close>

definition hex_digit :: "nat \<Rightarrow> char" where
  "hex_digit n = (if n < 10 then char_of (48 + n) else char_of (87 + n))"

definition json_char :: "char \<Rightarrow> string" where
  "json_char c =
     (let n = (of_char c :: nat) in
      if n = 34 \<or> n = 92 then [CHR 0x5C, c]
      else if n = 10 then [CHR 0x5C, CHR ''n'']
      else if n = 13 then [CHR 0x5C, CHR ''r'']
      else if n = 9 then [CHR 0x5C, CHR ''t'']
      else if n = 12 then [CHR 0x5C, CHR ''f'']
      else if n = 8 then [CHR 0x5C, CHR ''b'']
      else if 32 \<le> n \<and> n \<le> 126 then [c]
      else [CHR 0x5C, CHR ''u'', CHR ''0'', CHR ''0'', hex_digit (n div 16), hex_digit (n mod 16)])"

definition json_quote :: "string \<Rightarrow> string" where
  "json_quote s = CHR 0x22 # concat (map json_char s) @ [CHR 0x22]"

text \<open>
  The members of an object are rendered and then put in the order of their keys. A Decimal does not
  occur in the payloads, which come from JSON columns and parsed output.
\<close>

fun json_dumps :: "(rat \<Rightarrow> string) \<Rightarrow> string \<Rightarrow> string \<Rightarrow> json \<Rightarrow> string" where
  "json_dumps num_repr isep ksep JNull = ''null''"
| "json_dumps num_repr isep ksep (JBool b) = (if b then ''true'' else ''false'')"
| "json_dumps num_repr isep ksep (JInt i) = str_of_int i"
| "json_dumps num_repr isep ksep (JFloat q) = num_repr q"
| "json_dumps num_repr isep ksep (JDec q) = num_repr q"
| "json_dumps num_repr isep ksep (JStr s) = json_quote s"
| "json_dumps num_repr isep ksep (JList vs) =
     ''['' @ join isep (map (json_dumps num_repr isep ksep) vs) @ '']''"
| "json_dumps num_repr isep ksep (JObj kvs) =
     ''{'' @ join isep (map snd (sort_key fst
       (map (\<lambda>kv. (fst kv, json_quote (fst kv) @ ksep @ json_dumps num_repr isep ksep (snd kv))) kvs)))
     @ ''}''"

definition dumps_default :: "(rat \<Rightarrow> string) \<Rightarrow> json \<Rightarrow> string" where
  "dumps_default num_repr v = json_dumps num_repr '', '' '': '' v"

definition dumps_compact :: "(rat \<Rightarrow> string) \<Rightarrow> json \<Rightarrow> string" where
  "dumps_compact num_repr v = json_dumps num_repr '','' '':'' v"

definition hash_payload :: "(rat \<Rightarrow> string) \<Rightarrow> (string \<Rightarrow> string) \<Rightarrow> (string \<times> json) list \<Rightarrow> string" where
  "hash_payload num_repr digest payload = digest (dumps_compact num_repr (JObj payload))"

subsection \<open>The external fact screen\<close>

text \<open>
  The alternatives of \<^verbatim>\<open>EXTERNAL_FACT_PATTERN\<close>, an optional letter written as two of them. The
  pattern is searched without regard to case and between word boundaries; as every alternative
  begins and ends with a letter, that is: no word character before and none after.
\<close>

definition fact_phrases :: "string list" where
  "fact_phrases = [''news'', ''earnings'', ''fundamental'', ''fundamentals'', ''announcement'',
     ''macro'', ''fii'', ''dii'', ''institutional flow'', ''company result'', ''company results'',
     ''web search'', ''external event'']"

definition word_char :: "char \<Rightarrow> bool" where
  "word_char c = (let n = (of_char c :: nat) in
     is_digit c \<or> (65 \<le> n \<and> n \<le> 90) \<or> (97 \<le> n \<and> n \<le> 122) \<or> n = 95)"

definition starts_word :: "string \<Rightarrow> bool" where
  "starts_word s = (case s of [] \<Rightarrow> False | c # _ \<Rightarrow> word_char c)"

text \<open>The text begins with the phrase in any case, and no word character follows it.\<close>

fun starts_phrase :: "string \<Rightarrow> string \<Rightarrow> bool" where
  "starts_phrase s [] = (\<not> starts_word s)"
| "starts_phrase [] (p # ps) = False"
| "starts_phrase (x # xs) (p # ps) = (if lower_char x = p then starts_phrase xs ps else False)"

definition phrase_at :: "string \<Rightarrow> bool" where
  "phrase_at s = list_ex (starts_phrase s) fact_phrases"

fun fact_search :: "bool \<Rightarrow> string \<Rightarrow> bool" where
  "fact_search after_word [] = False"
| "fact_search after_word (c # cs) =
     (if after_word then fact_search (word_char c) cs
      else if phrase_at (c # cs) then True else fact_search (word_char c) cs)"

definition external_fact :: "string \<Rightarrow> bool" where
  "external_fact s = fact_search False s"

subsection \<open>The prompt\<close>

definition system_prompt_lines :: "string list" where
  "system_prompt_lines =
     [''You are the Trade Decision Agent for a personal experimental Indian'',
      ''cash-equity system. Evaluate only the supplied deterministic technical context.'',
      ''You have no internet or external-data access. Do not claim knowledge of news,'',
      ''results, fundamentals, announcements, macro events, or institutional flows.'',
      ''Never determine quantity, construct broker requests, override risk limits, or'',
      ''request leverage, derivatives, short selling, overnight holding, averaging down,'',
      ''or martingale sizing. Return REJECT when data is insufficient, inconsistent, or'',
      ''weak, subject to the supplied evaluation mode. In HISTORICAL_REPLAY, unavailable'',
      ''live quote freshness or spread validation must not alone make historical'',
      ''technical data insufficient. LIVE_SHADOW is conservative and non-actionable.'',
      ''FUTURE_LIVE_ELIGIBILITY requires fresh quote and required spread validation for'',
      ''ELIGIBLE. Return only the required structured result.'']"

definition newline :: string where
  "newline = [CHR 0x0A]"

definition build_prompt ::
  "(rat \<Rightarrow> string) \<Rightarrow> decision_input \<Rightarrow> string \<Rightarrow> (string \<times> string) list" where
  "build_prompt num_repr i prompt_version =
     [(''system'', join newline system_prompt_lines @ newline @ ''Prompt version: '' @ prompt_version),
      (''user'', dumps_compact num_repr (JObj (input_dump i)))]"

subsection \<open>The evaluation key\<close>

definition evaluation_key_text ::
  "decision_signal \<Rightarrow> string \<Rightarrow> string \<Rightarrow> string \<Rightarrow> string \<Rightarrow> string" where
  "evaluation_key_text sig adapter model_name prompt_version mode =
     str_of_int (ds_id sig) @ '':'' @ ds_signal_key sig @ '':'' @ adapter @ '':'' @ model_name @ '':''
     @ prompt_version @ '':'' @ mode"

definition evaluation_key_of ::
  "(string \<Rightarrow> string) \<Rightarrow> decision_signal \<Rightarrow> string \<Rightarrow> string \<Rightarrow> string \<Rightarrow> string \<Rightarrow> string" where
  "evaluation_key_of digest sig adapter model_name prompt_version mode =
     digest (evaluation_key_text sig adapter model_name prompt_version mode)"

subsection \<open>Facts\<close>

text \<open>The search against the meaning of the pattern: a phrase that is not part of a longer word.\<close>

lemma phrase_at_iff:
  "phrase_at s \<longleftrightarrow> (\<exists>m b. s = m @ b \<and> lower m \<in> set fact_phrases \<and> \<not> starts_word b)"
proof -
  have at: "starts_phrase s p \<longleftrightarrow> (\<exists>m b. s = m @ b \<and> lower m = p \<and> \<not> starts_word b)" for p
  proof (induction s p rule: starts_phrase.induct)
    case (3 x xs p ps)
    have "(\<exists>m b. x # xs = m @ b \<and> lower m = p # ps \<and> \<not> starts_word b) \<longleftrightarrow>
        lower_char x = p \<and> (\<exists>m b. xs = m @ b \<and> lower m = ps \<and> \<not> starts_word b)"
      by (auto simp: Cons_eq_append_conv lower_def) (metis list.simps(9) append_Cons)
    with 3 show ?case by simp
  qed (auto simp: lower_def)
  have "phrase_at s \<longleftrightarrow>
      (\<exists>p \<in> set fact_phrases. \<exists>m b. s = m @ b \<and> lower m = p \<and> \<not> starts_word b)"
    by (simp only: phrase_at_def list_ex_iff Bex_def at)
  then show ?thesis by fast
qed

lemma fact_search_iff:
  "fact_search w s \<longleftrightarrow> (\<exists>a b. s = a @ b \<and> b \<noteq> [] \<and> phrase_at b \<and>
     \<not> (if a = [] then w else word_char (last a)))"
proof (induction s arbitrary: w)
  case Nil
  then show ?case by simp
next
  case (Cons c cs)
  have "(\<exists>a b. c # cs = a @ b \<and> b \<noteq> [] \<and> phrase_at b \<and> \<not> (if a = [] then w else word_char (last a)))
    \<longleftrightarrow> (\<not> w \<and> phrase_at (c # cs)) \<or>
        (\<exists>a b. cs = a @ b \<and> b \<noteq> [] \<and> phrase_at b \<and> \<not> (if a = [] then word_char c else word_char (last a)))"
    (is "?l \<longleftrightarrow> _ \<or> ?r")
  proof
    assume ?l
    then obtain a b where ab: "c # cs = a @ b" "b \<noteq> []" "phrase_at b"
      "\<not> (if a = [] then w else word_char (last a))" by blast
    then show "(\<not> w \<and> phrase_at (c # cs)) \<or> ?r"
      by (cases a) (auto split: if_splits)
  next
    assume "(\<not> w \<and> phrase_at (c # cs)) \<or> ?r"
    then show ?l
    proof
      assume "\<not> w \<and> phrase_at (c # cs)"
      then show ?l by (intro exI [of _ "[]"] exI [of _ "c # cs"]) simp
    next
      assume ?r
      then obtain a b where "cs = a @ b" "b \<noteq> []" "phrase_at b"
        "\<not> (if a = [] then word_char c else word_char (last a))" by blast
      then show ?l by (intro exI [of _ "c # a"] exI [of _ b]) (auto split: if_splits)
    qed
  qed
  with Cons.IH show ?case by simp
qed

text \<open>
  A line break before the phrase hides it: \<^verbatim>\<open>json.dumps\<close> writes the break as a backslash and
  the letter n, and a letter before the phrase is no word boundary.
\<close>

lemma line_break_hides_phrase:
  "external_fact (dumps_default f (JStr (''weak news''))) \<and>
   \<not> external_fact (dumps_default f (JStr (''weak'' @ newline @ ''news'')))"
  by code_simp

text \<open>The singular phrases are searched, most plurals are not.\<close>

lemma plural_hides_phrase:
  "external_fact ''an announcement'' \<and> \<not> external_fact ''two announcements'' \<and>
   external_fact ''external event'' \<and> \<not> external_fact ''external events''"
  by code_simp

end
