(* ===== verification/DecisionRepository.thy ===== *)
theory DecisionRepository
  imports DecisionSchemas Database Strategies
begin

section \<open>Storage of the decisions\<close>

text \<open>
  \<^verbatim>\<open>app/decision/repository.py\<close>: the operations of the \<^verbatim>\<open>DecisionRepository\<close> protocol as a
  record, the in-memory repository, the SQL repository over the tables of \<open>Database\<close>, and the
  contract that the decision service relies on (locale \<open>decision_store\<close>): a recorded decision is
  found again under its evaluation key, recording never changes the signals, and what is found
  under a key stays. The clock of the in-memory repository is the field \<open>dm_now\<close>; ids are the
  positions in the tables, so the queries by id have at most one row.
\<close>

subsection \<open>The operations\<close>

text \<open>The keyword arguments of \<^verbatim>\<open>record\<close> and of \<^verbatim>\<open>list_unevaluated_candidate_ids\<close>.\<close>

record decision_entry =
  de_signal :: decision_signal
  de_adapter :: string
  de_model_name :: string
  de_prompt_version :: string
  de_input_hash :: string
  de_input_payload :: "(string \<times> json) list"
  de_output :: decision_output
  de_output_payload :: "(string \<times> json) list"
  de_status :: string
  de_request_id :: "string option"
  de_latency_ms :: "int option"
  de_error_code :: "string option"
  de_evaluation_key :: "string option"

record candidate_query =
  cq_adapter :: string
  cq_model_name :: string
  cq_prompt_version :: string
  cq_evaluation_mode :: string
  cq_limit :: int
  cq_started_at :: "instant option"
  cq_finished_at :: "instant option"
  cq_symbols :: "string list"
  cq_oldest_first :: bool

record 's decision_repository =
  dr_load_signal :: "int \<Rightarrow> 's \<Rightarrow> decision_signal option"
  dr_find_by_evaluation_key :: "string \<Rightarrow> 's \<Rightarrow> persisted_decision option"
  dr_record :: "decision_entry \<Rightarrow> ('s, persisted_decision) prog"
  dr_list_recommendations :: "int \<Rightarrow> 's \<Rightarrow> persisted_decision list"
  dr_latest_for_signal_ids :: "int list \<Rightarrow> 's \<Rightarrow> (int \<times> (string \<times> json) list) list"
  dr_list_unevaluated_candidate_ids :: "candidate_query \<Rightarrow> 's \<Rightarrow> int list res"

definition existing_copy :: "persisted_decision \<Rightarrow> persisted_decision" where
  "existing_copy p = p\<lparr>pd_existing := True\<rparr>"

text \<open>The dictionary filled in order, the first item of a signal wins.\<close>

fun first_per_signal :: "(int \<times> 'a) list \<Rightarrow> (int \<times> 'a) list \<Rightarrow> (int \<times> 'a) list" where
  "first_per_signal [] acc = acc"
| "first_per_signal ((i, x) # ixs) acc =
     first_per_signal ixs (if i \<in> fst ` set acc then acc else acc @ [(i, x)])"

subsection \<open>The in-memory repository\<close>

record decision_memory =
  dm_now :: instant
  dm_signals :: "(int \<times> decision_signal) list"
  dm_recommendations :: "persisted_decision list"
  dm_model_runs :: "(string \<times> json) list list"
  dm_evaluation_keys :: "(string \<times> persisted_decision) list"

definition dmem_load_signal :: "int \<Rightarrow> decision_memory \<Rightarrow> decision_signal option" where
  "dmem_load_signal i m = map_of (dm_signals m) i"

definition dmem_find_by_evaluation_key :: "string \<Rightarrow> decision_memory \<Rightarrow> persisted_decision option" where
  "dmem_find_by_evaluation_key k m = map_option existing_copy (map_of (dm_evaluation_keys m) k)"

definition model_run_dict :: "int \<Rightarrow> decision_entry \<Rightarrow> (string \<times> json) list" where
  "model_run_dict i e =
     [(''id'', JInt i), (''adapter'', JStr (de_adapter e)), (''model_name'', JStr (de_model_name e)),
      (''prompt_version'', JStr (de_prompt_version e)), (''input_hash'', JStr (de_input_hash e)),
      (''input_payload'', JObj (de_input_payload e)),
      (''output_payload'', JObj (de_output_payload e)), (''status'', JStr (de_status e)),
      (''error_code'', jopt JStr (de_error_code e)), (''request_id'', jopt JStr (de_request_id e)),
      (''latency_ms'', jopt JInt (de_latency_ms e))]"

definition persisted_of :: "int \<Rightarrow> int \<Rightarrow> instant \<Rightarrow> decision_entry \<Rightarrow> persisted_decision" where
  "persisted_of rid mid now e =
     (let s = de_signal e; out = de_output e in
      \<lparr>pd_recommendation_id = rid, pd_model_run_id = mid, pd_signal_id = ds_id s,
       pd_signal_key = ds_signal_key s, pd_symbol = ds_symbol s, pd_strategy = ds_strategy_name s,
       pd_verdict = verdict_value (do_verdict out), pd_confidence = do_confidence out,
       pd_reasons = do_reasons out, pd_warnings = do_warnings out,
       pd_data_sufficiency = sufficiency_value (do_data_sufficiency out),
       pd_adapter = de_adapter e, pd_model_name = de_model_name e,
       pd_prompt_version = de_prompt_version e, pd_status = de_status e,
       pd_error_code = de_error_code e, pd_signal_time = ds_signal_time s, pd_created_at = now,
       pd_existing = False\<rparr>)"

text \<open>\<^verbatim>\<open>d[key] = value\<close> on the dictionary of evaluation keys.\<close>

fun put_key :: "(string \<times> 'a) list \<Rightarrow> string \<Rightarrow> 'a \<Rightarrow> (string \<times> 'a) list" where
  "put_key [] k v = [(k, v)]"
| "put_key ((k', v') # d) k v = (if k' = k then (k, v) # d else (k', v') # put_key d k v)"

definition dmem_record :: "decision_entry \<Rightarrow> (decision_memory, persisted_decision) prog" where
  "dmem_record e = (\<lambda>m.
     let mid = int (length (dm_model_runs m)) + 1;
         p = persisted_of (int (length (dm_recommendations m)) + 1) mid (dm_now m) e
     in (Inr p, m\<lparr>dm_model_runs := dm_model_runs m @ [model_run_dict mid e],
                  dm_recommendations := dm_recommendations m @ [p],
                  dm_evaluation_keys := (case de_evaluation_key e of None \<Rightarrow> dm_evaluation_keys m
                    | Some k \<Rightarrow> put_key (dm_evaluation_keys m) k p)\<rparr>))"

definition dmem_list_recommendations :: "int \<Rightarrow> decision_memory \<Rightarrow> persisted_decision list" where
  "dmem_list_recommendations limit m = rev (slice_last limit (dm_recommendations m))"

definition memory_comparison :: "persisted_decision \<Rightarrow> (string \<times> json) list" where
  "memory_comparison p =
     [(''verdict'', JStr (pd_verdict p)), (''confidence'', JFloat (pd_confidence p)),
      (''warnings'', jstrs (pd_warnings p)), (''recommendation_id'', JInt (pd_recommendation_id p)),
      (''prompt_version'', JStr (pd_prompt_version p))]"

definition dmem_latest_for_signal_ids ::
  "int list \<Rightarrow> decision_memory \<Rightarrow> (int \<times> (string \<times> json) list) list" where
  "dmem_latest_for_signal_ids ids m =
     first_per_signal (map (\<lambda>p. (pd_signal_id p, memory_comparison p))
       (filter (\<lambda>p. pd_signal_id p \<in> set ids) (rev (dm_recommendations m)))) []"

definition signal_instant :: "decision_signal \<Rightarrow> instant" where
  "signal_instant s = (case ds_created_at s of None \<Rightarrow> ds_signal_time s | Some t \<Rightarrow> t)"

text \<open>The in-memory query ignores the identity of the evaluation.\<close>

definition dmem_list_unevaluated_candidate_ids :: "candidate_query \<Rightarrow> decision_memory \<Rightarrow> int list res"
  where
  "dmem_list_unevaluated_candidate_ids q m =
     (let candidates = filter (\<lambda>s. ds_signal_status s = candidate_status
              \<and> (cq_symbols q = [] \<or> ds_symbol s \<in> set (cq_symbols q))
              \<and> in_range (cq_started_at q) (cq_finished_at q) (signal_instant s)
              \<and> \<not> list_ex (\<lambda>p. pd_signal_id p = ds_id s) (dm_recommendations m))
            (map snd (dm_signals m));
          ordered = (if cq_oldest_first q
            then sort_key (\<lambda>s. (signal_instant s, ds_id s)) candidates
            else sort_key (\<lambda>s. (- signal_instant s, - ds_id s)) candidates)
      in Inr (slice_first (cq_limit q) (map ds_id ordered)))"

definition decision_memory_repository :: "decision_memory decision_repository" where
  "decision_memory_repository =
     \<lparr>dr_load_signal = dmem_load_signal, dr_find_by_evaluation_key = dmem_find_by_evaluation_key,
      dr_record = dmem_record, dr_list_recommendations = dmem_list_recommendations,
      dr_latest_for_signal_ids = dmem_latest_for_signal_ids,
      dr_list_unevaluated_candidate_ids = dmem_list_unevaluated_candidate_ids\<rparr>"

subsection \<open>The SQL repository\<close>

definition decision_signal_from_row :: "signal_row \<times> instrument_row \<Rightarrow> decision_signal" where
  "decision_signal_from_row ri = (case ri of (r, i) \<Rightarrow>
     \<lparr>ds_id = gr_id r, ds_signal_key = gr_signal_key r, ds_symbol = instrument_key i,
      ds_strategy_name = gr_strategy_name r, ds_strategy_version = gr_strategy_version r,
      ds_signal_status = gr_signal_status r, ds_signal_time = gr_signal_time r,
      ds_features = gr_features r, ds_created_at = Some (gr_created_at r)\<rparr>)"

definition first_row :: "'a list \<Rightarrow> 'a option" where
  "first_row rows = (case rows of [] \<Rightarrow> None | r # _ \<Rightarrow> Some r)"

definition dsql_load_signal :: "int \<Rightarrow> database \<Rightarrow> decision_signal option" where
  "dsql_load_signal i d = map_option decision_signal_from_row
     (first_row (join_instrument d gr_instrument_id (filter (\<lambda>r. gr_id r = i) (db_signals d))))"

text \<open>A recommendation with the model run, signal and instrument that it joins.\<close>

record recommendation_join =
  rj_recommendation :: recommendation_row
  rj_model_run :: model_run_row
  rj_signal :: signal_row
  rj_instrument :: instrument_row

definition joins_of :: "database \<Rightarrow> recommendation_row \<Rightarrow> recommendation_join list" where
  "joins_of d r =
     concat (map (\<lambda>m. concat (map (\<lambda>s. map (\<lambda>i.
         \<lparr>rj_recommendation = r, rj_model_run = m, rj_signal = s, rj_instrument = i\<rparr>)
         (filter (\<lambda>i. ir_id i = gr_instrument_id s) (db_instruments d)))
         (filter (\<lambda>s. gr_id s = rr_signal_id r) (db_signals d))))
         (filter (\<lambda>m. Some (mr_id m) = rr_model_run_id r) (db_model_runs d)))"

definition recommendation_query :: "database \<Rightarrow> recommendation_join list" where
  "recommendation_query d = concat (map (joins_of d) (db_recommendations d))"

fun json_strings :: "json \<Rightarrow> string list" where
  "json_strings (JList vs) = List.map_filter string_of vs"
| "json_strings v = []"

definition persisted_from_row :: "bool \<Rightarrow> recommendation_join \<Rightarrow> persisted_decision" where
  "persisted_from_row existing j =
     (let r = rj_recommendation j; m = rj_model_run j; s = rj_signal j in
      \<lparr>pd_recommendation_id = rr_id r,
       pd_model_run_id = mr_id m,
       pd_signal_id = rr_signal_id r, pd_signal_key = gr_signal_key s,
       pd_symbol = instrument_key (rj_instrument j), pd_strategy = gr_strategy_name s,
       pd_verdict = rr_verdict r, pd_confidence = rr_confidence r,
       pd_reasons = json_strings (optional_field (rr_payload r) ''reasons'' (JList [])),
       pd_warnings = rr_warnings r,
       pd_data_sufficiency = (case string_of (optional_field (rr_payload r) ''data_sufficiency''
          (JStr ''INSUFFICIENT'')) of None \<Rightarrow> '''' | Some t \<Rightarrow> t),
       pd_adapter = mr_adapter m, pd_model_name = mr_model_name m,
       pd_prompt_version = mr_prompt_version m, pd_status = mr_status m,
       pd_error_code = mr_error_code m, pd_signal_time = gr_signal_time s,
       pd_created_at = rr_created_at r, pd_existing = existing\<rparr>)"

definition comparison_from_row :: "recommendation_join \<Rightarrow> (string \<times> json) list" where
  "comparison_from_row j =
     (let r = rj_recommendation j in
      [(''recommendation_id'', JInt (rr_id r)), (''verdict'', JStr (rr_verdict r)),
       (''confidence'', JFloat (rr_confidence r)), (''warnings'', jstrs (rr_warnings r)),
       (''prompt_version'', JStr (mr_prompt_version (rj_model_run j)))])"

definition dsql_find_by_evaluation_key :: "string \<Rightarrow> database \<Rightarrow> persisted_decision option" where
  "dsql_find_by_evaluation_key k d = map_option (persisted_from_row True)
     (first_row (filter (\<lambda>j. rr_evaluation_key (rj_recommendation j) = Some k) (recommendation_query d)))"

text \<open>The column \<^verbatim>\<open>Numeric(5, 4)\<close> keeps four decimals, rounded half up (no value is negative).\<close>

definition numeric_5_4 :: "rat \<Rightarrow> rat" where
  "numeric_5_4 q = of_int \<lfloor>q * 10000 + 1 / 2\<rfloor> / 10000"

definition insert_model_run :: "model_run_row \<Rightarrow> (database, int) prog" where
  "insert_model_run r = (\<lambda>d.
     let i = next_id (db_model_runs d)
     in (Inr i, d\<lparr>db_model_runs := db_model_runs d @ [r\<lparr>mr_id := i, mr_created_at := db_now d\<rparr>]\<rparr>))"

definition insert_recommendation :: "recommendation_row \<Rightarrow> (database, int) prog" where
  "insert_recommendation r = (\<lambda>d.
     let i = next_id (db_recommendations d)
     in if has_signal d (rr_signal_id r) \<and>
           opt_ok (\<lambda>k. \<not> list_ex (\<lambda>x. rr_evaluation_key x = Some k) (db_recommendations d))
             (rr_evaluation_key r)
        then (Inr i, d\<lparr>db_recommendations := db_recommendations d @
               [r\<lparr>rr_id := i, rr_created_at := db_now d\<rparr>]\<rparr>)
        else (Inl IntegrityError, d))"

definition model_run_values :: "decision_entry \<Rightarrow> model_run_row" where
  "model_run_values e =
     \<lparr>mr_id = 0, mr_provider = (if de_adapter e = ''openai'' then ''openai'' else ''fake''),
      mr_model_name = de_model_name e, mr_request_id = de_request_id e, mr_adapter = de_adapter e,
      mr_prompt_version = de_prompt_version e, mr_input_hash = de_input_hash e,
      mr_latency_ms = de_latency_ms e, mr_error_code = de_error_code e,
      mr_input_payload = de_input_payload e, mr_output_payload = de_output_payload e,
      mr_status = de_status e, mr_created_at = 0\<rparr>"

definition recommendation_values :: "decision_entry \<Rightarrow> int \<Rightarrow> recommendation_row" where
  "recommendation_values e mid =
     \<lparr>rr_id = 0, rr_signal_id = ds_id (de_signal e), rr_model_run_id = Some mid,
      rr_verdict = verdict_value (do_verdict (de_output e)),
      rr_confidence = numeric_5_4 (do_confidence (de_output e)),
      rr_warnings = do_warnings (de_output e), rr_evaluation_key = de_evaluation_key e,
      rr_rationale = Some (join [char_of (10::nat)] (do_reasons (de_output e))),
      rr_payload = output_dump (de_output e), rr_created_at = 0\<rparr>"

text \<open>
  The two inserts are one transaction. A violated constraint rolls it back; with an evaluation key
  the decision stored under it is returned, if there is one.
\<close>

definition record_transaction :: "decision_entry \<Rightarrow> (database, int) prog" where
  "record_transaction e = transaction
     (bindS (insert_model_run (model_run_values e)) (\<lambda>mid. insert_recommendation (recommendation_values e mid)))"

definition recommendation_by_id :: "int \<Rightarrow> (database, persisted_decision) prog" where
  "recommendation_by_id i = (\<lambda>d.
     (case first_row (filter (\<lambda>j. rr_id (rj_recommendation j) = i) (recommendation_query d)) of
        None \<Rightarrow> Inl (OtherError ''NoResultFound'')
      | Some j \<Rightarrow> Inr (persisted_from_row False j), d))"

definition existing_or_raise :: "string option \<Rightarrow> exn \<Rightarrow> (database, persisted_decision) prog" where
  "existing_or_raise key e = (\<lambda>d.
     (case Option.bind key (\<lambda>k. dsql_find_by_evaluation_key k d) of
        None \<Rightarrow> Inl e
      | Some p \<Rightarrow> Inr p, d))"

definition dsql_record :: "decision_entry \<Rightarrow> (database, persisted_decision) prog" where
  "dsql_record e = (\<lambda>d.
     case record_transaction e d of
       (Inl x, d') \<Rightarrow>
         (if x = IntegrityError then existing_or_raise (de_evaluation_key e) x d' else (Inl x, d'))
     | (Inr rid, d') \<Rightarrow> recommendation_by_id rid d')"

definition dsql_list_recommendations :: "int \<Rightarrow> database \<Rightarrow> persisted_decision list" where
  "dsql_list_recommendations limit d =
     slice_first limit (map (persisted_from_row False)
       (sort_key (\<lambda>j. (- rr_created_at (rj_recommendation j), - rr_id (rj_recommendation j)))
         (recommendation_query d)))"

definition dsql_latest_for_signal_ids ::
  "int list \<Rightarrow> database \<Rightarrow> (int \<times> (string \<times> json) list) list" where
  "dsql_latest_for_signal_ids ids d =
     (if ids = [] then []
      else first_per_signal (map (\<lambda>j. (rr_signal_id (rj_recommendation j), comparison_from_row j))
        (sort_key (\<lambda>j. (rr_signal_id (rj_recommendation j), - rr_created_at (rj_recommendation j),
            - rr_id (rj_recommendation j)))
          (filter (\<lambda>j. rr_signal_id (rj_recommendation j) \<in> set ids) (recommendation_query d)))) [])"

text \<open>The correlated subquery: an evaluation of the signal with the same identity.\<close>

definition evaluated_as :: "candidate_query \<Rightarrow> database \<Rightarrow> int \<Rightarrow> bool" where
  "evaluated_as q d sid = list_ex (\<lambda>r. rr_signal_id r = sid \<and>
     list_ex (\<lambda>m. rr_model_run_id r = Some (mr_id m) \<and> mr_adapter m = cq_adapter q
        \<and> mr_model_name m = cq_model_name q \<and> mr_prompt_version m = cq_prompt_version q
        \<and> jget (mr_input_payload m) ''evaluation_mode'' = JStr (cq_evaluation_mode q))
       (db_model_runs d)) (db_recommendations d)"

definition dsql_list_unevaluated_candidate_ids :: "candidate_query \<Rightarrow> database \<Rightarrow> int list res" where
  "dsql_list_unevaluated_candidate_ids q d =
     bindE (mapE split_symbol (cq_symbols q)) (\<lambda>wanted.
       let rows = filter (\<lambda>(s, i). gr_signal_status s = candidate_status \<and> \<not> evaluated_as q d (gr_id s)
                \<and> in_range (cq_started_at q) (cq_finished_at q) (gr_created_at s)
                \<and> (wanted = [] \<or> (ir_exchange i, ir_tradingsymbol i) \<in> set wanted))
              (join_instrument d gr_instrument_id (db_signals d));
           ordered = (if cq_oldest_first q
              then sort_key (\<lambda>(s, i). (gr_created_at s, gr_id s)) rows
              else sort_key (\<lambda>(s, i). (- gr_created_at s, gr_id s)) rows)
       in Inr (slice_first (cq_limit q) (map (\<lambda>(s, i). gr_id s) ordered)))"

definition decision_sql_repository :: "database decision_repository" where
  "decision_sql_repository =
     \<lparr>dr_load_signal = dsql_load_signal, dr_find_by_evaluation_key = dsql_find_by_evaluation_key,
      dr_record = dsql_record, dr_list_recommendations = dsql_list_recommendations,
      dr_latest_for_signal_ids = dsql_latest_for_signal_ids,
      dr_list_unevaluated_candidate_ids = dsql_list_unevaluated_candidate_ids\<rparr>"

subsection \<open>Facts about the tables\<close>

text \<open>
  The tables of the decisions are consistent: keys are positions, the signal of a recommendation,
  its model run and the instrument of a signal exist, and an evaluation key occurs once.
\<close>

definition decisions_ok :: "database \<Rightarrow> bool" where
  "decisions_ok d \<longleftrightarrow> keyed mr_id (db_model_runs d) \<and> keyed rr_id (db_recommendations d) \<and>
     keyed gr_id (db_signals d) \<and> keyed ir_id (db_instruments d) \<and>
     (\<forall>s \<in> set (db_signals d). gr_instrument_id s \<in> ir_id ` set (db_instruments d)) \<and>
     (\<forall>r \<in> set (db_recommendations d). rr_signal_id r \<in> gr_id ` set (db_signals d) \<and>
        rr_model_run_id r \<in> (Some \<circ> mr_id) ` set (db_model_runs d)) \<and>
     distinct (List.map_filter rr_evaluation_key (db_recommendations d))"

definition make_join :: "recommendation_row \<Rightarrow> model_run_row \<Rightarrow> signal_row \<Rightarrow> instrument_row \<Rightarrow> recommendation_join"
  where "make_join r m s i =
    \<lparr>rj_recommendation = r, rj_model_run = m, rj_signal = s, rj_instrument = i\<rparr>"

lemma joins_of_one:
  assumes "keyed mr_id (db_model_runs d)" "keyed gr_id (db_signals d)" "keyed ir_id (db_instruments d)"
    and "m \<in> set (db_model_runs d)" "s \<in> set (db_signals d)" "i \<in> set (db_instruments d)"
    and "rr_model_run_id r = Some (mr_id m)" "rr_signal_id r = gr_id s" "gr_instrument_id s = ir_id i"
  shows "joins_of d r = [make_join r m s i]"
  using keyed_unique [OF assms(1,4)] keyed_unique [OF assms(2,5)] keyed_unique [OF assms(3,6)] assms(7-9)
  by (simp add: joins_of_def make_join_def)

lemma joins_of_ex:
  assumes "decisions_ok d" "r \<in> set (db_recommendations d)"
  obtains m s i where "m \<in> set (db_model_runs d)" "s \<in> set (db_signals d)" "i \<in> set (db_instruments d)"
    "rr_model_run_id r = Some (mr_id m)" "rr_signal_id r = gr_id s" "gr_instrument_id s = ir_id i"
  using assms unfolding decisions_ok_def by fastforce

lemma joins_rec: "j \<in> set (joins_of d r) \<Longrightarrow> rj_recommendation j = r"
  by (auto simp: joins_of_def)

text \<open>The row that a successful record adds, and the state it leaves.\<close>

definition recorded_run :: "decision_entry \<Rightarrow> database \<Rightarrow> model_run_row" where
  "recorded_run e d = (model_run_values e)\<lparr>mr_id := next_id (db_model_runs d), mr_created_at := db_now d\<rparr>"

definition recorded_row :: "decision_entry \<Rightarrow> database \<Rightarrow> recommendation_row" where
  "recorded_row e d = (recommendation_values e (next_id (db_model_runs d)))
     \<lparr>rr_id := next_id (db_recommendations d), rr_created_at := db_now d\<rparr>"

definition recorded_database :: "decision_entry \<Rightarrow> database \<Rightarrow> database" where
  "recorded_database e d = d\<lparr>db_model_runs := db_model_runs d @ [recorded_run e d],
     db_recommendations := db_recommendations d @ [recorded_row e d]\<rparr>"

definition recordable :: "decision_entry \<Rightarrow> database \<Rightarrow> bool" where
  "recordable e d \<longleftrightarrow> has_signal d (ds_id (de_signal e)) \<and>
     (\<forall>k. de_evaluation_key e = Some k \<longrightarrow>
        (\<forall>r \<in> set (db_recommendations d). rr_evaluation_key r \<noteq> Some k))"

lemma record_transaction_cases:
  "record_transaction e d =
     (if recordable e d then (Inr (next_id (db_recommendations d)), recorded_database e d)
      else (Inl IntegrityError, d))"
  by (cases "de_evaluation_key e")
    (auto simp: record_transaction_def transaction_def bindS_def insert_model_run_def
      insert_recommendation_def recordable_def recorded_database_def recorded_run_def recorded_row_def
      recommendation_values_def has_signal_def opt_ok_def list_ex_iff image_iff Let_def)

lemma recorded_key: "rr_evaluation_key (recorded_row e d) = de_evaluation_key e"
  by (simp add: recorded_row_def recommendation_values_def)

lemma map_filter_snoc: "List.map_filter f (xs @ [x]) =
    List.map_filter f xs @ (case f x of None \<Rightarrow> [] | Some y \<Rightarrow> [y])"
  by (induction xs) (auto simp: List.map_filter_simps split: option.splits)

lemma set_map_filter_Some: "set (List.map_filter f xs) = {y. Some y \<in> f ` set xs}"
  by (induction xs) (auto simp: List.map_filter_simps split: option.splits)

lemma recorded_tables_ok:
  assumes "decisions_ok d" "recordable e d"
  shows "decisions_ok (recorded_database e d)"
proof -
  have "keyed mr_id (db_model_runs (recorded_database e d))"
    using assms(1) by (auto simp: decisions_ok_def recorded_database_def recorded_run_def intro!: keyed_append)
  moreover have "keyed rr_id (db_recommendations (recorded_database e d))"
    using assms(1) by (auto simp: decisions_ok_def recorded_database_def recorded_row_def intro!: keyed_append)
  moreover have "distinct (List.map_filter rr_evaluation_key (db_recommendations (recorded_database e d)))"
  proof (cases "de_evaluation_key e")
    case None
    with assms(1) show ?thesis
      by (simp add: decisions_ok_def recorded_database_def recorded_key map_filter_snoc)
  next
    case (Some k)
    have "k \<notin> set (List.map_filter rr_evaluation_key (db_recommendations d))"
    proof
      assume "k \<in> set (List.map_filter rr_evaluation_key (db_recommendations d))"
      then obtain r where "r \<in> set (db_recommendations d)" "rr_evaluation_key r = Some k"
        by (auto simp: set_map_filter_Some)
      with Some assms(2) show False by (simp add: recordable_def)
    qed
    with Some assms(1) show ?thesis
      by (simp add: decisions_ok_def recorded_database_def recorded_key map_filter_snoc)
  qed
  moreover have "rr_signal_id (recorded_row e d) \<in> gr_id ` set (db_signals d)"
    using assms(2) by (auto simp: recordable_def has_signal_def recorded_row_def
        recommendation_values_def list_ex_iff intro: rev_image_eqI)
  moreover have "rr_model_run_id (recorded_row e d) = Some (mr_id (recorded_run e d))"
    by (simp add: recorded_row_def recorded_run_def recommendation_values_def)
  ultimately show ?thesis using assms(1)
    unfolding decisions_ok_def by (auto simp: recorded_database_def)
qed

lemma joins_kept:
  assumes "decisions_ok d" "r \<in> set (db_recommendations d)"
  shows "joins_of (recorded_database e d) r = joins_of d r"
proof -
  obtain m s i where m: "m \<in> set (db_model_runs d)" "rr_model_run_id r = Some (mr_id m)"
    by (rule joins_of_ex [OF assms])
  have "mr_id m \<noteq> mr_id (recorded_run e d)"
    using keyed_bound [of mr_id "db_model_runs d" m] m(1) assms(1)
    by (simp add: decisions_ok_def recorded_run_def)
  with m show ?thesis by (simp add: joins_of_def recorded_database_def)
qed

lemma recorded_query:
  assumes "decisions_ok d" "recordable e d"
  obtains m s i where
    "recommendation_query (recorded_database e d) =
       recommendation_query d @ [make_join (recorded_row e d) (recorded_run e d) s i]"
    "s \<in> set (db_signals d)" "i \<in> set (db_instruments d)"
    "gr_id s = ds_id (de_signal e)" "gr_instrument_id s = ir_id i"
proof -
  let ?d = "recorded_database e d"
  have ok: "decisions_ok ?d" by (rule recorded_tables_ok [OF assms])
  have r: "recorded_row e d \<in> set (db_recommendations ?d)" by (simp add: recorded_database_def)
  obtain m s i where *: "m \<in> set (db_model_runs ?d)" "s \<in> set (db_signals ?d)" "i \<in> set (db_instruments ?d)"
    "rr_model_run_id (recorded_row e d) = Some (mr_id m)" "rr_signal_id (recorded_row e d) = gr_id s"
    "gr_instrument_id s = ir_id i" by (rule joins_of_ex [OF ok r])
  have run: "recorded_run e d \<in> set (db_model_runs ?d)" by (simp add: recorded_database_def)
  have id: "rr_model_run_id (recorded_row e d) = Some (mr_id (recorded_run e d))"
    by (simp add: recorded_row_def recorded_run_def recommendation_values_def)
  have "joins_of ?d (recorded_row e d) = [make_join (recorded_row e d) (recorded_run e d) s i]"
    using ok by (intro joins_of_one run id *) (simp_all add: decisions_ok_def)
  moreover have "concat (map (joins_of ?d) (db_recommendations d)) = recommendation_query d"
    using joins_kept [OF assms(1)] unfolding recommendation_query_def
    by (intro arg_cong [of _ _ concat] map_cong) auto
  moreover have "db_recommendations ?d = db_recommendations d @ [recorded_row e d]"
    by (simp add: recorded_database_def)
  ultimately have "recommendation_query ?d =
      recommendation_query d @ [make_join (recorded_row e d) (recorded_run e d) s i]"
    by (simp add: recommendation_query_def [of ?d])
  moreover have "gr_id s = ds_id (de_signal e)"
    using *(5) by (simp add: recorded_row_def recommendation_values_def)
  ultimately show thesis using * by (intro that) (auto simp: recorded_database_def)
qed

lemma query_recommendation: "j \<in> set (recommendation_query d) \<Longrightarrow> rj_recommendation j \<in> set (db_recommendations d)"
  by (auto simp: recommendation_query_def dest: joins_rec)

lemma existing_row: "persisted_from_row True j = existing_copy (persisted_from_row False j)"
  by (simp add: persisted_from_row_def existing_copy_def Let_def)

lemma first_row_append: "first_row (xs @ ys) = (case first_row xs of None \<Rightarrow> first_row ys | Some x \<Rightarrow> Some x)"
  by (cases xs) (auto simp: first_row_def)

lemma first_row_Some: "first_row xs = Some x \<Longrightarrow> x \<in> set xs"
  by (cases xs) (auto simp: first_row_def)

lemma dsql_record_new:
  assumes ok: "decisions_ok d" and new: "recordable e d"
  obtains s i where
    "dsql_record e d =
       (Inr (persisted_from_row False (make_join (recorded_row e d) (recorded_run e d) s i)), recorded_database e d)"
    "recommendation_query (recorded_database e d) =
       recommendation_query d @ [make_join (recorded_row e d) (recorded_run e d) s i]"
    "s \<in> set (db_signals d)" "i \<in> set (db_instruments d)"
    "gr_id s = ds_id (de_signal e)" "gr_instrument_id s = ir_id i"
proof -
  let ?d = "recorded_database e d"
  obtain s i where q: "recommendation_query ?d =
       recommendation_query d @ [make_join (recorded_row e d) (recorded_run e d) s i]"
    and *: "s \<in> set (db_signals d)" "i \<in> set (db_instruments d)" "gr_id s = ds_id (de_signal e)"
      "gr_instrument_id s = ir_id i"
    by (rule recorded_query [OF ok new])
  have "filter (\<lambda>j. rr_id (rj_recommendation j) = next_id (db_recommendations d)) (recommendation_query d) = []"
    using keyed_bound [of rr_id "db_recommendations d"] query_recommendation [of _ d] ok
    by (fastforce simp: filter_empty_conv decisions_ok_def)
  with q have "dsql_record e d =
      (Inr (persisted_from_row False (make_join (recorded_row e d) (recorded_run e d) s i)), ?d)"
    using new by (simp add: dsql_record_def record_transaction_cases recommendation_by_id_def
        make_join_def recorded_row_def first_row_def)
  then show thesis using q * by (rule that)
qed

lemma dsql_record_old:
  "\<not> recordable e d \<Longrightarrow> dsql_record e d = existing_or_raise (de_evaluation_key e) IntegrityError d"
  by (simp add: dsql_record_def record_transaction_cases)

lemma dsql_find_row:
  assumes "decisions_ok d" "r \<in> set (db_recommendations d)" "rr_evaluation_key r = Some k"
  shows "dsql_find_by_evaluation_key k d \<noteq> None"
proof -
  obtain m s i where "m \<in> set (db_model_runs d)" "s \<in> set (db_signals d)" "i \<in> set (db_instruments d)"
    "rr_model_run_id r = Some (mr_id m)" "rr_signal_id r = gr_id s" "gr_instrument_id s = ir_id i"
    by (rule joins_of_ex [OF assms(1,2)])
  then have "joins_of d r = [make_join r m s i]"
    using assms(1) by (intro joins_of_one) (simp_all add: decisions_ok_def)
  with assms(2) have "make_join r m s i \<in> set (recommendation_query d)"
    unfolding recommendation_query_def by (auto intro!: bexI [of _ r])
  with assms(3) have "filter (\<lambda>j. rr_evaluation_key (rj_recommendation j) = Some k) (recommendation_query d) \<noteq> []"
    by (auto simp: filter_empty_conv make_join_def intro!: bexI)
  then show ?thesis by (auto simp: dsql_find_by_evaluation_key_def first_row_def split: list.splits)
qed

lemma dsql_find_none:
  assumes "\<forall>r \<in> set (db_recommendations d). rr_evaluation_key r \<noteq> Some k"
  shows "filter (\<lambda>j. rr_evaluation_key (rj_recommendation j) = Some k) (recommendation_query d) = []"
  using assms query_recommendation [of _ d] by (fastforce simp: filter_empty_conv)

subsection \<open>The contract\<close>

text \<open>
  \<open>ok\<close> is the consistency of the store. A decision is recorded for every signal that can be loaded;
  it is new, with the verdict and status of the entry, or it is the one that was stored under the
  evaluation key and then nothing is changed.
\<close>

definition decision_of_entry :: "decision_entry \<Rightarrow> persisted_decision \<Rightarrow> bool" where
  "decision_of_entry e p \<longleftrightarrow> pd_signal_id p = ds_id (de_signal e) \<and>
     pd_verdict p = verdict_value (do_verdict (de_output e)) \<and> pd_reasons p = do_reasons (de_output e) \<and>
     pd_warnings p = do_warnings (de_output e) \<and> pd_status p = de_status e \<and>
     pd_error_code p = de_error_code e"

locale decision_store =
  fixes repo :: "'s decision_repository" and ok :: "'s \<Rightarrow> bool"
  assumes find_existing: "dr_find_by_evaluation_key repo k st = Some p \<Longrightarrow> pd_existing p"
    and record_ok: "ok st \<Longrightarrow> dr_record repo e st = (r, st') \<Longrightarrow> ok st'"
    and record_load: "ok st \<Longrightarrow> dr_record repo e st = (r, st') \<Longrightarrow>
      dr_load_signal repo i st' = dr_load_signal repo i st"
    and record_find: "ok st \<Longrightarrow> dr_record repo e st = (Inr p, st') \<Longrightarrow> de_evaluation_key e = Some k \<Longrightarrow>
      dr_find_by_evaluation_key repo k st' = Some (existing_copy p)"
    and find_stays: "ok st \<Longrightarrow> dr_record repo e st = (r, st') \<Longrightarrow> de_evaluation_key e \<noteq> Some k \<Longrightarrow>
      dr_find_by_evaluation_key repo k st = Some p \<Longrightarrow> dr_find_by_evaluation_key repo k st' = Some p"
    and record_new: "ok st \<Longrightarrow> dr_record repo e st = (Inr p, st') \<Longrightarrow> \<not> pd_existing p \<Longrightarrow>
      decision_of_entry e p"
    and record_old: "ok st \<Longrightarrow> dr_record repo e st = (Inr p, st') \<Longrightarrow> pd_existing p \<Longrightarrow>
      st' = st \<and> Option.bind (de_evaluation_key e) (\<lambda>k. dr_find_by_evaluation_key repo k st) = Some p"
    and record_total: "ok st \<Longrightarrow> dr_load_signal repo i st = Some (de_signal e) \<Longrightarrow>
      \<exists>p st'. dr_record repo e st = (Inr p, st')"
begin

lemma record_existing_kept:
  assumes "ok st" "dr_record repo e st = (Inr p, st')" "pd_existing p"
  shows "\<exists>k. de_evaluation_key e = Some k \<and> dr_find_by_evaluation_key repo k st = Some p \<and> st' = st"
  using record_old [OF assms] by (auto simp: bind_eq_Some_conv)

end

lemma map_of_put_key: "map_of (put_key d k v) = (map_of d)(k \<mapsto> v)"
  by (induction d k v rule: put_key.induct) auto

interpretation mem_decisions: decision_store decision_memory_repository "\<lambda>m. True"
  by unfold_locales
    (auto simp: decision_memory_repository_def dmem_find_by_evaluation_key_def dmem_record_def
      dmem_load_signal_def existing_copy_def map_of_put_key decision_of_entry_def persisted_of_def Let_def
      split: option.splits)

lemma json_strings_jstrs [simp]: "json_strings (jstrs xs) = xs"
  by (induction xs) (auto simp: jstrs_def List.map_filter_simps)

lemma recorded_join_entry:
  "decision_of_entry e (persisted_from_row False (make_join (recorded_row e d) (recorded_run e d) s i))"
  by (simp add: decision_of_entry_def persisted_from_row_def make_join_def recorded_row_def
      recorded_run_def recommendation_values_def model_run_values_def output_dump_def optional_field_def)

lemma dsql_record_cases:
  assumes ok: "decisions_ok d" and r: "dsql_record e d = (r, d')"
  obtains (new) j where "recordable e d" "r = Inr (persisted_from_row False j)"
      "d' = recorded_database e d" "recommendation_query d' = recommendation_query d @ [j]"
      "rr_evaluation_key (rj_recommendation j) = de_evaluation_key e"
      "decision_of_entry e (persisted_from_row False j)"
  | (old) p k where "\<not> recordable e d" "r = Inr p" "d' = d" "de_evaluation_key e = Some k"
      "dsql_find_by_evaluation_key k d = Some p"
  | (failed) "\<not> recordable e d" "r = Inl IntegrityError" "d' = d"
      "Option.bind (de_evaluation_key e) (\<lambda>k. dsql_find_by_evaluation_key k d) = None"
proof (cases "recordable e d")
  case True
  obtain s i where si: "dsql_record e d =
      (Inr (persisted_from_row False (make_join (recorded_row e d) (recorded_run e d) s i)), recorded_database e d)"
    "recommendation_query (recorded_database e d) =
       recommendation_query d @ [make_join (recorded_row e d) (recorded_run e d) s i]"
    by (rule dsql_record_new [OF ok True])
  have key: "rr_evaluation_key (rj_recommendation (make_join (recorded_row e d) (recorded_run e d) s i)) =
      de_evaluation_key e" by (simp add: make_join_def recorded_key)
  show thesis using r si by (intro new [OF True _ _ _ key recorded_join_entry]) simp_all
next
  case False
  show thesis
  proof (cases "Option.bind (de_evaluation_key e) (\<lambda>k. dsql_find_by_evaluation_key k d)")
    case None
    with r False show thesis by (intro failed) (simp_all add: dsql_record_old existing_or_raise_def)
  next
    case (Some p)
    then obtain k where "de_evaluation_key e = Some k" "dsql_find_by_evaluation_key k d = Some p"
      by (auto simp: bind_eq_Some_conv)
    with r False show thesis by (intro old) (simp_all add: dsql_record_old existing_or_raise_def)
  qed
qed

lemma find_kept:
  assumes "decisions_ok d" "dsql_record e d = (r, d')" "de_evaluation_key e \<noteq> Some k"
    and "dsql_find_by_evaluation_key k d = Some p"
  shows "dsql_find_by_evaluation_key k d' = Some p"
  using assms(1,2)
proof (cases rule: dsql_record_cases)
  case (new j)
  with assms(3,4) show ?thesis
    by (auto simp: dsql_find_by_evaluation_key_def first_row_append split: option.splits)
qed (use assms(4) in simp_all)

lemma find_recorded:
  assumes "decisions_ok d" "dsql_record e d = (Inr p, d')" "de_evaluation_key e = Some k"
  shows "dsql_find_by_evaluation_key k d' = Some (existing_copy p)"
  using assms(1,2)
proof (cases rule: dsql_record_cases)
  case (new j)
  with assms(3) have "filter (\<lambda>j. rr_evaluation_key (rj_recommendation j) = Some k) (recommendation_query d) = []"
    by (intro dsql_find_none) (simp add: recordable_def)
  with new assms(3) show ?thesis
    by (simp add: dsql_find_by_evaluation_key_def first_row_def existing_row)
next
  case (old p' k')
  with assms(3) show ?thesis
    by (auto simp: dsql_find_by_evaluation_key_def existing_copy_def persisted_from_row_def Let_def)
qed simp_all

lemma dsql_record_total:
  assumes "decisions_ok d" "dsql_load_signal i d = Some (de_signal e)"
  shows "\<exists>p d'. dsql_record e d = (Inr p, d')"
proof -
  obtain r d' where r: "dsql_record e d = (r, d')" by (metis surj_pair)
  with assms(1) show ?thesis
  proof (cases rule: dsql_record_cases)
    case failed
    obtain s ir where "s \<in> set (db_signals d)" "decision_signal_from_row (s, ir) = de_signal e"
      using assms(2) by (auto simp: dsql_load_signal_def in_join_instrument dest!: first_row_Some)
    then have "s \<in> set (db_signals d)" "gr_id s = ds_id (de_signal e)"
      by (auto simp: decision_signal_from_row_def dest: arg_cong [of _ _ ds_id])
    then have "has_signal d (ds_id (de_signal e))" by (auto simp: has_signal_def list_ex_iff)
    with failed(1) obtain k r where "de_evaluation_key e = Some k" "r \<in> set (db_recommendations d)"
      "rr_evaluation_key r = Some k" by (auto simp: recordable_def)
    with failed(4) dsql_find_row [OF assms(1)] show ?thesis by auto
  qed (use r in auto)
qed

lemma load_signal_frame: "dsql_load_signal i (recorded_database e d) = dsql_load_signal i d"
  by (simp add: dsql_load_signal_def recorded_database_def join_instrument_def)

lemma decision_sql_ops [simp]:
  "dr_record decision_sql_repository = dsql_record"
  "dr_load_signal decision_sql_repository = dsql_load_signal"
  "dr_find_by_evaluation_key decision_sql_repository = dsql_find_by_evaluation_key"
  by (simp_all add: decision_sql_repository_def)

interpretation sql_decisions: decision_store decision_sql_repository decisions_ok
proof unfold_locales
  fix k d p
  assume "dr_find_by_evaluation_key decision_sql_repository k d = Some p"
  then show "pd_existing p"
    by (auto simp: dsql_find_by_evaluation_key_def persisted_from_row_def Let_def)
next
  fix d e r d'
  assume "decisions_ok d" "dr_record decision_sql_repository e d = (r, d')"
  then have r: "decisions_ok d" "dsql_record e d = (r, d')" by simp_all
  then show "decisions_ok d'"
    by (cases rule: dsql_record_cases) (use r(1) recorded_tables_ok in auto)
next
  fix d e r d' i
  assume "decisions_ok d" "dr_record decision_sql_repository e d = (r, d')"
  then have r: "decisions_ok d" "dsql_record e d = (r, d')" by simp_all
  then show "dr_load_signal decision_sql_repository i d' = dr_load_signal decision_sql_repository i d"
    by (cases rule: dsql_record_cases) (auto simp: load_signal_frame)
next
  fix d e p d' k
  assume "decisions_ok d" "dr_record decision_sql_repository e d = (Inr p, d')" "de_evaluation_key e = Some k"
  then show "dr_find_by_evaluation_key decision_sql_repository k d' = Some (existing_copy p)"
    by (simp add: find_recorded)
next
  fix d e r d' k p
  assume "decisions_ok d" "dr_record decision_sql_repository e d = (r, d')" "de_evaluation_key e \<noteq> Some k"
    "dr_find_by_evaluation_key decision_sql_repository k d = Some p"
  then show "dr_find_by_evaluation_key decision_sql_repository k d' = Some p"
    by (simp add: find_kept)
next
  fix d e p d'
  assume "decisions_ok d" "dr_record decision_sql_repository e d = (Inr p, d')" "\<not> pd_existing p"
  then have n: "\<not> pd_existing p" and r: "decisions_ok d" "dsql_record e d = (Inr p, d')" by simp_all
  from r show "decision_of_entry e p"
    by (cases rule: dsql_record_cases)
      (use n in \<open>auto simp: dsql_find_by_evaluation_key_def persisted_from_row_def Let_def\<close>)
next
  fix d e p d'
  assume "decisions_ok d" "dr_record decision_sql_repository e d = (Inr p, d')" "pd_existing p"
  then have n: "pd_existing p" and r: "decisions_ok d" "dsql_record e d = (Inr p, d')" by simp_all
  from r show "d' = d \<and> Option.bind (de_evaluation_key e)
      (\<lambda>k. dr_find_by_evaluation_key decision_sql_repository k d) = Some p"
    by (cases rule: dsql_record_cases)
      (use n in \<open>auto simp: persisted_from_row_def Let_def\<close>)
next
  fix d i and e :: decision_entry
  assume "decisions_ok d" "dr_load_signal decision_sql_repository i d = Some (de_signal e)"
  then show "\<exists>p d'. dr_record decision_sql_repository e d = (Inr p, d')"
    by (simp add: dsql_record_total)
qed

end
