(* ===== verification/DecisionService.thy ===== *)
theory DecisionService
  imports DecisionText DecisionRepository
begin

section \<open>The decision service\<close>

text \<open>
  \<^verbatim>\<open>app/decision/service.py\<close>, and the adapters \<^verbatim>\<open>fake_adapter.py\<close> and
  \<^verbatim>\<open>openai_adapter.py\<close>: the canonical input built from the features of a signal, the screens that
  the raw output of the adapter passes before it is believed, and the evaluation of a signal with
  its cache by evaluation key. The adapter is a parameter of the service (the two adapters of the
  code are given), as are the functions outside the repository: the digest, the texts of floats and
  of JSON values, pydantic's conversion to float, and the milliseconds that the call took.
\<close>

record decision_env =
  env_settings :: settings
  env_adapter :: "decision_input \<Rightarrow> adapter_result res"
  env_coerce :: "json \<Rightarrow> rat option"
  env_num_repr :: "rat \<Rightarrow> string"
  env_str_repr :: "json \<Rightarrow> string"
  env_digest :: "string \<Rightarrow> string"
  env_elapsed_ms :: int

subsection \<open>The identity of an evaluation\<close>

definition adapter_name :: "settings \<Rightarrow> string res" where
  "adapter_name s =
     (let adapter = lower (strip (openai_decision_adapter s))
      in if adapter \<in> set [''fake'', ''openai''] then Inr adapter
         else Inl (DecisionConfigError ''Unsupported OpenAI decision adapter.''))"

definition model_name :: "settings \<Rightarrow> string \<Rightarrow> string" where
  "model_name s adapter =
     (if adapter = ''fake'' then (if openai_model s \<noteq> [] then openai_model s else ''fake'')
      else openai_model s)"

definition evaluation_mode :: "settings \<Rightarrow> evaluation_mode_kind res" where
  "evaluation_mode s =
     (case evaluation_mode_of (upper (strip (openai_decision_evaluation_mode s))) of
        None \<Rightarrow> Inl (DecisionConfigError ''Unsupported OpenAI decision evaluation mode.'')
      | Some m \<Rightarrow> Inr m)"

record decision_identity =
  id_adapter :: string
  id_model_name :: string
  id_prompt_version :: string
  id_evaluation_mode :: string

definition evaluation_identity :: "settings \<Rightarrow> decision_identity res" where
  "evaluation_identity s =
     bindE (adapter_name s) (\<lambda>adapter. bindE (evaluation_mode s) (\<lambda>mode.
       Inr \<lparr>id_adapter = adapter, id_model_name = model_name s adapter,
         id_prompt_version = openai_decision_prompt_version s,
         id_evaluation_mode = evaluation_mode_value mode\<rparr>))"

definition decision_status :: "settings \<Rightarrow> (string \<times> json) list res" where
  "decision_status s =
     bindE (evaluation_mode s) (\<lambda>mode. Inr
       [(''enabled'', JBool (openai_decision_enabled s)),
        (''adapter'', JStr (lower (strip (openai_decision_adapter s)))),
        (''model_configured'', JBool (openai_model s \<noteq> [])),
        (''api_key_configured'', JBool (openai_api_key s \<noteq> [])),
        (''prompt_version'', JStr (openai_decision_prompt_version s)),
        (''store'', JBool (openai_decision_store s)),
        (''min_confidence'', JFloat (openai_decision_min_confidence s)),
        (''evaluation_mode'', JStr (evaluation_mode_value mode)),
        (''automatic_evaluation_enabled'', JBool (market_ops_decision_auto_evaluate_enabled s)),
        (''paper_report_only'', JBool True), (''live_execution'', JBool False)])"

subsection \<open>The canonical input\<close>

definition allowed_indicators :: "string list" where
  "allowed_indicators = [''ema_9'', ''ema_20'', ''ema_50'', ''rsi_14'', ''atr_14'', ''vwap'',
     ''opening_range_high'', ''opening_range_low'', ''previous_day_high'', ''previous_day_low'',
     ''volume_ratio'', ''relative_index_move'', ''spread_pct'']"

definition allowed_data_quality :: "string list" where
  "allowed_data_quality = [''history_complete'', ''quote_fresh'', ''spread_available'',
     ''candle_continuity_ok'', ''session_start_available'', ''opening_range_complete'',
     ''current_session_complete_through_latest'']"

definition allowed_future_qualification :: "string list" where
  "allowed_future_qualification = [''observation_mode'', ''eligible_strategy'', ''spread_required'',
     ''spread_validated'', ''future_live_qualified'', ''warnings'']"

text \<open>\<^verbatim>\<open>{key: f(value) for key, value in d.items() if key in allowed}\<close>.\<close>

definition allowed_items :: "string list \<Rightarrow> (json \<Rightarrow> 'a) \<Rightarrow> (string \<times> json) list \<Rightarrow> (string \<times> 'a) list" where
  "allowed_items allowed f d = map (\<lambda>(k, v). (k, f v)) (filter (\<lambda>(k, v). k \<in> set allowed) d)"

definition indicator_text :: "(json \<Rightarrow> string) \<Rightarrow> json \<Rightarrow> json" where
  "indicator_text str_repr v =
     (case v of JNull \<Rightarrow> JNull | JStr s \<Rightarrow> JStr s | _ \<Rightarrow> JStr (str_repr v))"

definition evaluation_context_warnings :: "(string \<times> json) list \<Rightarrow> (string \<times> json) list \<Rightarrow> string list" where
  "evaluation_context_warnings quality future = uniq
     ((if truthy (jget quality ''quote_fresh'') then [] else [''quote_fresh_missing'']) @
      (if truthy (jget quality ''spread_available'') then [] else [''spread_data_missing'']) @
      (if truthy (jget future ''spread_required'') \<and> \<not> truthy (jget future ''spread_validated'')
       then [''spread_validation_missing''] else []))"

fun mapping_of :: "json \<Rightarrow> (string \<times> json) list option" where
  "mapping_of (JObj kvs) = Some kvs"
| "mapping_of v = None"

definition decision_input_of ::
  "decision_env \<Rightarrow> decision_signal \<Rightarrow> evaluation_mode_kind \<Rightarrow> (string \<times> json) list \<Rightarrow>
     (string \<times> json) list \<Rightarrow> (string \<times> json) list \<Rightarrow> decision_input" where
  "decision_input_of env sig mode indicators quality future =
     (let s = env_settings env in
      \<lparr>di_signal_id = ds_id sig, di_signal_key = ds_signal_key sig, di_symbol = ds_symbol sig,
       di_strategy = ds_strategy_name sig, di_strategy_version = ds_strategy_version sig,
       di_timestamp_ist = ist_isoformat (ds_signal_time sig),
       di_signal_status = ds_signal_status sig, di_evaluation_mode = mode,
       di_evaluation_warnings = evaluation_context_warnings quality future,
       di_indicator_values =
         allowed_items allowed_indicators (indicator_text (env_str_repr env)) indicators,
       di_data_quality = allowed_items allowed_data_quality truthy quality,
       di_future_live_qualification = allowed_items allowed_future_qualification (\<lambda>v. v) future,
       di_paper_enabled = paper_enabled s, di_paper_mode = paper_mode s,
       di_paper_max_trades_per_day = paper_max_trades_per_day s,
       di_max_trade_notional = max_trade_notional_inr s,
       di_max_planned_risk = max_planned_risk_per_trade_inr s,
       di_max_daily_loss = max_daily_loss_inr s\<rparr>)"

definition build_input :: "decision_env \<Rightarrow> decision_signal \<Rightarrow> decision_input res" where
  "build_input env sig =
     (case (mapping_of (jget (ds_features sig) ''indicator_values''),
            mapping_of (jget (ds_features sig) ''data_quality'')) of
        (Some indicators, Some quality) \<Rightarrow>
          (case mapping_of (optional_field (ds_features sig) ''future_live_qualification'' (JObj [])) of
             None \<Rightarrow> Inl (DecisionAdapterError ''signal_features_invalid'')
           | Some future \<Rightarrow>
               bindE (evaluation_mode (env_settings env)) (\<lambda>mode.
                 let i = decision_input_of env sig mode indicators quality future
                 in if input_valid i then Inr i else Inl ValidationError))
      | _ \<Rightarrow> Inl (DecisionAdapterError ''signal_features_missing''))"

definition fallback_input :: "decision_signal \<Rightarrow> evaluation_mode_kind \<Rightarrow> (string \<times> json) list" where
  "fallback_input sig mode =
     [(''signal_id'', JInt (ds_id sig)), (''signal_key'', JStr (ds_signal_key sig)),
      (''symbol'', JStr (ds_symbol sig)), (''strategy'', JStr (ds_strategy_name sig)),
      (''strategy_version'', JStr (ds_strategy_version sig)),
      (''timestamp_ist'', JStr (ist_isoformat (ds_signal_time sig))),
      (''signal_status'', JStr (ds_signal_status sig)),
      (''evaluation_mode'', JStr (evaluation_mode_value mode))]"

subsection \<open>The screens of the output\<close>

definition safe_reject :: "decision_signal \<Rightarrow> string \<Rightarrow> decision_output" where
  "safe_reject sig reason =
     \<lparr>do_verdict = REJECT, do_strategy_template = ds_strategy_name sig, do_confidence = 0,
      do_reasons = [reason], do_warnings = [], do_stop_method = None, do_target_r_multiple = None,
      do_data_sufficiency = INSUFFICIENT\<rparr>"

text \<open>The copy is validated again: more than twenty warnings raise \<open>ValidationError\<close>.\<close>

definition shadow_watch :: "decision_output \<Rightarrow> string list \<Rightarrow> decision_output res" where
  "shadow_watch out warnings =
     (let merged = uniq (do_warnings out @ warnings) in
      if length merged \<le> 20
      then Inr (out\<lparr>do_verdict := WATCH, do_warnings := merged, do_stop_method := None,
                    do_target_r_multiple := None\<rparr>)
      else Inl ValidationError)"

definition quality_flag :: "(string \<times> bool) list \<Rightarrow> string \<Rightarrow> bool" where
  "quality_flag q k = (map_of q k = Some True)"

definition eligibility_context_warnings :: "decision_input \<Rightarrow> string list" where
  "eligibility_context_warnings i =
     (if quality_flag (di_data_quality i) ''quote_fresh'' then [] else [''quote_fresh_missing'']) @
     (if truthy (jget (di_future_live_qualification i) ''spread_required'')
         \<and> \<not> truthy (jget (di_future_live_qualification i) ''spread_validated'')
      then [''spread_validation_missing''] else [])"

definition rejected :: "decision_signal \<Rightarrow> string \<Rightarrow> (decision_output \<times> string option) res" where
  "rejected sig code = Inr (safe_reject sig code, Some code)"

text \<open>The screens that follow the schema.\<close>

definition screen_output ::
  "settings \<Rightarrow> decision_signal \<Rightarrow> decision_input \<Rightarrow> decision_output \<Rightarrow>
     (decision_output \<times> string option) res" where
  "screen_output s sig i out =
     (if do_strategy_template out \<notin> set p05_strategies then rejected sig ''strategy_not_allowlisted''
      else if do_strategy_template out \<noteq> ds_strategy_name sig then rejected sig ''strategy_mismatch''
      else if do_data_sufficiency out = INSUFFICIENT then rejected sig ''data_insufficient''
      else if do_verdict out = ELIGIBLE \<and> do_confidence out < openai_decision_min_confidence s
      then rejected sig ''eligible_confidence_below_minimum''
      else if do_verdict out = ELIGIBLE \<and> di_evaluation_mode i = LIVE_SHADOW
              \<and> eligibility_context_warnings i \<noteq> []
      then bindE (shadow_watch out (eligibility_context_warnings i)) (\<lambda>o'. Inr (o', None))
      else if do_verdict out = ELIGIBLE \<and> di_evaluation_mode i = FUTURE_LIVE_ELIGIBILITY
              \<and> eligibility_context_warnings i \<noteq> []
      then rejected sig ''future_live_context_incomplete''
      else Inr (out, None))"

definition validate_output ::
  "decision_env \<Rightarrow> json \<Rightarrow> decision_signal \<Rightarrow> decision_input \<Rightarrow> string list \<Rightarrow>
     (decision_output \<times> string option) res" where
  "validate_output env raw sig i secrets =
     (case mapping_of raw of
        None \<Rightarrow> rejected sig ''malformed_output''
      | Some kvs \<Rightarrow>
          if find_prohibited_key raw \<noteq> None then rejected sig ''prohibited_output_field''
          else if contains_secret_value secrets raw then rejected sig ''prohibited_output_value''
          else if external_fact (dumps_default (env_num_repr env) raw)
          then rejected sig ''external_fact_claim''
          else case validate_output_schema (env_coerce env) kvs of
              None \<Rightarrow> rejected sig ''schema_validation_failed''
            | Some out \<Rightarrow> screen_output (env_settings env) sig i out)"

subsection \<open>Evaluation\<close>

text \<open>
  The \<^verbatim>\<open>try\<close> block of \<^verbatim>\<open>_evaluate_locked\<close>: the input, what the adapter returned and the screened
  output. Only \<open>DecisionAdapterError\<close> is handled, by a recorded rejection; any other exception
  leaves the method before anything is recorded.
\<close>

record decision_attempt =
  at_input_payload :: "(string \<times> json) list"
  at_output :: decision_output
  at_output_payload :: "(string \<times> json) list"
  at_error_code :: "string option"
  at_request_id :: "string option"
  at_latency_ms :: "int option"

definition try_attempt :: "decision_env \<Rightarrow> decision_signal \<Rightarrow> decision_attempt res" where
  "try_attempt env sig =
     bindE (build_input env sig) (\<lambda>i. bindE (env_adapter env i) (\<lambda>r.
       let secrets = configured_secrets (env_settings env)
       in bindE (validate_output env (ar_output r) sig i secrets) (\<lambda>(out, code).
         Inr \<lparr>at_input_payload = input_dump i, at_output = out,
              at_output_payload = sanitize_raw_output secrets (ar_output r), at_error_code = code,
              at_request_id = ar_request_id r, at_latency_ms = ar_latency_ms r\<rparr>)))"

definition failed_attempt :: "decision_signal \<Rightarrow> evaluation_mode_kind \<Rightarrow> string \<Rightarrow> decision_attempt" where
  "failed_attempt sig mode code =
     \<lparr>at_input_payload = fallback_input sig mode, at_output = safe_reject sig code,
      at_output_payload = [(''error_code'', JStr code)], at_error_code = Some code,
      at_request_id = None, at_latency_ms = None\<rparr>"

definition attempt :: "decision_env \<Rightarrow> decision_signal \<Rightarrow> decision_attempt res" where
  "attempt env sig =
     (case try_attempt env sig of
        Inl (DecisionAdapterError code) \<Rightarrow>
          bindE (evaluation_mode (env_settings env)) (\<lambda>mode. Inr (failed_attempt sig mode code))
      | r \<Rightarrow> r)"

definition entry_of_attempt ::
  "decision_env \<Rightarrow> decision_signal \<Rightarrow> decision_identity \<Rightarrow> string \<Rightarrow> bool \<Rightarrow> decision_attempt \<Rightarrow>
     decision_entry" where
  "entry_of_attempt env sig ident key force a =
     \<lparr>de_signal = sig, de_adapter = id_adapter ident, de_model_name = id_model_name ident,
      de_prompt_version = id_prompt_version ident,
      de_input_hash = hash_payload (env_num_repr env) (env_digest env) (at_input_payload a),
      de_input_payload = at_input_payload a, de_output = at_output a,
      de_output_payload = at_output_payload a,
      de_status = (if at_error_code a \<noteq> None \<and> at_error_code a \<noteq> Some [] then ''FAILED'' else ''COMPLETED''),
      de_request_id = at_request_id a,
      de_latency_ms = Some (case at_latency_ms a of None \<Rightarrow> env_elapsed_ms env | Some l \<Rightarrow> l),
      de_error_code = at_error_code a,
      de_evaluation_key = (if force then None else Some key)\<rparr>"

definition evaluate_locked ::
  "decision_env \<Rightarrow> 's decision_repository \<Rightarrow> decision_signal \<Rightarrow> decision_identity \<Rightarrow> string \<Rightarrow> bool \<Rightarrow>
     ('s, persisted_decision) prog" where
  "evaluate_locked env repo sig ident key force =
     bindS (readS (dr_find_by_evaluation_key repo key)) (\<lambda>found.
       case (force, found) of
         (False, Some p) \<Rightarrow> retS p
       | _ \<Rightarrow> bindS (liftS (attempt env sig))
                (\<lambda>a. dr_record repo (entry_of_attempt env sig ident key force a)))"

text \<open>The guards of \<^verbatim>\<open>evaluate\<close>, in their order.\<close>

definition eligible_signal :: "settings \<Rightarrow> decision_signal option \<Rightarrow> decision_signal res" where
  "eligible_signal s found =
     (if \<not> openai_decision_enabled s
      then Inl (DecisionDisabledError ''OpenAI decision evaluation is disabled.'')
      else case found of
          None \<Rightarrow> Inl (DecisionSignalNotFoundError ''Signal not found.'')
        | Some sig \<Rightarrow>
            if ds_signal_status sig \<noteq> candidate_status
            then Inl (DecisionSignalIneligibleError ''Only CANDIDATE signals can be evaluated.'')
            else Inr sig)"

definition identity_key :: "decision_env \<Rightarrow> decision_signal \<Rightarrow> decision_identity \<Rightarrow> string" where
  "identity_key env sig ident =
     evaluation_key_of (env_digest env) sig (id_adapter ident) (id_model_name ident)
       (id_prompt_version ident) (id_evaluation_mode ident)"

definition evaluate ::
  "decision_env \<Rightarrow> 's decision_repository \<Rightarrow> int \<Rightarrow> bool \<Rightarrow> ('s, persisted_decision) prog" where
  "evaluate env repo signal_id force =
     bindS (readS (dr_load_signal repo signal_id)) (\<lambda>found.
     bindS (liftS (eligible_signal (env_settings env) found)) (\<lambda>sig.
     bindS (liftS (evaluation_identity (env_settings env))) (\<lambda>ident.
       evaluate_locked env repo sig ident (identity_key env sig ident) force)))"

definition decision_recommendations ::
  "'s decision_repository \<Rightarrow> int \<Rightarrow> 's \<Rightarrow> (string \<times> json) list list" where
  "decision_recommendations repo requested st =
     map persisted_as_dict (dr_list_recommendations repo (max 1 (min requested 500)) st)"

subsection \<open>The adapters\<close>

text \<open>The fake adapter also keeps the inputs it was called with.\<close>

definition fake_output :: "decision_input \<Rightarrow> json" where
  "fake_output i = JObj
     [(''verdict'', JStr ''WATCH''), (''strategy_template'', JStr (di_strategy i)),
      (''confidence'', JFloat (1 / 2)), (''reasons'', jstrs [''fake_adapter_manual_review'']),
      (''warnings'', jstrs [''fake_adapter'']), (''recommended_stop_method'', JNull),
      (''recommended_target_r_multiple'', JNull), (''data_sufficiency'', JStr ''SUFFICIENT'')]"

definition fake_result :: "json option \<Rightarrow> decision_input \<Rightarrow> adapter_result" where
  "fake_result configured i =
     \<lparr>ar_output = (case configured of None \<Rightarrow> fake_output i
         | Some v \<Rightarrow> if truthy v then v else fake_output i),
      ar_request_id = Some ''fake'', ar_latency_ms = Some 0\<rparr>"

definition fake_evaluate :: "json option \<Rightarrow> decision_input \<Rightarrow> (decision_input list, adapter_result) prog" where
  "fake_evaluate configured i =
     bindS (modifyS (\<lambda>calls. calls @ [i])) (\<lambda>_. retS (fake_result configured i))"

text \<open>
  The OpenAI adapter calls a client that is not part of the repository: a parameter that returns a
  response or raises. Of the response the adapter reads the status (a missing one reads as completed), the parsed output and the id, of
  the exception whether it is a \<^verbatim>\<open>TimeoutError\<close>, its class name and whether a module is missing.
\<close>

datatype (plugins only: code size) parsed_output =
    NoOutput | ParsedOutput decision_output | OtherOutput json

record client_response =
  rs_status :: string
  rs_parsed :: parsed_output
  rs_id :: "string option"

record client_failure =
  cf_timeout_error :: bool
  cf_class_name :: string
  cf_module_missing :: bool

record client_request =
  rq_model :: string
  rq_input :: "(string \<times> string) list"
  rq_max_output_tokens :: int
  rq_store :: bool
  rq_tool_choice :: string

definition request_payload :: "settings \<Rightarrow> (rat \<Rightarrow> string) \<Rightarrow> decision_input \<Rightarrow> client_request" where
  "request_payload s num_repr i =
     \<lparr>rq_model = openai_model s,
      rq_input = build_prompt num_repr i (openai_decision_prompt_version s),
      rq_max_output_tokens = openai_decision_max_output_tokens s,
      rq_store = openai_decision_store s, rq_tool_choice = ''none''\<rparr>"

definition failure_code :: "client_failure \<Rightarrow> string" where
  "failure_code f =
     (if cf_timeout_error f then ''openai_timeout''
      else if has_sub ''timeout'' (lower (cf_class_name f)) then ''openai_timeout''
      else if cf_module_missing f then ''openai_sdk_unavailable''
      else ''openai_error'')"

definition openai_evaluate ::
  "settings \<Rightarrow> (rat \<Rightarrow> string) \<Rightarrow> (client_request \<Rightarrow> client_failure + client_response) \<Rightarrow>
     decision_input \<Rightarrow> adapter_result res" where
  "openai_evaluate s num_repr client i =
     (if openai_api_key s = [] then Inl (DecisionAdapterError ''openai_api_key_missing'')
      else if openai_model s = [] then Inl (DecisionAdapterError ''openai_model_missing'')
      else case client (request_payload s num_repr i) of
          Inl f \<Rightarrow> Inl (DecisionAdapterError (failure_code f))
        | Inr r \<Rightarrow>
            if rs_status r \<noteq> ''completed'' then Inl (DecisionAdapterError ''openai_incomplete'')
            else (case rs_parsed r of
                NoOutput \<Rightarrow> Inl (DecisionAdapterError ''openai_invalid_output'')
              | ParsedOutput out \<Rightarrow> Inr \<lparr>ar_output = JObj (output_dump out), ar_request_id = rs_id r,
                  ar_latency_ms = None\<rparr>
              | OtherOutput v \<Rightarrow> Inr \<lparr>ar_output = v, ar_request_id = rs_id r, ar_latency_ms = None\<rparr>))"

end
