(* ===== verification/DecisionAutomation.thy ===== *)
theory DecisionAutomation
  imports DecisionService
begin

section \<open>Automatic evaluation of scanner candidates\<close>

text \<open>
  \<^verbatim>\<open>app/decision/automation.py\<close>: after a scanner batch, or on request, a bounded number of
  stored candidates without an evaluation are evaluated, each failure on its own. The state holds the
  store of the decisions, the notifications sent and the last summary. The notifier is a parameter:
  what its \<^verbatim>\<open>notify\<close> returns or raises for a notification.
\<close>

subsection \<open>State and configuration\<close>

record notification =
  nt_level :: string
  nt_event :: string
  nt_message :: string
  nt_details :: "(string \<times> json) list"

text \<open>The attributes \<^verbatim>\<open>ok\<close> and \<^verbatim>\<open>skipped\<close> of the result.\<close>

record notify_result =
  nr_ok :: bool
  nr_skipped :: bool

record automation_summary =
  as_source :: string
  as_attempted :: nat
  as_created :: nat
  as_existing :: nat
  as_failed :: nat
  as_skipped :: nat
  as_skipped_reason :: "string option"
  as_notified :: nat
  as_truncated :: bool
  as_results :: "(string \<times> json) list list"

record 's automation =
  au_store :: 's
  au_notifications :: "notification list"
  au_last_summary :: "automation_summary option"

definition on_store :: "('s, 'a) prog \<Rightarrow> ('s automation, 'a) prog" where
  "on_store m = (\<lambda>a. case m (au_store a) of (r, s) \<Rightarrow> (r, a\<lparr>au_store := s\<rparr>))"

definition bounded_max :: "settings \<Rightarrow> int" where
  "bounded_max s = max 1 (min (market_ops_decision_auto_evaluate_max_signals s) 50)"

definition allowed_verdicts :: "string list" where
  "allowed_verdicts = [''ELIGIBLE'', ''WATCH'', ''REJECT'']"

definition notify_verdicts :: "settings \<Rightarrow> string list" where
  "notify_verdicts s =
     filter (\<lambda>v. v \<in> set (map (\<lambda>item. upper (strip item))
         (filter (\<lambda>item. strip item \<noteq> []) (split_char CHR '','' (market_ops_decision_notify_verdicts s)))))
       allowed_verdicts"

definition auto_skip_reason :: "settings \<Rightarrow> bool \<Rightarrow> int \<Rightarrow> string option" where
  "auto_skip_reason s dry_run candidate_count =
     (if \<not> market_ops_decision_auto_evaluate_enabled s then Some ''auto_evaluation_disabled''
      else if \<not> openai_decision_enabled s then Some ''decision_service_disabled''
      else if \<not> market_ops_decision_auto_evaluate_only_candidates s then Some ''candidate_only_required''
      else if dry_run then Some ''scanner_dry_run''
      else if candidate_count < 1 then Some ''no_candidates''
      else None)"

definition empty_summary :: "string \<Rightarrow> automation_summary" where
  "empty_summary reason =
     \<lparr>as_source = ''scanner_batch'', as_attempted = 0, as_created = 0, as_existing = 0, as_failed = 0,
      as_skipped = 1, as_skipped_reason = Some reason, as_notified = 0, as_truncated = False,
      as_results = []\<rparr>"

definition automation_summary_as_dict :: "automation_summary \<Rightarrow> (string \<times> json) list" where
  "automation_summary_as_dict m =
     [(''source'', JStr (as_source m)), (''attempted'', JInt (int (as_attempted m))),
      (''created'', JInt (int (as_created m))), (''existing'', JInt (int (as_existing m))),
      (''failed'', JInt (int (as_failed m))), (''skipped'', JInt (int (as_skipped m)))]
     @ (case as_skipped_reason m of None \<Rightarrow> [] | Some r \<Rightarrow> [(''skipped_reason'', JStr r)])
     @ [(''notified'', JInt (int (as_notified m))), (''truncated'', JBool (as_truncated m)),
        (''results'', JList (map JObj (as_results m)))]"

definition automation_status :: "settings \<Rightarrow> 's automation \<Rightarrow> (string \<times> json) list" where
  "automation_status s a =
     [(''enabled'', JBool (market_ops_decision_auto_evaluate_enabled s)),
      (''decision_enabled'', JBool (openai_decision_enabled s)),
      (''candidate_only'', JBool (market_ops_decision_auto_evaluate_only_candidates s)),
      (''max_signals'', JInt (bounded_max s)),
      (''evaluation_mode'', JStr (openai_decision_evaluation_mode s)),
      (''notify_enabled'', JBool (market_ops_decision_notify_enabled s)),
      (''notify_verdicts'', jstrs (sort (notify_verdicts s))),
      (''notify_include_reasons'', JBool (market_ops_decision_notify_include_reasons s)),
      (''notify_include_warnings'', JBool (market_ops_decision_notify_include_warnings s)),
      (''last_summary'', (case au_last_summary a of None \<Rightarrow> JNull | Some m \<Rightarrow> JObj (automation_summary_as_dict m))),
      (''paper_report_only'', JBool True), (''live_execution'', JBool False)]"

subsection \<open>Notifications\<close>

definition send :: "(notification \<Rightarrow> notify_result res) \<Rightarrow> notification \<Rightarrow> ('s automation, notify_result) prog"
  where
  "send notify n =
     bindS (modifyS (\<lambda>a. a\<lparr>au_notifications := au_notifications a @ [n]\<rparr>)) (\<lambda>_. liftS (notify n))"

definition verdict_events :: "(string \<times> string) list" where
  "verdict_events = [(''ELIGIBLE'', ''decision_candidate_eligible''),
     (''WATCH'', ''decision_candidate_watch''), (''REJECT'', ''decision_candidate_rejected'')]"

definition decision_event :: "bool \<Rightarrow> string \<Rightarrow> string res" where
  "decision_event failed verdict =
     (if failed then Inr ''decision_auto_evaluation_failed''
      else case map_of verdict_events verdict of None \<Rightarrow> Inl (KeyError verdict) | Some e \<Rightarrow> Inr e)"

definition decision_details :: "settings \<Rightarrow> persisted_decision \<Rightarrow> (string \<times> json) list" where
  "decision_details s p =
     [(''signal_id'', JInt (pd_signal_id p)), (''symbol'', JStr (pd_symbol p)),
      (''strategy'', JStr (pd_strategy p)),
      (''signal_time_ist'', JStr (ist_isoformat (pd_signal_time p))),
      (''verdict'', JStr (pd_verdict p)), (''confidence'', JFloat (pd_confidence p)),
      (''data_sufficiency'', JStr (pd_data_sufficiency p)), (''model_name'', JStr (pd_model_name p)),
      (''prompt_version'', JStr (pd_prompt_version p)), (''newly_created'', JBool True)]
     @ (if market_ops_decision_notify_include_reasons s
        then [(''reasons'', jstrs (take 2 (pd_reasons p)))] else [])
     @ (if market_ops_decision_notify_include_warnings s
        then [(''warnings'', jstrs (take 2 (pd_warnings p)))] else [])"

definition notify_decision ::
  "settings \<Rightarrow> (notification \<Rightarrow> notify_result res) \<Rightarrow> persisted_decision \<Rightarrow> ('s automation, bool) prog"
  where
  "notify_decision s notify p =
     (let failed = (pd_status p = ''FAILED'') in
      if \<not> market_ops_decision_notify_enabled s then retS False
      else if \<not> failed \<and> pd_verdict p \<notin> set (notify_verdicts s) then retS False
      else bindS (liftS (decision_event failed (pd_verdict p))) (\<lambda>event.
        bindS (send notify \<lparr>nt_level = (if failed \<or> pd_verdict p = ''ELIGIBLE'' then ''warning'' else ''info''),
            nt_event = event, nt_message = ''A scanner candidate received a new P07 shadow decision.'',
            nt_details = decision_details s p\<rparr>)
          (\<lambda>r. retS (nr_ok r \<and> \<not> nr_skipped r))))"

definition notify_failure ::
  "settings \<Rightarrow> (notification \<Rightarrow> notify_result res) \<Rightarrow> int \<Rightarrow> ('s automation, unit) prog" where
  "notify_failure s notify signal_id =
     whenS (market_ops_decision_notify_enabled s)
       (bindS (send notify \<lparr>nt_level = ''warning'', nt_event = ''decision_auto_evaluation_failed'',
            nt_message = ''Automatic P07 evaluation failed safely.'',
            nt_details = [(''signal_id'', JInt signal_id)]\<rparr>) (\<lambda>_. retS ()))"

subsection \<open>The loop\<close>

record evaluation_counts =
  ec_created :: nat
  ec_existing :: nat
  ec_failed :: nat
  ec_notified :: nat
  ec_results :: "(string \<times> json) list list"

definition no_evaluations :: evaluation_counts where
  "no_evaluations = \<lparr>ec_created = 0, ec_existing = 0, ec_failed = 0, ec_notified = 0, ec_results = []\<rparr>"

definition failed_result :: "int \<Rightarrow> (string \<times> json) list" where
  "failed_result signal_id =
     [(''signal_id'', JInt signal_id), (''status'', JStr ''FAILED''),
      (''error_code'', JStr ''decision_auto_evaluation_failed'')]"

definition evaluated_result :: "persisted_decision \<Rightarrow> (string \<times> json) list" where
  "evaluated_result p =
     [(''signal_id'', JInt (pd_signal_id p)), (''verdict'', JStr (pd_verdict p)),
      (''status'', JStr (pd_status p)), (''error_code'', jopt JStr (pd_error_code p)),
      (''existing'', JBool (pd_existing p))]"

definition count_decision ::
  "settings \<Rightarrow> (notification \<Rightarrow> notify_result res) \<Rightarrow> evaluation_counts \<Rightarrow> persisted_decision \<Rightarrow>
     ('s automation, evaluation_counts) prog" where
  "count_decision s notify c p =
     (if pd_existing p then retS (c\<lparr>ec_existing := Suc (ec_existing c)\<rparr>)
      else bindS (notify_decision s notify p) (\<lambda>sent.
        retS (c\<lparr>ec_created := Suc (ec_created c),
                ec_failed := (if pd_status p = ''FAILED'' then Suc (ec_failed c) else ec_failed c),
                ec_notified := (if sent then Suc (ec_notified c) else ec_notified c)\<rparr>)))"

text \<open>One pass of the loop: whatever exception the evaluation raises is counted as a failure.\<close>

definition evaluate_candidate ::
  "decision_env \<Rightarrow> 's decision_repository \<Rightarrow> (notification \<Rightarrow> notify_result res) \<Rightarrow> int \<Rightarrow>
     evaluation_counts \<Rightarrow> ('s automation, evaluation_counts) prog" where
  "evaluate_candidate env repo notify signal_id c =
     bindS (tryS (bindS (on_store (evaluate env repo signal_id False)) (\<lambda>p. retS (Some p)))
              (\<lambda>e. Some (retS None)))
       (\<lambda>outcome. case outcome of
          None \<Rightarrow> bindS (notify_failure (env_settings env) notify signal_id) (\<lambda>_.
            retS (c\<lparr>ec_failed := Suc (ec_failed c), ec_results := ec_results c @ [failed_result signal_id]\<rparr>))
        | Some p \<Rightarrow> bindS (count_decision (env_settings env) notify c p) (\<lambda>c'.
            retS (c'\<lparr>ec_results := ec_results c' @ [evaluated_result p]\<rparr>)))"

record candidate_options =
  co_limit :: int
  co_oldest_first :: bool
  co_source :: string
  co_started_at :: "instant option"
  co_finished_at :: "instant option"
  co_symbols :: "string list"

definition query_of :: "decision_identity \<Rightarrow> candidate_options \<Rightarrow> candidate_query" where
  "query_of ident opts =
     \<lparr>cq_adapter = id_adapter ident, cq_model_name = id_model_name ident,
      cq_prompt_version = id_prompt_version ident, cq_evaluation_mode = id_evaluation_mode ident,
      cq_limit = co_limit opts + 1, cq_started_at = co_started_at opts,
      cq_finished_at = co_finished_at opts, cq_symbols = co_symbols opts,
      cq_oldest_first = co_oldest_first opts\<rparr>"

definition summary_of :: "string \<Rightarrow> nat \<Rightarrow> bool \<Rightarrow> evaluation_counts \<Rightarrow> automation_summary" where
  "summary_of source attempted truncated c =
     \<lparr>as_source = source, as_attempted = attempted, as_created = ec_created c,
      as_existing = ec_existing c, as_failed = ec_failed c, as_skipped = 0, as_skipped_reason = None,
      as_notified = ec_notified c, as_truncated = truncated, as_results = ec_results c\<rparr>"

definition evaluate_candidates ::
  "decision_env \<Rightarrow> 's decision_repository \<Rightarrow> (notification \<Rightarrow> notify_result res) \<Rightarrow> candidate_options \<Rightarrow>
     ('s automation, automation_summary) prog" where
  "evaluate_candidates env repo notify opts =
     bindS (liftS (evaluation_identity (env_settings env))) (\<lambda>ident.
     bindS (\<lambda>a. (dr_list_unevaluated_candidate_ids repo (query_of ident opts) (au_store a), a)) (\<lambda>ids.
       let todo = slice_first (co_limit opts) ids
       in bindS (foldS (evaluate_candidate env repo notify) todo no_evaluations) (\<lambda>c.
            retS (summary_of (co_source opts) (length todo) (co_limit opts < int (length ids)) c))))"

definition remember :: "automation_summary \<Rightarrow> ('s automation, automation_summary) prog" where
  "remember m = bindS (modifyS (\<lambda>a. a\<lparr>au_last_summary := Some m\<rparr>)) (\<lambda>_. retS m)"

definition evaluate_scanner_batch ::
  "decision_env \<Rightarrow> 's decision_repository \<Rightarrow> (notification \<Rightarrow> notify_result res) \<Rightarrow> instant \<Rightarrow> instant \<Rightarrow>
     string list \<Rightarrow> bool \<Rightarrow> int \<Rightarrow> ('s automation, automation_summary) prog" where
  "evaluate_scanner_batch env repo notify start finish symbols dry_run candidate_count =
     (case auto_skip_reason (env_settings env) dry_run candidate_count of
        Some reason \<Rightarrow> remember (empty_summary reason)
      | None \<Rightarrow> bindS (evaluate_candidates env repo notify
            \<lparr>co_limit = bounded_max (env_settings env), co_oldest_first = True,
             co_source = ''scanner_batch'', co_started_at = Some start, co_finished_at = Some finish,
             co_symbols = symbols\<rparr>) remember)"

definition evaluate_latest ::
  "decision_env \<Rightarrow> 's decision_repository \<Rightarrow> (notification \<Rightarrow> notify_result res) \<Rightarrow> int \<Rightarrow>
     ('s automation, automation_summary) prog" where
  "evaluate_latest env repo notify requested =
     (if \<not> openai_decision_enabled (env_settings env)
      then raiseS (DecisionDisabledError ''OpenAI decision evaluation is disabled.'')
      else bindS (evaluate_candidates env repo notify
            \<lparr>co_limit = min (max 1 requested) (bounded_max (env_settings env)), co_oldest_first = False,
             co_source = ''manual_latest'', co_started_at = None, co_finished_at = None, co_symbols = []\<rparr>)
        remember)"

subsection \<open>Facts\<close>

lemma bounded_max_range: "1 \<le> bounded_max s \<and> bounded_max s \<le> 50"
  by (simp add: bounded_max_def)

lemma on_store_apply: "on_store m a = (fst (m (au_store a)), a\<lparr>au_store := snd (m (au_store a))\<rparr>)"
  by (simp add: on_store_def split: prod.splits)

text \<open>With a notifier that does not raise, one pass of the loop returns and counts the signal once.\<close>

definition counted :: "nat \<Rightarrow> evaluation_counts \<Rightarrow> bool" where
  "counted n c \<longleftrightarrow> length (ec_results c) = n \<and> ec_created c + ec_existing c \<le> n \<and>
     n \<le> ec_created c + ec_existing c + ec_failed c \<and> ec_notified c \<le> ec_created c \<and> ec_failed c \<le> n"

end
