(* ===== verification/DecisionExamples.thy ===== *)
theory DecisionExamples
  imports DecisionService PaperExamples
begin

section \<open>Properties of the decision service\<close>

text \<open>
  What a recorded decision guarantees: an eligible verdict passed every screen, a signal is evaluated
  once per identity even when two workers race, every adapter failure becomes a recorded rejection,
  and what is stored of the raw output has no prohibited key. Each property is followed by an instance.
\<close>

subsection \<open>Screens and evaluation by cases\<close>

definition screens_passed ::
  "decision_env \<Rightarrow> decision_signal \<Rightarrow> decision_input \<Rightarrow> json \<Rightarrow> decision_output \<Rightarrow> bool" where
  "screens_passed env sig i raw out \<longleftrightarrow>
     find_prohibited_key raw = None \<and>
     \<not> contains_secret_value (configured_secrets (env_settings env)) raw \<and>
     \<not> external_fact (dumps_default (env_num_repr env) raw) \<and>
     (\<exists>kvs. raw = JObj kvs \<and> validate_output_schema (env_coerce env) kvs = Some out) \<and>
     do_strategy_template out \<in> set p05_strategies \<and>
     do_strategy_template out = ds_strategy_name sig \<and>
     do_data_sufficiency out = SUFFICIENT \<and>
     openai_decision_min_confidence (env_settings env) \<le> do_confidence out \<and>
     (di_evaluation_mode i \<noteq> HISTORICAL_REPLAY \<longrightarrow> eligibility_context_warnings i = [])"

lemma mapping_of_Some: "mapping_of v = Some kvs \<longleftrightarrow> v = JObj kvs"
  by (cases v) auto

lemma screen_eligible:
  assumes "screen_output s sig i out = Inr (out', code)" "do_verdict out' = ELIGIBLE"
  shows "out' = out \<and> code = None \<and> do_strategy_template out \<in> set p05_strategies \<and>
     do_strategy_template out = ds_strategy_name sig \<and> do_data_sufficiency out = SUFFICIENT \<and>
     openai_decision_min_confidence s \<le> do_confidence out \<and>
     (di_evaluation_mode i \<noteq> HISTORICAL_REPLAY \<longrightarrow> eligibility_context_warnings i = [])"
  using assms unfolding screen_output_def
  by (cases "di_evaluation_mode i"; cases "do_data_sufficiency out")
    (auto simp: rejected_def safe_reject_def shadow_watch_def Let_def not_less bindE_eq_Inr split: if_splits)

lemma validated_eligible:
  assumes "validate_output env raw sig i (configured_secrets (env_settings env)) = Inr (out, code)"
    and "do_verdict out = ELIGIBLE"
  shows "screens_passed env sig i raw out \<and> code = None"
proof -
  have rej: "do_verdict (safe_reject sig c) \<noteq> ELIGIBLE" for c by (simp add: safe_reject_def)
  obtain kvs out0 where "raw = JObj kvs" "find_prohibited_key raw = None"
    "\<not> contains_secret_value (configured_secrets (env_settings env)) raw"
    "\<not> external_fact (dumps_default (env_num_repr env) raw)"
    "validate_output_schema (env_coerce env) kvs = Some out0"
    "screen_output (env_settings env) sig i out0 = Inr (out, code)"
    using assms rej unfolding validate_output_def
    by (auto simp: rejected_def mapping_of_Some split: option.splits if_splits)
  moreover from screen_eligible [OF this(6) assms(2)] this have "out = out0" by blast
  ultimately show ?thesis using screen_eligible [OF _ assms(2)] unfolding screens_passed_def by blast
qed

lemma attempt_cases:
  assumes "attempt env sig = Inr a"
  obtains (tried) i r where "build_input env sig = Inr i" "env_adapter env i = Inr r"
      "validate_output env (ar_output r) sig i (configured_secrets (env_settings env)) =
         Inr (at_output a, at_error_code a)"
      "at_output_payload a = sanitize_raw_output (configured_secrets (env_settings env)) (ar_output r)"
      "at_input_payload a = input_dump i"
  | (failed) mode code where "try_attempt env sig = Inl (DecisionAdapterError code)"
      "evaluation_mode (env_settings env) = Inr mode" "a = failed_attempt sig mode code"
proof (cases "try_attempt env sig")
  case (Inl e)
  with assms show thesis
    by (cases e) (auto simp: attempt_def bindE_eq_Inr intro: failed)
next
  case (Inr b)
  with assms have "a = b" by (simp add: attempt_def)
  with Inr show thesis
    by (auto simp: try_attempt_def bindE_eq_Inr Let_def intro: tried)
qed

text \<open>What an evaluation does, by cases.\<close>

lemma evaluate_Inr:
  assumes "evaluate env repo i force st = (Inr p, st')"
  obtains (found) sig ident where "dr_load_signal repo i st = Some sig"
      "ds_signal_status sig = candidate_status" "openai_decision_enabled (env_settings env)"
      "evaluation_identity (env_settings env) = Inr ident" "\<not> force"
      "dr_find_by_evaluation_key repo (identity_key env sig ident) st = Some p" "st' = st"
  | (recorded) sig ident a where "dr_load_signal repo i st = Some sig"
      "ds_signal_status sig = candidate_status" "openai_decision_enabled (env_settings env)"
      "evaluation_identity (env_settings env) = Inr ident"
      "force \<or> dr_find_by_evaluation_key repo (identity_key env sig ident) st = None"
      "attempt env sig = Inr a"
      "dr_record repo (entry_of_attempt env sig ident (identity_key env sig ident) force a) st = (Inr p, st')"
proof -
  obtain sig ident where *: "dr_load_signal repo i st = Some sig"
      "ds_signal_status sig = candidate_status" "openai_decision_enabled (env_settings env)"
      "evaluation_identity (env_settings env) = Inr ident"
      "evaluate_locked env repo sig ident (identity_key env sig ident) force st = (Inr p, st')"
    using assms by (auto simp: evaluate_def bindS_Inr_iff eligible_signal_def split: option.splits if_splits)
  show thesis
  proof (cases "\<not> force \<and> dr_find_by_evaluation_key repo (identity_key env sig ident) st \<noteq> None")
    case True
    with *(5) have "dr_find_by_evaluation_key repo (identity_key env sig ident) st = Some p" "st' = st"
      by (auto simp: evaluate_locked_def bindS_def)
    with * True show thesis by (intro found) auto
  next
    case False
    with *(5) obtain a where "attempt env sig = Inr a"
      "dr_record repo (entry_of_attempt env sig ident (identity_key env sig ident) force a) st = (Inr p, st')"
      by (auto simp: evaluate_locked_def bindS_def split: bool.splits option.splits sum.splits)
    with * False show thesis by (intro recorded) auto
  qed
qed

subsection \<open>Clients of the store\<close>

definition entry_for :: "decision_env \<Rightarrow> decision_signal \<Rightarrow> decision_identity \<Rightarrow> bool \<Rightarrow> decision_attempt \<Rightarrow> decision_entry"
  where "entry_for env sig ident force a = entry_of_attempt env sig ident (identity_key env sig ident) force a"

lemma entry_for_fields [simp]:
  "de_signal (entry_for env sig ident force a) = sig"
  "de_output (entry_for env sig ident force a) = at_output a"
  "de_output_payload (entry_for env sig ident force a) = at_output_payload a"
  "de_error_code (entry_for env sig ident force a) = at_error_code a"
  "de_evaluation_key (entry_for env sig ident force a) =
     (if force then None else Some (identity_key env sig ident))"
  by (simp_all add: entry_for_def entry_of_attempt_def)

lemma entry_for_status:
  "de_status (entry_for env sig ident force a) =
     (if at_error_code a = None \<or> at_error_code a = Some [] then ''COMPLETED'' else ''FAILED'')"
  by (auto simp: entry_for_def entry_of_attempt_def)

text \<open>The guards passed and nothing cached: the evaluation is one call of \<^verbatim>\<open>record\<close>.\<close>

lemma evaluate_records:
  assumes "dr_load_signal repo i st = Some sig" "ds_signal_status sig = candidate_status"
    and "openai_decision_enabled (env_settings env)"
    and "evaluation_identity (env_settings env) = Inr ident"
    and "force \<or> dr_find_by_evaluation_key repo (identity_key env sig ident) st = None"
    and "attempt env sig = Inr a"
  shows "evaluate env repo i force st = dr_record repo (entry_for env sig ident force a) st"
  using assms
  by (cases force) (auto simp: evaluate_def eligible_signal_def evaluate_locked_def entry_for_def bindS_def)

lemma evaluate_cached:
  assumes "dr_load_signal repo i st = Some sig" "ds_signal_status sig = candidate_status"
    and "openai_decision_enabled (env_settings env)"
    and "evaluation_identity (env_settings env) = Inr ident"
    and "dr_find_by_evaluation_key repo (identity_key env sig ident) st = Some p"
  shows "evaluate env repo i False st = (Inr p, st)"
  using assms by (simp add: evaluate_def eligible_signal_def evaluate_locked_def bindS_def)

context decision_store
begin

lemma fresh_record:
  assumes "ok st" "dr_load_signal repo i st = Some sig" "de_signal e = sig"
    and "\<And>k. de_evaluation_key e = Some k \<Longrightarrow> dr_find_by_evaluation_key repo k st = None"
  shows "\<exists>p st'. dr_record repo e st = (Inr p, st') \<and> \<not> pd_existing p \<and> decision_of_entry e p"
proof -
  obtain p st' where r: "dr_record repo e st = (Inr p, st')"
    using record_total [of st i e] assms(1-3) by blast
  have "\<not> pd_existing p"
  proof
    assume "pd_existing p"
    then obtain k' where "de_evaluation_key e = Some k'" "dr_find_by_evaluation_key repo k' st = Some p"
      using record_existing_kept [OF assms(1) r] by blast
    with assms(4) show False by simp
  qed
  with r record_new [OF assms(1) r] show ?thesis by blast
qed

lemma evaluate_ok: "ok st \<Longrightarrow> evaluate env repo i force st = (r, st') \<Longrightarrow> ok st'"
  by (auto simp: evaluate_def evaluate_locked_def bindS_def dest: record_ok
      split: sum.splits bool.splits option.splits)

lemma evaluate_again:
  assumes ok: "ok st" and ev: "evaluate env repo i False st = (Inr p, st1)"
    and same: "env_settings env' = env_settings env" "env_digest env' = env_digest env"
  shows "evaluate env' repo i False st1 = (Inr (existing_copy p), st1)"
  using ev
proof (cases rule: evaluate_Inr)
  case (found sig ident)
  then have "pd_existing p" by (auto dest: find_existing)
  then have "existing_copy p = p" by (simp add: existing_copy_def)
  with found same show ?thesis by (auto intro!: evaluate_cached simp: identity_key_def)
next
  case (recorded sig ident a)
  then have r: "dr_record repo (entry_for env sig ident False a) st = (Inr p, st1)"
    by (simp add: entry_for_def)
  have "dr_find_by_evaluation_key repo (identity_key env' sig ident) st1 = Some (existing_copy p)"
    using record_find [OF ok r] same by (simp add: identity_key_def)
  moreover have "dr_load_signal repo i st1 = Some sig" using record_load [OF ok r] recorded by simp
  ultimately show ?thesis using recorded same by (intro evaluate_cached) simp_all
qed

lemma evaluate_new:
  assumes "ok st" "evaluate env repo i force st = (Inr p, st')" "\<not> pd_existing p"
  obtains sig ident a where "dr_load_signal repo i st = Some sig" "ds_signal_status sig = candidate_status"
    "attempt env sig = Inr a" "decision_of_entry (entry_for env sig ident force a) p"
    "dr_record repo (entry_for env sig ident force a) st = (Inr p, st')"
  using assms(2)
proof (cases rule: evaluate_Inr)
  case (found sig ident)
  then show thesis using assms(3) find_existing by blast
next
  case (recorded sig ident a)
  then have r: "dr_record repo (entry_for env sig ident force a) st = (Inr p, st')"
    by (simp add: entry_for_def)
  from recorded r record_new [OF assms(1) r assms(3)] show thesis by (intro that) simp_all
qed

end


subsection \<open>Racing workers\<close>

lemma find_not_recordable:
  assumes "dsql_find_by_evaluation_key k d = Some p" "de_evaluation_key e = Some k"
  shows "\<not> recordable e d"
proof
  assume "recordable e d"
  with assms(2) have "filter (\<lambda>j. rr_evaluation_key (rj_recommendation j) = Some k) (recommendation_query d) = []"
    by (intro dsql_find_none) (simp add: recordable_def)
  with assms(1) show False by (simp add: dsql_find_by_evaluation_key_def first_row_def)
qed

lemma record_keeps_found:
  assumes "decisions_ok d" "dsql_record e d = (r, d')" "dsql_find_by_evaluation_key k d = Some p"
  shows "dsql_find_by_evaluation_key k d' = Some p"
proof (cases "de_evaluation_key e = Some k")
  case True
  with assms(3) have "\<not> recordable e d" by (rule find_not_recordable)
  with assms show ?thesis by (simp add: dsql_record_old existing_or_raise_def)
qed (use assms in \<open>simp add: find_kept\<close>)

lemma records_keep_found:
  assumes "mapS dsql_record es d = (r, d')" "decisions_ok d" "dsql_find_by_evaluation_key k d = Some p"
  shows "decisions_ok d' \<and> dsql_find_by_evaluation_key k d' = Some p"
proof -
  have "keeps (\<lambda>d. decisions_ok d \<and> dsql_find_by_evaluation_key k d = Some p) (mapS dsql_record es)"
  proof (rule keeps_map, rule keepsI)
    fix e d r d'
    assume *: "decisions_ok d \<and> dsql_find_by_evaluation_key k d = Some p" "dsql_record e d = (r, d')"
    then have "decisions_ok d'" using sql_decisions.record_ok [of d e r d'] by simp
    moreover have "dsql_find_by_evaluation_key k d' = Some p"
      using * by (intro record_keeps_found [of d e r d' k p]) simp_all
    ultimately show "decisions_ok d' \<and> dsql_find_by_evaluation_key k d' = Some p" by simp
  qed
  from keepsD [OF this _ assms(1)] assms(2,3) show ?thesis by simp
qed

subsection \<open>What is stored of the raw output\<close>

lemma prohibited_obj_iff:
  "find_prohibited_key (JObj kvs) = None \<longleftrightarrow>
     (\<forall>kv \<in> set kvs. \<not> prohibited_key (fst kv) \<and> find_prohibited_key (snd kv) = None)"
proof (induction kvs)
  case (Cons kv kvs)
  obtain k v where "kv = (k, v)" by force
  with Cons show ?case by (cases "find_prohibited_key v") (auto split: if_splits)
qed simp

lemma prohibited_list_iff:
  "find_prohibited_key (JList vs) = None \<longleftrightarrow> (\<forall>v \<in> set vs. find_prohibited_key v = None)"
  by (induction vs) (auto split: option.splits)

lemma sanitized_clean: "find_prohibited_key (sanitize_mapping secrets v) = None"
proof (induction secrets v rule: sanitize_mapping.induct)
  case (1 secrets kvs)
  then show ?case by (auto simp: prohibited_obj_iff)
next
  case (2 secrets vs)
  then show ?case by (auto simp: prohibited_list_iff)
qed simp_all

lemma sanitized_output_clean: "find_prohibited_key (JObj (sanitize_raw_output secrets v)) = None"
proof -
  have "find_prohibited_key (JObj [(''diagnostic'', JStr ''non_object_output'')]) = None" by code_simp
  then show ?thesis using sanitized_clean [of secrets v]
    by (auto simp: sanitize_raw_output_def split: json.splits)
qed

lemma attempt_payload_clean:
  assumes "attempt env sig = Inr a"
  shows "find_prohibited_key (JObj (at_output_payload a)) = None"
  using assms
proof (cases rule: attempt_cases)
  case (failed mode code)
  have "\<not> prohibited_key ''error_code''" by code_simp
  with failed show ?thesis by (simp add: failed_attempt_def)
qed (simp add: sanitized_output_clean)

subsection \<open>An instance\<close>

definition demo_model_output :: json where
  "demo_model_output = JObj
     [(''verdict'', JStr ''ELIGIBLE''), (''strategy_template'', JStr orb_name),
      (''confidence'', JFloat (4 / 5)), (''reasons'', JList [JStr ''breakout above range'']),
      (''recommended_stop_method'', JNull), (''data_sufficiency'', JStr ''SUFFICIENT'')]"

fun demo_coerce :: "json \<Rightarrow> rat option" where
  "demo_coerce (JFloat q) = Some q"
| "demo_coerce (JInt i) = Some (of_int i)"
| "demo_coerce v = None"

definition demo_env :: "(decision_input \<Rightarrow> adapter_result res) \<Rightarrow> decision_env" where
  "demo_env adapter =
     \<lparr>env_settings = default_settings\<lparr>openai_decision_enabled := True,
        openai_decision_evaluation_mode := ''HISTORICAL_REPLAY'',
        market_ops_decision_auto_evaluate_enabled := True\<rparr>,
      env_adapter = adapter, env_coerce = demo_coerce, env_num_repr = (\<lambda>q. ''0.8''),
      env_str_repr = (\<lambda>v. ''1.0''), env_digest = (\<lambda>s. ''digest''), env_elapsed_ms = 3\<rparr>"

lemma demo_env_fields [simp]:
  "env_adapter (demo_env a) = a" "env_coerce (demo_env a) = demo_coerce"
  "env_num_repr (demo_env a) = (\<lambda>q. ''0.8'')" "env_digest (demo_env a) = (\<lambda>s. ''digest'')"
  by (simp_all add: demo_env_def)

definition demo_adapter :: "decision_input \<Rightarrow> adapter_result res" where
  "demo_adapter i = Inr \<lparr>ar_output = demo_model_output, ar_request_id = None, ar_latency_ms = None\<rparr>"

definition demo_decision_signal :: decision_signal where
  "demo_decision_signal = decision_signal_from_row (demo_signal_row, demo_instrument)"

lemma demo_load: "dsql_load_signal 1 demo_database = Some demo_decision_signal"
  by (simp add: dsql_load_signal_def demo_database_def demo_signal_row_def join_instrument_def
      demo_instrument_def demo_decision_signal_def first_row_def)

lemma demo_status: "ds_signal_status demo_decision_signal = candidate_status"
  by (simp add: demo_decision_signal_def decision_signal_from_row_def demo_signal_row_def)

lemma demo_enabled: "openai_decision_enabled (env_settings (demo_env a))"
  by (simp add: demo_env_def)

lemma demo_mode: "evaluation_mode (env_settings (demo_env a)) = Inr HISTORICAL_REPLAY"
proof -
  have "evaluation_mode_of (upper (strip ''HISTORICAL_REPLAY'')) = Some HISTORICAL_REPLAY" by code_simp
  then show ?thesis by (simp add: evaluation_mode_def demo_env_def)
qed

definition demo_identity :: decision_identity where
  "demo_identity = \<lparr>id_adapter = ''fake'', id_model_name = ''fake'', id_prompt_version = ''p07_1_v1'',
     id_evaluation_mode = ''HISTORICAL_REPLAY''\<rparr>"

lemma demo_evaluation_identity: "evaluation_identity (env_settings (demo_env a)) = Inr demo_identity"
proof -
  have "lower (strip ''fake'') = ''fake''" by code_simp
  then have "adapter_name (env_settings (demo_env a)) = Inr ''fake''"
    by (simp add: adapter_name_def demo_env_def default_settings_def)
  then show ?thesis
    by (simp add: evaluation_identity_def demo_mode demo_identity_def)
      (simp add: model_name_def demo_env_def default_settings_def)
qed

lemma demo_empty: "dsql_find_by_evaluation_key k demo_database = None"
  by (simp add: dsql_find_by_evaluation_key_def recommendation_query_def demo_database_def first_row_def)

lemma demo_ok: "decisions_ok demo_database"
  by (simp add: decisions_ok_def keyed_def demo_database_def demo_signal_row_def demo_instrument_def
      List.map_filter_simps)

lemma demo_input_ex: "\<exists>i. build_input (demo_env a) demo_decision_signal = Inr i \<and> di_evaluation_mode i = HISTORICAL_REPLAY"
proof -
  have "ds_features demo_decision_signal =
      [(''signal_status'', JStr candidate_status), (''veto_reasons'', JList []),
       (''indicator_values'', JObj []), (''data_quality'', JObj [])]"
    by (simp add: demo_decision_signal_def decision_signal_from_row_def demo_signal_row_def)
  moreover have "input_valid (decision_input_of (demo_env a) demo_decision_signal HISTORICAL_REPLAY [] [] [])"
  proof -
    have "evaluation_context_warnings [] [] = [''quote_fresh_missing'', ''spread_data_missing'']" by code_simp
    then show ?thesis
      by (simp add: input_valid_def decision_input_of_def Let_def demo_env_def default_settings_def
          demo_decision_signal_def decision_signal_from_row_def demo_signal_row_def)
  qed
  ultimately show ?thesis
    by (simp add: build_input_def optional_field_def demo_mode Let_def) (simp add: decision_input_of_def Let_def)
qed

definition demo_output :: decision_output where
  "demo_output = \<lparr>do_verdict = ELIGIBLE, do_strategy_template = orb_name, do_confidence = 4 / 5,
     do_reasons = [''breakout above range''], do_warnings = [], do_stop_method = None,
     do_target_r_multiple = None, do_data_sufficiency = SUFFICIENT\<rparr>"

lemma demo_schema:
  "\<exists>kvs. demo_model_output = JObj kvs \<and> validate_output_schema demo_coerce kvs = Some demo_output"
proof -
  have "Option.bind (mapping_of demo_model_output) (validate_output_schema demo_coerce) = Some demo_output"
    by code_simp
  then show ?thesis by (auto simp: bind_eq_Some_conv mapping_of_Some)
qed

lemma demo_attempt:
  "\<exists>a. attempt (demo_env demo_adapter) demo_decision_signal = Inr a \<and> do_verdict (at_output a) = ELIGIBLE
     \<and> at_error_code a = None"
proof -
  let ?env = "demo_env demo_adapter"
  obtain i where i: "build_input ?env demo_decision_signal = Inr i" "di_evaluation_mode i = HISTORICAL_REPLAY"
    using demo_input_ex by blast
  obtain kvs where kvs: "demo_model_output = JObj kvs" "validate_output_schema demo_coerce kvs = Some demo_output"
    using demo_schema by blast
  have "ds_strategy_name demo_decision_signal = orb_name"
    by (simp add: demo_decision_signal_def decision_signal_from_row_def demo_signal_row_def)
  with i(2) have scr: "screen_output (env_settings ?env) demo_decision_signal i demo_output = Inr (demo_output, None)"
    by (simp add: screen_output_def demo_output_def p05_strategies_def demo_env_def default_settings_def)
  have "find_prohibited_key demo_model_output = None
      \<and> \<not> external_fact (dumps_default (\<lambda>q. ''0.8'') demo_model_output)" by code_simp
  moreover have "\<not> contains_secret_value (configured_secrets (env_settings ?env)) demo_model_output"
    by code_simp
  moreover have "mapping_of demo_model_output = Some kvs" by (simp add: mapping_of_Some kvs)
  ultimately have "validate_output ?env demo_model_output demo_decision_signal i
      (configured_secrets (env_settings ?env)) = Inr (demo_output, None)"
    using kvs(2) scr by (simp add: validate_output_def)
  with i(1) show ?thesis
    by (auto simp: attempt_def demo_output_def try_attempt_def demo_adapter_def Let_def)
qed
lemma demo_records:
  "\<exists>p d. evaluate (demo_env demo_adapter) decision_sql_repository 1 False demo_database = (Inr p, d)
     \<and> \<not> pd_existing p \<and> pd_verdict p = ''ELIGIBLE''"
proof -
  obtain a where a: "attempt (demo_env demo_adapter) demo_decision_signal = Inr a" "do_verdict (at_output a) = ELIGIBLE"
    using demo_attempt by blast
  let ?e = "entry_for (demo_env demo_adapter) demo_decision_signal demo_identity False a"
  have "evaluate (demo_env demo_adapter) decision_sql_repository 1 False demo_database =
      dr_record decision_sql_repository ?e demo_database"
    by (rule evaluate_records) (use a in \<open>simp_all add: demo_load demo_status demo_enabled
        demo_evaluation_identity demo_empty\<close>)
  moreover have "\<exists>p d. dr_record decision_sql_repository ?e demo_database = (Inr p, d)
      \<and> \<not> pd_existing p \<and> decision_of_entry ?e p"
    by (rule sql_decisions.fresh_record [where i = 1, OF demo_ok]) (simp_all add: demo_load demo_empty)
  ultimately show ?thesis using a(2) by (auto simp: decision_of_entry_def)
qed

subsection \<open>Properties\<close>

text \<open>C16: an eligible verdict is earned. When an evaluation records a new decision with the verdict
ELIGIBLE, the signal is a stored CANDIDATE, the adapter answered on its canonical input, and the
answer passed every screen: an object without prohibited keys, configured secrets or claims about
external facts that matches the schema, names the strategy of the signal, calls its data sufficient,
reaches the minimum confidence and, outside a historical replay, has no missing live context.\<close>

theorem eligible_decision_screened:
  assumes "decisions_ok d"
    and "evaluate env decision_sql_repository i force d = (Inr p, d')"
    and "\<not> pd_existing p" and "pd_verdict p = ''ELIGIBLE''"
  shows "\<exists>sig inp r out. dsql_load_signal i d = Some sig \<and> ds_signal_status sig = candidate_status \<and>
     build_input env sig = Inr inp \<and> env_adapter env inp = Inr r \<and>
     screens_passed env sig inp (ar_output r) out \<and> pd_reasons p = do_reasons out \<and>
     pd_status p = ''COMPLETED'' \<and> pd_signal_id p = ds_id sig"
proof -
  obtain sig ident a where sig: "dsql_load_signal i d = Some sig" "ds_signal_status sig = candidate_status"
    and a: "attempt env sig = Inr a" and p: "decision_of_entry (entry_for env sig ident force a) p"
    by (rule sql_decisions.evaluate_new [OF assms(1-3)]) simp
  have el: "do_verdict (at_output a) = ELIGIBLE"
    using p assms(4) by (cases "do_verdict (at_output a)") (simp_all add: decision_of_entry_def)
  from a show ?thesis
  proof (cases rule: attempt_cases)
    case (tried inp r)
    from validated_eligible [OF tried(3) el] sig tried p show ?thesis
      by (intro exI [of _ sig] exI [of _ inp] exI [of _ r] exI [of _ "at_output a"])
        (simp add: decision_of_entry_def entry_for_status)
  next
    case (failed mode code)
    with el show ?thesis by (simp add: failed_attempt_def safe_reject_def)
  qed
qed

lemma eligible_decision_screened_witness:
  "\<exists>p d sig inp r out. evaluate (demo_env demo_adapter) decision_sql_repository 1 False demo_database = (Inr p, d)
     \<and> dsql_load_signal 1 demo_database = Some sig
     \<and> build_input (demo_env demo_adapter) sig = Inr inp \<and> demo_adapter inp = Inr r
     \<and> screens_passed (demo_env demo_adapter) sig inp (ar_output r) out \<and> pd_status p = ''COMPLETED''"
proof -
  obtain p d where *: "evaluate (demo_env demo_adapter) decision_sql_repository 1 False demo_database = (Inr p, d)"
    "\<not> pd_existing p" "pd_verdict p = ''ELIGIBLE''" using demo_records by blast
  show ?thesis using eligible_decision_screened [OF demo_ok *] * by auto
qed

text \<open>C18: a signal is evaluated once per identity. When an evaluation that is not forced has
returned a decision, the next one with the same settings returns the same decision, marked as
existing, and leaves every table as it is, whatever its adapter would answer now.\<close>

theorem evaluation_is_cached:
  assumes "decisions_ok d" and "evaluate env decision_sql_repository i False d = (Inr p, d')"
    and "env_settings env' = env_settings env" and "env_digest env' = env_digest env"
  shows "evaluate env' decision_sql_repository i False d' = (Inr (p\<lparr>pd_existing := True\<rparr>), d')"
  using sql_decisions.evaluate_again [OF assms] by (simp add: existing_copy_def)

lemma evaluation_is_cached_witness:
  "\<exists>p d. evaluate (demo_env demo_adapter) decision_sql_repository 1 False demo_database = (Inr p, d) \<and>
     evaluate (demo_env (\<lambda>i. Inl ValidationError)) decision_sql_repository 1 False d =
       (Inr (p\<lparr>pd_existing := True\<rparr>), d)"
proof -
  obtain p d where *: "evaluate (demo_env demo_adapter) decision_sql_repository 1 False demo_database = (Inr p, d)"
    using demo_records by blast
  show ?thesis
    using evaluation_is_cached [OF demo_ok *, of "demo_env (\<lambda>i. Inl ValidationError)"] *
    by (auto simp: demo_env_def)
qed

definition demo_entry :: "string option \<Rightarrow> decision_entry" where
  "demo_entry key = (entry_for (demo_env demo_adapter) demo_decision_signal demo_identity False
     (failed_attempt demo_decision_signal HISTORICAL_REPLAY ''openai_timeout''))\<lparr>de_evaluation_key := key\<rparr>"

lemma demo_entry_record:
  assumes "decisions_ok d" "dsql_load_signal 1 d = Some demo_decision_signal"
  shows "\<exists>p d'. dsql_record (demo_entry key) d = (Inr p, d') \<and> decisions_ok d' \<and>
     dsql_load_signal 1 d' = Some demo_decision_signal"
proof -
  have "de_signal (demo_entry key) = demo_decision_signal" by (simp add: demo_entry_def)
  then obtain p d' where r: "dsql_record (demo_entry key) d = (Inr p, d')"
    using sql_decisions.record_total [of d 1 "demo_entry key"] assms by auto
  with sql_decisions.record_ok [of d "demo_entry key" "Inr p" d'] assms
    sql_decisions.record_load [of d "demo_entry key" "Inr p" d' 1] show ?thesis by auto
qed


text \<open>failures are recorded, not lost. When the adapter (or the building of the canonical input)
fails with a decision error, a first evaluation of a candidate still succeeds: it records a rejection
with the error code as its only reason and the status FAILED.\<close>

theorem adapter_failure_recorded:
  assumes "decisions_ok d" and "dsql_load_signal i d = Some sig"
    and "ds_signal_status sig = candidate_status" and "openai_decision_enabled (env_settings env)"
    and "evaluation_identity (env_settings env) = Inr ident"
    and "dsql_find_by_evaluation_key (identity_key env sig ident) d = None"
    and "build_input env sig = Inr inp" and "env_adapter env inp = Inl (DecisionAdapterError code)"
    and "code \<noteq> []"
  shows "\<exists>p d'. evaluate env decision_sql_repository i force d = (Inr p, d') \<and>
     pd_verdict p = ''REJECT'' \<and> pd_status p = ''FAILED'' \<and> pd_error_code p = Some code \<and>
     pd_reasons p = [code] \<and> pd_signal_id p = ds_id sig \<and> \<not> pd_existing p"
proof -
  obtain mode where mode: "evaluation_mode (env_settings env) = Inr mode"
    using assms(5) by (auto simp: evaluation_identity_def bindE_eq_Inr)
  have "try_attempt env sig = Inl (DecisionAdapterError code)"
    using assms(7,8) by (simp add: try_attempt_def)
  with mode have a: "attempt env sig = Inr (failed_attempt sig mode code)" by (simp add: attempt_def)
  let ?e = "entry_for env sig ident force (failed_attempt sig mode code)"
  have "evaluate env decision_sql_repository i force d = dr_record decision_sql_repository ?e d"
    using assms(2-6) a by (intro evaluate_records) simp_all
  moreover have "\<exists>p d'. dr_record decision_sql_repository ?e d = (Inr p, d') \<and> \<not> pd_existing p
      \<and> decision_of_entry ?e p"
    using assms(2,6) by (intro sql_decisions.fresh_record [where i = i, OF assms(1)]) (auto split: if_splits)
  ultimately show ?thesis using assms(9)
    by (auto simp: decision_of_entry_def entry_for_status failed_attempt_def safe_reject_def)
qed

lemma adapter_failure_recorded_witness:
  "\<exists>p d. evaluate (demo_env (\<lambda>i. Inl (DecisionAdapterError ''openai_timeout''))) decision_sql_repository
       1 False demo_database = (Inr p, d) \<and> pd_verdict p = ''REJECT'' \<and> pd_reasons p = [''openai_timeout'']"
proof -
  let ?env = "demo_env (\<lambda>i. Inl (DecisionAdapterError ''openai_timeout''))"
  obtain inp where "build_input ?env demo_decision_signal = Inr inp" using demo_input_ex by blast
  from adapter_failure_recorded [OF demo_ok demo_load demo_status demo_enabled demo_evaluation_identity
      demo_empty this, of "''openai_timeout''" False]
  show ?thesis by auto
qed

text \<open>C36: what is kept of the raw output is sanitised. Every model run that an evaluation adds to the
table stores a payload in which no key, at any depth, contains a prohibited fragment (quantity, order,
broker, secret, ...), whatever the adapter returned.\<close>

theorem stored_output_is_sanitised:
  assumes "decisions_ok d" and "evaluate env decision_sql_repository i force d = (Inr p, d')"
    and "m \<in> set (db_model_runs d')" and "m \<notin> set (db_model_runs d)"
  shows "find_prohibited_key (JObj (mr_output_payload m)) = None"
  using assms(2)
proof (cases rule: evaluate_Inr)
  case (found sig ident)
  with assms(3,4) show ?thesis by simp
next
  case (recorded sig ident a)
  let ?e = "entry_for env sig ident force a"
  have r: "dsql_record ?e d = (Inr p, d')" using recorded(7) by (simp add: entry_for_def)
  from assms(1) r have "m = recorded_run ?e d"
    by (cases rule: dsql_record_cases) (use assms(3,4) in \<open>auto simp: recorded_database_def\<close>)
  then show ?thesis using attempt_payload_clean [OF recorded(6)]
    by (simp add: recorded_run_def model_run_values_def)
qed

lemma stored_output_is_sanitised_witness:
  "\<exists>p d m. evaluate (demo_env demo_adapter) decision_sql_repository 1 False demo_database = (Inr p, d) \<and>
     m \<in> set (db_model_runs d) \<and> find_prohibited_key (JObj (mr_output_payload m)) = None"
proof -
  obtain p d where e: "evaluate (demo_env demo_adapter) decision_sql_repository 1 False demo_database = (Inr p, d)"
    "\<not> pd_existing p" using demo_records by blast
  then obtain sig ident a where "dr_record decision_sql_repository
      (entry_for (demo_env demo_adapter) sig ident False a) demo_database = (Inr p, d)"
    by (rule sql_decisions.evaluate_new [OF demo_ok])
  then have "dsql_record (entry_for (demo_env demo_adapter) sig ident False a) demo_database = (Inr p, d)"
    by simp
  with demo_ok have "db_model_runs d \<noteq> []"
    by (cases rule: dsql_record_cases) (use e(2) in \<open>auto simp: recorded_database_def demo_empty\<close>)
  then obtain m where m: "m \<in> set (db_model_runs d)" by (cases "db_model_runs d") auto
  have "m \<notin> set (db_model_runs demo_database)" by (simp add: demo_database_def)
  from stored_output_is_sanitised [OF demo_ok e(1) m this] e(1) m show ?thesis by blast
qed

subsection \<open>An output that no screen foresees\<close>

text \<open>
  An eligible output in LIVE_SHADOW mode is turned into WATCH with the context warnings added. When
  the model already gave so many warnings that the merged list has more than twenty, the copy fails its
  own schema: the \<open>ValidationError\<close> is handled nowhere, and the evaluation records nothing.
\<close>

lemma full_warnings_break_shadow:
  assumes "do_strategy_template out \<in> set p05_strategies" "do_strategy_template out = ds_strategy_name sig"
    and "do_data_sufficiency out = SUFFICIENT"
    and "do_verdict out = ELIGIBLE" "openai_decision_min_confidence s \<le> do_confidence out"
    and "di_evaluation_mode i = LIVE_SHADOW" "eligibility_context_warnings i \<noteq> []"
    and "20 < length (uniq (do_warnings out @ eligibility_context_warnings i))"
  shows "screen_output s sig i out = Inl ValidationError"
  using assms by (auto simp: screen_output_def rejected_def shadow_watch_def Let_def safe_reject_def split: if_splits)

lemma unhandled_error_records_nothing:
  assumes "attempt env sig = Inl e" "dr_load_signal repo i st = Some sig"
    and "ds_signal_status sig = candidate_status" "openai_decision_enabled (env_settings env)"
    and "evaluation_identity (env_settings env) = Inr ident"
    and "dr_find_by_evaluation_key repo (identity_key env sig ident) st = None"
  shows "evaluate env repo i force st = (Inl e, st)"
  using assms by (cases force) (auto simp: evaluate_def eligible_signal_def evaluate_locked_def bindS_def)

end
