(* ===== verification/AutomationExamples.thy ===== *)
theory AutomationExamples
  imports DecisionAutomation DecisionExamples
begin

section \<open>Properties of the automatic evaluation\<close>

text \<open>
  The loop over the candidates returns whatever the single evaluations do, its counters add up, and
  the number of created decisions is the number of rows added to the table of recommendations.
\<close>

lemma evaluate_rows:
  assumes ok: "decisions_ok d" and e: "evaluate env decision_sql_repository i False d = (r, d')"
  shows "length (db_recommendations d') = length (db_recommendations d) +
     (case r of Inl e \<Rightarrow> 0 | Inr p \<Rightarrow> if pd_existing p then 0 else 1)"
proof (cases r)
  case (Inr p)
  from e Inr have "evaluate env decision_sql_repository i False d = (Inr p, d')" by simp
  then show ?thesis
  proof (cases rule: evaluate_Inr)
    case (found sig ident)
    then have "pd_existing p" using sql_decisions.find_existing by fastforce
    with found Inr show ?thesis by simp
  next
    case (recorded sig ident a)
    then have "dsql_record (entry_for env sig ident False a) d = (Inr p, d')" by (simp add: entry_for_def)
    with ok show ?thesis
    proof (cases rule: dsql_record_cases)
      case (new j)
      then have "\<not> pd_existing p" by (auto simp: persisted_from_row_def Let_def)
      with new Inr show ?thesis by (simp add: recorded_database_def)
    next
      case (old p' k)
      then have "pd_existing p" using sql_decisions.find_existing [of k d p] by simp
      with old Inr show ?thesis by simp
    qed simp_all
  qed
next
  case (Inl x)
  have "d' = d"
    using e Inl ok
    by (auto simp: evaluate_def evaluate_locked_def bindS_def split: sum.splits bool.splits option.splits
        elim!: dsql_record_cases [OF ok])
  with Inl show ?thesis by simp
qed

lemma new_verdict_known:
  assumes "decisions_ok d" "evaluate env decision_sql_repository i False d = (Inr p, d')" "\<not> pd_existing p"
  shows "pd_verdict p \<in> set (map fst verdict_events)"
proof -
  obtain sig ident a where "decision_of_entry (entry_for env sig ident False a) p"
    by (rule sql_decisions.evaluate_new [OF assms])
  then show ?thesis
    by (cases "do_verdict (at_output a)") (simp_all add: decision_of_entry_def verdict_events_def)
qed

definition reliable :: "(notification \<Rightarrow> notify_result res) \<Rightarrow> bool" where
  "reliable notify \<longleftrightarrow> (\<forall>n. \<exists>r. notify n = Inr r)"

lemma send_reliable:
  "reliable notify \<Longrightarrow> \<exists>r. send notify n a = (Inr r, a\<lparr>au_notifications := au_notifications a @ [n]\<rparr>)"
  by (simp add: send_def bindS_def reliable_def)

lemma notify_decision_total:
  assumes "reliable notify" "pd_verdict p \<in> set (map fst verdict_events)"
  shows "\<exists>b a'. notify_decision s notify p a = (Inr b, a') \<and> au_store a' = au_store a"
proof -
  have "\<exists>event. decision_event (pd_status p = ''FAILED'') (pd_verdict p) = Inr event"
    using assms(2) by (auto simp: decision_event_def verdict_events_def)
  then obtain event where e: "decision_event (pd_status p = ''FAILED'') (pd_verdict p) = Inr event" by blast
  define n where "n = \<lparr>nt_level = (if pd_status p = ''FAILED'' \<or> pd_verdict p = ''ELIGIBLE'' then ''warning'' else ''info''),
      nt_event = event, nt_message = ''A scanner candidate received a new P07 shadow decision.'',
      nt_details = decision_details s p\<rparr>"
  obtain r where "send notify n a = (Inr r, a\<lparr>au_notifications := au_notifications a @ [n]\<rparr>)"
    using send_reliable [OF assms(1)] by blast
  with e show ?thesis by (auto simp: notify_decision_def Let_def bindS_def n_def)
qed

lemma notify_failure_total:
  assumes "reliable notify"
  shows "\<exists>a'. notify_failure s notify i a = (Inr (), a') \<and> au_store a' = au_store a"
proof -
  define n where "n = \<lparr>nt_level = ''warning'', nt_event = ''decision_auto_evaluation_failed'',
      nt_message = ''Automatic P07 evaluation failed safely.'', nt_details = [(''signal_id'', JInt i)]\<rparr>"
  obtain r where "send notify n a = (Inr r, a\<lparr>au_notifications := au_notifications a @ [n]\<rparr>)"
    using send_reliable [OF assms] by blast
  then show ?thesis by (simp add: notify_failure_def bindS_def n_def)
qed

text \<open>The invariant of the loop: \<open>n\<close> signals done, starting with \<open>rows\<close> recommendations.\<close>

definition loop_state :: "nat \<Rightarrow> nat \<Rightarrow> evaluation_counts \<Rightarrow> database automation \<Rightarrow> bool" where
  "loop_state rows n c a \<longleftrightarrow> decisions_ok (au_store a) \<and> counted n c \<and>
     length (db_recommendations (au_store a)) = rows + ec_created c"

lemma evaluate_candidate_step:
  assumes notify: "reliable notify" and I: "loop_state rows n c a"
  shows "\<exists>c' a'. evaluate_candidate env decision_sql_repository notify i c a = (Inr c', a') \<and>
     loop_state rows (Suc n) c' a'"
proof -
  obtain r d' where e: "evaluate env decision_sql_repository i False (au_store a) = (r, d')"
    by (metis surj_pair)
  have ok: "decisions_ok (au_store a)" using I by (simp add: loop_state_def)
  have ok': "decisions_ok d'" by (rule sql_decisions.evaluate_ok [OF ok e])
  note rows = evaluate_rows [OF ok e]
  let ?a = "a\<lparr>au_store := d'\<rparr>"
  show ?thesis
  proof (cases r)
    case (Inl x)
    obtain a' where "notify_failure (env_settings env) notify i ?a = (Inr (), a')" "au_store a' = d'"
      using notify_failure_total [OF notify, of "env_settings env" i ?a] by auto
    with Inl e ok' rows I show ?thesis
      by (simp add: evaluate_candidate_def tryS_def bindS_def on_store_def loop_state_def counted_def)
  next
    case (Inr p)
    show ?thesis
    proof (cases "pd_existing p")
      case True
      with Inr e ok' rows I show ?thesis
        by (simp add: evaluate_candidate_def tryS_def bindS_def on_store_def loop_state_def counted_def
            count_decision_def)
    next
      case False
      with Inr e have "pd_verdict p \<in> set (map fst verdict_events)" by (intro new_verdict_known [OF ok]) simp_all
      then obtain b a' where "notify_decision (env_settings env) notify p ?a = (Inr b, a')" "au_store a' = d'"
        using notify_decision_total [OF notify, of p "env_settings env" ?a] by auto
      with False Inr e ok' rows I show ?thesis
        by (auto simp: evaluate_candidate_def tryS_def bindS_def on_store_def loop_state_def counted_def
            count_decision_def)
    qed
  qed
qed

lemma evaluation_loop:
  assumes notify: "reliable notify" and "loop_state rows n c a"
  shows "\<exists>c' a'. foldS (evaluate_candidate env decision_sql_repository notify) ids c a = (Inr c', a') \<and>
     loop_state rows (n + length ids) c' a'"
  using assms(2)
proof (induction ids arbitrary: n c a)
  case (Cons i ids)
  obtain c1 a1 where 1: "evaluate_candidate env decision_sql_repository notify i c a = (Inr c1, a1)"
    "loop_state rows (Suc n) c1 a1" using evaluate_candidate_step [OF notify Cons.prems, of env i] by auto
  from Cons.IH [OF 1(2)] 1(1) show ?case by (simp add: bindS_def)
qed simp

text \<open>a batch always ends with a bounded, consistent summary. Provided that the configuration
names an adapter and a mode, that the query for the candidates succeeds and that the notifier does not
raise, the automatic evaluation after a scanner batch returns whatever the single evaluations raise:
at most 50 signals are attempted, each has one result and is counted as created, existing or failed,
the created ones are exactly the rows added to the recommendations, and the summary is remembered.\<close>

theorem batch_summary_consistent:
  assumes "decisions_ok (au_store a)" and "\<forall>n. \<exists>r. notify n = Inr r"
    and "evaluation_identity (env_settings env) = Inr ident"
    and "\<And>q. cq_symbols q = symbols \<Longrightarrow>
      \<exists>ids. dsql_list_unevaluated_candidate_ids q (au_store a) = Inr ids"
  shows "\<exists>m a'. evaluate_scanner_batch env decision_sql_repository notify start finish symbols dry n a = (Inr m, a') \<and>
     au_last_summary a' = Some m \<and> as_attempted m \<le> 50 \<and> length (as_results m) = as_attempted m \<and>
     as_created m + as_existing m \<le> as_attempted m \<and>
     as_attempted m \<le> as_created m + as_existing m + as_failed m \<and> as_notified m \<le> as_created m \<and>
     length (db_recommendations (au_store a')) = length (db_recommendations (au_store a)) + as_created m"
proof (cases "auto_skip_reason (env_settings env) dry n")
  case (Some reason)
  then show ?thesis by (simp add: evaluate_scanner_batch_def remember_def bindS_def empty_summary_def)
next
  case None
  define opts where "opts = \<lparr>co_limit = bounded_max (env_settings env), co_oldest_first = True,
     co_source = ''scanner_batch'', co_started_at = Some start, co_finished_at = Some finish,
     co_symbols = symbols\<rparr>"
  obtain ids where ids: "dsql_list_unevaluated_candidate_ids (query_of ident opts) (au_store a) = Inr ids"
    using assms(4) [of "query_of ident opts"] by (auto simp: query_of_def opts_def)
  define todo where "todo = slice_first (co_limit opts) ids"
  have len: "length todo \<le> 50"
    using bounded_max_range [of "env_settings env"] slice_first_length [of "co_limit opts" ids]
    by (simp add: todo_def opts_def min_le_iff_disj nat_le_iff)
  have "loop_state (length (db_recommendations (au_store a))) 0 no_evaluations a"
    using assms(1) by (simp add: loop_state_def counted_def no_evaluations_def)
  have "reliable notify" using assms(2) by (simp add: reliable_def)
  from evaluation_loop [OF this \<open>loop_state _ 0 _ a\<close>, of env todo] obtain c a' where
    loop: "foldS (evaluate_candidate env decision_sql_repository notify) todo no_evaluations a = (Inr c, a')"
    and I: "loop_state (length (db_recommendations (au_store a))) (length todo) c a'" by auto
  have q: "dr_list_unevaluated_candidate_ids decision_sql_repository = dsql_list_unevaluated_candidate_ids"
    by (simp add: decision_sql_repository_def)
  have "evaluate_candidates env decision_sql_repository notify opts a =
      (Inr (summary_of (co_source opts) (length todo) (co_limit opts < int (length ids)) c), a')"
    using ids loop assms(3) by (simp add: evaluate_candidates_def bindS_def q todo_def Let_def)
  with None len I show ?thesis
    by (simp add: evaluate_scanner_batch_def opts_def remember_def bindS_def loop_state_def counted_def
        summary_of_def)
qed

lemma batch_summary_consistent_witness:
  "\<exists>m a'. evaluate_scanner_batch (demo_env demo_adapter) decision_sql_repository
       (\<lambda>n. Inr \<lparr>nr_ok = True, nr_skipped = False\<rparr>) 0 0 [] False 1
       \<lparr>au_store = demo_database, au_notifications = [], au_last_summary = None\<rparr> = (Inr m, a') \<and>
     au_last_summary a' = Some m \<and> as_attempted m \<le> 50"
proof -
  let ?a = "\<lparr>au_store = demo_database, au_notifications = [], au_last_summary = None\<rparr>"
  have q: "\<exists>ids. dsql_list_unevaluated_candidate_ids q (au_store ?a) = Inr ids" if "cq_symbols q = []" for q
    using that by (simp add: dsql_list_unevaluated_candidate_ids_def Let_def)
  have "decisions_ok (au_store ?a)" by (simp add: demo_ok)
  from batch_summary_consistent [OF this, of "\<lambda>n. Inr \<lparr>nr_ok = True, nr_skipped = False\<rparr>"
      "demo_env demo_adapter" demo_identity "[]" 0 0 False 1] q demo_evaluation_identity
  show ?thesis by (simp, fast)
qed

end
