(* ===== verification/PyFloat.thy ===== *)
theory PyFloat
  imports PyDecimal "HOL-Library.Log_Nat"
begin

section \<open>Python floats\<close>

text \<open>
  A finite float is modelled by its exact value, a rational. An operation computes the exact result
  and rounds it to the nearest binary64 value, ties to even (\<open>f64\<close>): 53 significant bits, and no bit
  below \<open>2 ^ -1074\<close>. \<^verbatim>\<open>round(x, n)\<close> rounds the exact value of \<open>x\<close> to \<open>n\<close> decimals, ties to
  even, and returns the nearest float. Overflow, NaN and the sign of zero are not modelled.
\<close>

definition bin_exp :: "rat \<Rightarrow> int" where
  "bin_exp q =
     (let (n, d) = quotient_of \<bar>q\<bar>; e = int (floorlog 2 (nat n)) - int (floorlog 2 (nat d)) - 53
      in if 2 powi (e + 53) \<le> \<bar>q\<bar> then e + 1 else e)"

definition f64 :: "rat \<Rightarrow> rat" where
  "f64 q =
     (if q = 0 then 0
      else let e = max (bin_exp q) (- 1074) in of_int (round_half_even (q / 2 powi e)) * 2 powi e)"

definition fadd :: "rat \<Rightarrow> rat \<Rightarrow> rat" where
  "fadd a b = f64 (a + b)"

definition fsub :: "rat \<Rightarrow> rat \<Rightarrow> rat" where
  "fsub a b = f64 (a - b)"

definition fmul :: "rat \<Rightarrow> rat \<Rightarrow> rat" where
  "fmul a b = f64 (a * b)"

text \<open>\<^verbatim>\<open>sum(values)\<close>: a left fold of additions.\<close>

definition fsum :: "rat list \<Rightarrow> rat" where
  "fsum xs = foldl fadd 0 xs"

definition py_round :: "nat \<Rightarrow> rat \<Rightarrow> rat" where
  "py_round n x = f64 (of_int (round_half_even (x * 10 ^ n)) / 10 ^ n)"

subsection \<open>Bounds\<close>

lemma floorlog_powi:
  assumes "0 < (n :: int)"
  shows "2 powi (int (floorlog 2 (nat n)) - 1) \<le> (of_int n :: rat)"
    and "(of_int n :: rat) < 2 powi int (floorlog 2 (nat n))"
proof -
  let ?k = "floorlog 2 (nat n)"
  have b: "2 ^ (?k - 1) \<le> nat n" "nat n < 2 ^ ?k" using floorlog_bounds [of "nat n" 2] assms by auto
  have k: "0 < ?k" using assms by (simp add: floorlog_def)
  have n: "(of_int n :: rat) = of_nat (nat n)" using assms by simp
  have "(of_nat (2 ^ (?k - 1)) :: rat) \<le> of_nat (nat n)" using b(1) by (simp only: of_nat_le_iff)
  moreover have "int ?k - 1 = int (?k - 1)" using k by linarith
  ultimately show "2 powi (int ?k - 1) \<le> (of_int n :: rat)" by (simp only: n power_int_of_nat) simp
  have "(of_nat (nat n) :: rat) < of_nat (2 ^ ?k)" using b(2) by (simp only: of_nat_less_iff)
  then show "(of_int n :: rat) < 2 powi int ?k" by (simp only: n power_int_of_nat) simp
qed

lemma bin_exp_lower:
  assumes "q \<noteq> 0"
  shows "2 powi (bin_exp q + 52) \<le> \<bar>q\<bar>"
proof -
  obtain n d where nd: "quotient_of \<bar>q\<bar> = (n, d)" by (cases "quotient_of \<bar>q\<bar>")
  then have q: "\<bar>q\<bar> = of_int n / of_int d" and d: "0 < d"
    by (auto intro: quotient_of_div quotient_of_denom_pos)
  have "0 < (of_int n / of_int d :: rat)" using assms unfolding q [symmetric] by simp
  with d have n: "0 < n" by (simp add: zero_less_divide_iff)
  define e where "e = int (floorlog 2 (nat n)) - int (floorlog 2 (nat d)) - 53"
  have "2 powi (e + 52) \<le> \<bar>q\<bar>"
  proof -
    have "e + 52 = int (floorlog 2 (nat n)) - 1 - int (floorlog 2 (nat d))" by (simp add: e_def)
    then have "(2 :: rat) powi (e + 52) =
        2 powi (int (floorlog 2 (nat n)) - 1) / 2 powi int (floorlog 2 (nat d))"
      by (simp only: power_int_diff zero_neq_numeral [symmetric] not_False_eq_True simp_thms)
    also have "\<dots> \<le> of_int n / of_int d"
      using floorlog_powi [OF n] floorlog_powi [OF d] d n by (intro frac_le) auto
    finally show ?thesis using q by simp
  qed
  moreover have "bin_exp q = (if 2 powi (e + 53) \<le> \<bar>q\<bar> then e + 1 else e)"
    by (simp add: bin_exp_def nd e_def Let_def)
  ultimately show ?thesis by (simp add: add.assoc)
qed

lemma bin_exp_small:
  assumes "q \<noteq> 0" "\<bar>q\<bar> < 2 ^ 53"
  shows "bin_exp q \<le> 0"
proof -
  have "(2 :: rat) powi (bin_exp q + 52) < 2 powi 53"
    using bin_exp_lower [OF assms(1)] assms(2) by (simp add: power_int_def)
  then have "bin_exp q + 52 < 53"
    using power_int_increasing [of 53 "bin_exp q + 52" "2 :: rat"]
    by (meson linorder_not_less one_le_numeral)
  then show ?thesis by simp
qed

text \<open>Rounding does not cross an integer below \<open>2 ^ 53\<close>.\<close>

lemma f64_le_int:
  assumes "q \<le> of_int m" "\<bar>q\<bar> < 2 ^ 53"
  shows "f64 q \<le> of_int m"
proof (cases "q = 0")
  case False
  define e where "e = max (bin_exp q) (- 1074)"
  have e: "e \<le> 0" using bin_exp_small [OF False assms(2)] by (simp add: e_def)
  define k where "k = m * 2 ^ nat (- e)"
  have p: "(0 :: rat) < 2 powi e" by simp
  have inv: "1 / (2 :: rat) powi e = 2 ^ nat (- e)"
    using e by (simp add: power_int_def field_simps)
  have "of_int m / 2 powi e = (of_int k :: rat)"
    using inv by (simp add: k_def field_simps)
  then have m: "(of_int m :: rat) = of_int k * 2 powi e" using p by (simp add: field_simps)
  have "q / 2 powi e \<le> of_int k" using assms(1) m p by (simp add: field_simps)
  then have "round_half_even (q / 2 powi e) \<le> k"
    using round_half_even_mono [of "q / 2 powi e" "of_int k"] by simp
  then have "(of_int (round_half_even (q / 2 powi e)) :: rat) * 2 powi e \<le> of_int k * 2 powi e"
    using p by (intro mult_right_mono) auto
  with False m show ?thesis by (simp add: f64_def Let_def e_def)
qed (use assms in \<open>simp add: f64_def\<close>)

lemma f64_nonneg: "0 \<le> q \<Longrightarrow> 0 \<le> f64 q"
proof -
  assume "0 \<le> q"
  have "0 \<le> round_half_even (q / 2 powi max (bin_exp q) (- 1074))"
    using round_half_even_mono [of 0 "q / 2 powi max (bin_exp q) (- 1074)"] \<open>0 \<le> q\<close>
      round_half_even_of_int [of 0] by simp
  then show ?thesis by (simp add: f64_def Let_def)
qed

lemma f64_minus: "f64 (- q) = - f64 q"
  by (simp add: f64_def Let_def bin_exp_def round_half_even_minus)

lemma f64_range:
  assumes "0 \<le> q" "q \<le> of_int m" "m < 2 ^ 53"
  shows "0 \<le> f64 q \<and> f64 q \<le> of_int m"
proof -
  have "(of_int m :: rat) < of_int (2 ^ 53)" using assms(3) by (simp only: of_int_less_iff)
  then have "q < 2 ^ 53" using assms(2) by simp
  with assms show ?thesis by (simp add: f64_nonneg f64_le_int)
qed

lemma py_round_range:
  assumes "0 \<le> x" "x \<le> of_int m" "m < 2 ^ 53"
  shows "0 \<le> py_round n x \<and> py_round n x \<le> of_int m"
proof -
  have "0 \<le> round_half_even (x * 10 ^ n)"
    using round_half_even_mono [of 0 "x * 10 ^ n"] assms(1) round_half_even_of_int [of 0] by simp
  moreover have "round_half_even (x * 10 ^ n) \<le> m * 10 ^ n"
  proof -
    have "x * 10 ^ n \<le> of_int (m * 10 ^ n)" using assms(2) by (simp add: mult_right_mono)
    then have "round_half_even (x * 10 ^ n) \<le> round_half_even (of_int (m * 10 ^ n))"
      by (rule round_half_even_mono)
    then show ?thesis by (simp only: round_half_even_of_int)
  qed
  ultimately have "0 \<le> (of_int (round_half_even (x * 10 ^ n)) / 10 ^ n :: rat)"
    "(of_int (round_half_even (x * 10 ^ n)) / 10 ^ n :: rat) \<le> of_int m"
  proof -
    assume lo: "0 \<le> round_half_even (x * 10 ^ n)" and hi: "round_half_even (x * 10 ^ n) \<le> m * 10 ^ n"
    show "0 \<le> (of_int (round_half_even (x * 10 ^ n)) / 10 ^ n :: rat)" using lo by simp
    have "(of_int (round_half_even (x * 10 ^ n)) :: rat) \<le> of_int (m * 10 ^ n)"
      using hi by (simp only: of_int_le_iff)
    then show "(of_int (round_half_even (x * 10 ^ n)) / 10 ^ n :: rat) \<le> of_int m"
      by (simp add: field_simps)
  qed
  then show ?thesis unfolding py_round_def by (rule f64_range) (rule assms(3))
qed

lemma fsum_range:
  assumes "list_all2 (\<lambda>x m. 0 \<le> x \<and> x \<le> of_int m) xs ms" "sum_list ms < 2 ^ 53"
  shows "0 \<le> fsum xs \<and> fsum xs \<le> of_int (sum_list ms)"
  using assms
proof (induction xs arbitrary: ms rule: rev_induct)
  case (snoc x xs)
  from snoc.prems(1) obtain ks m where ms: "ms = ks @ [m]" and ks: "list_all2 (\<lambda>x m. 0 \<le> x \<and> x \<le> of_int m) xs ks"
    and x: "0 \<le> x" "x \<le> of_int m" by (auto simp: list_all2_append1 list_all2_Cons1)
  have "(0 :: rat) \<le> of_int m" using x by linarith
  then have "sum_list ks < 2 ^ 53" using snoc.prems(2) by (simp add: ms)
  from snoc.IH [OF ks this] have IH: "0 \<le> fsum xs" "fsum xs \<le> of_int (sum_list ks)" by auto
  have "fsum (xs @ [x]) = f64 (fsum xs + x)" by (simp add: fsum_def fadd_def)
  then show ?case using f64_range [of "fsum xs + x" "sum_list ms"] IH x snoc.prems(2) by (simp add: ms)
qed (simp add: fsum_def)

end
