(* ===== verification/UniverseScoring.thy ===== *)
theory UniverseScoring
  imports AppConfig FeatureBuilder PyFloat
begin

section \<open>Scores of the universe selection\<close>

text \<open>
  \<^verbatim>\<open>app/universe/scoring.py\<close>: six component scores of a symbol from its completed candles, the
  reasons that exclude it, and the metrics that explain the result. Decimals are those of
  \<open>PyDecimal\<close>, the scores are floats of \<open>PyFloat\<close>; \<open>now\<close> is the reading of the clock. The metrics
  hold the numbers that the code stores, rounded to six places.
\<close>

record universe_symbol_result =
  us_symbol :: string
  us_rank :: "nat option"
  us_total_score :: rat
  us_component_scores :: "(string \<times> rat) list"
  us_metrics :: "(string \<times> json) list"
  us_included :: bool
  us_exclusion_reasons :: "string list"
  us_warnings :: "string list"

definition symbol_score_as_dict :: "universe_symbol_result \<Rightarrow> (string \<times> json) list" where
  "symbol_score_as_dict r =
     [(''symbol'', JStr (us_symbol r)), (''rank'', jopt (\<lambda>n. JInt (int n)) (us_rank r)),
      (''total_score'', JFloat (us_total_score r)),
      (''component_scores'', JObj (map (\<lambda>(k, v). (k, JFloat v)) (us_component_scores r))),
      (''metrics'', JObj (us_metrics r)), (''included'', JBool (us_included r)),
      (''exclusion_reasons'', jstrs (us_exclusion_reasons r)), (''warnings'', jstrs (us_warnings r))]"

subsection \<open>Helpers\<close>

definition score_weights :: "(string \<times> rat) list" where
  "score_weights = [(''liquidity_score'', 15), (''volatility_score'', 15), (''relative_volume_score'', 15),
     (''trend_score'', 20), (''breakout_readiness_score'', 20), (''data_quality_score'', 15)]"

definition excluded_result :: "string \<Rightarrow> string list \<Rightarrow> string list \<Rightarrow> universe_symbol_result" where
  "excluded_result symb exclusions warnings =
     \<lparr>us_symbol = symb, us_rank = None, us_total_score = 0,
      us_component_scores = map (\<lambda>(k, w). (k, 0)) score_weights, us_metrics = [], us_included = False,
      us_exclusion_reasons = uniq exclusions, us_warnings = uniq warnings\<rparr>"

text \<open>A dictionary from session to volume, in the order of the sessions.\<close>

fun add_volume :: "(date \<times> dec) list \<Rightarrow> date \<Rightarrow> dec \<Rightarrow> (date \<times> dec) list" where
  "add_volume [] k v = [(k, dadd 0 v)]"
| "add_volume ((k', t) # d) k v = (if k' = k then (k', dadd t v) # d else (k', t) # add_volume d k v)"

definition session_totals :: "completed_bar list \<Rightarrow> (date \<times> dec) list" where
  "session_totals bars = fold (\<lambda>b d. add_volume d (session_date b) (of_int (volume b))) bars []"

definition average :: "dec list \<Rightarrow> dec option" where
  "average values = (if values = [] then None else Some (ddiv (dsum values) (of_nat (length values))))"

definition pct :: "dec option \<Rightarrow> dec option \<Rightarrow> dec option" where
  "pct numerator denominator =
     (case (numerator, denominator) of
        (Some n, Some d) \<Rightarrow> if d = 0 then None else Some (dmul (ddiv n d) 100)
      | _ \<Rightarrow> None)"

definition pct_difference :: "dec option \<Rightarrow> dec option \<Rightarrow> dec option" where
  "pct_difference v baseline =
     (case (v, baseline) of
        (Some a, Some b) \<Rightarrow> pct (Some (dsub a b)) (Some b)
      | _ \<Rightarrow> None)"

definition ema20_slope :: "completed_bar list \<Rightarrow> dec option res" where
  "ema20_slope bars =
     (if length bars < 21 then Inr None
      else bindE (build_indicator_snapshot (butlast bars) [] None 15) (\<lambda>previous.
           bindE (build_indicator_snapshot bars [] None 15) (\<lambda>current.
             Inr (pct_difference (ema_20 current) (ema_20 previous)))))"

definition scaled :: "dec option \<Rightarrow> dec \<Rightarrow> rat \<Rightarrow> rat" where
  "scaled v full_scale maximum =
     (case v of
        None \<Rightarrow> 0
      | Some x \<Rightarrow> if x \<le> 0 then 0
                  else py_round 4 (min (fmul (f64 (ddiv x full_scale)) maximum) maximum))"

definition volatility_score :: "dec option \<Rightarrow> rat" where
  "volatility_score atr_pct =
     (case atr_pct of
        None \<Rightarrow> 0
      | Some a \<Rightarrow> py_round 4 (max 0 (fsub 15 (fmul \<bar>fsub (f64 a) (3 / 2)\<bar> 5))))"

definition number :: "dec option \<Rightarrow> json" where
  "number v = (case v of None \<Rightarrow> JNull | Some x \<Rightarrow> JFloat (py_round 6 (f64 x)))"

definition is_positive :: "dec option \<Rightarrow> bool" where
  "is_positive v = (case v of None \<Rightarrow> False | Some x \<Rightarrow> 0 < x)"

text \<open>\<^verbatim>\<open>round(sum((5.0 if a else 0.0, ...)), 4)\<close>.\<close>

definition points :: "bool list \<Rightarrow> rat" where
  "points flags = py_round 4 (fsum (map (\<lambda>b. if b then 5 else 0) flags))"

subsection \<open>What is read from the candles\<close>

record symbol_measures =
  ms_indicators :: indicator_snapshot
  ms_latest_close :: dec
  ms_atr_pct :: "dec option"
  ms_avg_volume :: "dec option"
  ms_avg_turnover :: "dec option"
  ms_today_volume :: dec
  ms_today_turnover :: dec
  ms_relative_volume :: "dec option"
  ms_return_from_open :: "dec option"
  ms_return_from_previous :: "dec option"
  ms_distance_vwap :: "dec option"
  ms_ema9_vs_ema20 :: "dec option"
  ms_ema20_slope :: "dec option"
  ms_high_low_range :: "dec option"
  ms_opening_range_pct :: "dec option"

definition turnover :: "completed_bar \<Rightarrow> dec" where
  "turnover b = dmul (close_price b) (of_int (volume b))"

definition relative_volume_of :: "dec \<Rightarrow> completed_bar list \<Rightarrow> dec option" where
  "relative_volume_of today prior =
     (case average (map snd (session_totals prior)) of
        None \<Rightarrow> None
      | Some avg \<Rightarrow> if 0 < avg then Some (ddiv today avg) else None)"

definition measures ::
  "settings \<Rightarrow> completed_bar list \<Rightarrow> completed_bar list \<Rightarrow> feature_input \<Rightarrow> completed_bar list \<Rightarrow>
     symbol_measures res" where
  "measures s bars benchmark_bars fi scoring_bars =
     bindE (build_indicator_snapshot bars benchmark_bars None (scanner_opening_range_minutes s)) (\<lambda>ind.
     bindE (ema20_slope bars) (\<lambda>slope.
       let current = current_session_bars fi;
           prior = prior_session_bars fi;
           latest_close = close_price (last bars);
           today_volume = of_int (sum_list (map volume current))
       in Inr
         \<lparr>ms_indicators = ind, ms_latest_close = latest_close,
          ms_atr_pct = pct (atr_14 ind) (Some latest_close),
          ms_avg_volume = average (map (\<lambda>b. of_int (volume b)) scoring_bars),
          ms_avg_turnover = average (map turnover scoring_bars),
          ms_today_volume = today_volume,
          ms_today_turnover = dsum (map turnover current),
          ms_relative_volume = relative_volume_of today_volume prior,
          ms_return_from_open = pct_difference (Some latest_close)
            (if current = [] then None else Some (open_price (hd current))),
          ms_return_from_previous = pct_difference (Some latest_close)
            (if prior = [] then None else Some (close_price (last prior))),
          ms_distance_vwap = pct_difference (Some latest_close) (ind_vwap ind),
          ms_ema9_vs_ema20 = pct_difference (ema_9 ind) (ema_20 ind),
          ms_ema20_slope = slope,
          ms_high_low_range =
            (if scoring_bars = [] then None
             else pct (Some (dsub (py_max (map high_price scoring_bars)) (py_min (map low_price scoring_bars))))
               (Some latest_close)),
          ms_opening_range_pct =
            (case (opening_range_high ind, opening_range_low ind) of
               (Some hi, Some lo) \<Rightarrow> pct (Some (dsub hi lo)) (Some latest_close)
             | _ \<Rightarrow> None)\<rparr>))"

definition above_vwap :: "symbol_measures \<Rightarrow> bool" where
  "above_vwap m = (case ind_vwap (ms_indicators m) of None \<Rightarrow> False | Some v \<Rightarrow> v < ms_latest_close m)"

definition above_previous_high :: "symbol_measures \<Rightarrow> bool" where
  "above_previous_high m =
     (case previous_day_high (ms_indicators m) of None \<Rightarrow> False | Some v \<Rightarrow> v < ms_latest_close m)"

definition trend_alignment :: "symbol_measures \<Rightarrow> bool" where
  "trend_alignment m =
     (case (ema_9 (ms_indicators m), ema_20 (ms_indicators m)) of
        (Some e9, Some e20) \<Rightarrow> e9 < ms_latest_close m \<and> e20 < e9
      | _ \<Rightarrow> False)"

definition near_opening_high :: "symbol_measures \<Rightarrow> bool" where
  "near_opening_high m =
     (case opening_range_high (ms_indicators m) of
        None \<Rightarrow> False
      | Some v \<Rightarrow> dmul v (995 / 1000) \<le> ms_latest_close m)"

definition volume_expansion :: "symbol_measures \<Rightarrow> bool" where
  "volume_expansion m = (case ms_relative_volume m of None \<Rightarrow> False | Some v \<Rightarrow> 12 / 10 \<le> v)"

subsection \<open>Exclusions, components and metrics\<close>

definition is_stale_symbol :: "settings \<Rightarrow> instant \<Rightarrow> completed_bar list \<Rightarrow> bool" where
  "is_stale_symbol s now bars \<longleftrightarrow> bars \<noteq> [] \<and>
     started_at (last bars) + 2 * minute_us + scanner_stale_after_seconds s * second_us < now"

record score_options =
  so_timeframe :: string
  so_min_candles :: int
  so_use_current_session :: bool
  so_stale_policy :: string

definition scoring_bars_of :: "score_options \<Rightarrow> feature_input \<Rightarrow> completed_bar list" where
  "scoring_bars_of opts fi =
     (if so_use_current_session opts then current_session_bars fi else trailing_bars fi)"

definition candle_exclusions ::
  "settings \<Rightarrow> score_options \<Rightarrow> instant \<Rightarrow> completed_bar list \<Rightarrow> string list" where
  "candle_exclusions s opts now bars =
     (let fi = build_feature_input bars in
      (if so_timeframe opts \<noteq> ''1minute'' then [''unsupported_timeframe''] else [])
      @ (if int (length (scoring_bars_of opts fi)) < so_min_candles opts then [''insufficient_candles''] else [])
      @ (if so_use_current_session opts \<and> \<not> has_session_start (current_session_bars fi)
         then [''session_start_missing''] else [])
      @ (if universe_selection_require_continuity s
            \<and> \<not> candle_continuity_ok (current_session_bars fi) (so_timeframe opts)
         then [''candle_continuity_failed''] else [])
      @ (if is_stale_symbol s now bars \<and> so_stale_policy opts = ''exclude'' then [''stale_data''] else []))"

definition stale_warning :: "settings \<Rightarrow> score_options \<Rightarrow> instant \<Rightarrow> completed_bar list \<Rightarrow> string list" where
  "stale_warning s opts now bars =
     (if is_stale_symbol s now bars \<and> so_stale_policy opts = ''warn'' then [''stale_data''] else [])"

definition measure_exclusions :: "settings \<Rightarrow> symbol_measures \<Rightarrow> string list" where
  "measure_exclusions s m =
     (if ms_latest_close m < universe_selection_min_price s then [''price_below_min''] else [])
     @ (if universe_selection_max_price s < ms_latest_close m then [''price_above_max''] else [])
     @ (case ms_avg_turnover m of
          None \<Rightarrow> []
        | Some t \<Rightarrow> if t < universe_selection_min_avg_turnover s then [''avg_turnover_below_min''] else [])
     @ (case ms_atr_pct m of
          None \<Rightarrow> []
        | Some a \<Rightarrow>
            if a < universe_selection_min_atr_pct s then [''atr_pct_below_min'']
            else if universe_selection_max_atr_pct s < a then [''atr_pct_above_max''] else [])"

definition component_scores :: "symbol_measures \<Rightarrow> bool \<Rightarrow> (string \<times> rat) list" where
  "component_scores m clean =
     [(''liquidity_score'', scaled (ms_avg_turnover m) 1000000 15),
      (''volatility_score'', volatility_score (ms_atr_pct m)),
      (''relative_volume_score'', scaled (ms_relative_volume m) 2 15),
      (''trend_score'', points [above_vwap m, is_positive (ms_ema9_vs_ema20 m),
         is_positive (ms_return_from_open m), is_positive (ms_ema20_slope m)]),
      (''breakout_readiness_score'', points [near_opening_high m, above_previous_high m,
         volume_expansion m, trend_alignment m]),
      (''data_quality_score'', if clean then 15 else 0)]"

definition metrics_of ::
  "settings \<Rightarrow> score_options \<Rightarrow> instant \<Rightarrow> completed_bar list \<Rightarrow> bool \<Rightarrow> symbol_measures \<Rightarrow> (string \<times> json) list"
  where
  "metrics_of s opts now bars active m =
     (let current = current_session_bars (build_feature_input bars) in
      [(''has_instrument'', JBool True), (''active_instrument'', JBool active),
       (''candles_available'', JInt (int (length bars))),
       (''current_session_candles'', JInt (int (length current))),
       (''continuity_ok'', JBool (candle_continuity_ok current (so_timeframe opts))),
       (''session_start_available'', JBool (has_session_start current)),
       (''last_candle_at'', JStr (isoformat (started_at (last bars)))),
       (''stale'', JBool (is_stale_symbol s now bars)),
       (''latest_close'', number (Some (ms_latest_close m))),
       (''avg_volume'', number (ms_avg_volume m)), (''avg_turnover'', number (ms_avg_turnover m)),
       (''today_volume'', number (Some (ms_today_volume m))),
       (''today_turnover'', number (Some (ms_today_turnover m))),
       (''relative_volume'', number (ms_relative_volume m)),
       (''atr14'', number (atr_14 (ms_indicators m))), (''atr_pct'', number (ms_atr_pct m)),
       (''high_low_range_pct'', number (ms_high_low_range m)),
       (''opening_range_pct'', number (ms_opening_range_pct m)),
       (''return_from_open_pct'', number (ms_return_from_open m)),
       (''return_from_previous_close_pct'', number (ms_return_from_previous m)),
       (''distance_from_vwap_pct'', number (ms_distance_vwap m)),
       (''ema9_vs_ema20_pct'', number (ms_ema9_vs_ema20 m)),
       (''ema20_slope_proxy'', number (ms_ema20_slope m)),
       (''relative_strength_vs_benchmark'', number (relative_index_move (ms_indicators m))),
       (''near_opening_range_high'', JBool (near_opening_high m)), (''above_vwap'', JBool (above_vwap m)),
       (''above_previous_day_high'', JBool (above_previous_high m)),
       (''volume_expansion'', JBool (volume_expansion m)), (''trend_alignment'', JBool (trend_alignment m))])"

definition score_symbol ::
  "settings \<Rightarrow> score_options \<Rightarrow> instant \<Rightarrow> string \<Rightarrow> completed_bar list \<Rightarrow> completed_bar list \<Rightarrow> bool \<Rightarrow>
     universe_symbol_result res" where
  "score_symbol s opts now symb bars benchmark_bars active =
     (let exclusions = candle_exclusions s opts now bars;
          warnings = stale_warning s opts now bars;
          fi = build_feature_input bars
      in if bars = []
         then Inr (excluded_result symb (if exclusions = [] then [''insufficient_candles''] else exclusions) warnings)
         else bindE (measures s bars benchmark_bars fi (scoring_bars_of opts fi)) (\<lambda>m.
           let all_exclusions = exclusions @ measure_exclusions s m;
               all_warnings = warnings
                 @ (if ms_relative_volume m = None then [''relative_volume_unavailable''] else [])
                 @ (if benchmark_bars = [] then [''benchmark_missing''] else [])
                 @ (if ms_atr_pct m = None then [''atr_pct_unavailable''] else []);
               components = component_scores m (all_exclusions = [])
           in Inr \<lparr>us_symbol = symb, us_rank = None,
                us_total_score = (if all_exclusions = [] then py_round 4 (fsum (map snd components)) else 0),
                us_component_scores = components, us_metrics = metrics_of s opts now bars active m,
                us_included = (all_exclusions = []), us_exclusion_reasons = uniq all_exclusions,
                us_warnings = uniq all_warnings\<rparr>))"

subsection \<open>Bounds of the scores\<close>

lemma scaled_range: "0 \<le> m \<Longrightarrow> m < 2 ^ 53 \<Longrightarrow> 0 < full \<Longrightarrow> 0 \<le> scaled v full (of_int m) \<and> scaled v full (of_int m) \<le> of_int m"
proof -
  assume m: "0 \<le> m" "m < 2 ^ 53" and full: "0 < full"
  have *: "0 \<le> py_round 4 (min (fmul (f64 (ddiv x full)) (of_int m)) (of_int m)) \<and>
      py_round 4 (min (fmul (f64 (ddiv x full)) (of_int m)) (of_int m)) \<le> of_int m" if "0 < x" for x
  proof (rule py_round_range)
    have "0 \<le> ddiv x full" using that full by (intro ddiv_nonneg) auto
    then show "0 \<le> min (fmul (f64 (ddiv x full)) (of_int m)) (of_int m)"
      using m(1) by (simp add: fmul_def f64_nonneg)
  qed (use m in simp_all)
  show ?thesis using m(1) * by (simp add: scaled_def split: option.splits)
qed

lemma volatility_range: "0 \<le> volatility_score v \<and> volatility_score v \<le> 15"
proof (cases v)
  case (Some a)
  have d: "0 \<le> fmul \<bar>fsub (f64 a) (3 / 2)\<bar> 5" by (simp add: fmul_def f64_nonneg)
  have "max 0 (fsub 15 (fmul \<bar>fsub (f64 a) (3 / 2)\<bar> 5)) \<le> of_int 15"
  proof (cases "fmul \<bar>fsub (f64 a) (3 / 2)\<bar> 5 \<le> 15")
    case True
    with d have "f64 (15 - fmul \<bar>fsub (f64 a) (3 / 2)\<bar> 5) \<le> of_int 15" by (intro f64_le_int) auto
    then show ?thesis by (simp add: fsub_def)
  next
    case False
    then have "0 \<le> f64 (fmul \<bar>fsub (f64 a) (3 / 2)\<bar> 5 - 15)" by (intro f64_nonneg) simp
    then show ?thesis using f64_minus [of "fmul \<bar>fsub (f64 a) (3 / 2)\<bar> 5 - 15"] by (simp add: fsub_def)
  qed
  then have "0 \<le> py_round 4 (max 0 (fsub 15 (fmul \<bar>fsub (f64 a) (3 / 2)\<bar> 5))) \<and>
      py_round 4 (max 0 (fsub 15 (fmul \<bar>fsub (f64 a) (3 / 2)\<bar> 5))) \<le> of_int 15"
    by (intro py_round_range) simp_all
  with Some show ?thesis by (simp add: volatility_score_def)
qed (simp add: volatility_score_def)

lemma points_range: "length flags = 4 \<Longrightarrow> 0 \<le> points flags \<and> points flags \<le> 20"
proof -
  assume l: "length flags = 4"
  have "list_all2 (\<lambda>x m. 0 \<le> x \<and> x \<le> of_int m) (map (\<lambda>b. if b then 5 else (0 :: rat)) flags) (replicate 4 5)"
    using l by (auto simp: list_all2_conv_all_nth)
  from fsum_range [OF this] have "0 \<le> fsum (map (\<lambda>b. if b then 5 else 0) flags) \<and>
      fsum (map (\<lambda>b. if b then 5 else 0) flags) \<le> of_int 20" by (simp add: sum_list_replicate)
  then have "0 \<le> points flags \<and> points flags \<le> of_int 20"
    unfolding points_def by (intro py_round_range) (auto simp: l)
  then show ?thesis by simp
qed

lemma component_scores_range:
  "list_all2 (\<lambda>x m. 0 \<le> x \<and> x \<le> of_int m) (map snd (component_scores m clean)) [15, 15, 15, 20, 20, 15]"
  using scaled_range [of 15 1000000 "ms_avg_turnover m"] scaled_range [of 15 2 "ms_relative_volume m"]
    volatility_range [of "ms_atr_pct m"]
    points_range [of "[above_vwap m, is_positive (ms_ema9_vs_ema20 m),
         is_positive (ms_return_from_open m), is_positive (ms_ema20_slope m)]"]
    points_range [of "[near_opening_high m, above_previous_high m, volume_expansion m, trend_alignment m]"]
  by (simp add: component_scores_def)

lemma total_score_range:
  "0 \<le> py_round 4 (fsum (map snd (component_scores m clean))) \<and>
   py_round 4 (fsum (map snd (component_scores m clean))) \<le> 100"
proof -
  have "0 \<le> fsum (map snd (component_scores m clean)) \<and> fsum (map snd (component_scores m clean)) \<le> of_int 100"
    using fsum_range [OF component_scores_range [of m clean]] by simp
  then show ?thesis using py_round_range [of "fsum (map snd (component_scores m clean))" 100 4] by simp
qed

text \<open>What a score says: the symbol, the reasons, and a total between 0 and 100.\<close>

lemma score_symbol_result:
  assumes "score_symbol s opts now symb bars benchmark_bars active = Inr r"
  shows "us_symbol r = symb \<and> us_rank r = None \<and> (us_included r \<longleftrightarrow> us_exclusion_reasons r = []) \<and>
     0 \<le> us_total_score r \<and> us_total_score r \<le> 100 \<and> (\<not> us_included r \<longrightarrow> us_total_score r = 0)"
proof (cases "bars = []")
  case True
  with assms show ?thesis by (auto simp: score_symbol_def excluded_result_def Let_def split: if_splits)
next
  case False
  with assms obtain m where r: "r = \<lparr>us_symbol = symb, us_rank = None,
      us_total_score = (if candle_exclusions s opts now bars @ measure_exclusions s m = []
        then py_round 4 (fsum (map snd (component_scores m (candle_exclusions s opts now bars @ measure_exclusions s m = []))))
        else 0),
      us_component_scores = component_scores m (candle_exclusions s opts now bars @ measure_exclusions s m = []),
      us_metrics = metrics_of s opts now bars active m,
      us_included = (candle_exclusions s opts now bars @ measure_exclusions s m = []),
      us_exclusion_reasons = uniq (candle_exclusions s opts now bars @ measure_exclusions s m),
      us_warnings = us_warnings r\<rparr>"
    unfolding score_symbol_def Let_def by (auto simp only: if_False bindE_eq_Inr sum.inject
        universe_symbol_result.select_convs)
  show ?thesis using total_score_range [of m True] by (subst (1 2 3 4 5 6 7 8) r) simp
qed

text \<open>A symbol that is included has enough recent, gap free candles and passes the price filters.\<close>

lemma included_passes:
  assumes "score_symbol s opts now symb bars benchmark_bars active = Inr r" "us_included r"
  shows "bars \<noteq> [] \<and> so_min_candles opts \<le> int (length (scoring_bars_of opts (build_feature_input bars))) \<and>
     (universe_selection_require_continuity s \<longrightarrow>
        candle_continuity_ok (current_session_bars (build_feature_input bars)) (so_timeframe opts)) \<and>
     (so_stale_policy opts = ''exclude'' \<longrightarrow> \<not> is_stale_symbol s now bars) \<and>
     universe_selection_min_price s \<le> close_price (last bars) \<and>
     close_price (last bars) \<le> universe_selection_max_price s"
proof -
  have ne: "bars \<noteq> []"
  proof
    assume "bars = []"
    with assms show False by (auto simp: score_symbol_def excluded_result_def Let_def)
  qed
  with assms obtain m where m: "measures s bars benchmark_bars (build_feature_input bars)
      (scoring_bars_of opts (build_feature_input bars)) = Inr m"
    and e: "candle_exclusions s opts now bars @ measure_exclusions s m = []"
    unfolding score_symbol_def Let_def by (auto simp only: if_False bindE_eq_Inr sum.inject
        universe_symbol_result.select_convs)
  have close: "ms_latest_close m = close_price (last bars)"
    using m by (auto simp: measures_def bindE_eq_Inr Let_def)
  have "candle_exclusions s opts now bars = []" "measure_exclusions s m = []" using e by auto
  then show ?thesis using ne close
    by (auto simp: candle_exclusions_def measure_exclusions_def Let_def not_less split: if_splits)
qed

end
