(* ===== verification/UniverseSelection.thy ===== *)
theory UniverseSelection
  imports UniverseScoring WatchlistValidation DecisionRepository
begin

section \<open>Universe selection\<close>

text \<open>
  \<^verbatim>\<open>app/universe/validation.py\<close>, \<^verbatim>\<open>repository.py\<close> and \<^verbatim>\<open>service.py\<close>: the pool of symbols from the
  request, a file or the settings, its validation against the stored instruments, the scoring of the
  eligible symbols, the ranking, and the storage of a run. The reading of the pool file, the readings
  of the clock and the run id are parameters.
\<close>

subsection \<open>The pool\<close>

record pool_source =
  ps_source :: string
  ps_entries :: "string list"
  ps_errors :: "string list"
  ps_warnings :: "string list"

definition load_pool_source :: "(string \<Rightarrow> string option) \<Rightarrow> settings \<Rightarrow> string list option \<Rightarrow> pool_source" where
  "load_pool_source read_text s symbols =
     (case symbols of
        Some entries \<Rightarrow> \<lparr>ps_source = ''request'', ps_entries = entries, ps_errors = [], ps_warnings = []\<rparr>
      | None \<Rightarrow>
          if universe_selection_pool_file s \<noteq> [] then
            let warnings = (if strip (universe_selection_pool s) \<noteq> []
                  then [''universe_pool_file_overrides_environment_string''] else [])
            in (case read_text (universe_selection_pool_file s) of
                  None \<Rightarrow> \<lparr>ps_source = ''file'', ps_entries = [],
                    ps_errors = [''universe_pool_file_unreadable''], ps_warnings = warnings\<rparr>
                | Some text \<Rightarrow> \<lparr>ps_source = ''file'', ps_entries = file_entries (splitlines text),
                    ps_errors = [], ps_warnings = warnings\<rparr>)
          else if strip (universe_selection_pool s) \<noteq> [] then
            \<lparr>ps_source = ''environment'', ps_entries = comma_entries (universe_selection_pool s),
             ps_errors = [], ps_warnings = []\<rparr>
          else \<lparr>ps_source = ''market_watchlist_fallback'',
             ps_entries = comma_entries (market_data_watchlist s), ps_errors = [],
             ps_warnings = [''universe_pool_fell_back_to_market_watchlist'']\<rparr>)"

text \<open>\<^verbatim>\<open>[A-Z0-9]+\<close> on the whole symbol.\<close>

definition plain_symbol :: "string \<Rightarrow> bool" where
  "plain_symbol s \<longleftrightarrow> s \<noteq> [] \<and> list_all (\<lambda>c. is_upper c \<or> is_digit c) s"

text \<open>The lists that the loop fills; the set \<^verbatim>\<open>seen\<close> holds the elements of \<open>pl_normalized\<close>.\<close>

record pool_loop =
  pl_parsed :: "string list"
  pl_normalized :: "string list"
  pl_invalid :: "string list"
  pl_duplicates :: "string list"
  pl_non_nse :: "string list"
  pl_special :: "string list"

definition pool_start :: pool_loop where
  "pool_start = \<lparr>pl_parsed = [], pl_normalized = [], pl_invalid = [], pl_duplicates = [],
     pl_non_nse = [], pl_special = []\<rparr>"

definition pool_symbol :: "string \<Rightarrow> string \<Rightarrow> string \<Rightarrow> pool_loop \<Rightarrow> pool_loop" where
  "pool_symbol entry exchange tradingsymbol l =
     (let key = symbol_key exchange tradingsymbol in
      l\<lparr>pl_parsed := pl_parsed l @ [entry],
        pl_non_nse := (if exchange \<noteq> mvp_exchange then pl_non_nse l @ [key] else pl_non_nse l),
        pl_special := (if \<not> plain_symbol tradingsymbol then pl_special l @ [key] else pl_special l),
        pl_duplicates := (if key \<in> set (pl_normalized l) then pl_duplicates l @ [key] else pl_duplicates l),
        pl_normalized := (if key \<in> set (pl_normalized l) then pl_normalized l else pl_normalized l @ [key])\<rparr>)"

definition pool_entry :: "string \<Rightarrow> pool_loop \<Rightarrow> pool_loop" where
  "pool_entry entry l =
     (if count_char CHR '':'' entry \<noteq> 1 then l\<lparr>pl_invalid := pl_invalid l @ [entry]\<rparr>
      else case split_once CHR '':'' entry of
          [a, b] \<Rightarrow>
            let exchange = upper (strip a); tradingsymbol = upper (strip b)
            in if exchange = [] \<or> tradingsymbol = [] then l\<lparr>pl_invalid := pl_invalid l @ [entry]\<rparr>
               else pool_symbol entry exchange tradingsymbol l
        | _ \<Rightarrow> l\<lparr>pl_invalid := pl_invalid l @ [entry]\<rparr>)"

record pool_validation =
  pv_source :: string
  pv_configured_count :: nat
  pv_max_pool_symbols :: int
  pv_parsed_symbols :: "string list"
  pv_normalized_symbols :: "string list"
  pv_invalid_format_symbols :: "string list"
  pv_duplicate_symbols :: "string list"
  pv_non_nse_symbols :: "string list"
  pv_special_character_symbols :: "string list"
  pv_over_limit :: bool
  pv_active_symbols :: "string list"
  pv_missing_symbols :: "string list"
  pv_inactive_symbols :: "string list"
  pv_eligible_for_scoring :: "string list"
  pv_errors :: "string list"
  pv_warnings :: "string list"

definition pool_as_dict :: "pool_validation \<Rightarrow> (string \<times> json) list" where
  "pool_as_dict v =
     [(''source'', JStr (pv_source v)), (''configured_count'', JInt (int (pv_configured_count v))),
      (''max_pool_symbols'', JInt (pv_max_pool_symbols v)),
      (''parsed_symbols'', jstrs (pv_parsed_symbols v)),
      (''normalized_symbols'', jstrs (pv_normalized_symbols v)),
      (''invalid_format_symbols'', jstrs (pv_invalid_format_symbols v)),
      (''duplicate_symbols'', jstrs (pv_duplicate_symbols v)),
      (''non_nse_symbols'', jstrs (pv_non_nse_symbols v)),
      (''special_character_symbols'', jstrs (pv_special_character_symbols v)),
      (''over_limit'', JBool (pv_over_limit v)), (''active_symbols'', jstrs (pv_active_symbols v)),
      (''missing_symbols'', jstrs (pv_missing_symbols v)),
      (''inactive_symbols'', jstrs (pv_inactive_symbols v)),
      (''eligible_for_scoring'', jstrs (pv_eligible_for_scoring v)), (''errors'', jstrs (pv_errors v)),
      (''warnings'', jstrs (pv_warnings v))]"

definition syntactically_eligible :: "settings \<Rightarrow> pool_loop \<Rightarrow> string list" where
  "syntactically_eligible s l =
     filter (\<lambda>k. k \<notin> set (pl_non_nse l)
        \<and> \<not> (universe_selection_exclude_special_char_symbols s \<and> k \<in> set (pl_special l))) (pl_normalized l)"

definition pool_over_limit :: "settings \<Rightarrow> pool_source \<Rightarrow> bool" where
  "pool_over_limit s source \<longleftrightarrow> universe_selection_max_pool_symbols s < 1
     \<or> universe_selection_max_pool_symbols s < int (length (ps_entries source))"

definition pool_result :: "settings \<Rightarrow> pool_source \<Rightarrow> pool_loop \<Rightarrow> instrument_record list \<Rightarrow> pool_validation" where
  "pool_result s source l records =
     (let eligible = syntactically_eligible s l;
          missing = sort (filter (\<lambda>k. record_by_key records k = None) eligible);
          inactive = sort (filter (\<lambda>k. case record_by_key records k of
             None \<Rightarrow> False | Some r \<Rightarrow> \<not> ic_is_active r) eligible);
          active = sort (filter (\<lambda>k. case record_by_key records k of
             None \<Rightarrow> False | Some r \<Rightarrow> ic_is_active r) eligible);
          over = pool_over_limit s source
      in \<lparr>pv_source = ps_source source, pv_configured_count = length (ps_entries source),
          pv_max_pool_symbols = universe_selection_max_pool_symbols s,
          pv_parsed_symbols = pl_parsed l, pv_normalized_symbols = pl_normalized l,
          pv_invalid_format_symbols = pl_invalid l,
          pv_duplicate_symbols = sort (remdups (pl_duplicates l)),
          pv_non_nse_symbols = sort (remdups (pl_non_nse l)),
          pv_special_character_symbols = sort (remdups (pl_special l)),
          pv_over_limit = over, pv_active_symbols = active, pv_missing_symbols = missing,
          pv_inactive_symbols = inactive,
          pv_eligible_for_scoring = filter (\<lambda>k. k \<notin> set missing
             \<and> (\<not> universe_selection_require_active_instrument s \<or> k \<notin> set inactive)) eligible,
          pv_errors = uniq (ps_errors source
            @ (if ps_entries source = [] then [''universe_pool_empty''] else [])
            @ (if pl_invalid l \<noteq> []
               then [''universe_pool_entries_must_use_exchange_colon_tradingsymbol''] else [])
            @ (if pl_duplicates l \<noteq> [] then [''duplicate_universe_pool_symbol''] else [])
            @ (if pl_non_nse l \<noteq> [] then [''only_nse_supported_in_current_mvp''] else [])
            @ (if pl_special l \<noteq> [] \<and> universe_selection_exclude_special_char_symbols s
               then [''special_character_symbols_excluded''] else [])
            @ (if over then [''universe_pool_exceeds_configured_maximum''] else [])
            @ (if missing \<noteq> [] then [''universe_pool_symbols_not_synced''] else [])
            @ (if inactive \<noteq> [] \<and> universe_selection_require_active_instrument s
               then [''universe_pool_symbols_inactive''] else [])),
          pv_warnings = uniq (ps_warnings source)\<rparr>)"

subsection \<open>Runs and the repository\<close>

record universe_run =
  un_run_id :: string
  un_started_at :: instant
  un_finished_at :: instant
  un_enabled :: bool
  un_timeframe :: string
  un_pool_count :: nat
  un_scored_count :: nat
  un_selected_count :: nat
  un_selected_symbols :: "string list"
  un_ranked_symbols :: "(string \<times> json) list list"
  un_excluded_symbols :: "(string \<times> json) list list"
  un_errors :: "string list"
  un_warnings :: "string list"
  un_config_snapshot :: "(string \<times> json) list"

text \<open>\<^verbatim>\<open>int(delta.total_seconds() * 1000)\<close>, with the division and the product of floats.\<close>

definition delta_ms :: "int \<Rightarrow> int" where
  "delta_ms us =
     (let q = fmul (f64 (of_int us / 1000000)) 1000 in if 0 \<le> q then \<lfloor>q\<rfloor> else \<lceil>q\<rceil>)"

definition run_as_dict :: "universe_run \<Rightarrow> (string \<times> json) list" where
  "run_as_dict r =
     [(''run_id'', JStr (un_run_id r)), (''started_at'', JStr (isoformat (un_started_at r))),
      (''finished_at'', JStr (isoformat (un_finished_at r))),
      (''duration_ms'', JInt (delta_ms (un_finished_at r - un_started_at r))),
      (''enabled'', JBool (un_enabled r)), (''timeframe'', JStr (un_timeframe r)),
      (''pool_count'', JInt (int (un_pool_count r))), (''scored_count'', JInt (int (un_scored_count r))),
      (''selected_count'', JInt (int (un_selected_count r))),
      (''selected_symbols'', jstrs (un_selected_symbols r)),
      (''ranked_symbols'', JList (map JObj (un_ranked_symbols r))),
      (''excluded_symbols'', JList (map JObj (un_excluded_symbols r))),
      (''errors'', jstrs (un_errors r)), (''warnings'', jstrs (un_warnings r)),
      (''config_snapshot'', JObj (un_config_snapshot r))]"

record 's universe_repository =
  un_inspect_instruments :: "string list \<Rightarrow> 's \<Rightarrow> instrument_record list res"
  un_load_completed_bars :: "string \<Rightarrow> string \<Rightarrow> int \<Rightarrow> 's \<Rightarrow> completed_bar list res"
  un_save_run :: "universe_run \<Rightarrow> ('s, unit) prog"
  un_latest_run :: "'s \<Rightarrow> universe_run option"
  un_list_runs :: "int \<Rightarrow> 's \<Rightarrow> universe_run list"
  un_get_run :: "string \<Rightarrow> 's \<Rightarrow> universe_run option"

definition usql_inspect_instruments :: "string list \<Rightarrow> database \<Rightarrow> instrument_record list res" where
  "usql_inspect_instruments symbols d =
     bindE (mapE split_symbol symbols) (\<lambda>pairs.
       mapE instrument_from_row (List.map_filter (\<lambda>(e, t). find_instrument e t d) pairs))"

definition usql_load_completed_bars :: "string \<Rightarrow> string \<Rightarrow> int \<Rightarrow> database \<Rightarrow> completed_bar list res" where
  "usql_load_completed_bars symb timeframe limit d =
     bindE (split_symbol symb) (\<lambda>(exchange, tradingsymbol).
       Inr (rev (map (\<lambda>b. b\<lparr>bar_symbol := symb\<rparr>) (slice_first limit (sort_key (\<lambda>b. - started_at b)
         (candle_query d exchange tradingsymbol timeframe))))))"

definition run_values :: "universe_run \<Rightarrow> universe_run_row" where
  "run_values r =
     \<lparr>ur_id = 0, ur_run_id = un_run_id r, ur_created_at = 0, ur_started_at = un_started_at r,
      ur_finished_at = un_finished_at r, ur_timeframe = un_timeframe r,
      ur_pool_count = un_pool_count r, ur_scored_count = un_scored_count r,
      ur_selected_count = un_selected_count r, ur_selected_symbols = un_selected_symbols r,
      ur_ranked_symbols = un_ranked_symbols r, ur_excluded_symbols = un_excluded_symbols r,
      ur_config_snapshot = un_config_snapshot r, ur_warnings = un_warnings r, ur_errors = un_errors r\<rparr>"

definition usql_save_run :: "universe_run \<Rightarrow> (database, unit) prog" where
  "usql_save_run r = (\<lambda>d.
     if list_ex (\<lambda>x. ur_run_id x = un_run_id r) (db_universe_runs d) then (Inl IntegrityError, d)
     else (Inr (), d\<lparr>db_universe_runs := db_universe_runs d @
       [(run_values r)\<lparr>ur_id := next_id (db_universe_runs d), ur_created_at := db_now d\<rparr>]\<rparr>))"

definition run_from_row :: "universe_run_row \<Rightarrow> universe_run" where
  "run_from_row r =
     \<lparr>un_run_id = ur_run_id r, un_started_at = ur_started_at r, un_finished_at = ur_finished_at r,
      un_enabled = True, un_timeframe = ur_timeframe r, un_pool_count = ur_pool_count r,
      un_scored_count = ur_scored_count r, un_selected_count = ur_selected_count r,
      un_selected_symbols = ur_selected_symbols r, un_ranked_symbols = ur_ranked_symbols r,
      un_excluded_symbols = ur_excluded_symbols r, un_errors = ur_errors r,
      un_warnings = ur_warnings r, un_config_snapshot = ur_config_snapshot r\<rparr>"

definition newest_runs :: "database \<Rightarrow> universe_run_row list" where
  "newest_runs d = sort_key (\<lambda>r. (- ur_created_at r, - ur_id r)) (db_universe_runs d)"

definition usql_latest_run :: "database \<Rightarrow> universe_run option" where
  "usql_latest_run d = map_option run_from_row (first_row (newest_runs d))"

definition usql_list_runs :: "int \<Rightarrow> database \<Rightarrow> universe_run list" where
  "usql_list_runs limit d = map run_from_row (slice_first limit (newest_runs d))"

definition usql_get_run :: "string \<Rightarrow> database \<Rightarrow> universe_run option" where
  "usql_get_run run_id d = map_option run_from_row
     (first_row (filter (\<lambda>r. ur_run_id r = run_id) (db_universe_runs d)))"

definition universe_sql_repository :: "database universe_repository" where
  "universe_sql_repository =
     \<lparr>un_inspect_instruments = usql_inspect_instruments,
      un_load_completed_bars = usql_load_completed_bars, un_save_run = usql_save_run,
      un_latest_run = usql_latest_run, un_list_runs = usql_list_runs, un_get_run = usql_get_run\<rparr>"

definition validate_pool ::
  "'s universe_repository \<Rightarrow> (string \<Rightarrow> string option) \<Rightarrow> settings \<Rightarrow> string list option \<Rightarrow> 's \<Rightarrow>
     pool_validation res" where
  "validate_pool repo read_text s symbols st =
     (let source = load_pool_source read_text s symbols;
          l = fold pool_entry (ps_entries source) pool_start
      in bindE (un_inspect_instruments repo (syntactically_eligible s l) st) (\<lambda>records.
           Inr (pool_result s source l records)))"

subsection \<open>Selection\<close>

record select_options =
  sl_limit :: "int option"
  sl_timeframe :: "string option"
  sl_dry_run :: bool
  sl_include_excluded :: bool
  sl_use_current_session :: bool
  sl_min_candles :: "int option"
  sl_symbols :: "string list option"
  sl_stale_policy :: "string option"

text \<open>\<^verbatim>\<open>value or default\<close>.\<close>

definition int_or :: "int option \<Rightarrow> int \<Rightarrow> int" where
  "int_or v dflt = (case v of None \<Rightarrow> dflt | Some i \<Rightarrow> if i = 0 then dflt else i)"

definition str_or :: "string option \<Rightarrow> string \<Rightarrow> string" where
  "str_or v dflt = (case v of None \<Rightarrow> dflt | Some t \<Rightarrow> if t = [] then dflt else t)"

record select_plan =
  sp_timeframe :: string
  sp_output_limit :: int
  sp_required_candles :: int
  sp_stale_policy :: string

definition select_plan_of :: "settings \<Rightarrow> select_options \<Rightarrow> select_plan res" where
  "select_plan_of s opts =
     (let timeframe = str_or (sl_timeframe opts) (universe_selection_timeframe s);
          output_limit = int_or (sl_limit opts) (universe_selection_output_limit s);
          required = int_or (sl_min_candles opts) (universe_selection_min_session_candles s);
          policy = lower (strip (str_or (sl_stale_policy opts) (universe_selection_stale_policy s)))
      in if \<not> universe_selection_enabled s
         then Inl (UniverseSelectionDisabledError ''Universe selection is disabled.'')
         else if timeframe \<noteq> ''1minute''
         then Inl (UniverseInputError ''Universe selection supports only 1minute candles.'')
         else if output_limit < 1 \<or> universe_selection_max_pool_symbols s < output_limit
         then Inl (UniverseInputError ''Universe output limit is invalid.'')
         else if required < 1
         then Inl (UniverseInputError ''Universe minimum candles must be positive.'')
         else if policy \<notin> set [''exclude'', ''warn'', ''ignore'']
         then Inl (UniverseInputError ''Universe stale policy must be exclude, warn, or ignore.'')
         else Inr \<lparr>sp_timeframe = timeframe, sp_output_limit = output_limit,
                sp_required_candles = required, sp_stale_policy = policy\<rparr>)"

text \<open>\<^verbatim>\<open>reasons_by_symbol.setdefault(symbol, []).append(reason)\<close>.\<close>

fun add_reason :: "string \<Rightarrow> string \<Rightarrow> (string \<times> string list) list \<Rightarrow> (string \<times> string list) list" where
  "add_reason reason symb [] = [(symb, [reason])]"
| "add_reason reason symb ((k, rs) # d) =
     (if k = symb then (k, rs @ [reason]) # d else (k, rs) # add_reason reason symb d)"

definition exclusion_mappings :: "pool_validation \<Rightarrow> (string list \<times> string) list" where
  "exclusion_mappings v =
     [(pv_missing_symbols v, ''missing_instrument''), (pv_inactive_symbols v, ''inactive_instrument''),
      (pv_special_character_symbols v, ''special_character_symbol''),
      (pv_invalid_format_symbols v, ''invalid_format_symbol''), (pv_non_nse_symbols v, ''non_nse_symbol'')]"

definition validation_exclusions :: "pool_validation \<Rightarrow> universe_symbol_result list" where
  "validation_exclusions v =
     map (\<lambda>(symb, reasons).
        \<lparr>us_symbol = symb, us_rank = None, us_total_score = 0,
         us_component_scores = map (\<lambda>(k, w). (k, 0)) score_weights, us_metrics = [], us_included = False,
         us_exclusion_reasons = reasons, us_warnings = []\<rparr>)
       (sort_key fst (fold (\<lambda>(symbols, reason) d. fold (add_reason reason) symbols d) (exclusion_mappings v) []))"

definition candle_limit :: "settings \<Rightarrow> select_plan \<Rightarrow> int" where
  "candle_limit s p = max (sp_required_candles p) (universe_selection_lookback_days s * 375)"

definition score_options_of :: "select_plan \<Rightarrow> select_options \<Rightarrow> score_options" where
  "score_options_of p opts =
     \<lparr>so_timeframe = sp_timeframe p, so_min_candles = sp_required_candles p,
      so_use_current_session = sl_use_current_session opts, so_stale_policy = sp_stale_policy p\<rparr>"

definition load_benchmark ::
  "'s universe_repository \<Rightarrow> settings \<Rightarrow> select_plan \<Rightarrow> 's \<Rightarrow> completed_bar list res" where
  "load_benchmark repo s p st =
     (if universe_selection_benchmark_symbol s \<noteq> []
      then un_load_completed_bars repo (universe_selection_benchmark_symbol s) (sp_timeframe p)
             (candle_limit s p) st
      else Inr [])"

definition score_pool ::
  "'s universe_repository \<Rightarrow> settings \<Rightarrow> select_plan \<Rightarrow> select_options \<Rightarrow> instant \<Rightarrow>
     completed_bar list \<Rightarrow> pool_validation \<Rightarrow> 's \<Rightarrow> universe_symbol_result list res" where
  "score_pool repo s p opts now benchmark_bars v st =
     mapE (\<lambda>symb. bindE (un_load_completed_bars repo symb (sp_timeframe p) (candle_limit s p) st) (\<lambda>bars.
         score_symbol s (score_options_of p opts) now symb bars benchmark_bars
           (symb \<notin> set (pv_inactive_symbols v))))
       (pv_eligible_for_scoring v)"

definition rank_included :: "universe_symbol_result list \<Rightarrow> universe_symbol_result list" where
  "rank_included results =
     map (\<lambda>(i, r). r\<lparr>us_rank := Some i\<rparr>)
       (enumerate 1 (sort_key (\<lambda>r. (- us_total_score r, us_symbol r)) (filter us_included results)))"

definition config_snapshot :: "settings \<Rightarrow> select_plan \<Rightarrow> select_options \<Rightarrow> (string \<times> json) list" where
  "config_snapshot s p opts =
     [(''output_limit'', JInt (sp_output_limit p)),
      (''min_session_candles'', JInt (sp_required_candles p)),
      (''lookback_days'', JInt (universe_selection_lookback_days s)),
      (''require_active_instrument'', JBool (universe_selection_require_active_instrument s)),
      (''require_continuity'', JBool (universe_selection_require_continuity s)),
      (''benchmark_symbol'', JStr (universe_selection_benchmark_symbol s)),
      (''min_price'', JFloat (universe_selection_min_price s)),
      (''max_price'', JFloat (universe_selection_max_price s)),
      (''min_avg_turnover'', JFloat (universe_selection_min_avg_turnover s)),
      (''min_atr_pct'', JFloat (universe_selection_min_atr_pct s)),
      (''max_atr_pct'', JFloat (universe_selection_max_atr_pct s)),
      (''use_current_session'', JBool (sl_use_current_session opts)),
      (''stale_policy'', JStr (sp_stale_policy p)),
      (''score_weights'', JObj (map (\<lambda>(k, w). (k, JFloat w)) score_weights))]"

definition run_of ::
  "settings \<Rightarrow> select_plan \<Rightarrow> select_options \<Rightarrow> string \<Rightarrow> instant \<Rightarrow> instant \<Rightarrow> pool_validation \<Rightarrow>
     completed_bar list \<Rightarrow> universe_symbol_result list \<Rightarrow> universe_run" where
  "run_of s p opts run_id started finished v benchmark_bars results =
     (let ranked = rank_included results;
          chosen = slice_first (sp_output_limit p) ranked;
          excluded = filter (\<lambda>r. \<not> us_included r) results
      in \<lparr>un_run_id = run_id, un_started_at = started, un_finished_at = finished, un_enabled = True,
          un_timeframe = sp_timeframe p, un_pool_count = pv_configured_count v,
          un_scored_count = length ranked, un_selected_count = length chosen,
          un_selected_symbols = map us_symbol chosen,
          un_ranked_symbols = map symbol_score_as_dict ranked,
          un_excluded_symbols = (if sl_include_excluded opts then map symbol_score_as_dict excluded else []),
          un_errors = pv_errors v,
          un_warnings = uniq (pv_warnings v @ (if benchmark_bars = [] then [''benchmark_missing''] else [])),
          un_config_snapshot = config_snapshot s p opts\<rparr>)"

text \<open>What \<^verbatim>\<open>select\<close> computes before it stores the run.\<close>

record selection_inputs =
  si_plan :: select_plan
  si_validation :: pool_validation
  si_benchmark_bars :: "completed_bar list"
  si_results :: "universe_symbol_result list"

definition selection_of ::
  "'s universe_repository \<Rightarrow> (string \<Rightarrow> string option) \<Rightarrow> settings \<Rightarrow> select_options \<Rightarrow> instant \<Rightarrow> 's \<Rightarrow>
     selection_inputs res" where
  "selection_of repo read_text s opts started st =
     bindE (select_plan_of s opts) (\<lambda>p.
     bindE (validate_pool repo read_text s (sl_symbols opts) st) (\<lambda>v.
     bindE (load_benchmark repo s p st) (\<lambda>benchmark_bars.
     bindE (score_pool repo s p opts started benchmark_bars v st) (\<lambda>scored.
       Inr \<lparr>si_plan = p, si_validation = v, si_benchmark_bars = benchmark_bars,
            si_results = validation_exclusions v @ scored\<rparr>))))"

definition select_universe ::
  "'s universe_repository \<Rightarrow> (string \<Rightarrow> string option) \<Rightarrow> settings \<Rightarrow> select_options \<Rightarrow> string \<Rightarrow>
     instant \<Rightarrow> instant \<Rightarrow> ('s, universe_run) prog" where
  "select_universe repo read_text s opts run_id started finished =
     bindS (\<lambda>st. (selection_of repo read_text s opts started st, st)) (\<lambda>i.
       let run = run_of s (si_plan i) opts run_id started finished (si_validation i)
             (si_benchmark_bars i) (si_results i)
       in bindS (whenS (universe_selection_store_runs s \<and> \<not> sl_dry_run opts) (un_save_run repo run))
            (\<lambda>_. retS run))"

definition latest_selected_symbols :: "'s universe_repository \<Rightarrow> 's \<Rightarrow> string list option" where
  "latest_selected_symbols repo st = map_option un_selected_symbols (un_latest_run repo st)"

definition list_universe_runs :: "'s universe_repository \<Rightarrow> int \<Rightarrow> 's \<Rightarrow> universe_run list" where
  "list_universe_runs repo requested st = un_list_runs repo (max 1 (min requested 100)) st"

definition universe_status ::
  "'s universe_repository \<Rightarrow> (string \<Rightarrow> string option) \<Rightarrow> settings \<Rightarrow> 's \<Rightarrow> (string \<times> json) list res" where
  "universe_status repo read_text s st =
     bindE (validate_pool repo read_text s None st) (\<lambda>pool.
       let latest = un_latest_run repo st in Inr
       [(''enabled'', JBool (universe_selection_enabled s)),
        (''store_runs'', JBool (universe_selection_store_runs s)),
        (''output_limit'', JInt (universe_selection_output_limit s)),
        (''timeframe'', JStr (universe_selection_timeframe s)),
        (''use_latest_for_scanner_batch'', JBool (universe_selection_use_latest_for_scanner_batch s)),
        (''auto_loop_use_selected_universe'', JBool (scanner_auto_loop_use_selected_universe s)),
        (''latest_run_at'', jopt (\<lambda>r. JStr (isoformat (un_finished_at r))) latest),
        (''latest_selected_count'', JInt (case latest of None \<Rightarrow> 0 | Some r \<Rightarrow> int (un_selected_count r))),
        (''latest_selected_symbols'', jstrs (case latest of None \<Rightarrow> [] | Some r \<Rightarrow> un_selected_symbols r)),
        (''pool_valid'', JBool (pv_errors pool = []))])"

end
