(* ===== verification/UniverseExamples.thy ===== *)
theory UniverseExamples
  imports UniverseSelection
begin

section \<open>Properties of the universe selection\<close>

text \<open>
  The symbols a run selects are the best of the included ones, every included symbol was eligible in
  the pool and passes the filters on its candles, and a stored run is the one that the scanner reads
  back as the latest.
\<close>

subsection \<open>Ranking\<close>

abbreviation rank_key :: "universe_symbol_result \<Rightarrow> rat \<times> string" where
  "rank_key r \<equiv> (- us_total_score r, us_symbol r)"

lemma rank_included_symbols:
  "map us_symbol (rank_included results) = map us_symbol (sort_key rank_key (filter us_included results))"
proof -
  have "map us_symbol (map (\<lambda>(i, r). r\<lparr>us_rank := Some i\<rparr>) (enumerate n xs)) = map us_symbol xs" for n xs
    by (induction xs arbitrary: n) auto
  then show ?thesis by (simp add: rank_included_def)
qed

lemma selected_symbols:
  assumes "1 \<le> sp_output_limit p"
  shows "un_selected_symbols (run_of s p opts run_id t0 t1 v bench results) =
     map us_symbol (take (nat (sp_output_limit p)) (sort_key rank_key (filter us_included results)))"
  using assms rank_included_symbols [of results]
  by (simp add: run_of_def Let_def slice_first_def flip: take_map)

lemma plan_limit: "select_plan_of s opts = Inr p \<Longrightarrow> 1 \<le> sp_output_limit p \<and> 1 \<le> sp_required_candles p"
  by (auto simp: select_plan_of_def Let_def split: if_splits)

lemma list_all2_right: "list_all2 P xs ys \<Longrightarrow> y \<in> set ys \<Longrightarrow> \<exists>x \<in> set xs. P x y"
  by (induction rule: list_all2_induct) auto

text \<open>An included result is the score of an eligible symbol: the exclusions of the pool are never included.\<close>

lemma included_scored:
  assumes "selection_of repo read_text s opts t0 st = Inr i" "r \<in> set (si_results i)" "us_included r"
  obtains bars where "us_symbol r \<in> set (pv_eligible_for_scoring (si_validation i))"
    "un_load_completed_bars repo (us_symbol r) (sp_timeframe (si_plan i)) (candle_limit s (si_plan i)) st = Inr bars"
    "score_symbol s (score_options_of (si_plan i) opts) t0 (us_symbol r) bars (si_benchmark_bars i)
       (us_symbol r \<notin> set (pv_inactive_symbols (si_validation i))) = Inr r"
proof -
  obtain scored where sc: "score_pool repo s (si_plan i) opts t0 (si_benchmark_bars i) (si_validation i) st = Inr scored"
    and res: "si_results i = validation_exclusions (si_validation i) @ scored"
    using assms(1) by (auto simp: selection_of_def bindE_eq_Inr)
  have "r \<notin> set (validation_exclusions (si_validation i))"
    using assms(3) by (auto simp: validation_exclusions_def)
  with res assms(2) have r: "r \<in> set scored" by simp
  have "list_all2 (\<lambda>symb x. bindE (un_load_completed_bars repo symb (sp_timeframe (si_plan i))
        (candle_limit s (si_plan i)) st) (\<lambda>bars. score_symbol s (score_options_of (si_plan i) opts) t0 symb bars
          (si_benchmark_bars i) (symb \<notin> set (pv_inactive_symbols (si_validation i)))) = Inr x)
      (pv_eligible_for_scoring (si_validation i)) scored"
    using sc by (simp add: score_pool_def mapE_Inr_iff)
  from list_all2_right [OF this r] obtain symb where "symb \<in> set (pv_eligible_for_scoring (si_validation i))"
    "bindE (un_load_completed_bars repo symb (sp_timeframe (si_plan i))
        (candle_limit s (si_plan i)) st) (\<lambda>bars. score_symbol s (score_options_of (si_plan i) opts) t0 symb bars
          (si_benchmark_bars i) (symb \<notin> set (pv_inactive_symbols (si_validation i)))) = Inr r"
    by blast
  then obtain bars where *: "symb \<in> set (pv_eligible_for_scoring (si_validation i))"
    "un_load_completed_bars repo symb (sp_timeframe (si_plan i)) (candle_limit s (si_plan i)) st = Inr bars"
    "score_symbol s (score_options_of (si_plan i) opts) t0 symb bars (si_benchmark_bars i)
       (symb \<notin> set (pv_inactive_symbols (si_validation i))) = Inr r"
    by (auto simp: bindE_eq_Inr)
  from score_symbol_result [OF *(3)] have "us_symbol r = symb" by simp
  with * show thesis by (intro that) simp_all
qed

subsection \<open>The store of the runs\<close>

text \<open>
  What the service relies on: a saved run is the latest one. \<open>ok\<close> is the consistency of the store,
  \<open>used\<close> the ids of its runs.
\<close>

locale universe_store =
  fixes repo :: "'s universe_repository" and ok :: "'s \<Rightarrow> bool" and used :: "'s \<Rightarrow> string set"
  assumes save_latest: "ok st \<Longrightarrow> un_run_id r \<notin> used st \<Longrightarrow> un_enabled r \<Longrightarrow>
      \<exists>st'. un_save_run repo r st = (Inr (), st') \<and> ok st' \<and> un_latest_run repo st' = Some r \<and>
        used st' = insert (un_run_id r) (used st)"
    and save_again: "un_run_id r \<in> used st \<Longrightarrow> un_save_run repo r st = (Inl IntegrityError, st)"
begin

lemma select_stores:
  assumes "ok st" "run_id \<notin> used st" "universe_selection_store_runs s" "\<not> sl_dry_run opts"
    and "selection_of repo read_text s opts t0 st = Inr i"
  shows "\<exists>run st'. select_universe repo read_text s opts run_id t0 t1 st = (Inr run, st') \<and>
     un_latest_run repo st' = Some run \<and>
     run = run_of s (si_plan i) opts run_id t0 t1 (si_validation i) (si_benchmark_bars i) (si_results i)"
proof -
  let ?run = "run_of s (si_plan i) opts run_id t0 t1 (si_validation i) (si_benchmark_bars i) (si_results i)"
  have "un_run_id ?run \<notin> used st" "un_enabled ?run" using assms(2) by (simp_all add: run_of_def Let_def)
  from save_latest [OF assms(1) this] obtain st' where
    "un_save_run repo ?run st = (Inr (), st')" "un_latest_run repo st' = Some ?run" by blast
  with assms show ?thesis by (simp add: select_universe_def bindS_def Let_def)
qed

end

definition universe_runs_ok :: "database \<Rightarrow> bool" where
  "universe_runs_ok d \<longleftrightarrow> keyed ur_id (db_universe_runs d) \<and>
     (\<forall>r \<in> set (db_universe_runs d). ur_created_at r \<le> db_now d)"

lemma run_row_back: "un_enabled r \<Longrightarrow> run_from_row ((run_values r)\<lparr>ur_id := i, ur_created_at := t\<rparr>) = r"
  by (simp add: run_from_row_def run_values_def)

interpretation sql_universe: universe_store universe_sql_repository universe_runs_ok
  "\<lambda>d. ur_run_id ` set (db_universe_runs d)"
proof unfold_locales
  fix d :: database and r :: universe_run
  assume ok: "universe_runs_ok d" and new: "un_run_id r \<notin> ur_run_id ` set (db_universe_runs d)"
    and en: "un_enabled r"
  define row where "row = (run_values r)\<lparr>ur_id := next_id (db_universe_runs d), ur_created_at := db_now d\<rparr>"
  define d' where "d' = d\<lparr>db_universe_runs := db_universe_runs d @ [row]\<rparr>"
  have "\<not> list_ex (\<lambda>x. ur_run_id x = un_run_id r) (db_universe_runs d)"
    using new by (auto simp: list_ex_iff image_iff)
  then have save: "un_save_run universe_sql_repository r d = (Inr (), d')"
    by (simp add: universe_sql_repository_def usql_save_run_def d'_def row_def)
  have "keyed ur_id (db_universe_runs d')"
    using ok by (simp add: universe_runs_ok_def d'_def keyed_append row_def)
  then have ok': "universe_runs_ok d'"
    using ok by (auto simp: universe_runs_ok_def d'_def row_def)
  have "\<forall>y \<in> set (db_universe_runs d). (- ur_created_at row, - ur_id row) < (- ur_created_at y, - ur_id y)"
    using ok keyed_bound [of ur_id "db_universe_runs d"]
    by (auto simp: universe_runs_ok_def row_def less_prod_def)
  then have "newest_runs d' = row # newest_runs d"
    unfolding newest_runs_def d'_def using sort_key_snoc_min [of "db_universe_runs d"
      "\<lambda>r. (- ur_created_at r, - ur_id r)" row] by simp
  then have "un_latest_run universe_sql_repository d' = Some r"
    using run_row_back [OF en] by (simp add: universe_sql_repository_def usql_latest_run_def first_row_def row_def)
  moreover have "ur_run_id row = un_run_id r" by (simp add: row_def run_values_def)
  ultimately show "\<exists>d'. un_save_run universe_sql_repository r d = (Inr (), d') \<and> universe_runs_ok d' \<and>
      un_latest_run universe_sql_repository d' = Some r \<and>
      ur_run_id ` set (db_universe_runs d') = insert (un_run_id r) (ur_run_id ` set (db_universe_runs d))"
    using save ok' by (intro exI [of _ d']) (simp add: d'_def)
next
  fix d :: database and r :: universe_run
  assume "un_run_id r \<in> ur_run_id ` set (db_universe_runs d)"
  then show "un_save_run universe_sql_repository r d = (Inl IntegrityError, d)"
    by (auto simp: universe_sql_repository_def usql_save_run_def list_ex_iff)
qed

subsection \<open>An instance\<close>

text \<open>One NSE symbol with one candle at the session start and no volume.\<close>

definition pool_instrument :: instrument_row where
  "pool_instrument =
     \<lparr>ir_id = 1, ir_kite_instrument_token = ''77'', ir_exchange = ''NSE'', ir_tradingsymbol = ''SBIN'',
      ir_name = JNull, ir_instrument_type = ''EQ'', ir_tick_size = 1, ir_lot_size = 1,
      ir_is_active = True, ir_updated_at = 0\<rparr>"

definition pool_start_time :: instant where
  "pool_start_time = ist_combine 20607 nse_open"

definition pool_database :: database where
  "pool_database =
     \<lparr>db_now = 0, db_broker_sessions = [], db_instruments = [pool_instrument],
      db_candles = [\<lparr>cr_id = 1, cr_instrument_id = 1, cr_timeframe = ''1minute'',
        cr_started_at = pool_start_time, cr_open_price = 100, cr_high_price = 100, cr_low_price = 100,
        cr_close_price = 100, cr_volume = 0, cr_source = ''KITE_WEBSOCKET''\<rparr>],
      db_signals = [], db_recommendations = [], db_orders = [], db_order_events = [], db_trades = [],
      db_journal_entries = [], db_model_runs = [], db_universe_runs = []\<rparr>"

definition pool_settings :: settings where
  "pool_settings = default_settings\<lparr>universe_selection_enabled := True,
     universe_selection_benchmark_symbol := '''', universe_selection_pool := ''nse:sbin''\<rparr>"

definition pool_options :: select_options where
  "pool_options = \<lparr>sl_limit = Some 1, sl_timeframe = None, sl_dry_run = False, sl_include_excluded = True,
     sl_use_current_session = True, sl_min_candles = Some 1, sl_symbols = None, sl_stale_policy = None\<rparr>"

definition pool_bar :: completed_bar where
  "pool_bar = \<lparr>bar_instrument_id = 1, bar_symbol = ''NSE:SBIN'', bar_timeframe = ''1minute'',
     started_at = pool_start_time, open_price = 100, high_price = 100, low_price = 100,
     close_price = 100, volume = 0\<rparr>"

definition pool_plan :: select_plan where
  "pool_plan = \<lparr>sp_timeframe = ''1minute'', sp_output_limit = 1, sp_required_candles = 1,
     sp_stale_policy = ''exclude''\<rparr>"

lemma pool_plan: "select_plan_of pool_settings pool_options = Inr pool_plan"
  by code_simp

lemma pool_validated:
  "\<exists>v. validate_pool universe_sql_repository r pool_settings None pool_database = Inr v \<and>
     pv_eligible_for_scoring v = [''NSE:SBIN''] \<and> pv_inactive_symbols v = []"
proof -
  have "case validate_pool universe_sql_repository r pool_settings None pool_database of
      Inl e \<Rightarrow> False | Inr v \<Rightarrow> pv_eligible_for_scoring v = [''NSE:SBIN''] \<and> pv_inactive_symbols v = []"
    by code_simp
  then show ?thesis by (cases "validate_pool universe_sql_repository r pool_settings None pool_database") auto
qed

lemma pool_bars:
  "un_load_completed_bars universe_sql_repository ''NSE:SBIN'' ''1minute'' n pool_database =
     Inr (slice_first n [pool_bar])"
proof -
  have s: "split_symbol ''NSE:SBIN'' = Inr (''NSE'', ''SBIN'')" by code_simp
  have q: "candle_query pool_database ''NSE'' ''SBIN'' ''1minute'' = [pool_bar]"
    by (simp add: candle_query_def pool_database_def join_instrument_def pool_instrument_def
        completed_bar_from_row_def instrument_key_def pool_bar_def)
  have b: "pool_bar\<lparr>bar_symbol := ''NSE:SBIN''\<rparr> = pool_bar" by (simp add: pool_bar_def)
  then have "map (\<lambda>b. b\<lparr>bar_symbol := ''NSE:SBIN''\<rparr>) (slice_first n [pool_bar]) = slice_first n [pool_bar]"
    by (cases "nat n") (auto simp: slice_first_def)
  moreover have "rev (slice_first n [pool_bar]) = slice_first n [pool_bar]"
    by (cases "nat n") (auto simp: slice_first_def)
  ultimately show ?thesis
    by (simp add: universe_sql_repository_def usql_load_completed_bars_def s q)
qed

lemma pool_features:
  "build_feature_input [pool_bar] = \<lparr>all_bars = [pool_bar], trailing_bars = [pool_bar],
     current_session_bars = [pool_bar], prior_session_bars = []\<rparr>"
proof -
  have "is_regular_session_bar pool_bar" by code_simp
  then show ?thesis by (simp add: build_feature_input_def Let_def)
qed

lemma pool_indicators:
  "\<exists>i. build_indicator_snapshot [pool_bar] [] None n = Inr i \<and> atr_14 i = None"
  by (simp add: build_indicator_snapshot_def pool_features Let_def ema_def rsi_wilder_def atr_wilder_def
      vwap_def volume_ratio_def relative_index_movement_def spread_pct_def case_prod_beta)
    (simp add: pool_bar_def)

lemma pool_score:
  "\<exists>r. score_symbol pool_settings (score_options_of pool_plan pool_options) pool_start_time ''NSE:SBIN''
       [pool_bar] [] active = Inr r \<and> us_included r"
proof -
  let ?o = "score_options_of pool_plan pool_options"
  obtain i where i: "build_indicator_snapshot [pool_bar] [] None (scanner_opening_range_minutes pool_settings) = Inr i"
    "atr_14 i = None" using pool_indicators by blast
  have sb: "scoring_bars_of ?o (build_feature_input [pool_bar]) = [pool_bar]"
    by (simp add: scoring_bars_of_def score_options_of_def pool_options_def pool_features)
  have z: "average (map turnover [pool_bar]) = Some 0"
    by (simp add: average_def turnover_def pool_bar_def dsum_def dadd_def ddiv_def dmul_def)
  obtain m where m: "measures pool_settings [pool_bar] [] (build_feature_input [pool_bar]) [pool_bar] = Inr m"
    "ms_latest_close m = 100" "ms_avg_turnover m = Some 0" "ms_atr_pct m = None"
    using i z by (auto simp: measures_def ema20_slope_def Let_def pct_def pool_bar_def)
  have st: "has_session_start [pool_bar]" by code_simp
  have "candle_exclusions pool_settings ?o pool_start_time [pool_bar] = []"
    using st by (simp add: candle_exclusions_def pool_features scoring_bars_of_def Let_def candle_continuity_ok_def
        is_stale_symbol_def score_options_of_def pool_options_def pool_plan_def)
      (simp add: pool_bar_def pool_settings_def default_settings_def minute_us_def second_us_def)
  moreover have "measure_exclusions pool_settings m = []"
    using m by (simp add: measure_exclusions_def pool_settings_def default_settings_def)
  ultimately show ?thesis by (simp add: score_symbol_def Let_def sb m)
qed

lemma pool_selection:
  "\<exists>i r. selection_of universe_sql_repository f pool_settings pool_options pool_start_time pool_database = Inr i \<and>
     si_plan i = pool_plan \<and> filter us_included (si_results i) = [r] \<and> us_symbol r = ''NSE:SBIN''"
proof -
  obtain v where v: "validate_pool universe_sql_repository f pool_settings None pool_database = Inr v"
    "pv_eligible_for_scoring v = [''NSE:SBIN'']" using pool_validated by blast
  obtain r where r: "score_symbol pool_settings (score_options_of pool_plan pool_options) pool_start_time ''NSE:SBIN''
       [pool_bar] [] (''NSE:SBIN'' \<notin> set (pv_inactive_symbols v)) = Inr r" "us_included r"
    using pool_score by blast
  have "slice_first (candle_limit pool_settings pool_plan) [pool_bar] = [pool_bar]" by code_simp
  then have b: "un_load_completed_bars universe_sql_repository ''NSE:SBIN'' ''1minute''
      (candle_limit pool_settings pool_plan) pool_database = Inr [pool_bar]" by (simp only: pool_bars)
  have none: "load_benchmark universe_sql_repository pool_settings pool_plan pool_database = Inr []"
    by (simp add: load_benchmark_def pool_settings_def)
  have tf: "sp_timeframe pool_plan = ''1minute''" "sl_symbols pool_options = None"
    by (simp_all add: pool_plan_def pool_options_def)
  have "filter us_included (validation_exclusions v) = []"
    by (auto simp: validation_exclusions_def filter_empty_conv)
  moreover have "us_symbol r = ''NSE:SBIN''" using score_symbol_result [OF r(1)] by simp
  ultimately show ?thesis
    using r(2) by (simp add: selection_of_def pool_plan tf v none score_pool_def b r(1))
qed

subsection \<open>Properties\<close>

text \<open>C35: a selection takes the best symbols. The selected symbols of a run are the first k, for the
output limit k, of all the included results in the order of falling score, with the symbol deciding
between equal scores. Every included symbol is an eligible symbol of the pool whose loaded candles are
enough in number and whose last price lies within the configured bounds, and its score lies between 0
and 100.\<close>

theorem selection_takes_best:
  assumes "select_universe repo read_text s opts run_id t0 t1 st = (Inr run, st')"
  shows "\<exists>i order. selection_of repo read_text s opts t0 st = Inr i \<and>
     mset order = mset (filter us_included (si_results i)) \<and> sorted (map rank_key order) \<and>
     un_selected_symbols run = map us_symbol (take (nat (sp_output_limit (si_plan i))) order) \<and>
     (\<forall>r \<in> set order. us_symbol r \<in> set (pv_eligible_for_scoring (si_validation i)) \<and>
        0 \<le> us_total_score r \<and> us_total_score r \<le> 100 \<and>
        (\<exists>bars. un_load_completed_bars repo (us_symbol r) (sp_timeframe (si_plan i))
             (candle_limit s (si_plan i)) st = Inr bars \<and> bars \<noteq> [] \<and>
           sp_required_candles (si_plan i) \<le>
             int (length (scoring_bars_of (score_options_of (si_plan i) opts) (build_feature_input bars))) \<and>
           universe_selection_min_price s \<le> close_price (last bars) \<and>
           close_price (last bars) \<le> universe_selection_max_price s))"
proof -
  obtain i where i: "selection_of repo read_text s opts t0 st = Inr i"
    and run: "run = run_of s (si_plan i) opts run_id t0 t1 (si_validation i) (si_benchmark_bars i) (si_results i)"
    using assms by (auto simp: select_universe_def bindS_Inr_iff Let_def)
  have plan: "select_plan_of s opts = Inr (si_plan i)" using i by (auto simp: selection_of_def bindE_eq_Inr)
  let ?order = "sort_key rank_key (filter us_included (si_results i))"
  have "us_symbol r \<in> set (pv_eligible_for_scoring (si_validation i)) \<and>
        0 \<le> us_total_score r \<and> us_total_score r \<le> 100 \<and>
        (\<exists>bars. un_load_completed_bars repo (us_symbol r) (sp_timeframe (si_plan i))
             (candle_limit s (si_plan i)) st = Inr bars \<and> bars \<noteq> [] \<and>
           sp_required_candles (si_plan i) \<le>
             int (length (scoring_bars_of (score_options_of (si_plan i) opts) (build_feature_input bars))) \<and>
           universe_selection_min_price s \<le> close_price (last bars) \<and>
           close_price (last bars) \<le> universe_selection_max_price s)" if "r \<in> set ?order" for r
  proof -
    from that have r: "r \<in> set (si_results i)" "us_included r" by auto
    obtain bars where b: "us_symbol r \<in> set (pv_eligible_for_scoring (si_validation i))"
      "un_load_completed_bars repo (us_symbol r) (sp_timeframe (si_plan i)) (candle_limit s (si_plan i)) st = Inr bars"
      "score_symbol s (score_options_of (si_plan i) opts) t0 (us_symbol r) bars (si_benchmark_bars i)
         (us_symbol r \<notin> set (pv_inactive_symbols (si_validation i))) = Inr r"
      by (rule included_scored [OF i r])
    from included_passes [OF b(3) r(2)] score_symbol_result [OF b(3)] b(1,2) show ?thesis
      by (intro conjI exI [of _ bars]) (simp_all add: score_options_of_def)
  qed
  moreover have "un_selected_symbols run = map us_symbol (take (nat (sp_output_limit (si_plan i))) ?order)"
    unfolding run by (rule selected_symbols) (use plan_limit [OF plan] in simp)
  moreover have "mset ?order = mset (filter us_included (si_results i))" by simp
  moreover have "sorted (map rank_key ?order)" by simp
  ultimately show ?thesis using i by blast
qed

lemma selection_takes_best_witness:
  "\<exists>run d i. select_universe universe_sql_repository (\<lambda>_. None) pool_settings pool_options ''r1''
       pool_start_time pool_start_time pool_database = (Inr run, d) \<and>
     selection_of universe_sql_repository (\<lambda>_. None) pool_settings pool_options pool_start_time pool_database = Inr i \<and>
     un_selected_symbols run = [''NSE:SBIN''] \<and> ''NSE:SBIN'' \<in> set (pv_eligible_for_scoring (si_validation i))"
proof -
  obtain i r where i: "selection_of universe_sql_repository (\<lambda>_. None) pool_settings pool_options
      pool_start_time pool_database = Inr i" "si_plan i = pool_plan" "filter us_included (si_results i) = [r]"
    "us_symbol r = ''NSE:SBIN''" using pool_selection by blast
  have ok: "universe_runs_ok pool_database" by (simp add: universe_runs_ok_def pool_database_def keyed_def)
  have new: "''r1'' \<notin> ur_run_id ` set (db_universe_runs pool_database)" by (simp add: pool_database_def)
  have st: "universe_selection_store_runs pool_settings" "\<not> sl_dry_run pool_options"
    by (simp_all add: pool_settings_def default_settings_def pool_options_def)
  obtain run d where run: "select_universe universe_sql_repository (\<lambda>_. None) pool_settings pool_options ''r1''
       pool_start_time pool_start_time pool_database = (Inr run, d)"
    using sql_universe.select_stores [OF ok new st i(1)] by blast
  have lim: "nat (sp_output_limit pool_plan) = 1" by (simp add: pool_plan_def)
  from selection_takes_best [OF run] obtain order where o: "mset order = mset (filter us_included (si_results i))"
    "un_selected_symbols run = map us_symbol (take (nat (sp_output_limit (si_plan i))) order)"
    "\<forall>x \<in> set order. us_symbol x \<in> set (pv_eligible_for_scoring (si_validation i))"
    using i(1) by auto
  then have "order = [r]" using i(3) by simp
  with o i lim have "un_selected_symbols run = [''NSE:SBIN'']"
    "''NSE:SBIN'' \<in> set (pv_eligible_for_scoring (si_validation i))" by simp_all
  with run i(1) show ?thesis by blast
qed

text \<open>a stored run is read back unchanged. When runs are stored and the selection is no dry run, a
selection that gets through its guards and reads saves its run, and the latest run of the repository,
from which the scanner takes its symbols, is that run with every field as it was.\<close>

theorem stored_run_is_latest:
  assumes "universe_runs_ok d" and "run_id \<notin> ur_run_id ` set (db_universe_runs d)"
    and "universe_selection_store_runs s" and "\<not> sl_dry_run opts"
    and "selection_of universe_sql_repository read_text s opts t0 d = Inr i"
  shows "\<exists>run d'. select_universe universe_sql_repository read_text s opts run_id t0 t1 d = (Inr run, d') \<and>
     usql_latest_run d' = Some run \<and> usql_get_run run_id d' = Some run \<and>
     latest_selected_symbols universe_sql_repository d' = Some (un_selected_symbols run)"
proof -
  obtain run d' where run: "select_universe universe_sql_repository read_text s opts run_id t0 t1 d = (Inr run, d')"
    "un_latest_run universe_sql_repository d' = Some run"
    and eq: "run = run_of s (si_plan i) opts run_id t0 t1 (si_validation i) (si_benchmark_bars i) (si_results i)"
    using sql_universe.select_stores [OF assms] by blast
  have id: "un_run_id run = run_id" "un_enabled run" by (simp_all add: eq run_of_def Let_def)
  have "usql_save_run run d = (Inr (), d')"
    using run(1) assms(3-5) eq by (auto simp: select_universe_def bindS_def Let_def universe_sql_repository_def
        split: prod.splits sum.splits)
  then have d': "d' = d\<lparr>db_universe_runs := db_universe_runs d @
      [(run_values run)\<lparr>ur_id := next_id (db_universe_runs d), ur_created_at := db_now d\<rparr>]\<rparr>"
    by (auto simp: usql_save_run_def split: if_splits)
  have "filter (\<lambda>r. ur_run_id r = run_id) (db_universe_runs d) = []"
    using assms(2) by (auto simp: filter_empty_conv)
  then have "usql_get_run run_id d' = Some run"
    using run_row_back [OF id(2)] id(1)
    by (simp add: usql_get_run_def d' first_row_def) (simp add: run_values_def)
  with run show ?thesis by (simp add: latest_selected_symbols_def universe_sql_repository_def)
qed

lemma stored_run_is_latest_witness:
  "\<exists>run d. select_universe universe_sql_repository (\<lambda>_. None) pool_settings pool_options ''r1''
       pool_start_time pool_start_time pool_database = (Inr run, d) \<and>
     usql_latest_run d = Some run \<and> usql_get_run ''r1'' d = Some run"
proof -
  obtain i where i: "selection_of universe_sql_repository (\<lambda>_. None) pool_settings pool_options
      pool_start_time pool_database = Inr i" using pool_selection by blast
  have "universe_runs_ok pool_database" by (simp add: universe_runs_ok_def pool_database_def keyed_def)
  moreover have "''r1'' \<notin> ur_run_id ` set (db_universe_runs pool_database)" by (simp add: pool_database_def)
  moreover have "universe_selection_store_runs pool_settings" "\<not> sl_dry_run pool_options"
    by (simp_all add: pool_settings_def default_settings_def pool_options_def)
  ultimately show ?thesis using stored_run_is_latest [OF _ _ _ _ i] by blast
qed

text \<open>
  When special characters are not excluded, a symbol with one is scored and may be selected, and the
  validation still lists it as excluded: the run reports it twice.
\<close>

lemma scored_symbol_also_excluded:
  "\<exists>v. validate_pool universe_sql_repository (\<lambda>_. None)
       (pool_settings\<lparr>universe_selection_exclude_special_char_symbols := False,
          universe_selection_pool := ''NSE:A-B''\<rparr>) None
       (pool_database\<lparr>db_instruments := [pool_instrument\<lparr>ir_tradingsymbol := ''A-B''\<rparr>]\<rparr>) = Inr v \<and>
     ''NSE:A-B'' \<in> set (pv_eligible_for_scoring v) \<and> ''NSE:A-B'' \<in> us_symbol ` set (validation_exclusions v)"
proof -
  let ?r = "validate_pool universe_sql_repository (\<lambda>_. None)
       (pool_settings\<lparr>universe_selection_exclude_special_char_symbols := False,
          universe_selection_pool := ''NSE:A-B''\<rparr>) None
       (pool_database\<lparr>db_instruments := [pool_instrument\<lparr>ir_tradingsymbol := ''A-B''\<rparr>]\<rparr>)"
  have "case ?r of Inl e \<Rightarrow> False | Inr v \<Rightarrow> ''NSE:A-B'' \<in> set (pv_eligible_for_scoring v) \<and>
      ''NSE:A-B'' \<in> us_symbol ` set (validation_exclusions v)" by code_simp
  then show ?thesis by (cases ?r) auto
qed

end
