(* ===== verification/BrokerSession.thy ===== *)
theory BrokerSession
  imports Database AppConfig
begin

section \<open>Broker sessions\<close>

text \<open>
  \<^verbatim>\<open>app/broker\<close>: the table of the encrypted broker sessions (\<^verbatim>\<open>session_store.py\<close>), the cipher of
  the access token (\<^verbatim>\<open>token_cipher.py\<close>), the login flow, status and logout
  (\<^verbatim>\<open>kite_auth_service.py\<close>) and the access of the other services to the decrypted session
  (\<^verbatim>\<open>session_provider.py\<close>). Fernet, the Redis client, the broker's client, the random token and the
  clock readings are parameters.
\<close>

subsection \<open>The session store\<close>

definition broker_zerodha :: string where "broker_zerodha = ''ZERODHA''"
definition status_active :: string where "status_active = ''ACTIVE''"
definition status_logged_out :: string where "status_logged_out = ''LOGGED_OUT''"
definition status_expired :: string where "status_expired = ''EXPIRED''"

text \<open>The arguments of \<^verbatim>\<open>save_authenticated_session\<close>.\<close>

record new_session =
  ns_broker :: string
  ns_user_id :: "string option"
  ns_encrypted_access_token :: string
  ns_login_at :: instant
  ns_expires_at :: instant

text \<open>
  The protocol \<^verbatim>\<open>SessionStore\<close>; the instant is what the method reads from the clock. The record of a
  session has the columns of its row.
\<close>

record 's session_store =
  se_save :: "new_session \<Rightarrow> instant \<Rightarrow> ('s, broker_session_row) prog"
  se_latest :: "string \<Rightarrow> 's \<Rightarrow> broker_session_row option"
  se_mark_invalidated :: "int \<Rightarrow> string \<Rightarrow> instant \<Rightarrow> ('s, unit) prog"

definition expire_active :: "string \<Rightarrow> instant \<Rightarrow> broker_session_row \<Rightarrow> broker_session_row" where
  "expire_active broker now r =
     (if bs_broker r = broker \<and> bs_status r = status_active
      then r\<lparr>bs_status := status_expired, bs_updated_at := now\<rparr> else r)"

definition session_row_of :: "int \<Rightarrow> new_session \<Rightarrow> instant \<Rightarrow> broker_session_row" where
  "session_row_of i n now =
     \<lparr>bs_id = i, bs_broker = ns_broker n, bs_user_id = ns_user_id n, bs_status = status_active,
      bs_login_at = Some (ns_login_at n), bs_expires_at = ns_expires_at n,
      bs_encrypted_access_token = ns_encrypted_access_token n, bs_invalidated_at = None,
      bs_created_at = now, bs_updated_at = now\<rparr>"

definition sql_save_session :: "new_session \<Rightarrow> instant \<Rightarrow> (database, broker_session_row) prog" where
  "sql_save_session n now = (\<lambda>d.
     let rows = map (expire_active (ns_broker n) now) (db_broker_sessions d);
         row = session_row_of (next_id rows) n now
     in (Inr row, d\<lparr>db_broker_sessions := rows @ [row]\<rparr>))"

text \<open>\<^verbatim>\<open>order_by(desc(created_at), desc(id)).limit(1)\<close>.\<close>

definition newest_session :: "broker_session_row list \<Rightarrow> broker_session_row option" where
  "newest_session rows =
     (case sort_key (\<lambda>r. (- bs_created_at r, - bs_id r)) rows of [] \<Rightarrow> None | r # _ \<Rightarrow> Some r)"

definition sql_latest_session :: "string \<Rightarrow> database \<Rightarrow> broker_session_row option" where
  "sql_latest_session broker d = newest_session (filter (\<lambda>r. bs_broker r = broker) (db_broker_sessions d))"

definition sql_mark_invalidated :: "int \<Rightarrow> string \<Rightarrow> instant \<Rightarrow> (database, unit) prog" where
  "sql_mark_invalidated i status now = modifyS (\<lambda>d. d\<lparr>db_broker_sessions :=
     map (\<lambda>r. if bs_id r = i
              then r\<lparr>bs_status := status, bs_invalidated_at := Some now, bs_updated_at := now\<rparr> else r)
       (db_broker_sessions d)\<rparr>)"

definition sql_session_store :: "database session_store" where
  "sql_session_store = \<lparr>se_save = sql_save_session, se_latest = sql_latest_session,
     se_mark_invalidated = sql_mark_invalidated\<rparr>"

subsection \<open>The cipher\<close>

text \<open>
  A \<^verbatim>\<open>Fernet\<close> object: \<open>fe_decrypt\<close> is \<open>None\<close> for \<^verbatim>\<open>InvalidToken\<close>. \<open>new_fernet\<close> is the
  constructor, which raises for a malformed key.
\<close>

record fernet =
  fe_encrypt :: "string \<Rightarrow> string"
  fe_decrypt :: "string \<Rightarrow> string option"

definition token_cipher :: "(string \<Rightarrow> fernet res) \<Rightarrow> string \<Rightarrow> fernet res" where
  "token_cipher new_fernet key =
     (if key = [] then Inl (KiteConfigError ''Kite session encryption key is not configured.'')
      else case new_fernet key of
        Inl e \<Rightarrow> Inl (KiteConfigError ''Kite session encryption key is invalid.'')
      | Inr f \<Rightarrow> Inr f)"

definition cipher_encrypt :: "fernet \<Rightarrow> string \<Rightarrow> string res" where
  "cipher_encrypt f plaintext =
     (if plaintext = [] then Inl (KiteSessionError ''Cannot encrypt an empty Kite access token.'')
      else Inr (fe_encrypt f plaintext))"

definition cipher_decrypt :: "fernet \<Rightarrow> string \<Rightarrow> string res" where
  "cipher_decrypt f encrypted =
     (if encrypted = [] then Inl (KiteSessionError ''No encrypted Kite access token is available.'')
      else case fe_decrypt f encrypted of
        None \<Rightarrow> Inl (KiteSessionError ''Stored Kite access token could not be decrypted.'')
      | Some t \<Rightarrow> Inr t)"

subsection \<open>Callback states\<close>

text \<open>The calls of the Redis client, and the store of the callback states over them.\<close>

record 'r redis_client =
  rd_set :: "string \<Rightarrow> string \<Rightarrow> int \<Rightarrow> ('r, unit) prog"
  rd_delete :: "string \<Rightarrow> ('r, int) prog"

record 'r state_store =
  ca_create :: "('r, string) prog"
  ca_consume :: "string \<Rightarrow> ('r, bool) prog"

definition state_ttl_seconds :: int where "state_ttl_seconds = 300"
definition state_prefix :: string where "state_prefix = ''kite:auth:state:''"

definition redis_create_state :: "'r redis_client \<Rightarrow> int \<Rightarrow> string \<Rightarrow> ('r, string) prog" where
  "redis_create_state redis ttl_seconds token =
     bindS (rd_set redis (state_prefix @ token) ''1'' ttl_seconds) (\<lambda>_. retS token)"

definition redis_consume_state :: "'r redis_client \<Rightarrow> string \<Rightarrow> ('r, bool) prog" where
  "redis_consume_state redis state =
     (if state = [] then retS False
      else bindS (rd_delete redis (state_prefix @ state)) (\<lambda>deleted. retS (deleted \<noteq> 0)))"

definition redis_state_store :: "'r redis_client \<Rightarrow> int \<Rightarrow> string \<Rightarrow> 'r state_store" where
  "redis_state_store redis ttl_seconds token =
     \<lparr>ca_create = redis_create_state redis ttl_seconds token, ca_consume = redis_consume_state redis\<rparr>"

subsection \<open>The login flow\<close>

record kite_session_data =
  kd_user_id :: string
  kd_access_token :: string

record kite_auth_client =
  kc_login_url :: "string \<Rightarrow> string res"
  kc_exchange_request_token :: "string \<Rightarrow> kite_session_data res"
  kc_invalidate_access_token :: "string \<Rightarrow> unit res"

record ('s, 'r) auth_env =
  ae_settings :: settings
  ae_client :: kite_auth_client
  ae_store :: "'s session_store"
  ae_states :: "'r state_store"
  ae_cipher :: "fernet option"

record ('s, 'r) auth_world =
  aw_sessions :: 's
  aw_states :: 'r

definition on_sessions :: "('s, 'a) prog \<Rightarrow> (('s, 'r) auth_world, 'a) prog" where
  "on_sessions m = (\<lambda>w. case m (aw_sessions w) of (r, s) \<Rightarrow> (r, w\<lparr>aw_sessions := s\<rparr>))"

definition on_states :: "('r, 'a) prog \<Rightarrow> (('s, 'r) auth_world, 'a) prog" where
  "on_states m = (\<lambda>w. case m (aw_states w) of (r, s) \<Rightarrow> (r, w\<lparr>aw_states := s\<rparr>))"

definition has_required_config :: "settings \<Rightarrow> bool \<Rightarrow> bool" where
  "has_required_config s require_cipher \<longleftrightarrow>
     kite_api_key s \<noteq> [] \<and> kite_api_secret s \<noteq> [] \<and> kite_redirect_url s \<noteq> []
     \<and> (\<not> require_cipher \<or> kite_session_encryption_key s \<noteq> [])"

definition ensure_enabled_and_configured :: "settings \<Rightarrow> bool \<Rightarrow> unit res" where
  "ensure_enabled_and_configured s require_cipher =
     (if \<not> kite_auth_enabled s then Inl (KiteAuthDisabledError ''Kite authentication is disabled.'')
      else if \<not> has_required_config s require_cipher
        then Inl (KiteConfigError ''Kite authentication configuration is incomplete.'')
      else Inr ())"

text \<open>The next 6:00 in India.\<close>

definition next_kite_expiry :: "instant \<Rightarrow> instant" where
  "next_kite_expiry now =
     (let expiry = ist_combine (ist_date now) (hhmm 6 0)
      in if expiry \<le> now then expiry + day_us else expiry)"

definition is_expired :: "instant \<Rightarrow> instant \<Rightarrow> bool" where
  "is_expired now expires_at \<longleftrightarrow> expires_at \<le> now"

record broker_session_status =
  sv_configured :: bool
  sv_enabled :: bool
  sv_authenticated :: bool
  sv_broker :: string
  sv_user_id :: "string option"
  sv_login_at :: "instant option"
  sv_expires_at :: "instant option"
  sv_expired :: bool
  sv_status :: "string option"

definition status_from_record :: "settings \<Rightarrow> instant \<Rightarrow> broker_session_row \<Rightarrow> broker_session_status" where
  "status_from_record s now r =
     (let expired = is_expired now (bs_expires_at r) in
      \<lparr>sv_configured = has_required_config s True, sv_enabled = kite_auth_enabled s,
       sv_authenticated = (bs_status r = status_active \<and> \<not> expired \<and> bs_invalidated_at r = None),
       sv_broker = bs_broker r, sv_user_id = bs_user_id r, sv_login_at = bs_login_at r,
       sv_expires_at = Some (bs_expires_at r), sv_expired = expired, sv_status = Some (bs_status r)\<rparr>)"

definition no_session_status :: "bool \<Rightarrow> bool \<Rightarrow> broker_session_status" where
  "no_session_status configured enabled =
     \<lparr>sv_configured = configured, sv_enabled = enabled, sv_authenticated = False,
      sv_broker = broker_zerodha, sv_user_id = None, sv_login_at = None, sv_expires_at = None,
      sv_expired = False, sv_status = None\<rparr>"

definition create_login_url :: "('s, 'r) auth_env \<Rightarrow> (('s, 'r) auth_world, string) prog" where
  "create_login_url env =
     bindS (liftS (ensure_enabled_and_configured (ae_settings env) False)) (\<lambda>_.
     bindS (on_states (ca_create (ae_states env))) (\<lambda>state.
       liftS (kc_login_url (ae_client env) state)))"

text \<open>
  The clock is read three times: for the login and its expiry (\<open>now\<close>), by the store (\<open>saved\<close>), and for
  the status of the new record (\<open>seen\<close>).
\<close>

definition handle_callback ::
  "('s, 'r) auth_env \<Rightarrow> instant \<Rightarrow> instant \<Rightarrow> instant \<Rightarrow> string option \<Rightarrow> string option \<Rightarrow>
     (('s, 'r) auth_world, broker_session_status) prog" where
  "handle_callback env now saved seen request_token state =
     bindS (liftS (ensure_enabled_and_configured (ae_settings env) True)) (\<lambda>_.
     case request_token of
       None \<Rightarrow> raiseS (KiteStateError ''Missing Kite request token.'')
     | Some token \<Rightarrow>
       if token = [] then raiseS (KiteStateError ''Missing Kite request token.'')
       else
       bindS (case state of
                None \<Rightarrow> retS False
              | Some st \<Rightarrow> if st = [] then retS False else on_states (ca_consume (ae_states env) st))
         (\<lambda>valid.
       if \<not> valid then raiseS (KiteStateError ''Kite callback state is missing, invalid, or expired.'')
       else
       bindS (liftS (kc_exchange_request_token (ae_client env) token)) (\<lambda>data.
       if kd_access_token data = []
         then raiseS (KiteSessionError ''Kite session exchange did not return an access token.'')
       else (case ae_cipher env of
         None \<Rightarrow> raiseS (KiteConfigError ''Kite token cipher is not configured.'')
       | Some cipher \<Rightarrow>
           bindS (liftS (cipher_encrypt cipher (kd_access_token data))) (\<lambda>encrypted.
           bindS (on_sessions (se_save (ae_store env)
               \<lparr>ns_broker = broker_zerodha,
                ns_user_id = (if kd_user_id data = [] then None else Some (kd_user_id data)),
                ns_encrypted_access_token = encrypted, ns_login_at = now,
                ns_expires_at = next_kite_expiry now\<rparr> saved)) (\<lambda>record.
             retS (status_from_record (ae_settings env) seen record)))))))"

definition auth_status ::
  "('s, 'r) auth_env \<Rightarrow> instant \<Rightarrow> (('s, 'r) auth_world, broker_session_status) prog" where
  "auth_status env now =
     (if \<not> kite_auth_enabled (ae_settings env)
      then retS (no_session_status (has_required_config (ae_settings env) False) False)
      else bindS (readS (\<lambda>w. se_latest (ae_store env) broker_zerodha (aw_sessions w))) (\<lambda>latest.
        case latest of
          None \<Rightarrow> retS (no_session_status (has_required_config (ae_settings env) True) True)
        | Some record \<Rightarrow>
            let status = status_from_record (ae_settings env) now record in
            bindS (whenS (sv_expired status \<and> bs_status record = status_active)
                (on_sessions (se_mark_invalidated (ae_store env) (bs_id record) status_expired now)))
              (\<lambda>_. retS status)))"

text \<open>The result is \<^verbatim>\<open>logged_out\<close>.\<close>

definition logout :: "('s, 'r) auth_env \<Rightarrow> instant \<Rightarrow> (('s, 'r) auth_world, bool) prog" where
  "logout env now =
     bindS (liftS (ensure_enabled_and_configured (ae_settings env) True)) (\<lambda>_.
     bindS (readS (\<lambda>w. se_latest (ae_store env) broker_zerodha (aw_sessions w))) (\<lambda>latest.
     case latest of
       None \<Rightarrow> retS False
     | Some record \<Rightarrow>
         (case ae_cipher env of
            None \<Rightarrow> raiseS (KiteConfigError ''Kite token cipher is not configured.'')
          | Some cipher \<Rightarrow>
              bindS (if bs_status record = status_active \<and> \<not> is_expired now (bs_expires_at record)
                     then liftS (bindE (cipher_decrypt cipher (bs_encrypted_access_token record))
                            (kc_invalidate_access_token (ae_client env)))
                     else retS ()) (\<lambda>_.
              bindS (on_sessions (se_mark_invalidated (ae_store env) (bs_id record) status_logged_out now))
                (\<lambda>_. retS True)))))"

subsection \<open>The decrypted session\<close>

record kite_access_session =
  ks_api_key :: string
  ks_access_token :: string
  ks_user_id :: "string option"
  ks_expires_at :: instant

definition get_active_session ::
  "settings \<Rightarrow> 's session_store \<Rightarrow> fernet option \<Rightarrow> instant \<Rightarrow> 's \<Rightarrow> kite_access_session res" where
  "get_active_session s store cipher now d =
     (if \<not> kite_auth_enabled s then Inl (KiteAuthDisabledError ''Kite auth is disabled.'')
      else if kite_api_key s = [] then Inl (KiteConfigError ''Kite API key is not configured.'')
      else case cipher of
        None \<Rightarrow> Inl (KiteConfigError ''Kite session encryption is not configured.'')
      | Some f \<Rightarrow>
        (case se_latest store broker_zerodha d of
           None \<Rightarrow> Inl (KiteSessionError ''No Kite session is available.'')
         | Some record \<Rightarrow>
             if bs_status record \<noteq> status_active \<or> bs_invalidated_at record \<noteq> None
               then Inl (KiteSessionError ''Kite session is not active.'')
             else if bs_expires_at record \<le> now then Inl (KiteSessionError ''Kite session is expired.'')
             else bindE (cipher_decrypt f (bs_encrypted_access_token record)) (\<lambda>token.
               Inr \<lparr>ks_api_key = kite_api_key s, ks_access_token = token,
                    ks_user_id = bs_user_id record, ks_expires_at = bs_expires_at record\<rparr>)))"

subsection \<open>What the services rely on\<close>

text \<open>
  \<open>ok t\<close> is the consistency of a store whose rows were created up to the instant \<open>t\<close>: a saved
  session is the latest one of its broker, and the latest one is still the latest when it has been
  marked.
\<close>

locale session_contract =
  fixes store :: "'s session_store" and ok :: "instant \<Rightarrow> 's \<Rightarrow> bool"
  assumes save_latest: "ok t d \<Longrightarrow> t \<le> now \<Longrightarrow>
      \<exists>i d'. se_save store n now d = (Inr (session_row_of i n now), d') \<and> ok now d' \<and>
        se_latest store (ns_broker n) d' = Some (session_row_of i n now)"
    and mark_latest: "ok t d \<Longrightarrow> t \<le> now \<Longrightarrow> se_latest store broker d = Some r \<Longrightarrow>
      \<exists>d'. se_mark_invalidated store (bs_id r) status now d = (Inr (), d') \<and> ok now d' \<and>
        se_latest store broker d' =
          Some (r\<lparr>bs_status := status, bs_invalidated_at := Some now, bs_updated_at := now\<rparr>)"
begin

text \<open>A marked session is not handed out any more.\<close>

lemma marked_session_refused:
  assumes "ok t d" "t \<le> now" "se_latest store broker_zerodha d = Some r"
    and "se_mark_invalidated store (bs_id r) status now d = (res, d')"
    and "kite_auth_enabled s" "kite_api_key s \<noteq> []"
  shows "get_active_session s store (Some f) later d' = Inl (KiteSessionError ''Kite session is not active.'')"
proof -
  from mark_latest [OF assms(1-3), of status] assms(4)
  have "se_latest store broker_zerodha d' =
      Some (r\<lparr>bs_status := status, bs_invalidated_at := Some now, bs_updated_at := now\<rparr>)" by auto
  with assms(5,6) show ?thesis by (simp add: get_active_session_def)
qed

lemma saved_session_returned:
  assumes "ok t d" "t \<le> saved" "se_save store n saved d = (res, d')" "ns_broker n = broker_zerodha"
    and "ns_encrypted_access_token n \<noteq> []" "fe_decrypt f (ns_encrypted_access_token n) = Some token"
    and "kite_auth_enabled s" "kite_api_key s \<noteq> []" "later < ns_expires_at n"
  shows "get_active_session s store (Some f) later d' =
      Inr \<lparr>ks_api_key = kite_api_key s, ks_access_token = token, ks_user_id = ns_user_id n,
           ks_expires_at = ns_expires_at n\<rparr>"
proof -
  from save_latest [OF assms(1,2), of n] assms(3,4) obtain i where
    "se_latest store broker_zerodha d' = Some (session_row_of i n saved)" by auto
  with assms(5-9) show ?thesis
    by (simp add: get_active_session_def session_row_of_def cipher_decrypt_def)
qed

end

lemma insort_key_map: "(\<And>x. f (g x) = f x) \<Longrightarrow> insort_key f (g x) (map g xs) = map g (insort_key f x xs)"
  by (induction xs) auto

lemma sort_key_map: "(\<And>x. f (g x) = f x) \<Longrightarrow> sort_key f (map g xs) = map g (sort_key f xs)"
  by (induction xs) (simp_all add: insort_key_map)

lemma newest_session_map:
  "(\<And>r. bs_created_at (g r) = bs_created_at r \<and> bs_id (g r) = bs_id r) \<Longrightarrow>
     newest_session (map g rows) = map_option g (newest_session rows)"
proof -
  assume "\<And>r. bs_created_at (g r) = bs_created_at r \<and> bs_id (g r) = bs_id r"
  then have "sort_key (\<lambda>r. (- bs_created_at r, - bs_id r)) (map g rows)
      = map g (sort_key (\<lambda>r. (- bs_created_at r, - bs_id r)) rows)"
    by (intro sort_key_map) simp
  then show ?thesis by (simp add: newest_session_def split: list.splits)
qed

definition sessions_ok :: "instant \<Rightarrow> database \<Rightarrow> bool" where
  "sessions_ok t d \<longleftrightarrow> keyed bs_id (db_broker_sessions d) \<and> (\<forall>r \<in> set (db_broker_sessions d). bs_created_at r \<le> t)"

lemma expire_active_frame [simp]:
  "bs_id (expire_active b now r) = bs_id r" "bs_created_at (expire_active b now r) = bs_created_at r"
  "bs_broker (expire_active b now r) = bs_broker r"
  by (simp_all add: expire_active_def)

lemma keyed_map_same: "(\<And>r. k (g r) = k r) \<Longrightarrow> keyed k rows \<Longrightarrow> keyed k (map g rows)"
  by (simp add: keyed_def comp_def)

lemma sql_save_latest:
  assumes ok: "sessions_ok t d" and t: "t \<le> now"
  shows "\<exists>i d'. sql_save_session n now d = (Inr (session_row_of i n now), d') \<and> sessions_ok now d' \<and>
      sql_latest_session (ns_broker n) d' = Some (session_row_of i n now)"
proof -
  define rows where "rows = map (expire_active (ns_broker n) now) (db_broker_sessions d)"
  define row where "row = session_row_of (next_id rows) n now"
  define d' where "d' = d\<lparr>db_broker_sessions := rows @ [row]\<rparr>"
  have fields: "bs_id row = next_id rows" "bs_created_at row = now" "bs_broker row = ns_broker n"
    by (simp_all add: row_def session_row_of_def)
  have keyed: "keyed bs_id rows"
    using ok unfolding rows_def sessions_ok_def by (intro keyed_map_same) simp_all
  have old: "bs_created_at r \<le> now" if "r \<in> set rows" for r
    using that ok t by (auto simp: rows_def sessions_ok_def intro: order_trans)
  have "sessions_ok now d'"
    using keyed old fields by (auto simp: sessions_ok_def d'_def keyed_append)
  moreover have "sql_latest_session (ns_broker n) d' = Some row"
  proof -
    have "\<forall>r \<in> set (filter (\<lambda>r. bs_broker r = ns_broker n) rows).
        (- bs_created_at row, - bs_id row) < (- bs_created_at r, - bs_id r)"
      using keyed_bound [OF keyed] old fields by (auto simp: less_prod_def)
    from sort_key_snoc_min [OF this] fields show ?thesis
      by (simp add: sql_latest_session_def newest_session_def d'_def)
  qed
  moreover have "sql_save_session n now d = (Inr row, d')"
    by (simp add: sql_save_session_def rows_def row_def d'_def Let_def)
  ultimately show ?thesis unfolding row_def by blast
qed

lemma sql_mark_latest:
  assumes ok: "sessions_ok t d" and t: "t \<le> now" and latest: "sql_latest_session broker d = Some r"
  shows "\<exists>d'. sql_mark_invalidated (bs_id r) status now d = (Inr (), d') \<and> sessions_ok now d' \<and>
      sql_latest_session broker d' =
        Some (r\<lparr>bs_status := status, bs_invalidated_at := Some now, bs_updated_at := now\<rparr>)"
proof -
  define g :: "broker_session_row \<Rightarrow> broker_session_row" where "g = (\<lambda>x. if bs_id x = bs_id r
      then x\<lparr>bs_status := status, bs_invalidated_at := Some now, bs_updated_at := now\<rparr> else x)"
  have frame: "bs_created_at (g x) = bs_created_at x" "bs_id (g x) = bs_id x" "bs_broker (g x) = bs_broker x"
    for x by (simp_all add: g_def)
  define d' where "d' = d\<lparr>db_broker_sessions := map g (db_broker_sessions d)\<rparr>"
  have "sessions_ok now d'"
    using ok t frame by (fastforce simp: sessions_ok_def d'_def intro: keyed_map_same)
  moreover have "sql_latest_session broker d' = Some (g r)"
  proof -
    have "filter (\<lambda>x. bs_broker x = broker) (map g (db_broker_sessions d))
        = map g (filter (\<lambda>x. bs_broker x = broker) (db_broker_sessions d))"
      by (simp add: filter_map comp_def frame)
    with latest frame show ?thesis
      by (simp add: sql_latest_session_def d'_def newest_session_map)
  qed
  moreover have "sql_mark_invalidated (bs_id r) status now d = (Inr (), d')"
    by (simp add: sql_mark_invalidated_def d'_def g_def)
  ultimately show ?thesis by (simp add: g_def)
qed

interpretation sql_sessions: session_contract sql_session_store sessions_ok
  by unfold_locales (auto simp: sql_session_store_def dest: sql_save_latest sql_mark_latest)

subsection \<open>Properties\<close>

text \<open>A session expires at the next six o'clock in India: after the login, at most one day later.\<close>

theorem expiry_is_next_six:
  "now < next_kite_expiry now \<and> next_kite_expiry now \<le> now + day_us
     \<and> ist_time (next_kite_expiry now) = hhmm 6 0"
proof -
  let ?six = "ist_combine (ist_date now) (hhmm 6 0)"
  have split: "now = ist_combine (ist_date now) (ist_time now)" by (simp add: ist_combine_split)
  have range: "0 \<le> ist_time now" "ist_time now < day_us" using ist_time_range [of now] by auto
  have six: "ist_time ?six = hhmm 6 0"
    by (rule ist_time_combine) (simp_all add: hhmm_def time_units)
  have later: "ist_time (?six + day_us) = hhmm 6 0"
  proof -
    have "?six + day_us = ist_combine (ist_date now + 1) (hhmm 6 0)"
      by (simp add: ist_combine_def algebra_simps)
    then show ?thesis by (simp add: ist_time_combine hhmm_def time_units)
  qed
  from split range have "?six \<le> now + day_us" "now < ?six + day_us"
    by (simp_all add: ist_combine_def hhmm_def time_units)
  with six later range show ?thesis
    by (simp add: next_kite_expiry_def Let_def day_us_def)
qed

text \<open>The documented behaviour of Fernet.\<close>

definition fernet_inverse :: "fernet \<Rightarrow> bool" where
  "fernet_inverse f \<longleftrightarrow> (\<forall>p. fe_encrypt f p \<noteq> [] \<and> fe_decrypt f (fe_encrypt f p) = Some p)"

lemma on_sessions_apply: "on_sessions m w = (fst (m (aw_sessions w)), w\<lparr>aw_sessions := snd (m (aw_sessions w))\<rparr>)"
  by (simp add: on_sessions_def split: prod.splits)

lemma on_states_apply: "on_states m w = (fst (m (aw_states w)), w\<lparr>aw_states := snd (m (aw_states w))\<rparr>)"
  by (simp add: on_states_def split: prod.splits)

lemma on_sessions_D: "on_sessions m w = (r, w') \<Longrightarrow> m (aw_sessions w) = (r, aw_sessions w')"
  by (auto simp: on_sessions_apply prod_eq_iff)

lemma keeps_on_states: "keeps (\<lambda>w. P (aw_sessions w)) (on_states m)"
  by (auto simp: keeps_def on_states_apply)

lemma keeps_on_sessions: "keeps P m \<Longrightarrow> keeps (\<lambda>w. P (aw_sessions w)) (on_sessions m)"
  unfolding keeps_def by (blast dest: on_sessions_D)

text \<open>A callback that returns has consumed its state and saved the encrypted token of the exchange.\<close>

lemma handle_callback_saves:
  assumes "handle_callback env now saved seen request_token state w = (Inr status, w')"
  obtains st data f res w1 where "state = Some st" "st \<noteq> []"
    "on_states (ca_consume (ae_states env) st) w = (Inr True, w1)"
    "kc_exchange_request_token (ae_client env) (the request_token) = Inr data"
    "ae_cipher env = Some f" "kd_access_token data \<noteq> []"
    "se_save (ae_store env) \<lparr>ns_broker = broker_zerodha,
        ns_user_id = (if kd_user_id data = [] then None else Some (kd_user_id data)),
        ns_encrypted_access_token = fe_encrypt f (kd_access_token data), ns_login_at = now,
        ns_expires_at = next_kite_expiry now\<rparr> saved (aw_sessions w) = (Inr res, aw_sessions w')"
    "status = status_from_record (ae_settings env) seen res" "aw_states w' = aw_states w1"
    "kite_auth_enabled (ae_settings env)" "kite_api_key (ae_settings env) \<noteq> []"
proof -
  from assms obtain token st w1 data f enc where
    c: "request_token = Some token" "state = Some st" "st \<noteq> []"
       "on_states (ca_consume (ae_states env) st) w = (Inr True, w1)"
       "kc_exchange_request_token (ae_client env) token = Inr data" "kd_access_token data \<noteq> []"
       "ae_cipher env = Some f" "cipher_encrypt f (kd_access_token data) = Inr enc"
    and last: "bindS (on_sessions (se_save (ae_store env) \<lparr>ns_broker = broker_zerodha,
        ns_user_id = (if kd_user_id data = [] then None else Some (kd_user_id data)),
        ns_encrypted_access_token = enc, ns_login_at = now,
        ns_expires_at = next_kite_expiry now\<rparr> saved)) (\<lambda>record.
          retS (status_from_record (ae_settings env) seen record)) w1 = (Inr status, w')"
    and en: "ensure_enabled_and_configured (ae_settings env) True = Inr ()"
    unfolding handle_callback_def
    by (auto simp: bindS_Inr_iff split: option.splits if_splits)
  from c(4) have "aw_sessions w1 = aw_sessions w" by (auto simp: on_states_apply)
  moreover from c(6,8) have "enc = fe_encrypt f (kd_access_token data)" by (simp add: cipher_encrypt_def)
  moreover from en have "kite_auth_enabled (ae_settings env)" "kite_api_key (ae_settings env) \<noteq> []"
    by (auto simp: ensure_enabled_and_configured_def has_required_config_def split: if_splits)
  moreover from last obtain res where "on_sessions (se_save (ae_store env) \<lparr>ns_broker = broker_zerodha,
        ns_user_id = (if kd_user_id data = [] then None else Some (kd_user_id data)),
        ns_encrypted_access_token = enc, ns_login_at = now,
        ns_expires_at = next_kite_expiry now\<rparr> saved) w1 = (Inr res, w')"
      "status = status_from_record (ae_settings env) seen res" "aw_states w' = aw_states w1"
    by (auto simp: bindS_Inr_iff on_sessions_apply)
  ultimately show thesis using c by (intro that [of st w1 data f res]) (auto dest: on_sessions_D)
qed

end
