(* ===== verification/BrokerExamples.thy ===== *)
theory BrokerExamples
  imports BrokerSession
begin

section \<open>Properties of the broker sessions\<close>

text \<open>
  What a login leaves for the services that read the session, what a logout takes away, and what
  holds over any sequence of the operations of the login service on the SQL store.
\<close>

subsection \<open>Login and logout\<close>

text \<open>C9: Until the next expiry, the session that the provider hands out after a successful callback
  carries the access token and the user of the exchange: storing it encrypted and reading it back
  loses nothing.\<close>

theorem login_then_session:
  assumes "ae_store env = sql_session_store" "ae_cipher env = Some f" "fernet_inverse f"
    and "sessions_ok t (aw_sessions w)" "t \<le> saved"
    and "handle_callback env now saved seen (Some token) state w = (Inr status, w')"
    and "later < next_kite_expiry now"
  shows "\<exists>data. kc_exchange_request_token (ae_client env) token = Inr data \<and>
    get_active_session (ae_settings env) sql_session_store (Some f) later (aw_sessions w') =
      Inr \<lparr>ks_api_key = kite_api_key (ae_settings env), ks_access_token = kd_access_token data,
           ks_user_id = (if kd_user_id data = [] then None else Some (kd_user_id data)),
           ks_expires_at = next_kite_expiry now\<rparr>"
proof -
  from assms(6) obtain data res where
    ex: "kc_exchange_request_token (ae_client env) token = Inr data"
    and sv: "se_save sql_session_store \<lparr>ns_broker = broker_zerodha,
        ns_user_id = (if kd_user_id data = [] then None else Some (kd_user_id data)),
        ns_encrypted_access_token = fe_encrypt f (kd_access_token data), ns_login_at = now,
        ns_expires_at = next_kite_expiry now\<rparr> saved (aw_sessions w) = (Inr res, aw_sessions w')"
    and en: "kite_auth_enabled (ae_settings env)" "kite_api_key (ae_settings env) \<noteq> []"
    using assms(1,2) by (elim handle_callback_saves) auto
  from assms(3) have f: "fe_encrypt f (kd_access_token data) \<noteq> []"
    "fe_decrypt f (fe_encrypt f (kd_access_token data)) = Some (kd_access_token data)"
    by (simp_all add: fernet_inverse_def)
  from sql_sessions.saved_session_returned [OF assms(4,5) sv _ _ _ en, of f "kd_access_token data" later]
    f assms(7) ex show ?thesis by simp
qed

definition plain_fernet :: fernet where
  "plain_fernet = \<lparr>fe_encrypt = (\<lambda>p. CHR ''e'' # p), fe_decrypt = (\<lambda>c. Some (tl c))\<rparr>"

definition list_redis :: "string list redis_client" where
  "list_redis = \<lparr>rd_set = (\<lambda>k v ttl. modifyS (\<lambda>ks. k # ks)),
     rd_delete = (\<lambda>k ks. (Inr (if k \<in> set ks then 1 else 0), removeAll k ks))\<rparr>"

definition login_env :: "(database, string list) auth_env" where
  "login_env =
     \<lparr>ae_settings = default_settings\<lparr>kite_auth_enabled := True, kite_api_key := ''k'', kite_api_secret := ''s'',
        kite_redirect_url := ''u'', kite_session_encryption_key := ''e''\<rparr>,
      ae_client = \<lparr>kc_login_url = (\<lambda>st. Inr st), kc_exchange_request_token =
          (\<lambda>t. Inr \<lparr>kd_user_id = ''me'', kd_access_token = CHR ''a'' # t\<rparr>),
        kc_invalidate_access_token = (\<lambda>t. Inr ())\<rparr>,
      ae_store = sql_session_store, ae_states = redis_state_store list_redis 300 ''x'',
      ae_cipher = Some plain_fernet\<rparr>"

definition login_world :: "(database, string list) auth_world" where
  "login_world =
     \<lparr>aw_sessions = \<lparr>db_now = 0, db_broker_sessions = [], db_instruments = [], db_candles = [],
        db_signals = [], db_recommendations = [], db_orders = [], db_order_events = [], db_trades = [],
        db_journal_entries = [], db_model_runs = [], db_universe_runs = []\<rparr>,
      aw_states = [state_prefix @ ''x'']\<rparr>"

abbreviation logged_in :: "broker_session_status res \<times> (database, string list) auth_world" where
  "logged_in \<equiv> handle_callback login_env 0 0 0 (Some ''t'') (Some ''x'') login_world"

lemma sessions_ok_empty: "sessions_ok t (aw_sessions login_world)"
  by (simp add: sessions_ok_def login_world_def keyed_def)

lemma logged_in_ok: "case logged_in of (Inr status, w) \<Rightarrow> sv_authenticated status | _ \<Rightarrow> False"
  by code_simp

theorem login_then_session_witness:
  "\<exists>status w'. logged_in = (Inr status, w')
     \<and> get_active_session (ae_settings login_env) sql_session_store (Some plain_fernet) 5 (aw_sessions w') =
       Inr \<lparr>ks_api_key = ''k'', ks_access_token = ''at'', ks_user_id = Some ''me'',
            ks_expires_at = next_kite_expiry 0\<rparr>"
proof -
  from logged_in_ok obtain status w' where w': "logged_in = (Inr status, w')"
    by (cases "logged_in") (auto split: sum.splits)
  have e: "ae_store login_env = sql_session_store" "ae_cipher login_env = Some plain_fernet"
    by (simp_all add: login_env_def)
  have f: "fernet_inverse plain_fernet" by (simp add: fernet_inverse_def plain_fernet_def)
  have l: "5 < next_kite_expiry 0" by code_simp
  have c: "kc_exchange_request_token (ae_client login_env) ''t'' = Inr \<lparr>kd_user_id = ''me'', kd_access_token = ''at''\<rparr>"
    "kite_api_key (ae_settings login_env) = ''k''" by (simp_all add: login_env_def)
  from login_then_session [OF e f sessions_ok_empty [of 0] order.refl w' l] c w'
  show ?thesis by auto
qed

text \<open>C27: After a logout that reports success, no service gets the session any more.\<close>

theorem logout_ends_session:
  assumes "ae_store env = sql_session_store" "sessions_ok t (aw_sessions w)" "t \<le> now"
    and "logout env now w = (Inr True, w')"
  shows "get_active_session (ae_settings env) sql_session_store (Some f) later (aw_sessions w') =
    Inl (KiteSessionError ''Kite session is not active.'')"
proof -
  from assms(4,1) obtain r where
    en: "ensure_enabled_and_configured (ae_settings env) True = Inr ()"
    and r: "se_latest sql_session_store broker_zerodha (aw_sessions w) = Some r"
    and m: "on_sessions (se_mark_invalidated sql_session_store (bs_id r) status_logged_out now) w = (Inr (), w')"
    unfolding logout_def by (auto simp: bindS_Inr_iff split: option.splits if_splits)
  from en have s: "kite_auth_enabled (ae_settings env)" "kite_api_key (ae_settings env) \<noteq> []"
    by (auto simp: ensure_enabled_and_configured_def has_required_config_def split: if_splits)
  show ?thesis
    by (rule sql_sessions.marked_session_refused [OF assms(2,3) r on_sessions_D [OF m] s])
qed

theorem logout_ends_session_witness:
  "\<exists>w'. logout login_env 7 (snd logged_in) = (Inr True, w')
     \<and> get_active_session (ae_settings login_env) sql_session_store (Some plain_fernet) 8 (aw_sessions w') =
         Inl (KiteSessionError ''Kite session is not active.'')"
proof -
  have "case logout login_env 7 (snd logged_in) of (Inr True, w) \<Rightarrow> True | _ \<Rightarrow> False" by code_simp
  then obtain w' where w': "logout login_env 7 (snd logged_in) = (Inr True, w')"
    by (cases "logout login_env 7 (snd logged_in)") (auto split: sum.splits bool.splits)
  have "map bs_id (db_broker_sessions (aw_sessions (snd logged_in))) = [1]
      \<and> list_all (\<lambda>r. bs_created_at r \<le> 7) (db_broker_sessions (aw_sessions (snd logged_in)))" by code_simp
  then have ok: "sessions_ok 7 (aw_sessions (snd logged_in))"
    by (auto simp: sessions_ok_def keyed_def list_all_iff)
  have e: "ae_store login_env = sql_session_store" by (simp add: login_env_def)
  from logout_ends_session [OF e ok order.refl w', of plain_fernet 8] w' show ?thesis by blast
qed

subsection \<open>Sequences of operations\<close>

datatype auth_op =
    Open_Login string
  | Callback instant instant instant "string option" "string option"
  | Check_Status instant
  | Log_Out instant

text \<open>\<open>Open_Login\<close> has the random token; the clock readings are arguments.\<close>

fun auth_step :: "('s, 'r) auth_env \<Rightarrow> 'r redis_client \<Rightarrow> auth_op \<Rightarrow> ('s, 'r) auth_world \<Rightarrow> ('s, 'r) auth_world" where
  "auth_step env redis (Open_Login token) w =
     snd (create_login_url (env\<lparr>ae_states := redis_state_store redis state_ttl_seconds token\<rparr>) w)"
| "auth_step env redis (Callback now saved seen token state) w =
     snd (handle_callback (env\<lparr>ae_states := redis_state_store redis state_ttl_seconds ''''\<rparr>)
       now saved seen token state w)"
| "auth_step env redis (Check_Status now) w = snd (auth_status env now w)"
| "auth_step env redis (Log_Out now) w = snd (logout env now w)"

definition auth_run :: "('s, 'r) auth_env \<Rightarrow> 'r redis_client \<Rightarrow> auth_op list \<Rightarrow> ('s, 'r) auth_world \<Rightarrow> ('s, 'r) auth_world"
  where "auth_run env redis ops w = fold (auth_step env redis) ops w"

lemma keeps_snd: "keeps I m \<Longrightarrow> I s \<Longrightarrow> I (snd (m s))"
  by (metis keepsD prod.collapse)

lemma auth_run_keeps:
  assumes "\<And>op w. op \<in> set ops \<Longrightarrow> I w \<Longrightarrow> I (auth_step env redis op w)" "I w"
  shows "I (auth_run env redis ops w)"
  using assms unfolding auth_run_def by (induction ops arbitrary: w) auto

text \<open>At most one session of a broker is active.\<close>

definition one_active :: "database \<Rightarrow> bool" where
  "one_active d \<longleftrightarrow>
     (\<forall>b. length (filter (\<lambda>r. bs_broker r = b \<and> bs_status r = status_active) (db_broker_sessions d)) \<le> 1)"

lemma active_after_expiry:
  "filter (\<lambda>r. bs_broker r = b \<and> bs_status r = status_active) (map (expire_active c now) rows)
     = (if b = c then [] else filter (\<lambda>r. bs_broker r = b \<and> bs_status r = status_active) rows)"
  by (induction rows) (auto simp: expire_active_def status_active_def status_expired_def)

lemma save_one_active: "keeps one_active (sql_save_session n now)"
  by (auto simp: keeps_def sql_save_session_def one_active_def Let_def active_after_expiry session_row_of_def)

lemma mark_one_active: "status \<noteq> status_active \<Longrightarrow> keeps one_active (sql_mark_invalidated i status now)"
proof (rule keepsI)
  fix d r d' assume st: "status \<noteq> status_active" and one: "one_active d"
    and m: "sql_mark_invalidated i status now d = (r, d')"
  define g :: "broker_session_row \<Rightarrow> broker_session_row" where
    "g = (\<lambda>x. if bs_id x = i
       then x\<lparr>bs_status := status, bs_invalidated_at := Some now, bs_updated_at := now\<rparr> else x)"
  have "length (filter (\<lambda>r. bs_broker r = b \<and> bs_status r = status_active) (map g rows))
      \<le> length (filter (\<lambda>r. bs_broker r = b \<and> bs_status r = status_active) rows)" for b rows
    using st by (induction rows) (auto simp: g_def)
  note fewer = this
  from m have "db_broker_sessions d' = map g (db_broker_sessions d)"
    by (auto simp: sql_mark_invalidated_def g_def)
  with one fewer show "one_active d'" unfolding one_active_def by (auto intro: order_trans)
qed

lemmas session_keeps = keeps_on_sessions keeps_on_states keeps_bind keeps_lift keeps_read keeps_ret
  keeps_raise keeps_when save_one_active mark_one_active

lemma auth_step_one_active:
  assumes "ae_store env = sql_session_store" "one_active (aw_sessions w)"
  shows "one_active (aw_sessions (auth_step env redis op w))"
proof -
  let ?I = "\<lambda>w. one_active (aw_sessions w)"
  have st: "status_expired \<noteq> status_active" "status_logged_out \<noteq> status_active"
    by (simp_all add: status_active_def status_expired_def status_logged_out_def)
  have store: "se_save (ae_store env) = sql_save_session" "se_mark_invalidated (ae_store env) = sql_mark_invalidated"
    using assms(1) by (simp_all add: sql_session_store_def)
  have "keeps ?I (create_login_url (env\<lparr>ae_states := x\<rparr>))" for x
    unfolding create_login_url_def by (intro session_keeps keeps_on_states [of one_active])
  moreover have "keeps ?I (handle_callback (env\<lparr>ae_states := x\<rparr>) a b c t s)" for x a b c t s
    unfolding handle_callback_def using store
    by (auto intro!: session_keeps keeps_on_states [of one_active] keeps_on_sessions [of one_active]
        split: option.splits)
  moreover have "keeps ?I (auth_status env a)" for a
    unfolding auth_status_def using store st
    by (auto intro!: session_keeps keeps_on_sessions [of one_active] simp: Let_def split: option.splits)
  moreover have "keeps ?I (logout env a)" for a
    unfolding logout_def using store st
    by (auto intro!: session_keeps keeps_on_sessions [of one_active] split: option.splits)
  ultimately show ?thesis using assms(2) by (cases op) (auto intro: keeps_snd [of ?I])
qed

text \<open>C12: Whatever sequence of logins, callbacks, status checks and logouts runs on the SQL store, at most
  one session of a broker is active.\<close>

theorem one_active_session:
  assumes "ae_store env = sql_session_store" "one_active (aw_sessions w)"
  shows "one_active (aw_sessions (auth_run env redis ops w))"
  by (rule auth_run_keeps [where I = "\<lambda>w. one_active (aw_sessions w)"])
    (auto intro: auth_step_one_active [OF assms(1)] assms(2))

theorem one_active_session_witness:
  "one_active (aw_sessions (auth_run login_env list_redis
       [Open_Login ''y'', Callback 0 0 0 (Some ''t'') (Some ''x''), Callback 1 1 1 (Some ''u'') (Some ''y'')] login_world))
   \<and> map bs_status (db_broker_sessions (aw_sessions (auth_run login_env list_redis
       [Open_Login ''y'', Callback 0 0 0 (Some ''t'') (Some ''x''), Callback 1 1 1 (Some ''u'') (Some ''y'')] login_world)))
     = [''EXPIRED'', ''ACTIVE'']"
proof -
  have two: "map bs_status (db_broker_sessions (aw_sessions (auth_run login_env list_redis
       [Open_Login ''y'', Callback 0 0 0 (Some ''t'') (Some ''x''), Callback 1 1 1 (Some ''u'') (Some ''y'')] login_world)))
     = [''EXPIRED'', ''ACTIVE'']" by code_simp
  have "one_active (aw_sessions login_world)" by (simp add: one_active_def login_world_def)
  moreover have "ae_store login_env = sql_session_store" by (simp add: login_env_def)
  ultimately show ?thesis using two by (intro conjI one_active_session)
qed

subsection \<open>Callback states\<close>

text \<open>
  The documented behaviour of the Redis calls: \<open>live\<close> are the keys of the store. A key that has not
  expired is deleted at most once, and only \<^verbatim>\<open>SET\<close> creates its key.
\<close>

definition redis_behaves :: "'r redis_client \<Rightarrow> ('r \<Rightarrow> string set) \<Rightarrow> bool" where
  "redis_behaves redis live \<longleftrightarrow>
     (\<forall>k v ttl r res r'. rd_set redis k v ttl r = (res, r') \<longrightarrow> live r' \<subseteq> insert k (live r)) \<and>
     (\<forall>k r res r'. rd_delete redis k r = (res, r') \<longrightarrow> live r' \<subseteq> live r) \<and>
     (\<forall>k r n r'. rd_delete redis k r = (Inr n, r') \<longrightarrow> k \<notin> live r' \<and> (k \<notin> live r \<longrightarrow> n = 0))"

lemma keeps_states: "keeps P m \<Longrightarrow> keeps (\<lambda>w. P (aw_states w)) (on_states m)"
  unfolding keeps_def by (auto simp: on_states_apply) (metis prod.collapse)

lemma keeps_states_sessions: "keeps (\<lambda>w. P (aw_states w)) (on_sessions m)"
  by (auto simp: keeps_def on_sessions_apply)

lemma consumed_stays:
  assumes "redis_behaves redis live" "k \<notin> live (aw_states w)" "\<And>token. op = Open_Login token \<Longrightarrow> state_prefix @ token \<noteq> k"
  shows "k \<notin> live (aw_states (auth_step env redis op w))"
proof -
  let ?P = "\<lambda>r. k \<notin> live r"
  let ?I = "\<lambda>w. k \<notin> live (aw_states w)"
  have del: "keeps ?P (rd_delete redis k')" for k'
    using assms(1) unfolding redis_behaves_def keeps_def by blast
  have set: "k' \<noteq> k \<Longrightarrow> keeps ?P (rd_set redis k' v ttl)" for k' v ttl
    using assms(1) unfolding redis_behaves_def keeps_def by blast
  have consume: "keeps ?P (redis_consume_state redis st)" for st
    unfolding redis_consume_state_def using del by (auto intro!: keeps_intros)
  have create: "state_prefix @ token \<noteq> k \<Longrightarrow> keeps ?P (redis_create_state redis ttl token)" for token ttl
    unfolding redis_create_state_def by (intro keeps_intros set)
  have url: "state_prefix @ token \<noteq> k \<Longrightarrow>
      keeps ?I (create_login_url (env\<lparr>ae_states := redis_state_store redis ttl token\<rparr>))" for ttl token
    unfolding create_login_url_def using create
    by (auto intro!: keeps_intros keeps_states [of ?P] simp: redis_state_store_def)
  have callback: "keeps ?I (handle_callback (env\<lparr>ae_states := redis_state_store redis ttl token\<rparr>) a b c t s)"
    for ttl token a b c t s
    unfolding handle_callback_def using consume
    by (auto intro!: keeps_intros keeps_states [of ?P] keeps_states_sessions [of ?P]
        simp: redis_state_store_def split: option.splits)
  have status: "keeps ?I (auth_status env a)" for a
    unfolding auth_status_def
    by (auto intro!: keeps_intros keeps_states_sessions [of ?P] simp: Let_def split: option.splits)
  have out: "keeps ?I (logout env a)" for a
    unfolding logout_def
    by (auto intro!: keeps_intros keeps_states_sessions [of ?P] split: option.splits)
  show ?thesis
  proof (cases op)
    case (Open_Login token)
    with keeps_snd [OF url, of token w] assms(2,3) show ?thesis by simp
  next
    case (Callback a b c t s)
    with keeps_snd [OF callback, of w] assms(2) show ?thesis by simp
  next
    case (Check_Status a)
    with keeps_snd [OF status, of w a] assms(2) show ?thesis by simp
  next
    case (Log_Out a)
    with keeps_snd [OF out, of w a] assms(2) show ?thesis by simp
  qed
qed

lemma states_after_callback:
  assumes "handle_callback env now saved seen token (Some st) w = (Inr status, w')"
  shows "\<exists>w1. on_states (ca_consume (ae_states env) st) w = (Inr True, w1) \<and> aw_states w' = aw_states w1"
  using assms by (elim handle_callback_saves) auto

text \<open>C28: A callback state is accepted at most once: after a callback with it succeeded, every later
  callback with the same state raises and changes no session, whatever operations ran between (as long
  as the random token is not drawn again).\<close>

theorem callback_state_used_once:
  assumes "redis_behaves redis live"
    and "handle_callback (env\<lparr>ae_states := redis_state_store redis state_ttl_seconds []\<rparr>) now saved seen token (Some st) w
           = (Inr status, w1)"
    and "\<And>x. Open_Login x \<in> set ops \<Longrightarrow> x \<noteq> st"
  shows "\<exists>e w2. handle_callback (env\<lparr>ae_states := redis_state_store redis state_ttl_seconds []\<rparr>) now' saved' seen' token'
       (Some st) (auth_run env redis ops w1) = (Inl e, w2)
     \<and> aw_sessions w2 = aw_sessions (auth_run env redis ops w1)"
proof -
  let ?env = "env\<lparr>ae_states := redis_state_store redis state_ttl_seconds []\<rparr>"
  let ?k = "state_prefix @ st"
  let ?v = "auth_run env redis ops w1"
  have consume: "ca_consume (ae_states ?env) = redis_consume_state redis" by (simp add: redis_state_store_def)
  from states_after_callback [OF assms(2)] obtain wc where
    wc: "on_states (redis_consume_state redis st) w = (Inr True, wc)" "aw_states w1 = aw_states wc"
    unfolding consume by blast
  then obtain n r' where "rd_delete redis ?k (aw_states w) = (Inr n, r')" "aw_states wc = r'"
    by (auto simp: on_states_def redis_consume_state_def bindS_def split: prod.splits sum.splits if_splits)
  with assms(1) wc(2) have "?k \<notin> live (aw_states w1)" unfolding redis_behaves_def by metis
  have stays: "?k \<notin> live (aw_states (auth_step env redis op w))"
    if "op \<in> set ops" "?k \<notin> live (aw_states w)" for op w
    by (rule consumed_stays [OF assms(1) that(2)]) (use that(1) assms(3) in auto)
  have gone: "?k \<notin> live (aw_states ?v)"
    using auth_run_keeps [where I = "\<lambda>w. ?k \<notin> live (aw_states w)", OF stays \<open>?k \<notin> live (aw_states w1)\<close>]
    by blast
  have no: "case on_states (redis_consume_state redis st) ?v of
      (Inl e, w) \<Rightarrow> aw_sessions w = aw_sessions ?v | (Inr b, w) \<Rightarrow> \<not> b \<and> aw_sessions w = aw_sessions ?v"
  proof (cases "st = []")
    case True
    then show ?thesis by (simp add: on_states_def redis_consume_state_def)
  next
    case False
    show ?thesis
    proof (cases "rd_delete redis ?k (aw_states ?v)")
      case (Pair res r)
      show ?thesis
      proof (cases res)
        case (Inl e)
        with Pair False show ?thesis by (simp add: on_states_def redis_consume_state_def)
      next
        case (Inr n)
        with assms(1) gone Pair have "n = 0" unfolding redis_behaves_def by metis
        with Pair Inr False show ?thesis by (simp add: on_states_def redis_consume_state_def)
      qed
    qed
  qed
  have bad: "\<exists>e w2. handle_callback ?env now' saved' seen' token' (Some st) ?v = (Inl e, w2)
      \<and> aw_sessions w2 = aw_sessions ?v"
    if "on_states (redis_consume_state redis st) ?v = (x, w2)" "x \<noteq> Inr True" "aw_sessions w2 = aw_sessions ?v" for x w2
    using that unfolding handle_callback_def consume
    by (cases x) (auto simp: bindS_def split: option.splits sum.splits)
  show ?thesis
  proof (cases "on_states (redis_consume_state redis st) ?v")
    case (Pair x w2)
    with no have "x \<noteq> Inr True" "aw_sessions w2 = aw_sessions ?v" by (auto split: sum.splits)
    with bad [OF Pair] show ?thesis by blast
  qed
qed

theorem callback_state_used_once_witness:
  "\<exists>e w2. handle_callback (login_env\<lparr>ae_states := redis_state_store list_redis state_ttl_seconds []\<rparr>) 9 9 9 (Some ''u'')
       (Some ''x'') (auth_run login_env list_redis [Open_Login ''y'', Log_Out 5] (snd logged_in)) = (Inl e, w2)"
proof -
  have behaves: "redis_behaves list_redis set"
    by (auto simp: redis_behaves_def list_redis_def)
  have "handle_callback (login_env\<lparr>ae_states := redis_state_store list_redis state_ttl_seconds []\<rparr>) 0 0 0
      (Some ''t'') (Some ''x'') login_world = logged_in" by code_simp
  with logged_in_ok obtain status w1 where "handle_callback
      (login_env\<lparr>ae_states := redis_state_store list_redis state_ttl_seconds []\<rparr>) 0 0 0
      (Some ''t'') (Some ''x'') login_world = (Inr status, w1)" "w1 = snd logged_in"
    by (cases "logged_in") (auto split: sum.splits)
  from callback_state_used_once [OF behaves this(1), of "[Open_Login ''y'', Log_Out 5]" 9 9 9 "Some ''u''"] this(2)
  show ?thesis by auto
qed

end
