(* ===== verification/StreamService.thy ===== *)
theory StreamService
  imports CandleBuilder WatchlistValidation BrokerSession
begin

section \<open>The quote stream\<close>

text \<open>
  \<^verbatim>\<open>MarketDataStreamService\<close> of \<^verbatim>\<open>app/market_data/websocket_service.py\<close>: starting and stopping
  the stream, its callbacks, the ticks handed to the candle builder and the completed candles handed
  to the event loop for storage. The broker's client is a parameter; a call of it is recorded, so that
  theorems can speak about what was requested. A batch of candles given to
  \<^verbatim>\<open>run_coroutine_threadsafe\<close> is pending until \<open>persist_batch\<close> runs it.
\<close>

subsection \<open>Ticks\<close>

text \<open>A field of a raw tick: a broker value or a datetime, aware or naive (then read as UTC).\<close>

datatype (plugins only: code size) tick_value = TValue broker_value | TAware instant | TNaive instant

type_synonym raw_tick = "(string \<times> tick_value) list"

fun tick_truthy :: "tick_value option \<Rightarrow> bool" where
  "tick_truthy None = False"
| "tick_truthy (Some (TValue BNone)) = False"
| "tick_truthy (Some (TValue (BInt i))) = (i \<noteq> 0)"
| "tick_truthy (Some (TValue (BStr s))) = (s \<noteq> [])"
| "tick_truthy (Some (TValue (BFloat t))) = (py_decimal t \<noteq> Some 0)"
| "tick_truthy (Some (TAware t)) = True"
| "tick_truthy (Some (TNaive t)) = True"

definition tick_or :: "tick_value option \<Rightarrow> tick_value option \<Rightarrow> tick_value option" where
  "tick_or a b = (if tick_truthy a then a else b)"

text \<open>\<^verbatim>\<open>int(value)\<close>; a float is truncated.\<close>

fun tick_int :: "tick_value \<Rightarrow> int res" where
  "tick_int (TValue (BInt i)) = Inr i"
| "tick_int (TValue (BStr s)) =
     (case py_int s of None \<Rightarrow> Inl (ValueError ''invalid literal for int() with base 10'') | Some i \<Rightarrow> Inr i)"
| "tick_int (TValue (BFloat t)) =
     (case py_decimal t of
        None \<Rightarrow> Inl (ValueError ''cannot convert float to integer'')
      | Some q \<Rightarrow> Inr (if 0 \<le> q then \<lfloor>q\<rfloor> else \<lceil>q\<rceil>))"
| "tick_int v = Inl TypeError"

definition tick_decimal :: "tick_value option \<Rightarrow> dec res" where
  "tick_decimal v =
     (case v of
        Some (TValue b) \<Rightarrow> (case py_decimal (broker_str b) of None \<Rightarrow> Inl InvalidOperation | Some q \<Rightarrow> Inr q)
      | _ \<Rightarrow> Inl InvalidOperation)"

definition normalize_tick :: "instant \<Rightarrow> raw_tick \<Rightarrow> normalized_tick res" where
  "normalize_tick now raw =
     bindE (case map_of raw ''instrument_token'' of
              None \<Rightarrow> Inl (KeyError ''instrument_token'') | Some v \<Rightarrow> tick_int v) (\<lambda>token.
     bindE (tick_decimal (case map_of raw ''last_price'' of
              None \<Rightarrow> map_of raw ''last_traded_price'' | Some v \<Rightarrow> Some v)) (\<lambda>price.
     let timestamp = (case tick_or (map_of raw ''exchange_timestamp'') (map_of raw ''timestamp'') of
              Some (TAware t) \<Rightarrow> t | Some (TNaive t) \<Rightarrow> t | _ \<Rightarrow> now)
     in bindE (case tick_or (map_of raw ''volume_traded'') (map_of raw ''volume'') of
              None \<Rightarrow> Inr None | Some (TValue BNone) \<Rightarrow> Inr None
            | Some v \<Rightarrow> bindE (tick_int v) (\<lambda>i. Inr (Some i))) (\<lambda>volume.
        Inr \<lparr>tick_token = token, tick_price = price, tick_volume = volume, exchange_timestamp = timestamp\<rparr>)))"

subsection \<open>State\<close>

definition supported_stream_modes :: "string list" where
  "supported_stream_modes = [''ltp'', ''quote'', ''full'']"

text \<open>
  The application's event loop: not known yet, known and open, or closed. The dictionary by token and
  the list of tokens follow from the resolved instruments.
\<close>

datatype (plugins only: code size) app_loop = No_Loop | Open_Loop | Closed_Loop

record 'h stream_state =
  sm_stream :: "'h option"
  sm_started_at :: "instant option"
  sm_connected :: bool
  sm_last_tick_at :: "instant option"
  sm_last_activity_at :: "instant option"
  sm_last_error :: "string option"
  sm_completed_candles :: nat
  sm_resolved :: "instrument_record list"
  sm_app_loop :: app_loop
  sm_pending :: "completed_candle list list"
  sm_stale_logged :: bool
  sm_builder :: candle_builder

definition new_stream_state :: "settings \<Rightarrow> 'h stream_state" where
  "new_stream_state s =
     \<lparr>sm_stream = None, sm_started_at = None, sm_connected = False, sm_last_tick_at = None,
      sm_last_activity_at = None, sm_last_error = None, sm_completed_candles = 0, sm_resolved = [],
      sm_app_loop = No_Loop, sm_pending = [], sm_stale_logged = False,
      sm_builder = new_builder (market_data_candle_interval s)\<rparr>"

definition instrument_by_token :: "'h stream_state \<Rightarrow> int \<Rightarrow> instrument_record option" where
  "instrument_by_token m token = find (\<lambda>i. ic_instrument_token i = token) (rev (sm_resolved m))"

definition stream_tokens :: "'h stream_state \<Rightarrow> int list" where
  "stream_tokens m = uniq (map ic_instrument_token (sm_resolved m))"

text \<open>The client: \<^verbatim>\<open>create_quote_stream\<close>, \<^verbatim>\<open>connect\<close>, \<^verbatim>\<open>subscribe\<close>, \<^verbatim>\<open>set_mode\<close> and \<^verbatim>\<open>disconnect\<close>.\<close>

record 'h market_client =
  mc_create :: "string \<Rightarrow> string \<Rightarrow> 'h res"
  mc_connect :: "'h \<Rightarrow> unit res"
  mc_subscribe :: "'h \<Rightarrow> int list \<Rightarrow> unit res"
  mc_set_mode :: "'h \<Rightarrow> string \<Rightarrow> int list \<Rightarrow> unit res"
  mc_disconnect :: "'h \<Rightarrow> unit res"

text \<open>\<^verbatim>\<open>KiteConnectMarketClient\<close> over the ticker of the SDK: only the mode is checked.\<close>

definition kite_market_client :: "'h market_client \<Rightarrow> 'h market_client" where
  "kite_market_client sdk = sdk\<lparr>mc_set_mode := (\<lambda>stream mode tokens.
     if mode \<notin> set supported_stream_modes then Inl (MarketDataStreamError ''Unsupported Kite WebSocket mode.'')
     else mc_set_mode sdk stream mode tokens)\<rparr>"

datatype (plugins only: code size) 'h client_call =
    Create_Stream string string
  | Connect 'h
  | Subscribe 'h "int list"
  | Set_Mode 'h string "int list"
  | Disconnect 'h

record ('h, 's) stream_world =
  sw_state :: "'h stream_state"
  sw_repo :: 's
  sw_calls :: "'h client_call list"

definition put_state :: "('h stream_state \<Rightarrow> 'h stream_state) \<Rightarrow> (('h, 's) stream_world, unit) prog" where
  "put_state f = modifyS (\<lambda>w. w\<lparr>sw_state := f (sw_state w)\<rparr>)"

definition client_call :: "'h client_call \<Rightarrow> 'a res \<Rightarrow> (('h, 's) stream_world, 'a) prog" where
  "client_call c r = bindS (modifyS (\<lambda>w. w\<lparr>sw_calls := sw_calls w @ [c]\<rparr>)) (\<lambda>_. liftS r)"

definition on_repo :: "('s, 'a) prog \<Rightarrow> (('h, 's) stream_world, 'a) prog" where
  "on_repo m = (\<lambda>w. case m (sw_repo w) of (r, s) \<Rightarrow> (r, w\<lparr>sw_repo := s\<rparr>))"

subsection \<open>Status\<close>

record stream_status_record =
  tu_enabled :: bool
  tu_websocket_enabled :: bool
  tu_running :: bool
  tu_connected :: bool
  tu_mode :: string
  tu_configured_symbols :: nat
  tu_subscribed_symbols :: nat
  tu_started_at :: "instant option"
  tu_last_tick_at :: "instant option"
  tu_last_activity_at :: "instant option"
  tu_stale :: bool
  tu_completed_candles :: nat
  tu_last_error :: "string option"

definition stream_stale :: "settings \<Rightarrow> instant \<Rightarrow> 'h stream_state \<Rightarrow> bool" where
  "stream_stale s now m =
     (case sm_last_activity_at m of
        None \<Rightarrow> False
      | Some t \<Rightarrow> market_data_stale_after_seconds s * second_us < now - t)"

definition stream_status ::
  "(string \<Rightarrow> string option) \<Rightarrow> settings \<Rightarrow> instant \<Rightarrow> (('h, 's) stream_world, stream_status_record) prog" where
  "stream_status read_text s now =
     bindS (put_state (\<lambda>m. m\<lparr>sm_stale_logged := stream_stale s now m\<rparr>)) (\<lambda>_.
     readS (\<lambda>w. let m = sw_state w in
       \<lparr>tu_enabled = market_data_enabled s, tu_websocket_enabled = kite_websocket_enabled s,
        tu_running = (sm_stream m \<noteq> None), tu_connected = sm_connected m, tu_mode = market_data_mode s,
        tu_configured_symbols = length (configured_watchlist_entries read_text s),
        tu_subscribed_symbols = length (sm_resolved m), tu_started_at = sm_started_at m,
        tu_last_tick_at = sm_last_tick_at m, tu_last_activity_at = sm_last_activity_at m,
        tu_stale = stream_stale s now m, tu_completed_candles = sm_completed_candles m,
        tu_last_error = sm_last_error m\<rparr>))"

definition stream_status_as_dict :: "stream_status_record \<Rightarrow> (string \<times> json) list" where
  "stream_status_as_dict t =
     [(''enabled'', JBool (tu_enabled t)), (''websocket_enabled'', JBool (tu_websocket_enabled t)),
      (''running'', JBool (tu_running t)), (''connected'', JBool (tu_connected t)), (''mode'', JStr (tu_mode t)),
      (''configured_symbols'', JInt (int (tu_configured_symbols t))),
      (''subscribed_symbols'', JInt (int (tu_subscribed_symbols t))),
      (''started_at'', jopt (\<lambda>i. JStr (isoformat i)) (tu_started_at t)),
      (''last_tick_at'', jopt (\<lambda>i. JStr (isoformat i)) (tu_last_tick_at t)),
      (''last_activity_at'', jopt (\<lambda>i. JStr (isoformat i)) (tu_last_activity_at t)),
      (''stale'', JBool (tu_stale t)), (''completed_candles'', JInt (int (tu_completed_candles t))),
      (''last_error'', jopt JStr (tu_last_error t))]"

definition status_dict ::
  "(string \<Rightarrow> string option) \<Rightarrow> settings \<Rightarrow> instant \<Rightarrow> (('h, 's) stream_world, (string \<times> json) list) prog" where
  "status_dict read_text s now = bindS (stream_status read_text s now) (\<lambda>t. retS (stream_status_as_dict t))"

subsection \<open>Start\<close>

definition ensure_stream_enabled :: "settings \<Rightarrow> unit res" where
  "ensure_stream_enabled s =
     (if \<not> market_data_enabled s then Inl (MarketDataDisabledError ''Market data is disabled.'')
      else if \<not> kite_websocket_enabled s then Inl (MarketDataDisabledError ''Kite WebSocket is disabled.'')
      else if market_data_mode s \<notin> set supported_stream_modes
        then Inl (MarketDataStreamError ''Unsupported market data mode.'')
      else Inr ())"

text \<open>The active instrument of every configured symbol, or the error that names the missing ones.\<close>

definition resolve_for_stream :: "watchlist_symbol list \<Rightarrow> instrument_record list \<Rightarrow> instrument_record list res" where
  "resolve_for_stream watchlist inspected =
     (let inspected_by_key = record_by_key inspected;
          missing = filter (\<lambda>k. inspected_by_key k = None) (map ws_key watchlist);
          inactive = filter (\<lambda>k. case inspected_by_key k of None \<Rightarrow> False | Some r \<Rightarrow> \<not> ic_is_active r)
             (map ws_key watchlist);
          resolved = filter ic_is_active (List.map_filter inspected_by_key (map ws_key watchlist))
      in if missing \<noteq> []
         then Inl (WatchlistError (''Watchlist symbols must be synced before streaming; missing_symbols: '' @ join '','' missing))
         else if inactive \<noteq> []
         then Inl (WatchlistError (''Watchlist contains inactive instruments; inactive_symbols: '' @ join '','' inactive))
         else Inr resolved)"

text \<open>What \<^verbatim>\<open>start\<close> awaits: the instruments of the repository and the broker session.\<close>

definition prepare_stream ::
  "(string \<Rightarrow> string option) \<Rightarrow> settings \<Rightarrow> 's market_repository \<Rightarrow> ('s \<Rightarrow> kite_access_session res) \<Rightarrow>
     (('h, 's) stream_world, instrument_record list \<times> kite_access_session) prog" where
  "prepare_stream read_text s repo session =
     bindS (liftS (strict_configured_watchlist read_text s)) (\<lambda>watchlist.
     bindS (on_repo (mk_inspect_watchlist repo watchlist)) (\<lambda>inspected.
     bindS (liftS (resolve_for_stream watchlist inspected)) (\<lambda>resolved.
     bindS (readS (\<lambda>w. session (sw_repo w))) (\<lambda>r. case r of
         Inl e \<Rightarrow> raiseS (MarketDataSessionError ''Active Kite session is required for market streaming.'')
       | Inr kite_session \<Rightarrow> retS (resolved, kite_session)))))"

text \<open>The rest of \<^verbatim>\<open>start\<close>, which runs without an await.\<close>

definition open_stream ::
  "'h market_client \<Rightarrow> instant \<Rightarrow> instrument_record list \<Rightarrow> kite_access_session \<Rightarrow> (('h, 's) stream_world, unit) prog"
  where
  "open_stream client now resolved kite_session =
     bindS (put_state (\<lambda>m. m\<lparr>sm_resolved := resolved, sm_app_loop := Open_Loop, sm_started_at := Some now,
         sm_last_activity_at := Some now, sm_last_error := None, sm_connected := False\<rparr>)) (\<lambda>_.
     tryS (bindS (client_call (Create_Stream (ks_api_key kite_session) (ks_access_token kite_session))
              (mc_create client (ks_api_key kite_session) (ks_access_token kite_session))) (\<lambda>h.
           bindS (put_state (\<lambda>m. m\<lparr>sm_stream := Some h\<rparr>)) (\<lambda>_.
           client_call (Connect h) (mc_connect client h))))
       (\<lambda>e. Some (bindS (put_state (\<lambda>m. m\<lparr>sm_stream := None, sm_connected := False,
              sm_last_error := Some ''stream_start_failed''\<rparr>)) (\<lambda>_.
            raiseS (MarketDataStreamError ''Market data stream could not be started.'')))))"

definition start_stream ::
  "(string \<Rightarrow> string option) \<Rightarrow> settings \<Rightarrow> 's market_repository \<Rightarrow> ('s \<Rightarrow> kite_access_session res) \<Rightarrow>
     'h market_client \<Rightarrow> instant \<Rightarrow> (('h, 's) stream_world, (string \<times> json) list) prog" where
  "start_stream read_text s repo session client now =
     bindS (liftS (ensure_stream_enabled s)) (\<lambda>_.
     bindS (readS (\<lambda>w. sm_stream (sw_state w) \<noteq> None)) (\<lambda>running.
       if running then status_dict read_text s now
       else bindS (prepare_stream read_text s repo session) (\<lambda>(resolved, kite_session).
            bindS (open_stream client now resolved kite_session) (\<lambda>_.
            status_dict read_text s now))))"

subsection \<open>Callbacks\<close>

definition handle_connected :: "settings \<Rightarrow> 'h market_client \<Rightarrow> instant \<Rightarrow> (('h, 's) stream_world, unit) prog" where
  "handle_connected s client now =
     bindS (readS (\<lambda>w. sm_stream (sw_state w))) (\<lambda>stream. case stream of
       None \<Rightarrow> put_state (\<lambda>m. m\<lparr>sm_last_error := Some ''stream_missing_on_connect''\<rparr>)
     | Some h \<Rightarrow>
         bindS (readS (\<lambda>w. stream_tokens (sw_state w))) (\<lambda>tokens.
         bindS (tryS (bindS (client_call (Subscribe h tokens) (mc_subscribe client h tokens)) (\<lambda>_.
                 bindS (client_call (Set_Mode h (market_data_mode s) tokens)
                     (mc_set_mode client h (market_data_mode s) tokens)) (\<lambda>_. retS True)))
            (\<lambda>e. Some (bindS (put_state (\<lambda>m. m\<lparr>sm_connected := False,
                    sm_last_error := Some ''stream_subscription_failed'', sm_last_activity_at := Some now,
                    sm_builder := invalidate_after_stream_gap (sm_builder m)\<rparr>)) (\<lambda>_.
                 bindS (tryS (client_call (Disconnect h) (mc_disconnect client h)) (\<lambda>_. Some (retS ()))) (\<lambda>_.
                 retS False)))))
           (\<lambda>subscribed. whenS subscribed
              (put_state (\<lambda>m. m\<lparr>sm_connected := True, sm_last_activity_at := Some now\<rparr>)))))"

definition mark_disconnected :: "instant \<Rightarrow> (('h, 's) stream_world, unit) prog" where
  "mark_disconnected now = put_state (\<lambda>m. m\<lparr>sm_connected := False, sm_last_activity_at := Some now,
     sm_builder := invalidate_after_stream_gap (sm_builder m)\<rparr>)"

definition mark_error :: "string \<Rightarrow> instant \<Rightarrow> (('h, 's) stream_world, unit) prog" where
  "mark_error category now = put_state (\<lambda>m. m\<lparr>sm_last_error := Some category, sm_connected := False,
     sm_last_activity_at := Some now, sm_builder := invalidate_after_stream_gap (sm_builder m)\<rparr>)"

definition save_completed :: "completed_candle list \<Rightarrow> (('h, 's) stream_world, unit) prog" where
  "save_completed completed =
     put_state (\<lambda>m. if sm_app_loop m \<noteq> Open_Loop
       then m\<lparr>sm_last_error := Some ''candle_persistence_loop_missing''\<rparr>
       else m\<lparr>sm_pending := sm_pending m @ [completed]\<rparr>)"

text \<open>One pass of the loop of \<^verbatim>\<open>handle_ticks\<close>.\<close>

definition handle_tick ::
  "instant \<Rightarrow> raw_tick \<Rightarrow> completed_candle list \<Rightarrow> (('h, 's) stream_world, completed_candle list) prog" where
  "handle_tick now raw completed =
     bindS (liftS (normalize_tick now raw)) (\<lambda>tick.
     bindS (readS (\<lambda>w. instrument_by_token (sw_state w) (tick_token tick))) (\<lambda>instrument. case instrument of
       None \<Rightarrow> retS completed
     | Some i \<Rightarrow>
         bindS (readS (\<lambda>w. accept_tick tick (ic_id i) (sm_builder (sw_state w)))) (\<lambda>(out, b).
         bindS (put_state (\<lambda>m. m\<lparr>sm_last_tick_at := Some (exchange_timestamp tick), sm_builder := b\<rparr>)) (\<lambda>_.
         retS (completed @ out)))))"

definition handle_ticks :: "instant \<Rightarrow> raw_tick list \<Rightarrow> (('h, 's) stream_world, unit) prog" where
  "handle_ticks now ticks =
     bindS (put_state (\<lambda>m. m\<lparr>sm_last_activity_at := Some now\<rparr>)) (\<lambda>_.
     bindS (foldS (handle_tick now) ticks []) (\<lambda>completed.
     whenS (completed \<noteq> [])
       (bindS (put_state (\<lambda>m. m\<lparr>sm_completed_candles := sm_completed_candles m + length completed\<rparr>)) (\<lambda>_.
        save_completed completed))))"

subsection \<open>Storing the candles\<close>

text \<open>
  A pending batch runs in the event loop; its result is observed. An exception of the repository
  leaves its tables as they were.
\<close>

definition persist_batch :: "'s market_repository \<Rightarrow> nat \<Rightarrow> (('h, 's) stream_world, unit) prog" where
  "persist_batch repo i =
     bindS (readS (\<lambda>w. sm_pending (sw_state w))) (\<lambda>pending.
     whenS (i < length pending)
       (bindS (put_state (\<lambda>m. m\<lparr>sm_pending := take i pending @ drop (Suc i) pending\<rparr>)) (\<lambda>_.
        tryS (bindS (on_repo (mk_save_completed_candles repo (pending ! i))) (\<lambda>_. retS ()))
          (\<lambda>e. Some (put_state (\<lambda>m. m\<lparr>sm_last_error := Some ''candle_persistence_failed''\<rparr>))))))"

text \<open>
  \<^verbatim>\<open>stop\<close> waits up to five seconds: \<open>finished\<close> are the positions of the batches that end in that
  time, each counted when it ends.
\<close>

definition wait_for_pending :: "'s market_repository \<Rightarrow> nat list \<Rightarrow> (('h, 's) stream_world, unit) prog" where
  "wait_for_pending repo finished =
     bindS (mapS (persist_batch repo) finished) (\<lambda>_.
     put_state (\<lambda>m. if sm_pending m \<noteq> [] then m\<lparr>sm_last_error := Some ''candle_persistence_pending''\<rparr> else m))"

definition stop_stream_service ::
  "(string \<Rightarrow> string option) \<Rightarrow> settings \<Rightarrow> 's market_repository \<Rightarrow> 'h market_client \<Rightarrow> nat list \<Rightarrow> instant \<Rightarrow>
     (('h, 's) stream_world, (string \<times> json) list) prog" where
  "stop_stream_service read_text s repo client finished now =
     bindS (readS (\<lambda>w. sm_stream (sw_state w))) (\<lambda>stream.
     bindS (case stream of None \<Rightarrow> retS () | Some h \<Rightarrow> client_call (Disconnect h) (mc_disconnect client h)) (\<lambda>_.
     bindS (wait_for_pending repo finished) (\<lambda>_.
     bindS (put_state (\<lambda>m. m\<lparr>sm_stream := None, sm_connected := False, sm_last_activity_at := Some now\<rparr>)) (\<lambda>_.
     status_dict read_text s now))))"

end
