(* ===== verification/StreamReadiness.thy ===== *)
theory StreamReadiness
  imports StreamService
begin

section \<open>Stream readiness\<close>

text \<open>
  \<^verbatim>\<open>app/market_data/stream_readiness.py\<close>: whether the quote stream can be started, from the
  settings, the watchlist validation, the stored broker session and the status of the stream. The
  validation and the session store are those of the model.
\<close>

record session_readiness =
  sn_ready :: bool
  sn_configured :: bool
  sn_status :: "string option"
  sn_expired :: bool
  sn_expires_at :: "instant option"

definition session_as_dict :: "session_readiness \<Rightarrow> (string \<times> json) list" where
  "session_as_dict r =
     [(''ready'', JBool (sn_ready r)), (''configured'', JBool (sn_configured r)),
      (''status'', jopt JStr (sn_status r)), (''expired'', JBool (sn_expired r))]
     @ (case sn_expires_at r of None \<Rightarrow> [] | Some t \<Rightarrow> [(''expires_at'', JStr (isoformat t))])"

definition session_status :: "settings \<Rightarrow> 's session_store \<Rightarrow> instant \<Rightarrow> 's \<Rightarrow> session_readiness" where
  "session_status s store now d =
     (if \<not> (kite_auth_enabled s \<and> kite_api_key s \<noteq> [] \<and> kite_session_encryption_key s \<noteq> [])
      then \<lparr>sn_ready = False, sn_configured = False, sn_status = None, sn_expired = False, sn_expires_at = None\<rparr>
      else case se_latest store broker_zerodha d of
        None \<Rightarrow> \<lparr>sn_ready = False, sn_configured = True, sn_status = None, sn_expired = False, sn_expires_at = None\<rparr>
      | Some r \<Rightarrow>
          let expired = (bs_expires_at r \<le> now) in
          \<lparr>sn_ready = (bs_status r = status_active \<and> bs_invalidated_at r = None \<and> \<not> expired),
           sn_configured = True, sn_status = Some (bs_status r), sn_expired = expired,
           sn_expires_at = Some (bs_expires_at r)\<rparr>)"

definition recommended_action ::
  "string list \<Rightarrow> string list \<Rightarrow> string list \<Rightarrow> string list \<Rightarrow> bool \<Rightarrow> bool \<Rightarrow> bool \<Rightarrow> string" where
  "recommended_action errors watchlist_errors missing inactive session_ready running open_conn =
     (if ''watchlist_entries_must_use_exchange_colon_tradingsymbol'' \<in> set watchlist_errors
        then ''fix_watchlist_format''
      else if ''duplicate_watchlist_symbol'' \<in> set watchlist_errors then ''remove_duplicate_watchlist_symbols''
      else if ''only_nse_supported_in_current_mvp'' \<in> set watchlist_errors then ''use_nse_symbols_only''
      else if ''watchlist_exceeds_configured_maximum'' \<in> set watchlist_errors
        then ''increase_market_data_max_instruments''
      else if missing \<noteq> [] \<or> inactive \<noteq> [] then ''run_instrument_sync''
      else if \<not> session_ready then ''login_kite''
      else if ''market_data_disabled'' \<in> set errors \<or> ''kite_websocket_disabled'' \<in> set errors
        then ''enable_read_only_market_data''
      else if ''unsupported_market_data_mode'' \<in> set errors then ''fix_market_data_mode''
      else if running \<and> \<not> open_conn then ''inspect_stream_error_before_restart''
      else if running then ''stream_already_running''
      else ''ready_to_start_stream'')"

record stream_readiness =
  rd_ready :: bool
  rd_can_start :: bool
  rd_session :: session_readiness
  rd_running :: bool
  rd_connected :: bool
  rd_errors :: "string list"
  rd_warnings :: "string list"
  rd_action :: string

definition readiness_of ::
  "settings \<Rightarrow> watchlist_validation_result \<Rightarrow> session_readiness \<Rightarrow> (string \<times> json) list \<Rightarrow> stream_readiness" where
  "readiness_of s watchlist session stream =
     (let running = truthy (jget stream ''running'');
          open_conn = truthy (jget stream ''connected'');
          errors = (if \<not> market_data_enabled s then [''market_data_disabled''] else [])
            @ (if \<not> kite_websocket_enabled s then [''kite_websocket_disabled''] else [])
            @ (if market_data_mode s \<notin> set supported_stream_modes then [''unsupported_market_data_mode''] else [])
            @ wv_errors watchlist
            @ (if \<not> sn_ready session then [''kite_session_not_ready''] else []);
          warnings = wv_warnings watchlist
            @ (if running \<and> \<not> open_conn then [''stream_running_but_not_connected''] else []);
          gates_ready = (errors = []);
          can_start = (gates_ready \<and> \<not> running)
      in \<lparr>rd_ready = (gates_ready \<and> (can_start \<or> open_conn)), rd_can_start = can_start,
          rd_session = session, rd_running = running, rd_connected = open_conn,
          rd_errors = uniq errors, rd_warnings = uniq warnings,
          rd_action = recommended_action errors (wv_errors watchlist) (wv_missing_symbols watchlist)
            (wv_inactive_symbols watchlist) (sn_ready session) running open_conn\<rparr>)"

definition readiness_as_dict ::
  "settings \<Rightarrow> watchlist_validation_result \<Rightarrow> (string \<times> json) list \<Rightarrow> stream_readiness \<Rightarrow> (string \<times> json) list" where
  "readiness_as_dict s watchlist stream r =
     [(''ready'', JBool (rd_ready r)), (''can_start_stream'', JBool (rd_can_start r)),
      (''market_data_enabled'', JBool (market_data_enabled s)),
      (''websocket_enabled'', JBool (kite_websocket_enabled s)), (''mode'', JStr (market_data_mode s)),
      (''watchlist_ready'', JBool (wv_ready_for_stream watchlist)),
      (''kite_session_ready'', JBool (sn_ready (rd_session r))),
      (''kite_session_status'', JObj (session_as_dict (rd_session r))),
      (''stream_already_running'', JBool (rd_running r)), (''stream_connected'', JBool (rd_connected r)),
      (''configured_symbols'', JInt (int (wv_configured_count watchlist))),
      (''configured_symbol_values'', jstrs (wv_normalized_symbols watchlist)),
      (''resolved_symbols_count'', JInt (int (length (wv_resolved_symbols watchlist)))),
      (''subscribed_symbols'', (case map_of stream ''subscribed_symbols'' of None \<Rightarrow> JInt 0 | Some v \<Rightarrow> v)),
      (''missing_symbols'', jstrs (wv_missing_symbols watchlist)),
      (''inactive_symbols'', jstrs (wv_inactive_symbols watchlist)),
      (''last_error'', jget stream ''last_error''), (''api_env_loaded'', JBool True),
      (''api_env_snapshot'', JObj [(''watchlist_source'', JStr (wv_source watchlist)),
         (''raw_watchlist'', JStr (wv_raw_watchlist watchlist)),
         (''max_instruments'', JInt (wv_max_instruments watchlist))]),
      (''errors'', jstrs (rd_errors r)), (''warnings'', jstrs (rd_warnings r)),
      (''recommended_next_action'', JStr (rd_action r))]"

text \<open>\<open>status\<close> is \<^verbatim>\<open>status_dict\<close> of the stream service.\<close>

definition stream_readiness_dict ::
  "(string \<Rightarrow> string option) \<Rightarrow> settings \<Rightarrow> 's market_repository \<Rightarrow> 's session_store \<Rightarrow> instant \<Rightarrow>
     (string \<times> json) list \<Rightarrow> ('s, (string \<times> json) list) prog" where
  "stream_readiness_dict read_text s repo store now status =
     bindS (validate repo read_text s) (\<lambda>watchlist.
     bindS (readS (session_status s store now)) (\<lambda>session.
       retS (readiness_as_dict s watchlist status (readiness_of s watchlist session status))))"

subsection \<open>Facts\<close>

lemma session_ready_active:
  "sn_ready (session_status s store now d) \<Longrightarrow>
     \<exists>r. se_latest store broker_zerodha d = Some r \<and> bs_status r = status_active
       \<and> bs_invalidated_at r = None \<and> now < bs_expires_at r \<and> kite_auth_enabled s \<and> kite_api_key s \<noteq> []"
  by (auto simp: session_status_def Let_def split: if_splits option.splits)

lemma can_start_gates:
  assumes "rd_can_start (readiness_of s w session stream)"
  shows "ensure_stream_enabled s = Inr () \<and> wv_errors w = [] \<and> sn_ready session \<and> \<not> truthy (jget stream ''running'')"
  using assms by (auto simp: readiness_of_def Let_def ensure_stream_enabled_def split: if_splits)

lemma readiness_keys:
  "jget (readiness_as_dict s w stream r) ''can_start_stream'' = JBool (rd_can_start r)"
  "jget (readiness_as_dict s w stream r) ''kite_session_ready'' = JBool (sn_ready (rd_session r))"
  "jget (readiness_as_dict s w stream r) ''watchlist_ready'' = JBool (wv_ready_for_stream w)"
  "jget (readiness_as_dict s w stream r) ''stream_already_running'' = JBool (rd_running r)"
  "jget (readiness_as_dict s w stream r) ''stream_connected'' = JBool (rd_connected r)"
  "jget (readiness_as_dict s w stream r) ''last_error'' = jget stream ''last_error''"
  by (simp_all add: readiness_as_dict_def)

end
