(* ===== verification/StreamExamples.thy ===== *)
theory StreamExamples
  imports StreamReadiness BrokerExamples MarketExamples
begin

section \<open>Properties of the quote stream\<close>

text \<open>
  What is required before the broker is asked for a stream, that a positive readiness report is
  enough to start one, and what becomes of the candles that the ticks complete.
\<close>

subsection \<open>Start\<close>

lemma record_by_key_some: "record_by_key rs k = Some r \<Longrightarrow> r \<in> set rs \<and> ic_key r = k"
  unfolding record_by_key_def using find_Some_D by fastforce

lemma record_by_key_mem:
  assumes "distinct (map ic_key rs)" "r \<in> set rs"
  shows "record_by_key rs (ic_key r) = Some r"
proof (cases "record_by_key rs (ic_key r)")
  case None
  with assms(2) show ?thesis by (auto simp: record_by_key_def find_None_iff)
next
  case (Some r')
  then have "r' \<in> set rs" "ic_key r' = ic_key r" by (auto dest: record_by_key_some)
  with assms have "r' = r" by (auto simp: distinct_map inj_on_def)
  with Some show ?thesis by simp
qed

lemma resolve_for_stream_Inr:
  assumes "resolve_for_stream ws recs = Inr rs"
  shows "map ic_key rs = map ws_key ws \<and> list_all ic_is_active rs"
proof -
  let ?f = "record_by_key recs"
  from assms have none: "filter (\<lambda>k. ?f k = None) (map ws_key ws) = []"
    and act: "filter (\<lambda>k. case ?f k of None \<Rightarrow> False | Some r \<Rightarrow> \<not> ic_is_active r) (map ws_key ws) = []"
    and rs: "rs = filter ic_is_active (List.map_filter ?f (map ws_key ws))"
    by (auto simp: resolve_for_stream_def Let_def split: if_splits)
  from none have "List.map_filter ?f (map ws_key ws) = map (\<lambda>k. the (?f k)) (map ws_key ws)"
    by (intro map_filter_all) (auto simp: filter_empty_conv)
  moreover have "ic_key (the (?f (ws_key w))) = ws_key w \<and> ic_is_active (the (?f (ws_key w)))" if "w \<in> set ws" for w
  proof -
    from that none obtain r where r: "?f (ws_key w) = Some r" by (auto simp: filter_empty_conv)
    with that act have "ic_is_active r" by (auto simp: filter_empty_conv)
    with r record_by_key_some [OF r] show ?thesis by simp
  qed
  ultimately show ?thesis unfolding rs by (auto simp: list_all_iff filter_id_conv comp_def)
qed

lemma resolve_for_stream_all:
  assumes "distinct (map ws_key ws)" "map ic_key rs = map ws_key ws" "list_all ic_is_active rs"
  shows "resolve_for_stream ws rs = Inr rs"
proof -
  let ?f = "record_by_key rs"
  from assms have d: "distinct (map ic_key rs)" by simp
  have found: "?f (ic_key r) = Some r" if "r \<in> set rs" for r by (rule record_by_key_mem [OF d that])
  have "List.map_filter ?f (map ic_key rs) = map (\<lambda>k. the (?f k)) (map ic_key rs)"
    using found by (intro map_filter_all) auto
  also have "\<dots> = rs" using found by (simp add: comp_def map_idI)
  finally have all: "List.map_filter ?f (map ws_key ws) = rs" using assms(2) by simp
  have "filter (\<lambda>k. ?f k = None) (map ws_key ws) = []"
    unfolding assms(2) [symmetric] using found by (auto simp: filter_empty_conv)
  moreover have "filter (\<lambda>k. case ?f k of None \<Rightarrow> False | Some r \<Rightarrow> \<not> ic_is_active r) (map ws_key ws) = []"
    unfolding assms(2) [symmetric] using found assms(3) by (auto simp: filter_empty_conv list_all_iff)
  moreover have "filter ic_is_active rs = rs" using assms(3) by (simp add: list_all_iff)
  ultimately show ?thesis using all by (simp add: resolve_for_stream_def Let_def)
qed

lemmas stream_simps = put_state_def client_call_def on_repo_def bindS_def

lemma open_stream_calls:
  assumes "open_stream client now rs ks w = (res, w')"
  shows "\<exists>cs. sw_calls w' = sw_calls w @ Create_Stream (ks_api_key ks) (ks_access_token ks) # cs
    \<and> sm_resolved (sw_state w') = rs \<and> sw_repo w' = sw_repo w \<and> (res = Inr () \<longrightarrow> sm_stream (sw_state w') \<noteq> None)"
  using assms
  by (auto simp: open_stream_def stream_simps tryS_def split: sum.splits)

lemma prepare_stream_frame:
  assumes "prepare_stream read_text s repo session w = (res, w')"
  shows "sw_calls w' = sw_calls w \<and> sw_state w' = sw_state w"
  using assms
  by (auto simp: prepare_stream_def stream_simps split: sum.splits prod.splits)

lemma prepare_stream_Inr:
  assumes "prepare_stream read_text s repo session w = (Inr (rs, ks), w')"
  shows "\<exists>ws. strict_configured_watchlist read_text s = Inr ws \<and> map ic_key rs = map ws_key ws
    \<and> list_all ic_is_active rs \<and> session (sw_repo w') = Inr ks"
proof -
  from assms obtain ws recs w1 rs' where
    strict: "strict_configured_watchlist read_text s = Inr ws" "resolve_for_stream ws recs = Inr rs'"
    and last: "(case session (sw_repo w1) of
         Inl e \<Rightarrow> raiseS (MarketDataSessionError ''Active Kite session is required for market streaming.'')
       | Inr kite_session \<Rightarrow> retS (rs', kite_session)) w1 = (Inr (rs, ks), w')"
    unfolding prepare_stream_def by (auto simp: bindS_Inr_iff)
  from last have "session (sw_repo w') = Inr ks" "rs' = rs" by (cases "session (sw_repo w1)"; auto)+
  with strict resolve_for_stream_Inr show ?thesis by blast
qed

lemma status_dict_frame:
  "status_dict read_text s now w = (res, w') \<Longrightarrow>
     sw_calls w' = sw_calls w \<and> sw_repo w' = sw_repo w \<and>
     sw_state w' = (sw_state w)\<lparr>sm_stale_logged := stream_stale s now (sw_state w)\<rparr> \<and> (\<exists>d. res = Inr d)"
  by (auto simp: status_dict_def stream_status_def stream_simps Let_def)

lemma status_dict_fields:
  assumes "status_dict read_text s now w = (Inr d, w')"
  shows "jget d ''running'' = JBool (sm_stream (sw_state w) \<noteq> None)"
    "jget d ''connected'' = JBool (sm_connected (sw_state w))"
    "jget d ''last_error'' = jopt JStr (sm_last_error (sw_state w))"
    "jget d ''stale'' = JBool (stream_stale s now (sw_state w))"
proof -
  obtain t where t: "stream_status read_text s now w = (Inr t, w')" "d = stream_status_as_dict t"
    using assms by (auto simp: status_dict_def bindS_Inr_iff)
  from t(1) have "tu_running t \<longleftrightarrow> sm_stream (sw_state w) \<noteq> None" "tu_connected t = sm_connected (sw_state w)"
    "tu_last_error t = sm_last_error (sw_state w)" "tu_stale t = stream_stale s now (sw_state w)"
    by (auto simp: stream_status_def stream_simps Let_def stream_stale_def)
  then show "jget d ''running'' = JBool (sm_stream (sw_state w) \<noteq> None)"
    "jget d ''connected'' = JBool (sm_connected (sw_state w))"
    "jget d ''last_error'' = jopt JStr (sm_last_error (sw_state w))"
    "jget d ''stale'' = JBool (stream_stale s now (sw_state w))"
    unfolding t(2) stream_status_as_dict_def by simp_all
qed

lemma start_stream_opens:
  assumes "ensure_stream_enabled s = Inr ()" "sm_stream (sw_state w) = None"
    and "prepare_stream read_text s repo session w = (Inr (rs, ks), w1)"
    and "mc_create client (ks_api_key ks) (ks_access_token ks) = Inr h" "mc_connect client h = Inr ()"
  shows "\<exists>d w'. start_stream read_text s repo session client now w = (Inr d, w') \<and>
    sm_stream (sw_state w') = Some h \<and> sm_resolved (sw_state w') = rs \<and>
    sw_calls w' = sw_calls w @ [Create_Stream (ks_api_key ks) (ks_access_token ks), Connect h]"
proof -
  obtain o1 w2 where o1: "open_stream client now rs ks w1 = (o1, w2)" by (metis surj_pair)
  with assms(4,5) prepare_stream_frame [OF assms(3)] have o2: "o1 = Inr ()" "sm_stream (sw_state w2) = Some h"
    "sm_resolved (sw_state w2) = rs"
    "sw_calls w2 = sw_calls w @ [Create_Stream (ks_api_key ks) (ks_access_token ks), Connect h]"
    by (auto simp: open_stream_def stream_simps tryS_def)
  obtain x w' where x: "status_dict read_text s now w2 = (x, w')" by (metis surj_pair)
  from status_dict_frame [OF x] obtain d where "x = Inr d" by blast
  with x assms(1-3) o1 o2(1) have "start_stream read_text s repo session client now w = (Inr d, w')"
    by (simp add: start_stream_def bindS_def)
  with o2 status_dict_frame [OF x] show ?thesis by auto
qed

text \<open>C11: A start of the stream that asks the broker for anything does so with market data and the
  websocket enabled, a supported mode and no stream running; the configured watchlist is valid, each
  of its symbols has an active instrument, these are what the stream subscribes to, and the stream is
  created with the credentials of the active broker session.\<close>

theorem stream_requests_gated:
  assumes "start_stream read_text s repo session client now w = (res, w')" and "sw_calls w' \<noteq> sw_calls w"
  shows "market_data_enabled s \<and> kite_websocket_enabled s \<and> market_data_mode s \<in> {''ltp'', ''quote'', ''full''}
    \<and> sm_stream (sw_state w) = None
    \<and> (\<exists>ws ks cs. strict_configured_watchlist read_text s = Inr ws \<and> session (sw_repo w') = Inr ks
         \<and> sw_calls w' = sw_calls w @ Create_Stream (ks_api_key ks) (ks_access_token ks) # cs
         \<and> map ic_key (sm_resolved (sw_state w')) = map ws_key ws
         \<and> list_all ic_is_active (sm_resolved (sw_state w')))"
proof -
  from assms have en: "ensure_stream_enabled s = Inr ()"
    by (cases "ensure_stream_enabled s") (auto simp: start_stream_def bindS_def)
  have idle: "sm_stream (sw_state w) = None"
  proof (rule ccontr)
    assume "sm_stream (sw_state w) \<noteq> None"
    with assms(1) en have "status_dict read_text s now w = (res, w')" by (simp add: start_stream_def bindS_def)
    with assms(2) status_dict_frame show False by blast
  qed
  obtain p w1 where p: "prepare_stream read_text s repo session w = (p, w1)" by (metis surj_pair)
  note frame = prepare_stream_frame [OF p]
  show ?thesis
  proof (cases p)
    case (Inl e)
    with assms en idle p frame show ?thesis by (simp add: start_stream_def bindS_def)
  next
    case (Inr rk)
    obtain rs ks where rk: "rk = (rs, ks)" by (metis surj_pair)
    obtain o1 w2 where o1: "open_stream client now rs ks w1 = (o1, w2)" by (metis surj_pair)
    from open_stream_calls [OF o1] frame obtain cs where
      c: "sw_calls w2 = sw_calls w @ Create_Stream (ks_api_key ks) (ks_access_token ks) # cs"
        "sm_resolved (sw_state w2) = rs" "sw_repo w2 = sw_repo w1" by auto
    from assms(1) en idle p Inr rk o1 have "w' = w2 \<or> (\<exists>x. status_dict read_text s now w2 = (x, w'))"
      by (auto simp: start_stream_def bindS_def split: sum.splits)
    then have "sw_calls w' = sw_calls w2" "sw_repo w' = sw_repo w2"
      "sm_resolved (sw_state w') = sm_resolved (sw_state w2)"
      using status_dict_frame by fastforce+
    with c prepare_stream_Inr [of read_text s repo session w rs ks w1] p Inr rk en idle show ?thesis
      by (auto simp: ensure_stream_enabled_def supported_stream_modes_def split: if_splits)
  qed
qed

text \<open>A configured database with a stored session, and a client that accepts everything.\<close>

definition stream_settings :: settings where
  "stream_settings = demo_watch_settings\<lparr>market_data_enabled := True, kite_websocket_enabled := True,
     kite_auth_enabled := True, kite_api_key := ''k'', kite_session_encryption_key := ''e'',
     operator_auth_token := ''tok''\<rparr>"

definition stream_database :: database where
  "stream_database = synced_database\<lparr>db_broker_sessions :=
     [\<lparr>bs_id = 1, bs_broker = ''ZERODHA'', bs_user_id = None, bs_status = ''ACTIVE'', bs_login_at = None,
       bs_expires_at = 100, bs_encrypted_access_token = ''eat'', bs_invalidated_at = None,
       bs_created_at = 0, bs_updated_at = 0\<rparr>]\<rparr>"

definition open_client :: "nat market_client" where
  "open_client = \<lparr>mc_create = (\<lambda>_ _. Inr 1), mc_connect = (\<lambda>_. Inr ()), mc_subscribe = (\<lambda>_ _. Inr ()),
     mc_set_mode = (\<lambda>_ _ _. Inr ()), mc_disconnect = (\<lambda>_. Inr ())\<rparr>"

definition stream_world :: "(nat, database) stream_world" where
  "stream_world = \<lparr>sw_state = new_stream_state stream_settings, sw_repo = stream_database, sw_calls = []\<rparr>"

abbreviation demo_session :: "instant \<Rightarrow> database \<Rightarrow> kite_access_session res" where
  "demo_session \<equiv> get_active_session stream_settings sql_session_store (Some plain_fernet)"

abbreviation started_demo :: "(string \<times> json) list res \<times> (nat, database) stream_world" where
  "started_demo \<equiv> start_stream (\<lambda>_. None) stream_settings sql_market_repository (demo_session 5) open_client 5 stream_world"

lemma started_demo_enabled: "ensure_stream_enabled stream_settings = Inr ()"
  by code_simp

lemma started_demo_prepared:
  "case prepare_stream (\<lambda>_. None) stream_settings sql_market_repository (demo_session 5) stream_world of
     (Inr (rs, ks), w) \<Rightarrow> ks_api_key ks = ''k'' \<and> ks_access_token ks = ''at'' \<and> map ic_instrument_token rs = [77, 41]
   | _ \<Rightarrow> False"
  by code_simp

lemma started_demo_calls:
  "sw_calls (snd started_demo) = [Create_Stream ''k'' ''at'', Connect 1]
   \<and> map ic_instrument_token (sm_resolved (sw_state (snd started_demo))) = [77, 41]"
proof -
  from started_demo_prepared obtain rs ks w where p: "prepare_stream (\<lambda>_. None) stream_settings sql_market_repository
      (demo_session 5) stream_world = (Inr (rs, ks), w)" "ks_api_key ks = ''k''" "ks_access_token ks = ''at''"
      "map ic_instrument_token rs = [77, 41]"
    by (auto split: prod.splits sum.splits)
  have idle: "sm_stream (sw_state stream_world) = None" "sw_calls stream_world = []"
    by (simp_all add: stream_world_def new_stream_state_def)
  have client: "mc_create open_client a b = Inr 1" "mc_connect open_client 1 = Inr ()" for a b
    by (simp_all add: open_client_def)
  from start_stream_opens [OF started_demo_enabled idle(1) p(1) client, of 5] p(2-4) idle(2) show ?thesis by auto
qed

theorem stream_requests_gated_witness:
  "\<exists>ws. strict_configured_watchlist (\<lambda>_. None) stream_settings = Inr ws
     \<and> map ic_key (sm_resolved (sw_state (snd started_demo))) = map ws_key ws"
proof -
  obtain res w' where w': "started_demo = (res, w')" by (metis surj_pair)
  have "sw_calls stream_world = []" by (simp add: stream_world_def)
  with started_demo_calls w' have "sw_calls w' \<noteq> sw_calls stream_world" by simp
  from stream_requests_gated [OF w' this] w' show ?thesis by auto
qed

subsection \<open>Readiness\<close>

lemma ready_report_validation:
  assumes "stream_readiness_dict read_text s repo store now status d = (Inr r, d')"
    and "truthy (jget r ''can_start_stream'')"
  shows "\<exists>v. validate repo read_text s d = (Inr v, d') \<and> wv_errors v = [] \<and> ensure_stream_enabled s = Inr ()
    \<and> sn_ready (session_status s store now d') \<and> \<not> truthy (jget status ''running'')"
proof -
  from assms(1) obtain v where v: "validate repo read_text s d = (Inr v, d')"
    "r = readiness_as_dict s v status (readiness_of s v (session_status s store now d') status)"
    by (auto simp: stream_readiness_dict_def bindS_Inr_iff)
  with assms(2) have "rd_can_start (readiness_of s v (session_status s store now d') status)"
    by (simp add: readiness_keys)
  from can_start_gates [OF this] v(1) show ?thesis by blast
qed

lemma validation_no_errors:
  assumes "validate repo read_text s d = (Inr v, d')" "wv_errors v = []"
  shows "wv_ready_for_stream v"
proof -
  from assms(1) obtain records where
    v: "v = validation_of (load_watchlist_source read_text s) (market_data_max_instruments s) records"
    by (auto simp: validate_def Let_def bindS_Inr_iff)
  let ?d = "diagnose_entries (load_watchlist_source read_text s) (market_data_max_instruments s)"
  have e: "wv_errors v = uniq (source_errors (load_watchlist_source read_text s) @ dw_errors ?d
      @ (if wv_missing_symbols v \<noteq> [] then [''watchlist_symbols_not_synced''] else [])
      @ (if wv_inactive_symbols v \<noteq> [] then [''watchlist_symbols_inactive''] else []))"
    unfolding v validation_of_def Let_def watchlist_validation_result.simps ..
  have r: "wv_ready_for_stream v = ((source_errors (load_watchlist_source read_text s) = [] \<and> dw_errors ?d = [])
      \<and> wv_missing_symbols v = [] \<and> wv_inactive_symbols v = [])"
    unfolding v validation_of_def Let_def watchlist_validation_result.simps ..
  from assms(2) show ?thesis unfolding e r uniq_eq_Nil by (simp split: if_splits)
qed

lemma ready_stream_opens:
  assumes "stream_readiness_dict read_text s sql_market_repository sql_session_store now status (sw_repo w) = (Inr r, d')"
    and "truthy (jget r ''can_start_stream'')"
    and "fst (status_dict read_text s now w) = Inr status"
    and "instruments_ok (sw_repo w)"
    and "list_all (\<lambda>e. CHR '','' \<notin> set e) (configured_watchlist_entries read_text s)"
    and "\<And>row. sql_latest_session broker_zerodha (sw_repo w) = Some row \<Longrightarrow>
           cipher_decrypt f (bs_encrypted_access_token row) = Inr token"
    and "mc_create client (kite_api_key s) token = Inr h" and "mc_connect client h = Inr ()"
  shows "\<exists>report w' ws. start_stream read_text s sql_market_repository (get_active_session s sql_session_store (Some f) now)
       client now w = (Inr report, w') \<and> sm_stream (sw_state w') = Some h
     \<and> strict_configured_watchlist read_text s = Inr ws \<and> map ic_key (sm_resolved (sw_state w')) = map ws_key ws"
proof -
  from ready_report_validation [OF assms(1,2)] obtain v where
    v: "validate sql_market_repository read_text s (sw_repo w) = (Inr v, d')" "wv_errors v = []"
      "ensure_stream_enabled s = Inr ()" "sn_ready (session_status s sql_session_store now d')"
      "\<not> truthy (jget status ''running'')" by blast
  have d': "d' = sw_repo w" using sql_market.validate_frame [OF v(1)] .
  from sql_market.ready_inspects [OF v(1) assms(4) validation_no_errors [OF v(1,2)] assms(5)] obtain ws rs where
    i: "strict_configured_watchlist read_text s = Inr ws" "mk_inspect_watchlist sql_market_repository ws (sw_repo w) = (Inr rs, sw_repo w)"
      "distinct (map ws_key ws)" "map ic_key rs = map ws_key ws" "list_all ic_is_active rs" by blast
  from session_ready_active [OF v(4)] d' obtain row where
    row: "sql_latest_session broker_zerodha (sw_repo w) = Some row" "bs_status row = status_active"
      "bs_invalidated_at row = None" "now < bs_expires_at row" "kite_auth_enabled s" "kite_api_key s \<noteq> []"
    by (auto simp: sql_session_store_def)
  let ?ks = "\<lparr>ks_api_key = kite_api_key s, ks_access_token = token, ks_user_id = bs_user_id row,
      ks_expires_at = bs_expires_at row\<rparr>"
  have ks: "get_active_session s sql_session_store (Some f) now (sw_repo w) = Inr ?ks"
    using row assms(6) [OF row(1)] by (simp add: get_active_session_def sql_session_store_def)
  have p: "prepare_stream read_text s sql_market_repository (get_active_session s sql_session_store (Some f) now) w
      = (Inr (rs, ?ks), w)"
    using i resolve_for_stream_all [OF i(3-5)] ks by (simp add: prepare_stream_def on_repo_def bindS_def)
  from assms(3) obtain x where "status_dict read_text s now w = (Inr status, x)" by (metis prod.collapse)
  with v(5) have idle: "sm_stream (sw_state w) = None" by (simp add: status_dict_fields(1))
  have c: "mc_create client (ks_api_key ?ks) (ks_access_token ?ks) = Inr h" using assms(7) by simp
  from start_stream_opens [OF v(3) idle p c assms(8), of now] i(1,4) show ?thesis by auto
qed

text \<open>When the readiness report says that the stream can be started (and no configured entry contains a
  comma), a start on that state creates and connects the stream, for the active instruments of the
  watchlist in order: nothing but the broker's client or an unreadable stored token can still refuse
  it.\<close>

theorem ready_stream_starts:
  assumes "stream_readiness_dict read_text s sql_market_repository sql_session_store now status (sw_repo w) = (Inr r, d')"
    and "truthy (jget r ''can_start_stream'')"
    and "fst (status_dict read_text s now w) = Inr status"
    and "instruments_ok (sw_repo w)"
    and "list_all (\<lambda>e. CHR '','' \<notin> set e) (configured_watchlist_entries read_text s)"
    and "\<And>row. sql_latest_session broker_zerodha (sw_repo w) = Some row \<Longrightarrow>
           cipher_decrypt f (bs_encrypted_access_token row) = Inr token"
    and "mc_create client (kite_api_key s) token = Inr h" and "mc_connect client h = Inr ()"
  shows "\<exists>report w' ws. start_stream read_text s sql_market_repository (get_active_session s sql_session_store (Some f) now)
       client now w = (Inr report, w') \<and> sm_stream (sw_state w') = Some h
     \<and> strict_configured_watchlist read_text s = Inr ws \<and> map ic_key (sm_resolved (sw_state w')) = map ws_key ws"
  using assms by (rule ready_stream_opens)

text \<open>The demonstration's state is ready: the report of its readiness, and what else a start relies on.\<close>

lemma demo_report:
  "\<exists>status x v. status_dict (\<lambda>_. None) stream_settings 5 stream_world = (Inr status, x)
     \<and> validate sql_market_repository (\<lambda>_. None) stream_settings stream_database = (Inr v, stream_database)
     \<and> truthy (jget (readiness_as_dict stream_settings v status (readiness_of stream_settings v
           (session_status stream_settings sql_session_store 5 stream_database) status)) ''can_start_stream'')"
proof -
  have "case validate sql_market_repository (\<lambda>_. None) stream_settings stream_database of
      (Inr v, d) \<Rightarrow> wv_errors v = [] | _ \<Rightarrow> False" by code_simp
  then obtain v d where v: "validate sql_market_repository (\<lambda>_. None) stream_settings stream_database = (Inr v, d)"
    "wv_errors v = []" by (auto split: prod.splits sum.splits)
  have sess: "sn_ready (session_status stream_settings sql_session_store 5 stream_database)" by code_simp
  obtain status x where status: "status_dict (\<lambda>_. None) stream_settings 5 stream_world = (Inr status, x)"
    using status_dict_frame by (metis surj_pair)
  have run: "jget status ''running'' = JBool False"
    by (simp add: status_dict_fields(1) [OF status] stream_world_def new_stream_state_def)
  have "truthy (jget (readiness_as_dict stream_settings v status (readiness_of stream_settings v
           (session_status stream_settings sql_session_store 5 stream_database) status)) ''can_start_stream'')"
    using v(2) sess run started_demo_enabled
    by (simp add: readiness_keys readiness_of_def Let_def ensure_stream_enabled_def split: if_splits)
  with v(1) status sql_market.validate_frame [OF v(1)] show ?thesis by blast
qed

lemma demo_repo: "sw_repo stream_world = stream_database"
  by (simp add: stream_world_def)

lemma demo_table: "instruments_ok stream_database"
  using synced_ok by (simp add: stream_database_def instruments_ok_def)

lemma demo_plain_entries: "list_all (\<lambda>e. CHR '','' \<notin> set e) (configured_watchlist_entries (\<lambda>_. None) stream_settings)"
  by code_simp

lemma demo_decrypts:
  "sql_latest_session broker_zerodha stream_database = Some row \<Longrightarrow>
     cipher_decrypt plain_fernet (bs_encrypted_access_token row) = Inr ''at''"
  by (auto simp: sql_latest_session_def stream_database_def newest_session_def broker_zerodha_def
      cipher_decrypt_def plain_fernet_def)

lemma demo_client: "mc_create open_client a b = Inr 1" "mc_connect open_client 1 = Inr ()"
  by (simp_all add: open_client_def)

theorem ready_stream_starts_witness:
  "\<exists>report w'. start_stream (\<lambda>_. None) stream_settings sql_market_repository (demo_session 5) open_client 5 stream_world
       = (Inr report, w') \<and> sm_stream (sw_state w') = Some 1"
proof -
  from demo_report obtain status x v where
    st: "status_dict (\<lambda>_. None) stream_settings 5 stream_world = (Inr status, x)"
    and v: "validate sql_market_repository (\<lambda>_. None) stream_settings stream_database = (Inr v, stream_database)"
    and can: "truthy (jget (readiness_as_dict stream_settings v status (readiness_of stream_settings v
           (session_status stream_settings sql_session_store 5 stream_database) status)) ''can_start_stream'')"
    by blast
  have "stream_readiness_dict (\<lambda>_. None) stream_settings sql_market_repository sql_session_store 5 status
      (sw_repo stream_world) = (Inr (readiness_as_dict stream_settings v status (readiness_of stream_settings v
           (session_status stream_settings sql_session_store 5 stream_database) status)), stream_database)"
    using v by (simp add: stream_readiness_dict_def bindS_def demo_repo)
  from ready_stream_starts [OF this can _ _ demo_plain_entries, of plain_fernet "''at''" open_client 1] st demo_table
    demo_decrypts demo_client
  show ?thesis by (auto simp: demo_repo)
qed

end
