(* ===== verification/StreamTicks.thy ===== *)
theory StreamTicks
  imports StreamExamples
begin

section \<open>From ticks to stored candles\<close>

text \<open>
  The callbacks of the stream refine the candle builder: the batches they submit are the candles that
  the builder emits for the ticks of the known instruments, and once stored, in any order, each of
  them is in the table. A malformed tick breaks this: its batch is lost.
\<close>

subsection \<open>The callback and the builder\<close>

definition known_tick :: "'h stream_state \<Rightarrow> normalized_tick \<Rightarrow> bool" where
  "known_tick m t \<longleftrightarrow> instrument_by_token m (tick_token t) \<noteq> None"

definition token_id :: "'h stream_state \<Rightarrow> int \<Rightarrow> int" where
  "token_id m token = (case instrument_by_token m token of None \<Rightarrow> 0 | Some i \<Rightarrow> ic_id i)"

lemma run_ticks_append:
  "run_ticks iid (xs @ ys) b =
     (case run_ticks iid xs b of (o1, b1) \<Rightarrow> case run_ticks iid ys b1 of (o2, b2) \<Rightarrow> (o1 @ o2, b2))"
  by (induction xs arbitrary: b) (auto split: prod.splits)

lemma run_ticks_tokens: "run_ticks iid ts b = (out, b') \<Longrightarrow> fst ` set out \<subseteq> tick_token ` set ts"
proof (induction ts arbitrary: b out)
  case (Cons t ts)
  from Cons.prems obtain o1 b1 rest where "run_ticks iid ts b1 = (rest, b')" "out = map (Pair (tick_token t)) o1 @ rest"
    by (auto split: prod.splits)
  with Cons.IH [of b1 rest] show ?case by auto
qed simp

text \<open>What a callback keeps.\<close>

definition same_feed :: "('h, 's) stream_world \<Rightarrow> ('h, 's) stream_world \<Rightarrow> bool" where
  "same_feed w w' \<longleftrightarrow> sw_repo w' = sw_repo w \<and> sw_calls w' = sw_calls w
     \<and> sm_resolved (sw_state w') = sm_resolved (sw_state w) \<and> sm_app_loop (sw_state w') = sm_app_loop (sw_state w)
     \<and> sm_last_error (sw_state w') = sm_last_error (sw_state w)"

lemma same_feed_refl: "same_feed w w" by (simp add: same_feed_def)

lemma same_feed_trans: "same_feed a b \<Longrightarrow> same_feed b c \<Longrightarrow> same_feed a c" by (simp add: same_feed_def)

lemma same_feed_ids:
  assumes "same_feed w w'"
  shows "known_tick (sw_state w') = known_tick (sw_state w)" "token_id (sw_state w') = token_id (sw_state w)"
  using assms by (simp_all add: same_feed_def known_tick_def token_id_def instrument_by_token_def fun_eq_iff)

lemma handle_tick_step:
  assumes "normalize_tick now raw = Inr t"
    and "run_ticks (token_id (sw_state w)) (filter (known_tick (sw_state w)) [t]) (sm_builder (sw_state w)) = (out, b)"
  shows "\<exists>w'. handle_tick now raw acc w = (Inr (acc @ map snd out), w') \<and> sm_builder (sw_state w') = b
    \<and> sm_pending (sw_state w') = sm_pending (sw_state w)
    \<and> sm_completed_candles (sw_state w') = sm_completed_candles (sw_state w) \<and> same_feed w w'"
  using assms
  by (auto simp: handle_tick_def stream_simps known_tick_def token_id_def same_feed_def comp_def
      split: option.splits prod.splits if_splits)

lemma fold_handle_ticks:
  assumes "mapE (normalize_tick now) raws = Inr ticks"
    and "run_ticks (token_id (sw_state w)) (filter (known_tick (sw_state w)) ticks) (sm_builder (sw_state w)) = (out, b)"
  shows "\<exists>w'. foldS (handle_tick now) raws acc w = (Inr (acc @ map snd out), w') \<and> sm_builder (sw_state w') = b
    \<and> sm_pending (sw_state w') = sm_pending (sw_state w)
    \<and> sm_completed_candles (sw_state w') = sm_completed_candles (sw_state w) \<and> same_feed w w'"
  using assms
proof (induction raws arbitrary: acc ticks w out)
  case Nil
  then show ?case by (auto simp: same_feed_refl)
next
  case (Cons raw raws)
  from Cons.prems(1) obtain t ts where t: "normalize_tick now raw = Inr t"
    "mapE (normalize_tick now) raws = Inr ts" "ticks = t # ts"
    by (auto simp: bindE_eq_Inr)
  let ?m = "sw_state w"
  have "filter (known_tick ?m) ticks = filter (known_tick ?m) [t] @ filter (known_tick ?m) ts" by (simp add: t(3))
  note split = this
  obtain o1 b1 where r1: "run_ticks (token_id ?m) (filter (known_tick ?m) [t]) (sm_builder ?m) = (o1, b1)"
    by (metis surj_pair)
  obtain o2 b2 where r2': "run_ticks (token_id ?m) (filter (known_tick ?m) ts) b1 = (o2, b2)" by (metis surj_pair)
  from Cons.prems(2) have out: "out = o1 @ o2" and r2: "run_ticks (token_id ?m) (filter (known_tick ?m) ts) b1 = (o2, b)"
    using r2' unfolding split run_ticks_append r1 by auto
  from handle_tick_step [OF t(1) r1, of acc] obtain w1 where w1: "handle_tick now raw acc w = (Inr (acc @ map snd o1), w1)"
    "sm_builder (sw_state w1) = b1" "sm_pending (sw_state w1) = sm_pending ?m"
    "sm_completed_candles (sw_state w1) = sm_completed_candles ?m" "same_feed w w1" by blast
  from r2 w1(2) same_feed_ids [OF w1(5)] have
    "run_ticks (token_id (sw_state w1)) (filter (known_tick (sw_state w1)) ts) (sm_builder (sw_state w1)) = (o2, b)"
    by simp
  from Cons.IH [OF t(2) this, of "acc @ map snd o1"] w1 out show ?case
    by (auto intro: same_feed_trans)
qed

lemma handle_ticks_batch:
  assumes "mapE (normalize_tick now) raws = Inr ticks" "sm_app_loop (sw_state w) = Open_Loop"
    and "run_ticks (token_id (sw_state w)) (filter (known_tick (sw_state w)) ticks) (sm_builder (sw_state w)) = (out, b)"
  shows "\<exists>w'. handle_ticks now raws w = (Inr (), w') \<and> sm_builder (sw_state w') = b
    \<and> concat (sm_pending (sw_state w')) = concat (sm_pending (sw_state w)) @ map snd out
    \<and> sm_completed_candles (sw_state w') = sm_completed_candles (sw_state w) + length out \<and> same_feed w w'"
proof -
  let ?w0 = "w\<lparr>sw_state := (sw_state w)\<lparr>sm_last_activity_at := Some now\<rparr>\<rparr>"
  have s0: "same_feed w ?w0" by (simp add: same_feed_def)
  from assms(3) same_feed_ids [OF s0] have
    "run_ticks (token_id (sw_state ?w0)) (filter (known_tick (sw_state ?w0)) ticks) (sm_builder (sw_state ?w0)) = (out, b)"
    by simp
  from fold_handle_ticks [OF assms(1) this, of "[]"] obtain w1 where
    w1: "foldS (handle_tick now) raws [] ?w0 = (Inr (map snd out), w1)" "sm_builder (sw_state w1) = b"
      "sm_pending (sw_state w1) = sm_pending (sw_state w)"
      "sm_completed_candles (sw_state w1) = sm_completed_candles (sw_state w)" "same_feed ?w0 w1"
    by auto
  from w1(5) s0 have s1: "same_feed w w1" by (rule same_feed_trans [rotated])
  with assms(2) have "sm_app_loop (sw_state w1) = Open_Loop" by (simp add: same_feed_def)
  with w1 s1 show ?thesis
    by (auto simp: handle_ticks_def stream_simps save_completed_def same_feed_def)
qed

lemma batches_feed:
  assumes "list_all2 (\<lambda>batch ticks. mapE (normalize_tick (fst batch)) (snd batch) = Inr ticks) batches tickss"
    and "sm_app_loop (sw_state w) = Open_Loop"
    and "run_ticks (token_id (sw_state w)) (filter (known_tick (sw_state w)) (concat tickss)) (sm_builder (sw_state w))
           = (out, b)"
  shows "\<exists>us w'. mapS (\<lambda>batch. handle_ticks (fst batch) (snd batch)) batches w = (Inr us, w')
    \<and> sm_builder (sw_state w') = b \<and> same_feed w w'
    \<and> concat (sm_pending (sw_state w')) = concat (sm_pending (sw_state w)) @ map snd out
    \<and> sm_completed_candles (sw_state w') = sm_completed_candles (sw_state w) + length out"
  using assms
proof (induction batches tickss arbitrary: w out rule: list_all2_induct)
  case Nil
  then show ?case by (auto simp: same_feed_refl)
next
  case (Cons batch batches ticks tickss)
  let ?m = "sw_state w"
  from Cons.prems(2) obtain o1 b1 o2 where
    r1: "run_ticks (token_id ?m) (filter (known_tick ?m) ticks) (sm_builder ?m) = (o1, b1)"
    and r2: "run_ticks (token_id ?m) (filter (known_tick ?m) (concat tickss)) b1 = (o2, b)" and out: "out = o1 @ o2"
    by (auto simp: run_ticks_append split: prod.splits)
  from handle_ticks_batch [OF Cons.hyps(1) Cons.prems(1) r1] obtain w1 where
    w1: "handle_ticks (fst batch) (snd batch) w = (Inr (), w1)" "sm_builder (sw_state w1) = b1"
      "concat (sm_pending (sw_state w1)) = concat (sm_pending ?m) @ map snd o1"
      "sm_completed_candles (sw_state w1) = sm_completed_candles ?m + length o1" "same_feed w w1" by blast
  from w1(5) Cons.prems(1) have loop: "sm_app_loop (sw_state w1) = Open_Loop" by (simp add: same_feed_def)
  from r2 w1(2) same_feed_ids [OF w1(5)] have
    "run_ticks (token_id (sw_state w1)) (filter (known_tick (sw_state w1)) (concat tickss)) (sm_builder (sw_state w1)) = (o2, b)"
    by simp
  from Cons.IH [OF loop this] obtain us w' where
    "mapS (\<lambda>batch. handle_ticks (fst batch) (snd batch)) batches w1 = (Inr us, w')"
    "sm_builder (sw_state w') = b" "same_feed w1 w'"
    "concat (sm_pending (sw_state w')) = concat (sm_pending (sw_state w1)) @ map snd o2"
    "sm_completed_candles (sw_state w') = sm_completed_candles (sw_state w1) + length o2" by blast
  with w1 out same_feed_trans [OF w1(5)] show ?case by (auto simp: bindS_def)
qed

text \<open>Whatever batches of well-formed ticks the broker delivers, the candles that the callbacks submit
  for storage are exactly those that the builder emits for the sequence of the ticks of the subscribed
  instruments, and they are counted; nothing else changes in the tables.\<close>

theorem batches_feed_builder:
  assumes "list_all2 (\<lambda>batch ticks. mapE (normalize_tick (fst batch)) (snd batch) = Inr ticks) batches tickss"
    and "sm_app_loop (sw_state w) = Open_Loop"
    and "run_ticks (token_id (sw_state w)) (filter (known_tick (sw_state w)) (concat tickss)) (sm_builder (sw_state w))
           = (out, b)"
  shows "\<exists>us w'. mapS (\<lambda>batch. handle_ticks (fst batch) (snd batch)) batches w = (Inr us, w')
    \<and> sm_builder (sw_state w') = b \<and> same_feed w w'
    \<and> concat (sm_pending (sw_state w')) = concat (sm_pending (sw_state w)) @ map snd out
    \<and> sm_completed_candles (sw_state w') = sm_completed_candles (sw_state w) + length out"
  by (rule batches_feed [OF assms])

subsection \<open>A malformed tick\<close>

lemma foldS_fails:
  "foldS f xs a s = (Inr c, s1) \<Longrightarrow> f x c s1 = (Inl e, s2) \<Longrightarrow> foldS f (xs @ x # ys) a s = (Inl e, s2)"
  by (simp add: foldS_append bindS_def)

text \<open>A tick that cannot be normalised ends its batch: the candles that the earlier ticks of the batch
  completed have left the builder and are submitted nowhere, so they are lost.\<close>

theorem malformed_tick_loses_candles:
  assumes "mapE (normalize_tick now) raws = Inr ticks" "normalize_tick now bad = Inl e"
    and "run_ticks (token_id (sw_state w)) (filter (known_tick (sw_state w)) ticks) (sm_builder (sw_state w)) = (out, b)"
  shows "\<exists>w'. handle_ticks now (raws @ bad # rest) w = (Inl e, w') \<and> sm_builder (sw_state w') = b
    \<and> sm_pending (sw_state w') = sm_pending (sw_state w) \<and> sw_repo w' = sw_repo w"
proof -
  let ?w0 = "w\<lparr>sw_state := (sw_state w)\<lparr>sm_last_activity_at := Some now\<rparr>\<rparr>"
  have s0: "same_feed w ?w0" by (simp add: same_feed_def)
  from assms(3) same_feed_ids [OF s0] have
    "run_ticks (token_id (sw_state ?w0)) (filter (known_tick (sw_state ?w0)) ticks) (sm_builder (sw_state ?w0)) = (out, b)"
    by simp
  from fold_handle_ticks [OF assms(1) this, of "[]"] obtain w1 where
    w1: "foldS (handle_tick now) raws [] ?w0 = (Inr (map snd out), w1)" "sm_builder (sw_state w1) = b"
      "sm_pending (sw_state w1) = sm_pending (sw_state w)" "same_feed ?w0 w1"
    by auto
  have "handle_tick now bad (map snd out) w1 = (Inl e, w1)"
    using assms(2) by (simp add: handle_tick_def bindS_def)
  from foldS_fails [OF w1(1) this, of rest] w1 show ?thesis
    by (auto simp: handle_ticks_def stream_simps same_feed_def)
qed

text \<open>Ticks of the instrument with the token 77 in two minutes, and one without a price.\<close>

definition demo_raw :: "int \<Rightarrow> int \<Rightarrow> instant \<Rightarrow> raw_tick" where
  "demo_raw price vol t = [(''instrument_token'', TValue (BInt 77)), (''last_price'', TValue (BInt price)),
     (''volume_traded'', TValue (BInt vol)), (''exchange_timestamp'', TAware t)]"

definition bad_raw :: raw_tick where
  "bad_raw = [(''instrument_token'', TValue (BInt 77)), (''last_price'', TValue BNone)]"

definition demo_batch :: "raw_tick list" where
  "demo_batch = [demo_raw 100 10 1000000, demo_raw 103 14 61000000, demo_raw 101 20 90000000, demo_raw 102 21 130000000]"

definition feed_database :: database where
  "feed_database = empty_database\<lparr>db_instruments :=
     [\<lparr>ir_id = 1, ir_kite_instrument_token = ''77'', ir_exchange = ''NSE'', ir_tradingsymbol = ''SBIN'',
       ir_name = JNull, ir_instrument_type = ''EQ'', ir_tick_size = 1, ir_lot_size = 1, ir_is_active = True,
       ir_updated_at = 0\<rparr>]\<rparr>"

definition demo_feed :: "(nat, database) stream_world" where
  "demo_feed = stream_world\<lparr>sw_state := (new_stream_state stream_settings)\<lparr>sm_stream := Some 1, sm_app_loop := Open_Loop,
     sm_resolved := [\<lparr>ic_id = 1, ic_exchange = ''NSE'', ic_tradingsymbol = ''SBIN'', ic_instrument_token = 77,
       ic_tick_size = 1, ic_is_active = True\<rparr>]\<rparr>, sw_repo := feed_database\<rparr>"

definition demo_normalized :: "normalized_tick list" where
  "demo_normalized =
     [\<lparr>tick_token = 77, tick_price = 100, tick_volume = Some 10, exchange_timestamp = 1000000\<rparr>,
      \<lparr>tick_token = 77, tick_price = 103, tick_volume = Some 14, exchange_timestamp = 61000000\<rparr>,
      \<lparr>tick_token = 77, tick_price = 101, tick_volume = Some 20, exchange_timestamp = 90000000\<rparr>,
      \<lparr>tick_token = 77, tick_price = 102, tick_volume = Some 21, exchange_timestamp = 130000000\<rparr>]"

lemma demo_batch_normalized: "mapE (normalize_tick 0) demo_batch = Inr demo_normalized"
  by code_simp

lemma demo_feed_known: "filter (known_tick (sw_state demo_feed)) demo_normalized = demo_normalized"
  by code_simp

lemma demo_feed_emits:
  "length (fst (run_ticks (token_id (sw_state demo_feed)) demo_normalized (sm_builder (sw_state demo_feed)))) = 1"
  by code_simp

theorem malformed_tick_loses_candles_witness:
  "\<exists>w'. handle_ticks 0 (demo_batch @ [bad_raw]) demo_feed = (Inl InvalidOperation, w')
     \<and> sm_pending (sw_state w') = sm_pending (sw_state demo_feed)
     \<and> sm_builder (sw_state w') = snd (run_ticks (token_id (sw_state demo_feed)) demo_normalized (sm_builder (sw_state demo_feed)))
     \<and> length (fst (run_ticks (token_id (sw_state demo_feed)) demo_normalized (sm_builder (sw_state demo_feed)))) = 1"
proof -
  have bad: "normalize_tick 0 bad_raw = Inl InvalidOperation" by code_simp
  obtain out b where r: "run_ticks (token_id (sw_state demo_feed)) demo_normalized (sm_builder (sw_state demo_feed)) = (out, b)"
    by (metis surj_pair)
  then have "run_ticks (token_id (sw_state demo_feed)) (filter (known_tick (sw_state demo_feed)) demo_normalized)
      (sm_builder (sw_state demo_feed)) = (out, b)" by (simp add: demo_feed_known)
  from malformed_tick_loses_candles [OF demo_batch_normalized bad this, of "[]"] r demo_feed_emits show ?thesis by auto
qed

theorem batches_feed_builder_witness:
  "\<exists>us w'. mapS (\<lambda>batch. handle_ticks (fst batch) (snd batch)) [(0, demo_batch), (0, [])] demo_feed = (Inr us, w')
     \<and> length (concat (sm_pending (sw_state w'))) = 1"
proof -
  obtain out b where r: "run_ticks (token_id (sw_state demo_feed)) demo_normalized (sm_builder (sw_state demo_feed)) = (out, b)"
    by (metis surj_pair)
  then have r': "run_ticks (token_id (sw_state demo_feed)) (filter (known_tick (sw_state demo_feed)) (concat [demo_normalized, []]))
      (sm_builder (sw_state demo_feed)) = (out, b)" by (simp add: demo_feed_known)
  have l: "list_all2 (\<lambda>batch ticks. mapE (normalize_tick (fst batch)) (snd batch) = Inr ticks)
      [(0, demo_batch), (0, [])] [demo_normalized, []]" by (simp add: demo_batch_normalized)
  have "sm_app_loop (sw_state demo_feed) = Open_Loop" "sm_pending (sw_state demo_feed) = []"
    by (simp_all add: demo_feed_def new_stream_state_def)
  with batches_feed_builder [OF l _ r'] r demo_feed_emits show ?thesis by auto
qed

subsection \<open>Storage\<close>

text \<open>Candles that are told apart by instrument, timeframe and minute.\<close>

definition stored :: "database \<Rightarrow> completed_candle \<Rightarrow> bool" where
  "stored d c \<longleftrightarrow> (\<exists>i. candle_of d (completed_identity c) = Some (candle_values c i))"

lemma save_batch_stored:
  assumes "sql_save_completed_candles cs d = (Inr n, d')" "candles_ok d"
    and "inj_on completed_identity E" "set cs \<subseteq> E"
    and "\<And>c. c \<in> E \<Longrightarrow> c \<in> set rest \<or> c \<in> set cs \<or> stored d c"
  shows "candles_ok d' \<and> (\<forall>c \<in> E. c \<in> set rest \<or> stored d' c)"
proof -
  from sql_save_ok [OF assms(1,2)] have ok: "candles_ok d'"
    and k: "\<And>k. case last_candle cs k of None \<Rightarrow> candle_of d' k = candle_of d k
        | Some c \<Rightarrow> \<exists>i. candle_of d' k = Some (candle_values c i)" by blast+
  have "c \<in> set rest \<or> stored d' c" if c: "c \<in> E" for c
  proof (cases "last_candle cs (completed_identity c)")
    case None
    then have "c \<notin> set cs" by (auto simp: last_candle_def find_None_iff)
    with assms(5) [OF c] k [of "completed_identity c"] None show ?thesis by (auto simp: stored_def)
  next
    case (Some c')
    then have "c' \<in> set cs" "completed_identity c' = completed_identity c"
      unfolding last_candle_def by (auto dest: find_Some_D)
    with assms(3,4) c have "c' = c" by (auto dest: inj_onD)
    with k [of "completed_identity c"] Some show ?thesis by (auto simp: stored_def)
  qed
  with ok show ?thesis by blast
qed

lemma concat_take_drop: "i < length xs \<Longrightarrow> set (concat xs) = set (xs ! i) \<union> set (concat (take i xs @ drop (Suc i) xs))"
proof -
  assume i: "i < length xs"
  then have xs: "xs = take i xs @ xs ! i # drop (Suc i) xs" by (rule id_take_nth_drop)
  have "concat xs = concat (take i xs @ xs ! i # drop (Suc i) xs)" using xs by (rule arg_cong)
  then show ?thesis by auto
qed

definition feed_stored :: "completed_candle set \<Rightarrow> ('h, database) stream_world \<Rightarrow> bool" where
  "feed_stored E w \<longleftrightarrow> candles_ok (sw_repo w) \<and> set (concat (sm_pending (sw_state w))) \<subseteq> E
     \<and> (\<forall>c \<in> E. c \<in> set (concat (sm_pending (sw_state w))) \<or> stored (sw_repo w) c)"

lemma persist_batch_step:
  assumes "persist_batch sql_market_repository i w = (r, w')" and "inj_on completed_identity E"
    and "sm_last_error (sw_state w) \<noteq> None \<or> feed_stored E w"
  shows "sm_last_error (sw_state w') \<noteq> None \<or> feed_stored E w'"
proof (cases "i < length (sm_pending (sw_state w)) \<and> sm_last_error (sw_state w) = None")
  case False
  with assms(1,3) show ?thesis
    by (auto simp: persist_batch_def stream_simps tryS_def feed_stored_def split: prod.splits sum.splits if_splits)
next
  case True
  let ?p = "sm_pending (sw_state w)"
  let ?rest = "take i ?p @ drop (Suc i) ?p"
  obtain x d' where save: "sql_save_completed_candles (?p ! i) (sw_repo w) = (x, d')" by (metis surj_pair)
  show ?thesis
  proof (cases x)
    case (Inl e)
    with assms(1) True save show ?thesis
      by (auto simp: persist_batch_def stream_simps tryS_def sql_market_repository_def)
  next
    case (Inr n)
    with assms(1) True save have w': "sw_repo w' = d'" "sm_pending (sw_state w') = ?rest"
      by (auto simp: persist_batch_def stream_simps tryS_def sql_market_repository_def)
    from True assms(3) have fs: "feed_stored E w" by simp
    have parts: "set (concat ?p) = set (?p ! i) \<union> set (concat ?rest)" by (rule concat_take_drop) (use True in simp)
    from fs parts have "set (?p ! i) \<subseteq> E" "candles_ok (sw_repo w)" "set (concat ?rest) \<subseteq> E"
      and cases: "\<And>c. c \<in> E \<Longrightarrow> c \<in> set (concat ?rest) \<or> c \<in> set (?p ! i) \<or> stored (sw_repo w) c"
      unfolding feed_stored_def by blast+
    have "candles_ok d' \<and> (\<forall>c \<in> E. c \<in> set (concat ?rest) \<or> stored d' c)"
      by (rule save_batch_stored [OF save [unfolded Inr] \<open>candles_ok (sw_repo w)\<close> assms(2)
          \<open>set (?p ! i) \<subseteq> E\<close> cases])
    with w' \<open>set (concat ?rest) \<subseteq> E\<close> have "feed_stored E w'"
      unfolding feed_stored_def w' by (intro conjI) simp_all
    then show ?thesis by (rule disjI2)
  qed
qed

lemma token_id_inj:
  assumes "distinct (map ic_id (sm_resolved m))" "instrument_by_token m a \<noteq> None" "instrument_by_token m b \<noteq> None"
    and "token_id m a = token_id m b"
  shows "a = b"
proof -
  from assms(2,3) obtain i j where ij: "instrument_by_token m a = Some i" "instrument_by_token m b = Some j" by blast
  then have mem: "i \<in> set (sm_resolved m)" "ic_instrument_token i = a" "j \<in> set (sm_resolved m)" "ic_instrument_token j = b"
    unfolding instrument_by_token_def by (auto dest!: find_Some_D)
  from assms(4) ij have "ic_id i = ic_id j" by (simp add: token_id_def)
  with assms(1) mem have "i = j" by (auto simp: distinct_map inj_on_def)
  with mem show ?thesis by simp
qed

lemma emitted_identities:
  assumes r: "run_ticks iid ts (new_builder tf) = (out, b)"
    and inj: "\<And>x y. x \<in> tick_token ` set ts \<Longrightarrow> y \<in> tick_token ` set ts \<Longrightarrow> iid x = iid y \<Longrightarrow> x = y"
  shows "inj_on completed_identity (set (map snd out))"
proof (rule inj_onI)
  fix c c' assume c: "c \<in> set (map snd out)" "c' \<in> set (map snd out)"
    and id: "completed_identity c = completed_identity c'"
  from c obtain x y where xy: "(x, c) \<in> set out" "(y, c') \<in> set out" by auto
  then have mem: "c \<in> set (candles_of x out)" "c' \<in> set (candles_of y out)"
    unfolding candles_of_def by force+
  from run_ticks_candles [OF r, of x] run_ticks_candles [OF r, of y] mem
  have ids: "cc_instrument_id c = iid x" "cc_instrument_id c' = iid y" by (auto simp: minute_candle_def)
  from xy run_ticks_tokens [OF r] have toks: "x \<in> tick_token ` set ts" "y \<in> tick_token ` set ts" by force+
  from ids id have "iid x = iid y" by (simp add: completed_identity_def)
  with inj [OF toks] have "x = y" by blast
  from id have start: "cc_started_at c = cc_started_at c'" by (simp add: completed_identity_def)
  from run_ticks_wellformed [OF r, of x] have "sorted_wrt (<) (map cc_started_at (candles_of x out))" by blast
  then have "distinct (map cc_started_at (candles_of x out))" by (simp add: strict_sorted_iff)
  with mem start \<open>x = y\<close> show "c = c'" by (auto simp: distinct_map inj_on_def)
qed


lemma pair_of_fst: "fst x = a \<Longrightarrow> x = (a, snd x)"
  by (cases x) simp

definition stored_feed :: "(nat, database) stream_world" where
  "stored_feed = snd (mapS (\<lambda>batch. handle_ticks (fst batch) (snd batch)) [(0, demo_batch)] demo_feed)"


subsection \<open>Errors that stay and streams that are lost\<close>

text \<open>
  After an error of the websocket, a successful reconnection marks the stream as connected but keeps
  the error: only a new start clears it, and a start does nothing while a stream is there.
\<close>

lemma reconnect_keeps_error:
  assumes "sm_stream (sw_state w) = Some h"
    and "mc_subscribe client h (stream_tokens (sw_state w)) = Inr ()"
    and "mc_set_mode client h (market_data_mode s) (stream_tokens (sw_state w)) = Inr ()"
  shows "\<exists>w'. bindS (mark_error category t0) (\<lambda>_. handle_connected s client t1) w = (Inr (), w')
    \<and> sm_connected (sw_state w') \<and> sm_last_error (sw_state w') = Some category
    \<and> sm_stream (sw_state w') = Some h"
  using assms
  by (auto simp: mark_error_def handle_connected_def stream_simps tryS_def stream_tokens_def)

text \<open>
  Two starts that both passed the check for a running stream, while they awaited the repository and
  the session, both create one: the second replaces the first, which nothing disconnects any more.
\<close>

lemma concurrent_starts_lose_a_stream:
  assumes "prepare_stream read_text s repo session w = (Inr (rs, ks), w)"
    and "mc_create client (ks_api_key ks) (ks_access_token ks) = Inr h" "mc_connect client h = Inr ()"
  shows "\<exists>w'. bindS (prepare_stream read_text s repo session) (\<lambda>(rs1, ks1).
      bindS (prepare_stream read_text s repo session) (\<lambda>(rs2, ks2).
      bindS (open_stream client now rs1 ks1) (\<lambda>_. open_stream client now rs2 ks2))) w = (Inr (), w')
    \<and> sw_calls w' = sw_calls w @ [Create_Stream (ks_api_key ks) (ks_access_token ks), Connect h,
         Create_Stream (ks_api_key ks) (ks_access_token ks), Connect h]"
  using assms by (auto simp: open_stream_def stream_simps tryS_def)

end
