(* ===== verification/AutoLoop.thy ===== *)
theory AutoLoop
  imports ScannerService
begin

section \<open>The scanner auto loop\<close>

text \<open>
  \<^verbatim>\<open>app/scanners/auto_loop.py\<close>: the loop that runs a scanner batch every interval, inside a daily
  window, and the operator's single runs, which share a lock with it. The batch is the argument \<open>batch\<close>
  (\<^verbatim>\<open>ScannerService.run_batch\<close>); its state is part of the state of the program. The task of the loop is
  represented by whether it runs; one pass of the loop is \<open>auto_loop_pass\<close>.
\<close>

subsection \<open>State\<close>

record auto_loop =
  al_running :: bool
  al_locked :: bool
  al_last_run_at :: "instant option"
  al_next_run_after :: "instant option"
  al_last_summary :: "(string \<times> json) list option"
  al_last_error :: "string option"

definition new_auto_loop :: auto_loop where
  "new_auto_loop = \<lparr>al_running = False, al_locked = False, al_last_run_at = None, al_next_run_after = None,
     al_last_summary = None, al_last_error = None\<rparr>"

record 's auto_loop_world =
  alw_loop :: auto_loop
  alw_scanner :: 's

definition put_loop :: "(auto_loop \<Rightarrow> auto_loop) \<Rightarrow> ('s auto_loop_world, unit) prog" where
  "put_loop f = modifyS (\<lambda>w. w\<lparr>alw_loop := f (alw_loop w)\<rparr>)"

definition on_scanner :: "('s, 'a) prog \<Rightarrow> ('s auto_loop_world, 'a) prog" where
  "on_scanner m = (\<lambda>w. case m (alw_scanner w) of (r, s) \<Rightarrow> (r, w\<lparr>alw_scanner := s\<rparr>))"

subsection \<open>Configuration\<close>

definition ensure_auto_loop_enabled :: "settings \<Rightarrow> unit res" where
  "ensure_auto_loop_enabled s =
     (if \<not> scanner_enabled s then Inl (ScannerDisabledError ''Scanner is disabled.'')
      else if \<not> scanner_auto_loop_enabled s
        then Inl (ScannerAutoLoopDisabledError ''Scanner auto-loop is disabled.'')
      else if scanner_auto_loop_interval_seconds s < 1
        then Inl (ScannerConfigError ''Scanner auto-loop interval must be positive.'')
      else if \<not> scanner_auto_loop_candidates_always_persist s
        then Inl (ScannerConfigError ''Auto-loop candidates must always persist.'')
      else Inr ())"

definition auto_loop_time :: "string \<Rightarrow> time_of_day res" where
  "auto_loop_time value =
     (case parse_hhmm value of
        None \<Rightarrow> Inl (ScannerConfigError ''Scanner auto-loop time must be HH:MM.'') | Some t \<Rightarrow> Inr t)"

definition time_skip_reason :: "settings \<Rightarrow> instant \<Rightarrow> string option res" where
  "time_skip_reason s now =
     (if scanner_auto_loop_run_on_market_days_only s \<and> 5 \<le> weekday (ist_date now)
      then Inr (Some ''non_market_weekday'')
      else bindE (auto_loop_time (scanner_auto_loop_start_after_ist s)) (\<lambda>start.
           bindE (auto_loop_time (scanner_auto_loop_stop_after_ist s)) (\<lambda>stop.
             Inr (if ist_time now < start then Some ''before_start_time''
                  else if stop < ist_time now then Some ''after_stop_time'' else None))))"

definition configured_symbols_or_none :: "settings \<Rightarrow> string list option res" where
  "configured_symbols_or_none s =
     (if scanner_auto_loop_use_selected_universe s then Inr None
      else let configured = comma_entries (scanner_auto_loop_symbols s)
           in if configured \<noteq> [] then Inr (Some configured)
              else if scanner_auto_loop_use_market_watchlist s then Inr None
              else Inl (ScannerConfigError ''Scanner auto-loop symbols are not configured.''))"

definition auto_loop_options :: "settings \<Rightarrow> string list option \<Rightarrow> batch_options" where
  "auto_loop_options s symbols =
     \<lparr>op_store_rejections = scanner_auto_loop_store_rejections s, op_dry_run = False,
      op_min_candles = scanner_auto_loop_min_candles s,
      op_require_session_start = scanner_auto_loop_require_session_start s,
      op_require_continuity = scanner_auto_loop_require_continuity s, op_symbols = symbols,
      op_timeframe = scanner_auto_loop_timeframe s, op_max_symbols = Some (scanner_auto_loop_max_symbols s),
      op_use_latest_universe = scanner_auto_loop_use_selected_universe s\<rparr>"

subsection \<open>One run\<close>

definition skipped_summary :: "string \<Rightarrow> instant \<Rightarrow> (string \<times> json) list" where
  "skipped_summary reason now =
     [(''skipped'', JBool True), (''skip_reason'', JStr reason), (''evaluated_symbols'', JInt 0),
      (''total_evaluated'', JInt 0), (''total_inserted'', JInt 0), (''total_candidates'', JInt 0),
      (''total_rejected'', JInt 0), (''per_symbol'', JList []), (''errors'', JObj []),
      (''started_at'', JStr (isoformat now)), (''finished_at'', JStr (isoformat now)), (''duration_ms'', JInt 0)]"

definition record_skip :: "string \<Rightarrow> string option \<Rightarrow> instant \<Rightarrow> ('s auto_loop_world, (string \<times> json) list) prog" where
  "record_skip reason err now =
     bindS (put_loop (\<lambda>l. l\<lparr>al_last_run_at := Some now, al_last_summary := Some (skipped_summary reason now),
        al_last_error := err\<rparr>)) (\<lambda>_. retS (skipped_summary reason now))"

definition selected_universe_missing :: "exn \<Rightarrow> bool" where
  "selected_universe_missing e = (case e of SelectedUniverseMissingError m \<Rightarrow> True | _ \<Rightarrow> False)"

text \<open>The body under the lock; \<open>now\<close> and \<open>later\<close> are the two readings of the clock.\<close>

definition auto_loop_body ::
  "settings \<Rightarrow> (batch_options \<Rightarrow> ('s, scanner_batch_result) prog) \<Rightarrow> (int \<Rightarrow> int) \<Rightarrow> instant \<Rightarrow> instant \<Rightarrow>
     ('s auto_loop_world, (string \<times> json) list) prog" where
  "auto_loop_body s batch float_ms now later =
     bindS (liftS (time_skip_reason s now)) (\<lambda>skip. case skip of
       Some reason \<Rightarrow> record_skip reason None now
     | None \<Rightarrow>
         tryS (bindS (liftS (configured_symbols_or_none s)) (\<lambda>symbols.
               bindS (on_scanner (batch (auto_loop_options s symbols))) (\<lambda>result.
               let summary = batch_as_dict float_ms result @ [(''skipped'', JBool False)]
               in bindS (put_loop (\<lambda>l. l\<lparr>al_last_summary := Some summary, al_last_error := None,
                      al_last_run_at := Some later\<rparr>)) (\<lambda>_. retS summary))))
           (\<lambda>e. Some (if selected_universe_missing e
              then record_skip ''selected_universe_missing'' (Some ''selected_universe_missing'') now
              else bindS (put_loop (\<lambda>l. l\<lparr>al_last_error := Some ''scanner_auto_loop_run_failed''\<rparr>))
                     (\<lambda>_. raiseS e))))"

text \<open>The lock is released on every exit.\<close>

definition with_lock :: "('s auto_loop_world, 'a) prog \<Rightarrow> ('s auto_loop_world, 'a) prog" where
  "with_lock m = (\<lambda>w. case m (w\<lparr>alw_loop := (alw_loop w)\<lparr>al_locked := True\<rparr>\<rparr>) of
     (r, w') \<Rightarrow> (r, w'\<lparr>alw_loop := (alw_loop w')\<lparr>al_locked := False\<rparr>\<rparr>))"

definition auto_loop_run_now ::
  "settings \<Rightarrow> (batch_options \<Rightarrow> ('s, scanner_batch_result) prog) \<Rightarrow> (int \<Rightarrow> int) \<Rightarrow> instant \<Rightarrow> instant \<Rightarrow>
     ('s auto_loop_world, (string \<times> json) list) prog" where
  "auto_loop_run_now s batch float_ms now later =
     bindS (liftS (ensure_auto_loop_enabled s)) (\<lambda>_.
     bindS (readS (\<lambda>w. al_locked (alw_loop w))) (\<lambda>locked.
       if locked then raiseS (ScannerAutoLoopBusyError ''Scanner auto-loop run is already in progress.'')
       else with_lock (auto_loop_body s batch float_ms now later)))"

subsection \<open>The loop\<close>

text \<open>One pass: whatever the run raises, the loop goes on after the interval.\<close>

definition auto_loop_pass ::
  "settings \<Rightarrow> (batch_options \<Rightarrow> ('s, scanner_batch_result) prog) \<Rightarrow> (int \<Rightarrow> int) \<Rightarrow> instant \<Rightarrow> instant \<Rightarrow> instant \<Rightarrow>
     ('s auto_loop_world, unit) prog" where
  "auto_loop_pass s batch float_ms now later next_from =
     bindS (tryS (bindS (auto_loop_run_now s batch float_ms now later) (\<lambda>_. retS ()))
        (\<lambda>e. Some (put_loop (\<lambda>l. l\<lparr>al_last_error := Some ''scanner_auto_loop_run_failed''\<rparr>)))) (\<lambda>_.
     put_loop (\<lambda>l. l\<lparr>al_next_run_after := Some (next_from + scanner_auto_loop_interval_seconds s * second_us)\<rparr>))"

definition auto_loop_status_symbols ::
  "settings \<Rightarrow> (string \<Rightarrow> string option) \<Rightarrow> string list option \<Rightarrow> string list \<times> string" where
  "auto_loop_status_symbols s read_text latest =
     (let configured = map upper (comma_entries (scanner_auto_loop_symbols s)) in
      if scanner_auto_loop_use_selected_universe s
        then (case latest of None \<Rightarrow> [] | Some xs \<Rightarrow> xs, ''latest_selected_universe'')
      else if configured \<noteq> [] then (configured, ''scanner_auto_loop_symbols'')
      else if scanner_auto_loop_use_market_watchlist s
        then (map upper (configured_watchlist_entries read_text s), ''market_watchlist'')
      else ([], ''none''))"

definition auto_loop_status ::
  "settings \<Rightarrow> (string \<Rightarrow> string option) \<Rightarrow> string list option \<Rightarrow> auto_loop \<Rightarrow> (string \<times> json) list" where
  "auto_loop_status s read_text latest l =
     (let (symbols, source) = auto_loop_status_symbols s read_text latest;
          latest_symbols = (case latest of None \<Rightarrow> [] | Some xs \<Rightarrow> xs)
      in [(''enabled'', JBool (scanner_auto_loop_enabled s)), (''running'', JBool (al_running l)),
          (''interval_seconds'', JInt (scanner_auto_loop_interval_seconds s)), (''symbols'', jstrs symbols),
          (''symbols_source'', JStr source), (''timeframe'', JStr (scanner_auto_loop_timeframe s)),
          (''last_run_at'', jopt (\<lambda>t. JStr (isoformat t)) (al_last_run_at l)),
          (''next_run_after'', jopt (\<lambda>t. JStr (isoformat t)) (al_next_run_after l)),
          (''last_summary'', jopt JObj (al_last_summary l)), (''last_error'', jopt JStr (al_last_error l)),
          (''store_rejections'', JBool (scanner_auto_loop_store_rejections s)),
          (''overlap_prevention'', JBool True), (''min_candles'', JInt (scanner_auto_loop_min_candles s)),
          (''start_after_ist'', JStr (scanner_auto_loop_start_after_ist s)),
          (''stop_after_ist'', JStr (scanner_auto_loop_stop_after_ist s)),
          (''suppress_duplicate_rejections'', JBool (scanner_auto_loop_suppress_duplicate_rejections s)),
          (''candidates_always_persist'', JBool (scanner_auto_loop_candidates_always_persist s)),
          (''use_selected_universe'', JBool (scanner_auto_loop_use_selected_universe s)),
          (''latest_universe_available'', JBool (latest \<noteq> None)),
          (''latest_universe_symbols'', jstrs latest_symbols),
          (''latest_universe_count'', JInt (int (length latest_symbols)))])"

text \<open>
  Starting marks the task as running. Stopping cancels it: a cancelled run holds the lock no more, and
  the loop clears the time of the next run.
\<close>

definition auto_loop_start :: "settings \<Rightarrow> ('s auto_loop_world, unit) prog" where
  "auto_loop_start s =
     bindS (liftS (ensure_auto_loop_enabled s)) (\<lambda>_.
     bindS (readS (\<lambda>w. al_running (alw_loop w))) (\<lambda>running.
       if running then raiseS (ScannerAutoLoopRunningError ''Scanner auto-loop is already running.'')
       else put_loop (\<lambda>l. l\<lparr>al_running := True\<rparr>)))"

definition auto_loop_stop :: "('s auto_loop_world, unit) prog" where
  "auto_loop_stop = put_loop (\<lambda>l. l\<lparr>al_running := False, al_next_run_after := None\<rparr>)"

subsection \<open>Properties\<close>

lemmas loop_simps = put_loop_def on_scanner_def bindS_def

text \<open>C31: A pass of the loop always ends and leaves the time of the next run one interval ahead. If it
  touches the scanner's state, the loop is fully enabled, no other run holds the lock, and the local
  time is inside the configured window (and a weekday, when so configured).\<close>

theorem auto_loop_pass_gated:
  "\<exists>w'. auto_loop_pass s batch float_ms now later t w = (Inr (), w')
    \<and> al_next_run_after (alw_loop w') = Some (t + scanner_auto_loop_interval_seconds s * second_us)
    \<and> (alw_scanner w' \<noteq> alw_scanner w \<longrightarrow>
         scanner_enabled s \<and> scanner_auto_loop_enabled s \<and> \<not> al_locked (alw_loop w)
         \<and> (\<exists>start stop. parse_hhmm (scanner_auto_loop_start_after_ist s) = Some start
              \<and> parse_hhmm (scanner_auto_loop_stop_after_ist s) = Some stop
              \<and> start \<le> ist_time now \<and> ist_time now \<le> stop)
         \<and> (scanner_auto_loop_run_on_market_days_only s \<longrightarrow> weekday (ist_date now) < 5))"
proof -
  obtain r w1 where run: "auto_loop_run_now s batch float_ms now later w = (r, w1)" by (metis surj_pair)
  have gate: "scanner_enabled s \<and> scanner_auto_loop_enabled s \<and> \<not> al_locked (alw_loop w)
      \<and> time_skip_reason s now = Inr None" if "alw_scanner w1 \<noteq> alw_scanner w"
  proof (rule ccontr)
    assume no: "\<not> ?thesis"
    show False
    proof (cases "ensure_auto_loop_enabled s = Inr () \<and> \<not> al_locked (alw_loop w)")
      case False
      with run that show False
        by (cases "ensure_auto_loop_enabled s") (auto simp: auto_loop_run_now_def bindS_def split: if_splits)
    next
      case True
      with no have "time_skip_reason s now \<noteq> Inr None"
        by (auto simp: ensure_auto_loop_enabled_def split: if_splits)
      then consider e where "time_skip_reason s now = Inl e" | reason where "time_skip_reason s now = Inr (Some reason)"
        by (cases "time_skip_reason s now") auto
      then show False
        using run that True
        by cases (auto simp: auto_loop_run_now_def with_lock_def auto_loop_body_def record_skip_def loop_simps)
    qed
  qed
  have window: "time_skip_reason s now = Inr None \<Longrightarrow>
      (\<exists>start stop. parse_hhmm (scanner_auto_loop_start_after_ist s) = Some start
         \<and> parse_hhmm (scanner_auto_loop_stop_after_ist s) = Some stop
         \<and> start \<le> ist_time now \<and> ist_time now \<le> stop)
      \<and> (scanner_auto_loop_run_on_market_days_only s \<longrightarrow> weekday (ist_date now) < 5)"
    by (auto simp: time_skip_reason_def auto_loop_time_def bindE_eq_Inr split: if_splits option.splits)
  obtain w' where w': "auto_loop_pass s batch float_ms now later t w = (Inr (), w')"
    "al_next_run_after (alw_loop w') = Some (t + scanner_auto_loop_interval_seconds s * second_us)"
    "alw_scanner w' = alw_scanner w1"
    using run by (cases r) (auto simp: auto_loop_pass_def tryS_def loop_simps)
  with gate window show ?thesis by auto
qed

definition loop_settings :: settings where
  "loop_settings = default_settings\<lparr>scanner_enabled := True, scanner_auto_loop_enabled := True\<rparr>"

definition counting_batch :: "batch_options \<Rightarrow> (nat, scanner_batch_result) prog" where
  "counting_batch options = bindS (modifyS Suc) (\<lambda>_. raiseS (OtherError ''down''))"

theorem auto_loop_pass_gated_witness:
  "\<exists>w'. auto_loop_pass loop_settings counting_batch (\<lambda>_. 0) (5 * 3600 * second_us) 0 7 \<lparr>alw_loop = new_auto_loop, alw_scanner = 0\<rparr>
      = (Inr (), w') \<and> alw_scanner w' = 1 \<and> al_next_run_after (alw_loop w') = Some (7 + 300 * second_us)"
proof -
  let ?w = "\<lparr>alw_loop = new_auto_loop, alw_scanner = 0\<rparr>"
  have s: "scanner_auto_loop_interval_seconds loop_settings = 300" by code_simp
  have c: "alw_scanner (snd (auto_loop_pass loop_settings counting_batch (\<lambda>_. 0) (5 * 3600 * second_us) 0 7 ?w)) = 1"
    by code_simp
  from auto_loop_pass_gated [of loop_settings counting_batch "\<lambda>_. 0" "5 * 3600 * second_us" 0 7 ?w] s c
  show ?thesis by auto
qed

end
