(* ===== verification/MorningReadiness.thy ===== *)
theory MorningReadiness
  imports StreamReadiness AutoLoop UniverseSelection
begin

section \<open>The morning readiness report\<close>

text \<open>
  \<^verbatim>\<open>app/ops/morning_readiness.py\<close>: one checklist from the watchlist validation, the stream
  readiness, the status of the scanner, of its auto loop and of the universe selection. The reports of
  the other services are the arguments, as the code reads them from the dictionaries they return.
\<close>

record morning_inputs =
  mi_watchlist :: watchlist_validation_result
  mi_stream :: "(string \<times> json) list"
  mi_scanner :: "(string \<times> json) list"
  mi_auto_loop :: "(string \<times> json) list"
  mi_universe :: "(string \<times> json) list"

text \<open>Without a universe service.\<close>

definition no_universe_status :: "(string \<times> json) list" where
  "no_universe_status =
     [(''enabled'', JBool False), (''latest_run_at'', JNull), (''latest_selected_count'', JInt 0),
      (''latest_selected_symbols'', JList []), (''pool_valid'', JBool True)]"

definition jstrings :: "json \<Rightarrow> string list" where
  "jstrings v = (case v of JList vs \<Rightarrow> List.map_filter (\<lambda>x. case x of JStr s \<Rightarrow> Some s | _ \<Rightarrow> None) vs | _ \<Rightarrow> [])"

definition trading_safe :: "settings \<Rightarrow> bool" where
  "trading_safe s \<longleftrightarrow> trading_mode s = ''OFF'' \<and> \<not> live_armed s"

definition morning_blocking :: "settings \<Rightarrow> morning_inputs \<Rightarrow> string list" where
  "morning_blocking s i =
     (let watchlist = mi_watchlist i; stream = mi_stream i;
          running = truthy (jget stream ''stream_already_running'');
          open_conn = truthy (jget stream ''stream_connected'')
      in (if \<not> trading_safe s then [''trading_safety_defaults_not_off''] else [])
         @ (if \<not> wv_ready_for_stream watchlist then wv_errors watchlist else [])
         @ (if \<not> truthy (jget stream ''kite_session_ready'') then [''kite_session_not_ready''] else [])
         @ (if \<not> market_data_enabled s then [''market_data_disabled''] else [])
         @ (if \<not> kite_websocket_enabled s then [''kite_websocket_disabled''] else [])
         @ (if \<not> running then [''market_stream_not_running'']
            else if \<not> open_conn then [''market_stream_not_connected''] else [])
         @ (if scanner_auto_loop_use_selected_universe s \<and> \<not> truthy (jget (mi_universe i) ''latest_run_at'')
            then [''scanner_auto_loop_selected_universe_missing''] else []))"

definition morning_warnings :: "settings \<Rightarrow> morning_inputs \<Rightarrow> string list" where
  "morning_warnings s i =
     (let universe_enabled = truthy (jget (mi_universe i) ''enabled'')
      in (if paper_enabled s \<or> paper_mode s \<noteq> ''OFF''
          then [''paper_mode_should_remain_off_during_market_readiness''] else [])
         @ (if \<not> scanner_enabled s then [''scanner_disabled''] else [])
         @ (if \<not> scanner_auto_loop_enabled s then [''scanner_auto_loop_disabled''] else [])
         @ (if universe_enabled \<and> \<not> truthy (jget (mi_universe i) ''pool_valid'')
            then [''universe_pool_invalid''] else [])
         @ (if universe_enabled \<and> \<not> truthy (jget (mi_universe i) ''latest_run_at'')
            then [''universe_selection_has_no_latest_run''] else []))"

definition recommended_sequence :: "bool \<Rightarrow> string list \<Rightarrow> bool \<Rightarrow> bool \<Rightarrow> bool \<Rightarrow> bool \<Rightarrow> bool \<Rightarrow> string list" where
  "recommended_sequence watchlist_ready missing session_ready running open_conn universe_enabled latest_exists =
     uniq ([''confirm_safe_env'', ''validate_watchlist'']
       @ (if \<not> session_ready then [''login_kite''] else [])
       @ (if missing \<noteq> [] \<or> \<not> watchlist_ready then [''run_instrument_sync'', ''validate_watchlist_again''] else [])
       @ [''force_recreate_api_after_env_change'']
       @ (if \<not> running \<or> \<not> open_conn then [''start_market_stream''] else [])
       @ (if universe_enabled \<and> \<not> latest_exists
          then [''run_universe_selection_after_data_available'',
                ''use_market_watchlist_until_universe_selection_exists''] else [])
       @ [''confirm_subscribed_symbols_match_configured_symbols'', ''wait_until_10_07_before_scanning''])"

definition morning_readiness :: "settings \<Rightarrow> morning_inputs \<Rightarrow> (string \<times> json) list" where
  "morning_readiness s i =
     (let watchlist = mi_watchlist i; stream = mi_stream i; universe = mi_universe i;
          blocking = uniq (morning_blocking s i);
          warnings = uniq (morning_warnings s i @ wv_warnings watchlist @ jstrings (jget stream ''warnings''))
      in [(''safe'', JBool (trading_safe s)),
          (''ready_for_market_open'', JBool (trading_safe s \<and> blocking = [])),
          (''trading_mode'', JStr (trading_mode s)), (''live_armed'', JBool (live_armed s)),
          (''paper_enabled'', JBool (paper_enabled s)), (''paper_mode'', JStr (paper_mode s)),
          (''kite_session_status'', jget stream ''kite_session_status''),
          (''market_data_enabled'', JBool (market_data_enabled s)),
          (''websocket_enabled'', JBool (kite_websocket_enabled s)),
          (''watchlist_validation'', JObj (validation_as_dict watchlist)),
          (''stream_readiness'', JObj stream), (''scanner_status'', JObj (mi_scanner i)),
          (''scanner_auto_loop_status'', JObj (mi_auto_loop i)),
          (''universe_selection_enabled'', JBool (truthy (jget universe ''enabled''))),
          (''universe_pool_valid'', JBool (truthy (jget universe ''pool_valid''))),
          (''latest_universe_run_at'', jget universe ''latest_run_at''),
          (''latest_selected_count'', jget universe ''latest_selected_count''),
          (''latest_selected_symbols'', jget universe ''latest_selected_symbols''),
          (''blocking_issues'', jstrs blocking), (''warnings'', jstrs warnings),
          (''recommended_sequence'', jstrs (recommended_sequence (wv_ready_for_stream watchlist)
             (wv_missing_symbols watchlist) (truthy (jget stream ''kite_session_ready''))
             (truthy (jget stream ''stream_already_running'')) (truthy (jget stream ''stream_connected''))
             (truthy (jget universe ''enabled'')) (truthy (jget universe ''latest_run_at''))))])"

subsection \<open>Facts\<close>

text \<open>The fields the preopen check reads.\<close>

lemma morning_readiness_fields:
  "jget (morning_readiness s i) ''safe'' = JBool (trading_safe s)"
  "jget (morning_readiness s i) ''stream_readiness'' = JObj (mi_stream i)"
  "jget (morning_readiness s i) ''watchlist_validation'' = JObj (validation_as_dict (mi_watchlist i))"
  "jget (morning_readiness s i) ''ready_for_market_open'' = JBool (trading_safe s \<and> morning_blocking s i = [])"
  by (simp_all add: morning_readiness_def Let_def)

lemma validation_ready_field: "jget (validation_as_dict v) ''ready_for_stream'' = JBool (wv_ready_for_stream v)"
  by (simp add: validation_as_dict_def)

end
