(* ===== verification/Notifier.thy ===== *)
theory Notifier
  imports DecisionAutomation
begin

section \<open>Notifications\<close>

text \<open>
  \<^verbatim>\<open>app/ops/notifier.py\<close>: the gates of a notification, the removal of secrets from its details,
  the text of the message and the request that is sent. The network (\<open>sender\<close>, or \<open>urlopen\<close> and the
  JSON parser \<open>loads\<close> for the production sender) and the text of a float (\<open>num_repr\<close>) are parameters;
  the state is the list of the requests handed to the sender.
\<close>

subsection \<open>Secrets\<close>

definition secret_fragments :: "string list" where
  "secret_fragments = [''token'', ''secret'', ''password'', ''database_url'', ''redis_url'', ''api_key'',
     ''chat_id'', ''operator'', ''payload'', ''raw_env'']"

definition secret_key :: "string \<Rightarrow> bool" where
  "secret_key k = list_ex (\<lambda>fragment. has_sub fragment (lower k)) secret_fragments"

definition redaction_mark :: string where
  "redaction_mark = ''[redacted]''"

definition redact_secrets :: "string list \<Rightarrow> string \<Rightarrow> string" where
  "redact_secrets secrets s = fold (\<lambda>secret safe. replace secret redaction_mark safe) secrets s"

text \<open>A number rendered by the code before (\<open>JDec\<close>) and the other values are kept.\<close>

fun safe_value :: "string list \<Rightarrow> json \<Rightarrow> json" where
  "safe_value secrets (JObj kvs) =
     JObj (map (\<lambda>kv. (fst kv, safe_value secrets (snd kv))) (filter (\<lambda>kv. \<not> secret_key (fst kv)) kvs))"
| "safe_value secrets (JList vs) = JList (map (safe_value secrets) vs)"
| "safe_value secrets (JStr s) = JStr (redact_secrets secrets s)"
| "safe_value secrets JNull = JNull"
| "safe_value secrets (JBool b) = JBool b"
| "safe_value secrets (JInt i) = JInt i"
| "safe_value secrets (JFloat q) = JFloat q"
| "safe_value secrets (JDec q) = JDec q"

definition safe_details :: "string list \<Rightarrow> (string \<times> json) list \<Rightarrow> (string \<times> json) list" where
  "safe_details secrets details =
     map (\<lambda>kv. (fst kv, safe_value secrets (snd kv))) (filter (\<lambda>kv. \<not> secret_key (fst kv)) details)"

definition notifier_secrets :: "settings \<Rightarrow> string list" where
  "notifier_secrets s =
     filter (\<lambda>v. v \<noteq> [])
       [market_ops_telegram_bot_token s, market_ops_telegram_chat_id s, operator_auth_token s,
        kite_api_key s, kite_api_secret s, kite_session_encryption_key s, openai_api_key s,
        database_url s, redis_url s]"

subsection \<open>The message\<close>

text \<open>\<^verbatim>\<open>repr\<close> of an ASCII string: single quotes unless only single quotes occur in it.\<close>

definition repr_char :: "char \<Rightarrow> char \<Rightarrow> string" where
  "repr_char quote c =
     (let n = (of_char c :: nat) in
      if c = quote \<or> n = 92 then [CHR 0x5C, c]
      else if n = 10 then [CHR 0x5C, CHR ''n'']
      else if n = 13 then [CHR 0x5C, CHR ''r'']
      else if n = 9 then [CHR 0x5C, CHR ''t'']
      else if 32 \<le> n \<and> n \<le> 126 then [c]
      else [CHR 0x5C, CHR ''x'', hex_digit (n div 16), hex_digit (n mod 16)])"

definition repr_str :: "string \<Rightarrow> string" where
  "repr_str s =
     (let quote = (if CHR 0x27 \<in> set s \<and> CHR 0x22 \<notin> set s then CHR 0x22 else CHR 0x27)
      in quote # concat (map (repr_char quote) s) @ [quote])"

fun py_repr :: "(rat \<Rightarrow> string) \<Rightarrow> json \<Rightarrow> string" where
  "py_repr num_repr JNull = ''None''"
| "py_repr num_repr (JBool b) = (if b then ''True'' else ''False'')"
| "py_repr num_repr (JInt i) = str_of_int i"
| "py_repr num_repr (JFloat q) = num_repr q"
| "py_repr num_repr (JDec q) = repr_str (num_repr q)"
| "py_repr num_repr (JStr s) = repr_str s"
| "py_repr num_repr (JList vs) = ''['' @ join '', '' (map (py_repr num_repr) vs) @ '']''"
| "py_repr num_repr (JObj kvs) =
     ''{'' @ join '', '' (map (\<lambda>kv. repr_str (fst kv) @ '': '' @ py_repr num_repr (snd kv)) kvs) @ ''}''"

definition py_text :: "(rat \<Rightarrow> string) \<Rightarrow> json \<Rightarrow> string" where
  "py_text num_repr v = (case v of JStr s \<Rightarrow> s | JDec q \<Rightarrow> num_repr q | _ \<Rightarrow> py_repr num_repr v)"

definition max_message_length :: nat where
  "max_message_length = 3500"

definition message_lines :: "(rat \<Rightarrow> string) \<Rightarrow> string \<Rightarrow> string \<Rightarrow> string \<Rightarrow> instant \<Rightarrow> (string \<times> json) list \<Rightarrow> string list"
  where
  "message_lines num_repr level event message timestamp details =
     [''TraderAI '' @ level, ''event: '' @ event, ''time: '' @ isoformat timestamp, '''', message]
     @ (if details \<noteq> []
        then ['''', ''details:'']
             @ map (\<lambda>kv. ''- '' @ fst kv @ '': '' @ py_text num_repr (snd kv)) (sort_key fst details)
        else [])"

definition format_message :: "(rat \<Rightarrow> string) \<Rightarrow> string \<Rightarrow> string \<Rightarrow> string \<Rightarrow> instant \<Rightarrow> (string \<times> json) list \<Rightarrow> string"
  where
  "format_message num_repr level event message timestamp details =
     take max_message_length (join [CHR 0x0A] (message_lines num_repr level event message timestamp details))"

subsection \<open>The request\<close>

text \<open>\<^verbatim>\<open>urllib.parse.urlencode\<close> of ASCII texts: unreserved characters, a plus sign for a space, the rest escaped.\<close>

definition quote_char :: "char \<Rightarrow> string" where
  "quote_char c =
     (let n = (of_char c :: nat);
          hex = (\<lambda>d. if d < 10 then char_of (48 + d) else (char_of (55 + d) :: char))
      in if is_digit c \<or> (65 \<le> n \<and> n \<le> 90) \<or> (97 \<le> n \<and> n \<le> 122)
            \<or> n = 95 \<or> n = 46 \<or> n = 45 \<or> n = 126 then [c]
         else if n = 32 then [CHR ''+'']
         else [CHR ''%'', hex (n div 16), hex (n mod 16)])"

definition urlencode :: "(string \<times> string) list \<Rightarrow> string" where
  "urlencode kvs =
     join ''&'' (map (\<lambda>kv. concat (map quote_char (fst kv)) @ ''='' @ concat (map quote_char (snd kv))) kvs)"

record http_request =
  hq_url :: string
  hq_payload :: string

definition telegram_api_root :: string where
  "telegram_api_root = ''https://api.telegram.org''"

text \<open>The production sender. A network exception and an unreadable answer become a \<^verbatim>\<open>RuntimeError\<close>.\<close>

definition network_errors :: "exn list" where
  "network_errors = [OtherError ''URLError'', OtherError ''TimeoutError'', OtherError ''OSError'']"

definition decode_errors :: "exn list" where
  "decode_errors = [OtherError ''UnicodeError'', OtherError ''JSONDecodeError'']"

definition post_request ::
  "(string \<Rightarrow> string \<Rightarrow> string res) \<Rightarrow> (string \<Rightarrow> json res) \<Rightarrow> string \<Rightarrow> string \<Rightarrow> unit res" where
  "post_request urlopen loads url payload =
     (case urlopen url payload of
        Inl e \<Rightarrow> Inl (if e \<in> set network_errors then OtherError ''telegram_send_failed'' else e)
      | Inr answer \<Rightarrow>
          (case loads (take 2048 answer) of
             Inl e \<Rightarrow> Inl (if e \<in> set decode_errors then OtherError ''telegram_invalid_response'' else e)
           | Inr (JObj parsed) \<Rightarrow>
               if truthy (jget parsed ''ok'') then Inr () else Inl (OtherError ''telegram_rejected_message'')
           | Inr _ \<Rightarrow> Inl (OtherError ''AttributeError'')))"

subsection \<open>The gates\<close>

definition level_rank :: "string \<Rightarrow> nat option" where
  "level_rank level = map_of [(''info'', 10), (''warning'', 20), (''error'', 30)] level"

record notification_result =
  no_ok :: bool
  no_skipped :: bool
  no_provider :: string
  no_event :: string
  no_error :: "string option"

definition notification_as_dict :: "notification_result \<Rightarrow> (string \<times> json) list" where
  "notification_as_dict r =
     [(''ok'', JBool (no_ok r)), (''skipped'', JBool (no_skipped r)), (''provider'', JStr (no_provider r)),
      (''event'', JStr (no_event r)), (''error'', jopt JStr (no_error r))]"

definition notify_provider :: "settings \<Rightarrow> string" where
  "notify_provider s = lower (strip (market_ops_notify_provider s))"

text \<open>The early returns before anything is sent: \<^verbatim>\<open>ok\<close> and the error, or \<open>None\<close> to go on.\<close>

definition notify_gate :: "settings \<Rightarrow> string \<Rightarrow> (bool \<times> string option) option" where
  "notify_gate s level =
     (let normalized = lower (strip level); minimum = lower (strip (market_ops_notify_min_level s)) in
      case level_rank normalized of
        None \<Rightarrow> Some (False, Some ''invalid_level'')
      | Some rank \<Rightarrow>
          if \<not> market_ops_notify_enabled s \<or> notify_provider s = ''none'' then Some (True, None)
          else (case level_rank minimum of
             None \<Rightarrow> Some (False, Some ''invalid_min_level'')
           | Some least \<Rightarrow>
               if rank < least then Some (True, None)
               else if notify_provider s \<noteq> ''telegram'' then Some (False, Some ''unsupported_provider'')
               else if market_ops_telegram_bot_token s = [] \<or> market_ops_telegram_chat_id s = []
                 then Some (False, Some ''telegram_not_configured'')
               else None))"

definition telegram_request :: "(rat \<Rightarrow> string) \<Rightarrow> settings \<Rightarrow> instant \<Rightarrow> notification \<Rightarrow> http_request" where
  "telegram_request num_repr s now n =
     \<lparr>hq_url = telegram_api_root @ ''/bot'' @ market_ops_telegram_bot_token s @ ''/sendMessage'',
      hq_payload = urlencode [(''chat_id'', market_ops_telegram_chat_id s),
        (''text'', format_message num_repr (lower (strip (nt_level n))) (nt_event n) (nt_message n) now
           (safe_details (notifier_secrets s) (nt_details n)))]\<rparr>"

definition notify ::
  "(rat \<Rightarrow> string) \<Rightarrow> settings \<Rightarrow> instant \<Rightarrow> (string \<Rightarrow> string \<Rightarrow> unit res) \<Rightarrow> notification \<Rightarrow>
     (http_request list, notification_result) prog" where
  "notify num_repr s now sender n =
     (case notify_gate s (nt_level n) of
        Some (ok, err) \<Rightarrow> retS \<lparr>no_ok = ok, no_skipped = True, no_provider = notify_provider s,
                            no_event = nt_event n, no_error = err\<rparr>
      | None \<Rightarrow>
          let r = telegram_request num_repr s now n
          in bindS (modifyS (\<lambda>sent. sent @ [r])) (\<lambda>_.
               let failed = isl (sender (hq_url r) (hq_payload r))
               in retS \<lparr>no_ok = \<not> failed, no_skipped = False, no_provider = notify_provider s,
                        no_event = nt_event n,
                        no_error = (if failed then Some ''telegram_send_failed'' else None)\<rparr>))"

definition test_notification_of :: "settings \<Rightarrow> notification" where
  "test_notification_of s =
     \<lparr>nt_level = ''warning'', nt_event = ''market_ops_test_notification'',
      nt_message = ''TraderAI market operations notification test.'',
      nt_details = [(''automation_enabled'', JBool (market_ops_automation_enabled s))]\<rparr>"

subsection \<open>Facts about redaction\<close>

lemma has_sub_iff: "has_sub t s \<longleftrightarrow> (\<exists>a b. s = a @ t @ b)"
proof (induction s)
  case Nil
  then show ?case by auto
next
  case (Cons x xs)
  show ?case
  proof
    assume "has_sub t (x # xs)"
    then consider "startswith (x # xs) t" | "has_sub t xs" by auto
    then show "\<exists>a b. x # xs = a @ t @ b"
    proof cases
      case 1
      then obtain r where "x # xs = [] @ t @ r" by (auto simp: startswith_iff)
      then show ?thesis by blast
    next
      case 2
      with Cons.IH obtain a b where "x # xs = (x # a) @ t @ b" by auto
      then show ?thesis by blast
    qed
  next
    assume "\<exists>a b. x # xs = a @ t @ b"
    then obtain a b where ab: "x # xs = a @ t @ b" by blast
    show "has_sub t (x # xs)"
    proof (cases a)
      case Nil
      with ab have "x # xs = t @ b" by simp
      then have "startswith (x # xs) t" by (auto simp: startswith_iff)
      then show ?thesis by simp
    next
      case (Cons y ys)
      with ab have "xs = ys @ t @ b" by simp
      with Cons.IH show ?thesis by auto
    qed
  qed
qed

text \<open>A text without the character \<open>c\<close> does not occur across \<open>c\<close>.\<close>

lemma has_sub_separator:
  assumes "c \<notin> set t"
  shows "has_sub t (u @ c # v) \<longleftrightarrow> has_sub t u \<or> has_sub t v"
proof
  assume "has_sub t (u @ c # v)"
  then obtain a b where ab: "u @ c # v = a @ t @ b" by (auto simp: has_sub_iff)
  from ab consider w where "u = a @ w" "w @ c # v = t @ b" | w where "a = u @ w" "c # v = w @ t @ b"
    by (auto simp: append_eq_append_conv2)
  then show "has_sub t u \<or> has_sub t v"
  proof cases
    case 1
    from 1(2) consider r where "w = t @ r" | r where "t = w @ r" "c # v = r @ b"
      by (auto simp: append_eq_append_conv2)
    then show ?thesis
    proof cases
      case 1
      with \<open>u = a @ w\<close> show ?thesis by (auto simp: has_sub_iff)
    next
      case 2
      show ?thesis
      proof (cases r)
        case Nil
        with 2 \<open>u = a @ w\<close> have "u = a @ t @ []" by simp
        then show ?thesis unfolding has_sub_iff by blast
      next
        case (Cons y ys)
        with 2 assms show ?thesis by auto
      qed
    qed
  next
    case 2
    show ?thesis
    proof (cases w)
      case Nil
      with 2 assms show ?thesis by (cases t) (auto simp: has_sub_iff)
    next
      case (Cons y ys)
      with 2 have "v = ys @ t @ b" by simp
      then show ?thesis by (auto simp: has_sub_iff)
    qed
  qed
next
  assume "has_sub t u \<or> has_sub t v"
  then consider a b where "u = a @ t @ b" | a b where "v = a @ t @ b" by (auto simp: has_sub_iff)
  then show "has_sub t (u @ c # v)"
  proof cases
    case 1
    then have "u @ c # v = a @ t @ (b @ c # v)" by simp
    then show ?thesis unfolding has_sub_iff by blast
  next
    case 2
    then have "u @ c # v = (u @ c # a) @ t @ b" by simp
    then show ?thesis unfolding has_sub_iff by blast
  qed
qed

lemma replace_without: "\<not> has_sub old s \<Longrightarrow> replace old new s = s"
proof (induction s)
  case (Cons x xs)
  then have "\<not> startswith (x # xs) old" "\<not> has_sub old xs" by auto
  with Cons.IH show ?case by auto
qed simp

text \<open>The first occurrence is the one that is replaced first.\<close>

lemma replace_first:
  "old \<noteq> [] \<Longrightarrow> has_sub old s \<Longrightarrow>
     \<exists>u v. s = u @ old @ v \<and> \<not> has_sub old u \<and> replace old new s = u @ new @ replace old new v"
proof (induction s)
  case Nil
  then show ?case by simp
next
  case (Cons x xs)
  show ?case
  proof (cases "startswith (x # xs) old")
    case True
    then obtain v where v: "x # xs = old @ v" by (auto simp: startswith_iff)
    then have "drop (length old) (x # xs) = v" by simp
    with True Cons.prems(1) have "replace old new (x # xs) = [] @ new @ replace old new v" by simp
    moreover from Cons.prems(1) have "\<not> has_sub old []" by simp
    ultimately show ?thesis using v by (metis append_Nil)
  next
    case False
    with Cons.prems have "has_sub old xs" by simp
    with Cons obtain u v where uv: "xs = u @ old @ v" "\<not> has_sub old u"
      "replace old new xs = u @ new @ replace old new v" by blast
    have no: "\<not> startswith (x # u) old"
    proof
      assume "startswith (x # u) old"
      then obtain r where "x # u = old @ r" by (auto simp: startswith_iff)
      with uv(1) have "x # xs = old @ (r @ old @ v)" by simp
      with False show False by (auto simp: startswith_iff)
    qed
    from False uv no have "x # xs = (x # u) @ old @ v \<and> \<not> has_sub old (x # u) \<and>
      replace old new (x # xs) = (x # u) @ new @ replace old new v" by auto
    then show ?thesis by blast
  qed
qed

text \<open>A secret without brackets that is no part of the mark itself.\<close>

definition plain_secret :: "string \<Rightarrow> bool" where
  "plain_secret t \<longleftrightarrow> t \<noteq> [] \<and> CHR ''['' \<notin> set t \<and> CHR '']'' \<notin> set t \<and> \<not> has_sub t ''redacted''"

lemma has_sub_mark:
  assumes "plain_secret t"
  shows "has_sub t (u @ redaction_mark @ v) \<longleftrightarrow> has_sub t u \<or> has_sub t v"
proof -
  have eq: "u @ redaction_mark @ v = u @ CHR ''['' # (''redacted'' @ CHR '']'' # v)"
    by (simp add: redaction_mark_def)
  from assms have t: "CHR ''['' \<notin> set t" "CHR '']'' \<notin> set t" "\<not> has_sub t ''redacted''"
    unfolding plain_secret_def by blast+
  show ?thesis
    unfolding eq has_sub_separator [OF t(1)] has_sub_separator [OF t(2)] using t(3) by blast
qed

lemma replace_keeps_out:
  assumes "plain_secret t" "old \<noteq> []" "\<not> has_sub t s"
  shows "\<not> has_sub t (replace old redaction_mark s)"
  using assms(3)
proof (induction "length s" arbitrary: s rule: less_induct)
  case less
  show ?case
  proof (cases "has_sub old s")
    case False
    with less.prems show ?thesis by (simp add: replace_without)
  next
    case True
    from replace_first [OF assms(2) True, of redaction_mark] obtain u v where
      uv: "s = u @ old @ v" "replace old redaction_mark s = u @ redaction_mark @ replace old redaction_mark v"
      by blast
    from uv(1) less.prems have parts: "\<not> has_sub t u" "\<not> has_sub t v"
      unfolding has_sub_iff by (metis append.assoc)+
    from uv(1) assms(2) have "length v < length s" by simp
    from less.hyps [OF this parts(2)] parts(1) uv(2) assms(1) show ?thesis by (simp add: has_sub_mark)
  qed
qed

lemma replace_removes:
  assumes "plain_secret t"
  shows "\<not> has_sub t (replace t redaction_mark s)"
proof (induction "length s" arbitrary: s rule: less_induct)
  case less
  from assms have t: "t \<noteq> []" by (simp add: plain_secret_def)
  show ?case
  proof (cases "has_sub t s")
    case False
    then show ?thesis by (simp add: replace_without)
  next
    case True
    from replace_first [OF t True, of redaction_mark] obtain u v where
      uv: "s = u @ t @ v" "\<not> has_sub t u"
        "replace t redaction_mark s = u @ redaction_mark @ replace t redaction_mark v" by blast
    from uv(1) t have "length v < length s" by simp
    from less.hyps [OF this] uv(2,3) assms show ?thesis by (simp add: has_sub_mark)
  qed
qed

lemma redact_keeps_out:
  "plain_secret t \<Longrightarrow> [] \<notin> set secrets \<Longrightarrow> \<not> has_sub t s \<Longrightarrow> \<not> has_sub t (redact_secrets secrets s)"
proof (induction secrets arbitrary: s)
  case Nil
  then show ?case by (simp add: redact_secrets_def)
next
  case (Cons old secrets)
  from Cons.prems(2) have "old \<noteq> []" by auto
  from replace_keeps_out [OF Cons.prems(1) this Cons.prems(3)]
  have "\<not> has_sub t (replace old redaction_mark s)" .
  from Cons.IH [OF Cons.prems(1) _ this] Cons.prems(2)
  have "\<not> has_sub t (redact_secrets secrets (replace old redaction_mark s))" by simp
  then show ?case by (simp add: redact_secrets_def)
qed

lemma redact_removes:
  "plain_secret t \<Longrightarrow> [] \<notin> set secrets \<Longrightarrow> t \<in> set secrets \<Longrightarrow> \<not> has_sub t (redact_secrets secrets s)"
proof (induction secrets arbitrary: s)
  case (Cons old secrets)
  show ?case
  proof (cases "old = t")
    case True
    have step: "redact_secrets (old # secrets) s = redact_secrets secrets (replace t redaction_mark s)"
      by (simp add: redact_secrets_def True)
    from Cons.prems(2) have "[] \<notin> set secrets" by simp
    from redact_keeps_out [OF Cons.prems(1) this replace_removes [OF Cons.prems(1)]] step
    show ?thesis by simp
  next
    case False
    have step: "redact_secrets (old # secrets) s = redact_secrets secrets (replace old redaction_mark s)"
      by (simp add: redact_secrets_def)
    from Cons.prems False have "[] \<notin> set secrets" "t \<in> set secrets" by auto
    from Cons.IH [OF Cons.prems(1) this] step show ?thesis by simp
  qed
qed simp

lemma configured_secrets_nonempty: "[] \<notin> set (notifier_secrets s)"
  by (simp add: notifier_secrets_def)

text \<open>The strings and the keys of a value.\<close>

fun leaves :: "json \<Rightarrow> string list" where
  "leaves (JStr s) = [s]"
| "leaves (JList vs) = concat (map leaves vs)"
| "leaves (JObj kvs) = concat (map (\<lambda>kv. leaves (snd kv)) kvs)"
| "leaves v = []"

fun keys_in :: "json \<Rightarrow> string list" where
  "keys_in (JList vs) = concat (map keys_in vs)"
| "keys_in (JObj kvs) = concat (map (\<lambda>kv. fst kv # keys_in (snd kv)) kvs)"
| "keys_in v = []"

lemma safe_value_leaves: "leaf \<in> set (leaves (safe_value secrets v)) \<Longrightarrow> \<exists>s. leaf = redact_secrets secrets s"
  by (induction secrets v rule: safe_value.induct) fastforce+

lemma safe_value_keys: "k \<in> set (keys_in (safe_value secrets v)) \<Longrightarrow> \<not> secret_key k"
  by (induction secrets v rule: safe_value.induct) fastforce+

lemma safe_details_value: "JObj (safe_details secrets d) = safe_value secrets (JObj d)"
  by (simp add: safe_details_def)

lemma format_message_length: "length (format_message num_repr level event message t d) \<le> 3500"
  by (simp add: format_message_def max_message_length_def)

text \<open>The message itself is not redacted: a text that fits is sent with it as it is.\<close>

lemma join_member: "m \<in> set ss \<Longrightarrow> \<exists>u v. join sep ss = u @ m @ v"
proof (induction ss)
  case (Cons s ss)
  show ?case
  proof (cases "ss = []")
    case True
    with Cons.prems have "join sep (s # ss) = [] @ m @ []" by simp
    then show ?thesis by blast
  next
    case False
    then have j: "join sep (s # ss) = s @ sep @ join sep ss" by (rule join_Cons)
    show ?thesis
    proof (cases "m = s")
      case True
      with j have "join sep (s # ss) = [] @ m @ (sep @ join sep ss)" by simp
      then show ?thesis by blast
    next
      case False
      with Cons obtain u v where "join sep ss = u @ m @ v" by auto
      with j have "join sep (s # ss) = (s @ sep @ u) @ m @ v" by simp
      then show ?thesis by blast
    qed
  qed
qed simp

lemma message_is_not_redacted:
  assumes "has_sub secret message"
    and "length (join [CHR 0x0A] (message_lines num_repr level event message t d)) \<le> max_message_length"
  shows "has_sub secret (format_message num_repr level event message t d)"
proof -
  have "message \<in> set (message_lines num_repr level event message t d)" by (simp add: message_lines_def)
  then obtain u v where "join [CHR 0x0A] (message_lines num_repr level event message t d) = u @ message @ v"
    using join_member by blast
  moreover from assms(1) obtain a b where "message = a @ secret @ b" by (auto simp: has_sub_iff)
  ultimately have "join [CHR 0x0A] (message_lines num_repr level event message t d) = (u @ a) @ secret @ (b @ v)"
    by simp
  then have "has_sub secret (join [CHR 0x0A] (message_lines num_repr level event message t d))"
    unfolding has_sub_iff by blast
  with assms(2) show ?thesis by (simp add: format_message_def)
qed

subsection \<open>Properties\<close>



text \<open>A notification never raises. Something is sent exactly when the result is not marked as skipped;
  then notifications are enabled for Telegram, the level is known and at least the configured
  minimum, the bot and the chat are configured, the request goes to that bot, its text has at most
  3500 characters before encoding, and the result is ok exactly when the sender did not raise.\<close>

theorem sent_only_when_allowed:
  "\<exists>r new. notify num_repr s now sender n sent = (Inr r, sent @ new) \<and> (new = [] \<longleftrightarrow> no_skipped r)
     \<and> (\<forall>q \<in> set new. market_ops_notify_enabled s \<and> notify_provider s = ''telegram''
          \<and> (\<exists>rank least. level_rank (lower (strip (nt_level n))) = Some rank
               \<and> level_rank (lower (strip (market_ops_notify_min_level s))) = Some least \<and> least \<le> rank)
          \<and> market_ops_telegram_bot_token s \<noteq> [] \<and> market_ops_telegram_chat_id s \<noteq> []
          \<and> hq_url q = ''https://api.telegram.org/bot'' @ market_ops_telegram_bot_token s @ ''/sendMessage''
          \<and> (\<exists>message. hq_payload q = urlencode [(''chat_id'', market_ops_telegram_chat_id s), (''text'', message)]
               \<and> length message \<le> 3500)
          \<and> (no_ok r \<longleftrightarrow> sender (hq_url q) (hq_payload q) = Inr ()))"
proof (cases "notify_gate s (nt_level n)")
  case (Some gate)
  then show ?thesis by (cases gate) (simp add: notify_def)
next
  case None
  then obtain rank least where g: "level_rank (lower (strip (nt_level n))) = Some rank"
    "level_rank (lower (strip (market_ops_notify_min_level s))) = Some least" "least \<le> rank"
    "market_ops_notify_enabled s" "notify_provider s = ''telegram''"
    "market_ops_telegram_bot_token s \<noteq> []" "market_ops_telegram_chat_id s \<noteq> []"
    by (auto simp: notify_gate_def Let_def split: option.splits if_splits)
  have ok: "(\<not> isl x) = (x = Inr ())" for x :: "unit res" by (cases x) auto
  let ?q = "telegram_request num_repr s now n"
  have len: "\<exists>message. hq_payload ?q = urlencode [(''chat_id'', market_ops_telegram_chat_id s), (''text'', message)]
      \<and> length message \<le> 3500"
    unfolding telegram_request_def http_request.simps using format_message_length by blast
  have url: "hq_url ?q = ''https://api.telegram.org/bot'' @ market_ops_telegram_bot_token s @ ''/sendMessage''"
    by (simp add: telegram_request_def telegram_api_root_def)
  from None have "notify num_repr s now sender n sent =
      (Inr \<lparr>no_ok = \<not> isl (sender (hq_url ?q) (hq_payload ?q)), no_skipped = False,
         no_provider = notify_provider s, no_event = nt_event n,
         no_error = (if isl (sender (hq_url ?q) (hq_payload ?q)) then Some ''telegram_send_failed'' else None)\<rparr>,
       sent @ [?q])"
    by (simp add: notify_def Let_def bindS_def)
  with g len url ok show ?thesis
    by (intro exI [of _ "\<lparr>no_ok = \<not> isl (sender (hq_url ?q) (hq_payload ?q)), no_skipped = False,
         no_provider = notify_provider s, no_event = nt_event n,
         no_error = (if isl (sender (hq_url ?q) (hq_payload ?q)) then Some ''telegram_send_failed'' else None)\<rparr>"]
         exI [of _ "[?q]"]) simp
qed

definition telegram_settings :: settings where
  "telegram_settings = default_settings\<lparr>market_ops_notify_enabled := True,
     market_ops_notify_provider := '' Telegram '', market_ops_telegram_bot_token := ''b'',
     market_ops_telegram_chat_id := ''7''\<rparr>"

theorem sent_only_when_allowed_witness:
  "(\<exists>r q. notify (\<lambda>_. ''0'') telegram_settings 0 (\<lambda>_ _. Inr ())
       \<lparr>nt_level = ''error'', nt_event = ''e'', nt_message = ''m'', nt_details = []\<rparr> []
       = (Inr r, [q]) \<and> hq_url q = ''https://api.telegram.org/botb/sendMessage'' \<and> no_ok r)
   \<and> notify_gate telegram_settings ''info'' = Some (True, None)"
proof -
  let ?n = "\<lparr>nt_level = ''error'', nt_event = ''e'', nt_message = ''m'', nt_details = []\<rparr>"
  have open_gate: "notify_gate telegram_settings (nt_level ?n) = None" by code_simp
  have chat: "market_ops_telegram_bot_token telegram_settings = ''b''" by code_simp
  from sent_only_when_allowed [of "\<lambda>_. ''0''" telegram_settings 0 "\<lambda>_ _. Inr ()" ?n "[]"] obtain r new
    where r: "notify (\<lambda>_. ''0'') telegram_settings 0 (\<lambda>_ _. Inr ()) ?n [] = (Inr r, new)"
      "new = [] \<longleftrightarrow> no_skipped r"
      "\<forall>q \<in> set new. hq_url q = ''https://api.telegram.org/botb/sendMessage'' \<and> no_ok r"
    unfolding chat by auto
  from open_gate r(1) have "\<exists>q. new = [q]" by (auto simp: notify_def Let_def bindS_def)
  moreover have "notify_gate telegram_settings ''info'' = Some (True, None)" by code_simp
  ultimately show ?thesis using r by auto
qed

end
