(* ===== verification/MarketOps.thy ===== *)
theory MarketOps
  imports MorningReadiness Notifier
begin

section \<open>The market operations jobs\<close>

text \<open>
  \<^verbatim>\<open>MarketOpsOrchestrator\<close> of \<^verbatim>\<open>app/ops/market_ops.py\<close>. The services it coordinates are protocols in
  the source: here they are the fields of a record of programs over the state of the program, with the
  clock among them. Every job catches every exception of its services and returns a summary, which it
  also sends as a notification.
\<close>

subsection \<open>Services and summaries\<close>

record selection_request =
  sq_dry_run :: bool
  sq_use_current_session :: bool
  sq_min_candles :: int
  sq_stale_policy :: string

record ops_batch_request =
  oq_store_rejections :: bool
  oq_dry_run :: bool
  oq_use_latest_universe :: bool

record decision_request =
  dq_started_at :: instant
  dq_finished_at :: instant
  dq_symbols :: "string list"
  dq_dry_run :: bool
  dq_candidate_count :: int

record 'w ops_services =
  os_morning_readiness :: "('w, (string \<times> json) list) prog"
  os_stream_readiness :: "('w, (string \<times> json) list) prog"
  os_stream_start :: "('w, (string \<times> json) list) prog"
  os_stream_stop :: "('w, (string \<times> json) list) prog"
  os_stream_status :: "('w, (string \<times> json) list) prog"
  os_select :: "selection_request \<Rightarrow> ('w, universe_run) prog"
  os_run_batch :: "ops_batch_request \<Rightarrow> ('w, scanner_batch_result) prog"
  os_notify :: "notification \<Rightarrow> ('w, notification_result) prog"
  os_test_notification :: "('w, notification_result) prog"
  os_decision_status :: "('w, (string \<times> json) list) prog option"
  os_evaluate_batch :: "decision_request \<Rightarrow> ('w, (string \<times> json) list) prog"
  os_login_url :: "('w, (string \<times> string) list) prog option"
  os_now :: "('w, instant) prog"

record ops_summary =
  su_ok :: bool
  su_skipped :: bool
  su_event :: string
  su_level :: string
  su_message :: string
  su_started_at :: instant
  su_finished_at :: instant
  su_details :: "(string \<times> json) list"

definition ops_summary_as_dict :: "ops_summary \<Rightarrow> (string \<times> json) list" where
  "ops_summary_as_dict m =
     [(''ok'', JBool (su_ok m)), (''skipped'', JBool (su_skipped m)), (''event'', JStr (su_event m)),
      (''level'', JStr (su_level m)), (''message'', JStr (su_message m)),
      (''started_at'', JStr (isoformat (su_started_at m))), (''finished_at'', JStr (isoformat (su_finished_at m))),
      (''details'', JObj (su_details m))]"

definition make_summary ::
  "'w ops_services \<Rightarrow> instant \<Rightarrow> bool \<Rightarrow> bool \<Rightarrow> string \<Rightarrow> string \<Rightarrow> string \<Rightarrow> (string \<times> json) list \<Rightarrow> ('w, ops_summary) prog"
  where
  "make_summary svc started ok skipped event level message details =
     bindS (os_now svc) (\<lambda>finished. retS
       \<lparr>su_ok = ok, su_skipped = skipped, su_event = event, su_level = level, su_message = message,
        su_started_at = started, su_finished_at = finished, su_details = details\<rparr>)"

definition failed_summary :: "'w ops_services \<Rightarrow> instant \<Rightarrow> string \<Rightarrow> string \<Rightarrow> ('w, ops_summary) prog" where
  "failed_summary svc started event message = make_summary svc started False False event ''error'' message []"

definition notify_summary :: "'w ops_services \<Rightarrow> ops_summary \<Rightarrow> ('w, ops_summary) prog" where
  "notify_summary svc m =
     bindS (os_notify svc \<lparr>nt_level = su_level m, nt_event = su_event m, nt_message = su_message m,
        nt_details = su_details m\<rparr>) (\<lambda>_. retS m)"

text \<open>\<^verbatim>\<open>try: ... except Exception: summary = self._failed(...)\<close>, then the notification.\<close>

definition guarded_job ::
  "'w ops_services \<Rightarrow> string \<Rightarrow> string \<Rightarrow> (instant \<Rightarrow> ('w, ops_summary) prog) \<Rightarrow> ('w, ops_summary) prog" where
  "guarded_job svc failed_event failed_message body =
     bindS (os_now svc) (\<lambda>started.
     bindS (tryS (body started) (\<lambda>e. Some (failed_summary svc started failed_event failed_message))) (notify_summary svc))"

definition stream_details :: "(string \<times> json) list \<Rightarrow> (string \<times> json) list" where
  "stream_details status =
     [(''running'', JBool (truthy (jget status ''running''))),
      (''connected'', JBool (truthy (jget status ''connected''))),
      (''configured_symbols'', (case map_of status ''configured_symbols'' of None \<Rightarrow> JInt 0 | Some v \<Rightarrow> v)),
      (''subscribed_symbols'', (case map_of status ''subscribed_symbols'' of None \<Rightarrow> JInt 0 | Some v \<Rightarrow> v)),
      (''last_error'', jget status ''last_error'')]"

definition json_as_int :: "json \<Rightarrow> int" where
  "json_as_int v = (case v of JInt i \<Rightarrow> i | _ \<Rightarrow> 0)"

text \<open>\<^verbatim>\<open>report.get(key, {})\<close> and then \<^verbatim>\<open>.get(...)\<close>: a value that is no dictionary raises.\<close>

definition sub_dict :: "(string \<times> json) list \<Rightarrow> string \<Rightarrow> (string \<times> json) list res" where
  "sub_dict d k = (case map_of d k of
     None \<Rightarrow> Inr [] | Some (JObj kvs) \<Rightarrow> Inr kvs | Some _ \<Rightarrow> Inl (OtherError ''AttributeError''))"

subsection \<open>Preopen check\<close>

definition preopen_problems :: "settings \<Rightarrow> bool \<Rightarrow> bool \<Rightarrow> bool \<Rightarrow> string list" where
  "preopen_problems s safe kite_ready watchlist_ready =
     (if \<not> safe then [''trading_safety_defaults_not_off''] else [])
     @ (if market_ops_require_kite_session s \<and> \<not> kite_ready then [''kite_session_not_ready''] else [])
     @ (if market_ops_require_watchlist_ready s \<and> \<not> watchlist_ready then [''watchlist_not_ready''] else [])"

definition preopen_event :: "string list \<Rightarrow> string" where
  "preopen_event problems =
     (if ''kite_session_not_ready'' \<in> set problems then ''kite_session_missing''
      else if ''watchlist_not_ready'' \<in> set problems then ''watchlist_not_ready''
      else ''preopen_check_failed'')"

definition preopen_body :: "settings \<Rightarrow> 'w ops_services \<Rightarrow> instant \<Rightarrow> ('w, ops_summary) prog" where
  "preopen_body s svc started =
     bindS (os_morning_readiness svc) (\<lambda>report.
     bindS (liftS (sub_dict report ''stream_readiness'')) (\<lambda>stream.
     bindS (liftS (sub_dict report ''watchlist_validation'')) (\<lambda>watchlist.
       let kite_ready = truthy (jget stream ''kite_session_ready'');
           watchlist_ready = truthy (jget watchlist ''ready_for_stream'');
           problems = preopen_problems s (truthy (jget report ''safe'')) kite_ready watchlist_ready
       in if problems \<noteq> []
          then make_summary svc started False False (preopen_event problems) ''warning''
                 ''Preopen readiness requires operator attention.'' [(''issues'', jstrs problems)]
          else make_summary svc started True False ''preopen_check_ok'' ''info''
                 ''Preopen safety, Kite session, and watchlist checks passed.''
                 [(''kite_session_ready'', JBool kite_ready), (''watchlist_ready'', JBool watchlist_ready)])))"

definition preopen_check :: "settings \<Rightarrow> 'w ops_services \<Rightarrow> ('w, ops_summary) prog" where
  "preopen_check s svc =
     guarded_job svc ''preopen_check_failed'' ''Preopen check failed.'' (preopen_body s svc)"

subsection \<open>The stream\<close>

definition start_stream_body :: "settings \<Rightarrow> 'w ops_services \<Rightarrow> instant \<Rightarrow> ('w, ops_summary) prog" where
  "start_stream_body s svc started =
     bindS (os_stream_readiness svc) (\<lambda>readiness.
       if market_ops_require_kite_session s \<and> \<not> truthy (jget readiness ''kite_session_ready'')
         then make_summary svc started False True ''stream_start_skipped'' ''warning''
                ''Stream start skipped because Kite login is required.''
                [(''recommended_action'', JStr ''login_kite'')]
       else if market_ops_require_watchlist_ready s \<and> \<not> truthy (jget readiness ''watchlist_ready'')
         then make_summary svc started False True ''stream_start_skipped'' ''warning''
                ''Stream start skipped because the watchlist is not ready.''
                [(''recommended_action'', jget readiness ''recommended_next_action''),
                 (''missing_symbols'', (case map_of readiness ''missing_symbols'' of None \<Rightarrow> JList [] | Some v \<Rightarrow> v))]
       else if truthy (jget readiness ''stream_already_running'')
         then let open_conn = truthy (jget readiness ''stream_connected'')
              in make_summary svc started open_conn True (if open_conn then ''stream_started'' else ''stream_not_connected'')
                   (if open_conn then ''info'' else ''warning'')
                   (if open_conn then ''Market-data stream is already running and connected.''
                    else ''Market-data stream is running but not connected.'')
                   [(''connected'', JBool open_conn)]
       else if \<not> truthy (jget readiness ''can_start_stream'')
         then make_summary svc started False True ''stream_start_skipped'' ''warning''
                ''Stream readiness gates did not pass.''
                [(''errors'', (case map_of readiness ''errors'' of None \<Rightarrow> JList [] | Some v \<Rightarrow> v))]
       else bindS (os_stream_start svc) (\<lambda>status.
              make_summary svc started True False ''stream_started'' ''info''
                ''Market-data stream start was requested successfully.'' (stream_details status)))"

definition start_stream_if_ready :: "settings \<Rightarrow> 'w ops_services \<Rightarrow> ('w, ops_summary) prog" where
  "start_stream_if_ready s svc =
     guarded_job svc ''stream_start_failed'' ''Stream start failed.'' (start_stream_body s svc)"

definition stream_healthy :: "settings \<Rightarrow> (string \<times> json) list \<Rightarrow> (string \<times> json) list \<Rightarrow> bool" where
  "stream_healthy s readiness status \<longleftrightarrow>
     truthy (jget readiness ''stream_already_running'')
     \<and> (truthy (jget readiness ''stream_connected'') \<or> \<not> market_ops_require_stream_connected s)
     \<and> json_as_int (jget readiness ''configured_symbols'') = json_as_int (jget readiness ''subscribed_symbols'')
     \<and> jget readiness ''last_error'' = JNull \<and> \<not> truthy (jget status ''stale'')"

definition verify_stream_body :: "settings \<Rightarrow> 'w ops_services \<Rightarrow> instant \<Rightarrow> ('w, ops_summary) prog" where
  "verify_stream_body s svc started =
     bindS (os_stream_readiness svc) (\<lambda>readiness.
     bindS (os_stream_status svc) (\<lambda>status.
       let stale = truthy (jget status ''stale''); healthy = stream_healthy s readiness status
       in make_summary svc started healthy False
            (if stale then ''candle_health_warning'' else if healthy then ''stream_verify_ok'' else ''stream_not_connected'')
            (if healthy then ''info'' else ''warning'')
            (if stale then ''Stream is connected but market-data activity is stale.''
             else if healthy then ''Stream connectivity and subscriptions are healthy.''
             else ''Stream connectivity or subscription health is not ready.'')
            [(''running'', JBool (truthy (jget readiness ''stream_already_running''))),
             (''connected'', JBool (truthy (jget readiness ''stream_connected''))),
             (''configured_symbols'', JInt (json_as_int (jget readiness ''configured_symbols''))),
             (''subscribed_symbols'', JInt (json_as_int (jget readiness ''subscribed_symbols''))),
             (''last_error'', jget readiness ''last_error''), (''stale'', JBool stale)]))"

definition verify_stream :: "settings \<Rightarrow> 'w ops_services \<Rightarrow> ('w, ops_summary) prog" where
  "verify_stream s svc =
     guarded_job svc ''stream_not_connected'' ''Stream verification failed.'' (verify_stream_body s svc)"

definition stop_stream_body :: "'w ops_services \<Rightarrow> instant \<Rightarrow> ('w, ops_summary) prog" where
  "stop_stream_body svc started =
     bindS (os_stream_status svc) (\<lambda>before.
       if \<not> truthy (jget before ''running'')
       then make_summary svc started True True ''stream_stop_completed'' ''info''
              ''Market-data stream is already stopped.'' [(''running'', JBool False)]
       else bindS (os_stream_stop svc) (\<lambda>status.
              make_summary svc started True False ''stream_stop_completed'' ''info'' ''Market-data stream stopped.''
                (stream_details status)))"

definition stop_stream :: "'w ops_services \<Rightarrow> ('w, ops_summary) prog" where
  "stop_stream svc = guarded_job svc ''stream_stop_failed'' ''Stream stop failed.'' (stop_stream_body svc)"

subsection \<open>Universe selection\<close>

definition universe_input_error :: "exn \<Rightarrow> bool" where
  "universe_input_error e =
     (case e of UniverseSelectionDisabledError m \<Rightarrow> True | UniverseInputError m \<Rightarrow> True | _ \<Rightarrow> False)"

definition selection_details :: "universe_run \<Rightarrow> (string \<times> json) list" where
  "selection_details run =
     [(''selected_count'', JInt (int (un_selected_count run))),
      (''selected_symbols'', jstrs (take 20 (un_selected_symbols run))),
      (''scored_count'', JInt (int (un_scored_count run))), (''warnings'', jstrs (un_warnings run))]"

definition run_universe_selection :: "settings \<Rightarrow> 'w ops_services \<Rightarrow> ('w, ops_summary) prog" where
  "run_universe_selection s svc =
     bindS (os_now svc) (\<lambda>started.
       if \<not> market_ops_use_universe_selection s
         then bindS (make_summary svc started True True ''universe_selection_skipped'' ''info''
                ''Market-ops universe selection is disabled.'' []) (notify_summary svc)
       else if \<not> universe_selection_enabled s
         then bindS (make_summary svc started False True ''universe_selection_skipped'' ''warning''
                ''Universe selection is disabled.''
                [(''recommended_action'', JStr ''enable_universe_selection'')]) (notify_summary svc)
       else
         bindS (os_notify svc \<lparr>nt_level = ''info'', nt_event = ''universe_selection_started'',
              nt_message = ''Universe selection started.'',
              nt_details = [(''min_candles'', JInt (market_ops_require_min_candles_for_universe s)),
                (''dry_run'', JBool (market_ops_dry_run s))]\<rparr>) (\<lambda>_.
         bindS (tryS (bindS (os_select svc \<lparr>sq_dry_run = market_ops_dry_run s, sq_use_current_session = True,
                    sq_min_candles = market_ops_require_min_candles_for_universe s, sq_stale_policy = ''exclude''\<rparr>)
                  (\<lambda>run. make_summary svc started True False ''universe_selection_completed'' ''info''
                     ''Universe selection completed.'' (selection_details run)))
              (\<lambda>e. Some (if universe_input_error e
                 then make_summary svc started False True ''universe_selection_skipped'' ''warning''
                        ''Universe selection could not run with current local data or config.'' []
                 else failed_summary svc started ''universe_selection_failed'' ''Universe selection failed.'')))
           (notify_summary svc)))"

subsection \<open>Scanner batch\<close>

definition symbol_source :: "settings \<Rightarrow> json" where
  "symbol_source s = JStr (if market_ops_use_selected_universe_for_scanner s then ''latest_selected_universe''
     else ''market_watchlist'')"

definition no_decisions :: "(string \<times> json) list \<Rightarrow> int \<Rightarrow> int \<Rightarrow> (string \<times> json) list" where
  "no_decisions reason failures skips =
     [(''attempted'', JInt 0), (''created'', JInt 0), (''existing'', JInt 0), (''failed'', JInt failures),
      (''skipped'', JInt skips)] @ reason
     @ [(''notified'', JInt 0), (''truncated'', JBool False), (''results'', JList [])]"

definition run_decision_auto_evaluation ::
  "settings \<Rightarrow> 'w ops_services \<Rightarrow> scanner_batch_result \<Rightarrow> ('w, (string \<times> json) list) prog" where
  "run_decision_auto_evaluation s svc result =
     (case os_decision_status svc of
        None \<Rightarrow> retS (no_decisions [(''skipped_reason'', JStr ''decision_automation_unavailable'')] 0 1)
      | Some _ \<Rightarrow>
          tryS (os_evaluate_batch svc \<lparr>dq_started_at = ba_started_at result, dq_finished_at = ba_finished_at result,
               dq_symbols = map sy_symbol (ba_per_symbol result), dq_dry_run = market_ops_dry_run s,
               dq_candidate_count = int (ba_total_candidates result)\<rparr>)
            (\<lambda>e. Some (retS (no_decisions [(''error_code'', JStr ''decision_auto_batch_failed'')] 1 0))))"

definition candidate_symbols :: "scanner_batch_result \<Rightarrow> string list" where
  "candidate_symbols result = map sy_symbol (filter (\<lambda>i. 0 < sy_candidates i) (ba_per_symbol result))"

definition batch_details :: "settings \<Rightarrow> scanner_batch_result \<Rightarrow> (string \<times> json) list" where
  "batch_details s result =
     [(''symbol_source'', symbol_source s), (''total_candidates'', JInt (int (ba_total_candidates result))),
      (''total_rejected'', JInt (int (ba_total_rejected result))),
      (''total_inserted'', JInt (int (ba_total_inserted result))),
      (''candidate_symbols'', jstrs (candidate_symbols result)),
      (''errors'', JObj (map (\<lambda>(k, v). (k, JStr v)) (ba_errors result)))]"

definition scanner_batch_body :: "settings \<Rightarrow> 'w ops_services \<Rightarrow> instant \<Rightarrow> ('w, ops_summary) prog" where
  "scanner_batch_body s svc started =
     bindS (os_run_batch svc \<lparr>oq_store_rejections = market_ops_store_rejections s, oq_dry_run = market_ops_dry_run s,
          oq_use_latest_universe = market_ops_use_selected_universe_for_scanner s\<rparr>) (\<lambda>result.
     bindS (make_summary svc started (ba_errors result = []) False ''scanner_batch_completed''
          (if ba_errors result = [] then ''info'' else ''warning'') ''Scanner batch completed.''
          (batch_details s result)) (\<lambda>m.
     bindS (if ba_total_candidates result \<noteq> 0
            then bindS (os_notify svc \<lparr>nt_level = ''info'', nt_event = ''scanner_candidates_found'',
                   nt_message = ''Deterministic scanner candidates were found.'',
                   nt_details = [(''candidate_count'', JInt (int (ba_total_candidates result))),
                     (''symbols'', jstrs (candidate_symbols result))]\<rparr>) (\<lambda>_. retS ())
            else retS ()) (\<lambda>_.
     bindS (run_decision_auto_evaluation s svc result) (\<lambda>decisions.
       retS (m\<lparr>su_details := jset (su_details m) ''decision_auto_evaluation'' (JObj decisions)\<rparr>)))))"

definition run_scanner_batch :: "settings \<Rightarrow> 'w ops_services \<Rightarrow> ('w, ops_summary) prog" where
  "run_scanner_batch s svc =
     bindS (os_now svc) (\<lambda>started.
     bindS (os_notify svc \<lparr>nt_level = ''info'', nt_event = ''scanner_batch_started'',
          nt_message = ''Scanner batch started.'',
          nt_details = [(''symbol_source'', symbol_source s), (''dry_run'', JBool (market_ops_dry_run s))]\<rparr>) (\<lambda>_.
     bindS (tryS (scanner_batch_body s svc started)
          (\<lambda>e. Some (if selected_universe_missing e
             then make_summary svc started False True ''scanner_batch_failed'' ''warning''
                    ''Scanner batch skipped because selected universe is missing.''
                    [(''recommended_action'', JStr ''run_universe_selection'')]
             else failed_summary svc started ''scanner_batch_failed'' ''Scanner batch failed.'')))
       (notify_summary svc)))"

subsection \<open>Status and notifications\<close>

definition decision_auto_status :: "settings \<Rightarrow> 'w ops_services \<Rightarrow> ('w, (string \<times> json) list) prog" where
  "decision_auto_status s svc =
     (case os_decision_status svc of
        None \<Rightarrow> retS [(''enabled'', JBool False), (''decision_enabled'', JBool (openai_decision_enabled s)),
                  (''available'', JBool False), (''last_summary'', JNull)]
      | Some status \<Rightarrow> status)"

definition ops_test_notification :: "'w ops_services \<Rightarrow> ('w, ops_summary) prog" where
  "ops_test_notification svc =
     bindS (os_now svc) (\<lambda>started.
     bindS (os_test_notification svc) (\<lambda>r.
       make_summary svc started (no_ok r) (no_skipped r) (no_event r) (if no_ok r then ''info'' else ''warning'')
         (if no_ok r then ''Test notification processed.'' else ''Test notification could not be delivered.'')
         [(''provider'', JStr (no_provider r)), (''error'', jopt JStr (no_error r))]))"

definition notify_scheduler_event ::
  "'w ops_services \<Rightarrow> string \<Rightarrow> string \<Rightarrow> string \<Rightarrow> (string \<times> json) list \<Rightarrow> ('w, unit) prog" where
  "notify_scheduler_event svc event level message details =
     bindS (os_notify svc \<lparr>nt_level = level, nt_event = event, nt_message = message, nt_details = details\<rparr>)
       (\<lambda>_. retS ())"

definition login_link_allowed :: "settings \<Rightarrow> bool" where
  "login_link_allowed s \<longleftrightarrow> market_ops_send_kite_login_link s \<and> market_ops_notify_enabled s
     \<and> notify_provider s = ''telegram'' \<and> kite_auth_enabled s \<and> kite_api_key s \<noteq> [] \<and> kite_api_secret s \<noteq> []
     \<and> kite_redirect_url s \<noteq> []"

text \<open>The handler's own notification is outside the \<^verbatim>\<open>try\<close>.\<close>

definition send_kite_login_link :: "settings \<Rightarrow> 'w ops_services \<Rightarrow> ('w, bool) prog" where
  "send_kite_login_link s svc =
     (if \<not> login_link_allowed s then retS False
      else case os_login_url svc of
        None \<Rightarrow> retS False
      | Some create \<Rightarrow>
          tryS (bindS create (\<lambda>response.
              let login_url = (case map_of response ''login_url'' of None \<Rightarrow> [] | Some u \<Rightarrow> u) in
              if login_url = [] then retS False
              else bindS (os_notify svc \<lparr>nt_level = ''warning'', nt_event = ''kite_login_link_sent'',
                     nt_message = ''Complete the required manual Kite login: '' @ login_url, nt_details = []\<rparr>)
                     (\<lambda>r. retS (no_ok r \<and> \<not> no_skipped r))))
            (\<lambda>e. Some (bindS (os_notify svc \<lparr>nt_level = ''warning'', nt_event = ''kite_login_link_unavailable'',
                nt_message = ''A Kite login link could not be generated. Use the operator login route.'',
                nt_details = []\<rparr>) (\<lambda>_. retS False))))"

end
