(* ===== verification/OpsScheduler.thy ===== *)
theory OpsScheduler
  imports MarketOps
begin

section \<open>The market operations scheduler\<close>

text \<open>
  \<^verbatim>\<open>MarketOpsScheduler\<close> of \<^verbatim>\<open>app/ops/market_ops_scheduler.py\<close>: which job is due, the keys of the
  jobs done, the recovery of a missing broker login, and the processing of a job's summary. The first
  part has the pure decisions of one tick, the second the state and its changes; the interleaving of
  the loop with the operator's requests is the step relation of \<open>OpsSteps\<close>.
\<close>

subsection \<open>Local time\<close>

text \<open>
  A time zone as \<^verbatim>\<open>zoneinfo\<close> gives it: the offset of an instant, and the instant of a wall time. A
  local datetime is represented by its wall time, microseconds since 1970-01-01T00:00 of the zone;
  differences of datetimes of one zone are differences of wall times.
\<close>

record time_zone =
  tz_offset :: "instant \<Rightarrow> int"
  tz_instant :: "int \<Rightarrow> instant"

definition fixed_zone :: "int \<Rightarrow> time_zone" where
  "fixed_zone minutes_east = \<lparr>tz_offset = (\<lambda>_. zone_us minutes_east), tz_instant = (\<lambda>wall. wall - zone_us minutes_east)\<rparr>"

text \<open>\<open>zones\<close> is \<^verbatim>\<open>ZoneInfo(name)\<close>.\<close>

definition local_zone :: "(string \<Rightarrow> time_zone res) \<Rightarrow> settings \<Rightarrow> time_zone res" where
  "local_zone zones s =
     (case zones (market_ops_timezone s) of
        Inr z \<Rightarrow> Inr z
      | Inl e \<Rightarrow>
          if e = OtherError ''ZoneInfoNotFoundError''
          then Inr (fixed_zone (if market_ops_timezone s = ''Asia/Kolkata'' then ist_minutes else 0))
          else Inl e)"

definition local_now :: "(string \<Rightarrow> time_zone res) \<Rightarrow> settings \<Rightarrow> instant \<Rightarrow> int res" where
  "local_now zones s now = bindE (local_zone zones s) (\<lambda>z. Inr (now + tz_offset z now))"

definition wall_date :: "int \<Rightarrow> date" where
  "wall_date wall = wall div day_us"

definition wall_time :: "int \<Rightarrow> time_of_day" where
  "wall_time wall = wall mod day_us"

definition ops_time :: "string \<Rightarrow> time_of_day res" where
  "ops_time value =
     (case parse_hhmm value of None \<Rightarrow> Inl (ValueError ''Market operations time must be HH:MM.'') | Some t \<Rightarrow> Inr t)"

definition same_minute :: "time_of_day \<Rightarrow> time_of_day \<Rightarrow> bool" where
  "same_minute current expected \<longleftrightarrow>
     time_hour current = time_hour expected \<and> time_minute current = time_minute expected"

subsection \<open>The due job\<close>

definition one_shots :: "settings \<Rightarrow> (string \<times> string) list" where
  "one_shots s =
     [(''preopen_check'', market_ops_preopen_check_time s), (''stream_start'', market_ops_stream_start_time s),
      (''stream_verify'', market_ops_stream_verify_time s),
      (''universe_selection'', market_ops_universe_select_time s),
      (''stream_stop'', market_ops_stream_stop_time s)]"

fun due_one_shot :: "time_of_day \<Rightarrow> (string \<times> string) list \<Rightarrow> string option res" where
  "due_one_shot t [] = Inr None"
| "due_one_shot t ((name, configured) # rest) =
     bindE (ops_time configured) (\<lambda>expected.
       if same_minute t expected then Inr (Some name) else due_one_shot t rest)"

definition one_shot_key :: "date \<Rightarrow> string \<Rightarrow> string" where
  "one_shot_key d name = date_iso d @ '':'' @ name"

definition slot_key :: "date \<Rightarrow> int \<Rightarrow> string" where
  "slot_key d slot = date_iso d @ '':scanner_batch:'' @ str_of_int slot"

text \<open>\<^verbatim>\<open>int(total_seconds())\<close> truncates; the elapsed time is not negative here. \<open>poll_us\<close> is the poll interval.\<close>

definition due_slot :: "settings \<Rightarrow> int \<Rightarrow> int \<Rightarrow> (string \<times> string) option res" where
  "due_slot s poll_us wall =
     bindE (ops_time (market_ops_scanner_start_time s)) (\<lambda>start.
     bindE (ops_time (market_ops_scanner_stop_time s)) (\<lambda>stop.
       if start \<le> wall_time wall \<and> wall_time wall \<le> stop
       then let seconds = market_ops_scanner_interval_seconds s in
         if seconds < 1 then Inr None
         else let start_at = wall_date wall * day_us + start;
                  elapsed = (wall - start_at) div second_us;
                  slot = elapsed div seconds;
                  slot_at = start_at + slot * seconds * second_us
              in if 0 \<le> wall - slot_at \<and> wall - slot_at < poll_us
                 then Inr (Some (''scanner_batch'', slot_key (wall_date wall) slot)) else Inr None
       else Inr None))"

definition due_job :: "settings \<Rightarrow> int \<Rightarrow> int \<Rightarrow> (string \<times> string) option res" where
  "due_job s poll_us wall =
     bindE (due_one_shot (wall_time wall) (one_shots s)) (\<lambda>one_shot. case one_shot of
         Some name \<Rightarrow> Inr (Some (name, one_shot_key (wall_date wall) name))
       | None \<Rightarrow> due_slot s poll_us wall)"

subsection \<open>Status\<close>

text \<open>The next time of each action, the earliest of them first.\<close>

definition scheduled_times :: "settings \<Rightarrow> (string \<times> string) list" where
  "scheduled_times s =
     [(''preopen_check'', market_ops_preopen_check_time s), (''stream_start'', market_ops_stream_start_time s),
      (''stream_verify'', market_ops_stream_verify_time s),
      (''universe_selection'', market_ops_universe_select_time s),
      (''scanner_batch'', market_ops_scanner_start_time s), (''stream_stop'', market_ops_stream_stop_time s)]"

definition next_candidate :: "int \<Rightarrow> string \<times> string \<Rightarrow> (int \<times> string) res" where
  "next_candidate wall entry =
     bindE (ops_time (snd entry)) (\<lambda>t.
       let candidate = wall_date wall * day_us + t
       in Inr (if candidate \<le> wall then candidate + day_us else candidate, fst entry))"

definition next_scheduled_action :: "settings \<Rightarrow> int \<Rightarrow> (int \<times> string) res" where
  "next_scheduled_action s wall =
     bindE (mapE (next_candidate wall) (scheduled_times s)) (\<lambda>candidates. Inr (hd (sort candidates)))"

definition schedule_dict :: "settings \<Rightarrow> (string \<times> json) list" where
  "schedule_dict s =
     [(''preopen_check'', JStr (market_ops_preopen_check_time s)),
      (''stream_start'', JStr (market_ops_stream_start_time s)),
      (''stream_verify'', JStr (market_ops_stream_verify_time s)),
      (''universe_selection'', JStr (market_ops_universe_select_time s)),
      (''scanner_start'', JStr (market_ops_scanner_start_time s)),
      (''scanner_interval_seconds'', JInt (market_ops_scanner_interval_seconds s)),
      (''scanner_stop'', JStr (market_ops_scanner_stop_time s)),
      (''stream_stop'', JStr (market_ops_stream_stop_time s))]"

subsection \<open>State\<close>

text \<open>
  The attributes of the scheduler. \<open>sd_last\<close> are the last summaries by job name; the lock of the jobs
  and the task of the loop belong to the step relation.
\<close>

record scheduler =
  sd_completed_keys :: "string list"
  sd_last_event_at :: "instant option"
  sd_last_error :: "string option"
  sd_last :: "(string \<times> ops_summary) list"
  sd_waiting_for_login :: bool
  sd_pending_action :: "string option"
  sd_recovery_attempts :: nat
  sd_last_attempt_at :: "instant option"
  sd_next_retry_at :: "instant option"
  sd_login_link_sent :: bool

definition new_scheduler :: scheduler where
  "new_scheduler = \<lparr>sd_completed_keys = [], sd_last_event_at = None, sd_last_error = None, sd_last = [],
     sd_waiting_for_login = False, sd_pending_action = None, sd_recovery_attempts = 0,
     sd_last_attempt_at = None, sd_next_retry_at = None, sd_login_link_sent = False\<rparr>"

definition clear_recovery :: "scheduler \<Rightarrow> scheduler" where
  "clear_recovery c = c\<lparr>sd_waiting_for_login := False, sd_pending_action := None, sd_recovery_attempts := 0,
     sd_last_attempt_at := None, sd_next_retry_at := None, sd_login_link_sent := False\<rparr>"

subsection \<open>The recovery window\<close>

record ops_env =
  oe_settings :: settings
  oe_zones :: "string \<Rightarrow> time_zone res"
  oe_poll_us :: int

definition env_now :: "ops_env \<Rightarrow> instant \<Rightarrow> int res" where
  "env_now env now = local_now (oe_zones env) (oe_settings env) now"

definition inside_recovery_window :: "settings \<Rightarrow> int \<Rightarrow> bool res" where
  "inside_recovery_window s wall =
     bindE (ops_time (market_ops_login_recovery_start_ist s)) (\<lambda>start.
     bindE (ops_time (market_ops_login_recovery_stop_ist s)) (\<lambda>stop.
       Inr (start \<le> wall_time wall \<and> wall_time wall \<le> stop)))"

definition recovery_window_expired :: "settings \<Rightarrow> int \<Rightarrow> bool res" where
  "recovery_window_expired s wall =
     bindE (ops_time (market_ops_login_recovery_stop_ist s)) (\<lambda>stop. Inr (stop < wall_time wall))"

definition retry_interval :: "settings \<Rightarrow> int" where
  "retry_interval s = max 1 (market_ops_login_recovery_interval_seconds s) * second_us"

text \<open>The next retry: an interval from now, but not before the window opens today.\<close>

definition next_retry :: "ops_env \<Rightarrow> instant \<Rightarrow> instant res" where
  "next_retry env now =
     bindE (env_now env now) (\<lambda>wall.
     bindE (ops_time (market_ops_login_recovery_start_ist (oe_settings env))) (\<lambda>start.
     bindE (local_zone (oe_zones env) (oe_settings env)) (\<lambda>z.
       Inr (max (now + retry_interval (oe_settings env)) (tz_instant z (wall_date wall * day_us + start))))))"

definition schedule_next_recovery :: "ops_env \<Rightarrow> instant \<Rightarrow> (scheduler, unit) prog" where
  "schedule_next_recovery env now =
     bindS (liftS (next_retry env now)) (\<lambda>t. modifyS (\<lambda>c. c\<lparr>sd_next_retry_at := Some t\<rparr>))"

definition prepare_late_start_recovery :: "ops_env \<Rightarrow> instant \<Rightarrow> (scheduler, unit) prog" where
  "prepare_late_start_recovery env now =
     whenS (market_ops_login_recovery_enabled (oe_settings env))
       (bindS (liftS (bindE (env_now env now) (inside_recovery_window (oe_settings env)))) (\<lambda>inside.
        whenS inside (modifyS (\<lambda>c. c\<lparr>sd_waiting_for_login := False, sd_pending_action := Some ''stream_start'',
          sd_recovery_attempts := 0, sd_last_attempt_at := None, sd_next_retry_at := Some now,
          sd_login_link_sent := False\<rparr>))))"

subsection \<open>The summary of a job\<close>

definition login_missing :: "ops_summary \<Rightarrow> bool" where
  "login_missing m \<longleftrightarrow> su_event m = ''kite_session_missing''
     \<or> jget (su_details m) ''recommended_action'' = JStr ''login_kite''"

text \<open>
  \<open>link\<close> is the call \<^verbatim>\<open>send_kite_login_link\<close> of the orchestrator, of which only an exception
  matters to the scheduler.
\<close>

definition arm_login_recovery :: "ops_env \<Rightarrow> instant \<Rightarrow> unit res \<Rightarrow> (scheduler, unit) prog" where
  "arm_login_recovery env now link =
     bindS (readS (\<lambda>c. sd_pending_action c = None)) (\<lambda>new_episode.
     bindS (modifyS (\<lambda>c. c\<lparr>sd_waiting_for_login := True, sd_pending_action := Some ''stream_start''\<rparr>)) (\<lambda>_.
     bindS (schedule_next_recovery env now) (\<lambda>_.
     bindS (whenS new_episode (modifyS (\<lambda>c. c\<lparr>sd_recovery_attempts := 0, sd_login_link_sent := False\<rparr>))) (\<lambda>_.
     bindS (readS sd_login_link_sent) (\<lambda>sent.
       whenS (\<not> sent) (bindS (modifyS (\<lambda>c. c\<lparr>sd_login_link_sent := True\<rparr>)) (\<lambda>_. liftS link)))))))"

definition process_recovery_summary ::
  "ops_env \<Rightarrow> instant \<Rightarrow> unit res \<Rightarrow> string \<Rightarrow> ops_summary \<Rightarrow> (scheduler, unit) prog" where
  "process_recovery_summary env now link name m =
     (if name \<in> set [''preopen_check'', ''stream_start''] \<and> login_missing m then arm_login_recovery env now link
      else bindS (readS sd_pending_action) (\<lambda>pending.
        if pending = None then retS ()
        else if name = ''stream_start''
          then bindS (modifyS (\<lambda>c. c\<lparr>sd_waiting_for_login := False,
                   sd_pending_action := (if su_event m \<in> set [''stream_started'', ''stream_not_connected'']
                     then Some ''stream_verify'' else sd_pending_action c)\<rparr>)) (\<lambda>_.
               schedule_next_recovery env now)
        else if name = ''stream_verify''
          then (if su_ok m then modifyS clear_recovery else schedule_next_recovery env now)
        else retS ()))"

definition job_failed_summary :: "string \<Rightarrow> instant \<Rightarrow> ops_summary" where
  "job_failed_summary name now =
     \<lparr>su_ok = False, su_skipped = False, su_event = ''market_ops_job_failed'', su_level = ''error'',
      su_message = ''Market operations job failed.'', su_started_at = now, su_finished_at = now,
      su_details = [(''job'', JStr name)]\<rparr>"

text \<open>
  \<^verbatim>\<open>_notify_event\<close>: only whether the orchestrator's \<^verbatim>\<open>notify_scheduler_event\<close> raises matters to the
  scheduler; \<open>notice\<close> is that outcome.
\<close>

definition notify_event :: "unit res \<Rightarrow> scheduler \<Rightarrow> scheduler" where
  "notify_event notice c =
     (case notice of Inr _ \<Rightarrow> c | Inl _ \<Rightarrow> c\<lparr>sd_last_error := Some ''market_ops_notification_failed''\<rparr>)"

text \<open>
  The end of \<^verbatim>\<open>run_job\<close> for the outcome of the job, up to the release of the lock. The clock is read
  once for all of it.
\<close>

definition finish_job ::
  "ops_env \<Rightarrow> instant \<Rightarrow> unit res \<Rightarrow> unit res \<Rightarrow> string \<Rightarrow> ops_summary res \<Rightarrow> (scheduler, ops_summary) prog" where
  "finish_job env now link notice name outcome =
     tryS (bindS (liftS outcome) (\<lambda>m.
           bindS (modifyS (\<lambda>c. c\<lparr>sd_last := AList.update name m (sd_last c),
              sd_last_error := (if su_ok m then None else Some (su_event m)), sd_last_event_at := Some now\<rparr>)) (\<lambda>_.
           bindS (process_recovery_summary env now link name m) (\<lambda>_. retS m))))
       (\<lambda>e. Some (bindS (modifyS (\<lambda>c. notify_event notice
             (c\<lparr>sd_last_error := Some ''market_ops_job_failed'', sd_last_event_at := Some now\<rparr>)))
          (\<lambda>_. retS (job_failed_summary name now))))"

text \<open>The start of \<^verbatim>\<open>run_job\<close>: its two refusals.\<close>

definition job_names :: "string list" where
  "job_names = [''preopen_check'', ''stream_start'', ''stream_verify'', ''universe_selection'', ''scanner_batch'',
     ''stream_stop'']"

definition request_job :: "bool \<Rightarrow> string \<Rightarrow> unit res" where
  "request_job locked name =
     (if locked then Inl (MarketOpsJobBusyError ''A market operations job is already running.'')
      else if name \<notin> set job_names then Inl (ValueError ''Unsupported market operations job.'')
      else Inr ())"

text \<open>The handler of the loop: what a tick that raised leaves.\<close>

definition tick_failed :: "instant \<Rightarrow> unit res \<Rightarrow> scheduler \<Rightarrow> scheduler" where
  "tick_failed now notice c =
     notify_event notice (c\<lparr>sd_last_error := Some ''market_ops_scheduler_tick_failed'', sd_last_event_at := Some now\<rparr>)"

subsection \<open>The two halves of a tick\<close>

text \<open>
  \<^verbatim>\<open>_run_due_job\<close> up to the start of the job: the job to run, its key marked as completed. \<open>locked\<close> is
  the lock of the jobs.
\<close>

definition take_due_job :: "ops_env \<Rightarrow> instant \<Rightarrow> bool \<Rightarrow> (scheduler, (string \<times> string \<times> date) option) prog" where
  "take_due_job env now locked =
     bindS (liftS (env_now env now)) (\<lambda>wall.
     bindS (liftS (due_job (oe_settings env) (oe_poll_us env) wall)) (\<lambda>due. case due of
         None \<Rightarrow> retS None
       | Some (name, key) \<Rightarrow>
           bindS (readS (\<lambda>c. key \<in> set (sd_completed_keys c))) (\<lambda>done.
           if done \<or> locked then retS None
           else bindS (modifyS (\<lambda>c. c\<lparr>sd_completed_keys := sd_completed_keys c @ [key]\<rparr>)) (\<lambda>_.
                retS (Some (name, key, wall_date wall))))))"

text \<open>Its end: the keys of other days are dropped.\<close>

definition drop_old_keys :: "date \<Rightarrow> scheduler \<Rightarrow> scheduler" where
  "drop_old_keys d c = c\<lparr>sd_completed_keys := filter (\<lambda>k. startswith k (date_iso d)) (sd_completed_keys c)\<rparr>"

text \<open>What \<^verbatim>\<open>_run_recovery\<close> decides: nothing, to expire with or without a notification, or to run a job.\<close>

datatype (plugins only: code size) recovery_action = No_Recovery | Expire_Silently | Expire_Notified | Retry string

definition take_recovery :: "ops_env \<Rightarrow> instant \<Rightarrow> bool \<Rightarrow> (scheduler, recovery_action) prog" where
  "take_recovery env now locked =
     bindS (readS sd_pending_action) (\<lambda>pending. case pending of
       None \<Rightarrow> retS No_Recovery
     | Some action \<Rightarrow>
         bindS (liftS (env_now env now)) (\<lambda>wall.
         bindS (liftS (recovery_window_expired (oe_settings env) wall)) (\<lambda>expired.
         if expired
         then retS (if market_ops_login_recovery_enabled (oe_settings env) then Expire_Notified else Expire_Silently)
         else if \<not> market_ops_login_recovery_enabled (oe_settings env) then retS No_Recovery
         else bindS (liftS (inside_recovery_window (oe_settings env) wall)) (\<lambda>inside.
         if \<not> inside \<or> locked then retS No_Recovery
         else bindS (readS sd_next_retry_at) (\<lambda>retry.
         if (case retry of None \<Rightarrow> False | Some t \<Rightarrow> now < t) then retS No_Recovery
         else bindS (modifyS (\<lambda>c. c\<lparr>sd_recovery_attempts := Suc (sd_recovery_attempts c), sd_last_attempt_at := Some now\<rparr>))
           (\<lambda>_. bindS (schedule_next_recovery env now) (\<lambda>_. retS (Retry action))))))))"

text \<open>\<^verbatim>\<open>run_job\<close>: the method of a job name.\<close>

definition job_method :: "settings \<Rightarrow> 'w ops_services \<Rightarrow> string \<Rightarrow> ('w, ops_summary) prog option" where
  "job_method s svc name =
     map_of [(''preopen_check'', preopen_check s svc), (''stream_start'', start_stream_if_ready s svc),
       (''stream_verify'', verify_stream s svc), (''universe_selection'', run_universe_selection s svc),
       (''scanner_batch'', run_scanner_batch s svc), (''stream_stop'', stop_stream svc)] name"

text \<open>\<^verbatim>\<open>status()\<close>; the decision status comes from the orchestrator.\<close>

definition scheduler_status ::
  "ops_env \<Rightarrow> instant \<Rightarrow> bool \<Rightarrow> (string \<times> json) list \<Rightarrow> (int \<Rightarrow> string) \<Rightarrow> scheduler \<Rightarrow> (string \<times> json) list res" where
  "scheduler_status env now running decision wall_iso c =
     (let s = oe_settings env; last = (\<lambda>n. jopt (\<lambda>m. JObj (ops_summary_as_dict m)) (map_of (sd_last c) n)) in
      bindE (if market_ops_automation_enabled s
             then bindE (env_now env now) (\<lambda>wall. bindE (next_scheduled_action s wall) (\<lambda>(t, name).
                    Inr (JObj [(''action'', JStr name), (''scheduled_at'', JStr (wall_iso t))])))
             else Inr JNull) (\<lambda>next_action. Inr
      [(''enabled'', JBool (market_ops_automation_enabled s)), (''running'', JBool running),
       (''timezone'', JStr (market_ops_timezone s)), (''notification_enabled'', JBool (market_ops_notify_enabled s)),
       (''notification_provider'', JStr (market_ops_notify_provider s)),
       (''autostart_enabled'', JBool (market_ops_autostart_enabled s)),
       (''last_event_at'', jopt (\<lambda>t. JStr (isoformat t)) (sd_last_event_at c)),
       (''last_error'', jopt JStr (sd_last_error c)),
       (''login_recovery_enabled'', JBool (market_ops_login_recovery_enabled s)),
       (''waiting_for_kite_login'', JBool (sd_waiting_for_login c)),
       (''pending_action'', jopt JStr (sd_pending_action c)),
       (''recovery_attempts'', JInt (int (sd_recovery_attempts c))),
       (''recovery_last_attempt_at'', jopt (\<lambda>t. JStr (isoformat t)) (sd_last_attempt_at c)),
       (''recovery_next_retry_at'', jopt (\<lambda>t. JStr (isoformat t)) (sd_next_retry_at c)),
       (''recovery_window'', JObj [(''start'', JStr (market_ops_login_recovery_start_ist s)),
          (''stop'', JStr (market_ops_login_recovery_stop_ist s)),
          (''interval_seconds'', JInt (market_ops_login_recovery_interval_seconds s))]),
       (''last_preopen_check'', last ''preopen_check''), (''last_stream_start'', last ''stream_start''),
       (''last_stream_verify'', last ''stream_verify''), (''last_universe_selection'', last ''universe_selection''),
       (''last_scanner_batch'', last ''scanner_batch''), (''decision_auto_evaluation'', JObj decision),
       (''last_stream_stop'', last ''stream_stop''), (''next_scheduled_action'', next_action),
       (''schedule'', JObj (schedule_dict s)), (''overlap_prevention'', JBool True)]))"

end
