(* ===== verification/OpsSteps.thy ===== *)
theory OpsSteps
  imports OpsScheduler
begin

section \<open>The market operations loop and its operators\<close>

text \<open>
  The interleaving of the loop of \<^verbatim>\<open>MarketOpsScheduler\<close> with the operator's requests, as a state
  machine. A step is a piece of the source that runs between two suspensions (\<^verbatim>\<open>await\<close>): asyncio
  interleaves tasks only there. Three notifications (of \<^verbatim>\<open>start\<close>, \<^verbatim>\<open>stop\<close> and of a failed tick) and
  the sending of the login link count with the piece before them. The second part proves what holds in
  every reachable state: one job at a time, each scheduled key once, and the spacing of the recovery
  attempts, which bounds their number.
\<close>

subsection \<open>The system\<close>

text \<open>
  Where the task of the loop is suspended; \<open>In_Due d\<close> is inside \<^verbatim>\<open>run_job\<close> of the job due on the local
  date \<open>d\<close>, \<open>In_Expiry\<close> inside the notification that the window has expired. \<open>Not_Running\<close> is no
  task, or a task that is done.
\<close>

datatype (plugins only: code size) loop_place =
  Not_Running | At_Due | In_Due date | At_Recovery | In_Expiry | In_Recovery | Sleeping

datatype (plugins only: code size) job_origin = By_Loop | By_Operator

text \<open>
  \<open>sy_locked\<close> is the lock of the jobs, \<open>sy_jobs\<close> the coroutines inside \<^verbatim>\<open>async with self._job_lock\<close>.
  The last two fields are history, no part of the code's state: the jobs started by the clock with
  their local date, and the times of the recovery attempts since the loop was last started.
\<close>

record ops_system =
  sy_sched :: scheduler
  sy_now :: instant
  sy_loop :: loop_place
  sy_locked :: bool
  sy_jobs :: "(job_origin \<times> string) list"
  sy_started :: "(date \<times> string) list"
  sy_attempts :: "instant list"

definition ops_init :: "instant \<Rightarrow> ops_system" where
  "ops_init t = \<lparr>sy_sched = new_scheduler, sy_now = t, sy_loop = Not_Running, sy_locked = False, sy_jobs = [],
     sy_started = [], sy_attempts = []\<rparr>"

definition enter_job :: "job_origin \<Rightarrow> string \<Rightarrow> ops_system \<Rightarrow> ops_system" where
  "enter_job origin name y = y\<lparr>sy_locked := True, sy_jobs := sy_jobs y @ [(origin, name)]\<rparr>"

definition leave_job :: "job_origin \<Rightarrow> string \<Rightarrow> ops_system \<Rightarrow> ops_system" where
  "leave_job origin name y = y\<lparr>sy_locked := False, sy_jobs := remove1 (origin, name) (sy_jobs y)\<rparr>"

text \<open>\<^verbatim>\<open>task.cancel()\<close> and the wait for it: a job of the loop is left, its lock released.\<close>

definition cancel_loop :: "ops_system \<Rightarrow> ops_system" where
  "cancel_loop y =
     (case filter (\<lambda>j. fst j = By_Loop) (sy_jobs y) of
        [] \<Rightarrow> y\<lparr>sy_loop := Not_Running\<rparr>
      | j # _ \<Rightarrow> (leave_job By_Loop (snd j) y)\<lparr>sy_loop := Not_Running\<rparr>)"

subsection \<open>Steps\<close>

text \<open>
  What happens next. The outcomes of the jobs, notifications and login links are part of the event.
  \<open>Loop_Goes_On notice\<close> resumes the loop where it is not inside a job, \<open>Loop_Job_Ends\<close> where it is.
\<close>

datatype (plugins only: code size) ops_event =
    Clock_At instant
  | Start "unit res"
  | Stop "unit res"
  | Loop_Goes_On "unit res"
  | Loop_Job_Ends string "unit res" "unit res" "ops_summary res"
  | Operator_Starts string
  | Operator_Job_Ends string "unit res" "unit res" "ops_summary res"
  | Operator_Leaves string

text \<open>\<^verbatim>\<open>start\<close>: a second start while the loop runs does nothing.\<close>

definition start_loop :: "ops_env \<Rightarrow> unit res \<Rightarrow> ops_system \<Rightarrow> ops_system option" where
  "start_loop env notice y =
     (if \<not> market_ops_automation_enabled (oe_settings env) then None
      else if sy_loop y \<noteq> Not_Running then Some y
      else case prepare_late_start_recovery env (sy_now y) (sy_sched y) of
          (Inl e, c) \<Rightarrow> None
        | (Inr _, c) \<Rightarrow> Some (y\<lparr>sy_sched := notify_event notice c, sy_loop := At_Due, sy_attempts := []\<rparr>))"

definition stop_loop :: "unit res \<Rightarrow> ops_system \<Rightarrow> ops_system" where
  "stop_loop notice y =
     (if sy_loop y = Not_Running then y
      else cancel_loop (y\<lparr>sy_sched := notify_event notice (sy_sched y)\<rparr>))"

definition fail_tick :: "unit res \<Rightarrow> scheduler \<Rightarrow> ops_system \<Rightarrow> ops_system" where
  "fail_tick notice c y = y\<lparr>sy_sched := tick_failed (sy_now y) notice c, sy_loop := Sleeping\<rparr>"

text \<open>\<^verbatim>\<open>_run_due_job\<close> and \<^verbatim>\<open>_run_recovery\<close> up to their first suspension.\<close>

definition due_step :: "ops_env \<Rightarrow> unit res \<Rightarrow> ops_system \<Rightarrow> ops_system" where
  "due_step env notice y =
     (case take_due_job env (sy_now y) (sy_locked y) (sy_sched y) of
        (Inl e, c) \<Rightarrow> fail_tick notice c y
      | (Inr None, c) \<Rightarrow> y\<lparr>sy_sched := c, sy_loop := At_Recovery\<rparr>
      | (Inr (Some (name, key, d)), c) \<Rightarrow>
          enter_job By_Loop name
            (y\<lparr>sy_sched := c, sy_loop := In_Due d, sy_started := sy_started y @ [(d, key)]\<rparr>))"

definition recovery_step :: "ops_env \<Rightarrow> unit res \<Rightarrow> ops_system \<Rightarrow> ops_system" where
  "recovery_step env notice y =
     (case take_recovery env (sy_now y) (sy_locked y) (sy_sched y) of
        (Inl e, c) \<Rightarrow> fail_tick notice c y
      | (Inr No_Recovery, c) \<Rightarrow> y\<lparr>sy_sched := c, sy_loop := Sleeping\<rparr>
      | (Inr Expire_Silently, c) \<Rightarrow> y\<lparr>sy_sched := clear_recovery c, sy_loop := Sleeping\<rparr>
      | (Inr Expire_Notified, c) \<Rightarrow> y\<lparr>sy_sched := c, sy_loop := In_Expiry\<rparr>
      | (Inr (Retry name), c) \<Rightarrow>
          enter_job By_Loop name
            (y\<lparr>sy_sched := c, sy_loop := In_Recovery, sy_attempts := sy_attempts y @ [sy_now y]\<rparr>))"

definition loop_goes_on :: "ops_env \<Rightarrow> unit res \<Rightarrow> ops_system \<Rightarrow> ops_system option" where
  "loop_goes_on env notice y =
     (case sy_loop y of
        At_Due \<Rightarrow> Some (due_step env notice y)
      | At_Recovery \<Rightarrow> Some (recovery_step env notice y)
      | In_Expiry \<Rightarrow> Some (y\<lparr>sy_sched := clear_recovery (notify_event notice (sy_sched y)), sy_loop := Sleeping\<rparr>)
      | Sleeping \<Rightarrow> Some (y\<lparr>sy_loop := At_Due\<rparr>)
      | _ \<Rightarrow> None)"

definition after_job :: "loop_place \<Rightarrow> scheduler \<Rightarrow> scheduler \<times> loop_place" where
  "after_job place c =
     (case place of In_Due d \<Rightarrow> (drop_old_keys d c, At_Recovery) | In_Recovery \<Rightarrow> (c, Sleeping) | _ \<Rightarrow> (c, place))"

text \<open>\<open>None\<close> is an event that cannot happen there, or a request that is refused.\<close>

fun ops_step :: "ops_env \<Rightarrow> ops_event \<Rightarrow> ops_system \<Rightarrow> ops_system option" where
  "ops_step env (Clock_At t) y = (if sy_now y \<le> t then Some (y\<lparr>sy_now := t\<rparr>) else None)"
| "ops_step env (Start notice) y = start_loop env notice y"
| "ops_step env (Stop notice) y = Some (stop_loop notice y)"
| "ops_step env (Loop_Goes_On notice) y = loop_goes_on env notice y"
| "ops_step env (Loop_Job_Ends name link notice outcome) y =
     (if (By_Loop, name) \<in> set (sy_jobs y)
      then let c = snd (finish_job env (sy_now y) link notice name outcome (sy_sched y));
               (c', place) = after_job (sy_loop y) c
           in Some (leave_job By_Loop name (y\<lparr>sy_sched := c', sy_loop := place\<rparr>))
      else None)"
| "ops_step env (Operator_Starts name) y =
     (case request_job (sy_locked y) name of Inl e \<Rightarrow> None | Inr _ \<Rightarrow> Some (enter_job By_Operator name y))"
| "ops_step env (Operator_Job_Ends name link notice outcome) y =
     (if (By_Operator, name) \<in> set (sy_jobs y)
      then Some (leave_job By_Operator name
             (y\<lparr>sy_sched := snd (finish_job env (sy_now y) link notice name outcome (sy_sched y))\<rparr>))
      else None)"
| "ops_step env (Operator_Leaves name) y =
     (if (By_Operator, name) \<in> set (sy_jobs y) then Some (leave_job By_Operator name y) else None)"

fun ops_run :: "ops_env \<Rightarrow> ops_event list \<Rightarrow> ops_system \<Rightarrow> ops_system option" where
  "ops_run env [] y = Some y"
| "ops_run env (e # es) y = (case ops_step env e y of None \<Rightarrow> None | Some y' \<Rightarrow> ops_run env es y')"

inductive ops_reachable :: "ops_env \<Rightarrow> ops_system \<Rightarrow> bool" for env where
  init: "ops_reachable env (ops_init t)"
| step: "ops_reachable env y \<Longrightarrow> ops_step env e y = Some y' \<Longrightarrow> ops_reachable env y'"

lemma ops_run_reachable: "ops_reachable env y \<Longrightarrow> ops_run env es y = Some y' \<Longrightarrow> ops_reachable env y'"
  by (induction es arbitrary: y) (auto split: option.splits intro: ops_reachable.step)

lemma finish_job_returns: "\<exists>m. fst (finish_job env now link notice name outcome c) = Inr m"
  by (auto simp: finish_job_def tryS_def split: prod.splits sum.splits)

subsection \<open>Facts about the steps\<close>

lemmas enter_leave = enter_job_def leave_job_def

lemma cancel_loop_fields [simp]:
  "sy_sched (cancel_loop y) = sy_sched y" "sy_now (cancel_loop y) = sy_now y"
  "sy_loop (cancel_loop y) = Not_Running" "sy_started (cancel_loop y) = sy_started y"
  "sy_attempts (cancel_loop y) = sy_attempts y"
  by (auto simp: cancel_loop_def leave_job_def split: list.splits)

lemma enter_leave_fields [simp]:
  "sy_sched (enter_job g n y) = sy_sched y" "sy_now (enter_job g n y) = sy_now y"
  "sy_loop (enter_job g n y) = sy_loop y" "sy_started (enter_job g n y) = sy_started y"
  "sy_attempts (enter_job g n y) = sy_attempts y"
  "sy_locked (enter_job g n y)" "sy_jobs (enter_job g n y) = sy_jobs y @ [(g, n)]"
  "sy_sched (leave_job g n y) = sy_sched y" "sy_now (leave_job g n y) = sy_now y"
  "sy_loop (leave_job g n y) = sy_loop y" "sy_started (leave_job g n y) = sy_started y"
  "sy_attempts (leave_job g n y) = sy_attempts y"
  "\<not> sy_locked (leave_job g n y)" "sy_jobs (leave_job g n y) = remove1 (g, n) (sy_jobs y)"
  by (simp_all add: enter_leave)

text \<open>The programs of the scheduler that leave its completed keys, its pending action or its retry alone.\<close>

lemma take_due_job_cases:
  assumes "take_due_job env now locked c = (r, c')"
  obtains (taken) name key wall where
      "r = Inr (Some (name, key, wall_date wall))" "\<not> locked" "key \<notin> set (sd_completed_keys c)"
      "c' = c\<lparr>sd_completed_keys := sd_completed_keys c @ [key]\<rparr>" "env_now env now = Inr wall"
      "due_job (oe_settings env) (oe_poll_us env) wall = Inr (Some (name, key))"
  | (idle) "r = Inr None" "c' = c"
  | (failed) e where "r = Inl e" "c' = c"
  using assms
  by (fastforce simp: take_due_job_def bindS_def split: sum.splits option.splits if_splits prod.splits)

lemma take_recovery_cases:
  assumes "take_recovery env now locked c = (r, c')"
  obtains (retry) action wall t where
      "r = Inr (Retry action)" "\<not> locked" "sd_pending_action c = Some action" "env_now env now = Inr wall"
      "inside_recovery_window (oe_settings env) wall = Inr True" "next_retry env now = Inr t"
      "\<And>u. sd_next_retry_at c = Some u \<Longrightarrow> u \<le> now"
      "c' = c\<lparr>sd_recovery_attempts := Suc (sd_recovery_attempts c), sd_last_attempt_at := Some now,
              sd_next_retry_at := Some t\<rparr>"
  | (other) x where "r = Inr x" "\<And>a. x \<noteq> Retry a" "c' = c"
  | (failed) e where "r = Inl e" "c' = c \<or> c' = c\<lparr>sd_recovery_attempts := Suc (sd_recovery_attempts c), sd_last_attempt_at := Some now\<rparr>"
proof (cases "\<exists>a. r = Inr (Retry a)")
  case True
  then obtain a where a: "r = Inr (Retry a)" by blast
  from assms a show ?thesis
    by (auto simp: take_recovery_def schedule_next_recovery_def bindS_def intro!: retry
      split: sum.splits option.splits if_splits prod.splits)
next
  case False
  with assms show ?thesis
    by (auto simp: take_recovery_def schedule_next_recovery_def bindS_def intro: other failed
      split: sum.splits option.splits if_splits prod.splits)
qed

lemma notify_event_fields [simp]:
  "sd_completed_keys (notify_event n c) = sd_completed_keys c"
  "sd_pending_action (notify_event n c) = sd_pending_action c"
  "sd_next_retry_at (notify_event n c) = sd_next_retry_at c"
  by (auto simp: notify_event_def split: sum.splits)

lemma tick_failed_fields [simp]:
  "sd_completed_keys (tick_failed t n c) = sd_completed_keys c"
  "sd_pending_action (tick_failed t n c) = sd_pending_action c"
  "sd_next_retry_at (tick_failed t n c) = sd_next_retry_at c"
  by (auto simp: tick_failed_def)

lemma clear_recovery_fields [simp]:
  "sd_completed_keys (clear_recovery c) = sd_completed_keys c"
  "sd_pending_action (clear_recovery c) = None" "sd_next_retry_at (clear_recovery c) = None"
  by (auto simp: clear_recovery_def)

lemma drop_old_keys_fields [simp]:
  "sd_completed_keys (drop_old_keys d c) = filter (\<lambda>k. startswith k (date_iso d)) (sd_completed_keys c)"
  "sd_pending_action (drop_old_keys d c) = sd_pending_action c"
  "sd_next_retry_at (drop_old_keys d c) = sd_next_retry_at c"
  by (auto simp: drop_old_keys_def)

text \<open>The closed forms of the programs that end a job.\<close>

lemma arm_login_recovery_eq:
  "arm_login_recovery env now link c =
     (let c1 = c\<lparr>sd_waiting_for_login := True, sd_pending_action := Some ''stream_start''\<rparr> in
      case next_retry env now of
        Inl e \<Rightarrow> (Inl e, c1)
      | Inr t \<Rightarrow>
          (if sd_pending_action c = None
           then (link, c1\<lparr>sd_next_retry_at := Some t, sd_recovery_attempts := 0, sd_login_link_sent := True\<rparr>)
           else if sd_login_link_sent c then (Inr (), c1\<lparr>sd_next_retry_at := Some t\<rparr>)
           else (link, c1\<lparr>sd_next_retry_at := Some t, sd_login_link_sent := True\<rparr>)))"
  by (cases "sd_pending_action c"; cases "next_retry env now")
    (simp_all add: arm_login_recovery_def schedule_next_recovery_def bindS_def Let_def)

definition recovery_moved :: "ops_env \<Rightarrow> instant \<Rightarrow> scheduler \<Rightarrow> scheduler \<Rightarrow> bool" where
  "recovery_moved env now c c' \<longleftrightarrow> sd_completed_keys c' = sd_completed_keys c
     \<and> (sd_pending_action c' = None
        \<or> sd_pending_action c \<noteq> None \<and> sd_next_retry_at c' = sd_next_retry_at c
        \<or> (\<forall>t. next_retry env now = Inr t \<longrightarrow> sd_next_retry_at c' = Some t))"

lemma process_recovery_summary_moved:
  "recovery_moved env now c (snd (process_recovery_summary env now link name m c))"
proof (cases "name \<in> set [''preopen_check'', ''stream_start''] \<and> login_missing m")
  case True
  then show ?thesis
    by (auto simp: process_recovery_summary_def arm_login_recovery_eq recovery_moved_def Let_def split: sum.splits)
next
  case False
  then show ?thesis
    by (auto simp: process_recovery_summary_def recovery_moved_def schedule_next_recovery_def bindS_def
      split: sum.splits)
qed

lemma finish_job_moved: "recovery_moved env now c (snd (finish_job env now link notice name outcome c))"
proof (cases outcome)
  case (Inl e)
  then show ?thesis by (auto simp: finish_job_def recovery_moved_def tryS_def)
next
  case (Inr m)
  let ?c = "c\<lparr>sd_last := AList.update name m (sd_last c),
    sd_last_error := (if su_ok m then None else Some (su_event m)), sd_last_event_at := Some now\<rparr>"
  have "recovery_moved env now ?c (snd (process_recovery_summary env now link name m ?c))"
    by (rule process_recovery_summary_moved)
  moreover obtain r c' where "process_recovery_summary env now link name m ?c = (r, c')" by (metis surj_pair)
  ultimately show ?thesis using Inr
    by (cases r) (auto simp: finish_job_def recovery_moved_def tryS_def bindS_def split: sum.splits)
qed

lemma finish_job_keys [simp]:
  "sd_completed_keys (snd (finish_job env now link notice name outcome c)) = sd_completed_keys c"
  using finish_job_moved by (simp add: recovery_moved_def)

lemma prepare_keys:
  "prepare_late_start_recovery env now c = (r, c') \<Longrightarrow> sd_completed_keys c' = sd_completed_keys c"
  by (auto simp: prepare_late_start_recovery_def bindS_def split: sum.splits if_splits prod.splits)

lemma take_recovery_keys:
  "take_recovery env now locked c = (r, c') \<Longrightarrow> sd_completed_keys c' = sd_completed_keys c"
  by (auto elim!: take_recovery_cases)

subsection \<open>One job at a time\<close>

text \<open>Whether the loop is inside \<^verbatim>\<open>run_job\<close>.\<close>

definition in_job :: "loop_place \<Rightarrow> bool" where
  "in_job place = (case place of In_Due d \<Rightarrow> True | In_Recovery \<Rightarrow> True | _ \<Rightarrow> False)"

definition jobs_agree :: "ops_system \<Rightarrow> bool" where
  "jobs_agree y \<longleftrightarrow>
     (case sy_jobs y of
        [] \<Rightarrow> \<not> sy_locked y \<and> \<not> in_job (sy_loop y)
      | [(origin, name)] \<Rightarrow> sy_locked y \<and> (in_job (sy_loop y) \<longleftrightarrow> origin = By_Loop)
      | _ \<Rightarrow> False)"

lemma jobs_agree_cases:
  assumes "jobs_agree y"
  obtains (free) "sy_jobs y = []" "\<not> sy_locked y" "\<not> in_job (sy_loop y)"
  | (held) origin name where "sy_jobs y = [(origin, name)]" "sy_locked y" "in_job (sy_loop y) \<longleftrightarrow> origin = By_Loop"
  using assms by (auto simp: jobs_agree_def split: list.splits)

lemma jobs_agree_cancel:
  assumes "jobs_agree y" shows "jobs_agree (cancel_loop y)"
  using assms by (cases rule: jobs_agree_cases)
    (auto simp: cancel_loop_def leave_job_def jobs_agree_def in_job_def split: job_origin.splits)

lemma jobs_agree_due:
  assumes "jobs_agree y" "\<not> in_job (sy_loop y)"
  shows "jobs_agree (due_step env notice y)"
proof (cases "take_due_job env (sy_now y) (sy_locked y) (sy_sched y)")
  case (Pair r c)
  then show ?thesis
  proof (cases rule: take_due_job_cases)
    case (taken name key wall)
    with assms Pair show ?thesis
      by (cases rule: jobs_agree_cases) (auto simp: due_step_def jobs_agree_def in_job_def enter_job_def)
  qed (use assms Pair in \<open>auto simp: due_step_def fail_tick_def jobs_agree_def in_job_def split: list.splits\<close>)
qed

lemma jobs_agree_recovery:
  assumes "jobs_agree y" "\<not> in_job (sy_loop y)"
  shows "jobs_agree (recovery_step env notice y)"
proof (cases "take_recovery env (sy_now y) (sy_locked y) (sy_sched y)")
  case (Pair r c)
  then show ?thesis
  proof (cases rule: take_recovery_cases)
    case (retry action wall t)
    with assms Pair show ?thesis
      by (cases rule: jobs_agree_cases) (auto simp: recovery_step_def jobs_agree_def in_job_def enter_job_def)
  next
    case (other x)
    with assms Pair show ?thesis
      by (cases x) (auto simp: recovery_step_def jobs_agree_def in_job_def split: list.splits)
  qed (use assms Pair in \<open>auto simp: recovery_step_def fail_tick_def jobs_agree_def in_job_def split: list.splits\<close>)
qed

lemma jobs_agree_step:
  assumes I: "jobs_agree y" and step: "ops_step env e y = Some y'"
  shows "jobs_agree y'"
proof (cases e)
  case (Clock_At t)
  with step I show ?thesis by (auto simp: jobs_agree_def split: if_splits list.splits)
next
  case (Start notice)
  with step I show ?thesis
    by (auto simp: start_loop_def jobs_agree_def in_job_def split: if_splits prod.splits sum.splits list.splits)
next
  case (Stop notice)
  have "jobs_agree (cancel_loop (y\<lparr>sy_sched := notify_event notice (sy_sched y)\<rparr>))"
    using I by (intro jobs_agree_cancel) (auto simp: jobs_agree_def split: list.splits)
  with Stop step I show ?thesis by (auto simp: stop_loop_def)
next
  case (Loop_Goes_On notice)
  show ?thesis
  proof (cases "sy_loop y = At_Due \<or> sy_loop y = At_Recovery")
    case True
    then have "\<not> in_job (sy_loop y)" by (auto simp: in_job_def)
    with jobs_agree_due [OF I] jobs_agree_recovery [OF I] True Loop_Goes_On step show ?thesis
      by (auto simp: loop_goes_on_def)
  next
    case False
    with Loop_Goes_On step I show ?thesis
      by (auto simp: loop_goes_on_def jobs_agree_def in_job_def split: loop_place.splits list.splits)
  qed
next
  case (Loop_Job_Ends name link notice outcome)
  with step I show ?thesis
    by (cases rule: jobs_agree_cases [OF I])
      (auto simp: jobs_agree_def in_job_def after_job_def Let_def split: if_splits loop_place.splits)
next
  case (Operator_Starts name)
  with step I show ?thesis
    by (cases rule: jobs_agree_cases [OF I])
      (auto simp: jobs_agree_def request_job_def split: if_splits)
next
  case (Operator_Job_Ends name link notice outcome)
  with step I show ?thesis
    by (cases rule: jobs_agree_cases [OF I]) (auto simp: jobs_agree_def split: if_splits)
next
  case (Operator_Leaves name)
  with step I show ?thesis
    by (cases rule: jobs_agree_cases [OF I]) (auto simp: jobs_agree_def split: if_splits)
qed

subsection \<open>Each scheduled key once\<close>

text \<open>The local date does not go back, which a zone with a constant offset gives.\<close>

definition days_go_on :: "ops_env \<Rightarrow> bool" where
  "days_go_on env \<longleftrightarrow>
     (\<forall>t t' w w'. t \<le> t' \<longrightarrow> env_now env t = Inr w \<longrightarrow> env_now env t' = Inr w' \<longrightarrow> wall_date w \<le> wall_date w')"

definition constant_zone :: "ops_env \<Rightarrow> int \<Rightarrow> bool" where
  "constant_zone env offset \<longleftrightarrow>
     (\<exists>z. local_zone (oe_zones env) (oe_settings env) = Inr z \<and> (\<forall>t. tz_offset z t = offset))"

lemma constant_zone_now: "constant_zone env offset \<Longrightarrow> env_now env t = Inr (t + offset)"
  by (auto simp: constant_zone_def env_now_def local_now_def)

lemma constant_zone_days: "constant_zone env offset \<Longrightarrow> days_go_on env"
  by (auto simp: days_go_on_def constant_zone_now wall_date_def day_us_def intro: zdiv_mono1)

definition reached_day :: "ops_env \<Rightarrow> instant \<Rightarrow> date \<Rightarrow> bool" where
  "reached_day env now d \<longleftrightarrow> (\<exists>t w. t \<le> now \<and> env_now env t = Inr w \<and> d = wall_date w)"

lemma reached_day_mono: "reached_day env now d \<Longrightarrow> now \<le> now' \<Longrightarrow> reached_day env now' d"
  by (auto simp: reached_day_def intro: order_trans)

lemma reached_day_le: "days_go_on env \<Longrightarrow> reached_day env now d \<Longrightarrow> env_now env now = Inr w \<Longrightarrow> d \<le> wall_date w"
  by (auto simp: reached_day_def days_go_on_def)

definition key_kept :: "ops_env \<Rightarrow> instant \<Rightarrow> scheduler \<Rightarrow> date \<times> string \<Rightarrow> bool" where
  "key_kept env now c entry \<longleftrightarrow>
     startswith (snd entry) (date_iso (fst entry)) \<and> reached_day env now (fst entry)
     \<and> (snd entry \<in> set (sd_completed_keys c) \<or> (\<exists>d'. fst entry < d' \<and> reached_day env now d'))"

definition keys_tracked :: "ops_env \<Rightarrow> ops_system \<Rightarrow> bool" where
  "keys_tracked env y \<longleftrightarrow> distinct (sy_started y)
     \<and> (\<forall>entry \<in> set (sy_started y). key_kept env (sy_now y) (sy_sched y) entry)
     \<and> (\<forall>d. sy_loop y = In_Due d \<longrightarrow>
          reached_day env (sy_now y) d \<and> (\<forall>entry \<in> set (sy_started y). fst entry \<le> d))"

lemma startswith_append [simp]: "startswith (p @ q) p"
  by (induction p) auto

lemma due_job_key: "due_job s poll wall = Inr (Some (name, key)) \<Longrightarrow> startswith key (date_iso (wall_date wall))"
  by (auto simp: due_job_def due_slot_def one_shot_key_def slot_key_def Let_def bindE_def
    split: sum.splits option.splits if_splits)

lemma keys_tracked_same:
  assumes "keys_tracked env y" "sy_started y' = sy_started y" "sy_now y' = sy_now y"
    "sd_completed_keys (sy_sched y') = sd_completed_keys (sy_sched y)" "\<And>d. sy_loop y' = In_Due d \<Longrightarrow> sy_loop y = In_Due d"
  shows "keys_tracked env y'"
proof -
  have "key_kept env (sy_now y') (sy_sched y') entry = key_kept env (sy_now y) (sy_sched y) entry" for entry
    using assms(3,4) by (simp add: key_kept_def)
  with assms(1,2,3,5) show ?thesis by (auto simp: keys_tracked_def)
qed

lemma keys_tracked_clock: "keys_tracked env y \<Longrightarrow> sy_now y \<le> t \<Longrightarrow> keys_tracked env (y\<lparr>sy_now := t\<rparr>)"
  unfolding keys_tracked_def key_kept_def using reached_day_mono [of env "sy_now y" _ t] by simp blast

lemma keys_tracked_due:
  assumes days: "days_go_on env" and I: "keys_tracked env y"
  shows "keys_tracked env (due_step env notice y)"
proof (cases "take_due_job env (sy_now y) (sy_locked y) (sy_sched y)")
  case (Pair r c)
  then show ?thesis
  proof (cases rule: take_due_job_cases)
    case (taken name key wall)
    let ?d = "wall_date wall" and ?y = "due_step env notice y"
    have day: "reached_day env (sy_now y) ?d" using taken(5) by (auto simp: reached_day_def)
    have old: "key_kept env (sy_now y) (sy_sched y) entry \<and> fst entry \<le> ?d" if "entry \<in> set (sy_started y)" for entry
      using I that reached_day_le [OF days _ taken(5)] by (auto simp: keys_tracked_def key_kept_def)
    have new: "(?d, key) \<notin> set (sy_started y)"
      using old taken(3) reached_day_le [OF days _ taken(5)] by (fastforce simp: key_kept_def)
    have y: "sy_started ?y = sy_started y @ [(?d, key)]" "sy_now ?y = sy_now y" "sy_loop ?y = In_Due ?d"
      "sd_completed_keys (sy_sched ?y) = sd_completed_keys (sy_sched y) @ [key]"
      using Pair taken by (simp_all add: due_step_def)
    show ?thesis
      using I new old day due_job_key [OF taken(6)] by (auto simp: keys_tracked_def y key_kept_def)
  qed (use I Pair in \<open>auto intro!: keys_tracked_same [OF I] simp: due_step_def fail_tick_def\<close>)
qed

lemma keys_tracked_drop:
  assumes I: "keys_tracked env y" and place: "sy_loop y = In_Due d"
    and y': "sy_started y' = sy_started y" "sy_now y' = sy_now y" "sy_loop y' = At_Recovery"
      "sd_completed_keys (sy_sched y') = filter (\<lambda>k. startswith k (date_iso d)) (sd_completed_keys (sy_sched y))"
  shows "keys_tracked env y'"
proof -
  have "key_kept env (sy_now y) (sy_sched y') entry" if e: "entry \<in> set (sy_started y)" for entry
  proof (cases "fst entry = d")
    case True
    with I e show ?thesis by (auto simp: keys_tracked_def key_kept_def y')
  next
    case False
    with I e place have "fst entry < d" "reached_day env (sy_now y) d" "reached_day env (sy_now y) (fst entry)"
      "startswith (snd entry) (date_iso (fst entry))"
      by (auto simp: keys_tracked_def key_kept_def order.order_iff_strict)
    then show ?thesis by (auto simp: key_kept_def)
  qed
  with I y' show ?thesis by (auto simp: keys_tracked_def)
qed

lemma recovery_step_keys:
  "sy_started (recovery_step env notice y) = sy_started y \<and> sy_now (recovery_step env notice y) = sy_now y
   \<and> sd_completed_keys (sy_sched (recovery_step env notice y)) = sd_completed_keys (sy_sched y)
   \<and> (\<forall>d. sy_loop (recovery_step env notice y) \<noteq> In_Due d)"
proof (cases "take_recovery env (sy_now y) (sy_locked y) (sy_sched y)")
  case (Pair r c)
  then show ?thesis
  proof (cases rule: take_recovery_cases)
    case (other x)
    with Pair show ?thesis by (cases x) (auto simp: recovery_step_def)
  qed (use Pair in \<open>auto simp: recovery_step_def fail_tick_def\<close>)
qed

lemma keys_tracked_step:
  assumes days: "days_go_on env" and I: "keys_tracked env y" and step: "ops_step env e y = Some y'"
  shows "keys_tracked env y'"
proof (cases e)
  case (Clock_At t)
  with step I show ?thesis by (auto intro: keys_tracked_clock split: if_splits)
next
  case (Start notice)
  with step show ?thesis
    by (auto intro!: keys_tracked_same [OF I] dest: prepare_keys simp: start_loop_def I
      split: if_splits prod.splits sum.splits)
next
  case (Stop notice)
  with step show ?thesis by (auto intro!: keys_tracked_same [OF I] simp: stop_loop_def split: if_splits)
next
  case (Loop_Goes_On notice)
  show ?thesis
  proof (cases "sy_loop y = At_Due")
    case True
    with Loop_Goes_On step keys_tracked_due [OF days I] show ?thesis by (auto simp: loop_goes_on_def)
  next
    case False
    with Loop_Goes_On step recovery_step_keys [of env notice y] show ?thesis
      by (auto intro!: keys_tracked_same [OF I] simp: loop_goes_on_def split: loop_place.splits)
  qed
next
  case (Loop_Job_Ends name link notice outcome)
  show ?thesis
  proof (cases "\<exists>d. sy_loop y = In_Due d")
    case True
    then obtain d where "sy_loop y = In_Due d" by blast
    with Loop_Job_Ends step show ?thesis
      by (intro keys_tracked_drop [OF I]) (auto simp: after_job_def Let_def split: if_splits)
  next
    case False
    with Loop_Job_Ends step show ?thesis
      by (intro keys_tracked_same [OF I]) (auto simp: after_job_def Let_def split: if_splits loop_place.splits)
  qed
qed (use step in \<open>auto intro!: keys_tracked_same [OF I] split: if_splits sum.splits\<close>)

lemma keys_tracked_reachable: "ops_reachable env y \<Longrightarrow> days_go_on env \<Longrightarrow> keys_tracked env y"
proof (induction rule: ops_reachable.induct)
  case (init t)
  then show ?case by (simp add: keys_tracked_def ops_init_def)
next
  case (step y e y')
  then show ?case by (blast intro: keys_tracked_step)
qed

subsection \<open>The spacing of the recovery attempts\<close>

text \<open>The settings from which a retry is computed can be read; this does not depend on the time.\<close>

definition recovery_ready :: "ops_env \<Rightarrow> bool" where
  "recovery_ready env \<longleftrightarrow>
     isl (local_zone (oe_zones env) (oe_settings env)) = False
     \<and> isl (ops_time (market_ops_login_recovery_start_ist (oe_settings env))) = False"

lemma next_retry_ready: "(\<exists>t. next_retry env now = Inr t) \<longleftrightarrow> recovery_ready env"
  by (auto simp: next_retry_def env_now_def local_now_def recovery_ready_def bindE_def split: sum.splits)

lemma next_retry_after: "next_retry env now = Inr t \<Longrightarrow> now + retry_interval (oe_settings env) \<le> t"
  by (auto simp: next_retry_def bindE_def split: sum.splits)

definition in_window :: "ops_env \<Rightarrow> instant \<Rightarrow> bool" where
  "in_window env a \<longleftrightarrow> (\<exists>w. env_now env a = Inr w \<and> inside_recovery_window (oe_settings env) w = Inr True)"

definition spaced :: "int \<Rightarrow> instant list \<Rightarrow> bool" where
  "spaced gap ts \<longleftrightarrow> sorted_wrt (\<lambda>a b. a + gap \<le> b) ts"

definition retry_waits :: "ops_env \<Rightarrow> scheduler \<Rightarrow> instant list \<Rightarrow> bool" where
  "retry_waits env c attempts \<longleftrightarrow> attempts = [] \<or> recovery_ready env
     \<and> (sd_pending_action c = None
        \<or> (\<exists>t. sd_next_retry_at c = Some t \<and> (\<forall>a \<in> set attempts. a + retry_interval (oe_settings env) \<le> t)))"

definition attempts_tracked :: "ops_env \<Rightarrow> ops_system \<Rightarrow> bool" where
  "attempts_tracked env y \<longleftrightarrow> spaced (retry_interval (oe_settings env)) (sy_attempts y)
     \<and> (\<forall>a \<in> set (sy_attempts y). a \<le> sy_now y \<and> in_window env a)
     \<and> retry_waits env (sy_sched y) (sy_attempts y)"

lemma retry_waits_moved:
  assumes "retry_waits env c attempts" "recovery_moved env now c c'" "\<forall>a \<in> set attempts. a \<le> now"
  shows "retry_waits env c' attempts"
proof (cases "attempts = [] \<or> sd_pending_action c' = None")
  case True
  with assms(1) show ?thesis by (auto simp: retry_waits_def)
next
  case False
  with assms(1) obtain t where t: "next_retry env now = Inr t" and r: "recovery_ready env"
    by (auto simp: retry_waits_def simp flip: next_retry_ready [of env now])
  have "a + retry_interval (oe_settings env) \<le> t" if "a \<in> set attempts" for a
    using assms(3) that next_retry_after [OF t] by force
  with False assms(1,2) t r show ?thesis by (auto simp: retry_waits_def recovery_moved_def)
qed

lemma attempts_tracked_same:
  assumes "attempts_tracked env y" "sy_attempts y' = sy_attempts y" "sy_now y' = sy_now y"
    "recovery_moved env (sy_now y) (sy_sched y) (sy_sched y'\<lparr>sd_completed_keys := sd_completed_keys (sy_sched y)\<rparr>)"
  shows "attempts_tracked env y'"
proof -
  have "retry_waits env (sy_sched y'\<lparr>sd_completed_keys := sd_completed_keys (sy_sched y)\<rparr>) (sy_attempts y)"
    using assms(1) by (intro retry_waits_moved [OF _ assms(4)]) (simp_all add: attempts_tracked_def)
  then have "retry_waits env (sy_sched y') (sy_attempts y)" by (simp add: retry_waits_def)
  with assms(1-3) show ?thesis by (simp add: attempts_tracked_def)
qed

lemma recovery_moved_stay:
  "sd_completed_keys c' = sd_completed_keys c \<Longrightarrow> sd_pending_action c' = sd_pending_action c
   \<Longrightarrow> sd_next_retry_at c' = sd_next_retry_at c \<Longrightarrow> recovery_moved env now c c'"
  by (cases "sd_pending_action c") (auto simp: recovery_moved_def)

lemma recovery_moved_none:
  "sd_completed_keys c' = sd_completed_keys c \<Longrightarrow> sd_pending_action c' = None \<Longrightarrow> recovery_moved env now c c'"
  by (simp add: recovery_moved_def)

lemma spaced_snoc: "spaced gap (ts @ [t]) \<longleftrightarrow> spaced gap ts \<and> (\<forall>a \<in> set ts. a + gap \<le> t)"
  by (simp add: spaced_def sorted_wrt_append)

lemma attempts_tracked_recovery:
  assumes I: "attempts_tracked env y"
  shows "attempts_tracked env (recovery_step env notice y)"
proof (cases "take_recovery env (sy_now y) (sy_locked y) (sy_sched y)")
  case (Pair r c)
  then show ?thesis
  proof (cases rule: take_recovery_cases)
    case (retry action wall t)
    let ?gap = "retry_interval (oe_settings env)" and ?y = "recovery_step env notice y"
    have y: "sy_attempts ?y = sy_attempts y @ [sy_now y]" "sy_now ?y = sy_now y" "sy_sched ?y = c"
      using Pair retry by (simp_all add: recovery_step_def)
    have ready: "recovery_ready env" using retry(6) by (auto simp flip: next_retry_ready [of env "sy_now y"])
    have old: "a + ?gap \<le> sy_now y" if "a \<in> set (sy_attempts y)" for a
    proof -
      have "sy_attempts y \<noteq> []" using that by auto
      with I that retry(3) obtain u where "sd_next_retry_at (sy_sched y) = Some u" "a + ?gap \<le> u"
        by (auto simp: attempts_tracked_def retry_waits_def)
      with retry(7) show ?thesis by (meson order_trans)
    qed
    have gap: "0 \<le> ?gap" by (simp add: retry_interval_def second_us_def)
    have waits: "retry_waits env c (sy_attempts y @ [sy_now y])"
      using old gap next_retry_after [OF retry(6)] ready
      by (force simp: retry_waits_def retry(8))
    have "in_window env (sy_now y)" using retry by (auto simp: in_window_def)
    with I old waits show ?thesis by (simp add: attempts_tracked_def spaced_snoc y)
  next
    case (other x)
    with Pair show ?thesis
      by (cases x) (auto simp: recovery_step_def intro!: attempts_tracked_same [OF I]
        intro: recovery_moved_stay recovery_moved_none)
  next
    case (failed e)
    with Pair show ?thesis
      by (auto simp: recovery_step_def fail_tick_def intro!: attempts_tracked_same [OF I] recovery_moved_stay)
  qed
qed

lemma attempts_tracked_due:
  assumes I: "attempts_tracked env y"
  shows "attempts_tracked env (due_step env notice y)"
proof (cases "take_due_job env (sy_now y) (sy_locked y) (sy_sched y)")
  case (Pair r c)
  then show ?thesis
  proof (cases rule: take_due_job_cases)
  qed (use Pair in \<open>auto simp: due_step_def fail_tick_def intro!: attempts_tracked_same [OF I] recovery_moved_stay\<close>)
qed

lemma attempts_tracked_job:
  assumes I: "attempts_tracked env y" and "sy_attempts y' = sy_attempts y" "sy_now y' = sy_now y"
    and c: "sy_sched y' \<in> {c, drop_old_keys d c}"
      "c = snd (finish_job env (sy_now y) link notice name outcome (sy_sched y))"
  shows "attempts_tracked env y'"
  using assms finish_job_moved [of env "sy_now y" "sy_sched y" link notice name outcome]
  by (intro attempts_tracked_same [OF I]) (auto simp: recovery_moved_def)

lemma attempts_tracked_step:
  assumes I: "attempts_tracked env y" and step: "ops_step env e y = Some y'"
  shows "attempts_tracked env y'"
proof (cases e)
  case (Clock_At t)
  with step I show ?thesis by (force simp: attempts_tracked_def split: if_splits)
next
  case (Start notice)
  with step I show ?thesis
    by (auto simp: start_loop_def attempts_tracked_def spaced_def retry_waits_def
      split: if_splits prod.splits sum.splits)
next
  case (Stop notice)
  with step show ?thesis
    by (auto intro!: attempts_tracked_same [OF I] recovery_moved_stay simp: stop_loop_def split: if_splits)
next
  case (Loop_Goes_On notice)
  show ?thesis
  proof (cases "sy_loop y = At_Due \<or> sy_loop y = At_Recovery")
    case True
    with Loop_Goes_On step attempts_tracked_due [OF I] attempts_tracked_recovery [OF I] show ?thesis
      by (auto simp: loop_goes_on_def)
  next
    case False
    with Loop_Goes_On step show ?thesis
      by (auto intro!: attempts_tracked_same [OF I] intro: recovery_moved_stay recovery_moved_none simp: loop_goes_on_def
        split: loop_place.splits)
  qed
next
  case (Loop_Job_Ends name link notice outcome)
  let ?c = "snd (finish_job env (sy_now y) link notice name outcome (sy_sched y))"
  from Loop_Job_Ends step obtain d where "sy_sched y' \<in> {?c, drop_old_keys d ?c}"
    "sy_attempts y' = sy_attempts y" "sy_now y' = sy_now y"
    by (auto simp: after_job_def Let_def split: if_splits loop_place.splits) blast
  then show ?thesis by (intro attempts_tracked_job [OF I _ _ _ refl])
next
  case (Operator_Job_Ends name link notice outcome)
  let ?c = "snd (finish_job env (sy_now y) link notice name outcome (sy_sched y))"
  from Operator_Job_Ends step have "sy_sched y' \<in> {?c, drop_old_keys d ?c}" "sy_attempts y' = sy_attempts y"
    "sy_now y' = sy_now y" for d by (auto split: if_splits)
  then show ?thesis by (intro attempts_tracked_job [OF I _ _ _ refl])
qed (use step in \<open>auto intro!: attempts_tracked_same [OF I] recovery_moved_stay split: if_splits sum.splits\<close>)

lemma attempts_tracked_reachable: "ops_reachable env y \<Longrightarrow> attempts_tracked env y"
proof (induction rule: ops_reachable.induct)
  case (init t)
  then show ?case by (simp add: attempts_tracked_def spaced_def retry_waits_def ops_init_def)
next
  case (step y e y')
  then show ?case by (blast intro: attempts_tracked_step)
qed

text \<open>Spaced times of an interval are few.\<close>

lemma spaced_count:
  assumes "spaced gap ts" "0 < gap" "\<forall>t \<in> set ts. lo \<le> t \<and> t \<le> hi" "lo \<le> hi"
  shows "int (length ts) \<le> (hi - lo) div gap + 1"
proof -
  have "ts \<noteq> [] \<longrightarrow> lo + (int (length ts) - 1) * gap \<le> last ts"
    using assms(1,3)
  proof (induction ts rule: rev_induct)
    case (snoc t ts)
    then show ?case by (cases "ts = []") (auto simp: spaced_snoc algebra_simps dest!: bspec [where x = "last ts"])
  qed simp
  then have "ts \<noteq> [] \<Longrightarrow> (int (length ts) - 1) * gap \<le> hi - lo"
    using assms(3) by (smt (verit) last_in_set)
  then have "ts \<noteq> [] \<Longrightarrow> int (length ts) - 1 \<le> (hi - lo) div gap"
    using assms(2) by (metis mult.commute zle_iff_zadd zdiv_mono1 nonzero_mult_div_cancel_right order_less_irrefl)
  moreover have "0 \<le> (hi - lo) div gap" using assms(2,4) by (simp add: pos_imp_zdiv_nonneg_iff)
  ultimately show ?thesis by (cases "ts = []") auto
qed

lemma spaced_filter: "spaced gap ts \<Longrightarrow> spaced gap (filter P ts)"
  by (simp add: spaced_def sorted_wrt_filter)

lemma in_window_bounds:
  assumes "in_window env a" "constant_zone env offset" "d = wall_date (a + offset)"
    "ops_time (market_ops_login_recovery_start_ist (oe_settings env)) = Inr start"
    "ops_time (market_ops_login_recovery_stop_ist (oe_settings env)) = Inr stop"
  shows "d * day_us + start - offset \<le> a \<and> a \<le> d * day_us + stop - offset"
proof -
  have "start \<le> wall_time (a + offset)" "wall_time (a + offset) \<le> stop"
    using assms by (auto simp: in_window_def constant_zone_now inside_recovery_window_def)
  moreover have "a + offset = wall_date (a + offset) * day_us + wall_time (a + offset)"
    by (simp add: wall_date_def wall_time_def)
  ultimately show ?thesis unfolding assms(3) by (intro conjI) linarith+
qed

end
