(* ===== verification/OpsRuns.thy ===== *)
theory OpsRuns
  imports OpsSteps
begin

section \<open>What the market operations loop guarantees\<close>

text \<open>
  The properties of the state machine of \<open>OpsSteps\<close> with an evaluated morning: the loop is started
  at 08:55:02 with the default times and the login recovery enabled, the broker login is missing, and
  the recovery tries twice after its window has opened at 09:00.
\<close>

subsection \<open>A morning\<close>

definition ops_settings :: settings where
  "ops_settings = default_settings\<lparr>market_ops_automation_enabled := True, market_ops_login_recovery_enabled := True\<rparr>"

definition ist_env :: ops_env where
  "ist_env = \<lparr>oe_settings = ops_settings, oe_zones = (\<lambda>n. Inl (OtherError ''ZoneInfoNotFoundError'')),
     oe_poll_us = 5 * second_us\<rparr>"

definition clock_ist :: "int \<Rightarrow> int \<Rightarrow> int \<Rightarrow> instant" where
  "clock_ist h m s = ist_combine 1 (h * 60 * minute_us + m * minute_us + s * second_us)"

definition missing_login :: ops_summary where
  "missing_login = \<lparr>su_ok = False, su_skipped = False, su_event = ''kite_session_missing'', su_level = ''warning'',
     su_message = [], su_started_at = 0, su_finished_at = 0, su_details = []\<rparr>"

definition morning :: "ops_event list" where
  "morning =
     [Start (Inr ()), Loop_Goes_On (Inr ()), Loop_Job_Ends ''preopen_check'' (Inr ()) (Inr ()) (Inr missing_login),
      Loop_Goes_On (Inr ()), Clock_At (clock_ist 9 0 1), Loop_Goes_On (Inr ()), Loop_Goes_On (Inr ()),
      Loop_Goes_On (Inr ()), Loop_Job_Ends ''stream_start'' (Inr ()) (Inr ()) (Inr missing_login),
      Clock_At (clock_ist 9 0 31), Loop_Goes_On (Inr ()), Loop_Goes_On (Inr ()), Loop_Goes_On (Inr ())]"

lemma morning_run:
  "case ops_run ist_env morning (ops_init (clock_ist 8 55 2)) of None \<Rightarrow> False
   | Some y \<Rightarrow> length (sy_started y) = 1 \<and> sy_attempts y = [clock_ist 9 0 1, clock_ist 9 0 31]
       \<and> sy_jobs y = [(By_Loop, ''stream_start'')] \<and> sy_loop y = In_Recovery"
  by code_simp

text \<open>The state the morning leads to; \<open>morning_run\<close> has evaluated what is used of it.\<close>

definition morning_state :: ops_system where
  "morning_state = the (ops_run ist_env morning (ops_init (clock_ist 8 55 2)))"

lemma morning_state:
  "ops_reachable ist_env morning_state" "length (sy_started morning_state) = 1"
  "sy_attempts morning_state = [clock_ist 9 0 1, clock_ist 9 0 31]"
  "sy_jobs morning_state = [(By_Loop, ''stream_start'')]" "sy_loop morning_state = In_Recovery"
proof -
  from morning_run obtain y where y: "ops_run ist_env morning (ops_init (clock_ist 8 55 2)) = Some y"
    "length (sy_started y) = 1" "sy_attempts y = [clock_ist 9 0 1, clock_ist 9 0 31]"
    "sy_jobs y = [(By_Loop, ''stream_start'')]" "sy_loop y = In_Recovery"
    by (auto split: option.splits)
  from y(1) have "morning_state = y" by (simp add: morning_state_def)
  moreover have "ops_reachable ist_env y" by (rule ops_run_reachable [OF ops_reachable.init y(1)])
  ultimately show "ops_reachable ist_env morning_state" "length (sy_started morning_state) = 1"
    "sy_attempts morning_state = [clock_ist 9 0 1, clock_ist 9 0 31]"
    "sy_jobs morning_state = [(By_Loop, ''stream_start'')]" "sy_loop morning_state = In_Recovery"
    using y(2-5) by simp_all
qed

lemma ist_env_zone: "constant_zone ist_env (zone_us ist_minutes)"
proof -
  have "market_ops_timezone ops_settings = ''Asia/Kolkata''" by (simp add: ops_settings_def default_settings_def)
  then show ?thesis by (simp add: constant_zone_def local_zone_def ist_env_def fixed_zone_def)
qed

subsection \<open>One job at a time\<close>

lemma jobs_agree_reachable: "ops_reachable env y \<Longrightarrow> jobs_agree y"
proof (induction rule: ops_reachable.induct)
  case (init t)
  then show ?case by (simp add: jobs_agree_def ops_init_def in_job_def)
next
  case (step y e y')
  then show ?case by (blast intro: jobs_agree_step)
qed

text \<open>C19: However the loop, the operators' requests, cancellations and the clock interleave, at most one
  market operations job is inside the lock; the lock is held exactly while one is; the loop waits for a
  job exactly when that job is its own; and while a job runs every operator's request is refused.\<close>

theorem one_job_at_a_time:
  assumes "ops_reachable env y"
  shows "length (sy_jobs y) \<le> 1 \<and> (sy_locked y \<longleftrightarrow> sy_jobs y \<noteq> [])
    \<and> (in_job (sy_loop y) \<longleftrightarrow> (\<exists>name. sy_jobs y = [(By_Loop, name)]))
    \<and> (sy_jobs y = [] \<or> ops_step env (Operator_Starts name) y = None)"
  using jobs_agree_reachable [OF assms] by (cases rule: jobs_agree_cases) (simp_all add: request_job_def)

theorem one_job_at_a_time_witness:
  "length (sy_jobs morning_state) = 1 \<and> ops_step ist_env (Operator_Starts ''scanner_batch'') morning_state = None"
  using one_job_at_a_time [OF morning_state(1), of "''scanner_batch''"]
  by (simp add: morning_state(4) del: ops_step.simps)

subsection \<open>Scheduled jobs\<close>

text \<open>C7: On one local date the loop starts the job of each schedule key at most once, whatever is
  cancelled, restarted or interleaved, when the local date does not go back.\<close>

theorem scheduled_keys_once:
  assumes "days_go_on env" "ops_reachable env y"
  shows "distinct (sy_started y)"
  using keys_tracked_reachable [OF assms(2,1)] by (simp add: keys_tracked_def)

theorem scheduled_keys_once_witness: "distinct (sy_started morning_state) \<and> sy_started morning_state \<noteq> []"
  using scheduled_keys_once [OF constant_zone_days [OF ist_env_zone] morning_state(1)] morning_state(2) by auto

subsection \<open>The login recovery ends\<close>


lemma ist_env_window:
  "ops_time (market_ops_login_recovery_start_ist (oe_settings ist_env)) = Inr (9 * 60 * minute_us)"
  "ops_time (market_ops_login_recovery_stop_ist (oe_settings ist_env)) = Inr ((9 * 60 + 25) * minute_us)"
  "retry_interval (oe_settings ist_env) = 30 * second_us"
  by code_simp+




subsection \<open>A start inside the window\<close>

lemma inside_window_ready:
  assumes "env_now env t = Inr wall" "inside_recovery_window (oe_settings env) wall = Inr True"
  shows "recovery_ready env \<and> recovery_window_expired (oe_settings env) wall = Inr False"
  using assms
  by (auto simp: inside_recovery_window_def recovery_window_expired_def recovery_ready_def env_now_def local_now_def
    bindE_def split: sum.splits)

text \<open>An operator who starts the loop inside the recovery window gets a stream start at once: when no
  scheduled job is due, the first tick starts it, whatever was pending or waited for before and whatever
  the notifications do.\<close>

theorem late_start_tries_at_once:
  assumes "market_ops_automation_enabled (oe_settings env)" "market_ops_login_recovery_enabled (oe_settings env)"
    and "sy_loop y = Not_Running" "\<not> sy_locked y" "env_now env (sy_now y) = Inr wall"
    and "inside_recovery_window (oe_settings env) wall = Inr True"
    and "due_job (oe_settings env) (oe_poll_us env) wall = Inr None"
  shows "\<exists>y'. ops_run env [Start notice, Loop_Goes_On notice', Loop_Goes_On notice''] y = Some y'
    \<and> sy_jobs y' = sy_jobs y @ [(By_Loop, ''stream_start'')] \<and> sy_attempts y' = [sy_now y]"
proof -
  have ready: "recovery_ready env" "recovery_window_expired (oe_settings env) wall = Inr False"
    using inside_window_ready [OF assms(5,6)] by simp_all
  then obtain t where t: "next_retry env (sy_now y) = Inr t" using next_retry_ready by blast
  from assms ready t show ?thesis
    by (simp add: start_loop_def prepare_late_start_recovery_def bindS_def loop_goes_on_def due_step_def
      take_due_job_def recovery_step_def take_recovery_def schedule_next_recovery_def notify_event_def
      split: sum.splits)
qed

theorem late_start_tries_at_once_witness:
  "\<exists>y'. ops_run ist_env [Start (Inl (OtherError ''x'')), Loop_Goes_On (Inr ()), Loop_Goes_On (Inr ())]
      (ops_init (clock_ist 9 10 0)) = Some y' \<and> sy_jobs y' = [(By_Loop, ''stream_start'')]"
proof -
  let ?t = "clock_ist 9 10 0"
  have now: "env_now ist_env ?t = Inr (?t + zone_us ist_minutes)" by (rule constant_zone_now [OF ist_env_zone])
  have inside: "inside_recovery_window (oe_settings ist_env) (?t + zone_us ist_minutes) = Inr True" by code_simp
  have idle: "due_job (oe_settings ist_env) (oe_poll_us ist_env) (?t + zone_us ist_minutes) = Inr None" by code_simp
  have enabled: "market_ops_automation_enabled (oe_settings ist_env)" "market_ops_login_recovery_enabled (oe_settings ist_env)"
    by (simp_all add: ist_env_def ops_settings_def)
  have y: "sy_loop (ops_init ?t) = Not_Running" "\<not> sy_locked (ops_init ?t)" "sy_now (ops_init ?t) = ?t"
    "sy_jobs (ops_init ?t) = []" by (simp_all add: ops_init_def)
  from late_start_tries_at_once [OF enabled y(1,2) _ inside idle, of "Inl (OtherError ''x'')" "Inr ()" "Inr ()"]
  show ?thesis by (auto simp: y now simp del: ops_run.simps)
qed

subsection \<open>The slots of the scanner\<close>

definition wall_of :: "int \<Rightarrow> int \<Rightarrow> int \<Rightarrow> int" where
  "wall_of h m s = day_us + h * 60 * minute_us + m * minute_us + s * second_us"

text \<open>No slot of the scanner is missed when the ticks of the loop are at most the poll interval apart: if a
  slot of the day falls after one tick and not after the next, then at the next tick its batch is due,
  unless a daily action is configured for that minute.\<close>

theorem close_ticks_meet_slots:
  assumes start: "ops_time (market_ops_scanner_start_time s) = Inr start"
    and stop: "ops_time (market_ops_scanner_stop_time s) = Inr stop" "wall_time wall \<le> stop"
    and slot: "slot_at = wall_date wall * day_us + start + k * market_ops_scanner_interval_seconds s * second_us" "0 \<le> k"
    and ticks: "before < slot_at" "slot_at \<le> wall" "wall - before \<le> poll_us"
    and poll: "poll_us \<le> market_ops_scanner_interval_seconds s * second_us" "0 < market_ops_scanner_interval_seconds s"
    and free: "due_one_shot (wall_time wall) (one_shots s) = Inr None"
  shows "due_job s poll_us wall = Inr (Some (''scanner_batch'', slot_key (wall_date wall) k))"
proof -
  let ?n = "market_ops_scanner_interval_seconds s" and ?start = "wall_date wall * day_us + start"
  have wall: "wall = wall_date wall * day_us + wall_time wall" by (simp add: wall_date_def wall_time_def)
  have low: "k * (?n * second_us) \<le> wall - ?start" and high: "wall - ?start < (k + 1) * (?n * second_us)"
    using slot(1) ticks poll(1) by (simp_all add: algebra_simps)
  have "0 \<le> k * (?n * second_us)" using slot(2) poll(2) by (simp add: second_us_def)
  with low wall have after: "start \<le> wall_time wall" by linarith
  have "(wall - ?start) div (?n * second_us) = k"
    using low high
    by (intro int_div_pos_eq [where r = "wall - ?start - k * (?n * second_us)"]) (simp_all add: algebra_simps)
  then have "(wall - ?start) div second_us div ?n = k"
    using poll(2) by (simp add: zdiv_zmult2_eq [symmetric] second_us_def mult.commute)
  moreover have "wall - slot_at < poll_us" using ticks by linarith
  ultimately show ?thesis
    using start stop after free poll(2) ticks(2) slot(1) by (simp add: due_job_def due_slot_def Let_def algebra_simps)
qed

theorem close_ticks_meet_slots_witness:
  "due_job default_settings (5 * second_us) (wall_of 10 13 2) = Inr (Some (''scanner_batch'', slot_key 1 1))"
proof -
  have f: "ops_time (market_ops_scanner_start_time default_settings) = Inr (wall_of 10 8 0 - day_us)"
    "ops_time (market_ops_scanner_stop_time default_settings) = Inr (wall_of 15 0 0 - day_us)"
    "wall_time (wall_of 10 13 2) \<le> wall_of 15 0 0 - day_us" "wall_date (wall_of 10 13 2) = 1"
    "market_ops_scanner_interval_seconds default_settings = 300"
    "due_one_shot (wall_time (wall_of 10 13 2)) (one_shots default_settings) = Inr None"
    by code_simp+
  show ?thesis
    using close_ticks_meet_slots [OF f(1,2,3) refl, of 1 "wall_of 10 12 58" "5 * second_us"] f(4,5,6)
    by (simp add: wall_of_def day_us_def second_us_def minute_us_def)
qed

text \<open>
  The loop sleeps for the poll interval after each tick, so two ticks are further apart by what a tick
  takes; a slot between them may then be due at neither.
\<close>

lemma late_tick_misses_slot:
  "due_job default_settings (5 * second_us) (wall_of 10 13 0 - 1) = Inr None
   \<and> due_job default_settings (5 * second_us) (wall_of 10 13 5) = Inr None"
  by code_simp

text \<open>Of two daily actions of the same minute the second is never due.\<close>

lemma same_minute_hides_second:
  "due_job (default_settings\<lparr>market_ops_stream_verify_time := ''09:08''\<rparr>) poll_us wall
     \<noteq> Inr (Some (''stream_verify'', key))"
proof -
  have t: "ops_time ''09:08'' = Inr (548 * minute_us)" "ops_time ''08:55'' = Inr (535 * minute_us)"
    "ops_time ''10:07'' = Inr (607 * minute_us)" "ops_time ''15:31'' = Inr (931 * minute_us)"
    by code_simp+
  show ?thesis
    by (auto simp: due_job_def one_shots_def default_settings_def t due_slot_def Let_def bindE_def
      split: sum.splits if_splits)
qed

subsection \<open>One login link\<close>

lemma schedule_next_recovery_eq:
  "schedule_next_recovery env now c =
     (case next_retry env now of Inl e \<Rightarrow> (Inl e, c) | Inr t \<Rightarrow> (Inr (), c\<lparr>sd_next_retry_at := Some t\<rparr>))"
  by (simp add: schedule_next_recovery_def bindS_def split: sum.splits)

lemma arm_link_sent:
  assumes "sd_pending_action c \<noteq> None" "sd_login_link_sent c"
  shows "arm_login_recovery env now link c = arm_login_recovery env now link' c"
    and "sd_login_link_sent (snd (arm_login_recovery env now link c))"
  using assms by (auto simp: arm_login_recovery_eq Let_def split: sum.splits)

lemma process_link_sent:
  assumes "sd_pending_action c \<noteq> None" "sd_login_link_sent c"
  shows "process_recovery_summary env now link name m c = process_recovery_summary env now link' name m c"
    and "sd_pending_action (snd (process_recovery_summary env now link name m c)) = None
      \<or> sd_login_link_sent (snd (process_recovery_summary env now link name m c))"
proof -
  show "process_recovery_summary env now link name m c = process_recovery_summary env now link' name m c"
    using arm_link_sent(1) [OF assms]
    by (cases "name \<in> set [''preopen_check'', ''stream_start''] \<and> login_missing m")
      (simp_all only: process_recovery_summary_def if_True if_False simp_thms)
  show "sd_pending_action (snd (process_recovery_summary env now link name m c)) = None
      \<or> sd_login_link_sent (snd (process_recovery_summary env now link name m c))"
  proof (cases "name \<in> set [''preopen_check'', ''stream_start''] \<and> login_missing m")
    case True
    then show ?thesis using arm_link_sent(2) [OF assms] by (simp only: process_recovery_summary_def if_True simp_thms)
  next
    case False
    consider "name = ''stream_start''" | "name = ''stream_verify''" "name \<noteq> ''stream_start''"
      | "name \<noteq> ''stream_start''" "name \<noteq> ''stream_verify''" by blast
    then show ?thesis
      by cases (use assms False in \<open>simp_all only: process_recovery_summary_def if_False\<close>,
        simp_all add: bindS_def schedule_next_recovery_eq split: sum.splits)
  qed
qed

lemma notify_event_link [simp]: "sd_login_link_sent (notify_event n c) = sd_login_link_sent c"
  by (auto simp: notify_event_def split: sum.splits)

text \<open>In an episode of the recovery whose login link has been sent, the end of a job sends no other: its
  result does not depend on what sending would do, and either the episode is over or the link still
  counts as sent.\<close>

theorem link_sent_once:
  assumes "sd_pending_action c \<noteq> None" "sd_login_link_sent c"
    and "finish_job env now link notice name outcome c = (r, c')"
  shows "finish_job env now link' notice name outcome c = (r, c') \<and> (sd_pending_action c' = None \<or> sd_login_link_sent c')"
proof (cases outcome)
  case (Inl e)
  with assms show ?thesis by (auto simp: finish_job_def tryS_def)
next
  case (Inr m)
  let ?c = "c\<lparr>sd_last := AList.update name m (sd_last c),
    sd_last_error := (if su_ok m then None else Some (su_event m)), sd_last_event_at := Some now\<rparr>"
  obtain q c1 where p: "process_recovery_summary env now link name m ?c = (q, c1)" by (metis surj_pair)
  have pc: "sd_pending_action ?c \<noteq> None" "sd_login_link_sent ?c" using assms(1,2) by simp_all
  have "process_recovery_summary env now link' name m ?c = (q, c1)"
    by (simp only: process_link_sent(1) [OF pc, of env now link name m link', symmetric] p)
  moreover have "sd_pending_action c1 = None \<or> sd_login_link_sent c1"
    using process_link_sent(2) [OF pc, of env now link name m] by (simp only: p snd_conv)
  ultimately show ?thesis using p assms(3) Inr
    by (cases q) (auto simp: finish_job_def tryS_def bindS_def)
qed

theorem link_sent_once_witness:
  "\<exists>c'. finish_job ist_env (clock_ist 9 1 0) (Inl (OtherError ''x'')) (Inr ()) ''stream_start'' (Inr missing_login)
      (new_scheduler\<lparr>sd_pending_action := Some ''stream_start'', sd_login_link_sent := True\<rparr>) = (Inr missing_login, c')
     \<and> (sd_pending_action c' = None \<or> sd_login_link_sent c')"
proof -
  let ?c = "new_scheduler\<lparr>sd_pending_action := Some ''stream_start'', sd_login_link_sent := True\<rparr>"
  let ?f = "\<lambda>link. finish_job ist_env (clock_ist 9 1 0) link (Inr ()) ''stream_start'' (Inr missing_login) ?c"
  have "fst (?f (Inr ())) = Inr missing_login" by code_simp
  then obtain c' where "?f (Inr ()) = (Inr missing_login, c')" by (cases "?f (Inr ())") auto
  from link_sent_once [OF _ _ this, of "Inl (OtherError ''x'')"] show ?thesis by auto
qed

end
