(* ===== verification/OpsExamples.thy ===== *)
theory OpsExamples
  imports OpsRuns
begin

section \<open>What the market operations jobs guarantee\<close>

text \<open>
  The properties of the jobs of \<open>MarketOps\<close>, and of their composition with the stream service, its
  readiness, the notifier and the scheduler.
\<close>

subsection \<open>Summaries\<close>

definition always_returns :: "('w, 'a) prog \<Rightarrow> bool" where
  "always_returns m \<longleftrightarrow> (\<forall>w. \<exists>x w'. m w = (Inr x, w'))"

text \<open>The clock and the notifier do not raise: the jobs call both outside their \<^verbatim>\<open>try\<close>.\<close>

definition reporting :: "'w ops_services \<Rightarrow> bool" where
  "reporting svc \<longleftrightarrow> always_returns (os_now svc) \<and> (\<forall>n. always_returns (os_notify svc n))"

text \<open>A summary is good exactly when it is an \<^verbatim>\<open>info\<close>.\<close>

definition well_levelled :: "ops_summary \<Rightarrow> bool" where
  "well_levelled m \<longleftrightarrow> (su_ok m \<longleftrightarrow> su_level m = ''info'')"

definition gives :: "('a \<Rightarrow> bool) \<Rightarrow> ('w, 'a) prog \<Rightarrow> bool" where
  "gives P m \<longleftrightarrow> (\<forall>w x w'. m w = (Inr x, w') \<longrightarrow> P x)"

named_theorems gives_intros \<open>programs whose results have a property\<close>

lemma gives_ret [gives_intros]: "P x \<Longrightarrow> gives P (retS x)"
  by (simp add: gives_def)

lemma gives_bind [gives_intros]: "(\<And>x. gives P (f x)) \<Longrightarrow> gives P (bindS m f)"
  by (fastforce simp: gives_def bindS_Inr_iff)

lemma gives_bind_result: "gives Q m \<Longrightarrow> (\<And>x. Q x \<Longrightarrow> gives P (f x)) \<Longrightarrow> gives P (bindS m f)"
  by (fastforce simp: gives_def bindS_Inr_iff)

lemma gives_if [gives_intros]: "(b \<Longrightarrow> gives P m) \<Longrightarrow> (\<not> b \<Longrightarrow> gives P m') \<Longrightarrow> gives P (if b then m else m')"
  by simp

lemma gives_try: "gives P m \<Longrightarrow> (\<And>e k. h e = Some k \<Longrightarrow> gives P k) \<Longrightarrow> gives P (tryS m h)"
  by (fastforce simp: gives_def tryS_def split: sum.splits prod.splits option.splits)

lemma gives_summary [gives_intros]:
  "(ok \<longleftrightarrow> level = ''info'') \<Longrightarrow> gives well_levelled (make_summary svc t ok skipped event level message details)"
  by (auto simp: make_summary_def well_levelled_def intro!: gives_intros)

lemma gives_failed [gives_intros]: "gives well_levelled (failed_summary svc t event message)"
  by (auto simp: failed_summary_def intro!: gives_intros)

lemma bodies_levelled:
  "gives well_levelled (preopen_body s svc t)" "gives well_levelled (start_stream_body s svc t)"
  "gives well_levelled (verify_stream_body s svc t)" "gives well_levelled (stop_stream_body svc t)"
  by (auto simp: preopen_body_def start_stream_body_def verify_stream_body_def stop_stream_body_def Let_def
    intro!: gives_intros split: if_splits)

lemma scanner_levelled: "gives well_levelled (scanner_batch_body s svc t)"
proof -
  have "gives well_levelled (make_summary svc t (ba_errors r = []) False ''scanner_batch_completed''
      (if ba_errors r = [] then ''info'' else ''warning'') ''Scanner batch completed.'' (batch_details s r))" for r
    by (auto intro!: gives_intros)
  moreover have "well_levelled m \<Longrightarrow> gives well_levelled (retS (m\<lparr>su_details := d\<rparr>))" for m d
    by (simp add: gives_def well_levelled_def)
  ultimately show ?thesis
    unfolding scanner_batch_body_def by (intro gives_bind gives_bind_result) assumption+
qed

text \<open>\<open>reports_in svc m\<close>: \<open>m\<close> ends with the notification of its summary, which it returns.\<close>

definition reports_in :: "'w ops_services \<Rightarrow> ('w, ops_summary) prog \<Rightarrow> bool" where
  "reports_in svc job \<longleftrightarrow>
     (\<forall>w. \<exists>m r w1 w'. job w = (Inr m, w') \<and> well_levelled m
        \<and> os_notify svc \<lparr>nt_level = su_level m, nt_event = su_event m, nt_message = su_message m,
             nt_details = su_details m\<rparr> w1 = (Inr r, w'))"

lemma always_returnsE: "always_returns m \<Longrightarrow> (\<And>x w'. m w = (Inr x, w') \<Longrightarrow> thesis) \<Longrightarrow> thesis"
  unfolding always_returns_def by blast

lemma returns_ret: "always_returns (retS x)"
  by (simp add: always_returns_def)

lemma returns_bind:
  assumes "always_returns m" "\<And>x. always_returns (f x)"
  shows "always_returns (bindS m f)"
  unfolding always_returns_def
proof
  fix w
  obtain x w1 where "m w = (Inr x, w1)" by (rule always_returnsE [OF assms(1)])
  moreover obtain y w2 where "f x w1 = (Inr y, w2)" by (rule always_returnsE [OF assms(2)])
  ultimately show "\<exists>y w2. bindS m f w = (Inr y, w2)" by simp
qed

lemma returns_try:
  assumes "\<And>e. \<exists>k. h e = Some k \<and> always_returns k"
  shows "always_returns (tryS m h)"
  unfolding always_returns_def
proof
  fix w
  obtain x w1 where m: "m w = (x, w1)" by (metis surj_pair)
  show "\<exists>y w2. tryS m h w = (Inr y, w2)"
  proof (cases x)
    case (Inl e)
    from assms obtain k where "h e = Some k" "always_returns k" by blast
    then show ?thesis using m Inl by (auto simp: tryS_def always_returns_def)
  qed (use m in \<open>simp add: tryS_def\<close>)
qed

lemma returns_summary: "reporting svc \<Longrightarrow> always_returns (make_summary svc t ok skipped event level message details)"
  unfolding make_summary_def reporting_def by (intro returns_bind returns_ret) simp

lemma returns_failed: "reporting svc \<Longrightarrow> always_returns (failed_summary svc t event message)"
  unfolding failed_summary_def by (rule returns_summary)

lemma reports_notify:
  assumes "reporting svc" "always_returns m" "gives well_levelled m"
  shows "reports_in svc (bindS m (notify_summary svc))"
  unfolding reports_in_def
proof
  fix w
  obtain x w1 where m: "m w = (Inr x, w1)" by (rule always_returnsE [OF assms(2)])
  let ?n = "\<lparr>nt_level = su_level x, nt_event = su_event x, nt_message = su_message x, nt_details = su_details x\<rparr>"
  obtain r w' where n: "os_notify svc ?n w1 = (Inr r, w')"
    using assms(1) always_returnsE [of "os_notify svc ?n" w1] by (auto simp: reporting_def)
  have "bindS m (notify_summary svc) w = (Inr x, w')" using m n by (simp add: notify_summary_def)
  with m n assms(3) show "\<exists>m' r w1 w'. bindS m (notify_summary svc) w = (Inr m', w') \<and> well_levelled m'
      \<and> os_notify svc \<lparr>nt_level = su_level m', nt_event = su_event m', nt_message = su_message m',
           nt_details = su_details m'\<rparr> w1 = (Inr r, w')"
    by (auto simp: gives_def)
qed

lemma reports_bind:
  assumes "always_returns m" "\<And>x. reports_in svc (f x)"
  shows "reports_in svc (bindS m f)"
  unfolding reports_in_def
proof
  fix w
  obtain x w1 where "m w = (Inr x, w1)" by (rule always_returnsE [OF assms(1)])
  then have "bindS m f w = f x w1" by simp
  with assms(2) [of x] show "\<exists>m' r w1 w'. bindS m f w = (Inr m', w') \<and> well_levelled m'
      \<and> os_notify svc \<lparr>nt_level = su_level m', nt_event = su_event m', nt_message = su_message m',
           nt_details = su_details m'\<rparr> w1 = (Inr r, w')"
    by (simp add: reports_in_def)
qed

lemma reports_if: "(b \<Longrightarrow> reports_in svc m) \<Longrightarrow> (\<not> b \<Longrightarrow> reports_in svc m') \<Longrightarrow> reports_in svc (if b then m else m')"
  by simp

lemma reports_guarded:
  assumes r: "reporting svc" and "\<And>t. gives well_levelled (body t)"
  shows "reports_in svc (guarded_job svc event message body)"
  unfolding guarded_job_def
  using assms by (intro reports_bind reports_notify returns_try gives_try)
    (auto simp: reporting_def intro: gives_failed returns_failed [OF r])

lemma reports_selection:
  assumes r: "reporting svc" shows "reports_in svc (run_universe_selection s svc)"
  unfolding run_universe_selection_def
  using r by (intro reports_bind reports_if reports_notify returns_summary returns_try gives_try gives_intros)
    (auto simp: reporting_def intro!: gives_intros returns_summary [OF r] returns_failed [OF r])

lemma reports_scanner:
  assumes r: "reporting svc" shows "reports_in svc (run_scanner_batch s svc)"
  unfolding run_scanner_batch_def
  using r by (intro reports_bind reports_notify returns_try gives_try scanner_levelled)
    (auto simp: reporting_def intro!: gives_intros returns_summary [OF r] returns_failed [OF r])

text \<open>C25: Every job of the scheduler returns a summary whatever its services do, as long as the clock and the
  notifier do not raise: no exception of a service leaves a job, the summary is good exactly when its
  level is info, and the last thing the job does is to notify that summary.\<close>

theorem jobs_always_report:
  assumes "reporting svc" "job_method s svc name = Some job"
  shows "reports_in svc job"
  using assms
  by (auto simp: job_method_def preopen_check_def start_stream_if_ready_def verify_stream_def stop_stream_def
    intro: reports_guarded reports_selection reports_scanner bodies_levelled split: if_splits)

text \<open>
  Services over the requests sent: the notifier is that of the model, everything else fails. With them
  every job takes its error path and still reports.
\<close>

definition broken :: "('w, 'a) prog" where
  "broken = raiseS (OtherError ''ServiceError'')"

definition failing_services :: "settings \<Rightarrow> instant \<Rightarrow> (http_request list) ops_services" where
  "failing_services s now =
     \<lparr>os_morning_readiness = broken, os_stream_readiness = broken, os_stream_start = broken, os_stream_stop = broken,
      os_stream_status = broken, os_select = (\<lambda>_. broken), os_run_batch = (\<lambda>_. broken),
      os_notify = notify (\<lambda>_. []) s now (\<lambda>_ _. Inr ()), os_test_notification = broken, os_decision_status = None,
      os_evaluate_batch = (\<lambda>_. broken), os_login_url = None, os_now = retS now\<rparr>"

lemma notify_returns: "always_returns (notify num_repr s now sender n)"
  by (auto simp: always_returns_def notify_def Let_def bindS_def modifyS_def retS_def split: option.splits)

lemma failing_reporting: "reporting (failing_services s now)"
  by (simp add: reporting_def failing_services_def notify_returns returns_ret)

theorem jobs_always_report_witness:
  "\<exists>m w'. run_scanner_batch default_settings (failing_services default_settings 0) [] = (Inr m, w') \<and> well_levelled m
     \<and> \<not> su_ok m"
proof -
  have job: "job_method default_settings (failing_services default_settings 0) ''scanner_batch''
      = Some (run_scanner_batch default_settings (failing_services default_settings 0))"
    by (simp add: job_method_def)
  have "case run_scanner_batch default_settings (failing_services default_settings 0) [] of
      (Inr m, w') \<Rightarrow> \<not> su_ok m | _ \<Rightarrow> False" by code_simp
  with jobs_always_report [OF failing_reporting job] show ?thesis
    unfolding reports_in_def by (auto dest!: spec [of _ "[]"])
qed

subsection \<open>The stream is started only when it may be\<close>

definition start_allowed :: "settings \<Rightarrow> (string \<times> json) list \<Rightarrow> bool" where
  "start_allowed s readiness \<longleftrightarrow>
     (market_ops_require_kite_session s \<longrightarrow> truthy (jget readiness ''kite_session_ready''))
     \<and> (market_ops_require_watchlist_ready s \<longrightarrow> truthy (jget readiness ''watchlist_ready''))
     \<and> \<not> truthy (jget readiness ''stream_already_running'') \<and> truthy (jget readiness ''can_start_stream'')"

lemma start_stream_body_closed:
  assumes "os_stream_readiness svc w = (r, w1)" "isl r \<or> \<not> start_allowed s (projr r)"
  shows "start_stream_body s (svc\<lparr>os_stream_start := other\<rparr>) t w = start_stream_body s svc t w"
proof (cases r)
  case (Inl e)
  with assms(1) show ?thesis by (simp add: start_stream_body_def)
next
  case (Inr d)
  with assms show ?thesis
    by (auto simp: start_stream_body_def start_allowed_def make_summary_def Let_def)
qed

text \<open>C20: The market operations job does not start the stream unless the readiness report allows it: when the
  report cannot be had, or the broker session or the watchlist it has to have is missing, or the stream
  runs, or a gate is closed, then the job behaves the same whatever starting the stream would do.\<close>

theorem stream_started_only_when_ready:
  assumes "os_now svc w = (Inr t, w0)" "os_stream_readiness svc w0 = (r, w1)"
    and "isl r \<or> \<not> start_allowed s (projr r)"
  shows "start_stream_if_ready s (svc\<lparr>os_stream_start := other\<rparr>) w = start_stream_if_ready s svc w"
proof -
  have f: "failed_summary (svc\<lparr>os_stream_start := other\<rparr>) = failed_summary svc"
    "notify_summary (svc\<lparr>os_stream_start := other\<rparr>) = notify_summary svc"
    by (auto simp: fun_eq_iff failed_summary_def make_summary_def notify_summary_def)
  have "tryS (start_stream_body s (svc\<lparr>os_stream_start := other\<rparr>) t) h w0 = tryS (start_stream_body s svc t) h w0" for h
    by (simp add: tryS_def start_stream_body_closed [OF assms(2,3)])
  then show ?thesis
    using assms(1) by (simp add: start_stream_if_ready_def guarded_job_def f bindS_def)
qed

theorem stream_started_only_when_ready_witness:
  "\<forall>other. start_stream_if_ready default_settings
      ((failing_services default_settings 7)\<lparr>os_stream_readiness := retS [(''kite_session_ready'', JBool False)],
         os_stream_start := other\<rparr>) []
   = start_stream_if_ready default_settings
      ((failing_services default_settings 7)\<lparr>os_stream_readiness := retS [(''kite_session_ready'', JBool False)]\<rparr>) []"
proof -
  have "\<not> start_allowed default_settings [(''kite_session_ready'', JBool False)]"
    by (simp add: start_allowed_def jget_def default_settings_def)
  then show ?thesis
    by (intro allI stream_started_only_when_ready [where t = 7 and ?w0.0 = "[]" and ?w1.0 = "[]"
        and r = "Inr [(''kite_session_ready'', JBool False)]"]) (simp_all add: failing_services_def)
qed

subsection \<open>Verification of the stream\<close>

text \<open>What the verification job calls healthy of the real stream: with the report of the readiness service
  made of the stream's own status, the stream is healthy exactly when it runs, is connected (where that is
  required), has as many subscribed as configured symbols, has no last error and is not stale.\<close>

theorem verification_of_status:
  "stream_healthy s (readiness_as_dict s' watchlist (stream_status_as_dict t)
       (readiness_of s' watchlist session (stream_status_as_dict t))) (stream_status_as_dict t)
   \<longleftrightarrow> tu_running t \<and> (if market_ops_require_stream_connected s then tu_connected t else True)
     \<and> wv_configured_count watchlist = tu_subscribed_symbols t \<and> tu_last_error t = None \<and> \<not> tu_stale t"
  by (auto simp: stream_healthy_def readiness_as_dict_def readiness_of_def stream_status_as_dict_def Let_def jget_def
    json_as_int_def jopt_def split: option.splits)

text \<open>
  So a stream whose websocket failed and then reconnected is never verified again, whatever it
  receives: the error stays (\<open>reconnect_keeps_error\<close>) until the stream is stopped.
\<close>

lemma reconnected_stream_unhealthy:
  assumes "tu_last_error t = Some e"
  shows "\<not> stream_healthy s (readiness_as_dict s' watchlist (stream_status_as_dict t) r) status"
proof -
  have "jget (readiness_as_dict s' watchlist (stream_status_as_dict t) r) ''last_error'' = JStr e"
    unfolding readiness_keys using assms by (simp add: jget_def stream_status_as_dict_def jopt_def)
  then show ?thesis by (simp add: stream_healthy_def)
qed

subsection \<open>A missing login\<close>

lemma finish_job_armed:
  assumes "name \<in> set [''preopen_check'', ''stream_start'']" "login_missing m" "next_retry env now = Inr t"
  shows "\<exists>c'. snd (finish_job env now link notice name (Inr m) c) = c' \<and> sd_waiting_for_login c'
    \<and> sd_pending_action c' = Some ''stream_start'' \<and> sd_login_link_sent c' \<and> sd_next_retry_at c' = Some t"
proof -
  let ?c = "c\<lparr>sd_last := AList.update name m (sd_last c),
    sd_last_error := (if su_ok m then None else Some (su_event m)), sd_last_event_at := Some now\<rparr>"
  have "process_recovery_summary env now link name m ?c = arm_login_recovery env now link ?c"
    using assms(1,2) by (simp add: process_recovery_summary_def)
  then show ?thesis
    using assms(3)
    by (auto simp: finish_job_def tryS_def bindS_def arm_login_recovery_eq Let_def notify_event_def split: sum.splits)
qed


definition empty_watchlist :: watchlist_validation_result where
  "empty_watchlist = \<lparr>wv_raw_watchlist = [], wv_source = [], wv_configured_count = 0, wv_max_instruments = 0,
     wv_parsed_symbols = [], wv_normalized_symbols = [], wv_invalid_format_symbols = [], wv_duplicate_symbols = [],
     wv_non_nse_symbols = [], wv_blank_entries = [], wv_over_limit = False, wv_resolved_symbols = [],
     wv_missing_symbols = [], wv_inactive_symbols = [], wv_unresolved_symbols = [], wv_ready_for_instrument_sync = False,
     wv_ready_for_stream = False, wv_errors = [], wv_warnings = []\<rparr>"

definition no_logins :: database where
  "no_logins =
     \<lparr>db_now = 0, db_broker_sessions = [], db_instruments = [], db_candles = [], db_signals = [],
      db_recommendations = [], db_orders = [], db_order_events = [], db_trades = [], db_journal_entries = [],
      db_model_runs = [], db_universe_runs = []\<rparr>"


subsection \<open>The decisions after a batch\<close>

text \<open>A failure of the automatic decisions does not touch the scanner batch it follows: the batch is reported
  as completed, good exactly when no symbol failed, and the failed evaluation is counted in its details.\<close>

theorem decision_failure_stays_aside:
  assumes "reporting svc" "os_decision_status svc = Some status"
    and batch: "\<And>q w. fst (os_run_batch svc q w) = Inr result"
    and failing: "\<And>q w. isl (fst (os_evaluate_batch svc q w))"
  shows "\<exists>m w'. run_scanner_batch s svc w = (Inr m, w') \<and> su_event m = ''scanner_batch_completed''
    \<and> (su_ok m \<longleftrightarrow> ba_errors result = [])
    \<and> jget (su_details m) ''decision_auto_evaluation''
        = JObj (no_decisions [(''error_code'', JStr ''decision_auto_batch_failed'')] 1 0)"
proof -
  let ?d = "no_decisions [(''error_code'', JStr ''decision_auto_batch_failed'')] 1 0"
  have notifies: "always_returns (os_notify svc n)" and clock: "always_returns (os_now svc)" for n
    using assms(1) by (simp_all add: reporting_def)
  have evaluation: "\<exists>w'. run_decision_auto_evaluation s svc result w = (Inr ?d, w')" for w
  proof -
    let ?q = "\<lparr>dq_started_at = ba_started_at result, dq_finished_at = ba_finished_at result,
      dq_symbols = map sy_symbol (ba_per_symbol result), dq_dry_run = market_ops_dry_run s,
      dq_candidate_count = int (ba_total_candidates result)\<rparr>"
    obtain e w' where "os_evaluate_batch svc ?q w = (Inl e, w')"
      using failing [of ?q w] by (cases "os_evaluate_batch svc ?q w"; cases "fst (os_evaluate_batch svc ?q w)") auto
    then show ?thesis using assms(2) by (simp add: run_decision_auto_evaluation_def tryS_def)
  qed
  have body: "\<exists>m w'. scanner_batch_body s svc t w = (Inr m, w') \<and> su_event m = ''scanner_batch_completed''
    \<and> (su_ok m \<longleftrightarrow> ba_errors result = []) \<and> jget (su_details m) ''decision_auto_evaluation'' = JObj ?d" for t w
  proof -
    let ?q = "\<lparr>oq_store_rejections = market_ops_store_rejections s, oq_dry_run = market_ops_dry_run s,
      oq_use_latest_universe = market_ops_use_selected_universe_for_scanner s\<rparr>"
    obtain w1 where w1: "os_run_batch svc ?q w = (Inr result, w1)" using batch [of ?q w] by (metis fst_conv surj_pair)
    obtain t2 w2 where w2: "os_now svc w1 = (Inr t2, w2)" by (rule always_returnsE [OF clock])
    let ?n = "\<lparr>nt_level = ''info'', nt_event = ''scanner_candidates_found'',
      nt_message = ''Deterministic scanner candidates were found.'',
      nt_details = [(''candidate_count'', JInt (int (ba_total_candidates result))),
        (''symbols'', jstrs (candidate_symbols result))]\<rparr>"
    obtain r w3 where w3: "os_notify svc ?n w2 = (Inr r, w3)" by (rule always_returnsE [OF notifies])
    obtain w4 where w4: "run_decision_auto_evaluation s svc result w3 = (Inr ?d, w4)" using evaluation by blast
    obtain w5 where w5: "run_decision_auto_evaluation s svc result w2 = (Inr ?d, w5)" using evaluation by blast
    show ?thesis
      using w1 w2 w3 w4 w5 by (cases "ba_total_candidates result = 0")
        (simp_all add: scanner_batch_body_def make_summary_def jget_jset)
  qed
  let ?n = "\<lparr>nt_level = ''info'', nt_event = ''scanner_batch_started'', nt_message = ''Scanner batch started.'',
    nt_details = [(''symbol_source'', symbol_source s), (''dry_run'', JBool (market_ops_dry_run s))]\<rparr>"
  obtain t1 w1 where w1: "os_now svc w = (Inr t1, w1)" by (rule always_returnsE [OF clock])
  obtain r w2 where w2: "os_notify svc ?n w1 = (Inr r, w2)" by (rule always_returnsE [OF notifies])
  obtain m w3 where w3: "scanner_batch_body s svc t1 w2 = (Inr m, w3)" "su_event m = ''scanner_batch_completed''"
    "su_ok m \<longleftrightarrow> ba_errors result = []" "jget (su_details m) ''decision_auto_evaluation'' = JObj ?d"
    using body by blast
  obtain r' w4 where w4: "os_notify svc \<lparr>nt_level = su_level m, nt_event = su_event m, nt_message = su_message m,
      nt_details = su_details m\<rparr> w3 = (Inr r', w4)" by (rule always_returnsE [OF notifies])
  have "run_scanner_batch s svc w = (Inr m, w4)"
    using w1 w2 w3(1) w4 by (simp add: run_scanner_batch_def notify_summary_def tryS_def bindS_def)
  with w3 show ?thesis by blast
qed

definition one_batch :: scanner_batch_result where
  "one_batch = \<lparr>ba_evaluated_symbols = 1, ba_total_evaluated = 4, ba_total_inserted = 1, ba_total_duplicates = 0,
     ba_total_candidates = 1, ba_total_rejected = 3, ba_per_symbol = [], ba_errors = [], ba_started_at = 0,
     ba_finished_at = 9\<rparr>"

theorem decision_failure_stays_aside_witness:
  "\<exists>m w'. run_scanner_batch default_settings ((failing_services default_settings 7)
       \<lparr>os_decision_status := Some (retS []), os_run_batch := (\<lambda>_. retS one_batch)\<rparr>) [] = (Inr m, w') \<and> su_ok m"
proof -
  let ?svc = "(failing_services default_settings 7)\<lparr>os_decision_status := Some (retS []), os_run_batch := (\<lambda>_. retS one_batch)\<rparr>"
  have r: "reporting ?svc" using failing_reporting [of default_settings 7] by (simp add: reporting_def)
  from decision_failure_stays_aside [OF r, of "retS []" one_batch default_settings "[]"] show ?thesis
    by (auto simp: failing_services_def broken_def one_batch_def)
qed

subsection \<open>An episode that outlives its window\<close>

text \<open>
  The end of the window is noticed only by a tick. When the loop is stopped during an episode and
  started again outside the window, on another day too, the episode goes on: the next missing login
  finds it open and its link sent, so by \<open>link_sent_once\<close> no new link is sent.
\<close>

lemma episode_outlives_stop:
  assumes "market_ops_automation_enabled (oe_settings env)" "sy_now y \<le> t" "env_now env t = Inr wall"
    and "inside_recovery_window (oe_settings env) wall = Inr False"
  shows "\<exists>y'. ops_run env [Stop notice, Clock_At t, Start notice'] y = Some y'
    \<and> sy_loop y' = At_Due \<and> sd_pending_action (sy_sched y') = sd_pending_action (sy_sched y)
    \<and> sd_login_link_sent (sy_sched y') = sd_login_link_sent (sy_sched y)"
proof -
  have same: "sd_login_link_sent (notify_event n c) = sd_login_link_sent c" for n c
    by (auto simp: notify_event_def split: sum.splits)
  have prepare: "prepare_late_start_recovery env t c = (Inr (), c)" for c
    using assms(3,4) by (simp add: prepare_late_start_recovery_def bindS_def)
  show ?thesis
    using assms(1,2) prepare by (auto simp: stop_loop_def start_loop_def same)
qed

end
