(* ===== verification/SchemaTables.thy ===== *)
theory SchemaTables
  imports PyStr
begin

section \<open>The declared tables\<close>

text \<open>
  \<^verbatim>\<open>app/models/schema.py\<close> as data: the columns, constraints and indexes that the metadata declares, with
  the names its naming convention gives. \<open>Migrations\<close> compares them with what the migrations leave in
  a database.
\<close>

subsection \<open>Columns, constraints and indexes\<close>

datatype (plugins only: code size) sql_type =
    T_Integer | T_String int | T_Text | T_Boolean | T_Date | T_Timestamp | T_Numeric int int | T_Jsonb

datatype (plugins only: code size) server_default = Literal string | Expression string | Now

definition empty_object :: server_default where
  "empty_object = Expression ([CHR 0x27] @ ''{}'' @ [CHR 0x27] @ ''::jsonb'')"

definition empty_array :: server_default where
  "empty_array = Expression ([CHR 0x27] @ ''[]'' @ [CHR 0x27] @ ''::jsonb'')"

text \<open>A \<^verbatim>\<open>Column\<close> with its flags; a foreign key is the table and the column it refers to.\<close>

record sa_column =
  sa_name :: string
  sa_type :: sql_type
  sa_nullable :: bool
  sa_default :: "server_default option"
  sa_primary :: bool
  sa_unique :: bool
  sa_foreign :: "(string \<times> string) option"

definition col :: "string \<Rightarrow> sql_type \<Rightarrow> bool \<Rightarrow> server_default option \<Rightarrow> sa_column" where
  "col name ty nullable d =
     \<lparr>sa_name = name, sa_type = ty, sa_nullable = nullable, sa_default = d, sa_primary = False,
      sa_unique = False, sa_foreign = None\<rparr>"

definition key_col :: "string \<Rightarrow> sa_column" where
  "key_col name = (col name T_Integer False None)\<lparr>sa_primary := True\<rparr>"

text \<open>The type of such a column is the one of the column it refers to: all of these are integers.\<close>

definition foreign_col :: "string \<Rightarrow> string \<Rightarrow> string \<Rightarrow> bool \<Rightarrow> sa_column" where
  "foreign_col name table column nullable = (col name T_Integer nullable None)\<lparr>sa_foreign := Some (table, column)\<rparr>"

datatype (plugins only: code size) constraint =
    Primary string "string list"
  | Unique string "string list"
  | Foreign string string string string
  | Check string string

record index =
  ix_name :: string
  ix_table :: string
  ix_columns :: "string list"
  ix_unique :: bool
  ix_where :: "string option"

definition index_def :: "string \<Rightarrow> string \<Rightarrow> string list \<Rightarrow> bool \<Rightarrow> string option \<Rightarrow> index" where
  "index_def name table columns uniq_flag cond =
     \<lparr>ix_name = name, ix_table = table, ix_columns = columns, ix_unique = uniq_flag, ix_where = cond\<rparr>"

record table_decl =
  td_name :: string
  td_columns :: "sa_column list"
  td_constraints :: "constraint list"

text \<open>The naming convention of the metadata.\<close>

definition check_name :: "string \<Rightarrow> string \<Rightarrow> string" where
  "check_name table name = ''ck_'' @ table @ ''_'' @ name"

definition primary_name :: "string \<Rightarrow> string" where
  "primary_name table = ''pk_'' @ table"

definition unique_name :: "string \<Rightarrow> string \<Rightarrow> string" where
  "unique_name table column = ''uq_'' @ table @ ''_'' @ column"

definition foreign_name :: "string \<Rightarrow> string \<Rightarrow> string \<Rightarrow> string" where
  "foreign_name table column referred = ''fk_'' @ table @ ''_'' @ column @ ''_'' @ referred"

subsection \<open>The metadata\<close>

definition meta_system_events :: table_decl where
  "meta_system_events = \<lparr>td_name = ''system_events'', td_columns =
      [key_col ''id'',
       col ''event_type'' (T_String 100) False None,
       col ''severity'' (T_String 20) False (Some (Literal ''info'')),
       col ''message'' T_Text False None,
       col ''details'' T_Jsonb False (Some empty_object),
       col ''created_at'' T_Timestamp False (Some Now)],
    td_constraints = []\<rparr>"

definition meta_trading_sessions :: table_decl where
  "meta_trading_sessions = \<lparr>td_name = ''trading_sessions'', td_columns =
      [key_col ''id'',
       (col ''session_date'' T_Date False None)\<lparr>sa_unique := True\<rparr>,
       col ''trading_mode'' (T_String 20) False (Some (Literal ''OFF'')),
       col ''live_armed'' T_Boolean False (Some (Literal ''false'')),
       col ''kill_switch_active'' T_Boolean False (Some (Literal ''false'')),
       col ''created_at'' T_Timestamp False (Some Now),
       col ''updated_at'' T_Timestamp False (Some Now)],
    td_constraints = []\<rparr>"

definition meta_broker_sessions :: table_decl where
  "meta_broker_sessions = \<lparr>td_name = ''broker_sessions'', td_columns =
      [key_col ''id'',
       col ''broker'' (T_String 50) False None,
       col ''user_id'' (T_String 100) True None,
       col ''status'' (T_String 50) False None,
       col ''login_at'' T_Timestamp True None,
       col ''expires_at'' T_Timestamp False None,
       col ''encrypted_access_token'' T_Text False None,
       col ''invalidated_at'' T_Timestamp True None,
       col ''created_at'' T_Timestamp False (Some Now),
       col ''updated_at'' T_Timestamp False (Some Now)],
    td_constraints = []\<rparr>"

definition meta_instruments :: table_decl where
  "meta_instruments = \<lparr>td_name = ''instruments'', td_columns =
      [key_col ''id'',
       (col ''kite_instrument_token'' (T_String 64) False None)\<lparr>sa_unique := True\<rparr>,
       col ''exchange'' (T_String 20) False None,
       col ''tradingsymbol'' (T_String 100) False None,
       col ''name'' (T_String 255) True None,
       col ''instrument_type'' (T_String 50) False None,
       col ''tick_size'' (T_Numeric 12 4) False None,
       col ''lot_size'' T_Integer False (Some (Literal ''1'')),
       col ''is_active'' T_Boolean False (Some (Literal ''true'')),
       col ''updated_at'' T_Timestamp False (Some Now)],
    td_constraints = [Unique ''uq_instruments_exchange_tradingsymbol'' [''exchange'', ''tradingsymbol'']]\<rparr>"

definition meta_candles :: table_decl where
  "meta_candles = \<lparr>td_name = ''candles'', td_columns =
      [key_col ''id'',
       foreign_col ''instrument_id'' ''instruments'' ''id'' False,
       col ''timeframe'' (T_String 20) False None,
       col ''started_at'' T_Timestamp False None,
       col ''open_price'' (T_Numeric 18 6) False None,
       col ''high_price'' (T_Numeric 18 6) False None,
       col ''low_price'' (T_Numeric 18 6) False None,
       col ''close_price'' (T_Numeric 18 6) False None,
       col ''volume'' T_Integer False (Some (Literal ''0'')),
       col ''source'' (T_String 50) False (Some (Literal ''KITE_WEBSOCKET'')),
       col ''created_at'' T_Timestamp False (Some Now)],
    td_constraints = [Unique ''uq_candles_identity'' [''instrument_id'', ''timeframe'', ''started_at'']]\<rparr>"

definition meta_signals :: table_decl where
  "meta_signals = \<lparr>td_name = ''signals'', td_columns =
      [key_col ''id'',
       foreign_col ''instrument_id'' ''instruments'' ''id'' False,
       col ''strategy_name'' (T_String 100) False None,
       col ''strategy_version'' (T_String 50) False (Some (Literal ''p05_v1'')),
       (col ''signal_key'' (T_String 255) False None)\<lparr>sa_unique := True\<rparr>,
       col ''signal_status'' (T_String 30) False (Some (Literal ''REJECTED_SIGNAL'')),
       col ''signal_time'' T_Timestamp False None,
       col ''direction'' (T_String 20) False None,
       col ''veto_reasons'' T_Jsonb False (Some empty_array),
       col ''replay_run_id'' (T_String 100) True None,
       col ''features'' T_Jsonb False (Some empty_object),
       col ''created_at'' T_Timestamp False (Some Now)],
    td_constraints = []\<rparr>"

definition meta_recommendations :: table_decl where
  "meta_recommendations = \<lparr>td_name = ''recommendations'', td_columns =
      [key_col ''id'',
       foreign_col ''signal_id'' ''signals'' ''id'' False,
       col ''model_run_id'' T_Integer True None,
       col ''verdict'' (T_String 50) False None,
       col ''confidence'' (T_Numeric 5 4) False (Some (Literal ''0'')),
       col ''warnings'' T_Jsonb False (Some empty_array),
       (col ''evaluation_key'' (T_String 64) True None)\<lparr>sa_unique := True\<rparr>,
       col ''rationale'' T_Text True None,
       col ''payload'' T_Jsonb False (Some empty_object),
       col ''created_at'' T_Timestamp False (Some Now)],
    td_constraints = []\<rparr>"

definition meta_risk_checks :: table_decl where
  "meta_risk_checks = \<lparr>td_name = ''risk_checks'', td_columns =
      [key_col ''id'',
       foreign_col ''recommendation_id'' ''recommendations'' ''id'' True,
       col ''result'' (T_String 50) False None,
       col ''reason'' T_Text True None,
       col ''checks'' T_Jsonb False (Some empty_object),
       col ''created_at'' T_Timestamp False (Some Now)],
    td_constraints = []\<rparr>"

definition meta_orders :: table_decl where
  "meta_orders = \<lparr>td_name = ''orders'', td_columns =
      [key_col ''id'',
       foreign_col ''risk_check_id'' ''risk_checks'' ''id'' True,
       foreign_col ''signal_id'' ''signals'' ''id'' True,
       col ''simulated'' T_Boolean False (Some (Literal ''false'')),
       (col ''broker_order_id'' (T_String 100) True None)\<lparr>sa_unique := True\<rparr>,
       foreign_col ''instrument_id'' ''instruments'' ''id'' True,
       col ''side'' (T_String 10) False None,
       col ''order_type'' (T_String 50) False None,
       col ''quantity'' T_Integer False None,
       col ''limit_price'' (T_Numeric 18 6) True None,
       col ''status'' (T_String 50) False None,
       col ''created_at'' T_Timestamp False (Some Now),
       col ''updated_at'' T_Timestamp False (Some Now)],
    td_constraints = [Check (check_name ''orders'' ''quantity_positive'') ''quantity > 0'']\<rparr>"

definition meta_order_events :: table_decl where
  "meta_order_events = \<lparr>td_name = ''order_events'', td_columns =
      [key_col ''id'',
       foreign_col ''order_id'' ''orders'' ''id'' False,
       col ''event_type'' (T_String 100) False None,
       col ''broker_status'' (T_String 100) True None,
       col ''payload'' T_Jsonb False (Some empty_object),
       col ''created_at'' T_Timestamp False (Some Now)],
    td_constraints = []\<rparr>"

definition meta_trades :: table_decl where
  "meta_trades = \<lparr>td_name = ''trades'', td_columns =
      [key_col ''id'',
       foreign_col ''signal_id'' ''signals'' ''id'' True,
       col ''simulated'' T_Boolean False (Some (Literal ''false'')),
       foreign_col ''entry_order_id'' ''orders'' ''id'' True,
       foreign_col ''exit_order_id'' ''orders'' ''id'' True,
       foreign_col ''instrument_id'' ''instruments'' ''id'' False,
       col ''quantity'' T_Integer False None,
       col ''entry_price'' (T_Numeric 18 6) True None,
       col ''exit_price'' (T_Numeric 18 6) True None,
       col ''realized_pnl'' (T_Numeric 18 6) True None,
       col ''gross_pnl'' (T_Numeric 18 6) True None,
       col ''estimated_costs'' (T_Numeric 18 6) True None,
       col ''net_pnl'' (T_Numeric 18 6) True None,
       col ''exit_reason'' (T_String 50) True None,
       col ''paper_mode'' (T_String 20) True None,
       col ''opened_at'' T_Timestamp True None,
       col ''closed_at'' T_Timestamp True None,
       col ''status'' (T_String 50) False None],
    td_constraints = [Check (check_name ''trades'' ''quantity_positive'') ''quantity > 0'']\<rparr>"

definition meta_journal_entries :: table_decl where
  "meta_journal_entries = \<lparr>td_name = ''journal_entries'', td_columns =
      [key_col ''id'',
       col ''entry_type'' (T_String 100) False None,
       col ''subject_type'' (T_String 100) True None,
       col ''subject_id'' T_Integer True None,
       col ''message'' T_Text False None,
       col ''payload'' T_Jsonb False (Some empty_object),
       col ''created_at'' T_Timestamp False (Some Now)],
    td_constraints = []\<rparr>"

definition meta_model_runs :: table_decl where
  "meta_model_runs = \<lparr>td_name = ''model_runs'', td_columns =
      [key_col ''id'',
       col ''provider'' (T_String 100) False None,
       col ''model_name'' (T_String 100) False None,
       col ''request_id'' (T_String 100) True None,
       col ''adapter'' (T_String 50) False (Some (Literal ''fake'')),
       col ''prompt_version'' (T_String 50) False (Some (Literal ''p07_v1'')),
       col ''input_hash'' (T_String 64) False (Some (Literal '''')),
       col ''latency_ms'' T_Integer True None,
       col ''error_code'' (T_String 100) True None,
       col ''input_payload'' T_Jsonb False (Some empty_object),
       col ''output_payload'' T_Jsonb False (Some empty_object),
       col ''status'' (T_String 50) False None,
       col ''created_at'' T_Timestamp False (Some Now)],
    td_constraints = []\<rparr>"

definition meta_universe_selection_runs :: table_decl where
  "meta_universe_selection_runs = \<lparr>td_name = ''universe_selection_runs'', td_columns =
      [key_col ''id'',
       (col ''run_id'' (T_String 64) False None)\<lparr>sa_unique := True\<rparr>,
       col ''created_at'' T_Timestamp False (Some Now),
       col ''started_at'' T_Timestamp False None,
       col ''finished_at'' T_Timestamp False None,
       col ''timeframe'' (T_String 20) False None,
       col ''pool_count'' T_Integer False None,
       col ''scored_count'' T_Integer False None,
       col ''selected_count'' T_Integer False None,
       col ''selected_symbols'' T_Jsonb False (Some empty_array),
       col ''ranked_symbols'' T_Jsonb False (Some empty_array),
       col ''excluded_symbols'' T_Jsonb False (Some empty_array),
       col ''config_snapshot'' T_Jsonb False (Some empty_object),
       col ''warnings'' T_Jsonb False (Some empty_array),
       col ''errors'' T_Jsonb False (Some empty_array)],
    td_constraints = []\<rparr>"

definition meta_indexes :: "index list" where
  "meta_indexes =
     [index_def ''ix_candles_instrument_timeframe_started'' ''candles'' [''instrument_id'', ''timeframe'', ''started_at''] False None,
      index_def ''ix_signals_instrument_signal_time'' ''signals'' [''instrument_id'', ''signal_time''] False None,
      index_def ''ix_signals_status_created_at'' ''signals'' [''signal_status'', ''created_at''] False None,
      index_def ''ix_journal_entries_created_at'' ''journal_entries'' [''created_at''] False None,
      index_def ''ix_broker_sessions_broker_created_at'' ''broker_sessions'' [''broker'', ''created_at''] False None,
      index_def ''ix_orders_signal_simulated'' ''orders'' [''signal_id'', ''simulated''] False None,
      index_def ''ix_trades_signal_simulated'' ''trades'' [''signal_id'', ''simulated''] False None,
      index_def ''ix_universe_selection_runs_created_at'' ''universe_selection_runs'' [''created_at''] False None,
      index_def ''ix_model_runs_input_hash'' ''model_runs'' [''input_hash''] False None,
      index_def ''ix_recommendations_signal_created_at'' ''recommendations'' [''signal_id'', ''created_at''] False None,
      index_def ''uq_trades_paper_signal_id'' ''trades'' [''signal_id''] True (Some ''simulated = true AND signal_id IS NOT NULL'')]"

definition metadata_tables :: "table_decl list" where
  "metadata_tables =
     [meta_system_events,
      meta_trading_sessions,
      meta_broker_sessions,
      meta_instruments,
      meta_candles,
      meta_signals,
      meta_recommendations,
      meta_risk_checks,
      meta_orders,
      meta_order_events,
      meta_trades,
      meta_journal_entries,
      meta_model_runs,
      meta_universe_selection_runs]"

end
