(* ===== verification/Migrations.thy ===== *)
theory Migrations
  imports SchemaTables
begin

section \<open>The migrations\<close>

text \<open>
  \<^verbatim>\<open>alembic/versions\<close>: the operations of every revision and what they do to a database, with the
  errors PostgreSQL raises for them. The properties compare the migrated database with the metadata
  and undo every revision.
\<close>

subsection \<open>A database's schema\<close>

record db_column =
  dc_name :: string
  dc_type :: sql_type
  dc_nullable :: bool
  dc_default :: "server_default option"

record table_schema =
  ts_name :: string
  ts_columns :: "db_column list"
  ts_constraints :: "constraint list"

text \<open>\<open>sc_filled\<close> are the nullable columns in which a statement has replaced every null.\<close>

record schema =
  sc_tables :: "table_schema list"
  sc_indexes :: "index list"
  sc_filled :: "(string \<times> string) list"

definition empty_schema :: schema where
  "empty_schema = \<lparr>sc_tables = [], sc_indexes = [], sc_filled = []\<rparr>"

definition db_column_of :: "sa_column \<Rightarrow> db_column" where
  "db_column_of c = \<lparr>dc_name = sa_name c, dc_type = sa_type c, dc_nullable = sa_nullable c, dc_default = sa_default c\<rparr>"

text \<open>The constraints of a table: the flags of its columns under the naming convention, then its own.\<close>

definition column_constraints :: "string \<Rightarrow> sa_column list \<Rightarrow> constraint list" where
  "column_constraints table columns =
     (let keys = map sa_name (filter sa_primary columns) in
      (if keys = [] then [] else [Primary (primary_name table) keys])
      @ map (\<lambda>c. Unique (unique_name table (sa_name c)) [sa_name c]) (filter sa_unique columns)
      @ List.map_filter (\<lambda>c. map_option (\<lambda>(referred, column).
          Foreign (foreign_name table (sa_name c) referred) (sa_name c) referred column) (sa_foreign c)) columns)"

definition table_of :: "table_decl \<Rightarrow> table_schema" where
  "table_of d =
     \<lparr>ts_name = td_name d, ts_columns = map db_column_of (td_columns d),
      ts_constraints = column_constraints (td_name d) (td_columns d) @ td_constraints d\<rparr>"

subsection \<open>Lookups\<close>

definition find_table :: "schema \<Rightarrow> string \<Rightarrow> table_schema option" where
  "find_table sc t = find (\<lambda>x. ts_name x = t) (sc_tables sc)"

definition has_columns :: "table_schema \<Rightarrow> string list \<Rightarrow> bool" where
  "has_columns x names \<longleftrightarrow> list_all (\<lambda>n. n \<in> set (map dc_name (ts_columns x))) names"

fun constraint_name :: "constraint \<Rightarrow> string" where
  "constraint_name (Primary n _) = n"
| "constraint_name (Unique n _) = n"
| "constraint_name (Foreign n _ _ _) = n"
| "constraint_name (Check n _) = n"

text \<open>The names a constraint takes among the relations: primary keys and unique constraints have an index.\<close>

fun relation_names :: "constraint \<Rightarrow> string list" where
  "relation_names (Primary n _) = [n]"
| "relation_names (Unique n _) = [n]"
| "relation_names _ = []"

definition table_relations :: "table_schema \<Rightarrow> string list" where
  "table_relations x = ts_name x # concat (map relation_names (ts_constraints x))"

definition taken_names :: "schema \<Rightarrow> string list" where
  "taken_names sc = concat (map table_relations (sc_tables sc)) @ map ix_name (sc_indexes sc)"

fun is_key :: "string \<Rightarrow> constraint \<Rightarrow> bool" where
  "is_key column (Primary _ cs) = (cs = [column])"
| "is_key column (Unique _ cs) = (cs = [column])"
| "is_key column _ = False"

text \<open>The columns exist, and a foreign key refers to a key of a table that exists.\<close>

fun constraint_fits :: "table_schema list \<Rightarrow> table_schema \<Rightarrow> constraint \<Rightarrow> bool" where
  "constraint_fits tables x (Primary _ cs) = has_columns x cs"
| "constraint_fits tables x (Unique _ cs) = has_columns x cs"
| "constraint_fits tables x (Check _ _) = True"
| "constraint_fits tables x (Foreign _ c referred column) =
     (has_columns x [c] \<and> list_ex (\<lambda>y. ts_name y = referred \<and> list_ex (is_key column) (ts_constraints y)) tables)"

fun constraint_columns :: "constraint \<Rightarrow> string list" where
  "constraint_columns (Primary _ cs) = cs"
| "constraint_columns (Unique _ cs) = cs"
| "constraint_columns (Foreign _ c _ _) = [c]"
| "constraint_columns (Check _ _) = []"

fun refers_to :: "string \<Rightarrow> constraint \<Rightarrow> bool" where
  "refers_to t (Foreign _ _ referred _) = (referred = t)"
| "refers_to t _ = False"

definition change_table :: "string \<Rightarrow> (table_schema \<Rightarrow> table_schema) \<Rightarrow> schema \<Rightarrow> schema" where
  "change_table t f sc = sc\<lparr>sc_tables := map (\<lambda>x. if ts_name x = t then f x else x) (sc_tables sc)\<rparr>"

subsection \<open>Operations\<close>

text \<open>\<open>Fill_Nulls\<close> is the \<^verbatim>\<open>UPDATE\<close> of revision 0004, which sets the column wherever it is null.\<close>

datatype (plugins only: code size) migration_op =
    Create_Table table_decl
  | Drop_Table string
  | Create_Index index
  | Drop_Index string string
  | Add_Column string sa_column
  | Drop_Column string string
  | Add_Constraint string constraint
  | Drop_Constraint string string
  | Set_Not_Null string string
  | Fill_Nulls string string

definition create_table :: "table_decl \<Rightarrow> schema \<Rightarrow> schema option" where
  "create_table d sc =
     (let x = table_of d; relations = table_relations x in
      if distinct relations \<and> list_all (\<lambda>n. n \<notin> set (taken_names sc)) relations
         \<and> distinct (map dc_name (ts_columns x)) \<and> distinct (map constraint_name (ts_constraints x))
         \<and> list_all (constraint_fits (sc_tables sc @ [x]) x) (ts_constraints x)
      then Some (sc\<lparr>sc_tables := sc_tables sc @ [x]\<rparr>) else None)"

text \<open>A table that another one refers to is not dropped.\<close>

definition drop_table :: "string \<Rightarrow> schema \<Rightarrow> schema option" where
  "drop_table t sc =
     (if find_table sc t \<noteq> None
         \<and> list_all (\<lambda>x. ts_name x = t \<or> \<not> list_ex (refers_to t) (ts_constraints x)) (sc_tables sc)
      then Some (sc\<lparr>sc_tables := filter (\<lambda>x. ts_name x \<noteq> t) (sc_tables sc),
             sc_indexes := filter (\<lambda>i. ix_table i \<noteq> t) (sc_indexes sc),
             sc_filled := filter (\<lambda>p. fst p \<noteq> t) (sc_filled sc)\<rparr>)
      else None)"

definition create_index :: "index \<Rightarrow> schema \<Rightarrow> schema option" where
  "create_index i sc =
     (case find_table sc (ix_table i) of
        Some x \<Rightarrow> if has_columns x (ix_columns i) \<and> ix_name i \<notin> set (taken_names sc)
                  then Some (sc\<lparr>sc_indexes := sc_indexes sc @ [i]\<rparr>) else None
      | None \<Rightarrow> None)"

definition drop_index :: "string \<Rightarrow> string \<Rightarrow> schema \<Rightarrow> schema option" where
  "drop_index name t sc =
     (if list_ex (\<lambda>i. ix_name i = name \<and> ix_table i = t) (sc_indexes sc)
      then Some (sc\<lparr>sc_indexes := filter (\<lambda>i. ix_name i \<noteq> name) (sc_indexes sc)\<rparr>) else None)"

text \<open>\<open>populated\<close> says that the tables hold rows: a new column must then be nullable or have a default.\<close>

definition add_column :: "bool \<Rightarrow> string \<Rightarrow> sa_column \<Rightarrow> schema \<Rightarrow> schema option" where
  "add_column populated t c sc =
     (case find_table sc t of
        Some x \<Rightarrow> if \<not> has_columns x [sa_name c] \<and> (sa_nullable c \<or> sa_default c \<noteq> None \<or> \<not> populated)
                  then Some (change_table t (\<lambda>x. x\<lparr>ts_columns := ts_columns x @ [db_column_of c],
                         ts_constraints := ts_constraints x @ column_constraints t [c]\<rparr>) sc)
                  else None
      | None \<Rightarrow> None)"

text \<open>With a column go the indexes and the constraints of its table that use it.\<close>

definition drop_column :: "string \<Rightarrow> string \<Rightarrow> schema \<Rightarrow> schema option" where
  "drop_column t c sc =
     (case find_table sc t of
        Some x \<Rightarrow>
          if has_columns x [c]
             \<and> \<not> list_ex (\<lambda>y. list_ex (\<lambda>k. case k of Foreign _ _ referred column \<Rightarrow> referred = t \<and> column = c | _ \<Rightarrow> False)
                   (ts_constraints y)) (sc_tables sc)
          then Some ((change_table t (\<lambda>x. x\<lparr>ts_columns := filter (\<lambda>k. dc_name k \<noteq> c) (ts_columns x),
                   ts_constraints := filter (\<lambda>k. c \<notin> set (constraint_columns k)) (ts_constraints x)\<rparr>) sc)
                 \<lparr>sc_indexes := filter (\<lambda>i. ix_table i \<noteq> t \<or> c \<notin> set (ix_columns i)) (sc_indexes sc),
                  sc_filled := filter (\<lambda>p. p \<noteq> (t, c)) (sc_filled sc)\<rparr>)
          else None
      | None \<Rightarrow> None)"

definition add_constraint :: "string \<Rightarrow> constraint \<Rightarrow> schema \<Rightarrow> schema option" where
  "add_constraint t k sc =
     (case find_table sc t of
        Some x \<Rightarrow> if constraint_fits (sc_tables sc) x k \<and> constraint_name k \<notin> set (map constraint_name (ts_constraints x))
                     \<and> list_all (\<lambda>n. n \<notin> set (taken_names sc)) (relation_names k)
                  then Some (change_table t (\<lambda>x. x\<lparr>ts_constraints := ts_constraints x @ [k]\<rparr>) sc) else None
      | None \<Rightarrow> None)"

definition drop_constraint :: "string \<Rightarrow> string \<Rightarrow> schema \<Rightarrow> schema option" where
  "drop_constraint name t sc =
     (case find_table sc t of
        Some x \<Rightarrow> if name \<in> set (map constraint_name (ts_constraints x))
                  then Some (change_table t (\<lambda>x. x\<lparr>ts_constraints :=
                         filter (\<lambda>k. constraint_name k \<noteq> name) (ts_constraints x)\<rparr>) sc) else None
      | None \<Rightarrow> None)"

definition set_not_null :: "bool \<Rightarrow> string \<Rightarrow> string \<Rightarrow> schema \<Rightarrow> schema option" where
  "set_not_null populated t c sc =
     (case find_table sc t of
        Some x \<Rightarrow> if has_columns x [c] \<and> (\<not> populated \<or> (t, c) \<in> set (sc_filled sc))
                  then Some (change_table t (\<lambda>x. x\<lparr>ts_columns :=
                         map (\<lambda>k. if dc_name k = c then k\<lparr>dc_nullable := False\<rparr> else k) (ts_columns x)\<rparr>) sc) else None
      | None \<Rightarrow> None)"

definition fill_nulls :: "string \<Rightarrow> string \<Rightarrow> schema \<Rightarrow> schema option" where
  "fill_nulls t c sc =
     (case find_table sc t of
        Some x \<Rightarrow> if has_columns x [c] then Some (sc\<lparr>sc_filled := (t, c) # sc_filled sc\<rparr>) else None
      | None \<Rightarrow> None)"

fun run_op :: "bool \<Rightarrow> migration_op \<Rightarrow> schema \<Rightarrow> schema option" where
  "run_op populated (Create_Table d) sc = create_table d sc"
| "run_op populated (Drop_Table t) sc = drop_table t sc"
| "run_op populated (Create_Index i) sc = create_index i sc"
| "run_op populated (Drop_Index name t) sc = drop_index name t sc"
| "run_op populated (Add_Column t c) sc = add_column populated t c sc"
| "run_op populated (Drop_Column t c) sc = drop_column t c sc"
| "run_op populated (Add_Constraint t k) sc = add_constraint t k sc"
| "run_op populated (Drop_Constraint name t) sc = drop_constraint name t sc"
| "run_op populated (Set_Not_Null t c) sc = set_not_null populated t c sc"
| "run_op populated (Fill_Nulls t c) sc = fill_nulls t c sc"

fun run_ops :: "bool \<Rightarrow> migration_op list \<Rightarrow> schema \<Rightarrow> schema option" where
  "run_ops populated [] sc = Some sc"
| "run_ops populated (op # ops) sc = Option.bind (run_op populated op sc) (run_ops populated ops)"

subsection \<open>The revisions\<close>

record revision =
  rv_name :: string
  rv_down :: "string option"
  rv_upgrade :: "migration_op list"
  rv_downgrade :: "migration_op list"

definition upgrade_0001 :: "migration_op list" where
  "upgrade_0001 =
     [Create_Table \<lparr>td_name = ''system_events'', td_columns =
         [key_col ''id'',
          col ''event_type'' (T_String 100) False None,
          col ''severity'' (T_String 20) False (Some (Literal ''info'')),
          col ''message'' T_Text False None,
          col ''details'' T_Jsonb False (Some empty_object),
          col ''created_at'' T_Timestamp False (Some Now)],
        td_constraints = []\<rparr>,
      Create_Table \<lparr>td_name = ''trading_sessions'', td_columns =
         [key_col ''id'',
          col ''session_date'' T_Date False None,
          col ''trading_mode'' (T_String 20) False (Some (Literal ''OFF'')),
          col ''live_armed'' T_Boolean False (Some (Literal ''false'')),
          col ''kill_switch_active'' T_Boolean False (Some (Literal ''false'')),
          col ''created_at'' T_Timestamp False (Some Now),
          col ''updated_at'' T_Timestamp False (Some Now)],
        td_constraints = [Unique ''uq_trading_sessions_session_date'' [''session_date'']]\<rparr>,
      Create_Table \<lparr>td_name = ''instruments'', td_columns =
         [key_col ''id'',
          col ''kite_instrument_token'' (T_String 64) False None,
          col ''exchange'' (T_String 20) False None,
          col ''tradingsymbol'' (T_String 100) False None,
          col ''name'' (T_String 255) True None,
          col ''instrument_type'' (T_String 50) False None,
          col ''tick_size'' (T_Numeric 12 4) False None,
          col ''lot_size'' T_Integer False (Some (Literal ''1'')),
          col ''is_active'' T_Boolean False (Some (Literal ''true'')),
          col ''updated_at'' T_Timestamp False (Some Now)],
        td_constraints = [Unique ''uq_instruments_exchange_tradingsymbol'' [''exchange'', ''tradingsymbol''],
                          Unique ''uq_instruments_kite_instrument_token'' [''kite_instrument_token'']]\<rparr>,
      Create_Table \<lparr>td_name = ''candles'', td_columns =
         [key_col ''id'',
          col ''instrument_id'' T_Integer False None,
          col ''timeframe'' (T_String 20) False None,
          col ''started_at'' T_Timestamp False None,
          col ''open_price'' (T_Numeric 18 6) False None,
          col ''high_price'' (T_Numeric 18 6) False None,
          col ''low_price'' (T_Numeric 18 6) False None,
          col ''close_price'' (T_Numeric 18 6) False None,
          col ''volume'' T_Integer False (Some (Literal ''0'')),
          col ''created_at'' T_Timestamp False (Some Now)],
        td_constraints = [Foreign ''fk_candles_instrument_id_instruments'' ''instrument_id'' ''instruments'' ''id'',
                          Unique ''uq_candles_identity'' [''instrument_id'', ''timeframe'', ''started_at'']]\<rparr>,
      Create_Index (index_def ''ix_candles_instrument_timeframe_started'' ''candles'' [''instrument_id'', ''timeframe'', ''started_at''] False None),
      Create_Table \<lparr>td_name = ''signals'', td_columns =
         [key_col ''id'',
          col ''instrument_id'' T_Integer False None,
          col ''strategy_name'' (T_String 100) False None,
          col ''signal_time'' T_Timestamp False None,
          col ''direction'' (T_String 20) False None,
          col ''features'' T_Jsonb False (Some empty_object),
          col ''created_at'' T_Timestamp False (Some Now)],
        td_constraints = [Foreign ''fk_signals_instrument_id_instruments'' ''instrument_id'' ''instruments'' ''id'']\<rparr>,
      Create_Index (index_def ''ix_signals_instrument_signal_time'' ''signals'' [''instrument_id'', ''signal_time''] False None),
      Create_Table \<lparr>td_name = ''recommendations'', td_columns =
         [key_col ''id'',
          col ''signal_id'' T_Integer False None,
          col ''model_run_id'' T_Integer True None,
          col ''verdict'' (T_String 50) False None,
          col ''rationale'' T_Text True None,
          col ''payload'' T_Jsonb False (Some empty_object),
          col ''created_at'' T_Timestamp False (Some Now)],
        td_constraints = [Foreign ''fk_recommendations_signal_id_signals'' ''signal_id'' ''signals'' ''id'']\<rparr>,
      Create_Table \<lparr>td_name = ''risk_checks'', td_columns =
         [key_col ''id'',
          col ''recommendation_id'' T_Integer True None,
          col ''result'' (T_String 50) False None,
          col ''reason'' T_Text True None,
          col ''checks'' T_Jsonb False (Some empty_object),
          col ''created_at'' T_Timestamp False (Some Now)],
        td_constraints = [Foreign ''fk_risk_checks_recommendation_id_recommendations'' ''recommendation_id'' ''recommendations'' ''id'']\<rparr>,
      Create_Table \<lparr>td_name = ''orders'', td_columns =
         [key_col ''id'',
          col ''risk_check_id'' T_Integer True None,
          col ''broker_order_id'' (T_String 100) True None,
          col ''instrument_id'' T_Integer True None,
          col ''side'' (T_String 10) False None,
          col ''order_type'' (T_String 50) False None,
          col ''quantity'' T_Integer False None,
          col ''limit_price'' (T_Numeric 18 6) True None,
          col ''status'' (T_String 50) False None,
          col ''created_at'' T_Timestamp False (Some Now),
          col ''updated_at'' T_Timestamp False (Some Now)],
        td_constraints = [Check ''ck_orders_quantity_positive'' ''quantity > 0'',
                          Foreign ''fk_orders_instrument_id_instruments'' ''instrument_id'' ''instruments'' ''id'',
                          Foreign ''fk_orders_risk_check_id_risk_checks'' ''risk_check_id'' ''risk_checks'' ''id'',
                          Unique ''uq_orders_broker_order_id'' [''broker_order_id'']]\<rparr>,
      Create_Table \<lparr>td_name = ''order_events'', td_columns =
         [key_col ''id'',
          col ''order_id'' T_Integer False None,
          col ''event_type'' (T_String 100) False None,
          col ''broker_status'' (T_String 100) True None,
          col ''payload'' T_Jsonb False (Some empty_object),
          col ''created_at'' T_Timestamp False (Some Now)],
        td_constraints = [Foreign ''fk_order_events_order_id_orders'' ''order_id'' ''orders'' ''id'']\<rparr>,
      Create_Table \<lparr>td_name = ''trades'', td_columns =
         [key_col ''id'',
          col ''entry_order_id'' T_Integer True None,
          col ''exit_order_id'' T_Integer True None,
          col ''instrument_id'' T_Integer False None,
          col ''quantity'' T_Integer False None,
          col ''entry_price'' (T_Numeric 18 6) True None,
          col ''exit_price'' (T_Numeric 18 6) True None,
          col ''realized_pnl'' (T_Numeric 18 6) True None,
          col ''opened_at'' T_Timestamp True None,
          col ''closed_at'' T_Timestamp True None,
          col ''status'' (T_String 50) False None],
        td_constraints = [Check ''ck_trades_quantity_positive'' ''quantity > 0'',
                          Foreign ''fk_trades_entry_order_id_orders'' ''entry_order_id'' ''orders'' ''id'',
                          Foreign ''fk_trades_exit_order_id_orders'' ''exit_order_id'' ''orders'' ''id'',
                          Foreign ''fk_trades_instrument_id_instruments'' ''instrument_id'' ''instruments'' ''id'']\<rparr>,
      Create_Table \<lparr>td_name = ''journal_entries'', td_columns =
         [key_col ''id'',
          col ''entry_type'' (T_String 100) False None,
          col ''subject_type'' (T_String 100) True None,
          col ''subject_id'' T_Integer True None,
          col ''message'' T_Text False None,
          col ''payload'' T_Jsonb False (Some empty_object),
          col ''created_at'' T_Timestamp False (Some Now)],
        td_constraints = []\<rparr>,
      Create_Index (index_def ''ix_journal_entries_created_at'' ''journal_entries'' [''created_at''] False None),
      Create_Table \<lparr>td_name = ''model_runs'', td_columns =
         [key_col ''id'',
          col ''provider'' (T_String 100) False None,
          col ''model_name'' (T_String 100) False None,
          col ''request_id'' (T_String 100) True None,
          col ''input_payload'' T_Jsonb False (Some empty_object),
          col ''output_payload'' T_Jsonb False (Some empty_object),
          col ''status'' (T_String 50) False None,
          col ''created_at'' T_Timestamp False (Some Now)],
        td_constraints = []\<rparr>]"

definition downgrade_0001 :: "migration_op list" where
  "downgrade_0001 =
     [Drop_Table ''model_runs'',
      Drop_Index ''ix_journal_entries_created_at'' ''journal_entries'',
      Drop_Table ''journal_entries'',
      Drop_Table ''trades'',
      Drop_Table ''order_events'',
      Drop_Table ''orders'',
      Drop_Table ''risk_checks'',
      Drop_Table ''recommendations'',
      Drop_Index ''ix_signals_instrument_signal_time'' ''signals'',
      Drop_Table ''signals'',
      Drop_Index ''ix_candles_instrument_timeframe_started'' ''candles'',
      Drop_Table ''candles'',
      Drop_Table ''instruments'',
      Drop_Table ''trading_sessions'',
      Drop_Table ''system_events'']"

definition upgrade_0002 :: "migration_op list" where
  "upgrade_0002 =
     [Create_Table \<lparr>td_name = ''broker_sessions'', td_columns =
         [key_col ''id'',
          col ''broker'' (T_String 50) False None,
          col ''user_id'' (T_String 100) True None,
          col ''status'' (T_String 50) False None,
          col ''login_at'' T_Timestamp True None,
          col ''expires_at'' T_Timestamp False None,
          col ''encrypted_access_token'' T_Text False None,
          col ''invalidated_at'' T_Timestamp True None,
          col ''created_at'' T_Timestamp False (Some Now),
          col ''updated_at'' T_Timestamp False (Some Now)],
        td_constraints = []\<rparr>,
      Create_Index (index_def ''ix_broker_sessions_broker_created_at'' ''broker_sessions'' [''broker'', ''created_at''] False None)]"

definition downgrade_0002 :: "migration_op list" where
  "downgrade_0002 =
     [Drop_Index ''ix_broker_sessions_broker_created_at'' ''broker_sessions'',
      Drop_Table ''broker_sessions'']"

definition upgrade_0003 :: "migration_op list" where
  "upgrade_0003 =
     [Add_Column ''candles'' (col ''source'' (T_String 50) False (Some (Literal ''KITE_WEBSOCKET'')))]"

definition downgrade_0003 :: "migration_op list" where
  "downgrade_0003 =
     [Drop_Column ''candles'' ''source'']"

definition upgrade_0004 :: "migration_op list" where
  "upgrade_0004 =
     [Add_Column ''signals'' (col ''strategy_version'' (T_String 50) False (Some (Literal ''p05_v1''))),
      Add_Column ''signals'' (col ''signal_key'' (T_String 255) True None),
      Add_Column ''signals'' (col ''signal_status'' (T_String 30) False (Some (Literal ''REJECTED_SIGNAL''))),
      Add_Column ''signals'' (col ''veto_reasons'' T_Jsonb False (Some empty_array)),
      Add_Column ''signals'' (col ''replay_run_id'' (T_String 100) True None),
      Fill_Nulls ''signals'' ''signal_key'',
      Set_Not_Null ''signals'' ''signal_key'',
      Add_Constraint ''signals'' (Unique ''uq_signals_signal_key'' [''signal_key'']),
      Create_Index (index_def ''ix_signals_status_created_at'' ''signals'' [''signal_status'', ''created_at''] False None)]"

definition downgrade_0004 :: "migration_op list" where
  "downgrade_0004 =
     [Drop_Index ''ix_signals_status_created_at'' ''signals'',
      Drop_Constraint ''uq_signals_signal_key'' ''signals'',
      Drop_Column ''signals'' ''replay_run_id'',
      Drop_Column ''signals'' ''veto_reasons'',
      Drop_Column ''signals'' ''signal_status'',
      Drop_Column ''signals'' ''signal_key'',
      Drop_Column ''signals'' ''strategy_version'']"

definition upgrade_0005 :: "migration_op list" where
  "upgrade_0005 =
     [Add_Column ''orders'' (col ''signal_id'' T_Integer True None),
      Add_Column ''orders'' (col ''simulated'' T_Boolean False (Some (Literal ''false''))),
      Add_Constraint ''orders'' (Foreign ''fk_orders_signal_id_signals'' ''signal_id'' ''signals'' ''id''),
      Create_Index (index_def ''ix_orders_signal_simulated'' ''orders'' [''signal_id'', ''simulated''] False None),
      Add_Column ''trades'' (col ''signal_id'' T_Integer True None),
      Add_Column ''trades'' (col ''simulated'' T_Boolean False (Some (Literal ''false''))),
      Add_Column ''trades'' (col ''gross_pnl'' (T_Numeric 18 6) True None),
      Add_Column ''trades'' (col ''estimated_costs'' (T_Numeric 18 6) True None),
      Add_Column ''trades'' (col ''net_pnl'' (T_Numeric 18 6) True None),
      Add_Column ''trades'' (col ''exit_reason'' (T_String 50) True None),
      Add_Column ''trades'' (col ''paper_mode'' (T_String 20) True None),
      Add_Constraint ''trades'' (Foreign ''fk_trades_signal_id_signals'' ''signal_id'' ''signals'' ''id''),
      Create_Index (index_def ''ix_trades_signal_simulated'' ''trades'' [''signal_id'', ''simulated''] False None),
      Create_Index (index_def ''uq_trades_paper_signal_id'' ''trades'' [''signal_id''] True (Some ''simulated = true AND signal_id IS NOT NULL''))]"

definition downgrade_0005 :: "migration_op list" where
  "downgrade_0005 =
     [Drop_Index ''uq_trades_paper_signal_id'' ''trades'',
      Drop_Index ''ix_trades_signal_simulated'' ''trades'',
      Drop_Constraint ''fk_trades_signal_id_signals'' ''trades'',
      Drop_Column ''trades'' ''paper_mode'',
      Drop_Column ''trades'' ''exit_reason'',
      Drop_Column ''trades'' ''net_pnl'',
      Drop_Column ''trades'' ''estimated_costs'',
      Drop_Column ''trades'' ''gross_pnl'',
      Drop_Column ''trades'' ''simulated'',
      Drop_Column ''trades'' ''signal_id'',
      Drop_Index ''ix_orders_signal_simulated'' ''orders'',
      Drop_Constraint ''fk_orders_signal_id_signals'' ''orders'',
      Drop_Column ''orders'' ''simulated'',
      Drop_Column ''orders'' ''signal_id'']"

definition upgrade_0006 :: "migration_op list" where
  "upgrade_0006 =
     [Create_Table \<lparr>td_name = ''universe_selection_runs'', td_columns =
         [col ''id'' T_Integer False None,
          col ''run_id'' (T_String 64) False None,
          col ''created_at'' T_Timestamp False (Some Now),
          col ''started_at'' T_Timestamp False None,
          col ''finished_at'' T_Timestamp False None,
          col ''timeframe'' (T_String 20) False None,
          col ''pool_count'' T_Integer False None,
          col ''scored_count'' T_Integer False None,
          col ''selected_count'' T_Integer False None,
          col ''selected_symbols'' T_Jsonb False (Some empty_array),
          col ''ranked_symbols'' T_Jsonb False (Some empty_array),
          col ''excluded_symbols'' T_Jsonb False (Some empty_array),
          col ''config_snapshot'' T_Jsonb False (Some empty_object),
          col ''warnings'' T_Jsonb False (Some empty_array),
          col ''errors'' T_Jsonb False (Some empty_array)],
        td_constraints = [Primary ''pk_universe_selection_runs'' [''id''],
                          Unique ''uq_universe_selection_runs_run_id'' [''run_id'']]\<rparr>,
      Create_Index (index_def ''ix_universe_selection_runs_created_at'' ''universe_selection_runs'' [''created_at''] False None)]"

definition downgrade_0006 :: "migration_op list" where
  "downgrade_0006 =
     [Drop_Index ''ix_universe_selection_runs_created_at'' ''universe_selection_runs'',
      Drop_Table ''universe_selection_runs'']"

definition upgrade_0007 :: "migration_op list" where
  "upgrade_0007 =
     [Add_Column ''model_runs'' (col ''adapter'' (T_String 50) False (Some (Literal ''fake''))),
      Add_Column ''model_runs'' (col ''prompt_version'' (T_String 50) False (Some (Literal ''p07_v1''))),
      Add_Column ''model_runs'' (col ''input_hash'' (T_String 64) False (Some (Literal ''''))),
      Add_Column ''model_runs'' (col ''latency_ms'' T_Integer True None),
      Add_Column ''model_runs'' (col ''error_code'' (T_String 100) True None),
      Create_Index (index_def ''ix_model_runs_input_hash'' ''model_runs'' [''input_hash''] False None),
      Add_Column ''recommendations'' (col ''confidence'' (T_Numeric 5 4) False (Some (Literal ''0''))),
      Add_Column ''recommendations'' (col ''warnings'' T_Jsonb False (Some empty_array)),
      Add_Column ''recommendations'' (col ''evaluation_key'' (T_String 64) True None),
      Add_Constraint ''recommendations'' (Foreign ''fk_recommendations_model_run_id_model_runs'' ''model_run_id'' ''model_runs'' ''id''),
      Create_Index (index_def ''uq_recommendations_evaluation_key'' ''recommendations'' [''evaluation_key''] True None),
      Create_Index (index_def ''ix_recommendations_signal_created_at'' ''recommendations'' [''signal_id'', ''created_at''] False None)]"

definition downgrade_0007 :: "migration_op list" where
  "downgrade_0007 =
     [Drop_Index ''ix_recommendations_signal_created_at'' ''recommendations'',
      Drop_Index ''uq_recommendations_evaluation_key'' ''recommendations'',
      Drop_Constraint ''fk_recommendations_model_run_id_model_runs'' ''recommendations'',
      Drop_Column ''recommendations'' ''evaluation_key'',
      Drop_Column ''recommendations'' ''warnings'',
      Drop_Column ''recommendations'' ''confidence'',
      Drop_Index ''ix_model_runs_input_hash'' ''model_runs'',
      Drop_Column ''model_runs'' ''error_code'',
      Drop_Column ''model_runs'' ''latency_ms'',
      Drop_Column ''model_runs'' ''input_hash'',
      Drop_Column ''model_runs'' ''prompt_version'',
      Drop_Column ''model_runs'' ''adapter'']"

definition revisions :: "revision list" where
  "revisions =
     [\<lparr>rv_name = ''0001_initial_storage_foundation'', rv_down = None,
        rv_upgrade = upgrade_0001, rv_downgrade = downgrade_0001\<rparr>,
      \<lparr>rv_name = ''0002_add_broker_sessions'', rv_down = Some ''0001_initial_storage_foundation'',
        rv_upgrade = upgrade_0002, rv_downgrade = downgrade_0002\<rparr>,
      \<lparr>rv_name = ''0003_add_candle_source'', rv_down = Some ''0002_add_broker_sessions'',
        rv_upgrade = upgrade_0003, rv_downgrade = downgrade_0003\<rparr>,
      \<lparr>rv_name = ''0004_add_scanner_signal_fields'', rv_down = Some ''0003_add_candle_source'',
        rv_upgrade = upgrade_0004, rv_downgrade = downgrade_0004\<rparr>,
      \<lparr>rv_name = ''0005_add_paper_simulation_fields'', rv_down = Some ''0004_add_scanner_signal_fields'',
        rv_upgrade = upgrade_0005, rv_downgrade = downgrade_0005\<rparr>,
      \<lparr>rv_name = ''0006_add_universe_selection_runs'', rv_down = Some ''0005_add_paper_simulation_fields'',
        rv_upgrade = upgrade_0006, rv_downgrade = downgrade_0006\<rparr>,
      \<lparr>rv_name = ''0007_add_decision_traceability'', rv_down = Some ''0006_add_universe_selection_runs'',
        rv_upgrade = upgrade_0007, rv_downgrade = downgrade_0007\<rparr>]"

text \<open>Every revision follows the one before it.\<close>

fun linear_from :: "string option \<Rightarrow> revision list \<Rightarrow> bool" where
  "linear_from down [] = True"
| "linear_from down (r # rs) = (rv_down r = down \<and> linear_from (Some (rv_name r)) rs)"

definition upgrade_head :: "bool \<Rightarrow> schema \<Rightarrow> schema option" where
  "upgrade_head populated = run_ops populated (concat (map rv_upgrade revisions))"

subsection \<open>What the metadata declares, and the drift\<close>

definition same_elements :: "'a list \<Rightarrow> 'a list \<Rightarrow> bool" where
  "same_elements xs ys \<longleftrightarrow> list_all (\<lambda>x. x \<in> set ys) xs \<and> list_all (\<lambda>y. y \<in> set xs) ys"

text \<open>
  Two declarations differ from what the migrations create: the column \<^verbatim>\<open>model_run_id\<close> of the
  recommendations has a foreign key only in the database, and the evaluation key is unique by a
  constraint in the metadata, by an index of the same name in the database.
\<close>

definition model_run_key :: constraint where
  "model_run_key = Foreign ''fk_recommendations_model_run_id_model_runs'' ''model_run_id'' ''model_runs'' ''id''"

definition evaluation_key_unique :: constraint where
  "evaluation_key_unique = Unique ''uq_recommendations_evaluation_key'' [''evaluation_key'']"

definition evaluation_key_index :: index where
  "evaluation_key_index = index_def ''uq_recommendations_evaluation_key'' ''recommendations'' [''evaluation_key''] True None"

definition migrated_constraints :: "table_decl \<Rightarrow> constraint list" where
  "migrated_constraints d =
     (if td_name d = ''recommendations''
      then model_run_key # filter (\<lambda>k. k \<noteq> evaluation_key_unique) (ts_constraints (table_of d))
      else ts_constraints (table_of d))"

definition table_agrees :: "schema \<Rightarrow> table_decl \<Rightarrow> bool" where
  "table_agrees sc d \<longleftrightarrow>
     (case find_table sc (td_name d) of
        None \<Rightarrow> False
      | Some x \<Rightarrow> same_elements (ts_columns x) (map db_column_of (td_columns d))
                  \<and> same_elements (ts_constraints x) (migrated_constraints d))"

definition schema_agrees :: "schema \<Rightarrow> bool" where
  "schema_agrees sc \<longleftrightarrow>
     same_elements (map ts_name (sc_tables sc)) (map td_name metadata_tables)
     \<and> list_all (table_agrees sc) metadata_tables
     \<and> same_elements (sc_indexes sc) (evaluation_key_index # meta_indexes)"

subsection \<open>Facts\<close>

lemma run_ops_append: "run_ops p (xs @ ys) sc = Option.bind (run_ops p xs sc) (run_ops p ys)"
  by (induction xs arbitrary: sc) (auto split: bind_splits)

text \<open>What succeeds on tables that hold rows succeeds on empty ones, with the same schema.\<close>

lemma populated_run_op: "run_op True op sc = Some sc' \<Longrightarrow> run_op p op sc = Some sc'"
  by (cases op) (auto simp: add_column_def set_not_null_def split: option.splits if_splits)

lemma populated_run_ops: "run_ops True ops sc = Some sc' \<Longrightarrow> run_ops p ops sc = Some sc'"
proof (induction ops arbitrary: sc)
  case (Cons op ops)
  then obtain x where "run_op True op sc = Some x" "run_ops True ops x = Some sc'" by (auto split: bind_splits)
  with Cons.IH populated_run_op show ?case by (metis bind.bind_lunit run_ops.simps(2))
qed simp

text \<open>One evaluation of the revisions: each is undone by its downgrade, and the last state agrees with the metadata.\<close>

fun revisions_check :: "revision list \<Rightarrow> schema \<Rightarrow> bool" where
  "revisions_check [] sc = schema_agrees sc"
| "revisions_check (r # rs) sc =
     (case run_ops True (rv_upgrade r) sc of
        None \<Rightarrow> False
      | Some after \<Rightarrow> run_ops True (rv_downgrade r) after = Some sc \<and> revisions_check rs after)"

lemma revisions_checked: "revisions_check revisions empty_schema"
  by code_simp

lemma revisions_linear: "linear_from None revisions"
  by code_simp

lemma check_reaches:
  "revisions_check rs sc \<Longrightarrow> \<exists>sc'. run_ops True (concat (map rv_upgrade rs)) sc = Some sc' \<and> schema_agrees sc'"
  by (induction rs arbitrary: sc) (auto simp: run_ops_append split: option.splits)

lemma check_undoes:
  "revisions_check rs sc \<Longrightarrow> \<exists>sc'. run_ops True (concat (map rv_upgrade (take k rs))) sc = Some sc'
     \<and> run_ops True (concat (map rv_downgrade (rev (take k rs)))) sc' = Some sc"
proof (induction rs arbitrary: sc k)
  case (Cons r rs)
  show ?case
  proof (cases k)
    case (Suc n)
    from Cons.prems obtain after where a: "run_ops True (rv_upgrade r) sc = Some after"
      "run_ops True (rv_downgrade r) after = Some sc" "revisions_check rs after"
      by (auto split: option.splits)
    from Cons.IH [OF a(3), of n] obtain sc' where
      "run_ops True (concat (map rv_upgrade (take n rs))) after = Some sc'"
      "run_ops True (concat (map rv_downgrade (rev (take n rs)))) sc' = Some after" by blast
    with a(1,2) Suc show ?thesis by (simp add: run_ops_append)
  qed simp
qed simp



text \<open>The drift: an insert with a model run that does not exist is refused by the migrated database only.\<close>

lemma model_run_key_undeclared:
  "model_run_key \<notin> set (ts_constraints (table_of meta_recommendations))"
  "evaluation_key_unique \<in> set (ts_constraints (table_of meta_recommendations))"
  by code_simp+

end
