(* ===== verification/HttpInterface.thy ===== *)
theory HttpInterface
  imports BrokerSession StreamService ScannerService PaperService
begin

section \<open>The routes of the API\<close>

text \<open>
  \<^verbatim>\<open>app/api\<close>: the operator's token (\<^verbatim>\<open>dependencies.py\<close>), the routes with their parameters and the
  statuses their handlers give to exceptions (\<^verbatim>\<open>routes/\<close>). The web framework resolves a request in
  this order, as its documentation says: the route by method and path, the dependencies of the router
  (the token), the other dependencies with the declared parameters, the handler. An exception that no
  handler catches leaves the application; the server then answers 500.
\<close>

subsection \<open>Replies and exceptions\<close>

text \<open>A value with status 200, or an \<^verbatim>\<open>HTTPException\<close>; the framework itself answers the other two.\<close>

datatype (plugins only: code size) http_reply = Replied json | Refused int json | Unrouted | Unprocessable

text \<open>
  The classes of an exception that a handler may name, its own and its bases: the modules
  \<^verbatim>\<open>exceptions.py\<close> of the packages.
\<close>

definition broker_bases :: "exn \<Rightarrow> string list" where
  "broker_bases e =
     (case e of
        KiteAuthDisabledError m \<Rightarrow> [''KiteAuthDisabledError'', ''KiteAuthError'']
      | KiteConfigError m \<Rightarrow> [''KiteConfigError'', ''KiteAuthError'']
      | KiteStateError m \<Rightarrow> [''KiteStateError'', ''KiteAuthError'']
      | KiteSessionError m \<Rightarrow> [''KiteSessionError'', ''KiteAuthError'']
      | _ \<Rightarrow> [])"

definition market_data_bases :: "exn \<Rightarrow> string list" where
  "market_data_bases e =
     (case e of
        MarketDataDisabledError m \<Rightarrow> [''MarketDataDisabledError'', ''MarketDataError'']
      | InstrumentSyncDisabledError m \<Rightarrow> [''InstrumentSyncDisabledError'', ''MarketDataDisabledError'', ''MarketDataError'']
      | WatchlistError m \<Rightarrow> [''WatchlistError'', ''MarketDataError'']
      | MarketDataSessionError m \<Rightarrow> [''MarketDataSessionError'', ''MarketDataError'']
      | MarketDataStreamError m \<Rightarrow> [''MarketDataStreamError'', ''MarketDataError'']
      | _ \<Rightarrow> [])"

definition scanner_bases :: "exn \<Rightarrow> string list" where
  "scanner_bases e =
     (case e of
        ScannerDisabledError m \<Rightarrow> [''ScannerDisabledError'', ''ScannerError'']
      | ScannerConfigError m \<Rightarrow> [''ScannerConfigError'', ''ScannerError'']
      | ScannerInputError m \<Rightarrow> [''ScannerInputError'', ''ScannerError'']
      | ScannerAutoLoopDisabledError m \<Rightarrow> [''ScannerAutoLoopDisabledError'', ''ScannerError'']
      | ScannerAutoLoopRunningError m \<Rightarrow> [''ScannerAutoLoopRunningError'', ''ScannerError'']
      | ScannerAutoLoopBusyError m \<Rightarrow> [''ScannerAutoLoopBusyError'', ''ScannerError'']
      | _ \<Rightarrow> [])"

definition paper_bases :: "exn \<Rightarrow> string list" where
  "paper_bases e =
     (case e of
        PaperConfigError m \<Rightarrow> [''PaperConfigError'', ''PaperError'']
      | PaperDisabledError m \<Rightarrow> [''PaperDisabledError'', ''PaperError'']
      | PaperModeDisabledError m \<Rightarrow> [''PaperModeDisabledError'', ''PaperError'']
      | LiveModeNotImplementedError m \<Rightarrow> [''LiveModeNotImplementedError'', ''PaperError'']
      | _ \<Rightarrow> [])"

definition universe_bases :: "exn \<Rightarrow> string list" where
  "universe_bases e =
     (case e of
        UniverseSelectionDisabledError m \<Rightarrow> [''UniverseSelectionDisabledError'', ''UniverseSelectionError'']
      | UniverseInputError m \<Rightarrow> [''UniverseInputError'', ''UniverseSelectionError'']
      | SelectedUniverseMissingError m \<Rightarrow> [''SelectedUniverseMissingError'', ''UniverseSelectionError'']
      | _ \<Rightarrow> [])"

definition decision_bases :: "exn \<Rightarrow> string list" where
  "decision_bases e =
     (case e of
        DecisionDisabledError m \<Rightarrow> [''DecisionDisabledError'', ''DecisionError'']
      | DecisionSignalNotFoundError m \<Rightarrow> [''DecisionSignalNotFoundError'', ''DecisionError'']
      | DecisionSignalIneligibleError m \<Rightarrow> [''DecisionSignalIneligibleError'', ''DecisionError'']
      | DecisionConfigError m \<Rightarrow> [''DecisionConfigError'', ''DecisionError'']
      | DecisionAdapterError m \<Rightarrow> [''DecisionAdapterError'', ''DecisionError'']
      | _ \<Rightarrow> [])"

text \<open>The other exceptions are of the scheduler, the language and its libraries.\<close>

definition exn_classes :: "exn \<Rightarrow> string list" where
  "exn_classes e =
     broker_bases e @ market_data_bases e @ scanner_bases e @ paper_bases e @ universe_bases e @ decision_bases e
     @ (case e of
          MarketOpsAutomationDisabledError m \<Rightarrow> [''MarketOpsAutomationDisabledError'', ''RuntimeError'']
        | MarketOpsJobBusyError m \<Rightarrow> [''MarketOpsJobBusyError'', ''RuntimeError'']
        | ValueError m \<Rightarrow> [''ValueError'']
        | IntegrityError \<Rightarrow> [''IntegrityError'', ''SQLAlchemyError'']
        | OtherError n \<Rightarrow> [n]
        | _ \<Rightarrow> [])"

text \<open>\<^verbatim>\<open>str(exc)\<close> of the exceptions above.\<close>

definition exn_message :: "exn \<Rightarrow> string" where
  "exn_message e =
     (case e of
        PaperConfigError m \<Rightarrow> m | PaperDisabledError m \<Rightarrow> m | PaperModeDisabledError m \<Rightarrow> m
      | LiveModeNotImplementedError m \<Rightarrow> m | WatchlistError m \<Rightarrow> m | MarketDataDisabledError m \<Rightarrow> m
      | InstrumentSyncDisabledError m \<Rightarrow> m | MarketDataSessionError m \<Rightarrow> m | MarketDataStreamError m \<Rightarrow> m
      | ScannerDisabledError m \<Rightarrow> m | ScannerConfigError m \<Rightarrow> m | ScannerInputError m \<Rightarrow> m
      | ScannerAutoLoopDisabledError m \<Rightarrow> m | ScannerAutoLoopRunningError m \<Rightarrow> m | ScannerAutoLoopBusyError m \<Rightarrow> m
      | SelectedUniverseMissingError m \<Rightarrow> m | UniverseInputError m \<Rightarrow> m | UniverseSelectionDisabledError m \<Rightarrow> m
      | DecisionDisabledError m \<Rightarrow> m | DecisionSignalNotFoundError m \<Rightarrow> m | DecisionSignalIneligibleError m \<Rightarrow> m
      | DecisionConfigError m \<Rightarrow> m | DecisionAdapterError m \<Rightarrow> m | KiteAuthDisabledError m \<Rightarrow> m
      | KiteConfigError m \<Rightarrow> m | KiteStateError m \<Rightarrow> m | KiteSessionError m \<Rightarrow> m
      | MarketOpsAutomationDisabledError m \<Rightarrow> m | MarketOpsJobBusyError m \<Rightarrow> m | ValueError m \<Rightarrow> m | _ \<Rightarrow> [])"

text \<open>One \<^verbatim>\<open>except\<close> clause: the classes, the status, and the detail.\<close>

datatype (plugins only: code size) detail = Fixed string | Message | Coded string

type_synonym except_clause = "string list \<times> int \<times> detail"

definition detail_of :: "detail \<Rightarrow> exn \<Rightarrow> json" where
  "detail_of d e =
     (case d of
        Fixed text \<Rightarrow> JStr text
      | Message \<Rightarrow> JStr (exn_message e)
      | Coded code \<Rightarrow> JObj [(''code'', JStr code), (''message'', JStr (exn_message e))])"

fun handled :: "except_clause list \<Rightarrow> exn \<Rightarrow> http_reply option" where
  "handled [] e = None"
| "handled ((classes, status, d) # clauses) e =
     (if list_ex (\<lambda>c. c \<in> set classes) (exn_classes e) then Some (Refused status (detail_of d e))
      else handled clauses e)"

text \<open>\<^verbatim>\<open>try: return await ... except ...: raise HTTPException\<close>.\<close>

definition replying :: "except_clause list \<Rightarrow> ('w, json) prog \<Rightarrow> ('w, http_reply) prog" where
  "replying clauses m =
     tryS (bindS m (\<lambda>v. retS (Replied v))) (\<lambda>e. map_option retS (handled clauses e))"

subsection \<open>The operator's token\<close>

text \<open>\<^verbatim>\<open>hmac.compare_digest\<close> of two strings raises unless both are ASCII.\<close>

definition ascii_text :: "string \<Rightarrow> bool" where
  "ascii_text s \<longleftrightarrow> list_all (\<lambda>c. (of_char c :: nat) < 128) s"

definition compare_digest :: "string \<Rightarrow> string \<Rightarrow> bool res" where
  "compare_digest a b = (if ascii_text a \<and> ascii_text b then Inr (a = b) else Inl TypeError)"

text \<open>\<open>None\<close> is a request that goes on.\<close>

definition require_operator_token :: "settings \<Rightarrow> string option \<Rightarrow> http_reply option res" where
  "require_operator_token s header =
     (if operator_auth_token s = []
      then Inr (Some (Refused 503 (JStr ''operator authentication is not configured'')))
      else case header of
        None \<Rightarrow> Inr (Some (Refused 401 (JStr ''invalid operator token'')))
      | Some token \<Rightarrow> bindE (compare_digest token (operator_auth_token s)) (\<lambda>same.
          Inr (if same then None else Some (Refused 401 (JStr ''invalid operator token'')))))"

subsection \<open>Parameters\<close>

datatype (plugins only: code size) param_kind = P_Text | P_Texts | P_Bool | P_Time | P_Int "int option" "int option"

text \<open>\<open>qp_name\<close> is the name in the query, \<open>qp_argument\<close> the keyword of the service's method.\<close>

record query_param =
  qp_name :: string
  qp_argument :: string
  qp_kind :: param_kind
  qp_required :: bool
  qp_default :: json

definition param :: "string \<Rightarrow> param_kind \<Rightarrow> json \<Rightarrow> query_param" where
  "param name kind value = \<lparr>qp_name = name, qp_argument = name, qp_kind = kind, qp_required = False, qp_default = value\<rparr>"

text \<open>The framework has converted the texts of the query; \<open>P_Int lo hi\<close> are the bounds \<^verbatim>\<open>ge\<close> and \<^verbatim>\<open>le\<close>.\<close>

definition param_accepts :: "param_kind \<Rightarrow> json \<Rightarrow> bool" where
  "param_accepts kind v =
     (case (kind, v) of
        (P_Int lo hi, JInt i) \<Rightarrow> (case lo of None \<Rightarrow> True | Some l \<Rightarrow> l \<le> i) \<and> (case hi of None \<Rightarrow> True | Some h \<Rightarrow> i \<le> h)
      | (P_Text, JStr t) \<Rightarrow> True
      | (P_Time, JStr t) \<Rightarrow> True
      | (P_Bool, JBool b) \<Rightarrow> True
      | (P_Texts, JList vs) \<Rightarrow> list_all (\<lambda>x. case x of JStr t \<Rightarrow> True | _ \<Rightarrow> False) vs
      | _ \<Rightarrow> False)"

definition bind_param :: "(string \<times> json) list \<Rightarrow> query_param \<Rightarrow> (string \<times> json) option" where
  "bind_param query p =
     (case map_of query (qp_name p) of
        None \<Rightarrow> if qp_required p then None else Some (qp_argument p, qp_default p)
      | Some v \<Rightarrow> if param_accepts (qp_kind p) v then Some (qp_argument p, v) else None)"

fun bind_params :: "query_param list \<Rightarrow> (string \<times> json) list \<Rightarrow> (string \<times> json) list option" where
  "bind_params [] query = Some []"
| "bind_params (p # ps) query =
     (case (bind_param query p, bind_params ps query) of (Some a, Some rest) \<Rightarrow> Some (a # rest) | _ \<Rightarrow> None)"

subsection \<open>The services behind the routes\<close>

text \<open>The method of a service that a handler calls; the jobs of the scheduler by their name.\<close>

datatype (plugins only: code size) service_method =
    Kite_Login_Url | Kite_Callback | Kite_Status | Kite_Logout
  | Instruments_Sync | Watchlist_Validate | Stream_Readiness | Stream_Status | Stream_Start | Stream_Stop
  | Scanner_Status | Scanner_Run_Once | Scanner_Run_Batch | Loop_Start | Loop_Stop | Loop_Status | Loop_Run_Now
  | Scanner_Signals
  | Paper_Status | Paper_Replay | Paper_Report | Paper_Trades
  | Universe_Status | Universe_Validate | Universe_Select | Universe_Latest | Universe_Runs | Universe_Run
  | Decision_Status | Decision_Evaluate | Decision_Recommendations | Decision_Auto_Status | Decision_Evaluate_Latest
  | Morning_Readiness | Ops_Status | Ops_Start | Ops_Stop | Ops_Run_Job string | Ops_Test_Notification

text \<open>
  \<open>ai_call\<close> is a service call with the bound parameters; its value is the dictionary the service
  returns, or the fields of its result. \<open>ai_new_fernet\<close> is the constructor of the cipher, \<open>ai_connect\<close>
  a connection to the database with its first statement, \<open>ai_ping\<close> the ping of Redis.
\<close>

record 'w api =
  ai_settings :: settings
  ai_new_fernet :: "string \<Rightarrow> fernet res"
  ai_call :: "service_method \<Rightarrow> (string \<times> json) list \<Rightarrow> ('w, json) prog"
  ai_connect :: "('w, unit) prog"
  ai_ping :: "('w, json) prog"

text \<open>The services whose construction builds the cipher of the access token (\<^verbatim>\<open>_build_token_cipher\<close>).\<close>

definition needs_cipher :: "service_method \<Rightarrow> bool" where
  "needs_cipher m \<longleftrightarrow>
     (case m of Kite_Login_Url \<Rightarrow> True | Kite_Callback \<Rightarrow> True | Kite_Status \<Rightarrow> True | Kite_Logout \<Rightarrow> True
      | Instruments_Sync \<Rightarrow> True | Stream_Readiness \<Rightarrow> True | Stream_Status \<Rightarrow> True | Stream_Start \<Rightarrow> True
      | Stream_Stop \<Rightarrow> True | Morning_Readiness \<Rightarrow> True | Ops_Status \<Rightarrow> True | Ops_Start \<Rightarrow> True | Ops_Stop \<Rightarrow> True
      | Ops_Run_Job job \<Rightarrow> True | Ops_Test_Notification \<Rightarrow> True | _ \<Rightarrow> False)"

definition build_token_cipher :: "(string \<Rightarrow> fernet res) \<Rightarrow> settings \<Rightarrow> fernet option res" where
  "build_token_cipher new_fernet s =
     (if kite_session_encryption_key s \<noteq> []
      then bindE (token_cipher new_fernet (kite_session_encryption_key s)) (\<lambda>f. Inr (Some f)) else Inr None)"

text \<open>
  The constructors of the scanner and paper services read their configuration, which may raise; the
  scanner loop, the readiness report and the market operations hold a scanner service.
\<close>

definition needs_scanner_config :: "service_method \<Rightarrow> bool" where
  "needs_scanner_config m \<longleftrightarrow>
     (case m of Scanner_Status \<Rightarrow> True | Scanner_Run_Once \<Rightarrow> True | Scanner_Run_Batch \<Rightarrow> True | Scanner_Signals \<Rightarrow> True
      | Loop_Start \<Rightarrow> True | Loop_Stop \<Rightarrow> True | Loop_Status \<Rightarrow> True | Loop_Run_Now \<Rightarrow> True | Morning_Readiness \<Rightarrow> True
      | Ops_Status \<Rightarrow> True | Ops_Start \<Rightarrow> True | Ops_Stop \<Rightarrow> True | Ops_Run_Job job \<Rightarrow> True
      | Ops_Test_Notification \<Rightarrow> True | _ \<Rightarrow> False)"

definition needs_paper_config :: "service_method \<Rightarrow> bool" where
  "needs_paper_config m \<longleftrightarrow>
     (case m of Paper_Status \<Rightarrow> True | Paper_Replay \<Rightarrow> True | Paper_Report \<Rightarrow> True | Paper_Trades \<Rightarrow> True | _ \<Rightarrow> False)"

definition build_service :: "'w api \<Rightarrow> service_method \<Rightarrow> unit res" where
  "build_service a m =
     (let s = ai_settings a in
      bindE (if needs_cipher m then bindE (build_token_cipher (ai_new_fernet a) s) (\<lambda>_. Inr ()) else Inr ()) (\<lambda>_.
      bindE (if needs_scanner_config m then bindE (scanner_config_from_settings s) (\<lambda>_. Inr ()) else Inr ()) (\<lambda>_.
      if needs_paper_config m then bindE (paper_config_from_settings s) (\<lambda>_. Inr ()) else Inr ())))"

end
