(* ===== verification/HttpRoutes.thy ===== *)
theory HttpRoutes
  imports HttpInterface OpsSteps
begin

section \<open>The route table and its dispatch\<close>

text \<open>
  \<^verbatim>\<open>app/api/routes\<close> as one table per module, \<^verbatim>\<open>app/db/health.py\<close>, and the lifespan of \<^verbatim>\<open>app/main.py\<close>.
  \<open>serve\<close> answers one request over a table: what the operator's gate promises is proved for any table
  whose unprotected routes are known, and then read off for the application's own.
\<close>

subsection \<open>Routes\<close>

datatype (plugins only: code size) verb = GET | POST

text \<open>
  What a handler does with its service: it returns the value of the call, answers 404 when the value is
  \<^verbatim>\<open>None\<close>, or picks fields of the result (with a value for an empty one). The other handlers have a
  definition of their own below.
\<close>

datatype (plugins only: code size) handler =
    Root | Health | Ready
  | Call service_method
  | Call_Or_404 service_method string
  | Pick service_method "(string \<times> json option) list"
  | Start_If_Ready

record route =
  ro_verb :: verb
  ro_path :: string
  ro_protected :: bool
  ro_params :: "query_param list"
  ro_handler :: handler
  ro_clauses :: "except_clause list"

definition operator_route :: "verb \<Rightarrow> string \<Rightarrow> query_param list \<Rightarrow> handler \<Rightarrow> except_clause list \<Rightarrow> route" where
  "operator_route v path params h clauses =
     \<lparr>ro_verb = v, ro_path = path, ro_protected = True, ro_params = params, ro_handler = h, ro_clauses = clauses\<rparr>"

definition open_route :: "verb \<Rightarrow> string \<Rightarrow> query_param list \<Rightarrow> handler \<Rightarrow> except_clause list \<Rightarrow> route" where
  "open_route v path params h clauses = (operator_route v path params h clauses)\<lparr>ro_protected := False\<rparr>"

subsection \<open>The modules of routes\<close>

definition health_routes :: "route list" where
  "health_routes = [open_route GET ''/'' [] Root [], open_route GET ''/healthz'' [] Health [],
     open_route GET ''/readyz'' [] Ready []]"

definition decision_routes :: "route list" where
  "decision_routes =
     [ operator_route GET ''/api/v1/decision/status''
         []
         (Call Decision_Status)
         []
     , operator_route POST ''/api/v1/decision/evaluate''
         [(param ''signal_id'' (P_Int (Some 1) None) JNull)\<lparr>qp_required := True\<rparr>,
          param ''force'' P_Bool (JBool False)]
         (Call Decision_Evaluate)
         [([''DecisionDisabledError''], 403, Message),
          ([''DecisionSignalNotFoundError''], 404, Message),
          ([''DecisionSignalIneligibleError''], 422, Message),
          ([''DecisionConfigError''], 503, Message)]
     , operator_route GET ''/api/v1/decision/recommendations''
         [param ''limit'' (P_Int (Some 1) (Some 500)) (JInt 100)]
         (Call Decision_Recommendations)
         []
     , operator_route GET ''/api/v1/decision/auto-status''
         []
         (Call Decision_Auto_Status)
         []
     , operator_route POST ''/api/v1/decision/evaluate-latest''
         [param ''limit'' (P_Int (Some 1) (Some 50)) (JInt 5)]
         (Call Decision_Evaluate_Latest)
         [([''DecisionDisabledError''], 403, Message),
          ([''DecisionConfigError''], 503, Message)] ]"

definition kite_auth_routes :: "route list" where
  "kite_auth_routes =
     [ operator_route POST ''/api/v1/broker/kite/login-url''
         []
         (Call Kite_Login_Url)
         [([''KiteAuthDisabledError''], 403, Fixed ''kite auth disabled''),
          ([''KiteConfigError''], 503, Fixed ''kite auth configuration incomplete'')]
     , open_route GET ''/api/v1/broker/kite/callback''
         [param ''request_token'' P_Text JNull,
          param ''state'' P_Text JNull]
         (Call Kite_Callback)
         [([''KiteStateError''], 400, Fixed ''invalid kite callback''),
          ([''KiteAuthDisabledError''], 403, Fixed ''kite auth disabled''),
          ([''KiteConfigError''], 503, Fixed ''kite auth configuration incomplete''),
          ([''KiteSessionError''], 502, Fixed ''kite session exchange failed'')]
     , operator_route GET ''/api/v1/broker/kite/session/status''
         []
         (Call Kite_Status)
         []
     , operator_route POST ''/api/v1/broker/kite/session/logout''
         []
         (Call Kite_Logout)
         [([''KiteAuthDisabledError''], 403, Fixed ''kite auth disabled''),
          ([''KiteConfigError''], 503, Fixed ''kite auth configuration incomplete''),
          ([''KiteSessionError''], 502, Fixed ''kite logout failed'')] ]"

definition market_data_routes :: "route list" where
  "market_data_routes =
     [ operator_route POST ''/api/v1/market-data/instruments/sync''
         []
         (Pick Instruments_Sync [(''fetched'', None), (''inserted'', None), (''updated'', None),
            (''skipped'', None), (''failed'', None), (''watchlist_validation'', Some (JObj []))])
         [([''InstrumentSyncDisabledError''], 403, Fixed ''instrument sync disabled''),
          ([''WatchlistError''], 422, Coded ''watchlist_invalid''),
          ([''MarketDataSessionError''], 409, Fixed ''active kite session required'')]
     , operator_route GET ''/api/v1/market-data/watchlist/validate''
         []
         (Call Watchlist_Validate)
         []
     , operator_route GET ''/api/v1/market-data/stream/readiness''
         []
         (Call Stream_Readiness)
         []
     , operator_route GET ''/api/v1/market-data/status''
         []
         (Call Stream_Status)
         []
     , operator_route POST ''/api/v1/market-data/stream/start''
         []
         (Start_If_Ready)
         [([''MarketDataDisabledError''], 403, Fixed ''market data disabled''),
          ([''WatchlistError''], 422, Coded ''watchlist_invalid''),
          ([''MarketDataSessionError''], 409, Fixed ''active kite session required''),
          ([''MarketDataStreamError''], 502, Fixed ''stream start failed'')]
     , operator_route POST ''/api/v1/market-data/stream/stop''
         []
         (Call Stream_Stop)
         []
     , operator_route GET ''/api/v1/market-data/stream/status''
         []
         (Call Stream_Status)
         [] ]"

definition scanner_routes :: "route list" where
  "scanner_routes =
     [ operator_route GET ''/api/v1/scanner/status''
         []
         (Call Scanner_Status)
         []
     , operator_route POST ''/api/v1/scanner/run-once''
         [param ''symbol'' P_Text JNull,
          param ''timeframe'' P_Text (JStr ''1minute'')]
         (Pick Scanner_Run_Once [(''evaluated'', None), (''inserted'', None), (''duplicates'', None),
            (''candidates'', None), (''rejected'', None), (''veto_counts'', None)])
         [([''ScannerDisabledError''], 403, Fixed ''scanner disabled''),
          ([''ScannerInputError''], 400, Fixed ''unsupported timeframe''),
          ([''ScannerConfigError''], 503, Fixed ''scanner config invalid'')]
     , operator_route POST ''/api/v1/scanner/run-batch''
         [param ''symbols'' P_Texts JNull,
          param ''timeframe'' P_Text (JStr ''1minute''),
          param ''store_rejections'' P_Bool (JBool True),
          param ''dry_run'' P_Bool (JBool False),
          param ''use_latest_universe'' P_Bool (JBool False)]
         (Call Scanner_Run_Batch)
         [([''ScannerDisabledError''], 403, Fixed ''scanner disabled''),
          ([''ScannerInputError''], 422, Message),
          ([''SelectedUniverseMissingError''], 409, Message),
          ([''ScannerConfigError''], 503, Fixed ''scanner config invalid'')]
     , operator_route POST ''/api/v1/scanner/auto-loop/start''
         []
         (Call Loop_Start)
         [([''ScannerDisabledError'', ''ScannerAutoLoopDisabledError''], 403, Message),
          ([''ScannerAutoLoopRunningError''], 409, Message),
          ([''ScannerConfigError''], 503, Message)]
     , operator_route POST ''/api/v1/scanner/auto-loop/stop''
         []
         (Call Loop_Stop)
         []
     , operator_route GET ''/api/v1/scanner/auto-loop/status''
         []
         (Call Loop_Status)
         []
     , operator_route POST ''/api/v1/scanner/auto-loop/run-now''
         []
         (Call Loop_Run_Now)
         [([''ScannerDisabledError'', ''ScannerAutoLoopDisabledError''], 403, Message),
          ([''ScannerAutoLoopBusyError''], 409, Message),
          ([''ScannerInputError''], 422, Message),
          ([''ScannerConfigError''], 503, Message)]
     , operator_route GET ''/api/v1/scanner/signals''
         [param ''limit'' (P_Int (Some 1) (Some 200)) (JInt 50)]
         (Call Scanner_Signals)
         [] ]"

definition paper_routes :: "route list" where
  "paper_routes =
     [ operator_route GET ''/api/v1/paper/status''
         []
         (Call Paper_Status)
         []
     , operator_route POST ''/api/v1/paper/run-replay''
         [param ''symbol'' P_Text JNull,
          (param ''from'' P_Time JNull)\<lparr>qp_argument := ''start''\<rparr>,
          (param ''to'' P_Time JNull)\<lparr>qp_argument := ''end''\<rparr>,
          param ''limit'' (P_Int (Some 1) (Some 500)) (JInt 100)]
         (Call Paper_Replay)
         [([''LiveModeNotImplementedError''], 501, Message),
          ([''PaperDisabledError''], 403, Fixed ''paper disabled''),
          ([''PaperModeDisabledError''], 403, Message),
          ([''PaperConfigError''], 503, Message)]
     , operator_route GET ''/api/v1/paper/report''
         [param ''limit'' (P_Int (Some 1) (Some 10000)) (JInt 1000)]
         (Call Paper_Report)
         []
     , operator_route GET ''/api/v1/paper/trades''
         [param ''limit'' (P_Int (Some 1) (Some 500)) (JInt 100)]
         (Call Paper_Trades)
         [] ]"

definition ops_routes :: "route list" where
  "ops_routes =
     [ operator_route GET ''/api/v1/ops/morning-readiness''
         []
         (Call Morning_Readiness)
         [] ]"

definition universe_routes :: "route list" where
  "universe_routes =
     [ operator_route GET ''/api/v1/universe/status''
         []
         (Call Universe_Status)
         []
     , operator_route GET ''/api/v1/universe/pool/validate''
         [param ''symbols'' P_Texts JNull]
         (Call Universe_Validate)
         []
     , operator_route POST ''/api/v1/universe/select''
         [param ''limit'' (P_Int (Some 1) None) JNull,
          param ''timeframe'' P_Text JNull,
          param ''dry_run'' P_Bool (JBool False),
          param ''include_excluded'' P_Bool (JBool True),
          param ''use_current_session'' P_Bool (JBool True),
          param ''min_candles'' (P_Int (Some 1) None) JNull,
          param ''symbols'' P_Texts JNull,
          param ''stale_policy'' P_Text JNull]
         (Call Universe_Select)
         [([''UniverseSelectionDisabledError''], 403, Message),
          ([''UniverseInputError''], 422, Message)]
     , operator_route GET ''/api/v1/universe/latest''
         []
         (Call_Or_404 Universe_Latest ''selected universe missing'')
         []
     , operator_route GET ''/api/v1/universe/runs''
         [param ''limit'' (P_Int (Some 1) (Some 100)) (JInt 20)]
         (Call Universe_Runs)
         []
     , operator_route GET ''/api/v1/universe/runs/{run_id}''
         []
         (Call_Or_404 Universe_Run ''universe run not found'')
         [] ]"

definition market_ops_routes :: "route list" where
  "market_ops_routes =
     [ operator_route GET ''/api/v1/ops/market-ops/status''
         []
         (Call Ops_Status)
         []
     , operator_route POST ''/api/v1/ops/market-ops/start''
         []
         (Call Ops_Start)
         [([''MarketOpsAutomationDisabledError''], 403, Message)]
     , operator_route POST ''/api/v1/ops/market-ops/stop''
         []
         (Call Ops_Stop)
         []
     , operator_route POST ''/api/v1/ops/market-ops/run-preopen-check''
         []
         (Call (Ops_Run_Job ''preopen_check''))
         [([''MarketOpsJobBusyError''], 409, Message)]
     , operator_route POST ''/api/v1/ops/market-ops/run-start-stream''
         []
         (Call (Ops_Run_Job ''stream_start''))
         [([''MarketOpsJobBusyError''], 409, Message)]
     , operator_route POST ''/api/v1/ops/market-ops/run-verify-stream''
         []
         (Call (Ops_Run_Job ''stream_verify''))
         [([''MarketOpsJobBusyError''], 409, Message)]
     , operator_route POST ''/api/v1/ops/market-ops/run-universe-selection''
         []
         (Call (Ops_Run_Job ''universe_selection''))
         [([''MarketOpsJobBusyError''], 409, Message)]
     , operator_route POST ''/api/v1/ops/market-ops/run-scanner-batch''
         []
         (Call (Ops_Run_Job ''scanner_batch''))
         [([''MarketOpsJobBusyError''], 409, Message)]
     , operator_route POST ''/api/v1/ops/market-ops/run-stop-stream''
         []
         (Call (Ops_Run_Job ''stream_stop''))
         [([''MarketOpsJobBusyError''], 409, Message)]
     , operator_route POST ''/api/v1/ops/market-ops/test-notification''
         []
         (Call Ops_Test_Notification)
         [] ]"

text \<open>In the order in which \<^verbatim>\<open>main.py\<close> includes the routers.\<close>

definition app_routes :: "route list" where
  "app_routes = health_routes @ decision_routes @ kite_auth_routes @ market_data_routes @ scanner_routes
     @ paper_routes @ ops_routes @ universe_routes @ market_ops_routes"

subsection \<open>Matching\<close>

record api_request =
  rq_verb :: verb
  rq_path :: string
  rq_token :: "string option"
  rq_query :: "(string \<times> json) list"

text \<open>\<open>{name}\<close> is a parameter of the path: any text without a slash that is not empty.\<close>

definition path_param :: "string \<Rightarrow> string option" where
  "path_param p = (if p \<noteq> [] \<and> hd p = CHR ''{'' then Some (butlast (tl p)) else None)"

fun match_segments :: "string list \<Rightarrow> string list \<Rightarrow> (string \<times> json) list option" where
  "match_segments [] [] = Some []"
| "match_segments (p # ps) (x # xs) =
     (case path_param p of
        None \<Rightarrow> if p = x then match_segments ps xs else None
      | Some name \<Rightarrow> if x = [] then None else map_option (Cons (name, JStr x)) (match_segments ps xs))"
| "match_segments _ _ = None"

definition match_path :: "string \<Rightarrow> string \<Rightarrow> (string \<times> json) list option" where
  "match_path pattern path = match_segments (split_char CHR ''/'' pattern) (split_char CHR ''/'' path)"

fun find_route :: "route list \<Rightarrow> verb \<Rightarrow> string \<Rightarrow> (route \<times> (string \<times> json) list) option" where
  "find_route [] v path = None"
| "find_route (r # rs) v path =
     (case match_path (ro_path r) path of
        None \<Rightarrow> find_route rs v path
      | Some args \<Rightarrow> if ro_verb r = v then Some (r, args) else find_route rs v path)"

subsection \<open>Handlers\<close>

text \<open>\<^verbatim>\<open>check_database\<close> catches the errors of the database layer only, \<^verbatim>\<open>check_redis\<close> every exception.\<close>

definition check_database :: "('w, unit) prog \<Rightarrow> ('w, bool) prog" where
  "check_database connect =
     tryS (bindS connect (\<lambda>_. retS True))
       (\<lambda>e. if ''SQLAlchemyError'' \<in> set (exn_classes e) then Some (retS False) else None)"

definition check_redis :: "('w, json) prog \<Rightarrow> ('w, bool) prog" where
  "check_redis ping = tryS (bindS ping (\<lambda>v. retS (truthy v))) (\<lambda>_. Some (retS False))"

definition readiness_reply :: "bool \<Rightarrow> bool \<Rightarrow> http_reply" where
  "readiness_reply database_ok redis_ok =
     (let ready = (database_ok \<and> redis_ok);
          content = JObj [(''status'', JStr (if ready then ''ready'' else ''not_ready'')),
            (''dependencies_checked'', JBool True),
            (''dependencies'', JObj [(''database'', JStr (if database_ok then ''ok'' else ''unavailable'')),
               (''redis'', JStr (if redis_ok then ''ok'' else ''unavailable''))])]
      in if ready then Replied content else Refused 503 content)"

fun json_field :: "json \<Rightarrow> string \<Rightarrow> json" where
  "json_field (JObj kvs) k = jget kvs k"
| "json_field _ k = JNull"

definition picked :: "(string \<times> json option) list \<Rightarrow> json \<Rightarrow> json" where
  "picked chosen result =
     JObj (map (\<lambda>(k, alternative).
       (k, case alternative of None \<Rightarrow> json_field result k
           | Some a \<Rightarrow> if truthy (json_field result k) then json_field result k else a)) chosen)"

text \<open>\<^verbatim>\<open>start_stream\<close> of the market data routes: the readiness is read outside the \<^verbatim>\<open>try\<close>.\<close>

definition start_if_ready :: "'w api \<Rightarrow> except_clause list \<Rightarrow> ('w, http_reply) prog" where
  "start_if_ready a clauses =
     bindS (ai_call a Stream_Readiness []) (\<lambda>readiness.
       if \<not> truthy (json_field readiness ''can_start_stream'')
          \<and> \<not> truthy (json_field readiness ''stream_already_running'')
       then retS (Refused 422 (JObj ((''code'', JStr ''stream_not_ready'') #
              map (\<lambda>k. (k, json_field readiness k))
                [''errors'', ''missing_symbols'', ''inactive_symbols'', ''recommended_next_action''])))
       else replying clauses (ai_call a Stream_Start []))"

definition handle :: "'w api \<Rightarrow> route \<Rightarrow> (string \<times> json) list \<Rightarrow> ('w, http_reply) prog" where
  "handle a r args =
     (case ro_handler r of
        Root \<Rightarrow> retS (Replied (JObj [(''project'', JStr ''zerodha-ai-trader''), (''status'', JStr ''bootstrap''),
            (''trading_mode'', JStr (trading_mode (ai_settings a)))]))
      | Health \<Rightarrow> retS (Replied (JObj [(''status'', JStr ''healthy'')]))
      | Ready \<Rightarrow> bindS (check_database (ai_connect a)) (\<lambda>database_ok.
          bindS (check_redis (ai_ping a)) (\<lambda>redis_ok. retS (readiness_reply database_ok redis_ok)))
      | Call m \<Rightarrow> replying (ro_clauses r) (ai_call a m args)
      | Call_Or_404 m message \<Rightarrow> bindS (ai_call a m args) (\<lambda>v.
          retS (if v = JNull then Refused 404 (JStr message) else Replied v))
      | Pick m chosen \<Rightarrow> replying (ro_clauses r) (bindS (ai_call a m args) (\<lambda>v. retS (picked chosen v)))
      | Start_If_Ready \<Rightarrow> start_if_ready a (ro_clauses r))"

definition handler_services :: "handler \<Rightarrow> service_method list" where
  "handler_services h =
     (case h of Call m \<Rightarrow> [m] | Call_Or_404 m _ \<Rightarrow> [m] | Pick m _ \<Rightarrow> [m]
      | Start_If_Ready \<Rightarrow> [Stream_Start, Stream_Readiness] | _ \<Rightarrow> [])"

subsection \<open>One request\<close>

definition serve :: "route list \<Rightarrow> 'w api \<Rightarrow> api_request \<Rightarrow> ('w, http_reply) prog" where
  "serve table a rq =
     (case find_route table (rq_verb rq) (rq_path rq) of
        None \<Rightarrow> retS Unrouted
      | Some (r, path_args) \<Rightarrow>
          bindS (liftS (if ro_protected r then require_operator_token (ai_settings a) (rq_token rq) else Inr None))
            (\<lambda>gate. case gate of
               Some refusal \<Rightarrow> retS refusal
             | None \<Rightarrow>
                 bindS (liftS (mapE (build_service a) (handler_services (ro_handler r)))) (\<lambda>_.
                 case bind_params (ro_params r) (rq_query rq) of
                   None \<Rightarrow> retS Unprocessable
                 | Some args \<Rightarrow> handle a r (path_args @ args))))"

subsection \<open>The lifespan of the application\<close>

text \<open>
  \<open>built\<close> is what building the scheduler with its services gives. The result says whether a scheduler
  was started; \<open>None\<close> is a startup that raised.
\<close>

definition lifespan_begin :: "ops_env \<Rightarrow> unit res \<Rightarrow> unit res \<Rightarrow> ops_system \<Rightarrow> (bool \<times> ops_system) option" where
  "lifespan_begin env built notice y =
     (if market_ops_autostart_enabled (oe_settings env) \<and> market_ops_automation_enabled (oe_settings env)
      then case built of
          Inl e \<Rightarrow> None
        | Inr _ \<Rightarrow> map_option (Pair True) (start_loop env notice y)
      else Some (False, y))"

definition lifespan_end :: "unit res \<Rightarrow> bool \<times> ops_system \<Rightarrow> ops_system" where
  "lifespan_end notice started = (if fst started then stop_loop notice (snd started) else snd started)"

subsection \<open>Facts about the dispatch\<close>

lemma find_route_mem:
  "find_route table v path = Some (r, args) \<Longrightarrow> r \<in> set table \<and> ro_verb r = v \<and> match_path (ro_path r) path = Some args"
  by (induction table) (auto split: option.splits if_splits)

lemma match_segments_literal:
  "list_all (\<lambda>p. path_param p = None) ps \<Longrightarrow> match_segments ps xs = Some args \<Longrightarrow> ps = xs \<and> args = []"
  by (induction ps xs arbitrary: args rule: match_segments.induct) (auto split: if_splits)

definition literal_path :: "string \<Rightarrow> bool" where
  "literal_path path \<longleftrightarrow> list_all (\<lambda>p. path_param p = None) (split_char CHR ''/'' path)"

lemma literal_path_matches_itself: "literal_path pattern \<Longrightarrow> match_path pattern path = Some args \<Longrightarrow> pattern = path"
  unfolding literal_path_def match_path_def by (metis join_split_char match_segments_literal)

text \<open>What it takes to pass the operator's gate.\<close>

definition holds_token :: "settings \<Rightarrow> string option \<Rightarrow> bool" where
  "holds_token s token \<longleftrightarrow> operator_auth_token s \<noteq> [] \<and> token = Some (operator_auth_token s)"

lemma gate_passed_iff:
  "require_operator_token s token = Inr None \<longleftrightarrow> holds_token s token \<and> ascii_text (operator_auth_token s)"
  by (auto simp: require_operator_token_def holds_token_def compare_digest_def split: option.splits)

lemma gate_never_replies: "require_operator_token s token \<noteq> Inr (Some (Replied v))"
  by (auto simp: require_operator_token_def compare_digest_def split: option.splits)

text \<open>A table of routes in which only the \<open>exposed\<close> paths are open to everybody.\<close>

locale gated_table =
  fixes table :: "route list" and exposed :: "string list"
  assumes guarded: "r \<in> set table \<Longrightarrow> ro_path r \<notin> set exposed \<Longrightarrow> ro_protected r"
    and exposed_literal: "path \<in> set exposed \<Longrightarrow> literal_path path"
begin

lemma found_route_protected:
  assumes "find_route table v path = Some (r, args)" "path \<notin> set exposed"
  shows "ro_protected r"
proof (rule ccontr)
  assume open_one: "\<not> ro_protected r"
  from find_route_mem [OF assms(1)] have r: "r \<in> set table" "match_path (ro_path r) path = Some args" by auto
  with open_one have e: "ro_path r \<in> set exposed" using guarded by blast
  with literal_path_matches_itself [OF exposed_literal [OF e] r(2)] assms(2) show False by simp
qed

lemma without_token_nothing_happens:
  assumes "rq_path rq \<notin> set exposed" "\<not> holds_token (ai_settings a) (rq_token rq)"
  shows "snd (serve table a rq w) = w" "fst (serve table a rq w) \<noteq> Inr (Replied v)"
proof -
  have "snd (serve table a rq w) = w \<and> fst (serve table a rq w) \<noteq> Inr (Replied v)"
  proof (cases "find_route table (rq_verb rq) (rq_path rq)")
    case (Some found)
    obtain r args where found: "found = (r, args)" by (cases found)
    have p: "ro_protected r" using found_route_protected Some found assms(1) by blast
    show ?thesis
    proof (cases "require_operator_token (ai_settings a) (rq_token rq)")
      case (Inr gate)
      with assms(2) gate_passed_iff obtain refusal where g: "gate = Some refusal" by (cases gate) auto
      with Inr gate_never_replies have "refusal \<noteq> Replied v" by metis
      with Some found p Inr g show ?thesis by (simp add: serve_def)
    qed (use Some found p in \<open>simp add: serve_def\<close>)
  qed (simp add: serve_def)
  then show "snd (serve table a rq w) = w" "fst (serve table a rq w) \<noteq> Inr (Replied v)" by blast+
qed

end

subsection \<open>The gate of the application\<close>

definition exposed_paths :: "string list" where
  "exposed_paths = [''/'', ''/healthz'', ''/readyz'', ''/api/v1/broker/kite/callback'']"

lemma app_routes_guarded: "list_all (\<lambda>r. ro_path r \<in> set exposed_paths \<or> ro_protected r) app_routes"
  by code_simp

lemma exposed_paths_literal: "list_all literal_path exposed_paths"
  by code_simp

interpretation app: gated_table app_routes exposed_paths
  using app_routes_guarded exposed_paths_literal by unfold_locales (auto simp: list_all_iff)


text \<open>An interface whose every call is counted.\<close>

definition counting_api :: "settings \<Rightarrow> nat api" where
  "counting_api s =
     \<lparr>ai_settings = s, ai_new_fernet = (\<lambda>k. Inl (ValueError k)),
      ai_call = (\<lambda>m args. bindS (modifyS Suc) (\<lambda>_. retS JNull)),
      ai_connect = modifyS Suc, ai_ping = bindS (modifyS Suc) (\<lambda>_. retS (JBool True))\<rparr>"

definition stop_request :: "string option \<Rightarrow> api_request" where
  "stop_request token =
     \<lparr>rq_verb = POST, rq_path = ''/api/v1/ops/market-ops/stop'', rq_token = token, rq_query = []\<rparr>"


text \<open>A token with a character beyond ASCII ends the request with an exception, not with a 401.\<close>

lemma foreign_token_raises:
  "serve app_routes (counting_api (default_settings\<lparr>operator_auth_token := ''secret''\<rparr>)) (stop_request (Some [char_of (233::nat)])) 0
     = (Inl TypeError, 0)"
  by code_simp

text \<open>A malformed encryption key ends even a status request with an exception: the cipher is built before the
  handler and its \<^verbatim>\<open>except\<close> clauses.\<close>

lemma malformed_key_raises:
  assumes "operator_auth_token s = ''secret''" "kite_session_encryption_key s \<noteq> []"
  shows "fst (serve app_routes (counting_api s)
      \<lparr>rq_verb = GET, rq_path = ''/api/v1/broker/kite/session/status'', rq_token = Some ''secret'', rq_query = []\<rparr> w)
    = Inl (KiteConfigError ''Kite session encryption key is invalid.'')"
proof -
  have f: "find_route app_routes GET ''/api/v1/broker/kite/session/status''
      = Some (operator_route GET ''/api/v1/broker/kite/session/status'' [] (Call Kite_Status) [], [])"
    by code_simp
  have g: "require_operator_token s (Some ''secret'') = Inr None"
    using assms(1) by (simp add: gate_passed_iff holds_token_def ascii_text_def)
  show ?thesis using assms(2) g
    by (simp add: serve_def f operator_route_def handler_services_def build_service_def Let_def needs_cipher_def
        build_token_cipher_def token_cipher_def counting_api_def)
qed

subsection \<open>The lifespan\<close>

lemma stop_loop_stops: "sy_loop (stop_loop notice y) = Not_Running"
  by (auto simp: stop_loop_def cancel_loop_def leave_job_def split: list.splits)

text \<open>A scheduler that the application started is stopped with it.\<close>

lemma autostarted_loop_is_stopped: "sy_loop (lifespan_end notice (True, y)) = Not_Running"
  by (simp add: lifespan_end_def stop_loop_stops)

text \<open>One that the operator started, without the autostart, is not.\<close>

lemma operators_loop_is_left:
  assumes "\<not> market_ops_autostart_enabled (oe_settings env)" "lifespan_begin env built notice y = Some (started, y')"
    and "start_loop env notice y' = Some y''"
  shows "lifespan_end notice' (started, y'') = y''"
  using assms by (simp add: lifespan_begin_def lifespan_end_def)

end
