(* ===== verification/ApiWiring.thy ===== *)
theory ApiWiring
  imports HttpRoutes StreamExamples OpsExamples
begin

section \<open>The services behind the routes of the stream\<close>

text \<open>
  The part of \<^verbatim>\<open>app/api/dependencies.py\<close> that builds the stream service, its readiness and the session
  provider, and hands them to the routes and to the market operations. The properties follow a request
  from the route to the calls of the broker's client.
\<close>

subsection \<open>Construction\<close>

text \<open>The process-local stream service and the repositories over the tables, as one record of their parts.\<close>

record ('h, 's) app_parts =
  pa_settings :: settings
  pa_read_text :: "string \<Rightarrow> string option"
  pa_repo :: "'s market_repository"
  pa_store :: "'s session_store"
  pa_client :: "'h market_client"
  pa_new_fernet :: "string \<Rightarrow> fernet res"

definition session_provider :: "('h, 's) app_parts \<Rightarrow> instant \<Rightarrow> 's \<Rightarrow> kite_access_session res" where
  "session_provider p now d =
     bindE (build_token_cipher (pa_new_fernet p) (pa_settings p)) (\<lambda>cipher.
       get_active_session (pa_settings p) (pa_store p) cipher now d)"

text \<open>\<^verbatim>\<open>StreamReadinessService\<close> with the validation, the session store and the stream service.\<close>

definition readiness_call :: "('h, 's) app_parts \<Rightarrow> instant \<Rightarrow> (('h, 's) stream_world, (string \<times> json) list) prog" where
  "readiness_call p now =
     bindS (on_repo (validate (pa_repo p) (pa_read_text p) (pa_settings p))) (\<lambda>watchlist.
     bindS (on_repo (readS (session_status (pa_settings p) (pa_store p) now))) (\<lambda>session.
     bindS (status_dict (pa_read_text p) (pa_settings p) now) (\<lambda>status.
       retS (readiness_as_dict (pa_settings p) watchlist status
               (readiness_of (pa_settings p) watchlist session status)))))"

definition start_call :: "('h, 's) app_parts \<Rightarrow> instant \<Rightarrow> (('h, 's) stream_world, (string \<times> json) list) prog" where
  "start_call p now =
     start_stream (pa_read_text p) (pa_settings p) (pa_repo p) (session_provider p now) (pa_client p) now"

definition stop_call ::
  "('h, 's) app_parts \<Rightarrow> nat list \<Rightarrow> instant \<Rightarrow> (('h, 's) stream_world, (string \<times> json) list) prog" where
  "stop_call p finished now =
     stop_stream_service (pa_read_text p) (pa_settings p) (pa_repo p) (pa_client p) finished now"

definition status_call :: "('h, 's) app_parts \<Rightarrow> instant \<Rightarrow> (('h, 's) stream_world, (string \<times> json) list) prog" where
  "status_call p now = status_dict (pa_read_text p) (pa_settings p) now"

text \<open>\<open>rest\<close> is the interface to the other services.\<close>

definition stream_api ::
  "('h, 's) app_parts \<Rightarrow> nat list \<Rightarrow> instant \<Rightarrow> ('h, 's) stream_world api \<Rightarrow> ('h, 's) stream_world api" where
  "stream_api p finished now rest =
     rest\<lparr>ai_settings := pa_settings p, ai_new_fernet := pa_new_fernet p,
       ai_call := (\<lambda>m args. let answer = (\<lambda>call. bindS call (\<lambda>d. retS (JObj d))) in
         case m of
           Stream_Readiness \<Rightarrow> answer (readiness_call p now)
         | Stream_Status \<Rightarrow> answer (status_call p now)
         | Stream_Start \<Rightarrow> answer (start_call p now)
         | Stream_Stop \<Rightarrow> answer (stop_call p finished now)
         | _ \<Rightarrow> ai_call rest m args)\<rparr>"

text \<open>The orchestrator of the market operations gets the same stream service.\<close>

definition orchestrator_services ::
  "('h, 's) app_parts \<Rightarrow> nat list \<Rightarrow> instant \<Rightarrow> ('h, 's) stream_world ops_services \<Rightarrow> ('h, 's) stream_world ops_services"
  where
  "orchestrator_services p finished now rest =
     rest\<lparr>os_stream_readiness := readiness_call p now, os_stream_start := start_call p now,
       os_stream_stop := stop_call p finished now, os_stream_status := status_call p now\<rparr>"

subsection \<open>What a start may raise\<close>

text \<open>Every stored token is a number, as the writers of the table see to.\<close>

definition readable_instruments :: "database \<Rightarrow> bool" where
  "readable_instruments d \<longleftrightarrow> list_all (\<lambda>r. \<not> isl (instrument_from_row r)) (db_instruments d)"

lemma mapE_succeeds: "(\<And>x. x \<in> set xs \<Longrightarrow> \<not> isl (f x)) \<Longrightarrow> \<exists>ys. mapE f xs = Inr ys"
proof (induction xs)
  case (Cons x xs)
  then obtain ys where "mapE f xs = Inr ys" by auto
  moreover obtain y where "f x = Inr y" using Cons.prems [of x] by (cases "f x") auto
  ultimately show ?case by simp
qed simp

lemma inspection_readable:
  assumes "readable_instruments d"
  shows "\<exists>rs. mk_inspect_watchlist sql_market_repository ws d = (Inr rs, d)"
proof -
  let ?rows = "List.map_filter (\<lambda>s. find_instrument (ws_exchange s) (ws_tradingsymbol s) d) ws"
  have "r \<in> set (db_instruments d)" if "r \<in> set ?rows" for r
    using that by (auto simp: map_filter_def find_instrument_def dest: find_Some_D)
  with assms have "\<exists>rs. mapE instrument_from_row ?rows = Inr rs"
    by (intro mapE_succeeds) (auto simp: readable_instruments_def list_all_iff)
  then show ?thesis by (auto simp: sql_market_repository_def sql_inspect_watchlist_def)
qed

lemma parse_entry_error: "parse_entry entry = Inl e \<Longrightarrow> \<exists>m. e = WatchlistError m"
  by (auto simp: parse_entry_def Let_def split: if_splits list.splits)

lemma parse_entries_error: "parse_entries seen entries = Inl e \<Longrightarrow> \<exists>m. e = WatchlistError m"
  by (induction entries arbitrary: seen) (auto simp: bindE_eq_Inl dest: parse_entry_error split: if_splits)

lemma strict_watchlist_error: "strict_configured_watchlist read_text s = Inl e \<Longrightarrow> \<exists>m. e = WatchlistError m"
  by (auto simp: strict_configured_watchlist_def parse_watchlist_def Let_def dest: parse_entries_error split: if_splits)

text \<open>The exceptions that the start route answers.\<close>

definition answered :: "exn \<Rightarrow> bool" where
  "answered e \<longleftrightarrow> (\<exists>m. e = MarketDataDisabledError m \<or> e = WatchlistError m \<or> e = MarketDataSessionError m
     \<or> e = MarketDataStreamError m)"

lemma prepare_stream_error:
  assumes "prepare_stream read_text s sql_market_repository session w = (Inl e, w')"
    and "readable_instruments (sw_repo w)"
  shows "answered e"
proof (cases "strict_configured_watchlist read_text s")
  case (Inl x)
  with assms(1) strict_watchlist_error [OF Inl] show ?thesis by (auto simp: prepare_stream_def answered_def)
next
  case (Inr ws)
  from inspection_readable [OF assms(2)] obtain rs where
    "mk_inspect_watchlist sql_market_repository ws (sw_repo w) = (Inr rs, sw_repo w)" by blast
  with Inr assms(1) show ?thesis
    by (auto simp: prepare_stream_def stream_simps answered_def resolve_for_stream_def Let_def split: if_splits sum.splits)
qed

lemma open_stream_error: "open_stream client now rs ks w = (Inl e, w') \<Longrightarrow> answered e"
  by (auto simp: open_stream_def stream_simps tryS_def answered_def split: sum.splits)

lemma ensure_enabled_error: "ensure_stream_enabled s = Inl e \<Longrightarrow> answered e"
  by (auto simp: ensure_stream_enabled_def answered_def split: if_splits)

lemma start_stream_outcome:
  assumes "start_stream read_text s sql_market_repository session client now w = (res, w')"
    and "readable_instruments (sw_repo w)"
  shows "case res of Inl e \<Rightarrow> answered e | Inr d \<Rightarrow> sm_stream (sw_state w') \<noteq> None"
proof (cases "ensure_stream_enabled s")
  case (Inl e)
  with assms(1) ensure_enabled_error show ?thesis by (auto simp: start_stream_def)
next
  case enabled: (Inr u)
  show ?thesis
  proof (cases "sm_stream (sw_state w) = None")
    case False
    with enabled assms(1) have "status_dict read_text s now w = (res, w')" by (simp add: start_stream_def bindS_def)
    from status_dict_frame [OF this] False show ?thesis by auto
  next
    case idle: True
    obtain q w1 where q: "prepare_stream read_text s sql_market_repository session w = (q, w1)" by (metis surj_pair)
    show ?thesis
    proof (cases q)
      case (Inl e)
      with q prepare_stream_error assms(2) enabled idle assms(1) show ?thesis by (auto simp: start_stream_def bindS_def)
    next
      case (Inr rk)
      obtain rs ks where rk: "rk = (rs, ks)" by (cases rk)
      obtain o1 w2 where o1: "open_stream client now rs ks w1 = (o1, w2)" by (metis surj_pair)
      show ?thesis
      proof (cases o1)
        case (Inl e)
        with o1 open_stream_error q Inr rk enabled idle assms(1) show ?thesis by (auto simp: start_stream_def bindS_def)
      next
        case (Inr v)
        with o1 q \<open>q = Inr rk\<close> rk enabled idle assms(1) have "status_dict read_text s now w2 = (res, w')"
          by (simp add: start_stream_def bindS_def)
        from status_dict_frame [OF this] open_stream_calls [OF o1] Inr show ?thesis by auto
      qed
    qed
  qed
qed

subsection \<open>The start route\<close>

definition start_request :: "string \<Rightarrow> (string \<times> json) list \<Rightarrow> api_request" where
  "start_request token query =
     \<lparr>rq_verb = POST, rq_path = ''/api/v1/market-data/stream/start'', rq_token = Some token, rq_query = query\<rparr>"

definition start_clauses :: "except_clause list" where
  "start_clauses =
     [([''MarketDataDisabledError''], 403, Fixed ''market data disabled''),
      ([''WatchlistError''], 422, Coded ''watchlist_invalid''),
      ([''MarketDataSessionError''], 409, Fixed ''active kite session required''),
      ([''MarketDataStreamError''], 502, Fixed ''stream start failed'')]"

lemma start_route_found:
  "find_route app_routes POST ''/api/v1/market-data/stream/start''
     = Some (operator_route POST ''/api/v1/market-data/stream/start'' [] Start_If_Ready start_clauses, [])"
  by code_simp

lemma answered_handled: "answered e \<Longrightarrow> \<exists>status d. handled start_clauses e = Some (Refused status d) \<and> status \<in> {403, 409, 422, 502}"
  by (auto simp: answered_def start_clauses_def exn_classes_def broker_bases_def market_data_bases_def scanner_bases_def
      paper_bases_def universe_bases_def decision_bases_def)

lemma validation_readable:
  assumes "readable_instruments d"
  shows "\<exists>v. validate sql_market_repository read_text s d = (Inr v, d)"
proof (cases "dw_symbols (diagnose_entries (load_watchlist_source read_text s) (market_data_max_instruments s)) = []")
  case False
  from inspection_readable [OF assms] obtain rs where "mk_inspect_watchlist sql_market_repository
      (dw_symbols (diagnose_entries (load_watchlist_source read_text s) (market_data_max_instruments s))) d = (Inr rs, d)"
    by blast
  with False show ?thesis by (simp add: validate_def Let_def bindS_def)
qed (simp add: validate_def Let_def)

lemma readiness_call_returns:
  assumes "pa_repo p = sql_market_repository" "readable_instruments (sw_repo w)"
  shows "\<exists>r w'. readiness_call p now w = (Inr r, w') \<and> sw_repo w' = sw_repo w \<and> sw_calls w' = sw_calls w
    \<and> sm_stream (sw_state w') = sm_stream (sw_state w)"
proof -
  obtain v where v: "validate (pa_repo p) (pa_read_text p) (pa_settings p) (sw_repo w) = (Inr v, sw_repo w)"
    using validation_readable [OF assms(2)] unfolding assms(1) by blast
  obtain st w' where st: "status_dict (pa_read_text p) (pa_settings p) now w = (st, w')" by (metis surj_pair)
  have same: "w\<lparr>sw_repo := sw_repo w\<rparr> = w" by simp
  from v st status_dict_frame [OF st] show ?thesis
    by (auto simp: readiness_call_def on_repo_def bindS_def readS_def same)
qed


definition demo_parts :: "(nat, database) app_parts" where
  "demo_parts = \<lparr>pa_settings = stream_settings, pa_read_text = (\<lambda>_. None),
     pa_repo = sql_market_repository, pa_store = sql_session_store, pa_client = open_client,
     pa_new_fernet = (\<lambda>_. Inr plain_fernet)\<rparr>"

definition no_api :: "'w api" where
  "no_api = \<lparr>ai_settings = default_settings, ai_new_fernet = (\<lambda>_. Inr plain_fernet),
     ai_call = (\<lambda>_ _. raiseS (OtherError ''ServiceError'')), ai_connect = retS (), ai_ping = retS (JBool True)\<rparr>"

lemma demo_readable: "readable_instruments (sw_repo stream_world)"
  by code_simp


subsection \<open>The morning's job\<close>

text \<open>A clock and a notifier that leave the stream alone.\<close>

definition quiet_reports :: "('h, 's) stream_world ops_services \<Rightarrow> bool" where
  "quiet_reports svc \<longleftrightarrow> (\<forall>w. \<exists>t. os_now svc w = (Inr t, w)) \<and> (\<forall>n w. \<exists>r. os_notify svc n w = (Inr r, w))"

lemma status_dict_repeat:
  assumes "status_dict read_text s now w = (Inr d, w')"
  shows "fst (status_dict read_text s now w') = Inr d"
  using assms by (auto simp: status_dict_def stream_status_def stream_simps Let_def stream_stale_def)

lemma readiness_call_reads:
  assumes "readiness_call p now w = (Inr r, w1)" "pa_repo p = sql_market_repository"
  shows "\<exists>status v. status_dict (pa_read_text p) (pa_settings p) now w = (Inr status, w1)
    \<and> validate sql_market_repository (pa_read_text p) (pa_settings p) (sw_repo w) = (Inr v, sw_repo w)
    \<and> r = readiness_as_dict (pa_settings p) v status
            (readiness_of (pa_settings p) v (session_status (pa_settings p) (pa_store p) now (sw_repo w)) status)"
proof -
  obtain vr d' where v: "validate (pa_repo p) (pa_read_text p) (pa_settings p) (sw_repo w) = (vr, d')" by (metis surj_pair)
  from v assms(2) have d': "d' = sw_repo w" using sql_market.validate_frame by metis
  obtain st w' where st: "status_dict (pa_read_text p) (pa_settings p) now w = (st, w')" by (metis surj_pair)
  have same: "w\<lparr>sw_repo := sw_repo w\<rparr> = w" by simp
  show ?thesis
    using assms v st d' same status_dict_frame [OF st]
    by (auto simp: readiness_call_def on_repo_def bindS_def readS_def split: sum.splits)
qed

lemma ready_call_allows:
  assumes "readiness_call p now w = (Inr r, w1)" "pa_repo p = sql_market_repository"
    and "truthy (jget r ''can_start_stream'')"
  shows "start_allowed (pa_settings p) r"
proof -
  from readiness_call_reads [OF assms(1,2)] obtain status v where
    v: "validate sql_market_repository (pa_read_text p) (pa_settings p) (sw_repo w) = (Inr v, sw_repo w)"
    and r: "r = readiness_as_dict (pa_settings p) v status
            (readiness_of (pa_settings p) v (session_status (pa_settings p) (pa_store p) now (sw_repo w)) status)"
    by blast
  let ?r = "readiness_of (pa_settings p) v (session_status (pa_settings p) (pa_store p) now (sw_repo w)) status"
  from assms(3) r have "rd_can_start ?r" by (simp add: readiness_keys)
  from can_start_gates [OF this] validation_no_errors [OF v] show ?thesis
    using assms(3) r by (simp add: start_allowed_def readiness_keys readiness_of_def Let_def)
qed

lemma start_body_opens:
  assumes "os_stream_readiness svc w = (Inr r, w1)" "start_allowed s r" "os_stream_start svc w1 = (Inr d, w2)"
    and "os_now svc w2 = (Inr t', w2)"
  shows "\<exists>m. start_stream_body s svc t w = (Inr m, w2) \<and> su_ok m \<and> \<not> su_skipped m \<and> su_event m = ''stream_started''"
  using assms by (auto simp: start_stream_body_def start_allowed_def bindS_def make_summary_def)


text \<open>An orchestrator whose other services are out of order.\<close>

definition quiet_services :: "('h, 's) stream_world ops_services" where
  "quiet_services =
     \<lparr>os_morning_readiness = broken, os_stream_readiness = broken, os_stream_start = broken, os_stream_stop = broken,
      os_stream_status = broken, os_select = (\<lambda>_. broken), os_run_batch = (\<lambda>_. broken),
      os_notify = (\<lambda>n. retS \<lparr>no_ok = True, no_skipped = True, no_provider = ''disabled'', no_event = nt_event n, no_error = None\<rparr>),
      os_test_notification = broken, os_decision_status = None, os_evaluate_batch = (\<lambda>_. broken), os_login_url = None,
      os_now = retS 7\<rparr>"


end
