(* ===== verification/AppApi.thy ===== *)
theory AppApi
  imports ApiWiring AutoLoop DecisionAutomation UniverseSelection PaperSql BrokerExamples DecisionExamples
begin

section \<open>The application behind its routes\<close>

text \<open>
  The rest of \<^verbatim>\<open>app/api/dependencies.py\<close>: every service that the routes get, on one state, with the SQL
  repositories. The market operations and the readiness report are built from the same services; their
  calls are left to the interface \<open>rest\<close>. The properties follow requests through the route table, the
  construction of the services and the services themselves.
\<close>

subsection \<open>One state\<close>

record ('h, 'r) app_world =
  wo_db :: database
  wo_stream :: "'h stream_state"
  wo_calls :: "'h client_call list"
  wo_loop :: auto_loop
  wo_states :: 'r
  wo_notes :: "notification list"
  wo_summary :: "automation_summary option"

text \<open>A service runs on its part of the state.\<close>

definition zoom :: "('w \<Rightarrow> 'x) \<Rightarrow> ('x \<Rightarrow> 'w \<Rightarrow> 'w) \<Rightarrow> ('x, 'a) prog \<Rightarrow> ('w, 'a) prog" where
  "zoom get put m = (\<lambda>w. case m (get w) of (r, x) \<Rightarrow> (r, put x w))"

definition on_db :: "(database, 'a) prog \<Rightarrow> (('h, 'r) app_world, 'a) prog" where
  "on_db = zoom wo_db (\<lambda>d w. w\<lparr>wo_db := d\<rparr>)"

definition on_stream :: "(('h, database) stream_world, 'a) prog \<Rightarrow> (('h, 'r) app_world, 'a) prog" where
  "on_stream = zoom (\<lambda>w. \<lparr>sw_state = wo_stream w, sw_repo = wo_db w, sw_calls = wo_calls w\<rparr>)
     (\<lambda>x w. w\<lparr>wo_stream := sw_state x, wo_db := sw_repo x, wo_calls := sw_calls x\<rparr>)"

definition on_loop :: "(database auto_loop_world, 'a) prog \<Rightarrow> (('h, 'r) app_world, 'a) prog" where
  "on_loop = zoom (\<lambda>w. \<lparr>alw_loop = wo_loop w, alw_scanner = wo_db w\<rparr>)
     (\<lambda>x w. w\<lparr>wo_loop := alw_loop x, wo_db := alw_scanner x\<rparr>)"

definition on_auth :: "((database, 'r) auth_world, 'a) prog \<Rightarrow> (('h, 'r) app_world, 'a) prog" where
  "on_auth = zoom (\<lambda>w. \<lparr>aw_sessions = wo_db w, aw_states = wo_states w\<rparr>)
     (\<lambda>x w. w\<lparr>wo_db := aw_sessions x, wo_states := aw_states x\<rparr>)"

definition on_automation :: "(database automation, 'a) prog \<Rightarrow> (('h, 'r) app_world, 'a) prog" where
  "on_automation = zoom (\<lambda>w. \<lparr>au_store = wo_db w, au_notifications = wo_notes w, au_last_summary = wo_summary w\<rparr>)
     (\<lambda>x w. w\<lparr>wo_db := au_store x, wo_notes := au_notifications x, wo_summary := au_last_summary x\<rparr>)"

subsection \<open>What the services are built from\<close>

text \<open>
  \<open>an_now\<close> and \<open>an_later\<close> are the first and the later readings of the clock by a call, \<open>an_time\<close> the time
  a query text stands for, \<open>an_run_id\<close> the next identity of a universe run.
\<close>

record ('h, 'r) app_env =
  an_parts :: "('h, database) app_parts"
  an_kite :: kite_auth_client
  an_states :: "'r state_store"
  an_decision :: decision_env
  an_notify :: "notification \<Rightarrow> notify_result res"
  an_fetch :: "string \<Rightarrow> string \<Rightarrow> broker_item list res"
  an_float_ms :: "int \<Rightarrow> int"
  an_run_id :: string
  an_time :: "string \<Rightarrow> instant"
  an_now :: instant
  an_later :: instant
  an_symbol_now :: "string \<Rightarrow> instant"
  an_finished :: "nat list"

abbreviation app_settings :: "('h, 'r) app_env \<Rightarrow> settings" where
  "app_settings e \<equiv> pa_settings (an_parts e)"

abbreviation app_text :: "('h, 'r) app_env \<Rightarrow> string \<Rightarrow> string option" where
  "app_text e \<equiv> pa_read_text (an_parts e)"

text \<open>The broker session as \<^verbatim>\<open>KiteAccessSessionProvider\<close> gives it to the instrument sync.\<close>

definition sync_session :: "('h, 'r) app_env \<Rightarrow> database \<Rightarrow> (string \<times> string) res" where
  "sync_session e d =
     bindE (session_provider (an_parts e) (an_now e) d) (\<lambda>ks. Inr (ks_api_key ks, ks_access_token ks))"

text \<open>\<^verbatim>\<open>_build_decision_adapter\<close>: \<open>env_adapter\<close> of the given environment is the adapter of the model client.\<close>

definition build_decision_adapter :: "settings \<Rightarrow> (decision_input \<Rightarrow> adapter_result res) \<Rightarrow> decision_input \<Rightarrow> adapter_result res" where
  "build_decision_adapter s openai =
     (if lower (strip (openai_decision_adapter s)) = ''openai'' then openai else (\<lambda>i. Inr (fake_result None i)))"

definition decision_env_of :: "('h, 'r) app_env \<Rightarrow> decision_env" where
  "decision_env_of e =
     (an_decision e)\<lparr>env_settings := app_settings e,
       env_adapter := build_decision_adapter (app_settings e) (env_adapter (an_decision e))\<rparr>"

definition auth_env_of :: "('h, 'r) app_env \<Rightarrow> fernet option \<Rightarrow> (database, 'r) auth_env" where
  "auth_env_of e cipher =
     \<lparr>ae_settings = app_settings e, ae_client = an_kite e, ae_store = pa_store (an_parts e),
      ae_states = an_states e, ae_cipher = cipher\<rparr>"

definition latest_symbols :: "(database, string list option) prog" where
  "latest_symbols = readS (latest_selected_symbols universe_sql_repository)"

definition scan_batch :: "('h, 'r) app_env \<Rightarrow> batch_options \<Rightarrow> (database, scanner_batch_result) prog" where
  "scan_batch e options =
     bindS (liftS (scanner_config_from_settings (app_settings e))) (\<lambda>config.
     bindS latest_symbols (\<lambda>latest.
       run_batch scanner_sql_repository (app_settings e) (app_text e) (Inr latest) config (an_symbol_now e)
         (an_now e) (an_later e) options))"

subsection \<open>Arguments and values\<close>

definition arg_text :: "(string \<times> json) list \<Rightarrow> string \<Rightarrow> string option" where
  "arg_text args k = (case jget args k of JStr t \<Rightarrow> Some t | _ \<Rightarrow> None)"

definition arg_int :: "(string \<times> json) list \<Rightarrow> string \<Rightarrow> int option" where
  "arg_int args k = (case jget args k of JInt i \<Rightarrow> Some i | _ \<Rightarrow> None)"

definition arg_texts :: "(string \<times> json) list \<Rightarrow> string \<Rightarrow> string list option" where
  "arg_texts args k =
     (case jget args k of JList vs \<Rightarrow> Some (List.map_filter (\<lambda>v. case v of JStr t \<Rightarrow> Some t | _ \<Rightarrow> None) vs) | _ \<Rightarrow> None)"

definition arg_flag :: "(string \<times> json) list \<Rightarrow> string \<Rightarrow> bool" where
  "arg_flag args k = truthy (jget args k)"

definition the_text :: "(string \<times> json) list \<Rightarrow> string \<Rightarrow> string" where
  "the_text args k = (case arg_text args k of Some t \<Rightarrow> t | None \<Rightarrow> [])"

definition the_int :: "(string \<times> json) list \<Rightarrow> string \<Rightarrow> int" where
  "the_int args k = (case arg_int args k of Some i \<Rightarrow> i | None \<Rightarrow> 0)"

definition jobjs :: "(string \<times> json) list list \<Rightarrow> json" where
  "jobjs ds = JList (map JObj ds)"

definition jcount :: "nat \<Rightarrow> json" where
  "jcount n = JInt (int n)"

text \<open>\<^verbatim>\<open>asdict\<close> of the session status, the times as the framework writes them.\<close>

definition auth_status_dict :: "broker_session_status \<Rightarrow> (string \<times> json) list" where
  "auth_status_dict v =
     [(''configured'', JBool (sv_configured v)), (''enabled'', JBool (sv_enabled v)),
      (''authenticated'', JBool (sv_authenticated v)), (''broker'', JStr (sv_broker v)),
      (''user_id'', jopt JStr (sv_user_id v)), (''login_at'', jopt (\<lambda>t. JStr (isoformat t)) (sv_login_at v)),
      (''expires_at'', jopt (\<lambda>t. JStr (isoformat t)) (sv_expires_at v)), (''expired'', JBool (sv_expired v)),
      (''status'', jopt JStr (sv_status v))]"

subsection \<open>The calls\<close>

definition dict :: "('w, (string \<times> json) list) prog \<Rightarrow> ('w, json) prog" where
  "dict m = bindS m (\<lambda>d. retS (JObj d))"

definition kite_call :: "('h, 'r) app_env \<Rightarrow> ((database, 'r) auth_env \<Rightarrow> ((database, 'r) auth_world, json) prog) \<Rightarrow> (('h, 'r) app_world, json) prog" where
  "kite_call e call =
     bindS (liftS (build_token_cipher (pa_new_fernet (an_parts e)) (app_settings e))) (\<lambda>cipher.
       on_auth (call (auth_env_of e cipher)))"

definition scanner_call :: "('h, 'r) app_env \<Rightarrow> (scanner_config \<Rightarrow> (database, json) prog) \<Rightarrow> (('h, 'r) app_world, json) prog" where
  "scanner_call e call = on_db (bindS (liftS (scanner_config_from_settings (app_settings e))) call)"

definition paper_call :: "('h, 'r) app_env \<Rightarrow> (paper_config \<Rightarrow> (database, json) prog) \<Rightarrow> (('h, 'r) app_world, json) prog" where
  "paper_call e call = on_db (bindS (liftS (paper_config_from_settings (app_settings e))) call)"

definition run_once_fields :: "scanner_run_result \<Rightarrow> (string \<times> json) list" where
  "run_once_fields r =
     [(''evaluated'', jcount (run_evaluated r)), (''inserted'', jcount (run_inserted r)),
      (''duplicates'', jcount (run_duplicates r)), (''candidates'', jcount (run_candidates r)),
      (''rejected'', jcount (run_rejected r)), (''veto_counts'', JObj (map (\<lambda>(k, n). (k, jcount n)) (run_veto_counts r)))]"

definition sync_fields :: "instrument_sync_result \<Rightarrow> (string \<times> json) list" where
  "sync_fields r =
     [(''fetched'', jcount (sync_fetched r)), (''inserted'', jcount (sync_inserted r)),
      (''updated'', jcount (sync_updated r)), (''skipped'', jcount (sync_skipped r)), (''failed'', jcount (sync_failed r)),
      (''watchlist_validation'', (case sync_watchlist_validation r of None \<Rightarrow> JNull | Some v \<Rightarrow> v))]"

definition sync_call :: "('h, 'r) app_env \<Rightarrow> (database, json) prog" where
  "sync_call e =
     bindS (readS (sync_session e)) (\<lambda>session.
     bindS (sync_instruments (pa_repo (an_parts e)) (app_text e) (app_settings e) (an_now e) session (an_fetch e))
       (\<lambda>r. retS (JObj (sync_fields r))))"

definition batch_options_of :: "(string \<times> json) list \<Rightarrow> batch_options" where
  "batch_options_of args =
     \<lparr>op_store_rejections = arg_flag args ''store_rejections'', op_dry_run = arg_flag args ''dry_run'', op_min_candles = 0,
      op_require_session_start = False, op_require_continuity = False, op_symbols = arg_texts args ''symbols'',
      op_timeframe = the_text args ''timeframe'', op_max_symbols = None,
      op_use_latest_universe = arg_flag args ''use_latest_universe''\<rparr>"

definition select_options_of :: "(string \<times> json) list \<Rightarrow> select_options" where
  "select_options_of args =
     \<lparr>sl_limit = arg_int args ''limit'', sl_timeframe = arg_text args ''timeframe'', sl_dry_run = arg_flag args ''dry_run'',
      sl_include_excluded = arg_flag args ''include_excluded'', sl_use_current_session = arg_flag args ''use_current_session'',
      sl_min_candles = arg_int args ''min_candles'', sl_symbols = arg_texts args ''symbols'',
      sl_stale_policy = arg_text args ''stale_policy''\<rparr>"

text \<open>The status that starting and stopping the loop return.\<close>

definition loop_status :: "('h, 'r) app_env \<Rightarrow> (database auto_loop_world, (string \<times> json) list) prog" where
  "loop_status e =
     bindS (on_scanner latest_symbols) (\<lambda>latest.
       readS (\<lambda>w. auto_loop_status (app_settings e) (app_text e) latest (alw_loop w)))"

definition app_call ::
  "('h, 'r) app_env \<Rightarrow> (service_method \<Rightarrow> (string \<times> json) list \<Rightarrow> (('h, 'r) app_world, json) prog) \<Rightarrow>
     service_method \<Rightarrow> (string \<times> json) list \<Rightarrow> (('h, 'r) app_world, json) prog" where
  "app_call e rest m args =
     (let s = app_settings e; p = an_parts e; read_text = app_text e; now = an_now e; later = an_later e in
      case m of
        Kite_Login_Url \<Rightarrow> kite_call e (\<lambda>env. bindS (create_login_url env) (\<lambda>u. retS (JObj [(''login_url'', JStr u)])))
      | Kite_Callback \<Rightarrow> kite_call e (\<lambda>env.
          bindS (handle_callback env now later later (arg_text args ''request_token'') (arg_text args ''state''))
            (\<lambda>v. retS (JObj (auth_status_dict v))))
      | Kite_Status \<Rightarrow> kite_call e (\<lambda>env. bindS (auth_status env now) (\<lambda>v. retS (JObj (auth_status_dict v))))
      | Kite_Logout \<Rightarrow> kite_call e (\<lambda>env. bindS (logout env now) (\<lambda>done_it. retS (JObj
          (if done_it then [(''logged_out'', JBool True)]
           else [(''logged_out'', JBool False), (''reason'', JStr ''no_session'')]))))
      | Instruments_Sync \<Rightarrow> on_db (sync_call e)
      | Watchlist_Validate \<Rightarrow> on_db (bindS (validate (pa_repo p) read_text s) (\<lambda>v. retS (JObj (validation_as_dict v))))
      | Stream_Readiness \<Rightarrow> on_stream (dict (readiness_call p now))
      | Stream_Status \<Rightarrow> on_stream (dict (status_call p now))
      | Stream_Start \<Rightarrow> on_stream (dict (start_call p now))
      | Stream_Stop \<Rightarrow> on_stream (dict (stop_call p (an_finished e) now))
      | Scanner_Status \<Rightarrow> scanner_call e (\<lambda>c. retS (JObj (scanner_status s c)))
      | Scanner_Run_Once \<Rightarrow> scanner_call e (\<lambda>c.
          bindS (run_once scanner_sql_repository c (an_symbol_now e) (arg_text args ''symbol'') (the_text args ''timeframe'') None)
            (\<lambda>r. retS (JObj (run_once_fields r))))
      | Scanner_Run_Batch \<Rightarrow> on_db (bindS (scan_batch e (batch_options_of args))
          (\<lambda>r. retS (JObj (batch_as_dict (an_float_ms e) r))))
      | Loop_Start \<Rightarrow> on_loop (bindS (auto_loop_start s) (\<lambda>_. dict (loop_status e)))
      | Loop_Stop \<Rightarrow> on_loop (bindS auto_loop_stop (\<lambda>_. dict (loop_status e)))
      | Loop_Status \<Rightarrow> on_loop (dict (loop_status e))
      | Loop_Run_Now \<Rightarrow> on_loop (dict (auto_loop_run_now s (scan_batch e) (an_float_ms e) now later))
      | Scanner_Signals \<Rightarrow> scanner_call e (\<lambda>c. readS (\<lambda>d. jobjs (scanner_list_signals scanner_sql_repository (the_int args ''limit'') d)))
      | Paper_Status \<Rightarrow> paper_call e (\<lambda>c. retS (JObj (paper_status c)))
      | Paper_Replay \<Rightarrow> paper_call e (\<lambda>c.
          bindS (run_replay sql_repository c (arg_text args ''symbol'') (map_option (an_time e) (arg_text args ''start''))
            (map_option (an_time e) (arg_text args ''end'')) (the_int args ''limit'')) (\<lambda>summary.
          dict (liftS (summary_as_dict summary))))
      | Paper_Report \<Rightarrow> paper_call e (\<lambda>c. bindS (readS (paper_report sql_repository c (the_int args ''limit'')))
          (\<lambda>r. dict (liftS r)))
      | Paper_Trades \<Rightarrow> paper_call e (\<lambda>c. readS (\<lambda>d. jobjs (paper_trades sql_repository (the_int args ''limit'') d)))
      | Universe_Status \<Rightarrow> on_db (bindS (readS (universe_status universe_sql_repository read_text s)) (\<lambda>r. dict (liftS r)))
      | Universe_Validate \<Rightarrow> on_db (bindS (readS (validate_pool universe_sql_repository read_text s (arg_texts args ''symbols'')))
          (\<lambda>r. dict (bindS (liftS r) (\<lambda>v. retS (pool_as_dict v)))))
      | Universe_Select \<Rightarrow> on_db (bindS (select_universe universe_sql_repository read_text s (select_options_of args)
            (an_run_id e) now later) (\<lambda>run. retS (JObj (run_as_dict run))))
      | Universe_Latest \<Rightarrow> on_db (readS (\<lambda>d. jopt (\<lambda>r. JObj (run_as_dict r)) (un_latest_run universe_sql_repository d)))
      | Universe_Runs \<Rightarrow> on_db (readS (\<lambda>d. jobjs (map run_as_dict (list_universe_runs universe_sql_repository (the_int args ''limit'') d))))
      | Universe_Run \<Rightarrow> on_db (readS (\<lambda>d. jopt (\<lambda>r. JObj (run_as_dict r)) (un_get_run universe_sql_repository (the_text args ''run_id'') d)))
      | Decision_Status \<Rightarrow> on_db (dict (liftS (decision_status s)))
      | Decision_Evaluate \<Rightarrow> on_db (bindS (evaluate (decision_env_of e) decision_sql_repository (the_int args ''signal_id'')
            (arg_flag args ''force'')) (\<lambda>v. retS (JObj (persisted_as_dict v))))
      | Decision_Recommendations \<Rightarrow> on_db (readS (\<lambda>d. jobjs (decision_recommendations decision_sql_repository (the_int args ''limit'') d)))
      | Decision_Auto_Status \<Rightarrow> on_automation (readS (\<lambda>a. JObj (automation_status s a)))
      | Decision_Evaluate_Latest \<Rightarrow> on_automation (bindS (evaluate_latest (decision_env_of e) decision_sql_repository (an_notify e)
            (the_int args ''limit'')) (\<lambda>m. retS (JObj (automation_summary_as_dict m))))
      | _ \<Rightarrow> rest m args)"

definition app_api ::
  "('h, 'r) app_env \<Rightarrow> (service_method \<Rightarrow> (string \<times> json) list \<Rightarrow> (('h, 'r) app_world, json) prog) \<Rightarrow>
     (('h, 'r) app_world, unit) prog \<Rightarrow> (('h, 'r) app_world, json) prog \<Rightarrow> ('h, 'r) app_world api" where
  "app_api e rest connect ping =
     \<lparr>ai_settings = app_settings e, ai_new_fernet = pa_new_fernet (an_parts e), ai_call = app_call e rest,
      ai_connect = connect, ai_ping = ping\<rparr>"

subsection \<open>What every request keeps\<close>

definition steps_in :: "('w \<Rightarrow> 'w \<Rightarrow> bool) \<Rightarrow> ('w, 'a) prog \<Rightarrow> bool" where
  "steps_in R m \<longleftrightarrow> (\<forall>w. R w (snd (m w)))"

text \<open>A relation between the states before and after that goes through sequences of calls.\<close>

locale kept_relation =
  fixes R :: "'w \<Rightarrow> 'w \<Rightarrow> bool"
  assumes kept_refl: "R w w" and kept_trans: "R w1 w2 \<Longrightarrow> R w2 w3 \<Longrightarrow> R w1 w3"
begin

lemma steps_basic: "steps_in R (retS x)" "steps_in R (raiseS e)" "steps_in R (liftS r)" "steps_in R (readS f)"
  by (simp_all add: steps_in_def kept_refl retS_def raiseS_def liftS_def readS_def)

lemma steps_bind:
  assumes "steps_in R m" "\<And>x. steps_in R (f x)"
  shows "steps_in R (bindS m f)"
  unfolding steps_in_def
proof
  fix w
  obtain r w1 where m: "m w = (r, w1)" by (metis surj_pair)
  with assms(1) have "R w w1" unfolding steps_in_def by (metis snd_conv)
  moreover have "R w1 (snd (f x w1))" for x using assms(2) unfolding steps_in_def by blast
  ultimately show "R w (snd (bindS m f w))"
    using kept_trans m by (cases r) (auto simp: bindS_def)
qed

lemma steps_try:
  assumes "steps_in R m" "\<And>e k. h e = Some k \<Longrightarrow> steps_in R k"
  shows "steps_in R (tryS m h)"
  unfolding steps_in_def
proof
  fix w
  obtain r w1 where m: "m w = (r, w1)" by (metis surj_pair)
  with assms(1) have r: "R w w1" unfolding steps_in_def by (metis snd_conv)
  show "R w (snd (tryS m h w))"
  proof (cases r)
    case (Inl e)
    show ?thesis
    proof (cases "h e")
      case (Some k)
      then have "R w1 (snd (k w1))" using assms(2) unfolding steps_in_def by blast
      with r kept_trans m Inl Some show ?thesis by (auto simp: tryS_def)
    qed (use m Inl r in \<open>simp add: tryS_def\<close>)
  qed (use m r in \<open>simp add: tryS_def\<close>)
qed

lemma steps_replying: "steps_in R m \<Longrightarrow> steps_in R (replying clauses m)"
  unfolding replying_def by (intro steps_try steps_bind steps_basic) (auto simp: steps_basic)

lemma steps_serve:
  assumes call: "\<And>m args. steps_in R (ai_call a m args)" and "steps_in R (ai_connect a)" "steps_in R (ai_ping a)"
  shows "steps_in R (serve table a rq)"
proof -
  have start: "steps_in R (start_if_ready a clauses)" for clauses
    unfolding start_if_ready_def by (intro steps_bind call) (simp add: steps_basic steps_replying call)
  have ready: "steps_in R (check_database (ai_connect a))" "steps_in R (check_redis (ai_ping a))"
    unfolding check_database_def check_redis_def
    by (intro steps_try steps_bind steps_basic assms; auto simp: steps_basic split: if_splits)+
  have h: "steps_in R (handle a r args)" for r args
    by (cases "ro_handler r") (auto simp: handle_def intro!: steps_bind steps_basic steps_replying call start ready)
  show ?thesis
  proof (cases "find_route table (rq_verb rq) (rq_path rq)")
    case (Some found)
    obtain r args where found: "found = (r, args)" by (cases found)
    show ?thesis unfolding serve_def Some found
      by (auto intro!: steps_bind steps_basic h split: option.splits)
  qed (simp add: serve_def steps_basic)
qed

end

interpretation unchanged: kept_relation "(=)"
  by unfold_locales auto

text \<open>The application at rest: no stream, no candles waiting to be stored.\<close>

definition at_rest :: "('h, 'r) app_world \<Rightarrow> bool" where
  "at_rest w \<longleftrightarrow> sm_stream (wo_stream w) = None \<and> sm_pending (wo_stream w) = []"

definition untouched :: "('h, 'r) app_world \<Rightarrow> ('h, 'r) app_world \<Rightarrow> bool" where
  "untouched w w' \<longleftrightarrow> (at_rest w \<longrightarrow>
     at_rest w' \<and> wo_db w' = wo_db w \<and> wo_calls w' = wo_calls w \<and> wo_states w' = wo_states w \<and> wo_notes w' = wo_notes w)"

interpretation calm: kept_relation untouched
  by unfold_locales (auto simp: untouched_def)

lemma on_db_untouched: "steps_in (=) m \<Longrightarrow> steps_in untouched (on_db m)"
  by (auto simp: steps_in_def untouched_def on_db_def zoom_def at_rest_def split: prod.splits) (metis snd_conv)+

lemma on_auth_untouched: "steps_in (=) m \<Longrightarrow> steps_in untouched (on_auth m)"
  by (auto simp: steps_in_def untouched_def on_auth_def zoom_def at_rest_def split: prod.splits) (metis snd_conv auth_world.select_convs)+

lemma on_automation_untouched: "steps_in (=) m \<Longrightarrow> steps_in untouched (on_automation m)"
  by (auto simp: steps_in_def untouched_def on_automation_def zoom_def at_rest_def split: prod.splits) (metis snd_conv automation.select_convs)+

lemma on_loop_untouched: "steps_in (\<lambda>x y. alw_scanner y = alw_scanner x) m \<Longrightarrow> steps_in untouched (on_loop m)"
  by (auto simp: steps_in_def untouched_def on_loop_def zoom_def at_rest_def split: prod.splits) (metis snd_conv auto_loop_world.select_convs(2))

definition stream_calm :: "('h, database) stream_world \<Rightarrow> ('h, database) stream_world \<Rightarrow> bool" where
  "stream_calm x y \<longleftrightarrow> (sm_stream (sw_state x) = None \<and> sm_pending (sw_state x) = [] \<longrightarrow>
     sm_stream (sw_state y) = None \<and> sm_pending (sw_state y) = [] \<and> sw_repo y = sw_repo x \<and> sw_calls y = sw_calls x)"

interpretation stream_rest: kept_relation stream_calm
  by unfold_locales (auto simp: stream_calm_def)

interpretation loop_rest: kept_relation "\<lambda>x y. alw_scanner y = alw_scanner x"
  by unfold_locales auto

lemma on_stream_untouched: "steps_in stream_calm m \<Longrightarrow> steps_in untouched (on_stream m)"
  unfolding steps_in_def untouched_def on_stream_def zoom_def at_rest_def stream_calm_def
  by (auto split: prod.splits) (metis snd_conv stream_world.select_convs)+

subsection \<open>With every feature off\<close>

definition switched_off :: "settings \<Rightarrow> bool" where
  "switched_off s \<longleftrightarrow> \<not> kite_auth_enabled s \<and> \<not> instrument_sync_enabled s \<and> \<not> market_data_enabled s \<and> \<not> scanner_enabled s
     \<and> \<not> paper_enabled s \<and> \<not> universe_selection_enabled s \<and> \<not> openai_decision_enabled s"

lemma default_switched_off: "switched_off (default_settings\<lparr>operator_auth_token := t\<rparr>)"
  by (simp add: switched_off_def default_settings_def)

lemma steps_eqI: "(\<And>w. snd (m w) = w) \<Longrightarrow> steps_in (=) m"
  by (simp add: steps_in_def)

lemma dict_steps: "kept_relation R \<Longrightarrow> steps_in R m \<Longrightarrow> steps_in R (dict m)"
  unfolding dict_def by (intro kept_relation.steps_bind kept_relation.steps_basic)

lemma config_disabled:
  assumes "scanner_config_from_settings s = Inr c" "\<not> scanner_enabled s"
  shows "\<not> sc_enabled c"
  using assms by (auto simp: scanner_config_from_settings_def Let_def split: if_splits)

lemma run_once_disabled: "\<not> sc_enabled c \<Longrightarrow> steps_in (=) (run_once repo c now symb timeframe None)"
  unfolding run_once_def by (rule unchanged.steps_bind) (simp_all add: unchanged.steps_basic)

lemma scan_batch_disabled:
  assumes "\<not> scanner_enabled (app_settings e)"
  shows "steps_in (=) (scan_batch e options)"
proof -
  have "steps_in (=) (run_batch scanner_sql_repository (app_settings e) (app_text e) (Inr latest) c (an_symbol_now e)
      (an_now e) (an_later e) options)" if c: "scanner_config_from_settings (app_settings e) = Inr c" for c latest
  proof -
    have "\<exists>x. batch_symbols (app_settings e) (app_text e) (Inr latest) c options = Inl x"
      using config_disabled [OF c assms] by (auto simp: batch_symbols_def bindE_def split: sum.splits)
    then show ?thesis by (auto simp: run_batch_def steps_in_def)
  qed
  then show ?thesis
    by (cases "scanner_config_from_settings (app_settings e)")
      (auto simp: scan_batch_def latest_symbols_def steps_in_def bindS_def)
qed

lemma paper_disabled:
  assumes "paper_config_from_settings s = Inr c" "\<not> paper_enabled s"
  shows "steps_in (=) (run_replay repo c symb start stop limit)"
proof -
  have "\<not> pc_enabled c" using assms
    by (auto simp: paper_config_from_settings_def bindE_eq_Inr split: option.splits)
  then have "\<exists>x. ensure_replay_allowed c = Inl x" by (auto simp: ensure_replay_allowed_def)
  then show ?thesis by (auto simp: run_replay_def steps_in_def)
qed

lemma auth_disabled:
  assumes "\<not> kite_auth_enabled (ae_settings env)"
  shows "steps_in (=) (create_login_url env)" "steps_in (=) (handle_callback env a b c t u)" "steps_in (=) (auth_status env a)"
    "steps_in (=) (logout env a)"
proof -
  have "ensure_enabled_and_configured (ae_settings env) k
      = Inl (KiteAuthDisabledError ''Kite authentication is disabled.'')" for k
    using assms by (simp add: ensure_enabled_and_configured_def)
  then show "steps_in (=) (create_login_url env)" "steps_in (=) (handle_callback env a b c t u)" "steps_in (=) (logout env a)"
    by (simp_all add: steps_in_def create_login_url_def handle_callback_def logout_def bindS_def liftS_def)
  show "steps_in (=) (auth_status env a)"
    using assms by (simp add: auth_status_def unchanged.steps_basic)
qed

lemma selection_disabled: "\<not> universe_selection_enabled s \<Longrightarrow> steps_in (=) (select_universe repo read_text s opts i a b)"
  by (auto simp: steps_in_def select_universe_def selection_of_def select_plan_of_def Let_def bindS_def)

lemma decision_disabled:
  assumes "\<not> openai_decision_enabled (env_settings env)"
  shows "steps_in (=) (evaluate env repo i force)" "steps_in (=) (evaluate_latest env repo tell n)"
  using assms by (auto simp: steps_in_def evaluate_def evaluate_latest_def eligible_signal_def bindS_def)

lemma sync_disabled: "\<not> instrument_sync_enabled (app_settings e) \<Longrightarrow> steps_in (=) (sync_call e)"
  by (simp add: steps_in_def sync_call_def sync_instruments_def bindS_def)

lemma status_dict_calm: "steps_in stream_calm (status_dict read_text s now)"
  unfolding steps_in_def stream_calm_def using status_dict_frame by (metis (no_types, lifting) prod.collapse stream_state.select_convs(1,10) stream_state.surjective stream_state.update_convs(11))

lemma start_disabled: "\<not> market_data_enabled (pa_settings p) \<Longrightarrow> steps_in stream_calm (start_call p now)"
  by (simp add: steps_in_def start_call_def start_stream_def ensure_stream_enabled_def stream_calm_def)

lemma readiness_calm:
  assumes "pa_repo p = sql_market_repository"
  shows "steps_in stream_calm (readiness_call p now)"
proof -
  have "steps_in stream_calm (on_repo (validate (pa_repo p) (pa_read_text p) (pa_settings p)))"
    using sql_market.validate_frame unfolding assms
    by (auto simp: steps_in_def stream_calm_def on_repo_def split: prod.splits)
  moreover have "steps_in stream_calm (on_repo (readS f))" for f
    by (simp add: steps_in_def stream_calm_def on_repo_def readS_def)
  ultimately show ?thesis
    unfolding readiness_call_def by (intro stream_rest.steps_bind stream_rest.steps_basic status_dict_calm)
qed

lemma persist_batch_calm: "steps_in stream_calm (persist_batch repo i)"
  by (auto simp: steps_in_def stream_calm_def persist_batch_def bindS_def whenS_def)

lemma stop_calm: "steps_in stream_calm (stop_call p finished now)"
proof -
  have m: "steps_in stream_calm (mapS (persist_batch repo) xs)" for repo xs
  proof (induction xs)
    case (Cons x xs)
    then show ?case by (auto intro!: stream_rest.steps_bind stream_rest.steps_basic persist_batch_calm)
  qed (simp add: steps_in_def stream_calm_def)
  have s: "steps_in stream_calm (put_state f)" if "\<And>m. sm_stream m = None \<Longrightarrow> sm_pending m = [] \<Longrightarrow> sm_stream (f m) = None \<and> sm_pending (f m) = []"
    for f using that by (simp add: steps_in_def stream_calm_def put_state_def modifyS_def)
  let ?rest = "bindS (wait_for_pending (pa_repo p) finished) (\<lambda>_.
     bindS (put_state (\<lambda>m. m\<lparr>sm_stream := None, sm_connected := False, sm_last_activity_at := Some now\<rparr>)) (\<lambda>_.
     status_dict (pa_read_text p) (pa_settings p) now))"
  have rest: "steps_in stream_calm ?rest"
    unfolding wait_for_pending_def by (intro stream_rest.steps_bind m s status_dict_calm) simp_all
  show ?thesis
    unfolding steps_in_def
  proof
    fix x
    show "stream_calm x (snd (stop_call p finished now x))"
    proof (cases "sm_stream (sw_state x)")
      case None
      then have "stop_call p finished now x = ?rest x"
        by (simp add: stop_call_def stop_stream_service_def bindS_def)
      with rest show ?thesis unfolding steps_in_def by metis
    qed (simp add: stream_calm_def)
  qed
qed

lemma keeps_lifted: "steps_in (=) (readS f)" "steps_in (=) (liftS r)"
  by (simp_all add: steps_in_def)

lemma steps_chain:
  assumes "steps_in (=) m" "\<And>x. steps_in (=) (f x)"
  shows "steps_in (=) (bindS m f)"
  by (rule unchanged.steps_bind [OF assms])

lemma kite_call_calm:
  assumes "\<And>env. ae_settings env = app_settings e \<Longrightarrow> steps_in (=) (call env)"
  shows "steps_in untouched (kite_call e call)"
  unfolding kite_call_def
  by (intro calm.steps_bind calm.steps_basic on_auth_untouched assms) (simp add: auth_env_of_def)

lemma scanner_call_calm:
  assumes "\<And>c. scanner_config_from_settings (app_settings e) = Inr c \<Longrightarrow> steps_in (=) (call c)"
  shows "steps_in untouched (scanner_call e call)"
  unfolding scanner_call_def
  by (rule on_db_untouched) (use assms in \<open>cases "scanner_config_from_settings (app_settings e)"; auto simp: steps_in_def bindS_def\<close>)

lemma paper_call_calm:
  assumes "\<And>c. paper_config_from_settings (app_settings e) = Inr c \<Longrightarrow> steps_in (=) (call c)"
  shows "steps_in untouched (paper_call e call)"
  unfolding paper_call_def
  by (rule on_db_untouched) (use assms in \<open>cases "paper_config_from_settings (app_settings e)"; auto simp: steps_in_def bindS_def\<close>)

lemma dict_unchanged: "steps_in (=) m \<Longrightarrow> steps_in (=) (dict m)"
  by (rule dict_steps [OF unchanged.kept_relation_axioms])

lemma dict_stream: "steps_in stream_calm m \<Longrightarrow> steps_in stream_calm (dict m)"
  by (rule dict_steps [OF stream_rest.kept_relation_axioms])

lemma validate_unchanged: "steps_in (=) (validate sql_market_repository read_text s)"
  unfolding steps_in_def using sql_market.validate_frame by (metis prod.collapse)

lemma loop_status_calm: "steps_in (\<lambda>x y. alw_scanner y = alw_scanner x) (loop_status e)"
  by (simp add: steps_in_def loop_status_def latest_symbols_def on_scanner_def bindS_def)

lemma loop_calls_calm:
  assumes "\<not> scanner_enabled s"
  shows "steps_in (\<lambda>x y. alw_scanner y = alw_scanner x) (auto_loop_start s)"
    "steps_in (\<lambda>x y. alw_scanner y = alw_scanner x) auto_loop_stop"
    "steps_in (\<lambda>x y. alw_scanner y = alw_scanner x) (auto_loop_run_now s batch float_ms now later)"
  using assms by (simp_all add: steps_in_def auto_loop_start_def auto_loop_stop_def auto_loop_run_now_def
      ensure_auto_loop_enabled_def put_loop_def bindS_def)

lemma loop_dict:
  "steps_in (\<lambda>x y. alw_scanner y = alw_scanner x) m \<Longrightarrow> steps_in (\<lambda>x y. alw_scanner y = alw_scanner x) (dict m)"
  by (rule dict_steps [OF loop_rest.kept_relation_axioms])

lemmas calm_rules = unchanged.steps_basic unchanged.steps_bind dict_unchanged on_db_untouched on_auth_untouched
  on_automation_untouched on_loop_untouched on_stream_untouched kite_call_calm scanner_call_calm paper_call_calm

lemma app_call_calm:
  assumes off: "switched_off (app_settings e)" and repo: "pa_repo (an_parts e) = sql_market_repository"
    and rest: "\<And>m args. steps_in untouched (rest m args)"
  shows "steps_in untouched (app_call e rest m args)"
proof -
  let ?s = "app_settings e"
  have f: "\<not> kite_auth_enabled ?s" "\<not> instrument_sync_enabled ?s" "\<not> market_data_enabled ?s" "\<not> scanner_enabled ?s"
    "\<not> paper_enabled ?s" "\<not> universe_selection_enabled ?s" "\<not> openai_decision_enabled ?s"
    using off by (simp_all add: switched_off_def)
  have d: "\<not> openai_decision_enabled (env_settings (decision_env_of e))"
    using f(7) by (simp add: decision_env_of_def)
  have kite: "steps_in untouched (app_call e rest m args)" if "m \<in> {Kite_Login_Url, Kite_Callback, Kite_Status, Kite_Logout}"
    using that f(1) by (auto simp: app_call_def Let_def intro!: calm_rules auth_disabled)
  have stream: "steps_in untouched (app_call e rest m args)" if "m \<in> {Stream_Readiness, Stream_Status, Stream_Start, Stream_Stop}"
    using that f(3) repo by (auto simp: app_call_def Let_def status_call_def
        intro!: on_stream_untouched dict_stream readiness_calm status_dict_calm start_disabled stop_calm)
  have loop: "steps_in untouched (app_call e rest m args)" if "m \<in> {Loop_Start, Loop_Stop, Loop_Status, Loop_Run_Now}"
    using that f(4) by (auto simp: app_call_def Let_def
        intro!: on_loop_untouched loop_rest.steps_bind loop_dict loop_status_calm loop_calls_calm)
  have scanner: "steps_in untouched (app_call e rest m args)"
    if "m \<in> {Scanner_Status, Scanner_Run_Once, Scanner_Run_Batch, Scanner_Signals}"
    using that f(4) by (auto simp: app_call_def Let_def
        intro!: calm_rules run_once_disabled scan_batch_disabled dest: config_disabled)
  have paper: "steps_in untouched (app_call e rest m args)" if "m \<in> {Paper_Status, Paper_Replay, Paper_Report, Paper_Trades}"
    using that f(5) by (auto simp: app_call_def Let_def intro!: calm_rules paper_disabled)
  have others: "steps_in untouched (app_call e rest m args)"
    if "m \<in> {Instruments_Sync, Watchlist_Validate, Universe_Status, Universe_Validate, Universe_Select, Universe_Latest,
        Universe_Runs, Universe_Run, Decision_Status, Decision_Evaluate, Decision_Recommendations, Decision_Auto_Status,
        Decision_Evaluate_Latest}"
    using that f repo d by (auto simp: app_call_def Let_def
        intro!: calm_rules sync_disabled validate_unchanged selection_disabled decision_disabled)
  show ?thesis
    using kite stream loop scanner paper others rest by (cases m) (simp_all add: app_call_def Let_def)
qed

subsection \<open>Requests in sequence\<close>

fun serve_all :: "route list \<Rightarrow> 'w api \<Rightarrow> api_request list \<Rightarrow> 'w \<Rightarrow> 'w" where
  "serve_all table a [] w = w"
| "serve_all table a (rq # rqs) w = serve_all table a rqs (snd (serve table a rq w))"

lemma serve_all_untouched:
  assumes "switched_off (app_settings e)" "pa_repo (an_parts e) = sql_market_repository"
    and "\<And>m args. steps_in untouched (rest m args)" "steps_in untouched connect" "steps_in untouched ping"
  shows "untouched w (serve_all table (app_api e rest connect ping) rqs w)"
proof (induction rqs arbitrary: w)
  case (Cons rq rqs)
  have "steps_in untouched (serve table (app_api e rest connect ping) rq)"
    by (rule calm.steps_serve) (simp_all add: app_api_def app_call_calm assms)
  then have "untouched w (snd (serve table (app_api e rest connect ping) rq w))" by (simp add: steps_in_def)
  with Cons.IH show ?case by (simp add: calm.kept_trans)
qed (simp add: calm.kept_refl)

text \<open>C22: With the features off (as in the default settings) requests change nothing. From an application with no
  stream and nothing queued, no sequence of requests, with whatever tokens and arguments, changes a row of the
  database, opens a stream or calls the broker's stream client, stores a login state or sends a notification;
  what the market operations (the parameter rest) and the connection checks do is not followed, they must themselves leave these alone.\<close>

theorem features_off_change_nothing:
  assumes "switched_off (app_settings e)" "pa_repo (an_parts e) = sql_market_repository"
    and "\<And>m args. steps_in untouched (rest m args)" "steps_in untouched connect" "steps_in untouched ping"
    and "at_rest w" "w' = serve_all app_routes (app_api e rest connect ping) rqs w"
  shows "wo_db w' = wo_db w \<and> sm_stream (wo_stream w') = None \<and> wo_calls w' = wo_calls w
    \<and> wo_states w' = wo_states w \<and> wo_notes w' = wo_notes w"
  using serve_all_untouched [where table = app_routes, OF assms(1-5)] assms(6,7) by (auto simp: untouched_def at_rest_def)

definition off_env :: "(nat, string list) app_env" where
  "off_env = \<lparr>an_parts = demo_parts\<lparr>pa_settings := default_settings\<lparr>operator_auth_token := ''tok''\<rparr>\<rparr>,
     an_kite = ae_client login_env, an_states = ae_states login_env, an_decision = demo_env (\<lambda>i. Inr (fake_result None i)),
     an_notify = (\<lambda>n. Inl (OtherError ''NotifierError'')), an_fetch = (\<lambda>_ _. Inl (OtherError ''ClientError'')),
     an_float_ms = (\<lambda>i. i), an_run_id = ''run'', an_time = (\<lambda>_. 0), an_now = 5, an_later = 6,
     an_symbol_now = (\<lambda>_. 5), an_finished = []\<rparr>"

definition off_world :: "(nat, string list) app_world" where
  "off_world = \<lparr>wo_db = stream_database, wo_stream = sw_state stream_world, wo_calls = [], wo_loop = new_auto_loop,
     wo_states = [], wo_notes = [], wo_summary = None\<rparr>"

definition busy_requests :: "api_request list" where
  "busy_requests =
     [\<lparr>rq_verb = POST, rq_path = ''/api/v1/market-data/stream/start'', rq_token = Some ''tok'', rq_query = []\<rparr>,
      \<lparr>rq_verb = POST, rq_path = ''/api/v1/scanner/run-batch'', rq_token = Some ''tok'', rq_query = []\<rparr>,
      \<lparr>rq_verb = POST, rq_path = ''/api/v1/paper/run-replay'', rq_token = Some ''tok'', rq_query = []\<rparr>]"

theorem features_off_change_nothing_witness:
  "wo_db (serve_all app_routes (app_api off_env (\<lambda>_ _. retS JNull) (retS ()) (retS (JBool True))) busy_requests off_world)
     = stream_database"
proof -
  have quiet: "steps_in untouched (retS x)" for x by (rule calm.steps_basic)
  have "switched_off (app_settings off_env)" by (simp add: off_env_def default_switched_off)
  moreover have "pa_repo (an_parts off_env) = sql_market_repository" by (simp add: off_env_def demo_parts_def)
  moreover have "at_rest off_world" by code_simp
  ultimately show ?thesis
    using features_off_change_nothing [of off_env "\<lambda>_ _. retS JNull" "retS ()" "retS (JBool True)" off_world _ busy_requests, OF _ _ quiet quiet quiet _ refl]
    by (simp add: off_world_def)
qed

end
