(* ===== verification/OperatorCli.thy ===== *)
theory OperatorCli
  imports HttpRoutes
begin

section \<open>The operator's command line\<close>

text \<open>
  \<^verbatim>\<open>app/ops/cli.py\<close>: a client of the protected routes. The files, the environment, the HTTP call, the
  decoder of UTF-8 and the JSON parser are parameters; a body of bytes is a string of its bytes. The
  properties join the client to the route table of the server.
\<close>

subsection \<open>Commands\<close>

definition default_env_file :: string where "default_env_file = ''infra/gcp/env.prod''"

definition commands :: "(string \<times> verb \<times> string) list" where
  "commands =
     [(''status'', GET, ''/api/v1/ops/market-ops/status''),
      (''start'', POST, ''/api/v1/ops/market-ops/start''),
      (''stop'', POST, ''/api/v1/ops/market-ops/stop''),
      (''preopen'', POST, ''/api/v1/ops/market-ops/run-preopen-check''),
      (''start-stream'', POST, ''/api/v1/ops/market-ops/run-start-stream''),
      (''verify-stream'', POST, ''/api/v1/ops/market-ops/run-verify-stream''),
      (''universe'', POST, ''/api/v1/ops/market-ops/run-universe-selection''),
      (''scanner'', POST, ''/api/v1/ops/market-ops/run-scanner-batch''),
      (''stop-stream'', POST, ''/api/v1/ops/market-ops/run-stop-stream''),
      (''test-telegram'', POST, ''/api/v1/ops/market-ops/test-notification''),
      (''kite-status'', GET, ''/api/v1/broker/kite/session/status''),
      (''kite-login-url'', POST, ''/api/v1/broker/kite/login-url''),
      (''stream-status'', GET, ''/api/v1/market-data/stream/status''),
      (''paper-status'', GET, ''/api/v1/paper/status''),
      (''paper-report'', GET, ''/api/v1/paper/report''),
      (''paper-trades'', GET, ''/api/v1/paper/trades''),
      (''paper-replay'', POST, ''/api/v1/paper/run-replay''),
      (''decision-status'', GET, ''/api/v1/decision/status''),
      (''decision-evaluate'', POST, ''/api/v1/decision/evaluate''),
      (''decision-recommendations'', GET, ''/api/v1/decision/recommendations''),
      (''decision-auto-status'', GET, ''/api/v1/decision/auto-status''),
      (''decision-evaluate-latest'', POST, ''/api/v1/decision/evaluate-latest'')]"

text \<open>The namespace of the parser; an option that a command does not have is absent.\<close>

record cli_args =
  ag_base_url :: string
  ag_operator_token :: "string option"
  ag_env_file :: "string option"
  ag_command :: string
  ag_symbol :: "string option"
  ag_from_time :: "string option"
  ag_to_time :: "string option"
  ag_limit :: "int option"
  ag_signal_id :: "int option"
  ag_force :: bool

definition limit_commands :: "string list" where
  "limit_commands = [''decision-recommendations'', ''decision-evaluate-latest'']"

text \<open>The namespaces that \<^verbatim>\<open>build_parser\<close> can give: the options by command, the signal id required.\<close>

definition parsed_args :: "cli_args \<Rightarrow> bool" where
  "parsed_args g \<longleftrightarrow>
     ag_command g \<in> set (map fst commands)
     \<and> (ag_command g \<noteq> ''paper-replay'' \<longrightarrow> ag_symbol g = None \<and> ag_from_time g = None \<and> ag_to_time g = None)
     \<and> (ag_command g \<noteq> ''paper-replay'' \<and> ag_command g \<notin> set limit_commands \<longrightarrow> ag_limit g = None)
     \<and> (if ag_command g = ''decision-evaluate'' then ag_signal_id g \<noteq> None else ag_signal_id g = None \<and> \<not> ag_force g)"

subsection \<open>The token\<close>

definition quote_chars :: "char list" where
  "quote_chars = [CHR 0x27, CHR 0x22]"

definition unquoted :: "string \<Rightarrow> string" where
  "unquoted v =
     (if 2 \<le> length v \<and> hd v = last v \<and> hd v \<in> set quote_chars then butlast (tl v) else v)"

text \<open>The value a line assigns to \<^verbatim>\<open>OPERATOR_AUTH_TOKEN\<close>, if it is such a line.\<close>

definition env_line_token :: "string \<Rightarrow> string option" where
  "env_line_token raw_line =
     (let line = strip raw_line in
      if line = [] \<or> startswith line ''#'' \<or> CHR ''='' \<notin> set line then None
      else case split_once CHR ''='' line of
          [key, v] \<Rightarrow> if strip key = ''OPERATOR_AUTH_TOKEN'' then Some (unquoted (strip v)) else None
        | _ \<Rightarrow> None)"

fun first_token :: "string list \<Rightarrow> string" where
  "first_token [] = []"
| "first_token (l # ls) = (case env_line_token l of None \<Rightarrow> first_token ls | Some t \<Rightarrow> t)"

definition read_env_token :: "string \<Rightarrow> string" where
  "read_env_token text = first_token (splitlines text)"

text \<open>The process the command runs in; \<open>pe_open\<close> is \<^verbatim>\<open>urlopen\<close>.\<close>

record url_request =
  ur_url :: string
  ur_data :: "string option"
  ur_headers :: "(string \<times> string) list"
  ur_method :: verb

datatype (plugins only: code size) opened = Body string | Http_Error int string

record cli_process =
  pe_environ :: "string \<Rightarrow> string option"
  pe_cwd :: string
  pe_is_file :: "string \<Rightarrow> bool"
  pe_read_text :: "string \<Rightarrow> string res"
  pe_open :: "url_request \<Rightarrow> opened res"
  pe_decode :: "string \<Rightarrow> string res"
  pe_loads :: "string \<Rightarrow> json res"
  pe_num_repr :: "rat \<Rightarrow> string"

definition resolve_operator_token :: "cli_process \<Rightarrow> cli_args \<Rightarrow> string res" where
  "resolve_operator_token p g =
     (let default_path = pe_cwd p @ ''/'' @ default_env_file in
      case ag_operator_token g of
        Some (c # cs) \<Rightarrow> Inr (c # cs)
      | _ \<Rightarrow> (case pe_environ p ''OPERATOR_AUTH_TOKEN'' of
          Some (c # cs) \<Rightarrow> Inr (c # cs)
        | _ \<Rightarrow> (case ag_env_file g of
            Some path \<Rightarrow> bindE (pe_read_text p path) (\<lambda>text. Inr (read_env_token text))
          | None \<Rightarrow>
              if pe_is_file p default_path
              then bindE (pe_read_text p default_path) (\<lambda>text. Inr (read_env_token text))
              else Inr [])))"

subsection \<open>The request\<close>

text \<open>The values that are given: \<^verbatim>\<open>{key: value for key, value in values.items() if value is not None}\<close>.\<close>

definition given :: "(string \<times> json option) list \<Rightarrow> (string \<times> json) list" where
  "given options = List.map_filter (\<lambda>(key, v). map_option (Pair key) v) options"

definition query_for :: "cli_args \<Rightarrow> (string \<times> json) list" where
  "query_for g =
     given
        (if ag_command g = ''paper-replay''
         then [(''symbol'', map_option JStr (ag_symbol g)), (''from'', map_option JStr (ag_from_time g)),
               (''to'', map_option JStr (ag_to_time g)), (''limit'', map_option JInt (ag_limit g))]
         else if ag_command g = ''decision-evaluate''
         then [(''signal_id'', map_option JInt (ag_signal_id g)), (''force'', Some (JBool (ag_force g)))]
         else if ag_command g \<in> set limit_commands then [(''limit'', map_option JInt (ag_limit g))]
         else [])"

text \<open>\<^verbatim>\<open>parse.urlencode\<close> takes texts, integers and booleans as their \<^verbatim>\<open>str\<close>.\<close>

definition query_text :: "json \<Rightarrow> string" where
  "query_text v = (case v of JStr s \<Rightarrow> s | JInt i \<Rightarrow> str_of_int i | JBool True \<Rightarrow> ''True'' | JBool False \<Rightarrow> ''False'' | _ \<Rightarrow> [])"

definition strip_slashes :: "string \<Rightarrow> string" where
  "strip_slashes s = rev (dropWhile (\<lambda>c. c = CHR ''/'') (rev s))"

definition request_of :: "cli_args \<Rightarrow> string \<Rightarrow> verb \<Rightarrow> string \<Rightarrow> url_request" where
  "request_of g token action path =
     (let url = strip_slashes (ag_base_url g) @ path; query = query_for g
      in \<lparr>ur_url = (if query \<noteq> [] then url @ ''?'' @ urlencode (map (\<lambda>(k, v). (k, query_text v)) query) else url),
          ur_data = (if action = POST then Some [] else None),
          ur_headers = [(''X-Operator-Token'', token), (''Accept'', ''application/json'')],
          ur_method = action\<rparr>)"

subsection \<open>The answer\<close>

text \<open>\<^verbatim>\<open>json.dumps(payload, indent=2, sort_keys=True)\<close>; \<open>brk\<close> is the line break with its indentation.\<close>

fun json_pretty :: "(rat \<Rightarrow> string) \<Rightarrow> string \<Rightarrow> json \<Rightarrow> string" where
  "json_pretty num_repr brk (JList vs) =
     (if vs = [] then ''[]''
      else ''['' @ brk @ ''  '' @ join ('','' @ brk @ ''  '') (map (json_pretty num_repr (brk @ ''  '')) vs) @ brk @ '']'')"
| "json_pretty num_repr brk (JObj kvs) =
     (if kvs = [] then ''{}''
      else ''{'' @ brk @ ''  '' @ join ('','' @ brk @ ''  '') (map snd (sort_key fst
         (map (\<lambda>kv. (fst kv, json_quote (fst kv) @ '': '' @ json_pretty num_repr (brk @ ''  '') (snd kv))) kvs))) @ brk @ ''}'')"
| "json_pretty num_repr brk v = dumps_default num_repr v"

definition unicode_error :: exn where "unicode_error = OtherError ''UnicodeError''"
definition json_error :: exn where "json_error = OtherError ''JSONDecodeError''"

definition or_rejected :: "string \<Rightarrow> string" where
  "or_rejected s = (if s = [] then ''request rejected'' else s)"

definition safe_error_body :: "cli_process \<Rightarrow> string \<Rightarrow> string \<Rightarrow> string res" where
  "safe_error_body p body token =
     (case pe_decode p body of
        Inl e \<Rightarrow> if e = unicode_error then Inr ''request rejected'' else Inl e
      | Inr decoded \<Rightarrow>
          let safe = (if token \<noteq> [] then replace token ''[redacted]'' decoded else decoded) in
          (case pe_loads p safe of
             Inl e \<Rightarrow> if e = json_error then Inr (or_rejected (take 500 safe)) else Inl e
           | Inr payload \<Rightarrow>
               let shown = (case payload of
                   JObj kvs \<Rightarrow> (case map_of kvs ''detail'' of None \<Rightarrow> payload | Some d \<Rightarrow> d) | _ \<Rightarrow> payload)
               in Inr (take 500 (dumps_default (pe_num_repr p) shown))))"

text \<open>The exit code with what was printed.\<close>

record cli_exit =
  cx_code :: int
  cx_stdout :: string
  cx_stderr :: string

definition failing :: "int \<Rightarrow> string \<Rightarrow> cli_exit" where
  "failing code message = \<lparr>cx_code = code, cx_stdout = [], cx_stderr = message @ newline\<rparr>"

definition transport_errors :: "exn list" where
  "transport_errors = [OtherError ''URLError'', OtherError ''TimeoutError'', OtherError ''OSError'']"

definition show_body :: "cli_process \<Rightarrow> string \<Rightarrow> cli_exit res" where
  "show_body p body =
     (case bindE (pe_decode p body) (pe_loads p) of
        Inl e \<Rightarrow> if e = unicode_error \<or> e = json_error then Inr (failing 1 ''TraderAI API returned invalid JSON.'') else Inl e
      | Inr payload \<Rightarrow>
          Inr \<lparr>cx_code = 0, cx_stdout = json_pretty (pe_num_repr p) newline payload @ newline, cx_stderr = []\<rparr>)"

definition run_cli :: "cli_process \<Rightarrow> cli_args \<Rightarrow> cli_exit res" where
  "run_cli p g =
     (case resolve_operator_token p g of
        Inl e \<Rightarrow>
          if e = OtherError ''OSError'' then Inr (failing 2 ''Unable to read operator token env file.'') else Inl e
      | Inr token \<Rightarrow>
          if token = [] then Inr (failing 2 ''OPERATOR_AUTH_TOKEN is not configured.'')
          else case map_of commands (ag_command g) of
              None \<Rightarrow> Inl (KeyError (ag_command g))
            | Some (action, path) \<Rightarrow>
                (case pe_open p (request_of g token action path) of
                   Inl e \<Rightarrow> if e \<in> set transport_errors then Inr (failing 1 ''TraderAI API request failed.'') else Inl e
                 | Inr (Http_Error code body) \<Rightarrow>
                     bindE (safe_error_body p body token) (\<lambda>detail.
                       Inr (failing 1 (''HTTP '' @ str_of_int code @ '': '' @ detail)))
                 | Inr (Body body) \<Rightarrow> show_body p body))"

subsection \<open>The commands and the routes\<close>

text \<open>The parameters of the route behind a command.\<close>

definition params_for :: "string \<Rightarrow> query_param list" where
  "params_for name =
     (if name = ''paper-replay''
      then [param ''symbol'' P_Text JNull, (param ''from'' P_Time JNull)\<lparr>qp_argument := ''start''\<rparr>,
            (param ''to'' P_Time JNull)\<lparr>qp_argument := ''end''\<rparr>, param ''limit'' (P_Int (Some 1) (Some 500)) (JInt 100)]
      else if name = ''decision-evaluate''
      then [(param ''signal_id'' (P_Int (Some 1) None) JNull)\<lparr>qp_required := True\<rparr>, param ''force'' P_Bool (JBool False)]
      else if name = ''decision-recommendations'' then [param ''limit'' (P_Int (Some 1) (Some 500)) (JInt 100)]
      else if name = ''decision-evaluate-latest'' then [param ''limit'' (P_Int (Some 1) (Some 50)) (JInt 5)]
      else if name = ''paper-report'' then [param ''limit'' (P_Int (Some 1) (Some 10000)) (JInt 1000)]
      else if name = ''paper-trades'' then [param ''limit'' (P_Int (Some 1) (Some 500)) (JInt 100)]
      else [])"

lemma commands_are_routes:
  "list_all (\<lambda>(name, action, path). case find_route app_routes action path of
      Some (r, args) \<Rightarrow> ro_protected r \<and> ro_params r = params_for name \<and> args = [] | None \<Rightarrow> False) commands"
  by code_simp

lemma command_route:
  assumes "map_of commands name = Some (action, path)"
  shows "\<exists>r. find_route app_routes action path = Some (r, []) \<and> ro_protected r \<and> ro_params r = params_for name"
proof -
  from assms have "(name, action, path) \<in> set commands" by (rule map_of_SomeD)
  from bspec [OF commands_are_routes [unfolded list_all_iff] this] show ?thesis
    by (auto simp del: split_paired_Ex split: option.splits)
qed

text \<open>The numbers within the bounds of the server.\<close>

definition in_bounds :: "cli_args \<Rightarrow> bool" where
  "in_bounds g \<longleftrightarrow>
     (case ag_limit g of None \<Rightarrow> True
      | Some n \<Rightarrow> 1 \<le> n \<and> n \<le> (if ag_command g = ''decision-evaluate-latest'' then 50 else 500))
     \<and> (case ag_signal_id g of None \<Rightarrow> True | Some i \<Rightarrow> 1 \<le> i)"

lemma bind_params_defaults: "list_all (\<lambda>p. \<not> qp_required p) ps \<Longrightarrow> \<exists>args. bind_params ps [] = Some args"
  by (induction ps) (auto simp: bind_param_def)

lemma bind_params_all: "list_all (\<lambda>p. bind_param query p \<noteq> None) ps \<Longrightarrow> \<exists>args. bind_params ps query = Some args"
  by (induction ps) (auto split: option.splits)

lemma map_of_given:
  "distinct (map fst options) \<Longrightarrow>
     map_of (given options) k
       = (case map_of options k of None \<Rightarrow> None | Some v \<Rightarrow> v)"
proof (induction options)
  case (Cons kv options)
  obtain key v where kv: "kv = (key, v)" by (cases kv)
  show ?case
  proof (cases v)
    case None
    have "map_of options k = None" if "k = key" using Cons.prems kv that by (simp add: map_of_eq_None_iff)
    with Cons kv None show ?thesis by (cases "k = key") (simp_all add: given_def)
  next
    case (Some x)
    with Cons kv show ?thesis by (simp add: given_def)
  qed
qed (simp add: given_def)

lemma optional_binds:
  assumes "map_of query (qp_name p) = map_option f v" "\<not> qp_required p" "\<And>x. v = Some x \<Longrightarrow> param_accepts (qp_kind p) (f x)"
  shows "bind_param query p \<noteq> None"
  using assms by (cases v) (simp_all add: bind_param_def)

lemma replay_binds:
  assumes "ag_command g = ''paper-replay''" "in_bounds g"
  shows "\<exists>args. bind_params (params_for (ag_command g)) (query_for g) = Some args"
proof -
  have q: "query_for g = given
      [(''symbol'', map_option JStr (ag_symbol g)), (''from'', map_option JStr (ag_from_time g)),
       (''to'', map_option JStr (ag_to_time g)), (''limit'', map_option JInt (ag_limit g))]"
    using assms(1) by (simp add: query_for_def)
  have m: "map_of (query_for g) ''symbol'' = map_option JStr (ag_symbol g)"
    "map_of (query_for g) ''from'' = map_option JStr (ag_from_time g)"
    "map_of (query_for g) ''to'' = map_option JStr (ag_to_time g)"
    "map_of (query_for g) ''limit'' = map_option JInt (ag_limit g)"
    unfolding q by (simp_all add: map_of_given)
  have l: "1 \<le> n \<and> n \<le> 500" if "ag_limit g = Some n" for n
    using assms that by (simp add: in_bounds_def)
  have "bind_param (query_for g) (param ''symbol'' P_Text JNull) \<noteq> None"
    by (rule optional_binds [where f = JStr and v = "ag_symbol g"]) (simp_all add: m param_def param_accepts_def)
  moreover have "bind_param (query_for g) ((param ''from'' P_Time JNull)\<lparr>qp_argument := ''start''\<rparr>) \<noteq> None"
    by (rule optional_binds [where f = JStr and v = "ag_from_time g"]) (simp_all add: m param_def param_accepts_def)
  moreover have "bind_param (query_for g) ((param ''to'' P_Time JNull)\<lparr>qp_argument := ''end''\<rparr>) \<noteq> None"
    by (rule optional_binds [where f = JStr and v = "ag_to_time g"]) (simp_all add: m param_def param_accepts_def)
  moreover have "bind_param (query_for g) (param ''limit'' (P_Int (Some 1) (Some 500)) (JInt 100)) \<noteq> None"
    by (rule optional_binds [where f = JInt and v = "ag_limit g"]) (simp_all add: m l param_def param_accepts_def)
  ultimately show ?thesis by (intro bind_params_all) (simp add: params_for_def assms(1))
qed

lemma evaluate_binds:
  assumes "ag_command g = ''decision-evaluate''" "ag_signal_id g = Some i" "1 \<le> i"
  shows "\<exists>args. bind_params (params_for (ag_command g)) (query_for g) = Some args"
proof -
  have q: "query_for g = [(''signal_id'', JInt i), (''force'', JBool (ag_force g))]"
    using assms(1,2) by (simp add: query_for_def given_def)
  show ?thesis
    by (intro bind_params_all) (simp add: params_for_def assms(1,3) q bind_param_def param_def param_accepts_def)
qed

lemma limit_binds:
  assumes "ag_command g \<in> set limit_commands" "in_bounds g"
  shows "\<exists>args. bind_params (params_for (ag_command g)) (query_for g) = Some args"
proof -
  have q: "query_for g = (case ag_limit g of None \<Rightarrow> [] | Some n \<Rightarrow> [(''limit'', JInt n)])"
    using assms(1) by (auto simp: query_for_def given_def limit_commands_def split: option.splits)
  have "params_for (ag_command g) = [param ''limit'' (P_Int (Some 1) (Some
      (if ag_command g = ''decision-evaluate-latest'' then 50 else 500)))
      (JInt (if ag_command g = ''decision-evaluate-latest'' then 5 else 100))]"
    using assms(1) by (auto simp: params_for_def limit_commands_def)
  then show ?thesis using assms(2)
    by (cases "ag_limit g") (simp_all add: q in_bounds_def bind_param_def param_def param_accepts_def)
qed

lemma query_binds:
  assumes "parsed_args g" "in_bounds g"
  shows "\<exists>args. bind_params (params_for (ag_command g)) (query_for g) = Some args"
proof -
  consider (replay) "ag_command g = ''paper-replay''" | (evaluate) "ag_command g = ''decision-evaluate''"
    | (limited) "ag_command g \<in> set limit_commands"
    | (plain) "ag_command g \<noteq> ''paper-replay''" "ag_command g \<noteq> ''decision-evaluate''" "ag_command g \<notin> set limit_commands"
    by blast
  then show ?thesis
  proof cases
    case evaluate
    with assms obtain i where "ag_signal_id g = Some i" "1 \<le> i"
      by (auto simp: parsed_args_def in_bounds_def)
    with evaluate evaluate_binds show ?thesis by blast
  next
    case plain
    have "query_for g = []" unfolding query_for_def if_not_P [OF plain(1)] if_not_P [OF plain(2)] if_not_P [OF plain(3)]
      by (simp add: given_def)
    moreover have "list_all (\<lambda>p. \<not> qp_required p) (params_for (ag_command g))"
      using plain(2) by (simp add: params_for_def param_def)
    ultimately show ?thesis using bind_params_defaults by metis
  qed (use assms replay_binds limit_binds in blast)+
qed

lemma services_built: "(\<And>m. build_service a m = Inr ()) \<Longrightarrow> \<exists>us. mapE (build_service a) ms = Inr us"
  by (induction ms) auto

text \<open>What the server receives when the command is run.\<close>

definition api_request_of :: "cli_args \<Rightarrow> string \<Rightarrow> verb \<Rightarrow> string \<Rightarrow> api_request" where
  "api_request_of g token action path =
     \<lparr>rq_verb = action, rq_path = path, rq_token = Some token, rq_query = query_for g\<rparr>"


definition replay_args :: cli_args where
  "replay_args = \<lparr>ag_base_url = ''http://127.0.0.1:8000/'', ag_operator_token = Some ''secret'', ag_env_file = None,
     ag_command = ''paper-replay'', ag_symbol = Some ''NSE:SBIN'', ag_from_time = None, ag_to_time = None,
     ag_limit = Some 500, ag_signal_id = None, ag_force = False\<rparr>"

lemma guarded_configs:
  "\<exists>c. scanner_config_from_settings (default_settings\<lparr>operator_auth_token := ''secret''\<rparr>) = Inr c"
  "\<exists>c. paper_config_from_settings (default_settings\<lparr>operator_auth_token := ''secret''\<rparr>) = Inr c"
proof -
  have "case scanner_config_from_settings (default_settings\<lparr>operator_auth_token := ''secret''\<rparr>) of Inl e \<Rightarrow> False | Inr c \<Rightarrow> True"
    by code_simp
  then show "\<exists>c. scanner_config_from_settings (default_settings\<lparr>operator_auth_token := ''secret''\<rparr>) = Inr c"
    by (auto split: sum.splits)
  have "case paper_config_from_settings (default_settings\<lparr>operator_auth_token := ''secret''\<rparr>) of Inl e \<Rightarrow> False | Inr c \<Rightarrow> True"
    by code_simp
  then show "\<exists>c. paper_config_from_settings (default_settings\<lparr>operator_auth_token := ''secret''\<rparr>) = Inr c"
    by (auto split: sum.splits)
qed


subsection \<open>The token file\<close>

lemma splitlines_line: "list_all (\<lambda>c. \<not> line_break c) a \<Longrightarrow> splitlines (a @ newline @ b) = a # splitlines b"
proof (induction a)
  case Nil
  then show ?case by (simp add: newline_def line_break_def)
next
  case (Cons c a)
  then have "(of_char c :: nat) \<noteq> 13" by (auto simp: line_break_def)
  with Cons show ?case by simp
qed

lemma strip_between:
  assumes "\<not> py_space c" "\<not> py_space d"
  shows "strip (c # s @ [d]) = c # s @ [d]"
  using assms rstrip_snoc [of d "c # s"] by (simp add: strip_def strip_Cons)

lemma quoted_line_token: "env_line_token (''OPERATOR_AUTH_TOKEN='' @ CHR 0x22 # t @ [CHR 0x22]) = Some t"
proof -
  let ?v = "CHR 0x22 # t @ [CHR 0x22]"
  have line: "strip (''OPERATOR_AUTH_TOKEN='' @ ?v) = ''OPERATOR_AUTH_TOKEN'' @ CHR ''='' # ?v"
    using strip_between [of "CHR ''O''" "CHR 0x22" "tl ''OPERATOR_AUTH_TOKEN='' @ CHR 0x22 # t"]
    by (simp add: py_space_def)
  have parts: "split_once CHR ''='' (''OPERATOR_AUTH_TOKEN'' @ CHR ''='' # ?v) = [''OPERATOR_AUTH_TOKEN'', ?v]"
    by (rule split_once_sep) simp
  have key: "strip ''OPERATOR_AUTH_TOKEN'' = ''OPERATOR_AUTH_TOKEN''" by code_simp
  have v: "strip ?v = ?v" by (rule strip_between) (simp_all add: py_space_def)
  have u: "unquoted ?v = t" by (simp add: unquoted_def quote_chars_def)
  show ?thesis unfolding env_line_token_def line parts Let_def by (simp add: key v u)
qed



subsection \<open>Error bodies\<close>

lemma has_sub_take: "has_sub t (take n s) \<Longrightarrow> has_sub t s"
  unfolding has_sub_iff by (metis append.assoc append_take_drop_id)

text \<open>An error body that is not JSON is shown without the operator's token, however often the server has put it
  there.\<close>

theorem plain_error_hides_token:
  assumes "plain_secret token" "pe_decode p body = Inr decoded"
    and "pe_loads p (replace token ''[redacted]'' decoded) = Inl json_error"
    and "safe_error_body p body token = Inr shown"
  shows "shown = ''request rejected'' \<or> \<not> has_sub token shown"
proof -
  have t: "token \<noteq> []" using assms(1) by (simp add: plain_secret_def)
  with assms(2-4) have s: "shown = or_rejected (take 500 (replace token ''[redacted]'' decoded))"
    by (simp add: safe_error_body_def)
  have "\<not> has_sub token (replace token ''[redacted]'' decoded)"
    using replace_removes [OF assms(1)] by (simp add: redaction_mark_def)
  with has_sub_take s show ?thesis unfolding or_rejected_def by metis
qed

definition broken_server :: cli_process where
  "broken_server = \<lparr>pe_environ = (\<lambda>_. None), pe_cwd = ''.'', pe_is_file = (\<lambda>_. False), pe_read_text = (\<lambda>_. Inl (OtherError ''OSError'')),
     pe_open = (\<lambda>_. Inr (Http_Error 500 ''bad secret'')), pe_decode = Inr, pe_loads = (\<lambda>_. Inl json_error),
     pe_num_repr = (\<lambda>_. [])\<rparr>"

lemma broken_server_shows: "safe_error_body broken_server ''bad secret'' ''secret'' = Inr ''bad [redacted]''"
  by code_simp

theorem plain_error_hides_token_witness: "\<not> has_sub ''secret'' ''bad [redacted]''"
proof -
  have "plain_secret ''secret''" by code_simp
  from plain_error_hides_token [OF this _ _ broken_server_shows, of "''bad secret''"] show ?thesis
    by (simp add: broken_server_def json_error_def)
qed

text \<open>In a JSON body the token is looked for before its escapes are read: an escaped token is decoded and shown.\<close>

lemma escaped_token_is_shown:
  assumes "pe_decode p body = Inr text" "\<not> has_sub token text" "token \<noteq> []"
    and "pe_loads p text = Inr (JObj [(''detail'', JStr token)])"
  shows "safe_error_body p body token = Inr (take 500 (json_quote token))"
  using assms by (simp add: safe_error_body_def replace_without dumps_default_def)

end
