(* ===== verification/ReplayCli.thy ===== *)
theory ReplayCli
  imports AppApi OperatorCli
begin

section \<open>The replay commands\<close>

text \<open>
  \<^verbatim>\<open>app/paper/replay.py\<close> and \<^verbatim>\<open>app/scanners/replay.py\<close>: each builds a service of its own, runs one
  replay and prints the result. \<open>from_iso\<close> stands for \<^verbatim>\<open>datetime.fromisoformat\<close>: the wall time a text denotes
  and its offset from UTC, if it has one. The settings that the environment gives, the parser of the
  fixture and the texts of floats are parameters.
\<close>

subsection \<open>Times\<close>

definition zulu_offset :: "string \<Rightarrow> string" where
  "zulu_offset t = concat (map (\<lambda>c. if c = CHR ''Z'' then ''+00:00'' else [c]) t)"

definition parse_dt :: "(string \<Rightarrow> (int \<times> int option) option) \<Rightarrow> string \<Rightarrow> instant res" where
  "parse_dt from_iso t =
     (case from_iso (zulu_offset t) of
        None \<Rightarrow> Inl (ValueError ''Invalid isoformat string'')
      | Some (wall, None) \<Rightarrow> Inr wall
      | Some (wall, Some offset) \<Rightarrow> Inr (wall - offset))"

definition time_arg :: "(string \<Rightarrow> (int \<times> int option) option) \<Rightarrow> string option \<Rightarrow> instant option res" where
  "time_arg from_iso t =
     (case t of None \<Rightarrow> Inr None
      | Some text \<Rightarrow> if text = [] then Inr None else bindE (parse_dt from_iso text) (\<lambda>i. Inr (Some i)))"

subsection \<open>The paper replay\<close>

record paper_cli_args =
  pl_symbol :: string
  pl_from :: "string option"
  pl_to :: "string option"
  pl_limit :: int
  pl_enable_paper :: bool

definition paper_cli_settings :: "settings \<Rightarrow> paper_cli_args \<Rightarrow> settings" where
  "paper_cli_settings s g =
     (if pl_enable_paper g then s\<lparr>paper_enabled := True, paper_mode := ''PAPER''\<rparr> else s)"

definition paper_error_report :: "settings \<Rightarrow> exn \<Rightarrow> (string \<times> json) list" where
  "paper_error_report s e =
     [(''paper_enabled'', JBool (paper_enabled s)), (''paper_mode'', JStr (paper_mode s)),
      (''simulated_only'', JBool True), (''error'', JStr (hd (exn_classes e))), (''detail'', JStr (exn_message e))]"

text \<open>The service is built before the \<^verbatim>\<open>try\<close>, and the summary is written after it.\<close>

definition paper_cli_run ::
  "(string \<Rightarrow> (int \<times> int option) option) \<Rightarrow> settings \<Rightarrow> 's paper_repository \<Rightarrow> paper_cli_args \<Rightarrow> ('s, (string \<times> json) list) prog" where
  "paper_cli_run from_iso given_settings repo g =
     (let s = paper_cli_settings given_settings g in
      bindS (liftS (paper_config_from_settings s)) (\<lambda>config.
      bindS (tryS
        (bindS (liftS (time_arg from_iso (pl_from g))) (\<lambda>start.
         bindS (liftS (time_arg from_iso (pl_to g))) (\<lambda>stop.
         bindS (run_replay repo config (Some (pl_symbol g)) start stop (pl_limit g)) (\<lambda>summary. retS (Inr summary)))))
        (\<lambda>e. if ''PaperError'' \<in> set (exn_classes e) then Some (retS (Inl (paper_error_report s e))) else None))
      (\<lambda>outcome. case outcome of
          Inl report \<Rightarrow> retS report
        | Inr summary \<Rightarrow> liftS (summary_as_dict summary))))"

subsection \<open>The scanner replay\<close>

record scanner_cli_args =
  sl_symbol :: string
  sl_cli_timeframe :: string
  sl_fixture :: string
  sl_strategy :: string
  sl_replay_run_id :: string

text \<open>\<^verbatim>\<open>Decimal(str(value))\<close>, \<^verbatim>\<open>int(value)\<close> and \<^verbatim>\<open>_parse_dt(str(value))\<close> of a value of the fixture.\<close>

definition fixture_decimal :: "(rat \<Rightarrow> string) \<Rightarrow> json \<Rightarrow> dec res" where
  "fixture_decimal num_repr v =
     (let parsed = (\<lambda>t. case py_decimal t of None \<Rightarrow> Inl InvalidOperation | Some d \<Rightarrow> Inr d) in
      case v of JStr t \<Rightarrow> parsed t | JInt i \<Rightarrow> Inr (of_int i) | JFloat q \<Rightarrow> parsed (num_repr q) | _ \<Rightarrow> Inl InvalidOperation)"

definition fixture_int :: "json \<Rightarrow> int res" where
  "fixture_int v =
     (case v of
        JInt i \<Rightarrow> Inr i
      | JBool b \<Rightarrow> Inr (if b then 1 else 0)
      | JFloat q \<Rightarrow> Inr (if 0 \<le> q then \<lfloor>q\<rfloor> else \<lceil>q\<rceil>)
      | JStr t \<Rightarrow> (case py_int t of None \<Rightarrow> Inl (ValueError ''invalid literal for int()'') | Some i \<Rightarrow> Inr i)
      | _ \<Rightarrow> Inl TypeError)"

definition fixture_time :: "(string \<Rightarrow> (int \<times> int option) option) \<Rightarrow> (rat \<Rightarrow> string) \<Rightarrow> json \<Rightarrow> instant res" where
  "fixture_time from_iso num_repr v =
     (case v of
        JStr t \<Rightarrow> parse_dt from_iso t
      | JInt i \<Rightarrow> parse_dt from_iso (str_of_int i)
      | JFloat q \<Rightarrow> parse_dt from_iso (num_repr q)
      | _ \<Rightarrow> Inl (ValueError ''Invalid isoformat string''))"

definition fixture_key :: "(string \<times> json) list \<Rightarrow> string \<Rightarrow> json res" where
  "fixture_key row k = (case map_of row k of None \<Rightarrow> Inl (KeyError k) | Some v \<Rightarrow> Inr v)"

definition fixture_bar ::
  "(string \<Rightarrow> (int \<times> int option) option) \<Rightarrow> (rat \<Rightarrow> string) \<Rightarrow> string \<Rightarrow> string \<Rightarrow> nat \<times> json \<Rightarrow> completed_bar res" where
  "fixture_bar from_iso num_repr symb timeframe entry =
     (case snd entry of
        JObj row \<Rightarrow>
          (let price = (\<lambda>k. bindE (fixture_key row k) (fixture_decimal num_repr)) in
           bindE (fixture_int (case map_of row ''instrument_id'' of None \<Rightarrow> JInt 1 | Some v \<Rightarrow> v)) (\<lambda>instrument.
           bindE (bindE (fixture_key row ''started_at'') (fixture_time from_iso num_repr)) (\<lambda>started.
           bindE (price ''open'') (\<lambda>op. bindE (price ''high'') (\<lambda>hi. bindE (price ''low'') (\<lambda>lo. bindE (price ''close'') (\<lambda>cl.
           bindE (fixture_int (case map_of row ''volume'' of None \<Rightarrow> JInt (int (fst entry)) | Some v \<Rightarrow> v)) (\<lambda>traded.
             Inr \<lparr>bar_instrument_id = instrument, bar_symbol = symb, bar_timeframe = timeframe, started_at = started,
                  open_price = op, high_price = hi, low_price = lo, close_price = cl, volume = traded\<rparr>))))))))
      | _ \<Rightarrow> Inl (OtherError ''AttributeError''))"

text \<open>The rows are numbered from 1. A fixture that is an object is a row per key, and has no rows that are objects.\<close>

definition load_fixture ::
  "(string \<Rightarrow> (int \<times> int option) option) \<Rightarrow> (rat \<Rightarrow> string) \<Rightarrow> json \<Rightarrow> string \<Rightarrow> string \<Rightarrow> completed_bar list res" where
  "load_fixture from_iso num_repr fixture symb timeframe =
     (case fixture of
        JList rows \<Rightarrow> mapE (fixture_bar from_iso num_repr symb timeframe) (List.enumerate 1 rows)
      | JObj kvs \<Rightarrow> if kvs = [] then Inr [] else Inl (OtherError ''AttributeError'')
      | JStr t \<Rightarrow> if t = [] then Inr [] else Inl (OtherError ''AttributeError'')
      | _ \<Rightarrow> Inl TypeError)"

definition scanner_cli_settings :: "settings \<Rightarrow> scanner_cli_args \<Rightarrow> settings" where
  "scanner_cli_settings s g =
     s\<lparr>scanner_enabled := True,
       scanner_strategies := (if sl_strategy g \<noteq> [] then sl_strategy g
         else ''opening_range_breakout_long,vwap_pullback_continuation_long'')\<rparr>"

text \<open>\<open>fixture\<close> is the parsed text of the file, or what reading it raises.\<close>

definition scanner_cli_run ::
  "(string \<Rightarrow> (int \<times> int option) option) \<Rightarrow> (rat \<Rightarrow> string) \<Rightarrow> settings \<Rightarrow> (string \<Rightarrow> json res) \<Rightarrow> scanner_cli_args
     \<Rightarrow> (string \<times> json) list res" where
  "scanner_cli_run from_iso num_repr given_settings fixture g =
     bindE (fixture (sl_fixture g)) (\<lambda>rows.
     bindE (load_fixture from_iso num_repr rows (sl_symbol g) (sl_cli_timeframe g)) (\<lambda>bars.
     bindE (scanner_config_from_settings (scanner_cli_settings given_settings g)) (\<lambda>config.
       case scanner_replay scanner_memory_repository config (sl_symbol g) (sl_cli_timeframe g) (sl_replay_run_id g)
              \<lparr>sm_bars_by_symbol = [(sl_symbol g, bars)], sm_signals = []\<rparr> of
         (Inl e, m) \<Rightarrow> Inl e
       | (Inr run, m) \<Rightarrow>
           Inr (run_once_fields run @ [(''signals'', jobjs (scanner_list_signals scanner_memory_repository 200 m))]))))"

text \<open>Both commands print the result with sorted keys and two spaces of indentation.\<close>

definition printed_result :: "(rat \<Rightarrow> string) \<Rightarrow> (string \<times> json) list \<Rightarrow> string" where
  "printed_result num_repr d = json_pretty num_repr newline (JObj d) @ newline"

subsection \<open>Properties\<close>

text \<open>A paper replay that the settings do not allow reports why, and writes nothing.\<close>

theorem refused_paper_replay_reports:
  assumes "paper_config_from_settings (paper_cli_settings s g) = Inr c" "ensure_replay_allowed c = Inl e"
    and "time_arg from_iso (pl_from g) = Inr start" "time_arg from_iso (pl_to g) = Inr stop"
  shows "paper_cli_run from_iso s repo g w = (Inr (paper_error_report (paper_cli_settings s g) e), w)"
proof -
  have "''PaperError'' \<in> set (exn_classes e)"
    using assms(2) by (auto simp: ensure_replay_allowed_def exn_classes_def paper_bases_def split: if_splits)
  with assms show ?thesis
    by (simp add: paper_cli_run_def run_replay_def bindS_def tryS_def Let_def)
qed

text \<open>The flag allows the replay whatever the environment says.\<close>

lemma enabled_replay_allowed:
  assumes "pl_enable_paper g" "paper_config_from_settings (paper_cli_settings s g) = Inr c"
  shows "ensure_replay_allowed c = Inr ()"
proof -
  have "mode_of_value (upper ''PAPER'') = Some PAPER" by code_simp
  with assms show ?thesis
    by (auto simp: paper_cli_settings_def paper_config_from_settings_def ensure_replay_allowed_def bindE_eq_Inr)
qed

text \<open>A mode that is not one of the four is raised by the constructor of the service, and not reported.\<close>

lemma unknown_mode_escapes:
  "paper_cli_run from_iso (default_settings\<lparr>paper_mode := ''FAST''\<rparr>) repo
     \<lparr>pl_symbol = ''NSE:SBIN'', pl_from = None, pl_to = None, pl_limit = 100, pl_enable_paper = False\<rparr> w
   = (Inl (PaperConfigError ''Unsupported PAPER_MODE configured.''), w)"
proof -
  have "mode_of_value (upper ''FAST'') = None" by code_simp
  then show ?thesis
    by (simp add: paper_cli_run_def paper_cli_settings_def paper_config_from_settings_def bindS_def Let_def)
qed

text \<open>A loaded fixture has a bar per row, all of them of the given symbol and timeframe.\<close>

theorem fixture_bars:
  assumes "load_fixture from_iso num_repr (JList rows) symb timeframe = Inr bars"
  shows "length bars = length rows" "list_all (\<lambda>b. bar_symbol b = symb \<and> bar_timeframe b = timeframe) bars"
proof -
  have m: "mapE (fixture_bar from_iso num_repr symb timeframe) (List.enumerate 1 rows) = Inr bars"
    using assms by (simp add: load_fixture_def)
  then show "length bars = length rows"
    by (auto simp: mapE_Inr_iff dest!: list_all2_lengthD)
  have "bar_symbol b = symb \<and> bar_timeframe b = timeframe" if "fixture_bar from_iso num_repr symb timeframe e = Inr b" for e b
    using that by (auto simp: fixture_bar_def Let_def bindE_eq_Inr split: json.splits)
  with mapE_all [OF m] show "list_all (\<lambda>b. bar_symbol b = symb \<and> bar_timeframe b = timeframe) bars"
    unfolding list_all_iff by blast
qed

end
