(* ===== verification/Spec2Isabelle.thy ===== *)
theory Spec2Isabelle
  imports SessionExamples CandleBuilder PaperExamples MarketExamples ScannerExamples AutomationExamples
    UniverseExamples BrokerExamples StreamTicks AutoLoop OpsExamples Migrations ReplayCli
begin

text \<open>
  A verification development of TraderAI, a decision support and paper trading backend for the NSE. The
  code is \<^verbatim>\<open>src/backend/app\<close>; the paths below are relative to it.

  \<^bold>\<open>The program.\<close> A watchlist of symbols is synchronised with the broker's instruments and a read-only
  stream of ticks is aggregated into one minute candles, which are stored. Scanners compute indicators
  over the stored candles and store candidate and rejected signals. A language model may judge a
  candidate (a shadow verdict, which gates nothing), and the paper replay turns candidates into
  simulated trades with stops, targets and daily caps. A daily universe selection ranks the symbols to scan. A
  scheduler drives these jobs at local times, recovers from a missing broker login, and sends
  notifications; a broker session with an encrypted access token is what the stream needs.

  \<^bold>\<open>Foundations.\<close> \<^verbatim>\<open>Prelude\<close> (exceptions, results, lists), \<^verbatim>\<open>PyState\<close> (programs over a state that may
  raise, and the invariants they keep), \<^verbatim>\<open>PyDecimal\<close> and \<^verbatim>\<open>PyFloat\<close> (28 digit decimals and binary
  doubles with their roundings), \<^verbatim>\<open>PyTime\<close> (instants as microseconds, dates, the time zone of India,
  ISO texts), \<^verbatim>\<open>PyStr\<close> (strings and JSON), \<^verbatim>\<open>AppConfig\<close> (the settings of \<^verbatim>\<open>core/config.py\<close> with their
  defaults), \<^verbatim>\<open>Database\<close> (the tables of \<^verbatim>\<open>models/schema.py\<close> that modelled code writes, with their keys
  and unique indexes).

  \<^bold>\<open>Market data.\<close> \<^verbatim>\<open>CandleBuilder\<close> models \<^verbatim>\<open>market_data/candle_builder.py\<close> and proves it to refine the
  summary of the accepted ticks of each minute. \<^verbatim>\<open>Watchlist\<close>, \<^verbatim>\<open>MarketData\<close>, \<^verbatim>\<open>WatchlistValidation\<close>
  model the strict watchlist parser, the SQL repository with the instrument synchronisation, and the
  diagnosis; the repository protocol is a locale, interpreted by the SQL repository. \<^verbatim>\<open>MarketExamples\<close>
  composes them. \<^verbatim>\<open>StreamService\<close> (\<^verbatim>\<open>websocket_service.py\<close>), \<^verbatim>\<open>StreamReadiness\<close> and their properties in
  \<^verbatim>\<open>StreamExamples\<close> and \<^verbatim>\<open>StreamTicks\<close>: what a start requires, that a ready report makes it succeed, and
  that batches of ticks handed to the callback leave exactly the candle builder's candles in the
  database.

  \<^bold>\<open>Analysis and scanners.\<close> \<^verbatim>\<open>Indicators\<close>, \<^verbatim>\<open>FeatureBuilder\<close>, \<^verbatim>\<open>SessionExamples\<close> (\<^verbatim>\<open>analysis/\<close>):
  bounds, separation of the session scopes. \<^verbatim>\<open>Strategies\<close> (vetoes and the two strategies),
  \<^verbatim>\<open>ScannerRepository\<close>, \<^verbatim>\<open>ScannerService\<close>, \<^verbatim>\<open>ScannerReplay\<close>, \<^verbatim>\<open>ScannerExamples\<close>: a candidate has passed
  every gate, the historic replay sees no future, a batch isolates failing symbols. \<^verbatim>\<open>AutoLoop\<close> models
  the background loop of \<^verbatim>\<open>scanners/auto_loop.py\<close> around the batch.

  \<^bold>\<open>Paper trading.\<close> \<^verbatim>\<open>PaperSchemas\<close>, \<^verbatim>\<open>PaperSimulator\<close>, \<^verbatim>\<open>PaperRepository\<close> and \<^verbatim>\<open>PaperSql\<close> (the memory
  and the SQL repository, one contract), \<^verbatim>\<open>PaperService\<close>, \<^verbatim>\<open>PaperExamples\<close>: exits at the first trigger, no
  look ahead, one outcome per signal, the daily cap.

  \<^bold>\<open>Decisions.\<close> \<^verbatim>\<open>DecisionSchemas\<close>, \<^verbatim>\<open>DecisionText\<close>, \<^verbatim>\<open>DecisionRepository\<close>, \<^verbatim>\<open>DecisionService\<close>,
  \<^verbatim>\<open>DecisionAutomation\<close> with \<^verbatim>\<open>DecisionExamples\<close> and \<^verbatim>\<open>AutomationExamples\<close>: screening of the model's
  output, caching and racing evaluations, failures as recorded attempts, sanitised payloads.

  \<^bold>\<open>Universe.\<close> \<^verbatim>\<open>UniverseScoring\<close>, \<^verbatim>\<open>UniverseSelection\<close>, \<^verbatim>\<open>UniverseExamples\<close>: pool, scores, the ranked
  selection and its storage.

  \<^bold>\<open>Broker session.\<close> \<^verbatim>\<open>BrokerSession\<close> models \<^verbatim>\<open>broker/\<close>: the session table, the cipher, the callback
  states and the login flow; its store is a locale interpreted by the SQL store. \<^verbatim>\<open>BrokerExamples\<close>: a login
  is handed out again until it is logged out or expires, one session is active, a callback state is
  used once.

  \<^bold>\<open>Market operations.\<close> \<^verbatim>\<open>Notifier\<close> (redaction, gates, message and request), \<^verbatim>\<open>MorningReadiness\<close>,
  \<^verbatim>\<open>MarketOps\<close> (the jobs of \<^verbatim>\<open>ops/market_ops.py\<close> over a record of services), \<^verbatim>\<open>OpsScheduler\<close> (the
  decisions and state changes of \<^verbatim>\<open>ops/market_ops_scheduler.py\<close>), \<^verbatim>\<open>OpsSteps\<close> (the loop, the operators
  and the clock as an executable step function with reachability, and its invariants), \<^verbatim>\<open>OpsRuns\<close> and
  \<^verbatim>\<open>OpsExamples\<close>: one job at a time, each scheduled key once a day, a bounded number of recovery
  attempts inside their window, every job reports, and the way from a missing login to the recovery.

  \<^bold>\<open>The HTTP interface.\<close> \<^verbatim>\<open>HttpInterface\<close>: replies, the bases of the exceptions (the modules
  \<^verbatim>\<open>exceptions.py\<close>), \<^verbatim>\<open>except\<close> clauses, the operator's token and the construction of the services
  (\<^verbatim>\<open>api/dependencies.py\<close>). \<^verbatim>\<open>HttpRoutes\<close>: a route table per module of \<^verbatim>\<open>api/routes\<close>, the matching of a
  request, the handlers, the health checks of \<^verbatim>\<open>db/health.py\<close> and the lifespan of \<^verbatim>\<open>main.py\<close>; the gate of the
  token is a locale over route tables, interpreted by the table of the application. \<^verbatim>\<open>ApiWiring\<close> puts the
  stream, its readiness report and the market operations on the services of \<^verbatim>\<open>dependencies.py\<close>: the start
  route answers whatever the broker does, and the morning's job opens the stream when the report allows
  it. \<^verbatim>\<open>AppApi\<close> puts every service on one state with the SQL repositories (\<open>app_call\<close>, with the market
  operations and the readiness report left to an interface): with the features off no sequence of
  requests changes anything. Relations that a request keeps are a locale there, interpreted three times.

  \<^bold>\<open>Commands.\<close> \<^verbatim>\<open>OperatorCli\<close> (\<^verbatim>\<open>ops/cli.py\<close>): every command reaches a handler of the route table with
  arguments it accepts, and the token of an environment file is read back. \<^verbatim>\<open>ReplayCli\<close>
  (\<^verbatim>\<open>paper/replay.py\<close>, \<^verbatim>\<open>scanners/replay.py\<close>).

  \<^bold>\<open>Schema.\<close> \<^verbatim>\<open>SchemaTables\<close>: the metadata of \<^verbatim>\<open>models/schema.py\<close> as declarations. \<^verbatim>\<open>Migrations\<close>: the
  revisions of \<^verbatim>\<open>src/backend/alembic/versions\<close> as operations on a schema, which reach the metadata (up to
  two named differences) from the empty schema and are undone by their downgrades.

  \<^bold>\<open>Conventions.\<close> A method that changes state is a program \<open>'s \<Rightarrow> exn + 'a \<times> 's\<close>; an exception keeps
  what was done before it. Protocols of the source are records of operations, their laws locales. Lines of
  the source between two suspensions of asyncio are one step where tasks interleave (\<^verbatim>\<open>OpsSteps\<close>);
  elsewhere a coroutine runs alone. Datetimes are instants in UTC, integers in microseconds; wall times of
  a zone are integers too. Settings that Python holds as floats are rationals, and where float
  arithmetic decides (\<^verbatim>\<open>UniverseScoring\<close>) it is rounded to doubles.

  \<^bold>\<open>Bounds and fuel.\<close> Loops of the source are recursions over lists or bounded ranges and terminate by
  construction; the endless loops of the background tasks are modelled by one pass (\<^verbatim>\<open>AutoLoop\<close>) or by
  steps (\<^verbatim>\<open>OpsSteps\<close>). No definition uses fuel. The exponents that \<^verbatim>\<open>PyDecimal\<close> and \<^verbatim>\<open>PyFloat\<close> round at are
  computed, not bounded.

  \<^bold>\<open>Parameters.\<close> What the repository does not contain is an argument of the definitions: the clock, files,
  the broker SDK, Fernet, Redis, the HTTP sender, the model client, hashes, time zone data, and the
  texts of floats.

  \<^bold>\<open>The web framework.\<close> The routes are those of the source; how a request finds its route, in which order
  the dependencies and the declared parameters are resolved, and that an exception no handler catches
  leaves the application is the documented behaviour of the framework, in \<open>serve\<close>. Query values are given
  as converted; a text that cannot be converted is not of its kind.

  \<^bold>\<open>Not modelled.\<close> Logging, the creation of engines and clients (\<^verbatim>\<open>core/logging.py\<close>, \<^verbatim>\<open>db/session.py\<close>,
  \<^verbatim>\<open>cache/redis.py\<close>, \<^verbatim>\<open>alembic/env.py\<close>) and the calls of the broker SDK are pure I/O. The parsing of argument
  texts by argparse, column widths of the tables, and the wrappers that open a database session around
  a repository call (they forward to what is modelled) are left out.
\<close>

end
